(* ===== verification/Prelude.thy ===== *)
theory Prelude
  imports Main
    "HOL-Library.AList"
    "HOL-Library.Char_ord"
    "HOL-Library.List_Lexorder"
    "HOL-Library.Product_Lexorder"
    "HOL-Library.Multiset"
    "HOL-Library.Sublist"
begin

text \<open>
  Shared vocabulary of the development: the exceptions the modelled Python code can
  raise, the sum type that carries them, loops that stop at the first exception, the
  string operations of \<open>str\<close> the sources use, and generic lemmas on lists that the
  component theories rewrite with.

  Text is \<open>string\<close>, a list of \<open>char\<close>: one \<open>char\<close> is one code point in the range
  0 to 255 (Latin-1). Within that range the operations below agree with Python's.
\<close>

named_theorems py_simps \<open>evaluation of Python operators on values of a known shape\<close>
named_theorems codec_simps \<open>reading back the fields of an encoded record\<close>
named_theorems inv_intros \<open>operations keep the invariant of their component\<close>

section \<open>Exceptions\<close>

datatype py_error =
    ValueError string
  | TypeError string
  | AttributeError string
  | KeyError string
  | IndexError
  | ZeroDivisionError
  | OverflowError string
  | SqlError string
  | ExternalError string
  | AssertionError
  | UnboundLocalError string
  | OutOfModel string
    \<comment> \<open>a Python value the model's types cannot represent (a dict with a key that is
       not text); it is never a result the source treats as a success\<close>

type_synonym 'a result = "py_error + 'a"

definition ebind :: "'a result \<Rightarrow> ('a \<Rightarrow> 'b result) \<Rightarrow> 'b result" where
  "ebind m f = (case m of Inl e \<Rightarrow> Inl e | Inr x \<Rightarrow> f x)"

lemma ebind_simps [simp]:
  "ebind (Inl e) f = Inl e"
  "ebind (Inr x) f = f x"
  by (simp_all add: ebind_def)

lemma ebind_eq_Inr [simp]: "ebind m f = Inr y \<longleftrightarrow> (\<exists>x. m = Inr x \<and> f x = Inr y)"
  by (cases m) simp_all

lemma ebind_cong [fundef_cong]:
  "m = m' \<Longrightarrow> (\<And>x. m' = Inr x \<Longrightarrow> f x = f' x) \<Longrightarrow> ebind m f = ebind m' f'"
  by (cases m') simp_all

lemma ebind_assoc: "ebind (ebind m f) g = ebind m (\<lambda>x. ebind (f x) g)"
  by (cases m) simp_all

text \<open>A list comprehension whose body may raise, and a loop whose body may raise.\<close>

fun emap :: "('a \<Rightarrow> 'b result) \<Rightarrow> 'a list \<Rightarrow> 'b list result" where
  "emap f [] = Inr []"
| "emap f (x # xs) = ebind (f x) (\<lambda>y. ebind (emap f xs) (\<lambda>ys. Inr (y # ys)))"

fun efold :: "('s \<Rightarrow> 'a \<Rightarrow> 's result) \<Rightarrow> 's \<Rightarrow> 'a list \<Rightarrow> 's result" where
  "efold f s [] = Inr s"
| "efold f s (x # xs) = ebind (f s x) (\<lambda>s'. efold f s' xs)"

lemma emap_cong [fundef_cong]:
  "xs = ys \<Longrightarrow> (\<And>x. x \<in> set ys \<Longrightarrow> f x = g x) \<Longrightarrow> emap f xs = emap g ys"
  by (induction xs arbitrary: ys) (auto intro!: ebind_cong)

lemma emap_Inr_iff: "emap f xs = Inr ys \<longleftrightarrow> list_all2 (\<lambda>x y. f x = Inr y) xs ys"
  by (induction xs arbitrary: ys) (auto simp: list_all2_Cons1)

lemma emap_length: "emap f xs = Inr ys \<Longrightarrow> length ys = length xs"
  by (auto simp: emap_Inr_iff dest: list_all2_lengthD)

lemma emap_total: "(\<And>x. x \<in> set xs \<Longrightarrow> f x = Inr (g x)) \<Longrightarrow> emap f xs = Inr (map g xs)"
  by (induction xs) auto

lemma emap_Inr_comp [simp]: "emap (\<lambda>x. Inr (g x)) xs = Inr (map g xs)"
  by (rule emap_total) simp

lemma emap_map: "emap f (map g xs) = emap (\<lambda>x. f (g x)) xs"
  by (induction xs) auto

lemma efold_append: "efold f s (xs @ ys) = ebind (efold f s xs) (\<lambda>s'. efold f s' ys)"
  by (induction xs arbitrary: s) (simp_all add: ebind_assoc)

lemma efold_invariant:
  assumes "\<And>s x s'. P s \<Longrightarrow> x \<in> set xs \<Longrightarrow> f s x = Inr s' \<Longrightarrow> P s'"
    and "P s" and "efold f s xs = Inr t"
  shows "P t"
  using assms
proof (induction xs arbitrary: s)
  case Nil
  then show ?case by simp
next
  case (Cons x xs)
  from Cons.prems(3) obtain s' where step: "f s x = Inr s'" and rest: "efold f s' xs = Inr t"
    by auto
  have "P s'" using Cons.prems(1)[OF Cons.prems(2) _ step] by simp
  moreover have "\<And>s y s'. P s \<Longrightarrow> y \<in> set xs \<Longrightarrow> f s y = Inr s' \<Longrightarrow> P s'"
    using Cons.prems(1) by (meson list.set_intros(2))
  ultimately show ?case by (rule Cons.IH[OF _ _ rest, rotated])
qed

section \<open>Text\<close>

definition startswith :: "string \<Rightarrow> string \<Rightarrow> bool" where
  "startswith s p \<longleftrightarrow> take (length p) s = p"

lemma startswith_prefix: "startswith s p \<longleftrightarrow> prefix p s"
  unfolding startswith_def by (metis append_eq_conv_conj prefix_def take_is_prefix)

fun contains_str :: "string \<Rightarrow> string \<Rightarrow> bool" where
  "contains_str p [] = (p = [])"
| "contains_str p (c # s) = (startswith (c # s) p \<or> contains_str p s)"

lemma contains_str_sublist: "contains_str p s \<longleftrightarrow> sublist p s"
  by (induction s) (auto simp: startswith_prefix sublist_Cons_right)

abbreviation code_point :: "char \<Rightarrow> nat" where
  "code_point c \<equiv> of_char c"

definition lower_char :: "char \<Rightarrow> char" where
  "lower_char c = (let n = code_point c in
     if 65 \<le> n \<and> n \<le> 90 \<or> 192 \<le> n \<and> n \<le> 222 \<and> n \<noteq> 215 then char_of (n + 32) else c)"

definition str_lower :: "string \<Rightarrow> string" where
  "str_lower s = map lower_char s"

definition is_space :: "char \<Rightarrow> bool" where
  "is_space c = (let n = code_point c in
     9 \<le> n \<and> n \<le> 13 \<or> 28 \<le> n \<and> n \<le> 32 \<or> n = 133 \<or> n = 160)"

definition str_strip :: "string \<Rightarrow> string" where
  "str_strip s = rev (dropWhile is_space (rev (dropWhile is_space s)))"

fun str_replace_char :: "char \<Rightarrow> string \<Rightarrow> string \<Rightarrow> string" where
  "str_replace_char c r [] = []"
| "str_replace_char c r (d # s) = (if d = c then r else [d]) @ str_replace_char c r s"

fun str_join :: "string \<Rightarrow> string list \<Rightarrow> string" where
  "str_join sep [] = []"
| "str_join sep [x] = x"
| "str_join sep (x # y # xs) = x @ sep @ str_join sep (y # xs)"

text \<open>\<open>s.split("/")\<close>.\<close>

fun split_slash :: "string \<Rightarrow> string list" where
  "split_slash [] = [[]]"
| "split_slash (c # s) = (if c = CHR ''/'' then [] # split_slash s
     else case split_slash s of [] \<Rightarrow> [[c]] | p # ps \<Rightarrow> (c # p) # ps)"

definition is_digit :: "char \<Rightarrow> bool" where
  "is_digit c \<longleftrightarrow> 48 \<le> code_point c \<and> code_point c \<le> 57"

definition digit_char :: "nat \<Rightarrow> char" where
  "digit_char d = char_of (48 + d)"

definition hex_char :: "nat \<Rightarrow> char" where
  "hex_char d = char_of (if d < 10 then 48 + d else 87 + d)"

text \<open>
  Decimal text. The numbers are \<open>int\<close>, also where they cannot be negative, because a
  binary representation evaluates in the kernel and a unary one does not.
\<close>

function dec_abs :: "int \<Rightarrow> string" where
  "dec_abs n = (if n < 10 then [digit_char (nat n)]
     else dec_abs (n div 10) @ [digit_char (nat (n mod 10))])"
  by pat_completeness auto
termination
  by (relation "measure nat") auto

declare dec_abs.simps [simp del]

definition dec_int :: "int \<Rightarrow> string" where
  "dec_int i = (if i < 0 then ''-'' @ dec_abs (- i) else dec_abs i)"

text \<open>\<open>f"{i:04d}"\<close>: at least four characters, zeros after the sign.\<close>

definition dec_int_04 :: "int \<Rightarrow> string" where
  "dec_int_04 i = (let d = dec_abs \<bar>i\<bar>; s = (if i < 0 then ''-'' else '''') in
     s @ replicate (4 - length s - length d) (CHR ''0'') @ d)"

fun dec_value :: "int \<Rightarrow> string \<Rightarrow> int" where
  "dec_value acc [] = acc"
| "dec_value acc (c # s) = dec_value (10 * acc + (of_char c - 48)) s"

lemma dec_value_append: "dec_value acc (s @ t) = dec_value (dec_value acc s) t"
  by (induction s arbitrary: acc) auto

lemma code_point_digit [simp]: "d < 10 \<Longrightarrow> code_point (digit_char d) = 48 + d"
  by (simp add: digit_char_def)

lemma of_char_digit [simp]: "d < 10 \<Longrightarrow> (of_char (digit_char d) :: int) = 48 + int d"
proof -
  assume "d < 10"
  have "(of_char (digit_char d) :: int) = int (code_point (digit_char d))"
    by (simp only: of_nat_of_char)
  also have "\<dots> = int (48 + d)" using \<open>d < 10\<close> by (simp only: code_point_digit)
  finally show ?thesis by simp
qed

lemma dec_value_dec_abs: "0 \<le> n \<Longrightarrow> dec_value 0 (dec_abs n) = n"
proof (induction n rule: dec_abs.induct)
  case (1 n)
  show ?case
  proof (cases "n < 10")
    case True
    with "1.prems" show ?thesis by (simp add: dec_abs.simps[of n])
  next
    case False
    with "1.IH" show ?thesis
      by (simp add: dec_abs.simps[of n] dec_value_append nat_less_iff)
  qed
qed

lemma dec_abs_inj: "0 \<le> m \<Longrightarrow> 0 \<le> n \<Longrightarrow> dec_abs m = dec_abs n \<Longrightarrow> m = n"
  by (metis dec_value_dec_abs)

lemma is_digit_digit_char: "d < 10 \<Longrightarrow> is_digit (digit_char d)"
  by (simp add: is_digit_def)

lemma dec_abs_digits: "0 \<le> n \<Longrightarrow> \<forall>c \<in> set (dec_abs n). is_digit c"
proof (induction n rule: dec_abs.induct)
  case (1 n)
  then show ?case
    by (cases "n < 10") (auto simp: dec_abs.simps[of n] nat_less_iff intro!: is_digit_digit_char)
qed

lemma dec_value_zeros: "dec_value 0 (replicate k (CHR ''0'') @ s) = dec_value 0 s"
  by (induction k) auto

lemma dec_int_04_inj:
  assumes "0 \<le> i" and "0 \<le> j" and "dec_int_04 i = dec_int_04 j"
  shows "i = j"
proof -
  have val: "dec_value 0 (dec_int_04 k) = k" if "0 \<le> k" for k
    using that by (simp add: dec_int_04_def Let_def dec_value_zeros dec_value_dec_abs)
  from assms show ?thesis by (metis val)
qed

section \<open>Lists\<close>

text \<open>
  \<open>list.sort(key=...)\<close> is stable, as \<^const>\<open>sort_key\<close> is. \<open>ORDER BY k DESC\<close> keeps the
  scan order of rows with equal keys: a stable descending sort.
\<close>

definition sort_key_desc :: "('a \<Rightarrow> 'k::linorder) \<Rightarrow> 'a list \<Rightarrow> 'a list" where
  "sort_key_desc k xs = rev (sort_key k (rev xs))"

lemma set_sort_key_desc [simp]: "set (sort_key_desc k xs) = set xs"
  by (simp add: sort_key_desc_def)

lemma length_sort_key_desc [simp]: "length (sort_key_desc k xs) = length xs"
  by (simp add: sort_key_desc_def)

lemma mset_sort_key_desc [simp]: "mset (sort_key_desc k xs) = mset xs"
  by (simp add: sort_key_desc_def)

text \<open>\<open>d[k] = v\<close> on an association list.\<close>

lemma set_update_subset: "x \<in> set (AList.update k v t) \<Longrightarrow> x = (k, v) \<or> x \<in> set t"
  by (induction t) (auto split: if_splits)

lemma keyed_update:
  "\<forall>kv \<in> set t. fst kv = f (snd kv) \<Longrightarrow> \<forall>kv \<in> set (AList.update (f v) v t). fst kv = f (snd kv)"
  by (induction t) (simp_all split: if_splits)

text \<open>\<open>sorted(set)\<close> over the elements of a list.\<close>

definition sorted_set :: "'a::linorder list \<Rightarrow> 'a list" where
  "sorted_set xs = sort (remdups xs)"

lemma sorted_set_props [simp]:
  "set (sorted_set xs) = set xs" "sorted (sorted_set xs)" "distinct (sorted_set xs)"
  by (simp_all add: sorted_set_def)

lemma sorted_set_Nil_iff [simp]: "sorted_set xs = [] \<longleftrightarrow> xs = []"
  by (metis set_empty sorted_set_props(1))

lemma sorted_set_cong: "set xs = set ys \<Longrightarrow> sorted_set xs = sorted_set ys"
  by (metis sorted_distinct_set_unique sorted_set_props)

text \<open>\<open>max(..., default=0)\<close>.\<close>

definition max_default0 :: "int list \<Rightarrow> int" where
  "max_default0 xs = (case xs of [] \<Rightarrow> 0 | x # r \<Rightarrow> fold max r x)"

lemma fold_max_start: "x \<le> fold max xs (x::int)"
proof (induction xs arbitrary: x)
  case (Cons y ys)
  have "max y x \<le> fold max ys (max y x)" by (rule Cons.IH)
  then show ?case by simp
qed simp

lemma fold_max_ge: "y \<in> set xs \<Longrightarrow> y \<le> fold max xs (x::int)"
proof (induction xs arbitrary: x)
  case (Cons z zs)
  have "max z x \<le> fold max zs (max z x)" by (rule fold_max_start)
  with Cons show ?case by auto
qed simp

lemma max_default0_ge: "x \<in> set xs \<Longrightarrow> x \<le> max_default0 xs"
  by (cases xs) (auto simp: max_default0_def fold_max_ge fold_max_start)

lemma fold_max_in: "fold max xs (x::int) \<in> insert x (set xs)"
proof (induction xs arbitrary: x)
  case Nil
  then show ?case by simp
next
  case (Cons y ys)
  have "fold max ys (max y x) \<in> insert (max y x) (set ys)" by (rule Cons.IH)
  moreover have "max y x = y \<or> max y x = x" by linarith
  ultimately show ?case by auto
qed

lemma max_default0_in: "xs \<noteq> [] \<Longrightarrow> max_default0 xs \<in> set xs"
  using fold_max_in by (cases xs) (auto simp: max_default0_def)

end
