(* ===== verification/PyFloat.thy ===== *)
theory PyFloat
  imports Prelude Complex_Main
begin

text \<open>
  Python's \<open>float\<close>: IEEE 754 binary64. A finite float is its rational value; arithmetic
  computes the exact rational result and rounds it to the nearest float, ties to even.
  The sign of zero is not represented. \<open>round(x, n)\<close> and \<open>repr\<close> are CPython's:
  correctly rounded decimal, and the shortest decimal text that reads back as the float.
\<close>

section \<open>Rounding to binary64\<close>

datatype pyfloat = Fin rat | PosInf | NegInf | NaN

definition pow_rat :: "rat \<Rightarrow> int \<Rightarrow> rat" where
  "pow_rat b e = (if 0 \<le> e then b ^ nat e else 1 / b ^ nat (- e))"

text \<open>Round half to even, to an integer.\<close>

definition round_half_even :: "rat \<Rightarrow> int" where
  "round_half_even q = (let n = \<lfloor>q\<rfloor>; r = q - of_int n in
     if r < 1/2 then n else if 1/2 < r then n + 1 else if even n then n else n + 1)"

lemma round_half_even_error: "\<bar>of_int (round_half_even q) - q\<bar> \<le> 1/2"
proof -
  have "of_int \<lfloor>q\<rfloor> \<le> q" "q < of_int \<lfloor>q\<rfloor> + 1" by linarith+
  then show ?thesis unfolding round_half_even_def Let_def by (auto simp: abs_le_iff)
qed

lemma round_half_even_of_int [simp]: "round_half_even (of_int n) = n"
  by (simp add: round_half_even_def)

lemma round_half_even_near:
  assumes "\<bar>q - of_int n\<bar> < 1/2"
  shows "round_half_even q = n"
proof -
  have "\<bar>of_int (round_half_even q) - (of_int n :: rat)\<bar> < 1"
    using round_half_even_error[of q] assms by linarith
  then have "\<bar>of_int (round_half_even q - n) :: rat\<bar> < of_int 1" by simp
  then have "\<bar>round_half_even q - n\<bar> < 1" unfolding of_int_abs[symmetric] of_int_less_iff .
  then show ?thesis by simp
qed

function bit_count :: "int \<Rightarrow> nat" where
  "bit_count n = (if n \<le> 0 then 0 else Suc (bit_count (n div 2)))"
  by pat_completeness auto
termination
  by (relation "measure nat") auto

declare bit_count.simps [simp del]

lemma bit_count_upper: "n < 2 ^ bit_count n"
proof (induction n rule: bit_count.induct)
  case (1 n)
  show ?case
  proof (cases "n \<le> 0")
    case True
    then show ?thesis by (simp add: bit_count.simps)
  next
    case False
    with "1.IH" have "n div 2 < 2 ^ bit_count (n div 2)" by simp
    then have "n < 2 * 2 ^ bit_count (n div 2)" by linarith
    with False show ?thesis by (simp add: bit_count.simps[of n])
  qed
qed

lemma bit_count_lower: "0 < n \<Longrightarrow> 2 ^ (bit_count n - 1) \<le> n"
proof (induction n rule: bit_count.induct)
  case (1 n)
  show ?case
  proof (cases "n div 2 \<le> 0")
    case True
    then have "bit_count (n div 2) = 0" by (subst bit_count.simps) simp
    with "1.prems" show ?thesis by (simp add: bit_count.simps[of n])
  next
    case False
    with "1.prems" "1.IH" have le: "2 ^ (bit_count (n div 2) - 1) \<le> n div 2" by simp
    have pos: "bit_count (n div 2) \<noteq> 0" using False by (subst bit_count.simps) simp
    have "(2::int) ^ bit_count (n div 2) = 2 * 2 ^ (bit_count (n div 2) - 1)"
      using pos by (cases "bit_count (n div 2)") auto
    with le have "2 ^ bit_count (n div 2) \<le> 2 * (n div 2)" by linarith
    also have "\<dots> \<le> n" by simp
    finally show ?thesis using "1.prems" by (simp add: bit_count.simps[of n])
  qed
qed

text \<open>\<open>floor_log2 q\<close> for \<open>q > 0\<close>: the exponent of the leading bit.\<close>

definition floor_log2 :: "rat \<Rightarrow> int" where
  "floor_log2 q = (case quotient_of q of (a, b) \<Rightarrow>
     let k = int (bit_count a) - int (bit_count b)
     in if pow_rat 2 k \<le> q then k else k - 1)"

definition ulp_exp :: "rat \<Rightarrow> int" where
  "ulp_exp q = max (-1074) (floor_log2 \<bar>q\<bar> - 52)"

definition round53 :: "rat \<Rightarrow> rat" where
  "round53 q = (if q = 0 then 0 else
     let u = pow_rat 2 (ulp_exp q) in of_int (round_half_even (q / u)) * u)"

text \<open>A rounded magnitude of \<open>2 ^ 1024\<close> or more overflows to an infinity.\<close>

definition fl :: "rat \<Rightarrow> pyfloat" where
  "fl q = (let r = round53 q in
     if r = 0 \<or> floor_log2 \<bar>r\<bar> < 1024 then Fin r else if 0 < r then PosInf else NegInf)"

lemma pow_rat_pos: "0 < b \<Longrightarrow> 0 < pow_rat b e"
  by (simp add: pow_rat_def)

lemma pow_rat_2_mono: "d \<le> e \<Longrightarrow> pow_rat 2 d \<le> pow_rat 2 e"
proof -
  assume "d \<le> e"
  consider "0 \<le> d" | "d < 0" "0 \<le> e" | "e < 0" by linarith
  then show ?thesis
  proof cases
    case 1
    with \<open>d \<le> e\<close> show ?thesis by (simp add: pow_rat_def power_increasing nat_mono)
  next
    case 2
    have "1 / (2::rat) ^ nat (- d) \<le> 1" by simp
    also have "(1::rat) \<le> 2 ^ nat e" by simp
    finally show ?thesis using 2 by (simp add: pow_rat_def)
  next
    case 3
    then have "nat (- e) \<le> nat (- d)" using \<open>d \<le> e\<close> by simp
    then have "(2::rat) ^ nat (- e) \<le> 2 ^ nat (- d)" by (rule power_increasing) simp
    with 3 \<open>d \<le> e\<close> show ?thesis by (simp add: pow_rat_def frac_le)
  qed
qed

lemma round53_error:
  assumes "ulp_exp q \<le> e"
  shows "\<bar>round53 q - q\<bar> \<le> pow_rat 2 e / 2"
proof (cases "q = 0")
  case True
  then show ?thesis by (simp add: round53_def pow_rat_pos less_imp_le)
next
  case False
  define u where "u = pow_rat 2 (ulp_exp q)"
  have u: "0 < u" by (simp add: u_def pow_rat_pos)
  have "round53 q - q = (of_int (round_half_even (q / u)) - q / u) * u"
    using False u by (simp add: round53_def u_def[symmetric] Let_def field_simps)
  then have "\<bar>round53 q - q\<bar> = \<bar>of_int (round_half_even (q / u)) - q / u\<bar> * u"
    using u by (simp add: abs_mult)
  also have "\<dots> \<le> 1/2 * u"
    using u round_half_even_error by (intro mult_right_mono) auto
  also have "u \<le> pow_rat 2 e" unfolding u_def by (rule pow_rat_2_mono[OF assms])
  finally show ?thesis by simp
qed

lemma quotient_of_pos:
  assumes "0 < q" and "quotient_of q = (a, b)"
  shows "0 < a" "0 < b" "q = of_int a / of_int b"
proof -
  show b: "0 < b" using assms(2) by (rule quotient_of_denom_pos)
  show q: "q = of_int a / of_int b" using assms(2) by (rule quotient_of_div)
  show "0 < a" using assms(1) b unfolding q by (simp add: zero_less_divide_iff)
qed

lemma pow_rat_diff_le:
  assumes "(2::rat) ^ (x - 1) \<le> a" and "b < 2 ^ y" and "0 < b" and "0 < x"
  shows "pow_rat 2 (int x - int y - 1) \<le> a / b"
proof -
  have "pow_rat 2 (int x - int y - 1) = 2 ^ (x - 1) / 2 ^ y"
  proof (cases "y \<le> x - 1")
    case True
    then have "nat (int x - int y - 1) = x - 1 - y" and "0 \<le> int x - int y - 1"
      using assms(4) by linarith+
    with True show ?thesis by (simp add: pow_rat_def power_diff)
  next
    case False
    then have "nat (- (int x - int y - 1)) = y - (x - 1)" and "\<not> 0 \<le> int x - int y - 1"
      using assms(4) by linarith+
    with False show ?thesis by (simp add: pow_rat_def power_diff)
  qed
  also have "\<dots> \<le> a / b"
    using assms order_trans[OF _ assms(1), of 0] by (intro frac_le) auto
  finally show ?thesis .
qed

lemma floor_log2_le:
  assumes "0 < q"
  shows "pow_rat 2 (floor_log2 q) \<le> q"
proof -
  obtain a b where ab: "quotient_of q = (a, b)" by fastforce
  note pos = quotient_of_pos[OF assms ab]
  have "(of_int (2 ^ (bit_count a - 1)) :: rat) \<le> of_int a"
    using bit_count_lower[OF pos(1)] by (simp only: of_int_le_iff)
  then have lo: "(2::rat) ^ (bit_count a - 1) \<le> of_int a" by simp
  have "(of_int b :: rat) < of_int (2 ^ bit_count b)"
    using bit_count_upper by (simp only: of_int_less_iff)
  then have hi: "of_int b < (2::rat) ^ bit_count b" by simp
  have "bit_count a > 0" using pos(1) by (subst bit_count.simps) simp
  then have "pow_rat 2 (int (bit_count a) - int (bit_count b) - 1) \<le> q"
    using pow_rat_diff_le[OF lo hi] pos(2,3) by simp
  then show ?thesis by (simp add: floor_log2_def ab Let_def)
qed

lemma floor_log2_unit:
  assumes "0 < q" and "q \<le> 1"
  shows "floor_log2 q \<le> 0"
proof (rule ccontr)
  assume "\<not> floor_log2 q \<le> 0"
  then have "pow_rat 2 1 \<le> pow_rat 2 (floor_log2 q)" by (intro pow_rat_2_mono) simp
  with floor_log2_le[OF assms(1)] assms(2) show False by (simp add: pow_rat_def)
qed

text \<open>Rounding a value of the unit interval moves it by at most \<open>2 ^ -53\<close>.\<close>

lemma round53_unit_error:
  assumes "\<bar>q\<bar> \<le> 1"
  shows "\<bar>round53 q - q\<bar> \<le> 1 / 2 ^ 53"
proof (cases "q = 0")
  case True
  then show ?thesis by (simp add: round53_def)
next
  case False
  then have "floor_log2 \<bar>q\<bar> \<le> 0" using assms by (intro floor_log2_unit) auto
  then have "ulp_exp q \<le> -52" by (simp add: ulp_exp_def)
  from round53_error[OF this] show ?thesis by (simp add: pow_rat_def)
qed

section \<open>Arithmetic, comparison, \<open>round\<close>\<close>

fun fl_add :: "pyfloat \<Rightarrow> pyfloat \<Rightarrow> pyfloat" where
  "fl_add (Fin x) (Fin y) = fl (x + y)"
| "fl_add NaN _ = NaN"
| "fl_add _ NaN = NaN"
| "fl_add PosInf NegInf = NaN"
| "fl_add NegInf PosInf = NaN"
| "fl_add PosInf _ = PosInf"
| "fl_add _ PosInf = PosInf"
| "fl_add NegInf _ = NegInf"
| "fl_add _ NegInf = NegInf"

fun fl_less :: "pyfloat \<Rightarrow> pyfloat \<Rightarrow> bool" where
  "fl_less (Fin x) (Fin y) = (x < y)"
| "fl_less NaN _ = False"
| "fl_less _ NaN = False"
| "fl_less NegInf y = (y \<noteq> NegInf)"
| "fl_less _ NegInf = False"
| "fl_less PosInf _ = False"
| "fl_less _ PosInf = True"

text \<open>
  \<open>min(a, b)\<close> and \<open>max(a, b)\<close> return their first argument unless the second one is
  strictly smaller (greater); that decides what they do with a NaN.
\<close>

definition fl_min :: "pyfloat \<Rightarrow> pyfloat \<Rightarrow> pyfloat" where
  "fl_min a b = (if fl_less b a then b else a)"

definition fl_max :: "pyfloat \<Rightarrow> pyfloat \<Rightarrow> pyfloat" where
  "fl_max a b = (if fl_less a b then b else a)"

fun fl_round :: "nat \<Rightarrow> pyfloat \<Rightarrow> pyfloat" where
  "fl_round n (Fin q) = fl (of_int (round_half_even (q * 10 ^ n)) / 10 ^ n)"
| "fl_round n x = x"

text \<open>A decimal literal of the source, e.g. \<open>0.35\<close> is \<open>fl (35/100)\<close>.\<close>

lemma fl_unit:
  assumes "\<bar>q\<bar> \<le> 1"
  shows "fl q = Fin (round53 q)"
proof (cases "round53 q = 0")
  case True
  then show ?thesis by (simp add: fl_def)
next
  case False
  have "\<bar>round53 q\<bar> \<le> 1 + 1 / 2 ^ 53"
    using round53_unit_error[OF assms] assms by linarith
  then have small: "\<bar>round53 q\<bar> < 2" by simp
  have "floor_log2 \<bar>round53 q\<bar> < 1"
  proof (rule ccontr)
    assume "\<not> floor_log2 \<bar>round53 q\<bar> < 1"
    then have "pow_rat 2 1 \<le> pow_rat 2 (floor_log2 \<bar>round53 q\<bar>)" by (intro pow_rat_2_mono) simp
    with floor_log2_le[of "\<bar>round53 q\<bar>"] False small show False by (simp add: pow_rat_def)
  qed
  with False show ?thesis by (simp add: fl_def)
qed

lemma round53_decimal_inverse:
  assumes "\<bar>k\<bar> \<le> 10000"
  shows "round_half_even (round53 (of_int k / 10000) * 10000) = k"
proof (rule round_half_even_near)
  have "\<bar>(of_int k :: rat)\<bar> \<le> 10000" using assms by (metis of_int_abs of_int_le_iff of_int_numeral)
  then have "\<bar>of_int k / 10000 :: rat\<bar> \<le> 1" by simp
  from round53_unit_error[OF this]
  have "\<bar>round53 (of_int k / 10000) - of_int k / (10000::rat)\<bar> * 10000 \<le> 1 / 2 ^ 53 * 10000"
    by simp
  moreover have "\<bar>round53 (of_int k / 10000) * 10000 - of_int k\<bar> =
      \<bar>round53 (of_int k / 10000) - of_int k / (10000::rat)\<bar> * 10000"
  proof -
    have "round53 (of_int k / 10000) * 10000 - (of_int k :: rat) =
        (round53 (of_int k / 10000) - of_int k / 10000) * 10000" by simp
    then show ?thesis by (simp only: abs_mult abs_numeral)
  qed
  ultimately show "\<bar>round53 (of_int k / 10000) * 10000 - (of_int k :: rat)\<bar> < 1 / 2"
    by simp
qed

text \<open>Away from zero the rounding error is relative, so a value beyond 1 stays beyond 1.\<close>

lemma pow_rat_2_minus: "pow_rat 2 (e - int n) * 2 ^ n = pow_rat 2 e"
proof -
  consider "0 \<le> e - int n" | "e - int n < 0" "0 \<le> e" | "e < 0" by linarith
  then show ?thesis
  proof cases
    case 1
    then have "nat e = nat (e - int n) + n" by simp
    with 1 show ?thesis by (simp add: pow_rat_def power_add)
  next
    case 2
    then have "n = nat e + nat (int n - e)" by simp
    then have "(2::rat) ^ n = 2 ^ nat e * 2 ^ nat (int n - e)" by (metis power_add)
    with 2 show ?thesis by (simp add: pow_rat_def)
  next
    case 3
    then have "nat (int n - e) = nat (- e) + n" by simp
    with 3 show ?thesis by (simp add: pow_rat_def power_add)
  qed
qed

lemma round53_beyond_one:
  assumes "1 + 1/10000 \<le> \<bar>q\<bar>"
  shows "1 < \<bar>round53 q\<bar>"
proof -
  have pos: "0 < \<bar>q\<bar>" using assms by simp
  have "pow_rat 2 (floor_log2 \<bar>q\<bar> - int 52) * 2 ^ 52 \<le> \<bar>q\<bar>"
    unfolding pow_rat_2_minus by (rule floor_log2_le[OF pos])
  then have rel: "pow_rat 2 (floor_log2 \<bar>q\<bar> - 52) \<le> \<bar>q\<bar> / 2 ^ 52"
    by (simp add: field_simps)
  have "pow_rat 2 (- 1074) \<le> pow_rat 2 (- 52)" by (rule pow_rat_2_mono) simp
  also have "\<dots> = 1 / 2 ^ 52" by (simp add: pow_rat_def)
  also have "\<dots> \<le> \<bar>q\<bar> / 2 ^ 52" using assms by (intro divide_right_mono) auto
  finally have "pow_rat 2 (ulp_exp q) \<le> \<bar>q\<bar> / 2 ^ 52"
    using rel by (simp add: ulp_exp_def max_def)
  then have half: "pow_rat 2 (ulp_exp q) / 2 \<le> \<bar>q\<bar> / 2 ^ 52 / 2"
    by (rule divide_right_mono) simp
  have "\<bar>round53 q - q\<bar> \<le> \<bar>q\<bar> / 2 ^ 52 / 2"
    by (rule order_trans[OF round53_error[OF order_refl] half])
  then have "\<bar>q\<bar> - \<bar>q\<bar> / 2 ^ 53 \<le> \<bar>round53 q\<bar>"
    using abs_triangle_ineq2[of q "round53 q"] by (simp add: abs_minus_commute)
  moreover have "1 < \<bar>q\<bar> - \<bar>q\<bar> / 2 ^ 53" using assms by (simp add: field_simps)
  ultimately show ?thesis by linarith
qed

text \<open>Rounding to four decimals is idempotent on the interval from -1 to 1.\<close>

lemma fl_round4_idem:
  assumes "fl_round 4 x = Fin r" and "\<bar>r\<bar> \<le> 1"
  shows "fl_round 4 (Fin r) = Fin r"
proof -
  obtain q where x: "x = Fin q" using assms(1) by (cases x) auto
  define k where "k = round_half_even (q * 10 ^ 4)"
  have fl: "fl (of_int k / 10000) = Fin r" using assms(1) by (simp add: x k_def)
  then have r: "r = round53 (of_int k / 10000)"
    by (auto simp: fl_def Let_def split: if_splits)
  have "\<bar>k\<bar> \<le> 10000"
  proof (rule ccontr)
    assume "\<not> \<bar>k\<bar> \<le> 10000"
    then have "(of_int 10001 :: rat) \<le> of_int \<bar>k\<bar>" by (subst of_int_le_iff) simp
    then have "1 + 1/10000 \<le> \<bar>of_int k / 10000 :: rat\<bar>" by simp
    from round53_beyond_one[OF this] assms(2) show False by (simp add: r)
  qed
  from round53_decimal_inverse[OF this] fl show ?thesis by (simp add: r)
qed

section \<open>Text of a float\<close>

definition floor_log10 :: "rat \<Rightarrow> int" where
  "floor_log10 q = (case quotient_of q of (a, b) \<Rightarrow>
     let k = int (length (dec_int a)) - int (length (dec_int b))
     in if pow_rat 10 k \<le> q then k else k - 1)"

text \<open>
  The shortest decimal \<open>d * 10 ^ s\<close> that rounds to \<open>q\<close>, the nearest of that length
  when there are two; 17 digits always suffice for binary64.
\<close>

definition decimal_candidate :: "rat \<Rightarrow> int \<Rightarrow> nat \<Rightarrow> (int \<times> int) option" where
  "decimal_candidate q k n = (let s = k - int n + 1; u = pow_rat 10 s;
       lo = \<lfloor>q / u\<rfloor>; hi = lo + 1;
       lo_ok = (round53 (of_int lo * u) = q); hi_ok = (round53 (of_int hi * u) = q) in
     if lo_ok \<and> (\<not> hi_ok \<or> q - of_int lo * u \<le> of_int hi * u - q) then Some (lo, s)
     else if hi_ok then Some (hi, s) else None)"

fun shortest_decimal :: "nat \<Rightarrow> rat \<Rightarrow> int \<Rightarrow> nat \<Rightarrow> int \<times> int" where
  "shortest_decimal 0 q k n = (\<lfloor>q / pow_rat 10 (k - 16)\<rfloor>, k - 16)"
| "shortest_decimal (Suc m) q k n = (case decimal_candidate q k n of
     Some r \<Rightarrow> r | None \<Rightarrow> shortest_decimal m q k (Suc n))"

fun drop_trailing_zeros :: "string \<Rightarrow> string" where
  "drop_trailing_zeros s = rev (dropWhile (\<lambda>c. c = CHR ''0'') (rev s))"

definition pos_float_repr :: "rat \<Rightarrow> string" where
  "pos_float_repr q = (case shortest_decimal 17 q (floor_log10 q) 1 of (d, s) \<Rightarrow>
     let digits = dec_abs d; e = s + int (length digits) - 1; sig = drop_trailing_zeros digits in
     if -4 \<le> e \<and> e < 16 then
       (if e < 0 then ''0.'' @ replicate (nat (- e - 1)) (CHR ''0'') @ sig
        else let n = nat e + 1; sig' = sig @ replicate (n - length sig) (CHR ''0'');
                 frac = drop n sig' in
          take n sig' @ ''.'' @ (if frac = [] then ''0'' else frac))
     else take 1 sig @ (if length sig = 1 then [] else ''.'' @ drop 1 sig) @ ''e'' @
       (if e < 0 then ''-'' else ''+'') @ (if \<bar>e\<bar> < 10 then ''0'' else []) @ dec_abs \<bar>e\<bar>)"

fun float_repr :: "pyfloat \<Rightarrow> string" where
  "float_repr (Fin q) = (if q = 0 then ''0.0'' else if q < 0 then ''-'' @ pos_float_repr (- q)
     else pos_float_repr q)"
| "float_repr PosInf = ''inf''"
| "float_repr NegInf = ''-inf''"
| "float_repr NaN = ''nan''"

section \<open>Reading a number from text\<close>

text \<open>A run of digits in which single underscores may separate digits.\<close>

fun digit_run :: "string \<Rightarrow> string \<times> string" where
  "digit_run [] = ([], [])"
| "digit_run (c # s) = (if is_digit c then
       (case s of
          u # d # r \<Rightarrow> if u = CHR ''_'' \<and> is_digit d
             then (case digit_run (d # r) of (ds, t) \<Rightarrow> (c # ds, t))
             else (case digit_run s of (ds, t) \<Rightarrow> (c # ds, t))
        | _ \<Rightarrow> (case digit_run s of (ds, t) \<Rightarrow> (c # ds, t)))
     else ([], c # s))"

definition split_sign :: "string \<Rightarrow> bool \<times> string" where
  "split_sign s = (case s of [] \<Rightarrow> (False, [])
     | c # r \<Rightarrow> if c = CHR ''-'' then (True, r) else if c = CHR ''+'' then (False, r) else (False, s))"

definition parse_int :: "string \<Rightarrow> int option" where
  "parse_int s = (case split_sign (str_strip s) of (neg, body) \<Rightarrow>
     case digit_run body of (ds, rest) \<Rightarrow>
       if ds = [] \<or> rest \<noteq> [] then None
       else Some (if neg then - dec_value 0 ds else dec_value 0 ds))"

definition parse_exponent :: "string \<Rightarrow> (int \<times> string) option" where
  "parse_exponent s = (case s of [] \<Rightarrow> Some (0, [])
     | c # r \<Rightarrow> if c = CHR ''e'' \<or> c = CHR ''E'' then
         (case split_sign r of (neg, body) \<Rightarrow> case digit_run body of (ds, rest) \<Rightarrow>
            if ds = [] then None
            else Some (if neg then - dec_value 0 ds else dec_value 0 ds, rest))
       else Some (0, s))"

definition parse_decimal :: "string \<Rightarrow> rat option" where
  "parse_decimal s = (case digit_run s of (ip, r1) \<Rightarrow>
     case (case r1 of [] \<Rightarrow> ([], []) | c # r \<Rightarrow> if c = CHR ''.'' then digit_run r else ([], r1)) of (fp, r2) \<Rightarrow>
       if ip = [] \<and> fp = [] then None
       else (case parse_exponent r2 of
           Some (e, []) \<Rightarrow> Some (of_int (dec_value 0 (ip @ fp)) * pow_rat 10 (e - int (length fp)))
         | _ \<Rightarrow> None))"

definition parse_float :: "string \<Rightarrow> pyfloat option" where
  "parse_float s = (case split_sign (str_strip s) of (neg, body) \<Rightarrow>
     let low = str_lower body in
     if low = ''inf'' \<or> low = ''infinity'' then Some (if neg then NegInf else PosInf)
     else if low = ''nan'' then Some NaN
     else map_option (\<lambda>q. fl (if neg then - q else q)) (parse_decimal body))"

end
