(* ===== verification/PyVal.thy ===== *)
theory PyVal
  imports PyFloat
begin

text \<open>
  The dynamic values of the program: what \<open>Any\<close> stands for in \<open>dict[str, Any]\<close>, the JSON
  documents every component takes and produces. A dict is its association list in
  insertion order, with distinct text keys (\<open>wf_val\<close>); \<open>d[k] = v\<close> replaces in place or
  appends. The operators are Python's, with the exception they raise on a value of the
  wrong type.
\<close>

datatype pyval =
    PNone
  | PBool bool
  | PInt int
  | PFloat pyfloat
  | PStr string
  | PList "pyval list"
  | PTuple "pyval list"
  | PDict "(string \<times> pyval) list"

type_synonym dict = "(string \<times> pyval) list"

fun wf_val :: "pyval \<Rightarrow> bool" where
  "wf_val (PList xs) = (\<forall>x \<in> set xs. wf_val x)"
| "wf_val (PTuple xs) = (\<forall>x \<in> set xs. wf_val x)"
| "wf_val (PDict d) = (distinct (map fst d) \<and> (\<forall>kv \<in> set d. wf_val (snd kv)))"
| "wf_val _ = True"

section \<open>Truth, \<open>or\<close>, tests\<close>

fun truthy :: "pyval \<Rightarrow> bool" where
  "truthy PNone = False"
| "truthy (PBool b) = b"
| "truthy (PInt n) = (n \<noteq> 0)"
| "truthy (PFloat f) = (f \<noteq> Fin 0)"
| "truthy (PStr s) = (s \<noteq> [])"
| "truthy (PList xs) = (xs \<noteq> [])"
| "truthy (PTuple xs) = (xs \<noteq> [])"
| "truthy (PDict d) = (d \<noteq> [])"

definition por :: "pyval \<Rightarrow> pyval \<Rightarrow> pyval" where
  "por a b = (if truthy a then a else b)"

lemma por_simps [simp]: "truthy a \<Longrightarrow> por a b = a" "\<not> truthy a \<Longrightarrow> por a b = b"
  by (simp_all add: por_def)

definition is_dict :: "pyval \<Rightarrow> bool" where
  "is_dict v = (case v of PDict _ \<Rightarrow> True | _ \<Rightarrow> False)"

text \<open>\<open>str | None\<close>.\<close>

fun opt_str :: "string option \<Rightarrow> pyval" where
  "opt_str None = PNone"
| "opt_str (Some s) = PStr s"

text \<open>Truth of a \<open>str | None\<close>, and \<open>a or b\<close> on one.\<close>

definition text_set :: "string option \<Rightarrow> bool" where
  "text_set o' = (case o' of None \<Rightarrow> False | Some s \<Rightarrow> s \<noteq> [])"

definition text_or :: "string option \<Rightarrow> string \<Rightarrow> string" where
  "text_or o' s = (case o' of None \<Rightarrow> s | Some t \<Rightarrow> if t = [] then s else t)"

section \<open>Dicts\<close>

definition dget :: "dict \<Rightarrow> string \<Rightarrow> pyval" where
  "dget d k = (case map_of d k of None \<Rightarrow> PNone | Some v \<Rightarrow> v)"

definition dget_or :: "dict \<Rightarrow> string \<Rightarrow> pyval \<Rightarrow> pyval" where
  "dget_or d k dflt = (case map_of d k of None \<Rightarrow> dflt | Some v \<Rightarrow> v)"

definition dhas :: "dict \<Rightarrow> string \<Rightarrow> bool" where
  "dhas d k = (map_of d k \<noteq> None)"

definition dset :: "dict \<Rightarrow> string \<Rightarrow> pyval \<Rightarrow> dict" where
  "dset d k v = AList.update k v d"

definition dsetdefault :: "dict \<Rightarrow> string \<Rightarrow> pyval \<Rightarrow> dict" where
  "dsetdefault d k v = (if dhas d k then d else dset d k v)"

definition dupdate :: "dict \<Rightarrow> dict \<Rightarrow> dict" where
  "dupdate d e = fold (\<lambda>(k, v) d. dset d k v) e d"

lemma map_of_dset [simp]: "map_of (dset d k v) = (map_of d)(k \<mapsto> v)"
  by (simp add: dset_def update_conv')

lemma dset_not_Nil [simp]: "dset d k v \<noteq> []"
  by (cases d) (auto simp: dset_def)

lemma distinct_dset [simp]: "distinct (map fst d) \<Longrightarrow> distinct (map fst (dset d k v))"
  by (simp add: dset_def distinct_update)

lemma dget_simps [simp]:
  "dget [] k = PNone"
  "dget ((k', v) # d) k = (if k = k' then v else dget d k)"
  "dget (dset d k' v) k = (if k = k' then v else dget d k)"
  by (simp_all add: dget_def)

lemma dget_or_simps [simp]:
  "dget_or [] k x = x"
  "dget_or ((k', v) # d) k x = (if k = k' then v else dget_or d k x)"
  "dget_or (dset d k' v) k x = (if k = k' then v else dget_or d k x)"
  by (simp_all add: dget_or_def)

lemma dhas_simps [simp]:
  "dhas [] k = False"
  "dhas ((k', v) # d) k = (k = k' \<or> dhas d k)"
  "dhas (dset d k' v) k = (k = k' \<or> dhas d k)"
  by (simp_all add: dhas_def)

lemma dget_dsetdefault: "dget (dsetdefault d k v) j = (if j = k \<and> \<not> dhas d k then v else dget d j)"
  by (auto simp: dsetdefault_def dhas_def dget_def split: option.splits)

lemma dhas_dsetdefault [simp]: "dhas (dsetdefault d k v) j = (j = k \<or> dhas d j)"
  by (auto simp: dsetdefault_def)

lemma dget_not_has: "\<not> dhas d k \<Longrightarrow> dget d k = PNone"
  by (simp add: dhas_def dget_def)

lemma dupdate_simps [simp]:
  "dupdate d [] = d"
  "dupdate d ((k, v) # e) = dupdate (dset d k v) e"
  by (simp_all add: dupdate_def)

lemma map_of_dupdate: "map_of (dupdate d e) k = (case map_of (rev e) k of None \<Rightarrow> map_of d k | Some v \<Rightarrow> Some v)"
  by (induction e arbitrary: d) (auto simp: map_add_def split: option.splits)

section \<open>\<open>str\<close> and \<open>repr\<close>\<close>

definition repr_char :: "char \<Rightarrow> char \<Rightarrow> string" where
  "repr_char q c = (let n = code_point c in
     if c = q \<or> n = 92 then [CHR 0x5C, c]
     else if n = 9 then CHR 0x5C # ''t'' else if n = 10 then CHR 0x5C # ''n''
     else if n = 13 then CHR 0x5C # ''r''
     else if n < 32 \<or> 127 \<le> n \<and> n \<le> 160 \<or> n = 173
       then CHR 0x5C # CHR ''x'' # hex_char (n div 16) # [hex_char (n mod 16)]
     else [c])"

definition str_repr :: "string \<Rightarrow> string" where
  "str_repr s = (let q = (if CHR 0x27 \<in> set s \<and> CHR 0x22 \<notin> set s then CHR 0x22 else CHR 0x27) in
     q # concat (map (repr_char q) s) @ [q])"

fun py_repr :: "pyval \<Rightarrow> string" where
  "py_repr PNone = ''None''"
| "py_repr (PBool b) = (if b then ''True'' else ''False'')"
| "py_repr (PInt n) = dec_int n"
| "py_repr (PFloat f) = float_repr f"
| "py_repr (PStr s) = str_repr s"
| "py_repr (PList xs) = ''['' @ str_join '', '' (map py_repr xs) @ '']''"
| "py_repr (PTuple xs) = (case xs of [x] \<Rightarrow> ''('' @ py_repr x @ '',)''
     | _ \<Rightarrow> ''('' @ str_join '', '' (map py_repr xs) @ '')'')"
| "py_repr (PDict d) = ''{'' @ str_join '', '' (map (\<lambda>kv. str_repr (fst kv) @ '': '' @ py_repr (snd kv)) d) @ ''}''"

fun py_str :: "pyval \<Rightarrow> string" where
  "py_str (PStr s) = s"
| "py_str v = py_repr v"

text \<open>\<open>str(v or default)\<close>, the idiom every field read of the sources uses.\<close>

definition str_or :: "pyval \<Rightarrow> string \<Rightarrow> string" where
  "str_or v dflt = py_str (por v (PStr dflt))"

lemma str_or_simps [simp]:
  "str_or PNone x = x"
  "str_or (PStr s) x = (if s = [] then x else s)"
  by (simp_all add: str_or_def por_def)

lemma str_or_empty [simp]: "str_or (PStr s) [] = s"
  by (cases s) auto

lemma str_or_por [simp]: "str_or (por (PStr s) PNone) x = (if s = [] then x else s)"
  by (cases s) (auto simp: por_def)

lemma pos_float_repr_not_Nil: "pos_float_repr q \<noteq> []"
  by (simp add: pos_float_repr_def Let_def split: prod.splits)

lemma dec_int_not_Nil: "dec_int n \<noteq> []"
  by (simp add: dec_int_def dec_abs.simps[of n] dec_abs.simps[of "- n"])

lemma py_str_truthy: "truthy v \<Longrightarrow> py_str v \<noteq> []"
proof (cases v)
  case (PFloat f)
  then show ?thesis by (cases f) (auto simp: pos_float_repr_not_Nil)
next
  case (PTuple xs)
  then show ?thesis by (auto split: list.splits)
qed (auto simp: dec_int_not_Nil)

section \<open>Conversions\<close>

definition py_int :: "pyval \<Rightarrow> int result" where
  "py_int v = (case v of
     PInt n \<Rightarrow> Inr n
   | PBool b \<Rightarrow> Inr (if b then 1 else 0)
   | PFloat (Fin q) \<Rightarrow> Inr (if 0 \<le> q then \<lfloor>q\<rfloor> else - \<lfloor>- q\<rfloor>)
   | PFloat NaN \<Rightarrow> Inl (ValueError ''cannot convert float NaN to integer'')
   | PFloat _ \<Rightarrow> Inl (OverflowError ''cannot convert float infinity to integer'')
   | PStr s \<Rightarrow> (case parse_int s of Some n \<Rightarrow> Inr n
       | None \<Rightarrow> Inl (ValueError ''invalid literal for int() with base 10''))
   | _ \<Rightarrow> Inl (TypeError ''int() argument''))"

definition float_of_int :: "int \<Rightarrow> pyfloat result" where
  "float_of_int n = (case fl (of_int n) of Fin q \<Rightarrow> Inr (Fin q)
     | _ \<Rightarrow> Inl (OverflowError ''int too large to convert to float''))"

definition py_float :: "pyval \<Rightarrow> pyfloat result" where
  "py_float v = (case v of
     PFloat f \<Rightarrow> Inr f
   | PInt n \<Rightarrow> float_of_int n
   | PBool b \<Rightarrow> float_of_int (if b then 1 else 0)
   | PStr s \<Rightarrow> (case parse_float s of Some f \<Rightarrow> Inr f
       | None \<Rightarrow> Inl (ValueError ''could not convert string to float''))
   | _ \<Rightarrow> Inl (TypeError ''float() argument''))"

lemma py_int_simps [simp]:
  "py_int (PInt n) = Inr n"
  "py_int (PBool b) = Inr (if b then 1 else 0)"
  by (simp_all add: py_int_def)

lemma py_float_simps [simp]: "py_float (PFloat f) = Inr f"
  by (simp add: py_float_def)

text \<open>\<open>list(v)\<close> (also \<open>tuple(v)\<close> and iteration over \<open>v\<close>) and \<open>dict(v)\<close>.\<close>

definition py_list :: "pyval \<Rightarrow> pyval list result" where
  "py_list v = (case v of
     PList xs \<Rightarrow> Inr xs
   | PTuple xs \<Rightarrow> Inr xs
   | PStr s \<Rightarrow> Inr (map (\<lambda>c. PStr [c]) s)
   | PDict d \<Rightarrow> Inr (map (\<lambda>kv. PStr (fst kv)) d)
   | _ \<Rightarrow> Inl (TypeError ''object is not iterable''))"

lemma py_list_simps [simp]:
  "py_list (PList xs) = Inr xs"
  "py_list (PTuple xs) = Inr xs"
  by (simp_all add: py_list_def)

definition dict_item :: "pyval \<Rightarrow> (string \<times> pyval) result" where
  "dict_item v = ebind (py_list v) (\<lambda>xs. case xs of
       [PStr k, w] \<Rightarrow> Inr (k, w)
     | [PList _, _] \<Rightarrow> Inl (TypeError ''unhashable type'')
     | [PDict _, _] \<Rightarrow> Inl (TypeError ''unhashable type'')
     | [_, _] \<Rightarrow> Inl (OutOfModel ''dict key that is not text'')
     | _ \<Rightarrow> Inl (ValueError ''dictionary update sequence element has the wrong length''))"

definition py_dict :: "pyval \<Rightarrow> dict result" where
  "py_dict v = (case v of PDict d \<Rightarrow> Inr d
     | _ \<Rightarrow> ebind (py_list v) (\<lambda>xs. ebind (emap dict_item xs) (\<lambda>kvs. Inr (dupdate [] kvs))))"

lemma py_dict_simps [simp]:
  "py_dict (PDict d) = Inr d"
  "py_dict (PList []) = Inr []"
  by (simp_all add: py_dict_def)

text \<open>\<open>tuple(str(item) for item in v)\<close>, and \<open>str(v) if v is not None else None\<close>.\<close>

definition str_items :: "pyval \<Rightarrow> string list result" where
  "str_items v = ebind (py_list v) (\<lambda>xs. Inr (map py_str xs))"

lemma str_items_texts: "str_items (por (PList (map PStr xs)) (PTuple [])) = Inr xs"
  by (cases xs) (simp_all add: str_items_def por_def comp_def)

lemma str_items_texts2: "str_items (por (por (PList (map PStr xs)) PNone) (PTuple [])) = Inr xs"
  by (cases xs) (simp_all add: str_items_def por_def comp_def)

lemma str_items_list: "str_items (por (PList (map PStr xs)) (PList [])) = Inr xs"
  by (cases xs) (simp_all add: str_items_def por_def comp_def)

lemma str_items_plain [simp]: "str_items (PList (map PStr xs)) = Inr xs"
  by (simp add: str_items_def comp_def)

definition opt_str_of :: "pyval \<Rightarrow> string option" where
  "opt_str_of v = (if v = PNone then None else Some (py_str v))"

lemma opt_str_of_opt_str [simp]: "opt_str_of (opt_str o') = o'"
  by (cases o') (simp_all add: opt_str_of_def)

lemma opt_str_inj [simp]: "opt_str a = opt_str b \<longleftrightarrow> a = b"
  by (cases a; cases b) simp_all

text \<open>A value used as a dict (\<open>cast(dict[str, Any], v).get(...)\<close>), and \<open>len\<close>.\<close>

definition as_dict :: "pyval \<Rightarrow> dict result" where
  "as_dict v = (case v of PDict d \<Rightarrow> Inr d | _ \<Rightarrow> Inl (AttributeError ''get''))"

lemma as_dict_simps [simp]: "as_dict (PDict d) = Inr d"
  by (simp add: as_dict_def)

definition py_len :: "pyval \<Rightarrow> int result" where
  "py_len v = (case v of PList xs \<Rightarrow> Inr (int (length xs)) | PTuple xs \<Rightarrow> Inr (int (length xs))
     | PDict d \<Rightarrow> Inr (int (length d)) | PStr s \<Rightarrow> Inr (int (length s))
     | _ \<Rightarrow> Inl (TypeError ''object has no len()''))"

lemma py_len_simps [simp]: "py_len (PList xs) = Inr (int (length xs))"
  by (simp add: py_len_def)

text \<open>
  Slicing: \<open>xs[:n]\<close> for a list, tuple or text; a dict, a number or None raises.
\<close>

definition py_slice :: "nat \<Rightarrow> pyval \<Rightarrow> pyval result" where
  "py_slice n v = (case v of PList xs \<Rightarrow> Inr (PList (take n xs))
     | PTuple xs \<Rightarrow> Inr (PTuple (take n xs)) | PStr s \<Rightarrow> Inr (PStr (take n s))
     | PDict _ \<Rightarrow> Inl (KeyError ''slice'')
     | _ \<Rightarrow> Inl (TypeError ''object is not subscriptable''))"

section \<open>Set members\<close>

text \<open>
  Two values are the same member of a set when they are equal in Python: numbers compare
  across \<open>bool\<close>, \<open>int\<close> and \<open>float\<close>. \<open>hash_key\<close> is a representative; a list or a dict
  cannot be a member.
\<close>

fun hashable :: "pyval \<Rightarrow> bool" where
  "hashable (PList _) = False"
| "hashable (PDict _) = False"
| "hashable (PTuple xs) = (\<forall>x \<in> set xs. hashable x)"
| "hashable _ = True"

fun hash_key :: "pyval \<Rightarrow> pyval" where
  "hash_key (PBool b) = PInt (if b then 1 else 0)"
| "hash_key (PFloat (Fin q)) = (if of_int \<lfloor>q\<rfloor> = q then PInt \<lfloor>q\<rfloor> else PFloat (Fin q))"
| "hash_key (PTuple xs) = PTuple (map hash_key xs)"
| "hash_key v = v"

definition py_hash :: "pyval \<Rightarrow> pyval result" where
  "py_hash v = (if hashable v then Inr (hash_key v) else Inl (TypeError ''unhashable type''))"

lemma py_hash_str [simp]: "py_hash (PStr s) = Inr (PStr s)"
  by (simp add: py_hash_def)

section \<open>JSON\<close>

text \<open>
  \<open>json.loads(json.dumps(v, sort_keys=True))\<close>: tuples come back as lists and the keys of
  every dict in order. \<open>json_text\<close> is the text itself, with the item and key separators
  as arguments and non-ASCII characters escaped.
\<close>

fun json_norm :: "pyval \<Rightarrow> pyval" where
  "json_norm (PList xs) = PList (map json_norm xs)"
| "json_norm (PTuple xs) = PList (map json_norm xs)"
| "json_norm (PDict d) = PDict (sort_key fst (map (\<lambda>kv. (fst kv, json_norm (snd kv))) d))"
| "json_norm v = v"

definition json_char :: "char \<Rightarrow> string" where
  "json_char c = (let n = code_point c in
     if n = 34 \<or> n = 92 then [CHR 0x5C, c]
     else if n = 8 then CHR 0x5C # ''b'' else if n = 9 then CHR 0x5C # ''t''
     else if n = 10 then CHR 0x5C # ''n'' else if n = 12 then CHR 0x5C # ''f''
     else if n = 13 then CHR 0x5C # ''r''
     else if n < 32 \<or> 127 \<le> n
       then CHR 0x5C # ''u00'' @ [hex_char (n div 16), hex_char (n mod 16)]
     else [c])"

definition json_str :: "string \<Rightarrow> string" where
  "json_str s = CHR 0x22 # concat (map json_char s) @ [CHR 0x22]"

fun json_float :: "pyfloat \<Rightarrow> string" where
  "json_float PosInf = ''Infinity''"
| "json_float NegInf = ''-Infinity''"
| "json_float NaN = ''NaN''"
| "json_float f = float_repr f"

fun json_text :: "string \<Rightarrow> string \<Rightarrow> pyval \<Rightarrow> string" where
  "json_text sep ksep PNone = ''null''"
| "json_text sep ksep (PBool b) = (if b then ''true'' else ''false'')"
| "json_text sep ksep (PInt n) = dec_int n"
| "json_text sep ksep (PFloat f) = json_float f"
| "json_text sep ksep (PStr s) = json_str s"
| "json_text sep ksep (PList xs) = ''['' @ str_join sep (map (json_text sep ksep) xs) @ '']''"
| "json_text sep ksep (PTuple xs) = ''['' @ str_join sep (map (json_text sep ksep) xs) @ '']''"
| "json_text sep ksep (PDict d) = ''{'' @ str_join sep
     (map (\<lambda>kv. json_str (fst kv) @ ksep @ snd kv)
       (sort_key fst (map (\<lambda>kv. (fst kv, json_text sep ksep (snd kv))) d))) @ ''}''"

end
