(* ===== verification/Sha256.thy ===== *)
theory Sha256
  imports PyVal "HOL-Library.Word"
begin

text \<open>
  \<open>hashlib.sha256(text.encode("utf-8")).hexdigest()\<close> (FIPS 180-4) on 32-bit words, as
  the persona stamps (\<open>neurolink_core/persona.py\<close>) and the memory dedupe keys
  (\<open>neurolink_core/memory.py\<close>) use it.
\<close>

unbundle bit_operations_syntax

type_synonym u32 = "32 word"

definition rotr :: "nat \<Rightarrow> u32 \<Rightarrow> u32" where
  "rotr n x = (drop_bit n x) OR (push_bit (32 - n) x)"

definition sha_k :: "u32 list" where
  "sha_k = [
    1116352408, 1899447441, 3049323471, 3921009573, 961987163, 1508970993, 2453635748,
    2870763221, 3624381080, 310598401, 607225278, 1426881987, 1925078388, 2162078206,
    2614888103, 3248222580, 3835390401, 4022224774, 264347078, 604807628, 770255983, 1249150122,
    1555081692, 1996064986, 2554220882, 2821834349, 2952996808, 3210313671, 3336571891,
    3584528711, 113926993, 338241895, 666307205, 773529912, 1294757372, 1396182291, 1695183700,
    1986661051, 2177026350, 2456956037, 2730485921, 2820302411, 3259730800, 3345764771,
    3516065817, 3600352804, 4094571909, 275423344, 430227734, 506948616, 659060556, 883997877,
    958139571, 1322822218, 1537002063, 1747873779, 1955562222, 2024104815, 2227730452,
    2361852424, 2428436474, 2756734187, 3204031479, 3329325298]"

definition sha_init :: "u32 list" where
  "sha_init = [
    1779033703, 3144134277, 1013904242, 2773480762, 1359893119, 2600822924, 528734635,
    1541459225]"

text \<open>UTF-8 of code points up to 255.\<close>

definition utf8_char :: "char \<Rightarrow> int list" where
  "utf8_char c = (let n = of_char c in if n < 128 then [n] else [192 + n div 64, 128 + n mod 64])"

definition utf8 :: "string \<Rightarrow> int list" where
  "utf8 s = concat (map utf8_char s)"

fun be_bytes :: "nat \<Rightarrow> int \<Rightarrow> int list" where
  "be_bytes 0 n = []"
| "be_bytes (Suc k) n = be_bytes k (n div 256) @ [n mod 256]"

definition sha_pad :: "int list \<Rightarrow> int list" where
  "sha_pad bs = (let l = length bs in
     bs @ [128] @ replicate ((119 - l mod 64) mod 64) 0 @ be_bytes 8 (8 * int l))"

fun be_words :: "int list \<Rightarrow> u32 list" where
  "be_words (a # b # c # d # r) = of_int (((a * 256 + b) * 256 + c) * 256 + d) # be_words r"
| "be_words _ = []"

text \<open>The message schedule, newest word first.\<close>

fun sha_extend :: "nat \<Rightarrow> u32 list \<Rightarrow> u32 list" where
  "sha_extend 0 w = w"
| "sha_extend (Suc k) w = (let w2 = w ! 1; w7 = w ! 6; w15 = w ! 14; w16 = w ! 15;
     s0 = rotr 7 w15 XOR rotr 18 w15 XOR drop_bit 3 w15;
     s1 = rotr 17 w2 XOR rotr 19 w2 XOR drop_bit 10 w2 in
     sha_extend k ((w16 + s0 + w7 + s1) # w))"

fun sha_rounds :: "(u32 \<times> u32) list \<Rightarrow> u32 list \<Rightarrow> u32 list" where
  "sha_rounds ((k, w) # r) [a, b, c, d, e, f, g, h] = (let
     s1 = rotr 6 e XOR rotr 11 e XOR rotr 25 e;
     ch = (e AND f) XOR ((NOT e) AND g);
     t1 = h + s1 + ch + k + w;
     s0 = rotr 2 a XOR rotr 13 a XOR rotr 22 a;
     maj = (a AND b) XOR (a AND c) XOR (b AND c) in
     sha_rounds r [t1 + s0 + maj, a, b, c, d + t1, e, f, g])"
| "sha_rounds _ v = v"

fun sha_blocks :: "nat \<Rightarrow> u32 list \<Rightarrow> u32 list \<Rightarrow> u32 list" where
  "sha_blocks 0 ws h = h"
| "sha_blocks (Suc n) ws h = (let w = rev (sha_extend 48 (rev (take 16 ws))) in
     sha_blocks n (drop 16 ws) (map2 (+) h (sha_rounds (zip sha_k w) h)))"

definition hex_word :: "u32 \<Rightarrow> string" where
  "hex_word w = concat (map (\<lambda>b. [hex_char (nat (b div 16)), hex_char (nat (b mod 16))]) (be_bytes 4 (uint w)))"

definition sha256_hex_bytes :: "int list \<Rightarrow> string" where
  "sha256_hex_bytes bs = (let ws = be_words (sha_pad bs) in
     concat (map hex_word (sha_blocks (length ws div 16) ws sha_init)))"

definition sha256_hex :: "string \<Rightarrow> string" where
  "sha256_hex s = sha256_hex_bytes (utf8 s)"

end
