(* ===== verification/Interfaces.thy ===== *)
theory Interfaces
  imports PyVal
begin

text \<open>
  The contracts several components share, as locales: a stateful step that keeps an
  invariant, a stage that emits every key at most once, a record that is written to and
  read from a JSON dict, and a clamp onto a bounded scale. Each component interprets the
  ones it offers on its own definitions; the client lemmas are proved here once.
\<close>

section \<open>A step that may raise and keeps an invariant\<close>

locale checked_step =
  fixes step :: "'s \<Rightarrow> 'x \<Rightarrow> 's result"
    and inv :: "'s \<Rightarrow> bool"
  assumes step_keeps: "inv s \<Longrightarrow> step s x = Inr s' \<Longrightarrow> inv s'"
begin

lemma run_keeps: "inv s \<Longrightarrow> efold step s xs = Inr t \<Longrightarrow> inv t"
  by (rule efold_invariant[of inv _ step]) (auto intro: step_keeps)

lemma prefix_keeps:
  assumes "inv s" and "efold step s (xs @ ys) = Inr t"
  shows "\<exists>m. efold step s xs = Inr m \<and> inv m \<and> efold step m ys = Inr t"
  using assms by (auto simp: efold_append intro: run_keeps)

end

section \<open>A stage that emits every key at most once\<close>

text \<open>\<open>run_stage\<close> feeds a list of inputs to a stage and collects what it emits.\<close>

fun run_stage :: "('s \<Rightarrow> 'x \<Rightarrow> 's \<times> 'o list) \<Rightarrow> 's \<Rightarrow> 'x list \<Rightarrow> 's \<times> 'o list" where
  "run_stage step s [] = (s, [])"
| "run_stage step s (x # xs) = (let (s', out) = step s x; (t, rest) = run_stage step s' xs
     in (t, out @ rest))"

locale once_stage =
  fixes step :: "'s \<Rightarrow> 'x \<Rightarrow> 's \<times> 'o list"
    and seen :: "'s \<Rightarrow> 'k set"
    and key :: "'o \<Rightarrow> 'k"
  assumes emit_fresh: "step s x = (s', out) \<Longrightarrow> b \<in> set out \<Longrightarrow> key b \<notin> seen s"
    and emit_distinct: "step s x = (s', out) \<Longrightarrow> distinct (map key out)"
    and emit_seen: "step s x = (s', out) \<Longrightarrow> b \<in> set out \<Longrightarrow> key b \<in> seen s'"
    and seen_grows: "step s x = (s', out) \<Longrightarrow> seen s \<subseteq> seen s'"
begin

lemma run_seen:
  "run_stage step s xs = (t, out) \<Longrightarrow> seen s \<subseteq> seen t \<and> key ` set out \<subseteq> seen t"
proof (induction xs arbitrary: s t out)
  case Nil
  then show ?case by simp
next
  case (Cons x xs)
  obtain s' o1 where step1: "step s x = (s', o1)" by fastforce
  obtain t' o2 where rest: "run_stage step s' xs = (t', o2)" by fastforce
  from Cons.prems step1 rest have eq: "t = t'" "out = o1 @ o2" by auto
  from Cons.IH[OF rest] seen_grows[OF step1] emit_seen[OF step1] show ?case
    unfolding eq by auto
qed

text \<open>No key is emitted twice in a whole run, and none that was seen before it.\<close>

lemma run_at_most_once:
  "run_stage step s xs = (t, out) \<Longrightarrow> distinct (map key out) \<and> (\<forall>b \<in> set out. key b \<notin> seen s)"
proof (induction xs arbitrary: s t out)
  case Nil
  then show ?case by simp
next
  case (Cons x xs)
  obtain s' o1 where step1: "step s x = (s', o1)" by fastforce
  obtain t' o2 where rest: "run_stage step s' xs = (t', o2)" by fastforce
  from Cons.prems step1 rest have eq: "out = o1 @ o2" by auto
  note ih = Cons.IH[OF rest]
  have "key b \<noteq> key c" if "b \<in> set o1" "c \<in> set o2" for b c
    using emit_seen[OF step1 that(1)] ih that(2) by fastforce
  then show ?case
    using ih emit_distinct[OF step1] emit_fresh[OF step1] seen_grows[OF step1]
    unfolding eq by fastforce
qed

end

text \<open>The reference definition of such a stage: keep the first element of every unseen key.\<close>

fun first_fresh :: "('a \<Rightarrow> 'k) \<Rightarrow> 'k set \<Rightarrow> 'a list \<Rightarrow> 'a list" where
  "first_fresh key S [] = []"
| "first_fresh key S (x # xs) = (if key x \<in> S then first_fresh key S xs
     else x # first_fresh key (insert (key x) S) xs)"

lemma first_fresh_notin: "x \<in> set (first_fresh key S xs) \<Longrightarrow> key x \<notin> S \<and> x \<in> set xs"
  by (induction key S xs rule: first_fresh.induct) (auto split: if_splits)

lemma first_fresh_distinct: "distinct (map key (first_fresh key S xs))"
  by (induction key S xs rule: first_fresh.induct) (auto dest: first_fresh_notin)

lemma first_fresh_keys: "key ` set (first_fresh key S xs) = key ` set xs - S"
  by (induction key S xs rule: first_fresh.induct) auto

lemma first_fresh_covered: "key ` set xs \<subseteq> S \<Longrightarrow> first_fresh key S xs = []"
  by (induction key S xs rule: first_fresh.induct) auto

lemma first_fresh_id: "distinct (map key xs) \<Longrightarrow> key ` set xs \<inter> S = {} \<Longrightarrow> first_fresh key S xs = xs"
  by (induction key S xs rule: first_fresh.induct) auto

section \<open>A table filed by a key of its values\<close>

text \<open>A Python dict used as a registry, \<open>d[v.key] = v\<close>: the last value of a key wins.\<close>

locale registry =
  fixes put :: "'t \<Rightarrow> 'v \<Rightarrow> 't"
    and find :: "'t \<Rightarrow> 'k \<Rightarrow> 'v option"
    and key :: "'v \<Rightarrow> 'k"
  assumes find_put: "find (put t v) k = (if k = key v then Some v else find t k)"
begin

lemma find_put_all:
  "find (foldl put t vs) k =
   (case map_of (rev (map (\<lambda>v. (key v, v)) vs)) k of Some v \<Rightarrow> Some v | None \<Rightarrow> find t k)"
  by (induction vs arbitrary: t) (auto simp: find_put map_add_def split: option.splits)

lemma find_keyed:
  assumes "\<And>k v. find t k = Some v \<Longrightarrow> key v = k" and "find (foldl put t vs) k = Some v"
  shows "key v = k"
  using assms(2) by (auto simp: find_put_all assms(1) split: option.splits dest!: map_of_SomeD)

lemma put_again: "key v = key w \<Longrightarrow> find (put (put t v) w) = find (put t w)"
  by (auto simp: find_put)

end

section \<open>Records written to and read from a dict\<close>

text \<open>
  \<open>to_dict\<close> and \<open>from_dict\<close> of a dataclass. \<open>ok\<close> says which records the constructor
  of the class produces from its inputs.
\<close>

locale dict_codec =
  fixes to_dict :: "'r \<Rightarrow> dict"
    and from_dict :: "dict \<Rightarrow> 'r result"
    and ok :: "'r \<Rightarrow> bool"
  assumes decode_encode: "ok r \<Longrightarrow> from_dict (to_dict r) = Inr r"
begin

lemma encode_inj: "ok r \<Longrightarrow> ok r' \<Longrightarrow> to_dict r = to_dict r' \<Longrightarrow> r = r'"
  by (metis decode_encode sum.inject(2))

lemma decode_list: "(\<forall>r \<in> set rs. ok r) \<Longrightarrow> emap (\<lambda>r. from_dict (to_dict r)) rs = Inr rs"
  using emap_total[of rs "\<lambda>r. from_dict (to_dict r)" id] by (simp add: decode_encode)

lemma decode_values:
  "(\<forall>r \<in> set rs. ok r) \<Longrightarrow>
   emap (\<lambda>v. ebind (as_dict v) from_dict) (map (\<lambda>r. PDict (to_dict r)) rs) = Inr rs"
  by (simp add: emap_map decode_list)

end

text \<open>A codec whose decoder only yields well-formed records: reading normalises once.\<close>

locale total_codec = dict_codec +
  assumes decode_ok: "from_dict d = Inr r \<Longrightarrow> ok r"
begin

lemma reencode_stable: "from_dict d = Inr r \<Longrightarrow> from_dict (to_dict r) = Inr r"
  by (rule decode_encode[OF decode_ok])

end

section \<open>Clamping onto a bounded scale\<close>

locale bounded_scale =
  fixes clamp :: "'v \<Rightarrow> 'v"
    and inside :: "'v \<Rightarrow> bool"
  assumes clamp_inside: "inside (clamp x)"
begin

lemma clamp_fold_inside: "inside x \<Longrightarrow> inside (foldl (\<lambda>v d. clamp (f v d)) x ds)"
  by (induction ds arbitrary: x) (auto simp: clamp_inside)

end

end
