(* ===== verification/Common.thy ===== *)
theory Common
  imports Interfaces
begin

text \<open>
  \<open>neurolink_core/common.py\<close>: identifiers and timestamps, the perception event, the
  perception frame and the workflow result, with their dict forms.

  The process environment is explicit: \<open>uuid_hex i\<close> is the hex text of the i-th random
  UUID the process draws and \<open>clock_iso i d\<close> the ISO text of its i-th reading of the
  clock, \<open>d\<close> days later. Both are arbitrary; the positions advance with every use.
\<close>

record env =
  uuid_hex :: "nat \<Rightarrow> string"
  uuid_pos :: nat
  clock_iso :: "nat \<Rightarrow> int \<Rightarrow> string"
  clock_pos :: nat

definition utc_now_iso :: "env \<Rightarrow> string \<times> env" where
  "utc_now_iso w = (clock_iso w (clock_pos w) 0, w\<lparr>clock_pos := Suc (clock_pos w)\<rparr>)"

definition new_id :: "string \<Rightarrow> env \<Rightarrow> string \<times> env" where
  "new_id p w = (p @ ''-'' @ take 12 (uuid_hex w (uuid_pos w)), w\<lparr>uuid_pos := Suc (uuid_pos w)\<rparr>)"

text \<open>An environment for concrete runs: UUIDs and clock readings numbered by position.\<close>

definition sample_env :: env where
  "sample_env = \<lparr>uuid_hex = (\<lambda>i. replicate 12 (char_of (97 + i))), uuid_pos = 0,
     clock_iso = (\<lambda>i d. ''2026-05-10T12:00:'' @ [digit_char i] @ ''0Z''), clock_pos = 0\<rparr>"

section \<open>Perception events\<close>

record perception_event =
  pe_event_id :: string
  pe_source_kind :: string
  pe_event_type :: string
  pe_timestamp_wall :: string
  pe_source_node :: pyval
  pe_source_app :: pyval
  pe_semantic_topic :: pyval
  pe_timestamp_mono :: pyval
  pe_priority :: int
  pe_dedupe_key :: pyval
  pe_causality_id :: pyval
  pe_raw_payload_ref :: pyval
  pe_policy_tags :: "pyval list"
  pe_payload :: dict

text \<open>\<open>str(v or new_id("evt"))\<close> and \<open>str(v or utc_now_iso())\<close>: the default is drawn on demand.\<close>

definition str_or_draw :: "pyval \<Rightarrow> (env \<Rightarrow> string \<times> env) \<Rightarrow> env \<Rightarrow> string \<times> env" where
  "str_or_draw v draw w = (if truthy v then (py_str v, w) else draw w)"

definition PerceptionEvent_from_payload :: "dict \<Rightarrow> env \<Rightarrow> (perception_event \<times> env) result" where
  "PerceptionEvent_from_payload payload w = (
     let (event_id, w1) = str_or_draw (dget payload ''event_id'') (new_id ''evt'') w;
         (timestamp_wall, w2) = str_or_draw (dget payload ''timestamp_wall'') utc_now_iso w1 in
     ebind (py_int (dget_or payload ''priority'' (PInt 50))) (\<lambda>priority.
     ebind (py_list (por (dget payload ''policy_tags'') (PTuple []))) (\<lambda>policy_tags.
     ebind (py_dict (por (dget payload ''payload'') (PDict []))) (\<lambda>body.
     Inr (\<lparr> pe_event_id = event_id,
            pe_source_kind = str_or (dget payload ''source_kind'') ''core'',
            pe_event_type = str_or (dget payload ''event_type'') ''unknown'',
            pe_timestamp_wall = timestamp_wall,
            pe_source_node = dget payload ''source_node'',
            pe_source_app = dget payload ''source_app'',
            pe_semantic_topic = dget payload ''semantic_topic'',
            pe_timestamp_mono = dget payload ''timestamp_mono'',
            pe_priority = priority,
            pe_dedupe_key = dget payload ''dedupe_key'',
            pe_causality_id = dget payload ''causality_id'',
            pe_raw_payload_ref = dget payload ''raw_payload_ref'',
            pe_policy_tags = policy_tags,
            pe_payload = body \<rparr>, w2)))))"

definition PerceptionEvent_to_dict :: "perception_event \<Rightarrow> dict" where
  "PerceptionEvent_to_dict e = [
     (''event_id'', PStr (pe_event_id e)),
     (''source_kind'', PStr (pe_source_kind e)),
     (''event_type'', PStr (pe_event_type e)),
     (''timestamp_wall'', PStr (pe_timestamp_wall e)),
     (''source_node'', pe_source_node e),
     (''source_app'', pe_source_app e),
     (''semantic_topic'', pe_semantic_topic e),
     (''timestamp_mono'', pe_timestamp_mono e),
     (''priority'', PInt (pe_priority e)),
     (''dedupe_key'', pe_dedupe_key e),
     (''causality_id'', pe_causality_id e),
     (''raw_payload_ref'', pe_raw_payload_ref e),
     (''policy_tags'', PList (pe_policy_tags e)),
     (''payload'', PDict (pe_payload e))]"

text \<open>An event all of whose defaulted texts are present, as \<open>from_payload\<close> builds them.\<close>

definition event_complete :: "perception_event \<Rightarrow> bool" where
  "event_complete e \<longleftrightarrow> pe_event_id e \<noteq> [] \<and> pe_source_kind e \<noteq> [] \<and> pe_event_type e \<noteq> []
     \<and> pe_timestamp_wall e \<noteq> []"

lemma str_or_draw_text [simp]: "s \<noteq> [] \<Longrightarrow> str_or_draw (PStr s) draw w = (s, w)"
  by (simp add: str_or_draw_def)

lemma por_container [simp]:
  "por (PList xs) (PTuple []) = (if xs = [] then PTuple [] else PList xs)"
  "por (PList xs) (PList []) = PList xs"
  "por (PDict d) (PDict []) = PDict d"
  by (auto simp: por_def)

text \<open>A complete event survives the round trip through its dict and draws nothing.\<close>

lemma from_payload_to_dict:
  "event_complete e \<Longrightarrow> PerceptionEvent_from_payload (PerceptionEvent_to_dict e) w = Inr (e, w)"
  by (cases e) (simp add: PerceptionEvent_from_payload_def PerceptionEvent_to_dict_def
      event_complete_def por_def split: if_splits)

interpretation event_codec: dict_codec PerceptionEvent_to_dict
  "\<lambda>d. map_sum id fst (PerceptionEvent_from_payload d w)" event_complete for w
  by unfold_locales (simp add: from_payload_to_dict)

section \<open>Perception frames and workflow results\<close>

record perception_frame =
  pf_frame_id :: string
  pf_event_ids :: "string list"
  pf_highest_priority :: int
  pf_topics :: "string list"

definition PerceptionFrame_to_dict :: "perception_frame \<Rightarrow> dict" where
  "PerceptionFrame_to_dict f = [
     (''frame_id'', PStr (pf_frame_id f)),
     (''event_ids'', PList (map PStr (pf_event_ids f))),
     (''highest_priority'', PInt (pf_highest_priority f)),
     (''topics'', PList (map PStr (pf_topics f)))]"

record workflow_result =
  wr_status :: string
  wr_execution_span_id :: string
  wr_session_id :: string
  wr_final_response :: dict
  wr_steps :: "string list"
  wr_events_persisted :: int
  wr_delegated :: bool
  wr_tool_results :: "dict list"
  wr_audit_id :: string

definition WorkflowResult_to_dict :: "workflow_result \<Rightarrow> dict" where
  "WorkflowResult_to_dict r = [
     (''status'', PStr (wr_status r)),
     (''execution_span_id'', PStr (wr_execution_span_id r)),
     (''session_id'', PStr (wr_session_id r)),
     (''final_response'', PDict (wr_final_response r)),
     (''steps'', PList (map PStr (wr_steps r))),
     (''events_persisted'', PInt (wr_events_persisted r)),
     (''delegated'', PBool (wr_delegated r)),
     (''tool_results'', PList (map PDict (wr_tool_results r))),
     (''audit_id'', PStr (wr_audit_id r))]"

text \<open>
  \<open>NoModelCoreWorkflow._build_frame\<close> (\<open>neurolink_core/workflow.py\<close>): the frame of a batch
  of events. A topic that is not text cannot be ordered with the others.
\<close>

definition event_topic :: "perception_event \<Rightarrow> pyval" where
  "event_topic e = por (pe_semantic_topic e) (PStr (pe_event_type e))"

definition text_of :: "pyval \<Rightarrow> string result" where
  "text_of v = (case v of PStr s \<Rightarrow> Inr s | _ \<Rightarrow> Inl (OutOfModel ''topic that is not text''))"

definition build_frame :: "perception_event list \<Rightarrow> env \<Rightarrow> (perception_frame \<times> env) result" where
  "build_frame events w =
     ebind (emap text_of (filter truthy (map event_topic events))) (\<lambda>topics.
     let (frame_id, w') = new_id ''frame'' w in
     Inr (\<lparr> pf_frame_id = frame_id, pf_event_ids = map pe_event_id events,
            pf_highest_priority = max_default0 (map pe_priority events),
            pf_topics = sorted_set topics \<rparr>, w'))"

end
