(* ===== verification/Events.thy ===== *)
theory Events
  imports Common
begin

text \<open>
  \<open>neurolink_core/events.py\<close>: the perception event router. Its state is the list of
  subscribers and the set of dedupe keys already seen. A subscriber is a callback on an
  arbitrary world \<open>'w\<close>; it may raise. The set of keys is updated in place, so it is kept
  also when a later raw event of the same batch raises.
\<close>

type_synonym 'w subscriber = "'w \<Rightarrow> perception_event \<Rightarrow> 'w result"

record 'w router =
  subscribers :: "'w subscriber list"
  seen_dedupe_keys :: "pyval set"

definition subscribe :: "'w router \<Rightarrow> 'w subscriber \<Rightarrow> 'w router" where
  "subscribe r f = r\<lparr>subscribers := subscribers r @ [f]\<rparr>"

definition seed_dedupe_keys :: "'w router \<Rightarrow> pyval list \<Rightarrow> 'w router" where
  "seed_dedupe_keys r keys = r\<lparr>seen_dedupe_keys :=
     fold (\<lambda>k S. if truthy k then insert (PStr (py_str k)) S else S) keys (seen_dedupe_keys r)\<rparr>"

definition normalize_payload :: "dict \<Rightarrow> dict" where
  "normalize_payload raw_event = (
     let p1 = dsetdefault raw_event ''source_kind'' (PStr ''external'');
         p2 = dsetdefault p1 ''event_type'' (por (dget p1 ''semantic_topic'') (PStr ''unknown''));
         p3 = dsetdefault p2 ''semantic_topic'' (por (dget p2 ''event_type'') (PStr ''unknown''));
         p4 = dsetdefault p3 ''priority'' (PInt 50);
         p5 = dsetdefault p4 ''policy_tags'' (PList []);
         p6 = (if truthy (dget p5 ''dedupe_key'') then p5
               else dset p5 ''dedupe_key'' (dget p5 ''event_id''));
         p7 = (if truthy (dget p6 ''causality_id'') then p6
               else dset p6 ''causality_id'' (por (dget p6 ''dedupe_key'') (dget p6 ''event_id'')))
     in if dhas p7 ''payload'' then p7 else dset p7 ''payload'' (PDict []))"

definition event_key :: "perception_event \<Rightarrow> pyval" where
  "event_key e = por (pe_dedupe_key e) (PStr (pe_event_id e))"

definition seen_key :: "perception_event \<Rightarrow> pyval" where
  "seen_key e = hash_key (event_key e)"

text \<open>The loop of \<open>normalize\<close>, before the sort: the seen keys, then the result of the batch.\<close>

fun normalize_loop :: "pyval set \<Rightarrow> env \<Rightarrow> dict list \<Rightarrow>
    pyval set \<times> (perception_event list \<times> env) result" where
  "normalize_loop seen w [] = (seen, Inr ([], w))"
| "normalize_loop seen w (raw # raws) =
     (case PerceptionEvent_from_payload (normalize_payload raw) w of
        Inl e \<Rightarrow> (seen, Inl e)
      | Inr (event, w') \<Rightarrow>
          (case py_hash (event_key event) of
             Inl e \<Rightarrow> (seen, Inl e)
           | Inr k \<Rightarrow>
               if k \<in> seen then normalize_loop seen w' raws
               else (case normalize_loop (insert k seen) w' raws of
                   (seen', rest) \<Rightarrow> (seen', ebind rest (\<lambda>(events, w''). Inr (event # events, w''))))))"

definition event_sort_key :: "perception_event \<Rightarrow> int \<times> string \<times> string" where
  "event_sort_key e = (- pe_priority e, pe_timestamp_wall e, pe_event_id e)"

definition normalize :: "'w router \<Rightarrow> env \<Rightarrow> dict list \<Rightarrow>
    'w router \<times> (perception_event list \<times> env) result" where
  "normalize r w raws = (case normalize_loop (seen_dedupe_keys r) w raws of
     (seen', res) \<Rightarrow> (r\<lparr>seen_dedupe_keys := seen'\<rparr>,
        ebind res (\<lambda>(events, w'). Inr (sort_key event_sort_key events, w'))))"

definition publish :: "'w router \<Rightarrow> perception_event list \<Rightarrow> 'w \<Rightarrow> 'w result" where
  "publish r events x = efold (\<lambda>x e. efold (\<lambda>x f. f x e) x (subscribers r)) x events"

definition route :: "'w router \<Rightarrow> env \<Rightarrow> 'w \<Rightarrow> dict list \<Rightarrow>
    'w router \<times> (perception_event list \<times> env \<times> 'w) result" where
  "route r w x raws = (case normalize r w raws of
     (r', res) \<Rightarrow> (r', ebind res (\<lambda>(events, w'). ebind (publish r' events x) (\<lambda>x'.
        Inr (events, w', x')))))"

section \<open>What a batch leaves\<close>

text \<open>The raw batch as events, drawing identifiers and timestamps in order.\<close>

fun decode_batch :: "env \<Rightarrow> dict list \<Rightarrow> (perception_event list \<times> env) result" where
  "decode_batch w [] = Inr ([], w)"
| "decode_batch w (raw # raws) = ebind (PerceptionEvent_from_payload (normalize_payload raw) w)
     (\<lambda>(e, w'). ebind (py_hash (event_key e)) (\<lambda>_.
        ebind (decode_batch w' raws) (\<lambda>(es, w''). Inr (e # es, w''))))"

lemma py_hash_Inr [simp]: "py_hash v = Inr k \<longleftrightarrow> hashable v \<and> k = hash_key v"
  by (auto simp: py_hash_def)

lemma py_hash_Inl [simp]: "(\<exists>e. py_hash v = Inl e) \<longleftrightarrow> \<not> hashable v"
  by (auto simp: py_hash_def)

text \<open>Refinement: the loop keeps, in order, the first event of every unseen key.\<close>

lemma normalize_loop_decode:
  "decode_batch w raws = Inr (es, w') \<Longrightarrow>
   normalize_loop seen w raws = (seen \<union> seen_key ` set es, Inr (first_fresh seen_key seen es, w'))"
proof (induction raws arbitrary: seen w es)
  case Nil
  then show ?case by simp
next
  case (Cons raw raws)
  from Cons.prems obtain e w1 es' where
    e: "PerceptionEvent_from_payload (normalize_payload raw) w = Inr (e, w1)"
    and h: "hashable (event_key e)"
    and rest: "decode_batch w1 raws = Inr (es', w')" and es: "es = e # es'"
    by (auto split: prod.splits)
  show ?case
    by (auto simp: e es h py_hash_def Cons.IH[OF rest] seen_key_def split: prod.splits)
qed

lemma normalize_loop_Inr:
  "normalize_loop seen w raws = (seen', Inr (events, w')) \<Longrightarrow>
   \<exists>es. decode_batch w raws = Inr (es, w') \<and> events = first_fresh seen_key seen es
     \<and> seen' = seen \<union> seen_key ` set es"
proof (induction raws arbitrary: seen w seen' events)
  case Nil
  then show ?case by simp
next
  case (Cons raw raws)
  from Cons.prems obtain e w1 where
    e: "PerceptionEvent_from_payload (normalize_payload raw) w = Inr (e, w1)"
    by (auto split: sum.splits)
  with Cons.prems have h: "hashable (event_key e)"
    by (auto simp: py_hash_def split: if_splits)
  obtain seen1 res1 where rec: "normalize_loop (insert (seen_key e) seen) w1 raws = (seen1, res1)"
    by fastforce
  show ?case
  proof (cases "seen_key e \<in> seen")
    case True
    with Cons.prems e h have "normalize_loop seen w1 raws = (seen', Inr (events, w'))"
      by (simp add: py_hash_def seen_key_def)
    from Cons.IH[OF this] e h True show ?thesis by (auto simp: py_hash_def)
  next
    case False
    with Cons.prems e h rec obtain evs where
      "res1 = Inr (evs, w')" and ev: "events = e # evs" and "seen1 = seen'"
      by (auto simp: py_hash_def seen_key_def)
    with rec have "normalize_loop (insert (seen_key e) seen) w1 raws = (seen', Inr (evs, w'))" by simp
    from Cons.IH[OF this] e h False ev show ?thesis by (auto simp: py_hash_def)
  qed
qed

lemma normalize_loop_grows: "seen \<subseteq> fst (normalize_loop seen w raws)"
proof (induction raws arbitrary: seen w)
  case Nil
  then show ?case by simp
next
  case (Cons raw raws)
  have "seen \<subseteq> fst (normalize_loop (insert k seen) w' raws)" for k w'
    using Cons[of "insert k seen" w'] by blast
  with Cons show ?case by (simp add: case_prod_beta split: sum.split)
qed

section \<open>The router as a stage that emits every key at most once\<close>

text \<open>
  One call of \<open>normalize\<close> as a step of a run: the input is the environment of the call
  and the raw batch. A batch that raises emits nothing.
\<close>

definition router_step :: "'w router \<Rightarrow> env \<times> dict list \<Rightarrow> 'w router \<times> perception_event list" where
  "router_step r x = (case normalize r (fst x) (snd x) of
     (r', res) \<Rightarrow> (r', case res of Inl _ \<Rightarrow> [] | Inr (es, _) \<Rightarrow> es))"

lemma normalize_Inr:
  assumes "normalize r w raws = (r', Inr (events, w'))"
  obtains es where "decode_batch w raws = Inr (es, w')"
    and "events = sort_key event_sort_key (first_fresh seen_key (seen_dedupe_keys r) es)"
    and "r' = r\<lparr>seen_dedupe_keys := seen_dedupe_keys r \<union> seen_key ` set es\<rparr>"
proof -
  obtain s res where loop: "normalize_loop (seen_dedupe_keys r) w raws = (s, res)" by fastforce
  with assms obtain evs where res: "res = Inr (evs, w')"
    and ev: "events = sort_key event_sort_key evs" and r': "r' = r\<lparr>seen_dedupe_keys := s\<rparr>"
    by (cases res) (auto simp: normalize_def split: prod.splits)
  from normalize_loop_Inr[OF loop[unfolded res]] ev r' show ?thesis by (auto intro: that)
qed

lemma normalize_grows: "seen_dedupe_keys r \<subseteq> seen_dedupe_keys (fst (normalize r w raws))"
  using normalize_loop_grows[of "seen_dedupe_keys r" w raws]
  by (auto simp: normalize_def split: prod.splits)

lemma router_step_cases:
  assumes "router_step r x = (r', out)"
  obtains "out = []" "seen_dedupe_keys r \<subseteq> seen_dedupe_keys r'"
  | es where "out = sort_key event_sort_key (first_fresh seen_key (seen_dedupe_keys r) es)"
      "seen_dedupe_keys r' = seen_dedupe_keys r \<union> seen_key ` set es"
proof -
  obtain r1 res where norm: "normalize r (fst x) (snd x) = (r1, res)" by fastforce
  show ?thesis
  proof (cases res)
    case Inl
    with assms norm normalize_grows[of r "fst x" "snd x"] show ?thesis
      by (auto simp: router_step_def intro: that)
  next
    case (Inr b)
    obtain es w' where b: "b = (es, w')" by fastforce
    with norm Inr have "normalize r (fst x) (snd x) = (r1, Inr (es, w'))" by simp
    then obtain es0 where
      ev: "es = sort_key event_sort_key (first_fresh seen_key (seen_dedupe_keys r) es0)"
      and r1: "r1 = r\<lparr>seen_dedupe_keys := seen_dedupe_keys r \<union> seen_key ` set es0\<rparr>"
      by (rule normalize_Inr)
    have "out = es" "r' = r1" using assms norm Inr b by (simp_all add: router_step_def)
    then show ?thesis using ev r1 by (intro that(2)[of es0]) simp_all
  qed
qed

lemma distinct_key_sort: "distinct (map k (sort_key f xs)) = distinct (map k xs)"
  by (metis mset_map mset_sort mset_eq_imp_distinct_iff)

interpretation router_once: once_stage router_step seen_dedupe_keys seen_key
proof
  fix s s' :: "'w router" and x out b
  assume st: "router_step s x = (s', out)"
  show "seen_dedupe_keys s \<subseteq> seen_dedupe_keys s'" by (rule router_step_cases[OF st]) auto
  show "distinct (map seen_key out)"
    by (rule router_step_cases[OF st]) (auto simp: distinct_key_sort first_fresh_distinct)
  assume b: "b \<in> set out"
  show "seen_key b \<notin> seen_dedupe_keys s"
    using b by (cases rule: router_step_cases[OF st]) (auto dest: first_fresh_notin)
  show "seen_key b \<in> seen_dedupe_keys s'"
    using b by (cases rule: router_step_cases[OF st]) (auto dest: first_fresh_notin)
qed

section \<open>Facts about one batch\<close>

text \<open>A raw event that names its own dedupe key or identifier.\<close>

definition raw_key :: "dict \<Rightarrow> pyval" where
  "raw_key d = por (dget d ''dedupe_key'') (dget d ''event_id'')"

definition explicit_key :: "dict \<Rightarrow> bool" where
  "explicit_key d \<longleftrightarrow> truthy (raw_key d)"

lemma dget_normalize_payload:
  "dget (normalize_payload d) ''event_id'' = dget d ''event_id''"
  "dget (normalize_payload d) ''dedupe_key'' = raw_key d"
  "dget (normalize_payload d) ''timestamp_wall'' = dget d ''timestamp_wall''"
  by (simp_all add: normalize_payload_def Let_def dget_dsetdefault raw_key_def)

lemma from_payload_dedupe_key:
  "PerceptionEvent_from_payload d w = Inr (e, w') \<Longrightarrow> pe_dedupe_key e = dget d ''dedupe_key''"
  by (auto simp: PerceptionEvent_from_payload_def Let_def split: prod.splits)

lemma explicit_event_key:
  "PerceptionEvent_from_payload (normalize_payload raw) w = Inr (e, w') \<Longrightarrow> explicit_key raw \<Longrightarrow>
   event_key e = raw_key raw"
  by (auto dest!: from_payload_dedupe_key simp: event_key_def dget_normalize_payload explicit_key_def)

lemma decode_batch_keys:
  "decode_batch w raws = Inr (es, w') \<Longrightarrow> \<forall>d \<in> set raws. explicit_key d \<Longrightarrow>
   map seen_key es = map (\<lambda>d. hash_key (raw_key d)) raws"
  by (induction raws arbitrary: w es)
    (auto split: prod.splits simp: seen_key_def explicit_event_key)

lemma normalize_decode:
  "decode_batch w raws = Inr (es, w') \<Longrightarrow>
   normalize r w raws = (r\<lparr>seen_dedupe_keys := seen_dedupe_keys r \<union> seen_key ` set es\<rparr>,
     Inr (sort_key event_sort_key (first_fresh seen_key (seen_dedupe_keys r) es), w'))"
  by (simp add: normalize_def normalize_loop_decode)

lemma seen_batch_empty:
  assumes "decode_batch w raws = Inr (es, w')" and "\<forall>d \<in> set raws. explicit_key d"
    and "(\<lambda>d. hash_key (raw_key d)) ` set raws \<subseteq> seen_dedupe_keys r"
  shows "snd (normalize r w raws) = Inr ([], w')"
proof -
  have "seen_key ` set es = (\<lambda>d. hash_key (raw_key d)) ` set raws"
    using decode_batch_keys[OF assms(1,2)] by (metis list.set_map)
  with assms(3) have "first_fresh seen_key (seen_dedupe_keys r) es = []"
    by (intro first_fresh_covered) simp
  with assms(1) show ?thesis by (simp add: normalize_decode)
qed

lemma normalize_loop_append_error:
  assumes "decode_batch w good = Inr (es, w')"
    and "PerceptionEvent_from_payload (normalize_payload bad) w' = Inl err"
  shows "normalize_loop seen w (good @ bad # rest) = (seen \<union> seen_key ` set es, Inl err)"
  using assms
proof (induction good arbitrary: seen w es)
  case Nil
  then show ?case by simp
next
  case (Cons raw raws)
  from Cons.prems(1) obtain e w1 es' where
    e: "PerceptionEvent_from_payload (normalize_payload raw) w = Inr (e, w1)"
    and h: "hashable (event_key e)"
    and tail: "decode_batch w1 raws = Inr (es', w')" and es: "es = e # es'"
    by (auto split: prod.splits)
  show ?case
    by (auto simp: e es h py_hash_def Cons.IH[OF tail Cons.prems(2)] seen_key_def split: prod.splits)
qed

text \<open>Subscribers that record what they are called with.\<close>

definition recorder :: "nat \<Rightarrow> (nat \<times> perception_event) list subscriber" where
  "recorder i calls e = Inr (calls @ [(i, e)])"

lemma efold_recorders:
  "efold (\<lambda>x f. f x e) calls (map recorder ids) = Inr (calls @ map (\<lambda>i. (i, e)) ids)"
  by (induction ids arbitrary: calls) (auto simp: recorder_def)

section \<open>Properties\<close>

text \<open>C24: Over any run of batches, from any router state and whatever identifiers and
  timestamps the environment supplies, no two events the router hands out have the same
  dedupe key, and none has a key seen before the run. Batches that raise are included.\<close>

theorem router_at_most_once:
  assumes "run_stage router_step r batches = (r', out)"
  shows "distinct (map seen_key out) \<and> (\<forall>e \<in> set out. seen_key e \<notin> seen_dedupe_keys r)"
  using assms by (rule router_once.run_at_most_once)

theorem router_at_most_once_witness:
  "let r = \<lparr>subscribers = [], seen_dedupe_keys = {}\<rparr> :: unit router;
       raw = [(''event_id'', PStr ''e1'')];
       out = snd (run_stage router_step r [(sample_env, [raw, raw]), (sample_env, [raw])]) in
   length out = 1 \<and> distinct (map seen_key out)"
proof -
  let ?r = "\<lparr>subscribers = [], seen_dedupe_keys = {}\<rparr> :: unit router"
  let ?raw = "[(''event_id'', PStr ''e1'')]"
  obtain r' out where run: "run_stage router_step ?r [(sample_env, [?raw, ?raw]), (sample_env, [?raw])] = (r', out)"
    by fastforce
  have "length (snd (run_stage router_step ?r [(sample_env, [?raw, ?raw]), (sample_env, [?raw])])) = 1"
    by code_simp
  with router_at_most_once[OF run] run show ?thesis by (simp add: Let_def)
qed

text \<open>C30: A batch that decodes is refined to its specification: the events handed out are
  exactly the first events of the unseen keys, each once, ordered by falling priority,
  then timestamp, then identifier; the keys of the whole batch, and only these, become
  seen; the subscribers are unchanged.\<close>

theorem normalize_refines_first_fresh:
  assumes "decode_batch w raws = Inr (es, w')"
  shows "\<exists>events. normalize r w raws =
      (r\<lparr>seen_dedupe_keys := seen_dedupe_keys r \<union> seen_key ` set es\<rparr>, Inr (events, w'))
    \<and> mset events = mset (first_fresh seen_key (seen_dedupe_keys r) es)
    \<and> sorted_wrt (\<lambda>a b. pe_priority b < pe_priority a \<or> pe_priority a = pe_priority b
        \<and> (pe_timestamp_wall a, pe_event_id a) \<le> (pe_timestamp_wall b, pe_event_id b)) events"
proof -
  let ?ev = "sort_key event_sort_key (first_fresh seen_key (seen_dedupe_keys r) es)"
  have "sorted_wrt (\<lambda>a b. event_sort_key a \<le> event_sort_key b) ?ev"
    using sorted_sort_key by (simp add: sorted_map)
  then have "sorted_wrt (\<lambda>a b. pe_priority b < pe_priority a \<or> pe_priority a = pe_priority b
        \<and> (pe_timestamp_wall a, pe_event_id a) \<le> (pe_timestamp_wall b, pe_event_id b)) ?ev"
    by (rule sorted_wrt_mono_rel[rotated]) (auto simp: event_sort_key_def less_eq_prod_def)
  with assms show ?thesis by (simp add: normalize_decode)
qed

theorem normalize_refines_first_fresh_witness:
  "\<exists>es w' events. decode_batch sample_env
      [[(''event_id'', PStr ''e1'')]] = Inr (es, w')
    \<and> mset events = mset (first_fresh seen_key {} es)"
proof -
  have "isl (decode_batch sample_env [[(''event_id'', PStr ''e1'')]]) = False" by code_simp
  then obtain es w' where d: "decode_batch sample_env [[(''event_id'', PStr ''e1'')]] = Inr (es, w')"
    by (cases "decode_batch sample_env [[(''event_id'', PStr ''e1'')]]") auto
  from normalize_refines_first_fresh[OF d, of "\<lparr>subscribers = [], seen_dedupe_keys = {}\<rparr>"] d
  show ?thesis by auto
qed

text \<open>Replaying a batch whose raw events name their own keys hands out nothing: after
  a successful \<open>normalize\<close>, the same raw batch, under any later environment in which it
  decodes, is dropped completely.\<close>

theorem normalize_replay_empty:
  assumes "\<forall>d \<in> set raws. explicit_key d"
    and "normalize r w raws = (r', Inr (events, w1))"
    and "decode_batch w2 raws = Inr (es, w3)"
  shows "snd (normalize r' w2 raws) = Inr ([], w3)"
proof -
  from assms(2) obtain es1 where d1: "decode_batch w raws = Inr (es1, w1)"
    and r': "r' = r\<lparr>seen_dedupe_keys := seen_dedupe_keys r \<union> seen_key ` set es1\<rparr>"
    by (rule normalize_Inr)
  from decode_batch_keys[OF d1 assms(1)]
  have "(\<lambda>d. hash_key (raw_key d)) ` set raws = seen_key ` set es1" by (metis list.set_map)
  then show ?thesis using assms(1,3) r' by (intro seen_batch_empty) auto
qed

theorem normalize_replay_empty_witness:
  "\<exists>r' events w1 es w3. normalize \<lparr>subscribers = [], seen_dedupe_keys = {}\<rparr>
      sample_env
      [[(''event_id'', PStr ''e1'')]] = ((r' :: unit router), Inr (events, w1))
    \<and> snd (normalize r' w1 [[(''event_id'', PStr ''e1'')]]) = Inr ([], w3)"
proof -
  let ?r = "\<lparr>subscribers = [], seen_dedupe_keys = {}\<rparr> :: unit router"
  let ?raws = "[[(''event_id'', PStr ''e1'')]]"
  have ex: "\<forall>d \<in> set ?raws. explicit_key d" by code_simp
  have ok: "isl (decode_batch v ?raws) = False" for v
    by (simp add: normalize_payload_def PerceptionEvent_from_payload_def str_or_draw_def
        dsetdefault_def dset_def event_key_def py_dict_def Let_def por_def utc_now_iso_def)
  then obtain es1 w1 where d1: "decode_batch sample_env ?raws = Inr (es1, w1)"
    by (metis isl_def sum.exhaust surj_pair)
  obtain es3 w3 where d3: "decode_batch w1 ?raws = Inr (es3, w3)"
    using ok by (metis isl_def sum.exhaust surj_pair)
  from normalize_replay_empty[OF ex normalize_decode[OF d1] d3, of ?r] normalize_decode[OF d1, of ?r]
  show ?thesis by blast
qed

text \<open>A batch in which one raw event cannot be read raises and hands out nothing, and
  yet the events before the bad one stay marked as seen: retrying them afterwards, without
  the bad one, delivers none of them. Delivery is at most once, not at least once.\<close>

theorem normalize_failed_batch_consumes_keys:
  assumes "decode_batch w good = Inr (es, w')" and "\<forall>d \<in> set good. explicit_key d"
    and "PerceptionEvent_from_payload (normalize_payload bad) w' = Inl err"
    and "normalize r w (good @ bad # rest) = (r', res)"
    and "decode_batch w2 good = Inr (es2, w3)"
  shows "res = Inl err \<and> snd (normalize r' w2 good) = Inr ([], w3)"
proof -
  from assms(4) have r': "r' = r\<lparr>seen_dedupe_keys := seen_dedupe_keys r \<union> seen_key ` set es\<rparr>"
    and res: "res = Inl err"
    by (auto simp: normalize_def normalize_loop_append_error[OF assms(1,3)])
  from decode_batch_keys[OF assms(1,2)]
  have "(\<lambda>d. hash_key (raw_key d)) ` set good = seen_key ` set es" by (metis list.set_map)
  with r' have "snd (normalize r' w2 good) = Inr ([], w3)"
    using assms(2,5) by (intro seen_batch_empty) auto
  with res show ?thesis by simp
qed

theorem normalize_failed_batch_consumes_keys_witness:
  "\<exists>r' err w3. normalize \<lparr>subscribers = [], seen_dedupe_keys = {}\<rparr>
      sample_env
      [[(''event_id'', PStr ''e1'')], [(''priority'', PStr ''high'')]] = ((r' :: unit router), Inl err)
    \<and> snd (normalize r' sample_env
      [[(''event_id'', PStr ''e1'')]]) = Inr ([], w3)"
proof -
  let ?r = "\<lparr>subscribers = [], seen_dedupe_keys = {}\<rparr> :: unit router"
  let ?good = "[[(''event_id'', PStr ''e1'')]]" and ?bad = "[(''priority'', PStr ''high'')]"
  have ok: "isl (decode_batch sample_env ?good) = False" by code_simp
  then obtain es w' where d: "decode_batch sample_env ?good = Inr (es, w')"
    by (metis isl_def sum.exhaust surj_pair)
  have "isl (PerceptionEvent_from_payload (normalize_payload ?bad) w')"
    by (simp add: normalize_payload_def PerceptionEvent_from_payload_def str_or_draw_def
        dsetdefault_def dset_def Let_def por_def utc_now_iso_def new_id_def py_int_def
        parse_int_def str_strip_def is_space_def split_sign_def is_digit_def)
  then obtain err where bad: "PerceptionEvent_from_payload (normalize_payload ?bad) w' = Inl err"
    by (auto simp: isl_def)
  have ex: "\<forall>d \<in> set ?good. explicit_key d" by code_simp
  obtain r' res where n: "normalize ?r sample_env (?good @ [?bad]) = (r', res)" by fastforce
  from normalize_failed_batch_consumes_keys[OF d ex bad n d] n show ?thesis by auto
qed

text \<open>Publishing calls every subscriber, in subscription order, exactly once for every
  event, in the order of the events: shown for subscribers that record their calls.\<close>

theorem publish_delivers_all:
  "publish \<lparr>subscribers = map recorder ids, seen_dedupe_keys = S\<rparr> events calls
   = Inr (calls @ concat (map (\<lambda>e. map (\<lambda>i. (i, e)) ids) events))"
  by (induction events arbitrary: calls) (simp_all add: publish_def efold_recorders)

text \<open>The frame of a batch the router hands out: one identifier per event in delivery
  order, the topics sorted and without repetition, and the highest priority is that of the
  first event.\<close>

theorem routed_frame_priority:
  assumes "normalize r w raws = (r', Inr (events, w1))" and "events \<noteq> []"
    and "build_frame events w1 = Inr (frame, w2)"
  shows "pf_highest_priority frame = pe_priority (hd events)
    \<and> pf_event_ids frame = map pe_event_id events
    \<and> sorted (pf_topics frame) \<and> distinct (pf_topics frame)"
proof -
  from assms(1) obtain es where "events = sort_key event_sort_key es"
    by (rule normalize_Inr) auto
  then have srt: "sorted (map event_sort_key events)" by simp
  obtain e evs where ev: "events = e # evs" using assms(2) by (cases events) auto
  with srt have "pe_priority x \<le> pe_priority e" if "x \<in> set events" for x
    using that by (auto simp: event_sort_key_def less_eq_prod_def)
  then have "max_default0 (map pe_priority events) \<le> pe_priority e"
    using max_default0_in[of "map pe_priority events"] assms(2) by auto
  moreover have "pe_priority e \<le> max_default0 (map pe_priority events)"
    by (rule max_default0_ge) (simp add: ev)
  ultimately have "max_default0 (map pe_priority events) = pe_priority (hd events)"
    by (simp add: ev)
  with assms(3) show ?thesis
    by (auto simp: build_frame_def new_id_def Let_def)
qed

theorem routed_frame_priority_witness:
  "\<exists>r' events w1 frame w2. normalize (\<lparr>subscribers = [], seen_dedupe_keys = {}\<rparr> :: unit router)
      sample_env [[(''priority'', PInt 10)], [(''priority'', PInt 70)]] = (r', Inr (events, w1))
    \<and> build_frame events w1 = Inr (frame, w2)
    \<and> pf_highest_priority frame = pe_priority (hd events)"
proof -
  let ?r = "\<lparr>subscribers = [], seen_dedupe_keys = {}\<rparr> :: unit router"
  let ?raws = "[[(''priority'', PInt 10)], [(''priority'', PInt 70)]]"
  obtain r' res where n: "normalize ?r sample_env ?raws = (r', res)" by fastforce
  have "(case snd (normalize ?r sample_env ?raws) of Inl _ \<Rightarrow> False
      | Inr (es, w) \<Rightarrow> es \<noteq> [] \<and> \<not> isl (build_frame es w))"
    by code_simp
  then obtain events w1 where res: "res = Inr (events, w1)" and ne: "events \<noteq> []"
    and f: "\<not> isl (build_frame events w1)"
    by (auto simp: n split: sum.splits)
  from f obtain frame w2 where frame: "build_frame events w1 = Inr (frame, w2)"
    by (metis isl_def sum.exhaust surj_pair)
  from routed_frame_priority[OF n[unfolded res] ne frame] n res frame show ?thesis by auto
qed

end
