(* ===== verification/Policy.thy ===== *)
theory Policy
  imports Interfaces
begin

text \<open>
  \<open>neurolink_core/policy.py\<close>, and the tool contract of \<open>neurolink_core/tools.py\<close> it
  judges: side effect levels, the read-only gate every tool call of the no-model slice
  passes, and the threat classifier with its textual tests.
\<close>

section \<open>Levels, severities and categories\<close>

datatype SideEffectLevel = OBSERVE_ONLY | READ_ONLY | SUGGEST_ONLY | LOW_RISK_EXECUTE
  | APPROVAL_REQUIRED | DESTRUCTIVE

fun level_value :: "SideEffectLevel \<Rightarrow> string" where
  "level_value OBSERVE_ONLY = ''observe_only''"
| "level_value READ_ONLY = ''read_only''"
| "level_value SUGGEST_ONLY = ''suggest_only''"
| "level_value LOW_RISK_EXECUTE = ''low_risk_execute''"
| "level_value APPROVAL_REQUIRED = ''approval_required''"
| "level_value DESTRUCTIVE = ''destructive''"

definition all_levels :: "SideEffectLevel list" where
  "all_levels = [OBSERVE_ONLY, READ_ONLY, SUGGEST_ONLY, LOW_RISK_EXECUTE, APPROVAL_REQUIRED, DESTRUCTIVE]"

text \<open>\<open>SideEffectLevel(text)\<close>: the member with that value, or ValueError.\<close>

definition SideEffectLevel_of :: "string \<Rightarrow> SideEffectLevel result" where
  "SideEffectLevel_of s = (case find (\<lambda>l. level_value l = s) all_levels of
     Some l \<Rightarrow> Inr l | None \<Rightarrow> Inl (ValueError s))"

lemma SideEffectLevel_of_value [simp]: "SideEffectLevel_of (level_value l) = Inr l"
  by (cases l) (simp_all add: SideEffectLevel_of_def all_levels_def)

lemma SideEffectLevel_of_Inr: "SideEffectLevel_of s = Inr l \<longleftrightarrow> s = level_value l"
  by (auto simp: SideEffectLevel_of_def find_Some_iff split: option.splits)
    (metis SideEffectLevel_of_def SideEffectLevel_of_value option.simps(4) sum.distinct(1),
     metis SideEffectLevel_of_def SideEffectLevel_of_value option.simps(5) sum.inject(2))

datatype ThreatSeverity = LOW | MEDIUM | HIGH

fun severity_rank :: "ThreatSeverity \<Rightarrow> nat" where
  "severity_rank LOW = 0"
| "severity_rank MEDIUM = 1"
| "severity_rank HIGH = 2"

fun severity_value :: "ThreatSeverity \<Rightarrow> string" where
  "severity_value LOW = ''low''"
| "severity_value MEDIUM = ''medium''"
| "severity_value HIGH = ''high''"

text \<open>Severities are ordered from low to high.\<close>

instantiation ThreatSeverity :: linorder
begin

definition less_eq_ThreatSeverity :: "ThreatSeverity \<Rightarrow> ThreatSeverity \<Rightarrow> bool" where
  "less_eq_ThreatSeverity a b \<longleftrightarrow> severity_rank a \<le> severity_rank b"

definition less_ThreatSeverity :: "ThreatSeverity \<Rightarrow> ThreatSeverity \<Rightarrow> bool" where
  "less_ThreatSeverity a b \<longleftrightarrow> severity_rank a < severity_rank b"

instance
proof
  fix x y z :: ThreatSeverity
  show "(x < y) = (x \<le> y \<and> \<not> y \<le> x)"
    by (auto simp: less_eq_ThreatSeverity_def less_ThreatSeverity_def)
  show "x \<le> x" by (simp add: less_eq_ThreatSeverity_def)
  show "x \<le> y \<Longrightarrow> y \<le> z \<Longrightarrow> x \<le> z" by (simp add: less_eq_ThreatSeverity_def)
  show "x \<le> y \<Longrightarrow> y \<le> x \<Longrightarrow> x = y"
    by (cases x; cases y) (simp_all add: less_eq_ThreatSeverity_def)
  show "x \<le> y \<or> y \<le> x" by (auto simp: less_eq_ThreatSeverity_def)
qed

end

datatype ThreatCategory = STATE_MUTATION | APPROVAL_GATE | LEASE_SCOPE | NETWORK_TARGET
  | CREDENTIAL_REFERENCE | SHELL_METACHAR

fun category_value :: "ThreatCategory \<Rightarrow> string" where
  "category_value STATE_MUTATION = ''state_mutation''"
| "category_value APPROVAL_GATE = ''approval_gate''"
| "category_value LEASE_SCOPE = ''lease_scope''"
| "category_value NETWORK_TARGET = ''network_target''"
| "category_value CREDENTIAL_REFERENCE = ''credential_reference''"
| "category_value SHELL_METACHAR = ''shell_metachar''"

record ThreatFinding =
  tf_category :: ThreatCategory
  tf_severity :: ThreatSeverity
  tf_reason :: string
  tf_evidence :: string

definition ThreatFinding_to_dict :: "ThreatFinding \<Rightarrow> dict" where
  "ThreatFinding_to_dict f = [
     (''category'', PStr (category_value (tf_category f))),
     (''severity'', PStr (severity_value (tf_severity f))),
     (''reason'', PStr (tf_reason f)),
     (''evidence'', PStr (tf_evidence f))]"

record ToolThreatAssessment =
  ta_tool_name :: string
  ta_side_effect_level :: SideEffectLevel
  ta_approval_required :: bool
  ta_overall_severity :: ThreatSeverity
  ta_findings :: "ThreatFinding list"

definition has_category :: "ThreatCategory \<Rightarrow> ThreatFinding list \<Rightarrow> bool" where
  "has_category c fs = list_ex (\<lambda>f. tf_category f = c) fs"

definition ToolThreatAssessment_to_dict :: "ToolThreatAssessment \<Rightarrow> dict" where
  "ToolThreatAssessment_to_dict a = [
     (''ok'', PBool True),
     (''status'', PStr ''ok''),
     (''tool_name'', PStr (ta_tool_name a)),
     (''side_effect_level'', PStr (level_value (ta_side_effect_level a))),
     (''approval_required'', PBool (ta_approval_required a)),
     (''overall_severity'', PStr (severity_value (ta_overall_severity a))),
     (''findings'', PList (map (\<lambda>f. PDict (ThreatFinding_to_dict f)) (ta_findings a))),
     (''threat_category_names'', PList (map (\<lambda>f. PStr (category_value (tf_category f))) (ta_findings a))),
     (''requires_operator_approval'', PBool (ta_approval_required a)),
     (''shell_metachar_arguments_present'', PBool (has_category SHELL_METACHAR (ta_findings a))),
     (''network_target_arguments_present'', PBool (has_category NETWORK_TARGET (ta_findings a))),
     (''credential_arguments_present'', PBool (has_category CREDENTIAL_REFERENCE (ta_findings a))),
     (''lease_scoped_operation'', PBool (has_category LEASE_SCOPE (ta_findings a)))]"

record ToolPolicyDecision =
  pd_allowed :: bool
  pd_reason :: string
  pd_side_effect_level :: SideEffectLevel
  pd_approval_required :: bool

definition ToolPolicyDecision_to_dict :: "ToolPolicyDecision \<Rightarrow> dict" where
  "ToolPolicyDecision_to_dict d = [
     (''allowed'', PBool (pd_allowed d)),
     (''reason'', PStr (pd_reason d)),
     (''side_effect_level'', PStr (level_value (pd_side_effect_level d))),
     (''approval_required'', PBool (pd_approval_required d))]"

section \<open>Tool contracts\<close>

text \<open>
  The level is kept as the text the policy converts, so that a contract with an unknown
  level is a possible argument of the policy.
\<close>

record ToolContract =
  tc_tool_name :: string
  tc_description :: string
  tc_side_effect_level :: string
  tc_argv_template :: "string list"
  tc_resource :: string
  tc_required_arguments :: "string list"
  tc_required_resources :: "string list"
  tc_timeout_seconds :: int
  tc_retryable :: bool
  tc_approval_required :: bool
  tc_cleanup_hint :: pyval
  tc_output_contract :: dict

text \<open>\<open>(payload.get("cleanup_hints") or [payload.get("cleanup_hint") or None])[0]\<close>\<close>

definition first_hint :: "dict \<Rightarrow> pyval result" where
  "first_hint payload = (let v = dget payload ''cleanup_hints'' in
     if truthy v then (case v of
         PList (x # _) \<Rightarrow> Inr x | PTuple (x # _) \<Rightarrow> Inr x | PStr (c # _) \<Rightarrow> Inr (PStr [c])
       | PDict _ \<Rightarrow> Inl (KeyError ''0'') | _ \<Rightarrow> Inl (TypeError ''object is not subscriptable''))
     else Inr (por (dget payload ''cleanup_hint'') PNone))"

definition ToolContract_from_dict :: "dict \<Rightarrow> ToolContract result" where
  "ToolContract_from_dict payload =
     ebind (SideEffectLevel_of (str_or (dget payload ''side_effect_level'') ''read_only'')) (\<lambda>level.
     ebind (str_items (por (dget payload ''argv_template'') (PTuple []))) (\<lambda>argv.
     ebind (str_items (por (dget payload ''required_arguments'') (PTuple []))) (\<lambda>required_arguments.
     ebind (str_items (por (por (dget payload ''lease_requirements'') (dget payload ''required_resources''))
         (PTuple []))) (\<lambda>required_resources.
     ebind (py_int (dget_or payload ''timeout_seconds'' (PInt 10))) (\<lambda>timeout_seconds.
     ebind (first_hint payload) (\<lambda>cleanup_hint.
     ebind (py_dict (por (dget payload ''output_contract'') (PDict []))) (\<lambda>output_contract.
     Inr \<lparr> tc_tool_name = str_or (por (dget payload ''name'') (dget payload ''tool_name'')) [],
           tc_description = str_or (dget payload ''description'') [],
           tc_side_effect_level = level_value level,
           tc_argv_template = argv,
           tc_resource = str_or (dget payload ''resource'') [],
           tc_required_arguments = required_arguments,
           tc_required_resources = required_resources,
           tc_timeout_seconds = timeout_seconds,
           tc_retryable = truthy (dget_or payload ''retryable'' (PBool False)),
           tc_approval_required = truthy (dget_or payload ''approval_required'' (PBool False)),
           tc_cleanup_hint = cleanup_hint,
           tc_output_contract = output_contract \<rparr>)))))))"

definition ToolContract_to_dict :: "ToolContract \<Rightarrow> dict" where
  "ToolContract_to_dict c = [
     (''name'', PStr (tc_tool_name c)),
     (''description'', PStr (tc_description c)),
     (''argv_template'', PList (map PStr (tc_argv_template c))),
     (''resource'', PStr (tc_resource c)),
     (''required_arguments'', PList (map PStr (tc_required_arguments c))),
     (''side_effect_level'', PStr (tc_side_effect_level c)),
     (''lease_requirements'', PList (map PStr (tc_required_resources c))),
     (''timeout_seconds'', PInt (tc_timeout_seconds c)),
     (''retryable'', PBool (tc_retryable c)),
     (''approval_required'', PBool (tc_approval_required c)),
     (''cleanup_hints'', PList (if truthy (tc_cleanup_hint c) then [tc_cleanup_hint c] else [])),
     (''output_contract'', PDict (tc_output_contract c))]"

text \<open>A contract with a level of the enumeration, and a cleanup hint that is None or not empty.\<close>

definition contract_ok :: "ToolContract \<Rightarrow> bool" where
  "contract_ok c \<longleftrightarrow> tc_side_effect_level c \<in> set (map level_value all_levels)
     \<and> (tc_cleanup_hint c = PNone \<or> truthy (tc_cleanup_hint c))"

interpretation contract_codec: dict_codec ToolContract_to_dict ToolContract_from_dict contract_ok
proof
  fix c assume ok: "contract_ok c"
  then obtain l where l: "tc_side_effect_level c = level_value l" by (auto simp: contract_ok_def)
  have ne: "level_value l \<noteq> []" by (cases l) simp_all
  have hint: "first_hint (ToolContract_to_dict c) = Inr (tc_cleanup_hint c)"
    using ok by (auto simp: first_hint_def ToolContract_to_dict_def contract_ok_def por_def)
  have body: "py_dict (por (PDict (tc_output_contract c)) (PDict [])) = Inr (tc_output_contract c)"
    by (simp add: por_def)
  show "ToolContract_from_dict (ToolContract_to_dict c) = Inr c"
    unfolding ToolContract_from_dict_def hint
    by (cases c) (use l ne body in \<open>simp add: ToolContract_to_dict_def str_items_texts str_items_texts2\<close>)
qed

section \<open>The read-only gate\<close>

definition allowed_levels :: "SideEffectLevel list" where
  "allowed_levels = [OBSERVE_ONLY, READ_ONLY, SUGGEST_ONLY]"

definition evaluate_contract :: "ToolContract \<Rightarrow> ToolPolicyDecision result" where
  "evaluate_contract contract =
     ebind (SideEffectLevel_of (tc_side_effect_level contract)) (\<lambda>side_effect_level.
     let approval_required = tc_approval_required contract in
     if approval_required then
       Inr \<lparr> pd_allowed = False, pd_reason = ''approval_required_tool_blocked_in_no_model_slice'',
             pd_side_effect_level = side_effect_level, pd_approval_required = approval_required \<rparr>
     else if side_effect_level \<notin> set allowed_levels then
       Inr \<lparr> pd_allowed = False, pd_reason = ''side_effect_level_not_allowed_in_no_model_slice'',
             pd_side_effect_level = side_effect_level, pd_approval_required = approval_required \<rparr>
     else
       Inr \<lparr> pd_allowed = True, pd_reason = ''read_only_policy_allows_tool'',
             pd_side_effect_level = side_effect_level, pd_approval_required = approval_required \<rparr>)"

section \<open>Textual tests on arguments\<close>

definition shell_patterns :: "string list" where
  "shell_patterns = ['';'', ''&&'', ''||'', ''|'', ''$('', [CHR 0x60], ''>'', ''<'', [CHR 0x0A]]"

definition contains_shell_metacharacters :: "string \<Rightarrow> bool" where
  "contains_shell_metacharacters value = list_ex (\<lambda>p. contains_str p value) shell_patterns"

definition network_schemes :: "string list" where
  "network_schemes = [''http://'', ''https://'', ''ws://'', ''wss://'', ''tcp/'', ''udp/'']"

text \<open>
  The dotted quad \<open>^\d{1,3}(?:\.\d{1,3}){3}(?::\d+)?$\<close> as a matcher: a group of digits is
  never followed by a digit, so it is the whole run of digits, and \<open>$\<close> also matches
  before a final newline.
\<close>

definition octet :: "string \<Rightarrow> string option" where
  "octet s = (let d = takeWhile is_digit s in
     if d \<noteq> [] \<and> length d \<le> 3 then Some (dropWhile is_digit s) else None)"

fun dot_octets :: "nat \<Rightarrow> string \<Rightarrow> string option" where
  "dot_octets 0 s = Some s"
| "dot_octets (Suc n) (c # s) = (if c = CHR ''.'' then Option.bind (octet s) (dot_octets n) else None)"
| "dot_octets (Suc n) [] = None"

definition at_end :: "string \<Rightarrow> bool" where
  "at_end s \<longleftrightarrow> s = [] \<or> s = [CHR 0x0A]"

definition port_end :: "string \<Rightarrow> bool" where
  "port_end s = (at_end s \<or> (case s of [] \<Rightarrow> False
     | c # r \<Rightarrow> c = CHR '':'' \<and> takeWhile is_digit r \<noteq> [] \<and> at_end (dropWhile is_digit r)))"

definition dotted_quad :: "string \<Rightarrow> bool" where
  "dotted_quad value = (case Option.bind (octet value) (dot_octets 3) of None \<Rightarrow> False | Some r \<Rightarrow> port_end r)"

definition looks_like_network_target :: "string \<Rightarrow> bool" where
  "looks_like_network_target value = (list_ex (startswith value) network_schemes \<or> dotted_quad value)"

definition credential_markers :: "string list" where
  "credential_markers = [''token'', ''secret'', ''password'', ''credential'', ''api_key'', ''key'', ''env-var'']"

definition looks_like_credential_reference :: "string \<Rightarrow> string \<Rightarrow> bool" where
  "looks_like_credential_reference argument_name value =
     (list_ex (\<lambda>m. contains_str m (str_lower argument_name)) credential_markers
      \<or> list_ex (\<lambda>m. contains_str m (str_lower value)) credential_markers)"

section \<open>Classification\<close>

definition argument_items :: "dict option \<Rightarrow> (string \<times> string) list" where
  "argument_items arguments = (case arguments of None \<Rightarrow> []
     | Some d \<Rightarrow> map (\<lambda>(name, value). (name, py_str value)) d)"

definition argument_findings :: "string \<times> string \<Rightarrow> ThreatFinding list" where
  "argument_findings a = (case a of (argument_name, value) \<Rightarrow>
     (if looks_like_network_target value then
        [\<lparr> tf_category = NETWORK_TARGET, tf_severity = MEDIUM,
           tf_reason = ''argument_targets_network_or_remote_endpoint'',
           tf_evidence = argument_name @ ''='' @ value \<rparr>] else []) @
     (if looks_like_credential_reference argument_name value then
        [\<lparr> tf_category = CREDENTIAL_REFERENCE, tf_severity = MEDIUM,
           tf_reason = ''argument_references_sensitive_credential_material'',
           tf_evidence = argument_name @ ''='' @ value \<rparr>] else []) @
     (if contains_shell_metacharacters value then
        [\<lparr> tf_category = SHELL_METACHAR, tf_severity = HIGH,
           tf_reason = ''argument_contains_shell_metacharacters'',
           tf_evidence = argument_name @ ''='' @ value \<rparr>] else []))"

definition contract_findings :: "SideEffectLevel \<Rightarrow> bool \<Rightarrow> string list \<Rightarrow> ThreatFinding list" where
  "contract_findings side_effect_level approval_required required_resources =
     (if side_effect_level \<in> {LOW_RISK_EXECUTE, APPROVAL_REQUIRED, DESTRUCTIVE} then
        [\<lparr> tf_category = STATE_MUTATION,
           tf_severity = (if side_effect_level = DESTRUCTIVE then HIGH else MEDIUM),
           tf_reason = ''tool_contract_can_mutate_runtime_state'',
           tf_evidence = level_value side_effect_level \<rparr>] else []) @
     (if approval_required then
        [\<lparr> tf_category = APPROVAL_GATE, tf_severity = MEDIUM,
           tf_reason = ''tool_contract_requires_operator_approval'',
           tf_evidence = ''approval_required=true'' \<rparr>] else []) @
     (if required_resources \<noteq> [] then
        [\<lparr> tf_category = LEASE_SCOPE, tf_severity = MEDIUM,
           tf_reason = ''tool_contract_requires_scoped_runtime_resource'',
           tf_evidence = str_join '','' required_resources \<rparr>] else [])"

definition overall_severity :: "ThreatFinding list \<Rightarrow> ThreatSeverity" where
  "overall_severity findings = (
     if list_ex (\<lambda>f. tf_severity f = HIGH) findings then HIGH
     else if list_ex (\<lambda>f. tf_severity f = MEDIUM) findings then MEDIUM
     else LOW)"

definition classify_tool_contract_threats :: "ToolContract \<Rightarrow> dict option \<Rightarrow> ToolThreatAssessment result" where
  "classify_tool_contract_threats contract arguments =
     ebind (SideEffectLevel_of (tc_side_effect_level contract)) (\<lambda>side_effect_level.
     let findings = contract_findings side_effect_level (tc_approval_required contract)
           (tc_required_resources contract) @ concat (map argument_findings (argument_items arguments)) in
     Inr \<lparr> ta_tool_name = tc_tool_name contract,
           ta_side_effect_level = side_effect_level,
           ta_approval_required = tc_approval_required contract,
           ta_overall_severity = overall_severity findings,
           ta_findings = findings \<rparr>)"

section \<open>Lemmas\<close>

lemma evaluate_contract_Inr:
  "evaluate_contract c = Inr d \<longleftrightarrow> (\<exists>l. tc_side_effect_level c = level_value l
     \<and> pd_side_effect_level d = l \<and> pd_approval_required d = tc_approval_required c
     \<and> pd_allowed d = (\<not> tc_approval_required c \<and> l \<in> set allowed_levels)
     \<and> pd_reason d = (if tc_approval_required c then ''approval_required_tool_blocked_in_no_model_slice''
         else if l \<notin> set allowed_levels then ''side_effect_level_not_allowed_in_no_model_slice''
         else ''read_only_policy_allows_tool''))"
  unfolding evaluate_contract_def ebind_eq_Inr SideEffectLevel_of_Inr Let_def
  by (cases d) auto

lemma classify_Inr:
  "classify_tool_contract_threats c args = Inr a \<Longrightarrow>
   \<exists>l. tc_side_effect_level c = level_value l \<and> ta_side_effect_level a = l
     \<and> ta_findings a = contract_findings l (tc_approval_required c) (tc_required_resources c)
         @ concat (map argument_findings (argument_items args))
     \<and> ta_overall_severity a = overall_severity (ta_findings a)"
  by (auto simp: classify_tool_contract_threats_def Let_def SideEffectLevel_of_Inr)

lemma level_value_inj [simp]: "level_value a = level_value b \<longleftrightarrow> a = b"
  by (cases a; cases b) simp_all

lemma argument_findings_category:
  "f \<in> set (argument_findings a) \<Longrightarrow>
   tf_category f \<in> {NETWORK_TARGET, CREDENTIAL_REFERENCE, SHELL_METACHAR}
   \<and> (tf_severity f = HIGH \<longleftrightarrow> tf_category f = SHELL_METACHAR)
   \<and> (tf_category f = SHELL_METACHAR \<longrightarrow> contains_shell_metacharacters (snd a))"
  by (cases a) (auto simp: argument_findings_def split: if_splits)

lemma argument_findings_high:
  "(\<exists>f \<in> set (argument_findings a). tf_severity f = HIGH) \<longleftrightarrow> contains_shell_metacharacters (snd a)"
  by (cases a) (auto simp: argument_findings_def)

lemma overall_severity_Max: "overall_severity fs = Max (insert LOW (tf_severity ` set fs))"
proof (induction fs)
  case Nil
  then show ?case by (simp add: overall_severity_def)
next
  case (Cons f fs)
  have "Max (insert (tf_severity f) (insert LOW (tf_severity ` set fs)))
      = max (tf_severity f) (overall_severity fs)"
    unfolding Cons by (rule Max_insert) auto
  then have "Max (insert LOW (tf_severity ` set (f # fs))) = max (tf_severity f) (overall_severity fs)"
    by (simp only: list.set image_insert insert_commute)
  also have "\<dots> = overall_severity (f # fs)"
    by (cases "tf_severity f") (auto simp: overall_severity_def max_def less_eq_ThreatSeverity_def)
  finally show ?case by simp
qed

section \<open>The language of dotted quads\<close>

definition digit_group :: "string \<Rightarrow> bool" where
  "digit_group s \<longleftrightarrow> s \<noteq> [] \<and> length s \<le> 3 \<and> list_all is_digit s"

definition quad_tail :: "string \<Rightarrow> bool" where
  "quad_tail t \<longleftrightarrow> at_end t \<or> (\<exists>p e. t = '':'' @ p @ e \<and> p \<noteq> [] \<and> list_all is_digit p \<and> at_end e)"

lemma not_digit_chars [simp]: "\<not> is_digit (CHR ''.'')" "\<not> is_digit (CHR '':'')" "\<not> is_digit (CHR 0x0A)"
  by (simp_all add: is_digit_def)

lemma digits_split:
  assumes "list_all is_digit d" and "r = [] \<or> \<not> is_digit (hd r)"
  shows "takeWhile is_digit (d @ r) = d" "dropWhile is_digit (d @ r) = r"
  using assms by (cases r; force simp: list_all_iff)+

lemma takeWhile_digits: "list_all is_digit (takeWhile is_digit s)"
  by (auto simp: list_all_iff dest: set_takeWhileD)

lemma hd_dropWhile_digit: "dropWhile is_digit s = [] \<or> \<not> is_digit (hd (dropWhile is_digit s))"
  by (meson hd_dropWhile)

lemma octet_Some: "octet s = Some r \<longleftrightarrow> (\<exists>d. s = d @ r \<and> digit_group d \<and> (r = [] \<or> \<not> is_digit (hd r)))"
proof
  assume o: "octet s = Some r"
  then have "s = takeWhile is_digit s @ r" "digit_group (takeWhile is_digit s)"
    by (auto simp: octet_def Let_def digit_group_def takeWhile_digits split: if_splits)
  moreover have "r = [] \<or> \<not> is_digit (hd r)"
    using o hd_dropWhile_digit[of s] by (auto simp: octet_def Let_def split: if_splits)
  ultimately show "\<exists>d. s = d @ r \<and> digit_group d \<and> (r = [] \<or> \<not> is_digit (hd r))" by blast
next
  assume "\<exists>d. s = d @ r \<and> digit_group d \<and> (r = [] \<or> \<not> is_digit (hd r))"
  then obtain d where d: "s = d @ r" "digit_group d" "r = [] \<or> \<not> is_digit (hd r)" by blast
  then show "octet s = Some r"
    using digits_split[of d r] by (simp add: octet_def Let_def digit_group_def)
qed

lemma at_end_not_digit: "at_end e \<Longrightarrow> e = [] \<or> \<not> is_digit (hd e)"
  by (auto simp: at_end_def)

lemma port_end_tail: "port_end t \<longleftrightarrow> quad_tail t"
proof
  assume pe: "port_end t"
  show "quad_tail t"
  proof (cases "at_end t")
    case True
    then show ?thesis by (simp add: quad_tail_def)
  next
    case False
    with pe obtain r where t: "t = CHR '':'' # r" and ne: "takeWhile is_digit r \<noteq> []"
      and e: "at_end (dropWhile is_digit r)"
      by (auto simp: port_end_def split: list.splits)
    have "t = '':'' @ takeWhile is_digit r @ dropWhile is_digit r" by (simp add: t)
    then show ?thesis using ne e takeWhile_digits unfolding quad_tail_def by blast
  qed
next
  assume "quad_tail t"
  then show "port_end t"
    by (auto simp: quad_tail_def port_end_def digits_split at_end_not_digit)
qed

lemma quad_tail_not_digit: "quad_tail t \<Longrightarrow> t = [] \<or> \<not> is_digit (hd t)"
  by (auto simp: quad_tail_def at_end_def)

lemma dot_octets_Suc: "dot_octets (Suc n) s = Some t \<longleftrightarrow>
    (\<exists>r. s = CHR ''.'' # r \<and> (\<exists>u. octet r = Some u \<and> dot_octets n u = Some t))"
  by (cases s) (auto simp: bind_eq_Some_conv)

lemma dotted_quad_language:
  "dotted_quad v \<longleftrightarrow> (\<exists>a b c d t. v = a @ ''.'' @ b @ ''.'' @ c @ ''.'' @ d @ t
     \<and> digit_group a \<and> digit_group b \<and> digit_group c \<and> digit_group d \<and> quad_tail t)"
  (is "_ \<longleftrightarrow> ?spec")
proof
  assume "dotted_quad v"
  then obtain r t where r: "octet v = Some r" "dot_octets 3 r = Some t" "quad_tail t"
    by (auto simp: dotted_quad_def port_end_tail bind_eq_Some_conv split: option.splits)
  then show ?spec
    unfolding numeral_3_eq_3 dot_octets_Suc dot_octets.simps octet_Some option.inject
    by clarsimp (metis append_Cons append_Nil)
next
  assume ?spec
  then obtain a b c d t where v: "v = a @ ''.'' @ b @ ''.'' @ c @ ''.'' @ d @ t"
    and g: "digit_group a" "digit_group b" "digit_group c" "digit_group d" and t: "quad_tail t"
    by blast
  have o: "octet (x @ CHR ''.'' # y) = Some (CHR ''.'' # y)" if "digit_group x" for x y
    using that by (auto simp: octet_Some)
  have od: "octet (d @ t) = Some t" using g(4) quad_tail_not_digit[OF t] by (auto simp: octet_Some)
  show "dotted_quad v"
    using t by (simp add: v dotted_quad_def o g od port_end_tail numeral_3_eq_3)
qed

section \<open>Properties\<close>

text \<open>The gate of the no-model slice allows a tool exactly when its contract names an
  observe-only, read-only or suggest-only level and does not require approval; a contract
  whose level is not in the enumeration is never allowed.\<close>

theorem gate_allows_iff:
  "(\<exists>d. evaluate_contract c = Inr d \<and> pd_allowed d) \<longleftrightarrow>
   \<not> tc_approval_required c \<and> tc_side_effect_level c \<in> {''observe_only'', ''read_only'', ''suggest_only''}"
proof -
  have lv: "tc_side_effect_level c \<in> {''observe_only'', ''read_only'', ''suggest_only''} \<longleftrightarrow>
      (\<exists>l \<in> set allowed_levels. tc_side_effect_level c = level_value l)"
    by (auto simp: allowed_levels_def)
  have "\<exists>d. evaluate_contract c = Inr d \<and> pd_allowed d"
    if "\<not> tc_approval_required c" "tc_side_effect_level c = level_value l" "l \<in> set allowed_levels" for l
    using that by (simp add: evaluate_contract_def)
  then show ?thesis unfolding lv evaluate_contract_Inr by blast
qed

text \<open>The gate and the classifier agree: when the gate allows a contract, the threat
  assessment of every call of it has no state-mutation and no approval finding, and it is
  of high severity only if one of the arguments holds a shell metacharacter.\<close>

theorem allowed_contract_assessment:
  assumes "evaluate_contract c = Inr d" and "pd_allowed d"
    and "classify_tool_contract_threats c arguments = Inr a"
  shows "\<not> has_category STATE_MUTATION (ta_findings a) \<and> \<not> has_category APPROVAL_GATE (ta_findings a)
    \<and> (ta_overall_severity a = HIGH \<longrightarrow>
        (\<exists>arg \<in> set (argument_items arguments). contains_shell_metacharacters (snd arg)))"
proof -
  from assms(1,2) obtain l where l: "tc_side_effect_level c = level_value l" "l \<in> set allowed_levels"
    and na: "\<not> tc_approval_required c"
    by (auto simp: evaluate_contract_Inr)
  from classify_Inr[OF assms(3)] l na have
    f: "ta_findings a = contract_findings l False (tc_required_resources c)
         @ concat (map argument_findings (argument_items arguments))"
    and s: "ta_overall_severity a = overall_severity (ta_findings a)" by auto
  have cf: "\<forall>x \<in> set (contract_findings l False rs). tf_category x = LEASE_SCOPE \<and> tf_severity x = MEDIUM" for rs
    using l(2) by (auto simp: contract_findings_def allowed_levels_def)
  have "\<not> has_category STATE_MUTATION (ta_findings a)" "\<not> has_category APPROVAL_GATE (ta_findings a)"
    unfolding f using cf by (auto simp: has_category_def list_ex_iff dest!: argument_findings_category)
  moreover have "\<exists>arg \<in> set (argument_items arguments). contains_shell_metacharacters (snd arg)"
    if "ta_overall_severity a = HIGH"
  proof -
    from that s obtain x where x: "x \<in> set (ta_findings a)" "tf_severity x = HIGH"
      by (auto simp: overall_severity_def list_ex_iff split: if_splits)
    with cf[of "tc_required_resources c"] obtain arg where
      arg: "arg \<in> set (argument_items arguments)" "x \<in> set (argument_findings arg)"
      unfolding f by fastforce
    from argument_findings_category[OF arg(2)] x(2) arg(1) show ?thesis by blast
  qed
  ultimately show ?thesis by blast
qed

definition sample_contract :: ToolContract where
  "sample_contract = \<lparr> tc_tool_name = ''system_state_sync'', tc_description = [],
     tc_side_effect_level = ''read_only'', tc_argv_template = [], tc_resource = [],
     tc_required_arguments = [], tc_required_resources = [''lease''], tc_timeout_seconds = 10,
     tc_retryable = False, tc_approval_required = False, tc_cleanup_hint = PNone,
     tc_output_contract = [] \<rparr>"

theorem allowed_contract_assessment_witness:
  "\<exists>d a. evaluate_contract sample_contract = Inr d \<and> pd_allowed d
    \<and> classify_tool_contract_threats sample_contract (Some [(''x'', PStr ''a;b'')]) = Inr a
    \<and> \<not> has_category STATE_MUTATION (ta_findings a)"
proof -
  obtain d where d: "evaluate_contract sample_contract = Inr d" "pd_allowed d"
    by (simp add: evaluate_contract_def sample_contract_def SideEffectLevel_of_def all_levels_def
        allowed_levels_def)
  obtain a where a: "classify_tool_contract_threats sample_contract (Some [(''x'', PStr ''a;b'')]) = Inr a"
    by (simp add: classify_tool_contract_threats_def sample_contract_def SideEffectLevel_of_def all_levels_def Let_def)
  from allowed_contract_assessment[OF d a] d a show ?thesis by blast
qed

text \<open>The overall severity of an assessment is the greatest severity of its findings (low
  when there are none), and it is high exactly for a destructive contract or an argument
  with a shell metacharacter.\<close>

theorem overall_severity_correct:
  assumes "classify_tool_contract_threats c arguments = Inr a"
  shows "ta_overall_severity a = Max (insert LOW (tf_severity ` set (ta_findings a)))
    \<and> (ta_overall_severity a = HIGH \<longleftrightarrow> ta_side_effect_level a = DESTRUCTIVE
        \<or> (\<exists>arg \<in> set (argument_items arguments). contains_shell_metacharacters (snd arg)))"
proof -
  from classify_Inr[OF assms] obtain l where l: "ta_side_effect_level a = l"
    and f: "ta_findings a = contract_findings l (tc_approval_required c) (tc_required_resources c)
         @ concat (map argument_findings (argument_items arguments))"
    and s: "ta_overall_severity a = overall_severity (ta_findings a)" by auto
  have "ta_overall_severity a = HIGH \<longleftrightarrow> (\<exists>x \<in> set (ta_findings a). tf_severity x = HIGH)"
    by (auto simp: s overall_severity_def list_ex_iff)
  also have "\<dots> \<longleftrightarrow> (\<exists>x \<in> set (contract_findings l (tc_approval_required c) (tc_required_resources c)).
        tf_severity x = HIGH)
      \<or> (\<exists>arg \<in> set (argument_items arguments). \<exists>x \<in> set (argument_findings arg). tf_severity x = HIGH)"
    unfolding f by auto
  also have "(\<exists>x \<in> set (contract_findings l (tc_approval_required c) (tc_required_resources c)).
        tf_severity x = HIGH) \<longleftrightarrow> l = DESTRUCTIVE"
    by (auto simp: contract_findings_def)
  also have "(\<exists>arg \<in> set (argument_items arguments). \<exists>x \<in> set (argument_findings arg). tf_severity x = HIGH)
      \<longleftrightarrow> (\<exists>arg \<in> set (argument_items arguments). contains_shell_metacharacters (snd arg))"
    by (simp only: argument_findings_high)
  finally show ?thesis using l s overall_severity_Max by simp
qed

theorem overall_severity_correct_witness:
  "\<exists>a. classify_tool_contract_threats sample_contract (Some [(''x'', PStr ''a;b'')]) = Inr a
    \<and> ta_overall_severity a = HIGH"
proof -
  obtain a where a: "classify_tool_contract_threats sample_contract (Some [(''x'', PStr ''a;b'')]) = Inr a"
    by (simp add: classify_tool_contract_threats_def sample_contract_def SideEffectLevel_of_def all_levels_def Let_def)
  have "contains_shell_metacharacters ''a;b''" by code_simp
  with overall_severity_correct[OF a] a show ?thesis by (auto simp: argument_items_def)
qed

text \<open>The network-target test accepts exactly the texts that start with one of the URL
  schemes, or are four groups of one to three digits separated by dots, with an optional
  port, at most one newline after it, and nothing else.\<close>

theorem network_target_language:
  "looks_like_network_target v \<longleftrightarrow>
     (\<exists>p \<in> set network_schemes. prefix p v) \<or>
     (\<exists>a b c d t. v = a @ ''.'' @ b @ ''.'' @ c @ ''.'' @ d @ t
        \<and> digit_group a \<and> digit_group b \<and> digit_group c \<and> digit_group d \<and> quad_tail t)"
  by (simp add: looks_like_network_target_def dotted_quad_language list_ex_iff startswith_prefix)

text \<open>A contract of the enumeration survives the round trip through its dict form, so
  two such contracts with the same dict form are equal.\<close>

theorem tool_contract_roundtrip:
  assumes "contract_ok c"
  shows "ToolContract_from_dict (ToolContract_to_dict c) = Inr c"
  using assms by (rule contract_codec.decode_encode)

theorem tool_contract_roundtrip_witness:
  "ToolContract_from_dict (ToolContract_to_dict sample_contract) = Inr sample_contract"
  by (rule tool_contract_roundtrip) (simp add: contract_ok_def sample_contract_def all_levels_def)

end
