(* ===== verification/Motivation.thy ===== *)
theory Motivation
  imports Interfaces
begin

text \<open>
  \<open>neurolink_core/motivation.py\<close>: vitality signals, the policy that weighs them, and the
  vitality state they move. Scores, weights and magnitudes are Python ints; the urgency
  modifier is a float constant of the source.
\<close>

definition VITALITY_POLICY_IMPACT :: string where
  "VITALITY_POLICY_IMPACT = ''salience_and_tone_only''"

record VitalitySignal =
  vs_reason :: string
  vs_direction :: string
  vs_verified :: bool
  vs_magnitude :: int

definition make_VitalitySignal :: "string \<Rightarrow> string \<Rightarrow> bool \<Rightarrow> int \<Rightarrow> VitalitySignal result" where
  "make_VitalitySignal reason direction verified magnitude = (
     if magnitude < 1 then Inl (ValueError ''vitality signal magnitude must be >= 1'')
     else Inr \<lparr> vs_reason = reason, vs_direction = direction, vs_verified = verified,
                vs_magnitude = magnitude \<rparr>)"

record VitalityPolicy =
  vp_min_score :: int
  vp_max_score :: int
  vp_relaxed_min :: int
  vp_attentive_min :: int
  vp_concerned_min :: int
  vp_decay_weights :: "(string \<times> int) list"
  vp_replenishment_weights :: "(string \<times> int) list"

definition default_VitalityPolicy :: VitalityPolicy where
  "default_VitalityPolicy = \<lparr>
     vp_min_score = 0, vp_max_score = 100,
     vp_relaxed_min = 75, vp_attentive_min = 45, vp_concerned_min = 20,
     vp_decay_weights = [(''wall_clock_tick'', 3), (''no_effective_interaction'', 4),
       (''stale_memory'', 5), (''stalled_improvement'', 6), (''unresolved_fault'', 8),
       (''failed_test'', 10)],
     vp_replenishment_weights = [(''useful_interaction'', 4), (''memory_consolidation'', 6),
       (''tests_passed'', 8), (''unit_recovery'', 10), (''approved_improvement'', 12),
       (''release_gate_passed'', 14)] \<rparr>"

definition clamp :: "VitalityPolicy \<Rightarrow> int \<Rightarrow> int" where
  "clamp p score = max (vp_min_score p) (min (vp_max_score p) score)"

definition state_for_score :: "VitalityPolicy \<Rightarrow> int \<Rightarrow> string" where
  "state_for_score p score = (
     if score \<ge> vp_relaxed_min p then ''relaxed''
     else if score \<ge> vp_attentive_min p then ''attentive''
     else if score \<ge> vp_concerned_min p then ''concerned''
     else ''critical'')"

definition urgency_modifier_for_score :: "VitalityPolicy \<Rightarrow> int \<Rightarrow> pyfloat" where
  "urgency_modifier_for_score p score = (let state = state_for_score p score in
     if state = ''relaxed'' then fl (- 2/10)
     else if state = ''attentive'' then fl 0
     else if state = ''concerned'' then fl (35/100)
     else fl (7/10))"

definition delta_for :: "VitalityPolicy \<Rightarrow> VitalitySignal \<Rightarrow> int result" where
  "delta_for p s = (
     if vs_direction s = ''decay'' then
       (case map_of (vp_decay_weights p) (vs_reason s) of
          None \<Rightarrow> Inl (ValueError (''unknown vitality decay reason: '' @ vs_reason s))
        | Some weight \<Rightarrow> Inr (- (weight * vs_magnitude s)))
     else if \<not> vs_verified s then
       Inl (ValueError ''vitality replenishment requires verified evidence before it can be applied'')
     else
       (case map_of (vp_replenishment_weights p) (vs_reason s) of
          None \<Rightarrow> Inl (ValueError (''unknown vitality replenishment reason: '' @ vs_reason s))
        | Some weight \<Rightarrow> Inr (weight * vs_magnitude s)))"

record VitalityState =
  vst_score :: int
  vst_state :: string
  vst_last_decay_reason :: "string option"
  vst_last_replenishment_reason :: "string option"
  vst_urgency_modifier :: pyfloat
  vst_policy_impact :: string

definition VitalityState_from_score ::
    "int \<Rightarrow> VitalityPolicy option \<Rightarrow> string option \<Rightarrow> string option \<Rightarrow> VitalityState" where
  "VitalityState_from_score score policy last_decay last_replenishment = (
     let active_policy = (case policy of None \<Rightarrow> default_VitalityPolicy | Some p \<Rightarrow> p);
         clamped_score = clamp active_policy score in
     \<lparr> vst_score = clamped_score,
       vst_state = state_for_score active_policy clamped_score,
       vst_last_decay_reason = last_decay,
       vst_last_replenishment_reason = last_replenishment,
       vst_urgency_modifier = urgency_modifier_for_score active_policy clamped_score,
       vst_policy_impact = VITALITY_POLICY_IMPACT \<rparr>)"

definition VitalityState_to_dict :: "VitalityState \<Rightarrow> dict" where
  "VitalityState_to_dict s = [
     (''score'', PInt (vst_score s)),
     (''state'', PStr (vst_state s)),
     (''last_decay_reason'', opt_str (vst_last_decay_reason s)),
     (''last_replenishment_reason'', opt_str (vst_last_replenishment_reason s)),
     (''urgency_modifier'', PFloat (vst_urgency_modifier s)),
     (''policy_impact'', PStr (vst_policy_impact s))]"

record VitalityTransition =
  vt_previous :: VitalityState
  vt_current :: VitalityState
  vt_applied_delta :: int
  vt_signals :: "VitalitySignal list"

definition VitalityTransition_to_dict :: "VitalityTransition \<Rightarrow> dict" where
  "VitalityTransition_to_dict t = [
     (''previous'', PDict (VitalityState_to_dict (vt_previous t))),
     (''current'', PDict (VitalityState_to_dict (vt_current t))),
     (''applied_delta'', PInt (vt_applied_delta t)),
     (''signals'', PList (map (\<lambda>s. PDict [
        (''reason'', PStr (vs_reason s)),
        (''direction'', PStr (vs_direction s)),
        (''verified'', PBool (vs_verified s)),
        (''magnitude'', PInt (vs_magnitude s))]) (vt_signals t)))]"

definition vitality_loop_step :: "VitalityPolicy \<Rightarrow> int \<times> string option \<times> string option \<Rightarrow>
    VitalitySignal \<Rightarrow> (int \<times> string option \<times> string option) result" where
  "vitality_loop_step p acc s = (case acc of (next_score, last_decay, last_replenishment) \<Rightarrow>
     ebind (delta_for p s) (\<lambda>delta.
       if vs_direction s = ''decay''
       then Inr (next_score + delta, Some (vs_reason s), last_replenishment)
       else Inr (next_score + delta, last_decay, Some (vs_reason s))))"

definition apply_vitality_signals ::
    "VitalityState \<Rightarrow> VitalitySignal list \<Rightarrow> VitalityPolicy option \<Rightarrow> VitalityTransition result" where
  "apply_vitality_signals current signals policy = (
     let active_policy = (case policy of None \<Rightarrow> default_VitalityPolicy | Some p \<Rightarrow> p) in
     ebind (efold (vitality_loop_step active_policy)
         (vst_score current, vst_last_decay_reason current, vst_last_replenishment_reason current) signals)
       (\<lambda>(next_score, last_decay, last_replenishment).
        let next_state = VitalityState_from_score next_score (Some active_policy) last_decay last_replenishment in
        Inr \<lparr> vt_previous = current, vt_current = next_state,
              vt_applied_delta = vst_score next_state - vst_score current,
              vt_signals = signals \<rparr>))"

section \<open>Lemmas\<close>

definition active :: "VitalityPolicy option \<Rightarrow> VitalityPolicy" where
  "active policy = (case policy of None \<Rightarrow> default_VitalityPolicy | Some p \<Rightarrow> p)"

text \<open>The signal values the policy accepts, and the delta it gives them.\<close>

definition acceptable :: "VitalityPolicy \<Rightarrow> VitalitySignal \<Rightarrow> bool" where
  "acceptable p s \<longleftrightarrow> (if vs_direction s = ''decay'' then vs_reason s \<in> fst ` set (vp_decay_weights p)
     else vs_verified s \<and> vs_reason s \<in> fst ` set (vp_replenishment_weights p))"

definition delta_value :: "VitalityPolicy \<Rightarrow> VitalitySignal \<Rightarrow> int" where
  "delta_value p s = (case delta_for p s of Inr d \<Rightarrow> d | Inl _ \<Rightarrow> 0)"

lemma delta_for_acceptable: "(\<exists>d. delta_for p s = Inr d) \<longleftrightarrow> acceptable p s"
proof -
  have "k \<in> fst ` set ws \<longleftrightarrow> map_of ws k \<noteq> None" for k and ws :: "(string \<times> int) list"
    by (simp add: map_of_eq_None_iff)
  then show ?thesis by (auto simp: delta_for_def acceptable_def split: option.splits)
qed

lemma vitality_loop_step_Inr:
  "vitality_loop_step p (n, a, b) s = Inr acc \<Longrightarrow>
   acceptable p s \<and> (\<exists>a' b'. acc = (n + delta_value p s, a', b'))"
  using delta_for_acceptable[of p s]
  by (auto simp: vitality_loop_step_def delta_value_def split: if_splits)

lemma vitality_loop_step_total:
  "acceptable p s \<Longrightarrow> \<exists>acc'. vitality_loop_step p acc s = Inr acc'"
  using delta_for_acceptable[of p s]
  by (cases acc; cases "vs_direction s = ''decay''") (auto simp: vitality_loop_step_def)

lemma vitality_loop:
  "efold (vitality_loop_step p) (n, a, b) signals = Inr (n', a', b') \<Longrightarrow>
   n' = n + sum_list (map (delta_value p) signals) \<and> list_all (acceptable p) signals"
proof (induction signals arbitrary: n a b)
  case Nil
  then show ?case by simp
next
  case (Cons s signals)
  then obtain acc where acc: "vitality_loop_step p (n, a, b) s = Inr acc"
    and rest: "efold (vitality_loop_step p) acc signals = Inr (n', a', b')" by auto
  from vitality_loop_step_Inr[OF acc] obtain a1 b1 where
    "acceptable p s" and "acc = (n + delta_value p s, a1, b1)" by blast
  with Cons.IH rest show ?case by fastforce
qed

lemma vitality_loop_total:
  "list_all (acceptable p) signals \<Longrightarrow> \<exists>r. efold (vitality_loop_step p) acc signals = Inr r"
proof (induction signals arbitrary: acc)
  case Nil
  show ?case by (rule exI, rule efold.simps(1))
next
  case (Cons s signals)
  then obtain acc' where "vitality_loop_step p acc s = Inr acc'"
    using vitality_loop_step_total[of p s acc] by auto
  moreover obtain r where "efold (vitality_loop_step p) acc' signals = Inr r"
    using Cons.IH[of acc'] Cons.prems by auto
  ultimately have "efold (vitality_loop_step p) acc (s # signals) = Inr r" by simp
  then show ?case by blast
qed

lemma apply_vitality_Inr:
  assumes "apply_vitality_signals s signals policy = Inr t"
  shows "list_all (acceptable (active policy)) signals"
    and "vt_previous t = s" and "vt_signals t = signals"
    and "vst_score (vt_current t) =
      clamp (active policy) (vst_score s + sum_list (map (delta_value (active policy)) signals))"
    and "vt_applied_delta t = vst_score (vt_current t) - vst_score s"
    and "\<exists>n a b. vt_current t = VitalityState_from_score n (Some (active policy)) a b"
  using assms
  by (auto simp: apply_vitality_signals_def active_def[symmetric] Let_def VitalityState_from_score_def
      dest!: vitality_loop)

lemma apply_vitality_total:
  "(\<exists>t. apply_vitality_signals s signals policy = Inr t) \<longleftrightarrow> list_all (acceptable (active policy)) signals"
proof
  assume "\<exists>t. apply_vitality_signals s signals policy = Inr t"
  then show "list_all (acceptable (active policy)) signals" using apply_vitality_Inr(1) by blast
next
  assume "list_all (acceptable (active policy)) signals"
  from vitality_loop_total[OF this] show "\<exists>t. apply_vitality_signals s signals policy = Inr t"
    by (auto simp: apply_vitality_signals_def active_def[symmetric] Let_def split: prod.splits)
qed

text \<open>A vitality state whose label, urgency and impact are those of a score on the scale.\<close>

definition vitality_ok :: "VitalityPolicy \<Rightarrow> VitalityState \<Rightarrow> bool" where
  "vitality_ok p s \<longleftrightarrow> vp_min_score p \<le> vst_score s \<and> vst_score s \<le> vp_max_score p
     \<and> vst_state s = state_for_score p (vst_score s)
     \<and> vst_urgency_modifier s = urgency_modifier_for_score p (vst_score s)
     \<and> vst_policy_impact s = VITALITY_POLICY_IMPACT"

definition scale_ok :: "VitalityPolicy \<Rightarrow> bool" where
  "scale_ok p \<longleftrightarrow> vp_min_score p \<le> vp_max_score p"

lemma clamp_scale: "scale_ok p \<Longrightarrow> vp_min_score p \<le> clamp p n \<and> clamp p n \<le> vp_max_score p"
  by (auto simp: clamp_def scale_ok_def)

lemma from_score_ok: "scale_ok p \<Longrightarrow> vitality_ok p (VitalityState_from_score n (Some p) a b)"
  by (simp add: vitality_ok_def VitalityState_from_score_def Let_def clamp_scale)

text \<open>One application of signals as a step: the transition's current state.\<close>

definition vitality_step :: "VitalityPolicy \<Rightarrow> VitalityState \<Rightarrow> VitalitySignal list \<Rightarrow> VitalityState result" where
  "vitality_step p s signals = ebind (apply_vitality_signals s signals (Some p)) (\<lambda>t. Inr (vt_current t))"

interpretation vitality: checked_step "vitality_step p" "\<lambda>s. scale_ok p \<longrightarrow> vitality_ok p s" for p
proof
  fix s x s'
  assume "vitality_step p s x = Inr s'"
  then obtain t where t: "apply_vitality_signals s x (Some p) = Inr t" and s': "s' = vt_current t"
    by (auto simp: vitality_step_def)
  from apply_vitality_Inr(6)[OF t] s' show "scale_ok p \<longrightarrow> vitality_ok p s'"
    by (auto simp: active_def intro: from_score_ok)
qed

interpretation vitality_scale: bounded_scale "clamp default_VitalityPolicy" "\<lambda>n. 0 \<le> n \<and> n \<le> 100"
  by unfold_locales (simp add: clamp_def default_VitalityPolicy_def)

section \<open>Properties\<close>

text \<open>In any run of signal applications that does not raise, the state stays on the
  policy's scale, and its label, urgency modifier and policy impact are those the policy
  gives to its score.\<close>

theorem vitality_run_coherent:
  assumes "scale_ok p" and "vitality_ok p s" and "efold (vitality_step p) s batches = Inr t"
  shows "vitality_ok p t"
  using vitality.run_keeps[OF _ assms(3)] assms(1,2) by blast

theorem vitality_run_coherent_witness:
  "\<exists>t. efold (vitality_step default_VitalityPolicy)
      (VitalityState_from_score 50 (Some default_VitalityPolicy) None None)
      [[\<lparr> vs_reason = ''failed_test'', vs_direction = ''decay'', vs_verified = False, vs_magnitude = 9 \<rparr>]]
      = Inr t \<and> vitality_ok default_VitalityPolicy t"
proof -
  let ?s = "VitalityState_from_score 50 (Some default_VitalityPolicy) None None"
  let ?g = "\<lparr> vs_reason = ''failed_test'', vs_direction = ''decay'', vs_verified = False, vs_magnitude = 9 \<rparr>"
  have sc: "scale_ok default_VitalityPolicy" by (simp add: scale_ok_def default_VitalityPolicy_def)
  have "list_all (acceptable (active (Some default_VitalityPolicy))) [?g]"
    by (simp add: acceptable_def active_def default_VitalityPolicy_def)
  then obtain u where "apply_vitality_signals ?s [?g] (Some default_VitalityPolicy) = Inr u"
    using apply_vitality_total by blast
  then have t: "efold (vitality_step default_VitalityPolicy) ?s [[?g]] = Inr (vt_current u)"
    by (simp add: vitality_step_def)
  from vitality_run_coherent[OF sc from_score_ok[OF sc] t] t show ?thesis by blast
qed

text \<open>Applying signals succeeds exactly when every decay signal has a known reason and
  every other signal is verified and has a known reason; one bad signal rejects the whole
  batch. When it succeeds, the new score is the old one plus all deltas, clamped once at
  the end, so it does not depend on the order of the signals.\<close>

theorem apply_vitality_functional:
  "(if list_all (acceptable (active policy)) signals
    then \<exists>t. apply_vitality_signals s signals policy = Inr t
       \<and> vst_score (vt_current t) =
           clamp (active policy) (vst_score s + (\<Sum>g \<in># mset signals. delta_value (active policy) g))
       \<and> vt_applied_delta t = vst_score (vt_current t) - vst_score s
    else \<exists>e. apply_vitality_signals s signals policy = Inl e)"
proof (cases "list_all (acceptable (active policy)) signals")
  case True
  then obtain t where t: "apply_vitality_signals s signals policy = Inr t"
    using apply_vitality_total by blast
  from apply_vitality_Inr(4,5)[OF t] t True show ?thesis
    by (auto simp: sum_mset_sum_list simp flip: mset_map)
next
  case False
  with apply_vitality_total[of s signals policy] show ?thesis
    by (cases "apply_vitality_signals s signals policy") auto
qed

text \<open>Under a policy with non-negative weights, a score on the scale can only rise on
  verified evidence: if an application of well-formed signals increases the score, one of
  them is a verified replenishment with a known reason.\<close>

theorem vitality_increase_needs_evidence:
  assumes "apply_vitality_signals s signals policy = Inr t" and "0 < vt_applied_delta t"
    and "scale_ok (active policy)" and "vp_min_score (active policy) \<le> vst_score s"
    and "\<forall>w \<in> snd ` set (vp_decay_weights (active policy)). 0 \<le> w"
    and "\<forall>g \<in> set signals. 1 \<le> vs_magnitude g"
  shows "\<exists>g \<in> set signals. vs_direction g \<noteq> ''decay'' \<and> vs_verified g
    \<and> vs_reason g \<in> fst ` set (vp_replenishment_weights (active policy))"
proof (rule ccontr)
  assume none: "\<not> ?thesis"
  let ?p = "active policy"
  note ok = apply_vitality_Inr(1)[OF assms(1)]
  have "delta_value ?p g \<le> 0" if g: "g \<in> set signals" for g
  proof -
    have decay: "vs_direction g = ''decay''"
      using ok[unfolded list_all_iff acceptable_def, rule_format, OF g] none g
      by (auto split: if_splits)
    obtain w where w: "map_of (vp_decay_weights ?p) (vs_reason g) = Some w"
      using ok g decay by (fastforce simp: list_all_iff acceptable_def dest: weak_map_of_SomeI)
    then have "0 \<le> w" using assms(5) by (force dest: map_of_SomeD)
    moreover have "0 \<le> vs_magnitude g" using assms(6) g by fastforce
    ultimately show ?thesis using w decay by (simp add: delta_value_def delta_for_def)
  qed
  then have "sum_list (map (delta_value ?p) signals) \<le> 0"
    by (intro sum_list_nonpos) auto
  then have "clamp ?p (vst_score s + sum_list (map (delta_value ?p) signals)) \<le> vst_score s"
    using assms(4) by (auto simp: clamp_def)
  with apply_vitality_Inr(4,5)[OF assms(1)] assms(2) show False by simp
qed

theorem vitality_increase_needs_evidence_witness:
  "\<exists>t. apply_vitality_signals (VitalityState_from_score 50 None None None)
      [\<lparr> vs_reason = ''tests_passed'', vs_direction = ''replenish'', vs_verified = True, vs_magnitude = 1 \<rparr>] None
      = Inr t \<and> 0 < vt_applied_delta t
    \<and> (\<exists>g \<in> set [\<lparr> vs_reason = ''tests_passed'', vs_direction = ''replenish'', vs_verified = True, vs_magnitude = 1 \<rparr>].
         vs_verified g)"
proof -
  let ?s = "VitalityState_from_score 50 None None None"
  let ?g = "\<lparr> vs_reason = ''tests_passed'', vs_direction = ''replenish'', vs_verified = True, vs_magnitude = 1 \<rparr>"
  have "list_all (acceptable (active None)) [?g]"
    by (simp add: acceptable_def active_def default_VitalityPolicy_def)
  then obtain t where t: "apply_vitality_signals ?s [?g] None = Inr t"
    using apply_vitality_total by blast
  have d: "0 < vt_applied_delta t"
    using apply_vitality_Inr(4,5)[OF t]
    by (simp add: VitalityState_from_score_def Let_def active_def clamp_def delta_value_def delta_for_def
        default_VitalityPolicy_def)
  from vitality_increase_needs_evidence[OF t d] t d show ?thesis
    by (auto simp: active_def scale_ok_def default_VitalityPolicy_def VitalityState_from_score_def
        Let_def clamp_def)
qed

end
