(* ===== verification/SelfImprovement.thy ===== *)
theory SelfImprovement
  imports Motivation
begin

text \<open>
  \<open>neurolink_core/self_improvement.py\<close>: improvement proposals, their evidence and the
  operator's review.
\<close>

definition PROHIBITED_SELF_IMPROVEMENT_ACTIONS :: "string list" where
  "PROHIBITED_SELF_IMPROVEMENT_ACTIONS =
     [''git_push'', ''firmware_flash'', ''credential_mutation'', ''production_deploy'']"

record ImprovementEvidence =
  ie_tests_passed :: bool
  ie_lint_passed :: bool
  ie_smoke_passed :: bool
  ie_evidence_refs :: "string list"

definition default_ImprovementEvidence :: ImprovementEvidence where
  "default_ImprovementEvidence = \<lparr> ie_tests_passed = False, ie_lint_passed = False,
     ie_smoke_passed = False, ie_evidence_refs = [] \<rparr>"

definition verified_success :: "ImprovementEvidence \<Rightarrow> bool" where
  "verified_success e \<longleftrightarrow> ie_tests_passed e \<and> ie_lint_passed e \<and> ie_smoke_passed e"

definition ImprovementEvidence_to_dict :: "ImprovementEvidence \<Rightarrow> dict" where
  "ImprovementEvidence_to_dict e = [
     (''tests_passed'', PBool (ie_tests_passed e)),
     (''lint_passed'', PBool (ie_lint_passed e)),
     (''smoke_passed'', PBool (ie_smoke_passed e)),
     (''evidence_refs'', PList (map PStr (ie_evidence_refs e))),
     (''verified_success'', PBool (verified_success e))]"

record ImprovementProposal =
  ip_proposal_id :: string
  ip_source :: string
  ip_summary :: string
  ip_risk_level :: string
  ip_sandbox_mode :: string
  ip_status :: string
  ip_touches_code :: bool
  ip_targets_runtime :: bool
  ip_approval_required :: bool
  ip_prohibited_actions :: "string list"
  ip_evidence :: ImprovementEvidence

definition ImprovementProposal_to_dict :: "ImprovementProposal \<Rightarrow> dict" where
  "ImprovementProposal_to_dict p = [
     (''proposal_id'', PStr (ip_proposal_id p)),
     (''source'', PStr (ip_source p)),
     (''summary'', PStr (ip_summary p)),
     (''risk_level'', PStr (ip_risk_level p)),
     (''sandbox_mode'', PStr (ip_sandbox_mode p)),
     (''status'', PStr (ip_status p)),
     (''touches_code'', PBool (ip_touches_code p)),
     (''targets_runtime'', PBool (ip_targets_runtime p)),
     (''approval_required'', PBool (ip_approval_required p)),
     (''prohibited_actions'', PList (map PStr (ip_prohibited_actions p))),
     (''evidence'', PDict (ImprovementEvidence_to_dict (ip_evidence p)))]"

record ImprovementReview =
  ir_proposal :: ImprovementProposal
  ir_decision :: string
  ir_execution_mode :: string
  ir_can_apply_changes :: bool
  ir_vitality_replenishment_allowed :: bool
  ir_failure_reason :: "string option"

definition ImprovementReview_to_dict :: "ImprovementReview \<Rightarrow> dict" where
  "ImprovementReview_to_dict r = [
     (''proposal'', PDict (ImprovementProposal_to_dict (ir_proposal r))),
     (''decision'', PStr (ir_decision r)),
     (''execution_mode'', PStr (ir_execution_mode r)),
     (''can_apply_changes'', PBool (ir_can_apply_changes r)),
     (''vitality_replenishment_allowed'', PBool (ir_vitality_replenishment_allowed r)),
     (''failure_reason'', opt_str (ir_failure_reason r))]"

definition classify_improvement_risk :: "string \<Rightarrow> bool \<Rightarrow> bool \<Rightarrow> string" where
  "classify_improvement_risk source touches_code targets_runtime = (
     if targets_runtime then ''high''
     else if touches_code \<or> source \<in> {''failed_test'', ''maintenance_finding''} then ''medium''
     else ''low'')"

definition propose_self_improvement ::
    "string \<Rightarrow> string \<Rightarrow> string \<Rightarrow> bool \<Rightarrow> bool \<Rightarrow> ImprovementEvidence option \<Rightarrow> ImprovementProposal" where
  "propose_self_improvement proposal_id source summary touches_code targets_runtime evidence = \<lparr>
     ip_proposal_id = proposal_id,
     ip_source = source,
     ip_summary = summary,
     ip_risk_level = classify_improvement_risk source touches_code targets_runtime,
     ip_sandbox_mode = (if touches_code \<or> targets_runtime then ''isolated_workspace'' else ''simulation''),
     ip_status = ''pending_approval'',
     ip_touches_code = touches_code,
     ip_targets_runtime = targets_runtime,
     ip_approval_required = True,
     ip_prohibited_actions = PROHIBITED_SELF_IMPROVEMENT_ACTIONS,
     ip_evidence = (case evidence of None \<Rightarrow> default_ImprovementEvidence | Some e \<Rightarrow> e) \<rparr>"

definition review_self_improvement ::
    "ImprovementProposal \<Rightarrow> bool \<Rightarrow> ImprovementEvidence \<Rightarrow> ImprovementReview" where
  "review_self_improvement proposal approved evidence = (
     let reviewed = \<lparr>
           ip_proposal_id = ip_proposal_id proposal,
           ip_source = ip_source proposal,
           ip_summary = ip_summary proposal,
           ip_risk_level = ip_risk_level proposal,
           ip_sandbox_mode = ip_sandbox_mode proposal,
           ip_status = ip_status proposal,
           ip_touches_code = ip_touches_code proposal,
           ip_targets_runtime = ip_targets_runtime proposal,
           ip_approval_required = ip_approval_required proposal,
           ip_prohibited_actions = ip_prohibited_actions proposal,
           ip_evidence = evidence \<rparr> in
     if \<not> approved then
       \<lparr> ir_proposal = reviewed, ir_decision = ''denied'', ir_execution_mode = ''not_executed'',
         ir_can_apply_changes = False, ir_vitality_replenishment_allowed = False,
         ir_failure_reason = Some ''operator_denied'' \<rparr>
     else if \<not> verified_success evidence then
       \<lparr> ir_proposal = reviewed, ir_decision = ''approved'', ir_execution_mode = ''sandbox_only'',
         ir_can_apply_changes = False, ir_vitality_replenishment_allowed = False,
         ir_failure_reason = Some ''verified_evidence_incomplete'' \<rparr>
     else
       \<lparr> ir_proposal = reviewed, ir_decision = ''approved'', ir_execution_mode = ''sandbox_only'',
         ir_can_apply_changes = False, ir_vitality_replenishment_allowed = True,
         ir_failure_reason = None \<rparr>)"

section \<open>Properties\<close>

text \<open>No review, whatever the proposal, the operator's answer and the evidence, lets
  changes be applied; a proposal that the operator denied is not executed; vitality may be
  replenished exactly when the operator approved and tests, lint and smoke all passed; and
  the review changes nothing of the proposal but its evidence, so the prohibited actions
  and the approval requirement stay.\<close>

theorem review_never_applies:
  "let r = review_self_improvement p approved ev in
   \<not> ir_can_apply_changes r
   \<and> (ir_execution_mode r = ''not_executed'' \<longleftrightarrow> \<not> approved)
   \<and> (ir_vitality_replenishment_allowed r \<longleftrightarrow> approved \<and> verified_success ev)
   \<and> (ir_failure_reason r = None \<longleftrightarrow> ir_vitality_replenishment_allowed r)
   \<and> ir_proposal r = p\<lparr>ip_evidence := ev\<rparr>"
  by (cases p) (simp add: review_self_improvement_def Let_def)

text \<open>Every proposal waits for approval and carries all prohibited actions; one that
  touches code or the running system is never run outside an isolated workspace nor rated
  low, and one that targets the running system is rated high.\<close>

theorem proposals_are_gated:
  "let p = propose_self_improvement pid source summary touches_code targets_runtime ev in
   ip_approval_required p \<and> ip_status p = ''pending_approval''
   \<and> set (ip_prohibited_actions p) = {''git_push'', ''firmware_flash'', ''credential_mutation'', ''production_deploy''}
   \<and> (ip_sandbox_mode p = ''isolated_workspace'' \<longleftrightarrow> touches_code \<or> targets_runtime)
   \<and> (ip_risk_level p = ''high'' \<longleftrightarrow> targets_runtime)
   \<and> (ip_risk_level p = ''low'' \<longleftrightarrow> \<not> targets_runtime \<and> \<not> touches_code
        \<and> source \<noteq> ''failed_test'' \<and> source \<noteq> ''maintenance_finding'')"
  by (simp add: propose_self_improvement_def Let_def PROHIBITED_SELF_IMPROVEMENT_ACTIONS_def
      classify_improvement_risk_def)

end
