(* ===== verification/Persona.thy ===== *)
theory Persona
  imports Interfaces Sha256
begin

text \<open>
  \<open>neurolink_core/persona.py\<close>: the seed configuration of a persona, the evidence-gated
  growth state, the relationship summaries, and the two operations that change a persona
  (signals and redaction). A field the code copies from a payload without a conversion
  (\<open>created_at\<close>, \<open>updated_at\<close>, \<open>last_interaction_reason\<close>) holds any value.
\<close>

definition clamp_axis :: "pyfloat \<Rightarrow> pyfloat \<Rightarrow> pyfloat \<Rightarrow> pyfloat" where
  "clamp_axis minimum maximum v = fl_max minimum (fl_min maximum (fl_round 4 v))"

definition stable_hash :: "dict \<Rightarrow> string" where
  "stable_hash payload = sha256_hex (json_text '','' '':'' (PDict payload))"

definition string_tuple :: "pyval \<Rightarrow> string list result" where
  "string_tuple v = str_items (por v (PList []))"

abbreviation unit_axis :: "pyfloat \<Rightarrow> pyfloat" where
  "unit_axis \<equiv> clamp_axis (Fin 0) (Fin 1)"

abbreviation signed_axis :: "pyfloat \<Rightarrow> pyfloat" where
  "signed_axis \<equiv> clamp_axis (Fin (- 1)) (Fin 1)"

text \<open>\<open>_clamp(float(payload.get(k, default)), ...)\<close>.\<close>

definition axis_field :: "(pyfloat \<Rightarrow> pyfloat) \<Rightarrow> dict \<Rightarrow> string \<Rightarrow> pyfloat \<Rightarrow> pyfloat result" where
  "axis_field c payload k dflt =
     ebind (py_float (dget_or payload k (PFloat dflt))) (\<lambda>x. Inr (c x))"

definition PERSONA_GROWTH_RUNTIME_SOURCES :: "string list" where
  "PERSONA_GROWTH_RUNTIME_SOURCES =
     [''social_interaction'', ''unit_event'', ''relationship_summary'', ''vitality_transition'',
      ''self_improvement'']"

section \<open>Seed configuration\<close>

record PersonaSeedConfig =
  sc_persona_id :: string
  sc_seed_name :: string
  sc_mood :: string
  sc_valence :: pyfloat
  sc_arousal :: pyfloat
  sc_curiosity :: pyfloat
  sc_fatigue :: pyfloat
  sc_social_openness :: pyfloat
  sc_vitality_summary :: string
  sc_relationship_style :: string
  sc_immutable_boundaries :: "string list"
  sc_created_at :: pyval

definition PersonaSeedConfig_from_dict :: "dict \<Rightarrow> PersonaSeedConfig result" where
  "PersonaSeedConfig_from_dict payload =
     ebind (axis_field signed_axis payload ''valence'' (Fin 0)) (\<lambda>valence.
     ebind (axis_field unit_axis payload ''arousal'' (Fin 0)) (\<lambda>arousal.
     ebind (axis_field unit_axis payload ''curiosity'' (Fin (1/2))) (\<lambda>curiosity.
     ebind (axis_field unit_axis payload ''fatigue'' (Fin 0)) (\<lambda>fatigue.
     ebind (axis_field unit_axis payload ''social_openness'' (Fin (1/2))) (\<lambda>openness.
     ebind (string_tuple (dget payload ''immutable_boundaries'')) (\<lambda>boundaries.
     Inr \<lparr> sc_persona_id = str_or (dget payload ''persona_id'') ''affective-main'',
           sc_seed_name = str_or (dget payload ''seed_name'') ''default'',
           sc_mood = str_or (dget payload ''mood'') ''steady'',
           sc_valence = valence, sc_arousal = arousal, sc_curiosity = curiosity,
           sc_fatigue = fatigue, sc_social_openness = openness,
           sc_vitality_summary = str_or (dget payload ''vitality_summary'') ''attentive'',
           sc_relationship_style = str_or (dget payload ''relationship_style'') ''warm'',
           sc_immutable_boundaries = boundaries,
           sc_created_at = dget payload ''created_at'' \<rparr>))))))"

definition PersonaSeedConfig_to_dict :: "PersonaSeedConfig \<Rightarrow> dict" where
  "PersonaSeedConfig_to_dict c = [
     (''persona_id'', PStr (sc_persona_id c)),
     (''seed_name'', PStr (sc_seed_name c)),
     (''mood'', PStr (sc_mood c)),
     (''valence'', PFloat (sc_valence c)),
     (''arousal'', PFloat (sc_arousal c)),
     (''curiosity'', PFloat (sc_curiosity c)),
     (''fatigue'', PFloat (sc_fatigue c)),
     (''social_openness'', PFloat (sc_social_openness c)),
     (''vitality_summary'', PStr (sc_vitality_summary c)),
     (''relationship_style'', PStr (sc_relationship_style c)),
     (''immutable_boundaries'', PList (map PStr (sc_immutable_boundaries c))),
     (''created_at'', sc_created_at c)]"

definition compute_persona_seed_fingerprint :: "PersonaSeedConfig \<Rightarrow> string" where
  "compute_persona_seed_fingerprint c = stable_hash (PersonaSeedConfig_to_dict c)"

section \<open>Growth evidence and relationship summaries\<close>

record PersonaGrowthEvidence =
  ev_event_id :: string
  ev_source :: string
  ev_reason :: string
  ev_recorded_at :: string
  ev_principal_id :: "string option"
  ev_summary :: string

definition PersonaGrowthEvidence_from_dict :: "dict \<Rightarrow> PersonaGrowthEvidence result" where
  "PersonaGrowthEvidence_from_dict payload = Inr
     \<lparr> ev_event_id = str_or (dget payload ''event_id'') [],
       ev_source = str_or (dget payload ''source'') [],
       ev_reason = str_or (dget payload ''reason'') [],
       ev_recorded_at = str_or (dget payload ''recorded_at'') [],
       ev_principal_id = opt_str_of (dget payload ''principal_id''),
       ev_summary = str_or (dget payload ''summary'') [] \<rparr>"

definition PersonaGrowthEvidence_to_dict :: "PersonaGrowthEvidence \<Rightarrow> dict" where
  "PersonaGrowthEvidence_to_dict e = [
     (''event_id'', PStr (ev_event_id e)),
     (''source'', PStr (ev_source e)),
     (''reason'', PStr (ev_reason e)),
     (''recorded_at'', PStr (ev_recorded_at e)),
     (''principal_id'', opt_str (ev_principal_id e)),
     (''summary'', PStr (ev_summary e))]"

record RelationshipSummary =
  rs_principal_id :: string
  rs_trust :: pyfloat
  rs_familiarity :: pyfloat
  rs_preferred_address :: string
  rs_boundaries :: "string list"
  rs_last_interaction_reason :: pyval

definition new_RelationshipSummary :: "string \<Rightarrow> RelationshipSummary" where
  "new_RelationshipSummary pid = \<lparr> rs_principal_id = pid, rs_trust = Fin (1/2),
     rs_familiarity = Fin 0, rs_preferred_address = [], rs_boundaries = [],
     rs_last_interaction_reason = PNone \<rparr>"

definition RelationshipSummary_from_dict :: "dict \<Rightarrow> RelationshipSummary result" where
  "RelationshipSummary_from_dict payload =
     ebind (axis_field unit_axis payload ''trust'' (Fin (1/2))) (\<lambda>trust.
     ebind (axis_field unit_axis payload ''familiarity'' (Fin 0)) (\<lambda>familiarity.
     ebind (string_tuple (dget payload ''boundaries'')) (\<lambda>boundaries.
     Inr \<lparr> rs_principal_id = str_or (dget payload ''principal_id'') ''unknown'',
           rs_trust = trust, rs_familiarity = familiarity,
           rs_preferred_address = str_or (dget payload ''preferred_address'') [],
           rs_boundaries = boundaries,
           rs_last_interaction_reason = dget payload ''last_interaction_reason'' \<rparr>)))"

definition RelationshipSummary_to_dict :: "RelationshipSummary \<Rightarrow> dict" where
  "RelationshipSummary_to_dict r = [
     (''principal_id'', PStr (rs_principal_id r)),
     (''trust'', PFloat (rs_trust r)),
     (''familiarity'', PFloat (rs_familiarity r)),
     (''preferred_address'', PStr (rs_preferred_address r)),
     (''boundaries'', PList (map PStr (rs_boundaries r))),
     (''last_interaction_reason'', rs_last_interaction_reason r)]"

definition RelationshipSummary_rational_summary :: "RelationshipSummary \<Rightarrow> dict" where
  "RelationshipSummary_rational_summary r = [
     (''principal_id'', PStr (rs_principal_id r)),
     (''trust'', PFloat (rs_trust r)),
     (''familiarity'', PFloat (rs_familiarity r)),
     (''last_interaction_reason'', rs_last_interaction_reason r)]"

record PersonaSignal =
  sg_reason :: string
  sg_mood :: "string option"
  sg_valence_delta :: pyfloat
  sg_arousal_delta :: pyfloat
  sg_curiosity_delta :: pyfloat
  sg_fatigue_delta :: pyfloat
  sg_social_openness_delta :: pyfloat
  sg_principal_id :: "string option"
  sg_trust_delta :: pyfloat
  sg_familiarity_delta :: pyfloat
  sg_preferred_address :: "string option"
  sg_boundary_note :: "string option"

section \<open>Growth state\<close>

record PersonaGrowthState =
  gs_persona_id :: string
  gs_seed_fingerprint :: string
  gs_revision :: int
  gs_social_interaction_count :: int
  gs_unit_event_count :: int
  gs_relationship_summary_count :: int
  gs_vitality_event_count :: int
  gs_self_improvement_count :: int
  gs_evidence_event_ids :: "string list"
  gs_last_evidence_source :: "string option"
  gs_last_evidence_reason :: "string option"
  gs_last_evidence_at :: "string option"
  gs_provenance_hash :: string

text \<open>\<open>int(payload.get(k) or default)\<close>.\<close>

definition int_field :: "dict \<Rightarrow> string \<Rightarrow> int \<Rightarrow> int result" where
  "int_field payload k dflt = py_int (por (dget payload k) (PInt dflt))"

definition PersonaGrowthState_from_dict :: "dict \<Rightarrow> PersonaGrowthState result" where
  "PersonaGrowthState_from_dict payload =
     ebind (int_field payload ''revision'' 0) (\<lambda>revision.
     ebind (int_field payload ''social_interaction_count'' 0) (\<lambda>social.
     ebind (int_field payload ''unit_event_count'' 0) (\<lambda>unit_events.
     ebind (int_field payload ''relationship_summary_count'' 0) (\<lambda>relationship.
     ebind (int_field payload ''vitality_event_count'' 0) (\<lambda>vitality.
     ebind (int_field payload ''self_improvement_count'' 0) (\<lambda>improvement.
     ebind (string_tuple (dget payload ''evidence_event_ids'')) (\<lambda>ids.
     Inr \<lparr> gs_persona_id = str_or (dget payload ''persona_id'') ''affective-main'',
           gs_seed_fingerprint = str_or (dget payload ''seed_fingerprint'') [],
           gs_revision = revision, gs_social_interaction_count = social,
           gs_unit_event_count = unit_events, gs_relationship_summary_count = relationship,
           gs_vitality_event_count = vitality, gs_self_improvement_count = improvement,
           gs_evidence_event_ids = ids,
           gs_last_evidence_source = opt_str_of (dget payload ''last_evidence_source''),
           gs_last_evidence_reason = opt_str_of (dget payload ''last_evidence_reason''),
           gs_last_evidence_at = opt_str_of (dget payload ''last_evidence_at''),
           gs_provenance_hash = str_or (dget payload ''provenance_hash'') [] \<rparr>)))))))"

definition PersonaGrowthState_to_dict :: "PersonaGrowthState \<Rightarrow> dict" where
  "PersonaGrowthState_to_dict g = [
     (''persona_id'', PStr (gs_persona_id g)),
     (''seed_fingerprint'', PStr (gs_seed_fingerprint g)),
     (''revision'', PInt (gs_revision g)),
     (''social_interaction_count'', PInt (gs_social_interaction_count g)),
     (''unit_event_count'', PInt (gs_unit_event_count g)),
     (''relationship_summary_count'', PInt (gs_relationship_summary_count g)),
     (''vitality_event_count'', PInt (gs_vitality_event_count g)),
     (''self_improvement_count'', PInt (gs_self_improvement_count g)),
     (''evidence_event_ids'', PList (map PStr (gs_evidence_event_ids g))),
     (''last_evidence_source'', opt_str (gs_last_evidence_source g)),
     (''last_evidence_reason'', opt_str (gs_last_evidence_reason g)),
     (''last_evidence_at'', opt_str (gs_last_evidence_at g)),
     (''provenance_hash'', PStr (gs_provenance_hash g))]"

section \<open>Persona state\<close>

record PersonaState =
  ps_persona_id :: string
  ps_version :: int
  ps_mood :: string
  ps_valence :: pyfloat
  ps_arousal :: pyfloat
  ps_curiosity :: pyfloat
  ps_fatigue :: pyfloat
  ps_social_openness :: pyfloat
  ps_vitality_summary :: string
  ps_relationship_summaries :: "RelationshipSummary list"
  ps_seed_config :: "PersonaSeedConfig option"
  ps_growth_state :: "PersonaGrowthState option"
  ps_provenance_hash :: "string option"
  ps_updated_at :: pyval

text \<open>\<open>C.from_dict(payload.get(k) or {}) if payload.get(k) else None\<close>.\<close>

definition opt_record :: "(dict \<Rightarrow> 'a result) \<Rightarrow> pyval \<Rightarrow> 'a option result" where
  "opt_record from_dict v = (if truthy v then ebind (as_dict v) (\<lambda>d. ebind (from_dict d) (\<lambda>r. Inr (Some r)))
     else Inr None)"

definition PersonaState_from_dict :: "dict \<Rightarrow> PersonaState result" where
  "PersonaState_from_dict payload =
     ebind (int_field payload ''version'' 1) (\<lambda>version.
     ebind (axis_field signed_axis payload ''valence'' (Fin 0)) (\<lambda>valence.
     ebind (axis_field unit_axis payload ''arousal'' (Fin 0)) (\<lambda>arousal.
     ebind (axis_field unit_axis payload ''curiosity'' (Fin (1/2))) (\<lambda>curiosity.
     ebind (axis_field unit_axis payload ''fatigue'' (Fin 0)) (\<lambda>fatigue.
     ebind (axis_field unit_axis payload ''social_openness'' (Fin (1/2))) (\<lambda>openness.
     ebind (py_list (por (dget payload ''relationship_summaries'') (PList []))) (\<lambda>items.
     ebind (emap (\<lambda>v. ebind (as_dict v) RelationshipSummary_from_dict) items) (\<lambda>relationships.
     ebind (opt_record PersonaSeedConfig_from_dict (dget payload ''seed_config'')) (\<lambda>seed.
     ebind (opt_record PersonaGrowthState_from_dict (dget payload ''growth_state'')) (\<lambda>growth.
     Inr \<lparr> ps_persona_id = str_or (dget payload ''persona_id'') ''affective-main'',
           ps_version = version,
           ps_mood = str_or (dget payload ''mood'') ''steady'',
           ps_valence = valence, ps_arousal = arousal, ps_curiosity = curiosity,
           ps_fatigue = fatigue, ps_social_openness = openness,
           ps_vitality_summary = str_or (dget payload ''vitality_summary'') ''attentive'',
           ps_relationship_summaries = relationships,
           ps_seed_config = seed, ps_growth_state = growth,
           ps_provenance_hash = opt_str_of (dget payload ''provenance_hash''),
           ps_updated_at = dget payload ''updated_at'' \<rparr>))))))))))"

definition PersonaState_to_dict :: "PersonaState \<Rightarrow> dict" where
  "PersonaState_to_dict s = [
     (''persona_id'', PStr (ps_persona_id s)),
     (''version'', PInt (ps_version s)),
     (''mood'', PStr (ps_mood s)),
     (''valence'', PFloat (ps_valence s)),
     (''arousal'', PFloat (ps_arousal s)),
     (''curiosity'', PFloat (ps_curiosity s)),
     (''fatigue'', PFloat (ps_fatigue s)),
     (''social_openness'', PFloat (ps_social_openness s)),
     (''vitality_summary'', PStr (ps_vitality_summary s)),
     (''relationship_summaries'',
        PList (map (\<lambda>r. PDict (RelationshipSummary_to_dict r)) (ps_relationship_summaries s))),
     (''seed_config'', case ps_seed_config s of None \<Rightarrow> PNone
        | Some c \<Rightarrow> PDict (PersonaSeedConfig_to_dict c)),
     (''growth_state'', case ps_growth_state s of None \<Rightarrow> PNone
        | Some g \<Rightarrow> PDict (PersonaGrowthState_to_dict g)),
     (''provenance_hash'', opt_str (ps_provenance_hash s)),
     (''updated_at'', ps_updated_at s)]"

definition PersonaState_rational_summary :: "PersonaState \<Rightarrow> dict" where
  "PersonaState_rational_summary s = [
     (''persona_id'', PStr (ps_persona_id s)),
     (''mood'', PStr (ps_mood s)),
     (''valence'', PFloat (ps_valence s)),
     (''arousal'', PFloat (ps_arousal s)),
     (''curiosity'', PFloat (ps_curiosity s)),
     (''fatigue'', PFloat (ps_fatigue s)),
     (''social_openness'', PFloat (ps_social_openness s)),
     (''vitality_summary'', PStr (ps_vitality_summary s)),
     (''relationship_summaries'', PList (map (\<lambda>r. PDict (RelationshipSummary_rational_summary r))
        (ps_relationship_summaries s))),
     (''growth_state'', case ps_growth_state s of None \<Rightarrow> PNone
        | Some g \<Rightarrow> PDict [
            (''revision'', PInt (gs_revision g)),
            (''last_evidence_source'', opt_str (gs_last_evidence_source g)),
            (''last_evidence_reason'', opt_str (gs_last_evidence_reason g))])]"

section \<open>Operations\<close>

definition initialize_persona_state_from_seed :: "PersonaSeedConfig \<Rightarrow> pyval \<Rightarrow> PersonaState" where
  "initialize_persona_state_from_seed c updated_at =
     \<lparr> ps_persona_id = sc_persona_id c, ps_version = 1, ps_mood = sc_mood c,
       ps_valence = sc_valence c, ps_arousal = sc_arousal c, ps_curiosity = sc_curiosity c,
       ps_fatigue = sc_fatigue c, ps_social_openness = sc_social_openness c,
       ps_vitality_summary = sc_vitality_summary c, ps_relationship_summaries = [],
       ps_seed_config = None, ps_growth_state = None, ps_provenance_hash = None,
       ps_updated_at = por updated_at (sc_created_at c) \<rparr>"

definition compute_persona_growth_provenance_hash :: "PersonaGrowthState \<Rightarrow> string" where
  "compute_persona_growth_provenance_hash g =
     stable_hash (dset (PersonaGrowthState_to_dict g) ''provenance_hash'' (PStr []))"

definition initialize_persona_growth_state :: "PersonaSeedConfig \<Rightarrow> PersonaGrowthState" where
  "initialize_persona_growth_state c = (
     let g = \<lparr> gs_persona_id = sc_persona_id c,
               gs_seed_fingerprint = compute_persona_seed_fingerprint c,
               gs_revision = 0, gs_social_interaction_count = 0, gs_unit_event_count = 0,
               gs_relationship_summary_count = 0, gs_vitality_event_count = 0,
               gs_self_improvement_count = 0, gs_evidence_event_ids = [],
               gs_last_evidence_source = None, gs_last_evidence_reason = None,
               gs_last_evidence_at = None, gs_provenance_hash = [] \<rparr>
     in g\<lparr> gs_provenance_hash := compute_persona_growth_provenance_hash g \<rparr>)"

definition increments :: "(string \<times> (int \<times> int \<times> int \<times> int \<times> int)) list" where
  "increments = [
     (''social_interaction'', (1, 0, 0, 0, 0)),
     (''unit_event'', (0, 1, 0, 0, 0)),
     (''relationship_summary'', (0, 0, 1, 0, 0)),
     (''vitality_transition'', (0, 0, 0, 1, 0)),
     (''self_improvement'', (0, 0, 0, 0, 1))]"

definition apply_persona_growth_evidence ::
    "PersonaGrowthState \<Rightarrow> PersonaGrowthEvidence \<Rightarrow> PersonaGrowthState result" where
  "apply_persona_growth_evidence current evidence = (
     if ev_source evidence \<notin> set PERSONA_GROWTH_RUNTIME_SOURCES
       then Inl (ValueError ''persona_growth_requires_runtime_evidence'')
     else if ev_event_id evidence = []
       then Inl (ValueError ''persona_growth_requires_event_id'')
     else if ev_event_id evidence \<in> set (gs_evidence_event_ids current)
       then Inl (ValueError ''persona_growth_event_already_recorded'')
     else (case map_of increments (ev_source evidence) of
         None \<Rightarrow> Inl (KeyError (ev_source evidence))
       | Some (social_delta, unit_delta, relationship_delta, vitality_delta, improvement_delta) \<Rightarrow>
         let updated = \<lparr>
           gs_persona_id = gs_persona_id current,
           gs_seed_fingerprint = gs_seed_fingerprint current,
           gs_revision = gs_revision current + 1,
           gs_social_interaction_count = gs_social_interaction_count current + social_delta,
           gs_unit_event_count = gs_unit_event_count current + unit_delta,
           gs_relationship_summary_count = gs_relationship_summary_count current + relationship_delta,
           gs_vitality_event_count = gs_vitality_event_count current + vitality_delta,
           gs_self_improvement_count = gs_self_improvement_count current + improvement_delta,
           gs_evidence_event_ids = gs_evidence_event_ids current @ [ev_event_id evidence],
           gs_last_evidence_source = Some (ev_source evidence),
           gs_last_evidence_reason = Some (ev_reason evidence),
           gs_last_evidence_at = Some (ev_recorded_at evidence),
           gs_provenance_hash = [] \<rparr>
         in Inr (updated\<lparr> gs_provenance_hash := compute_persona_growth_provenance_hash updated \<rparr>)))"

definition compute_persona_immutability_stamp ::
    "PersonaSeedConfig \<Rightarrow> PersonaState \<Rightarrow> PersonaGrowthState \<Rightarrow> string" where
  "compute_persona_immutability_stamp c s g = stable_hash [
     (''seed'', PDict (PersonaSeedConfig_to_dict c)),
     (''persona_state'', PDict (PersonaState_to_dict s)),
     (''growth_state'', PDict (PersonaGrowthState_to_dict g))]"

definition persona_immutability_tampered ::
    "string \<Rightarrow> PersonaSeedConfig \<Rightarrow> PersonaState \<Rightarrow> PersonaGrowthState \<Rightarrow> bool" where
  "persona_immutability_tampered expected_stamp c s g =
     (expected_stamp \<noteq> compute_persona_immutability_stamp c s g)"

text \<open>The loop body of \<open>apply_persona_signals\<close>, split at the relationship table.\<close>

definition relate :: "RelationshipSummary \<Rightarrow> PersonaSignal \<Rightarrow> RelationshipSummary" where
  "relate previous signal = (
     let boundaries = (case sg_boundary_note signal of None \<Rightarrow> rs_boundaries previous
         | Some note \<Rightarrow> if note \<noteq> [] \<and> note \<notin> set (rs_boundaries previous)
             then rs_boundaries previous @ [note] else rs_boundaries previous)
     in \<lparr> rs_principal_id = (case sg_principal_id signal of None \<Rightarrow> [] | Some pid \<Rightarrow> pid),
          rs_trust = unit_axis (fl_add (rs_trust previous) (sg_trust_delta signal)),
          rs_familiarity = unit_axis (fl_add (rs_familiarity previous) (sg_familiarity_delta signal)),
          rs_preferred_address = text_or (sg_preferred_address signal) (rs_preferred_address previous),
          rs_boundaries = boundaries,
          rs_last_interaction_reason = PStr (sg_reason signal) \<rparr>)"

type_synonym rel_table = "(string \<times> RelationshipSummary) list"

definition relate_in :: "rel_table \<Rightarrow> PersonaSignal \<Rightarrow> rel_table" where
  "relate_in relationships signal = (case sg_principal_id signal of
     None \<Rightarrow> relationships
   | Some pid \<Rightarrow> if pid = [] then relationships
       else let previous = (case map_of relationships pid of
                Some r \<Rightarrow> r | None \<Rightarrow> new_RelationshipSummary pid)
            in AList.update pid (relate previous signal) relationships)"

record persona_loop =
  pl_mood :: string
  pl_valence :: pyfloat
  pl_arousal :: pyfloat
  pl_curiosity :: pyfloat
  pl_fatigue :: pyfloat
  pl_social_openness :: pyfloat
  pl_relationships :: rel_table

definition persona_signal_step :: "persona_loop \<Rightarrow> PersonaSignal \<Rightarrow> persona_loop" where
  "persona_signal_step s signal = \<lparr>
     pl_mood = text_or (sg_mood signal) (pl_mood s),
     pl_valence = signed_axis (fl_add (pl_valence s) (sg_valence_delta signal)),
     pl_arousal = unit_axis (fl_add (pl_arousal s) (sg_arousal_delta signal)),
     pl_curiosity = unit_axis (fl_add (pl_curiosity s) (sg_curiosity_delta signal)),
     pl_fatigue = unit_axis (fl_add (pl_fatigue s) (sg_fatigue_delta signal)),
     pl_social_openness = unit_axis (fl_add (pl_social_openness s) (sg_social_openness_delta signal)),
     pl_relationships = relate_in (pl_relationships s) signal \<rparr>"

definition relationship_table :: "RelationshipSummary list \<Rightarrow> rel_table" where
  "relationship_table rs = foldl (\<lambda>t r. AList.update (rs_principal_id r) r t) [] rs"

definition apply_persona_signals ::
    "PersonaState \<Rightarrow> PersonaSignal list \<Rightarrow> string option \<Rightarrow> pyval \<Rightarrow> PersonaState" where
  "apply_persona_signals current signals vitality_summary updated_at = (
     let l = foldl persona_signal_step
           \<lparr> pl_mood = ps_mood current, pl_valence = ps_valence current,
             pl_arousal = ps_arousal current, pl_curiosity = ps_curiosity current,
             pl_fatigue = ps_fatigue current, pl_social_openness = ps_social_openness current,
             pl_relationships = relationship_table (ps_relationship_summaries current) \<rparr> signals
     in \<lparr> ps_persona_id = ps_persona_id current, ps_version = ps_version current,
          ps_mood = pl_mood l, ps_valence = pl_valence l, ps_arousal = pl_arousal l,
          ps_curiosity = pl_curiosity l, ps_fatigue = pl_fatigue l,
          ps_social_openness = pl_social_openness l,
          ps_vitality_summary = text_or vitality_summary (ps_vitality_summary current),
          ps_relationship_summaries = sort_key rs_principal_id (map snd (pl_relationships l)),
          ps_seed_config = None, ps_growth_state = None, ps_provenance_hash = None,
          ps_updated_at = por updated_at (ps_updated_at current) \<rparr>)"

definition redact_relationships :: "PersonaState \<Rightarrow> string list \<Rightarrow> pyval \<Rightarrow> PersonaState" where
  "redact_relationships current principal_ids updated_at =
     \<lparr> ps_persona_id = ps_persona_id current, ps_version = ps_version current,
       ps_mood = ps_mood current, ps_valence = ps_valence current,
       ps_arousal = ps_arousal current, ps_curiosity = ps_curiosity current,
       ps_fatigue = ps_fatigue current, ps_social_openness = ps_social_openness current,
       ps_vitality_summary = ps_vitality_summary current,
       ps_relationship_summaries = filter (\<lambda>r. rs_principal_id r \<notin> set principal_ids)
         (ps_relationship_summaries current),
       ps_seed_config = None, ps_growth_state = None, ps_provenance_hash = None,
       ps_updated_at = por updated_at (ps_updated_at current) \<rparr>"

section \<open>Axes\<close>

lemma fl_round4_bounds [simp]:
  "fl_round 4 (Fin 1) = Fin 1" "fl_round 4 (Fin 0) = Fin 0" "fl_round 4 (Fin (- 1)) = Fin (- 1)"
  by code_simp+

text \<open>A stored axis value: a fixed point of the clamp of its axis.\<close>

definition on_axis :: "rat \<Rightarrow> rat \<Rightarrow> pyfloat \<Rightarrow> bool" where
  "on_axis lo hi x \<longleftrightarrow> (case x of Fin q \<Rightarrow> lo \<le> q \<and> q \<le> hi | _ \<Rightarrow> False)"

lemma clamp_axis_cases:
  "lo \<le> hi \<Longrightarrow> clamp_axis (Fin lo) (Fin hi) v = Fin lo \<or> clamp_axis (Fin lo) (Fin hi) v = Fin hi
   \<or> (\<exists>q. fl_round 4 v = Fin q \<and> lo \<le> q \<and> q \<le> hi \<and> clamp_axis (Fin lo) (Fin hi) v = Fin q)"
  by (cases "fl_round 4 v") (auto simp: clamp_axis_def fl_max_def fl_min_def)

lemma clamp_axis_on: "lo \<le> hi \<Longrightarrow> on_axis lo hi (clamp_axis (Fin lo) (Fin hi) v)"
  using clamp_axis_cases[of lo hi v] by (auto simp: on_axis_def)

lemma clamp_axis_fix:
  "fl_round 4 (Fin q) = Fin q \<Longrightarrow> lo \<le> q \<Longrightarrow> q \<le> hi \<Longrightarrow> clamp_axis (Fin lo) (Fin hi) (Fin q) = Fin q"
  by (auto simp: clamp_axis_def fl_max_def fl_min_def)

lemma clamp_axis_idem:
  assumes "lo \<le> hi" "- 1 \<le> lo" "hi \<le> 1"
    and "fl_round 4 (Fin lo) = Fin lo" "fl_round 4 (Fin hi) = Fin hi"
  shows "clamp_axis (Fin lo) (Fin hi) (clamp_axis (Fin lo) (Fin hi) v) = clamp_axis (Fin lo) (Fin hi) v"
  using clamp_axis_cases[OF assms(1), of v]
proof (elim disjE exE conjE)
  fix q
  assume q: "fl_round 4 v = Fin q" "lo \<le> q" "q \<le> hi" "clamp_axis (Fin lo) (Fin hi) v = Fin q"
  have "\<bar>q\<bar> \<le> 1" using q assms by linarith
  from fl_round4_idem[OF q(1) this] q show ?thesis by (simp add: clamp_axis_fix)
qed (use assms in \<open>simp_all add: clamp_axis_fix\<close>)

lemma unit_axis_idem [simp]: "unit_axis (unit_axis v) = unit_axis v"
  by (rule clamp_axis_idem) (simp_all del: fl_round.simps)

lemma signed_axis_idem [simp]: "signed_axis (signed_axis v) = signed_axis v"
  by (rule clamp_axis_idem) (simp_all del: fl_round.simps)

interpretation unit_scale: bounded_scale unit_axis "on_axis 0 1"
  by unfold_locales (simp add: clamp_axis_on)

interpretation signed_scale: bounded_scale signed_axis "on_axis (- 1) 1"
  by unfold_locales (simp add: clamp_axis_on)

section \<open>Reading back what was written\<close>

lemma axis_field_Inr [codec_simps]:
  "dget_or d k (PFloat dflt) = PFloat x \<Longrightarrow> axis_field c d k dflt = Inr (c x)"
  by (simp add: axis_field_def)

lemma axis_field_fix:
  "axis_field signed_axis d k x = Inr v \<Longrightarrow> signed_axis v = v"
  "axis_field unit_axis d k x = Inr v \<Longrightarrow> unit_axis v = v"
  by (auto simp: axis_field_def)

lemma string_tuple_texts [simp]: "string_tuple (PList (map PStr xs)) = Inr xs"
  by (simp add: string_tuple_def str_items_list)

lemma str_or_not_Nil [simp]: "x \<noteq> [] \<Longrightarrow> str_or v x \<noteq> []"
  by (cases "truthy v") (simp_all add: str_or_def py_str_truthy)

definition seed_ok :: "PersonaSeedConfig \<Rightarrow> bool" where
  "seed_ok c \<longleftrightarrow> sc_persona_id c \<noteq> [] \<and> sc_seed_name c \<noteq> [] \<and> sc_mood c \<noteq> []
     \<and> sc_vitality_summary c \<noteq> [] \<and> sc_relationship_style c \<noteq> []
     \<and> signed_axis (sc_valence c) = sc_valence c \<and> unit_axis (sc_arousal c) = sc_arousal c
     \<and> unit_axis (sc_curiosity c) = sc_curiosity c \<and> unit_axis (sc_fatigue c) = sc_fatigue c
     \<and> unit_axis (sc_social_openness c) = sc_social_openness c"

interpretation seed_codec: total_codec PersonaSeedConfig_to_dict PersonaSeedConfig_from_dict seed_ok
proof
  fix r :: PersonaSeedConfig
  assume "seed_ok r"
  then show "PersonaSeedConfig_from_dict (PersonaSeedConfig_to_dict r) = Inr r"
    by (simp add: PersonaSeedConfig_from_dict_def PersonaSeedConfig_to_dict_def seed_ok_def axis_field_def)
next
  fix d :: dict and r :: PersonaSeedConfig
  assume "PersonaSeedConfig_from_dict d = Inr r"
  then show "seed_ok r"
    by (auto simp: PersonaSeedConfig_from_dict_def seed_ok_def dest!: axis_field_fix)
qed

interpretation evidence_codec: total_codec PersonaGrowthEvidence_to_dict PersonaGrowthEvidence_from_dict "\<lambda>_. True"
  by unfold_locales (simp_all add: PersonaGrowthEvidence_from_dict_def PersonaGrowthEvidence_to_dict_def)

definition relationship_ok :: "RelationshipSummary \<Rightarrow> bool" where
  "relationship_ok r \<longleftrightarrow> rs_principal_id r \<noteq> []
     \<and> unit_axis (rs_trust r) = rs_trust r \<and> unit_axis (rs_familiarity r) = rs_familiarity r"

interpretation relationship_codec:
  total_codec RelationshipSummary_to_dict RelationshipSummary_from_dict relationship_ok
proof
  fix r :: RelationshipSummary
  assume "relationship_ok r"
  then show "RelationshipSummary_from_dict (RelationshipSummary_to_dict r) = Inr r"
    by (simp add: RelationshipSummary_from_dict_def RelationshipSummary_to_dict_def relationship_ok_def
        axis_field_def)
next
  fix d :: dict and r :: RelationshipSummary
  assume "RelationshipSummary_from_dict d = Inr r"
  then show "relationship_ok r"
    by (auto simp: RelationshipSummary_from_dict_def relationship_ok_def dest!: axis_field_fix)
qed

lemma int_field_simps [simp]: "dget d k = PInt n \<Longrightarrow> n \<noteq> 0 \<or> x = 0 \<Longrightarrow> int_field d k x = Inr n"
  by (cases "n = 0") (simp_all add: int_field_def)

interpretation growth_codec: total_codec PersonaGrowthState_to_dict PersonaGrowthState_from_dict
  "\<lambda>g. gs_persona_id g \<noteq> []"
  by unfold_locales
    (auto simp: PersonaGrowthState_from_dict_def PersonaGrowthState_to_dict_def)

definition persona_encodable :: "PersonaState \<Rightarrow> bool" where
  "persona_encodable s \<longleftrightarrow> ps_persona_id s \<noteq> [] \<and> ps_version s \<noteq> 0 \<and> ps_mood s \<noteq> []
     \<and> ps_vitality_summary s \<noteq> []
     \<and> signed_axis (ps_valence s) = ps_valence s \<and> unit_axis (ps_arousal s) = ps_arousal s
     \<and> unit_axis (ps_curiosity s) = ps_curiosity s \<and> unit_axis (ps_fatigue s) = ps_fatigue s
     \<and> unit_axis (ps_social_openness s) = ps_social_openness s
     \<and> (\<forall>r \<in> set (ps_relationship_summaries s). relationship_ok r)
     \<and> (case ps_seed_config s of None \<Rightarrow> True | Some c \<Rightarrow> seed_ok c)
     \<and> (case ps_growth_state s of None \<Rightarrow> True | Some g \<Rightarrow> gs_persona_id g \<noteq> [])"

lemma opt_record_encoded:
  assumes "\<And>r. o' = Some r \<Longrightarrow> from_dict (to_dict r) = Inr r \<and> to_dict r \<noteq> []"
  shows "opt_record from_dict (case o' of None \<Rightarrow> PNone | Some r \<Rightarrow> PDict (to_dict r)) = Inr o'"
  using assms by (cases o') (simp_all add: opt_record_def)

lemma persona_encode_decode:
  assumes "persona_encodable s"
  shows "PersonaState_from_dict (PersonaState_to_dict s) = Inr s"
proof -
  have seed: "opt_record PersonaSeedConfig_from_dict (case ps_seed_config s of None \<Rightarrow> PNone
      | Some c \<Rightarrow> PDict (PersonaSeedConfig_to_dict c)) = Inr (ps_seed_config s)"
    using assms by (intro opt_record_encoded)
      (auto simp: persona_encodable_def seed_codec.decode_encode, simp add: PersonaSeedConfig_to_dict_def)
  have growth: "opt_record PersonaGrowthState_from_dict (case ps_growth_state s of None \<Rightarrow> PNone
      | Some g \<Rightarrow> PDict (PersonaGrowthState_to_dict g)) = Inr (ps_growth_state s)"
    using assms by (intro opt_record_encoded)
      (auto simp: persona_encodable_def growth_codec.decode_encode, simp add: PersonaGrowthState_to_dict_def)
  have rels: "emap (\<lambda>v. ebind (as_dict v) RelationshipSummary_from_dict)
      (map (\<lambda>r. PDict (RelationshipSummary_to_dict r)) (ps_relationship_summaries s))
      = Inr (ps_relationship_summaries s)"
    using assms by (intro relationship_codec.decode_values) (simp add: persona_encodable_def)
  have items: "py_list (por (PList xs) (PList [])) = Inr xs" for xs
    by (cases xs) (simp_all add: por_def)
  show ?thesis using assms seed growth rels
    by (simp add: PersonaState_from_dict_def PersonaState_to_dict_def persona_encodable_def
        axis_field_def items)
qed

interpretation persona_codec: dict_codec PersonaState_to_dict PersonaState_from_dict persona_encodable
  by unfold_locales (rule persona_encode_decode)

section \<open>The relationship table\<close>

text \<open>A table filed under the principals of its own entries, with distinct keys.\<close>

definition table_ok :: "rel_table \<Rightarrow> bool" where
  "table_ok t \<longleftrightarrow> distinct (map fst t) \<and> (\<forall>kr \<in> set t. fst kr = rs_principal_id (snd kr))"

lemma table_ok_Nil [simp]: "table_ok []"
  by (simp add: table_ok_def)

lemma table_ok_update: "table_ok t \<Longrightarrow> rs_principal_id r = k \<Longrightarrow> table_ok (AList.update k r t)"
  by (auto simp: table_ok_def distinct_update dest!: set_update_subset)

lemma table_ok_table: "table_ok (relationship_table rs)"
proof -
  have "table_ok t \<Longrightarrow> table_ok (foldl (\<lambda>t r. AList.update (rs_principal_id r) r t) t rs)" for t
    by (induction rs arbitrary: t) (simp_all add: table_ok_update)
  then show ?thesis by (simp add: relationship_table_def)
qed

interpretation relationships: registry
  "\<lambda>t r. AList.update (rs_principal_id r) r t" map_of rs_principal_id
  by unfold_locales (simp add: update_conv')

lemmas map_of_table = relationships.find_put_all

text \<open>The relationship the code reads for a principal: the last summary filed under it.\<close>

definition rel_of :: "PersonaState \<Rightarrow> string \<Rightarrow> RelationshipSummary option" where
  "rel_of s q = map_of (relationship_table (ps_relationship_summaries s)) q"

lemma map_of_distinct_eq:
  assumes "distinct (map fst xs)" "distinct (map fst ys)" "set xs = set ys"
  shows "map_of xs = map_of ys"
proof
  fix k
  have "map_of xs k = Some v \<longleftrightarrow> map_of ys k = Some v" for v
    using map_of_eq_Some_iff[OF assms(1), of k v] map_of_eq_Some_iff[OF assms(2), of k v] assms(3)
    by blast
  then show "map_of xs k = map_of ys k" by (metis not_Some_eq)
qed

lemma map_of_sorted_table:
  assumes "table_ok t"
  shows "map_of (relationship_table (sort_key rs_principal_id (map snd t))) = map_of t"
proof -
  let ?rs = "sort_key rs_principal_id (map snd t)"
  let ?kv = "map (\<lambda>r. (rs_principal_id r, r))"
  have self: "?kv (map snd t) = t"
    unfolding map_map by (rule map_idI) (use assms in \<open>simp add: table_ok_def prod_eq_iff\<close>)
  have keys: "mset (map fst (?kv ?rs)) = mset (map fst t)"
  proof -
    have "map fst (?kv ?rs) = map rs_principal_id ?rs" by simp
    also have "mset \<dots> = mset (map rs_principal_id (map snd t))"
      by (simp only: mset_map mset_sort)
    also have "map rs_principal_id (map snd t) = map fst (?kv (map snd t))" by simp
    finally show ?thesis by (simp only: self)
  qed
  then have "distinct (map fst (rev (?kv ?rs)))"
    using assms mset_eq_imp_distinct_iff[OF keys] by (simp only: rev_map[symmetric] distinct_rev table_ok_def)
  moreover have "set (rev (?kv ?rs)) = set t"
  proof -
    have "set (rev (?kv ?rs)) = set (?kv (map snd t))" by (simp add: image_image)
    then show ?thesis by (simp only: self)
  qed
  ultimately have "map_of (rev (?kv ?rs)) = map_of t"
    using assms by (intro map_of_distinct_eq) (simp_all add: table_ok_def)
  then show ?thesis
    by (intro ext) (simp add: relationship_table_def map_of_table split: option.splits)
qed

text \<open>A signal about a principal, and the entry it leaves.\<close>

definition touches :: "string \<Rightarrow> PersonaSignal \<Rightarrow> bool" where
  "touches q g \<longleftrightarrow> sg_principal_id g = Some q \<and> q \<noteq> []"

definition related :: "string \<Rightarrow> RelationshipSummary option \<Rightarrow> PersonaSignal \<Rightarrow> RelationshipSummary option" where
  "related q r g = Some (relate (case r of Some x \<Rightarrow> x | None \<Rightarrow> new_RelationshipSummary q) g)"

lemma relate_in_ok: "table_ok t \<Longrightarrow> table_ok (relate_in t g)"
  by (auto simp: relate_in_def Let_def relate_def intro!: table_ok_update split: option.splits)

lemma map_of_relate_in: "map_of (relate_in t g) q = (if touches q g then related q (map_of t q) g else map_of t q)"
  by (auto simp: relate_in_def touches_def related_def update_conv' Let_def split: option.splits)

lemma map_of_relate_fold:
  "map_of (foldl relate_in t gs) q = foldl (related q) (map_of t q) (filter (touches q) gs)"
  by (induction gs arbitrary: t) (simp_all add: map_of_relate_in)

lemma relate_fold_ok: "table_ok t \<Longrightarrow> table_ok (foldl relate_in t gs)"
  by (induction gs arbitrary: t) (simp_all add: relate_in_ok)

section \<open>The loop of apply_persona_signals, axis by axis\<close>

lemma persona_loop_fields [simp]:
  "pl_relationships (foldl persona_signal_step l gs) = foldl relate_in (pl_relationships l) gs"
  "pl_valence (foldl persona_signal_step l gs) =
     foldl (\<lambda>v g. signed_axis (fl_add v (sg_valence_delta g))) (pl_valence l) gs"
  "pl_arousal (foldl persona_signal_step l gs) =
     foldl (\<lambda>v g. unit_axis (fl_add v (sg_arousal_delta g))) (pl_arousal l) gs"
  "pl_curiosity (foldl persona_signal_step l gs) =
     foldl (\<lambda>v g. unit_axis (fl_add v (sg_curiosity_delta g))) (pl_curiosity l) gs"
  "pl_fatigue (foldl persona_signal_step l gs) =
     foldl (\<lambda>v g. unit_axis (fl_add v (sg_fatigue_delta g))) (pl_fatigue l) gs"
  "pl_social_openness (foldl persona_signal_step l gs) =
     foldl (\<lambda>v g. unit_axis (fl_add v (sg_social_openness_delta g))) (pl_social_openness l) gs"
  "pl_mood (foldl persona_signal_step l gs) = foldl (\<lambda>m g. text_or (sg_mood g) m) (pl_mood l) gs"
  by (induction gs arbitrary: l) (simp_all add: persona_signal_step_def)

definition relationship_bounded :: "RelationshipSummary \<Rightarrow> bool" where
  "relationship_bounded r \<longleftrightarrow> on_axis 0 1 (rs_trust r) \<and> on_axis 0 1 (rs_familiarity r)"

text \<open>What every operation keeps of a persona.\<close>

definition persona_ok :: "PersonaState \<Rightarrow> bool" where
  "persona_ok s \<longleftrightarrow> on_axis (- 1) 1 (ps_valence s) \<and> on_axis 0 1 (ps_arousal s)
     \<and> on_axis 0 1 (ps_curiosity s) \<and> on_axis 0 1 (ps_fatigue s) \<and> on_axis 0 1 (ps_social_openness s)
     \<and> sorted (map rs_principal_id (ps_relationship_summaries s))
     \<and> distinct (map rs_principal_id (ps_relationship_summaries s))
     \<and> (\<forall>r \<in> set (ps_relationship_summaries s). relationship_bounded r)"

lemma table_bounded:
  assumes "\<forall>r \<in> set rs. relationship_bounded r"
  shows "\<forall>kr \<in> set (relationship_table rs). relationship_bounded (snd kr)"
proof -
  have "\<forall>r \<in> set rs. relationship_bounded r \<Longrightarrow> \<forall>kr \<in> set t. relationship_bounded (snd kr) \<Longrightarrow>
    \<forall>kr \<in> set (foldl (\<lambda>t r. AList.update (rs_principal_id r) r t) t rs). relationship_bounded (snd kr)" for t
  proof (induction rs arbitrary: t)
    case (Cons r rs)
    have "\<forall>kr \<in> set (AList.update (rs_principal_id r) r t). relationship_bounded (snd kr)"
      using Cons.prems by (auto dest!: set_update_subset)
    with Cons show ?case by simp
  qed simp
  from this[OF assms, of "[]"] show ?thesis by (simp add: relationship_table_def)
qed

lemma relate_bounded: "relationship_bounded (relate r g)"
  by (simp add: relationship_bounded_def relate_def unit_scale.clamp_inside)

lemma relate_in_bounded:
  "\<forall>kr \<in> set t. relationship_bounded (snd kr) \<Longrightarrow> \<forall>kr \<in> set (relate_in t g). relationship_bounded (snd kr)"
  by (auto simp: relate_in_def Let_def relate_bounded dest!: set_update_subset split: option.splits)

lemma relate_fold_bounded:
  "\<forall>kr \<in> set t. relationship_bounded (snd kr) \<Longrightarrow>
   \<forall>kr \<in> set (foldl relate_in t gs). relationship_bounded (snd kr)"
proof (induction gs arbitrary: t)
  case (Cons g gs)
  from Cons.IH[OF relate_in_bounded[OF Cons.prems]] show ?case by simp
qed simp

lemma table_ok_ids: "table_ok t \<Longrightarrow> map rs_principal_id (map snd t) = map fst t"
  by (auto simp: table_ok_def)

lemma apply_persona_signals_ok [inv_intros]:
  assumes "persona_ok s"
  shows "persona_ok (apply_persona_signals s gs v u)"
proof -
  define t where "t = foldl relate_in (relationship_table (ps_relationship_summaries s)) gs"
  have ok: "table_ok t" by (simp add: t_def relate_fold_ok table_ok_table)
  have "mset (map rs_principal_id (sort_key rs_principal_id (map snd t))) = mset (map fst t)"
    using table_ok_ids[OF ok] by (metis mset_map mset_sort)
  then have dist: "distinct (map rs_principal_id (sort_key rs_principal_id (map snd t)))"
    using ok by (metis mset_eq_imp_distinct_iff table_ok_def)
  have bounded: "\<forall>kr \<in> set t. relationship_bounded (snd kr)"
    using assms unfolding t_def by (intro relate_fold_bounded table_bounded) (simp add: persona_ok_def)
  show ?thesis using assms dist bounded
    by (auto simp: persona_ok_def apply_persona_signals_def Let_def t_def[symmetric]
        intro: unit_scale.clamp_fold_inside signed_scale.clamp_fold_inside)
qed

lemma redact_ok [inv_intros]: "persona_ok s \<Longrightarrow> persona_ok (redact_relationships s ids u)"
  by (auto simp: persona_ok_def redact_relationships_def sorted_filter distinct_map_filter)

lemma on_axis_fix: "signed_axis x = x \<Longrightarrow> on_axis (- 1) 1 x" "unit_axis x = x \<Longrightarrow> on_axis 0 1 x"
  by (metis signed_scale.clamp_inside, metis unit_scale.clamp_inside)

lemma initialize_ok [inv_intros]: "seed_ok c \<Longrightarrow> persona_ok (initialize_persona_state_from_seed c u)"
  by (simp add: persona_ok_def initialize_persona_state_from_seed_def seed_ok_def on_axis_fix)

section \<open>Growth runs\<close>

lemma growth_sources: "map_of increments src \<noteq> None \<longleftrightarrow> src \<in> set PERSONA_GROWTH_RUNTIME_SOURCES"
  by (auto simp: increments_def PERSONA_GROWTH_RUNTIME_SOURCES_def)

definition growth_counters :: "PersonaGrowthState \<Rightarrow> int list" where
  "growth_counters g = [gs_social_interaction_count g, gs_unit_event_count g,
     gs_relationship_summary_count g, gs_vitality_event_count g, gs_self_improvement_count g]"

text \<open>
  A growth state that came from a seed by recording evidence: same persona and seed
  fingerprint, one revision and one counter increment for each recorded event, every event
  recorded once, and a provenance hash that matches the other fields.
\<close>

definition growth_ok :: "PersonaSeedConfig \<Rightarrow> PersonaGrowthState \<Rightarrow> bool" where
  "growth_ok c g \<longleftrightarrow> gs_persona_id g = sc_persona_id c
     \<and> gs_seed_fingerprint g = compute_persona_seed_fingerprint c
     \<and> gs_revision g = int (length (gs_evidence_event_ids g))
     \<and> gs_revision g = sum_list (growth_counters g) \<and> list_all (\<lambda>n. 0 \<le> n) (growth_counters g)
     \<and> distinct (gs_evidence_event_ids g) \<and> [] \<notin> set (gs_evidence_event_ids g)
     \<and> gs_provenance_hash g = compute_persona_growth_provenance_hash g"

definition evidence_admissible :: "PersonaGrowthState \<Rightarrow> PersonaGrowthEvidence \<Rightarrow> bool" where
  "evidence_admissible g e \<longleftrightarrow> ev_source e \<in> set PERSONA_GROWTH_RUNTIME_SOURCES
     \<and> ev_event_id e \<noteq> [] \<and> ev_event_id e \<notin> set (gs_evidence_event_ids g)"

lemma apply_evidence_Inr:
  assumes "apply_persona_growth_evidence g e = Inr g'"
  shows "evidence_admissible g e" and "gs_evidence_event_ids g' = gs_evidence_event_ids g @ [ev_event_id e]"
    and "growth_ok c g \<Longrightarrow> growth_ok c g'"
proof -
  from assms have guards: "ev_source e \<in> set PERSONA_GROWTH_RUNTIME_SOURCES" "ev_event_id e \<noteq> []"
    "ev_event_id e \<notin> set (gs_evidence_event_ids g)"
    by (auto simp: apply_persona_growth_evidence_def split: if_splits)
  then obtain a b x y z where inc: "map_of increments (ev_source e) = Some (a, b, x, y, z)"
    using growth_sources by (metis not_Some_eq prod_cases5)
  have delta: "a + b + x + y + z = 1 \<and> 0 \<le> a \<and> 0 \<le> b \<and> 0 \<le> x \<and> 0 \<le> y \<and> 0 \<le> z"
    using inc by (auto simp: increments_def split: if_splits)
  note g' = assms[unfolded apply_persona_growth_evidence_def inc Let_def, symmetric]
  show "evidence_admissible g e" using guards by (simp add: evidence_admissible_def)
  show "gs_evidence_event_ids g' = gs_evidence_event_ids g @ [ev_event_id e]"
    using g' guards by simp
  show "growth_ok c g'" if "growth_ok c g"
    using that g' guards delta
    by (simp add: growth_ok_def growth_counters_def compute_persona_growth_provenance_hash_def
        PersonaGrowthState_to_dict_def dset_def)
qed

lemma apply_evidence_total:
  "evidence_admissible g e \<Longrightarrow> \<exists>g'. apply_persona_growth_evidence g e = Inr g'"
  using growth_sources[of "ev_source e"]
  by (auto simp: apply_persona_growth_evidence_def evidence_admissible_def Let_def split: option.splits)

interpretation growth: checked_step apply_persona_growth_evidence "growth_ok c" for c
  by unfold_locales (rule apply_evidence_Inr(3))

lemma initialize_growth_ok [inv_intros]: "growth_ok c (initialize_persona_growth_state c)"
  by (simp add: growth_ok_def growth_counters_def initialize_persona_growth_state_def Let_def
      compute_persona_growth_provenance_hash_def PersonaGrowthState_to_dict_def dset_def)

definition evidence_log_ok :: "string list \<Rightarrow> PersonaGrowthEvidence list \<Rightarrow> bool" where
  "evidence_log_ok ids es \<longleftrightarrow> (\<forall>e \<in> set es. ev_source e \<in> set PERSONA_GROWTH_RUNTIME_SOURCES
     \<and> ev_event_id e \<noteq> []) \<and> distinct (map ev_event_id es) \<and> set (map ev_event_id es) \<inter> set ids = {}"

lemma growth_run:
  "case efold apply_persona_growth_evidence g es of
     Inr g' \<Rightarrow> evidence_log_ok (gs_evidence_event_ids g) es
       \<and> gs_evidence_event_ids g' = gs_evidence_event_ids g @ map ev_event_id es
   | Inl _ \<Rightarrow> \<not> evidence_log_ok (gs_evidence_event_ids g) es"
proof (induction es arbitrary: g)
  case Nil
  show ?case by (simp add: evidence_log_ok_def)
next
  case (Cons e es)
  show ?case
  proof (cases "apply_persona_growth_evidence g e")
    case (Inl err)
    then have "\<not> evidence_admissible g e" using apply_evidence_total[of g e] by auto
    with Inl show ?thesis by (auto simp: evidence_log_ok_def evidence_admissible_def)
  next
    case (Inr g1)
    note step = apply_evidence_Inr(1,2)[OF Inr]
    have "evidence_log_ok (gs_evidence_event_ids g1) es \<longleftrightarrow> evidence_log_ok (gs_evidence_event_ids g) (e # es)"
      using step by (auto simp: evidence_log_ok_def evidence_admissible_def)
    with Cons.IH[of g1] Inr step(2) show ?thesis by (simp split: sum.splits)
  qed
qed

section \<open>What the rational side sees\<close>

text \<open>The parts of a relationship, a persona and a signal that no rational summary reads.\<close>

definition rel_public :: "RelationshipSummary \<Rightarrow> RelationshipSummary" where
  "rel_public r = r\<lparr> rs_preferred_address := [], rs_boundaries := [] \<rparr>"

definition sg_public :: "PersonaSignal \<Rightarrow> PersonaSignal" where
  "sg_public g = g\<lparr> sg_preferred_address := None, sg_boundary_note := None \<rparr>"

definition ps_public :: "PersonaState \<Rightarrow> PersonaState" where
  "ps_public s = s\<lparr> ps_version := 0, ps_seed_config := None, ps_provenance_hash := None,
     ps_updated_at := PNone, ps_relationship_summaries := map rel_public (ps_relationship_summaries s) \<rparr>"

abbreviation table_public :: "rel_table \<Rightarrow> rel_table" where
  "table_public \<equiv> map (apsnd rel_public)"

lemma rel_public_id [simp]: "rs_principal_id (rel_public r) = rs_principal_id r"
  by (simp add: rel_public_def)

lemma rel_public_idem [simp]: "rel_public (rel_public r) = rel_public r"
  by (simp add: rel_public_def)

lemma rational_summary_public:
  "RelationshipSummary_rational_summary (rel_public r) = RelationshipSummary_rational_summary r"
  by (simp add: RelationshipSummary_rational_summary_def rel_public_def)

lemma relate_public: "rel_public (relate r g) = rel_public (relate (rel_public r) (sg_public g))"
  by (simp add: relate_def rel_public_def sg_public_def Let_def)

lemma update_public: "table_public (AList.update k r t) = AList.update k (rel_public r) (table_public t)"
  by (induction t) auto

lemma map_of_public: "map_of (table_public t) k = map_option rel_public (map_of t k)"
  by (induction t) auto

lemma rel_public_new [simp]: "rel_public (new_RelationshipSummary p) = new_RelationshipSummary p"
  by (simp add: rel_public_def new_RelationshipSummary_def)

lemma relate_in_public:
  "table_public (relate_in t g) = table_public (relate_in (table_public t) (sg_public g))"
proof -
  have pid: "sg_principal_id (sg_public g) = sg_principal_id g" by (simp add: sg_public_def)
  have idem: "map (apsnd rel_public \<circ> apsnd rel_public) t = table_public t" by auto
  show ?thesis
    unfolding relate_in_def pid Let_def
    by (auto simp: update_public map_of_public idem relate_public[of "_" g] split: option.splits)
qed

lemma relate_fold_public:
  "table_public t = table_public t' \<Longrightarrow> map sg_public gs = map sg_public gs' \<Longrightarrow>
   table_public (foldl relate_in t gs) = table_public (foldl relate_in t' gs')"
proof (induction gs arbitrary: gs' t t')
  case (Cons g gs)
  then obtain h hs where gs': "gs' = h # hs" "sg_public g = sg_public h" "map sg_public gs = map sg_public hs"
    by (cases gs') auto
  have "table_public (relate_in t g) = table_public (relate_in t' h)"
    using Cons.prems(1) gs'(2) relate_in_public[of t g] relate_in_public[of t' h] by simp
  from Cons.IH[OF this gs'(3)] gs'(1) show ?case by simp
qed simp

lemma relationship_table_public:
  "table_public (relationship_table rs) = relationship_table (map rel_public rs)"
proof -
  have "table_public (foldl (\<lambda>t r. AList.update (rs_principal_id r) r t) t rs) =
      foldl (\<lambda>t r. AList.update (rs_principal_id r) r t) (table_public t) (map rel_public rs)" for t
    by (induction rs arbitrary: t) (simp_all add: update_public)
  from this[of "[]"] show ?thesis by (simp add: relationship_table_def)
qed

lemma insort_public:
  "map rel_public (insort_key rs_principal_id r rs) = insort_key rs_principal_id (rel_public r) (map rel_public rs)"
  by (induction rs) auto

lemma sort_public:
  "map rel_public (sort_key rs_principal_id rs) = sort_key rs_principal_id (map rel_public rs)"
  by (induction rs) (simp_all add: insort_public)

lemma fold_public:
  assumes "map sg_public gs = map sg_public gs'" and "\<And>v g. f v (sg_public g) = f v g"
  shows "foldl f v gs = foldl f v gs'"
proof -
  have "foldl f v (map sg_public xs) = foldl f v xs" for xs v
    by (induction xs arbitrary: v) (simp_all add: assms(2))
  with assms(1) show ?thesis by metis
qed

section \<open>Properties\<close>

text \<open>The two operations of the module that change a persona, as one step.\<close>

datatype persona_op =
    Signals "PersonaSignal list" "string option" pyval
  | Redact "string list" pyval

fun persona_apply :: "PersonaState \<Rightarrow> persona_op \<Rightarrow> PersonaState" where
  "persona_apply s (Signals gs v u) = apply_persona_signals s gs v u"
| "persona_apply s (Redact ids u) = redact_relationships s ids u"

lemma persona_apply_ok [inv_intros]: "persona_ok s \<Longrightarrow> persona_ok (persona_apply s x)"
  by (cases x) (auto intro: inv_intros)

lemma persona_run_ok: "persona_ok s \<Longrightarrow> persona_ok (foldl persona_apply s ops)"
  by (induction ops arbitrary: s) (auto intro: inv_intros)

lemma empty_seed:
  "PersonaSeedConfig_from_dict [] = Inr \<lparr> sc_persona_id = ''affective-main'', sc_seed_name = ''default'',
     sc_mood = ''steady'', sc_valence = signed_axis (Fin 0), sc_arousal = unit_axis (Fin 0),
     sc_curiosity = unit_axis (Fin (1/2)), sc_fatigue = unit_axis (Fin 0),
     sc_social_openness = unit_axis (Fin (1/2)), sc_vitality_summary = ''attentive'',
     sc_relationship_style = ''warm'', sc_immutable_boundaries = [], sc_created_at = PNone \<rparr>"
  by (simp add: PersonaSeedConfig_from_dict_def axis_field_def string_tuple_def str_items_def)

text \<open>C28: Whatever a seed payload and whatever signals and redactions follow, every affective
  axis of the persona and every trust and familiarity value stays a finite number in its
  range (also when a delta is infinite or not a number), and the relationship summaries stay
  sorted by principal, one for each principal.\<close>

theorem persona_run_bounded:
  assumes "PersonaSeedConfig_from_dict d = Inr c"
  shows "persona_ok (foldl persona_apply (initialize_persona_state_from_seed c u) ops)"
  by (intro persona_run_ok initialize_ok seed_codec.decode_ok[OF assms])

theorem persona_run_bounded_witness:
  "\<exists>c. PersonaSeedConfig_from_dict [] = Inr c \<and> persona_ok (foldl persona_apply
     (initialize_persona_state_from_seed c PNone)
     [Signals [\<lparr> sg_reason = ''hi'', sg_mood = None, sg_valence_delta = NaN, sg_arousal_delta = PosInf,
         sg_curiosity_delta = Fin 0, sg_fatigue_delta = Fin 0, sg_social_openness_delta = Fin 0,
         sg_principal_id = Some ''p'', sg_trust_delta = NegInf, sg_familiarity_delta = Fin 0,
         sg_preferred_address = None, sg_boundary_note = None \<rparr>] None PNone,
      Redact [''q''] PNone])"
  using persona_run_bounded[OF empty_seed] empty_seed by blast

lemma apply_persona_signals_rel:
  "rel_of (apply_persona_signals s gs v u) q = foldl (related q) (rel_of s q) (filter (touches q) gs)"
proof -
  define t where "t = foldl relate_in (relationship_table (ps_relationship_summaries s)) gs"
  have "table_ok t" by (simp add: t_def relate_fold_ok table_ok_table)
  from map_of_sorted_table[OF this] show ?thesis
    by (simp add: rel_of_def apply_persona_signals_def Let_def t_def map_of_relate_fold)
qed

lemma map_of_redacted:
  "map_of (rev (map (\<lambda>r. (rs_principal_id r, r)) (filter (\<lambda>r. rs_principal_id r \<notin> set ids) rs))) q =
    (if q \<in> set ids then None else map_of (rev (map (\<lambda>r. (rs_principal_id r, r)) rs)) q)"
  by (induction rs) (auto simp: map_add_def split: option.splits)

lemma redact_rel: "rel_of (redact_relationships s ids u) q = (if q \<in> set ids then None else rel_of s q)"
  by (simp add: rel_of_def redact_relationships_def relationship_table_def map_of_table map_of_redacted
      split: option.splits)

text \<open>The relationship of a principal after a batch of signals is obtained from its
  relationship before by the signals that name this principal, in order, and by nothing
  else: signals about one principal never change another one. After a redaction the same
  holds with a fresh relationship for the redacted principals, so nothing of the removed
  summary survives.\<close>

theorem persona_principal_isolation:
  "rel_of (apply_persona_signals (redact_relationships s ids w) gs v u) q =
     foldl (related q) (if q \<in> set ids then None else rel_of s q) (filter (touches q) gs)"
  by (simp only: apply_persona_signals_rel redact_rel)

text \<open>C32: The rational summary does not depend on private relationship data. Two personas
  that differ only in preferred addresses, boundary notes, seed, version, provenance and
  timestamps, fed with signals that differ only in preferred addresses and boundary notes,
  give the same rational summary.\<close>

theorem rational_summary_noninterference:
  assumes "ps_public s = ps_public s'" and "map sg_public gs = map sg_public gs'"
  shows "PersonaState_rational_summary (apply_persona_signals s gs v u) =
    PersonaState_rational_summary (apply_persona_signals s' gs' v u')"
proof -
  let ?t = "foldl relate_in (relationship_table (ps_relationship_summaries s)) gs"
  let ?t' = "foldl relate_in (relationship_table (ps_relationship_summaries s')) gs'"
  have field: "f (ps_public s) = f (ps_public s')" for f :: "PersonaState \<Rightarrow> 'x"
    using assms(1) by simp
  have fields: "ps_persona_id s = ps_persona_id s'" "ps_mood s = ps_mood s'" "ps_valence s = ps_valence s'"
    "ps_arousal s = ps_arousal s'" "ps_curiosity s = ps_curiosity s'" "ps_fatigue s = ps_fatigue s'"
    "ps_social_openness s = ps_social_openness s'" "ps_vitality_summary s = ps_vitality_summary s'"
    "map rel_public (ps_relationship_summaries s) = map rel_public (ps_relationship_summaries s')"
    using field[of ps_persona_id] field[of ps_mood] field[of ps_valence] field[of ps_arousal]
      field[of ps_curiosity] field[of ps_fatigue] field[of ps_social_openness]
      field[of ps_vitality_summary] field[of ps_relationship_summaries]
    by (simp_all add: ps_public_def)
  have "table_public ?t = table_public ?t'"
    by (rule relate_fold_public[OF _ assms(2)]) (simp only: relationship_table_public fields)
  then have "map snd (table_public ?t) = map snd (table_public ?t')" by simp
  then have "map rel_public (map snd ?t) = map rel_public (map snd ?t')" by simp
  then have rels: "map rel_public (sort_key rs_principal_id (map snd ?t)) =
      map rel_public (sort_key rs_principal_id (map snd ?t'))"
    by (simp only: sort_public)
  have "map (\<lambda>r. PDict (RelationshipSummary_rational_summary r)) rs =
      map (\<lambda>r. PDict (RelationshipSummary_rational_summary r)) (map rel_public rs)" for rs
    by (simp add: rational_summary_public)
  with rels have sums: "map (\<lambda>r. PDict (RelationshipSummary_rational_summary r)) (sort_key rs_principal_id (map snd ?t)) =
      map (\<lambda>r. PDict (RelationshipSummary_rational_summary r)) (sort_key rs_principal_id (map snd ?t'))"
    by metis
  note folds = fold_public[OF assms(2)]
  show ?thesis
    by (simp add: PersonaState_rational_summary_def apply_persona_signals_def Let_def fields sums)
      (intro conjI folds; simp add: sg_public_def)
qed

definition sample_persona :: "string \<Rightarrow> PersonaState" where
  "sample_persona note = \<lparr> ps_persona_id = ''a'', ps_version = 1, ps_mood = ''steady'',
     ps_valence = Fin 0, ps_arousal = Fin 0, ps_curiosity = Fin 0, ps_fatigue = Fin 0,
     ps_social_openness = Fin 0, ps_vitality_summary = ''attentive'',
     ps_relationship_summaries = [(new_RelationshipSummary ''p'')\<lparr> rs_boundaries := [note] \<rparr>],
     ps_seed_config = None, ps_growth_state = None, ps_provenance_hash = None, ps_updated_at = PStr note \<rparr>"

definition sample_signal :: "string \<Rightarrow> PersonaSignal" where
  "sample_signal note = \<lparr> sg_reason = ''talk'', sg_mood = None, sg_valence_delta = Fin 0,
     sg_arousal_delta = Fin 0, sg_curiosity_delta = Fin 0, sg_fatigue_delta = Fin 0,
     sg_social_openness_delta = Fin 0, sg_principal_id = Some ''p'', sg_trust_delta = Fin 0,
     sg_familiarity_delta = Fin 0, sg_preferred_address = Some note, sg_boundary_note = Some note \<rparr>"

theorem rational_summary_noninterference_witness:
  "PersonaState_rational_summary (apply_persona_signals (sample_persona ''x'') [sample_signal ''m''] None PNone) =
   PersonaState_rational_summary (apply_persona_signals (sample_persona ''y'') [sample_signal ''n''] None PNone)
   \<and> sample_persona ''x'' \<noteq> sample_persona ''y''"
proof
  show "PersonaState_rational_summary (apply_persona_signals (sample_persona ''x'') [sample_signal ''m''] None PNone) =
    PersonaState_rational_summary (apply_persona_signals (sample_persona ''y'') [sample_signal ''n''] None PNone)"
    by (rule rational_summary_noninterference)
      (simp_all add: ps_public_def sg_public_def rel_public_def sample_persona_def sample_signal_def)
  show "sample_persona ''x'' \<noteq> sample_persona ''y''" by (simp add: sample_persona_def)
qed

text \<open>Recording a list of growth evidence from the initial growth state succeeds exactly
  when every item has a runtime source and an event id and no event id comes twice. Then the
  recorded ids are those of the list in order, the revision is their number and the sum of
  the five counters, the seed fingerprint is that of the seed and the provenance hash matches;
  otherwise it raises.\<close>

theorem growth_run_functional:
  "case efold apply_persona_growth_evidence (initialize_persona_growth_state c) es of
     Inr g \<Rightarrow> evidence_log_ok [] es \<and> gs_evidence_event_ids g = map ev_event_id es \<and> growth_ok c g
   | Inl _ \<Rightarrow> \<not> evidence_log_ok [] es"
proof -
  have "gs_evidence_event_ids (initialize_persona_growth_state c) = []"
    by (simp add: initialize_persona_growth_state_def Let_def)
  with growth_run[of "initialize_persona_growth_state c" es]
    growth.run_keeps[OF initialize_growth_ok, of c es]
  show ?thesis by (auto split: sum.splits)
qed

text \<open>A persona state written with \<open>to_dict\<close> is read back unchanged by \<open>from_dict\<close>,
  nested relationship summaries, seed and growth state included, when it is one the
  constructors produce: set identifiers, a version other than 0 and axis values that went
  through the clamp. Clamping is idempotent, so the axes are not moved by a save and load.\<close>

theorem persona_state_roundtrip:
  assumes "persona_encodable s"
  shows "PersonaState_from_dict (PersonaState_to_dict s) = Inr s"
  by (rule persona_codec.decode_encode[OF assms])

lemma seed_persona_encodable:
  assumes "seed_ok c"
  shows "persona_encodable (initialize_persona_state_from_seed c u)"
  using assms by (simp add: persona_encodable_def seed_ok_def initialize_persona_state_from_seed_def)

theorem persona_state_roundtrip_witness:
  "\<exists>c. PersonaSeedConfig_from_dict [] = Inr c \<and>
     PersonaState_from_dict (PersonaState_to_dict (initialize_persona_state_from_seed c PNone))
       = Inr (initialize_persona_state_from_seed c PNone)"
  using persona_state_roundtrip[OF seed_persona_encodable[OF seed_codec.decode_ok[OF empty_seed]]] empty_seed
  by blast

text \<open>The seed fingerprint is stable under reloading: reading the dict of a seed that was
  itself read from a payload gives the same seed and the same fingerprint.\<close>

theorem seed_fingerprint_stable:
  assumes "PersonaSeedConfig_from_dict d = Inr c"
  shows "ebind (PersonaSeedConfig_from_dict (PersonaSeedConfig_to_dict c))
    (\<lambda>c'. Inr (c', compute_persona_seed_fingerprint c')) = Inr (c, compute_persona_seed_fingerprint c)"
  by (simp add: seed_codec.reencode_stable[OF assms])

theorem seed_fingerprint_stable_witness:
  "\<exists>c. PersonaSeedConfig_from_dict [] = Inr c \<and> ebind (PersonaSeedConfig_from_dict (PersonaSeedConfig_to_dict c))
    (\<lambda>c'. Inr (c', compute_persona_seed_fingerprint c')) = Inr (c, compute_persona_seed_fingerprint c)"
  using seed_fingerprint_stable[OF empty_seed] empty_seed by blast

end
