(* ===== verification/Autonomy.thy ===== *)
theory Autonomy
  imports Events Motivation Persona
begin

text \<open>
  \<open>neurolink_core/autonomy.py\<close>: the planner of one daemon cycle, the synthetic tick
  events and the daemon state; and the planning part of the daemon loop of
  \<open>neurolink_core/workflow.py\<close> (\<open>run_event_daemon_replay\<close>), which carries the last
  maintenance cycle from one plan to the next.
\<close>

definition INTERNAL_AUTONOMY_TOPICS :: "string list" where
  "INTERNAL_AUTONOMY_TOPICS = [''time.tick'', ''core.maintenance.tick'']"

record AutonomousDaemonPolicy =
  dp_maintenance_interval_cycles :: int
  dp_time_tick_priority :: int
  dp_maintenance_tick_priority :: int
  dp_wake_priority_threshold :: int
  dp_time_tick_period_ms :: int

definition default_AutonomousDaemonPolicy :: AutonomousDaemonPolicy where
  "default_AutonomousDaemonPolicy = \<lparr> dp_maintenance_interval_cycles = 3,
     dp_time_tick_priority = 10, dp_maintenance_tick_priority = 25,
     dp_wake_priority_threshold = 50, dp_time_tick_period_ms = 1000 \<rparr>"

text \<open>\<open>str(event.get("semantic_topic") or event.get("event_type") or default)\<close>.\<close>

definition topic_or :: "string \<Rightarrow> dict \<Rightarrow> string" where
  "topic_or dflt e = py_str (por (dget e ''semantic_topic'') (por (dget e ''event_type'') (PStr dflt)))"

record AutonomousCyclePlan =
  cp_cycle_index :: int
  cp_cycle_kind :: string
  cp_wake_decision :: string
  cp_reasons :: "string list"
  cp_raw_event_count :: int
  cp_planned_events :: "dict list"
  cp_synthetic_event_count :: int
  cp_should_run_workflow :: bool

definition AutonomousCyclePlan_to_dict :: "AutonomousCyclePlan \<Rightarrow> dict" where
  "AutonomousCyclePlan_to_dict p = [
     (''cycle_index'', PInt (cp_cycle_index p)),
     (''cycle_kind'', PStr (cp_cycle_kind p)),
     (''wake_decision'', PStr (cp_wake_decision p)),
     (''reasons'', PList (map PStr (cp_reasons p))),
     (''raw_event_count'', PInt (cp_raw_event_count p)),
     (''planned_event_count'', PInt (int (length (cp_planned_events p)))),
     (''synthetic_event_count'', PInt (cp_synthetic_event_count p)),
     (''should_run_workflow'', PBool (cp_should_run_workflow p)),
     (''planned_topics'', PList (map (\<lambda>e. PStr (topic_or ''unknown'' e)) (cp_planned_events p)))]"

record AutonomousDaemonState =
  ds_autonomy_enabled :: bool
  ds_operator_paused :: bool
  ds_run_state :: string
  ds_cycle_count :: int
  ds_last_maintenance_cycle :: "int option"
  ds_continuity :: dict
  ds_heartbeat :: dict
  ds_vitality_summary :: dict
  ds_persona_summary :: dict

fun opt_int :: "int option \<Rightarrow> pyval" where
  "opt_int None = PNone"
| "opt_int (Some n) = PInt n"

definition AutonomousDaemonState_to_dict :: "AutonomousDaemonState \<Rightarrow> dict" where
  "AutonomousDaemonState_to_dict s = [
     (''autonomy_enabled'', PBool (ds_autonomy_enabled s)),
     (''operator_paused'', PBool (ds_operator_paused s)),
     (''run_state'', PStr (ds_run_state s)),
     (''cycle_count'', PInt (ds_cycle_count s)),
     (''last_maintenance_cycle'', opt_int (ds_last_maintenance_cycle s)),
     (''continuity'', PDict (ds_continuity s)),
     (''heartbeat'', PDict (ds_heartbeat s)),
     (''vitality_summary'', PDict (ds_vitality_summary s)),
     (''persona_summary'', PDict (ds_persona_summary s))]"

definition build_vitality_summary :: "VitalityState option \<Rightarrow> dict" where
  "build_vitality_summary vitality_state = (case vitality_state of
     None \<Rightarrow> [(''present'', PBool False), (''state'', PStr ''unknown''), (''score'', PNone),
       (''urgency_modifier'', PNone), (''policy_impact'', PStr ''salience_and_tone_only'')]
   | Some s \<Rightarrow> dset (VitalityState_to_dict s) ''present'' (PBool True))"

definition build_persona_summary :: "PersonaState option \<Rightarrow> dict" where
  "build_persona_summary persona_state = (case persona_state of
     None \<Rightarrow> [(''present'', PBool False), (''persona_id'', PStr []), (''mood'', PStr ''unknown''),
       (''vitality_summary'', PStr ''unknown''), (''relationship_count'', PInt 0)]
   | Some s \<Rightarrow> dset (dset (PersonaState_rational_summary s) ''present'' (PBool True))
       ''relationship_count'' (PInt (int (length (ps_relationship_summaries s)))))"

definition build_daemon_state ::
    "bool \<Rightarrow> bool \<Rightarrow> int \<Rightarrow> int option \<Rightarrow> int \<Rightarrow> int \<Rightarrow> string option \<Rightarrow> VitalityState option \<Rightarrow>
     PersonaState option \<Rightarrow> AutonomousDaemonState" where
  "build_daemon_state autonomy_enabled operator_paused cycle_count last_maintenance_cycle
      previous_execution_count seeded_dedupe_key_count last_cycle_timestamp vitality_state persona_state = (
     let run_state = (if operator_paused then ''paused'' else ''idle'') in
     \<lparr> ds_autonomy_enabled = autonomy_enabled,
       ds_operator_paused = operator_paused,
       ds_run_state = run_state,
       ds_cycle_count = cycle_count,
       ds_last_maintenance_cycle = last_maintenance_cycle,
       ds_continuity = [
         (''resumed_session'', PBool (previous_execution_count > 0 \<or> seeded_dedupe_key_count > 0)),
         (''previous_execution_count'', PInt previous_execution_count),
         (''seeded_dedupe_key_count'', PInt seeded_dedupe_key_count)],
       ds_heartbeat = [
         (''recorded'', PBool autonomy_enabled),
         (''status'', PStr run_state),
         (''last_cycle_index'', if cycle_count > 0 then PInt cycle_count else PNone),
         (''last_cycle_timestamp'', opt_str last_cycle_timestamp)],
       ds_vitality_summary = build_vitality_summary vitality_state,
       ds_persona_summary = build_persona_summary persona_state \<rparr>)"

definition build_time_tick_event :: "int \<Rightarrow> string \<Rightarrow> int \<Rightarrow> int \<Rightarrow> dict" where
  "build_time_tick_event cycle_index timestamp_wall period_ms priority = (
     let suffix = dec_int_04 cycle_index in [
     (''event_id'', PStr (''evt-autonomy-time-tick-'' @ suffix)),
     (''source_kind'', PStr ''clock''),
     (''source_node'', PStr ''core-daemon''),
     (''event_type'', PStr ''time.tick''),
     (''semantic_topic'', PStr ''time.tick''),
     (''timestamp_wall'', PStr timestamp_wall),
     (''priority'', PInt priority),
     (''dedupe_key'', PStr (''autonomy-time-tick-'' @ suffix)),
     (''policy_tags'', PList [PStr ''clock'', PStr ''autonomy'']),
     (''payload'', PDict [
        (''period_ms'', PInt period_ms),
        (''cycle_index'', PInt cycle_index),
        (''scheduler'', PStr ''autonomy_planner'')])])"

definition build_maintenance_tick_event ::
    "int \<Rightarrow> string \<Rightarrow> int \<Rightarrow> string \<Rightarrow> string option \<Rightarrow> dict" where
  "build_maintenance_tick_event cycle_index timestamp_wall priority reason vitality_state = (
     let suffix = dec_int_04 cycle_index in [
     (''event_id'', PStr (''evt-autonomy-maintenance-tick-'' @ suffix)),
     (''source_kind'', PStr ''core''),
     (''source_node'', PStr ''core-daemon''),
     (''event_type'', PStr ''core.maintenance.tick''),
     (''semantic_topic'', PStr ''core.maintenance.tick''),
     (''timestamp_wall'', PStr timestamp_wall),
     (''priority'', PInt priority),
     (''dedupe_key'', PStr (''autonomy-maintenance-tick-'' @ suffix)),
     (''policy_tags'', PList [PStr ''maintenance'', PStr ''autonomy'']),
     (''payload'', PDict [
        (''cycle_index'', PInt cycle_index),
        (''reason'', PStr reason),
        (''vitality_state'', PStr (text_or vitality_state ''unknown'')),
        (''scheduler'', PStr ''autonomy_planner'')])])"

text \<open>
  The maintenance decision of \<open>plan_autonomous_cycle\<close>: due or not, the reason put into the
  tick, and the reasons appended to the plan. \<open>cycle_index % interval\<close> raises for interval 0.
\<close>

definition maintenance_decision ::
    "AutonomousDaemonPolicy \<Rightarrow> int \<Rightarrow> VitalityState option \<Rightarrow> int option \<Rightarrow> (bool \<times> string \<times> string list) result" where
  "maintenance_decision policy cycle_index vitality_state last_maintenance_cycle = (
     let interval = dp_maintenance_interval_cycles policy;
         elapsed = (True, ''maintenance_interval_elapsed'', [''maintenance_interval_elapsed'']);
         by_interval = (case last_maintenance_cycle of
            None \<Rightarrow> if interval = 0 then Inl ZeroDivisionError
              else Inr (if cycle_index mod interval = 0 then elapsed else (False, [], []))
          | Some l \<Rightarrow> Inr (if interval \<le> cycle_index - l then elapsed else (False, [], []))) in
     (case vitality_state of
        None \<Rightarrow> by_interval
      | Some v \<Rightarrow> if vst_state v = ''concerned'' \<or> vst_state v = ''critical''
          then Inr (True, ''vitality_'' @ vst_state v, [''low_vitality_maintenance_due''])
          else by_interval))"

definition plan_autonomous_cycle ::
    "dict list \<Rightarrow> int \<Rightarrow> string \<Rightarrow> AutonomousDaemonPolicy option \<Rightarrow> VitalityState option \<Rightarrow>
     int option \<Rightarrow> bool \<Rightarrow> AutonomousCyclePlan result" where
  "plan_autonomous_cycle raw_events cycle_index timestamp_wall policy vitality_state
      last_maintenance_cycle operator_paused = (
     let active_policy = (case policy of None \<Rightarrow> default_AutonomousDaemonPolicy | Some p \<Rightarrow> p);
         topics0 = map (topic_or ''unknown'') raw_events in
     if operator_paused then Inr \<lparr>
         cp_cycle_index = cycle_index, cp_cycle_kind = ''paused'', cp_wake_decision = ''paused'',
         cp_reasons = [''operator_paused''], cp_raw_event_count = int (length raw_events),
         cp_planned_events = raw_events, cp_synthetic_event_count = 0,
         cp_should_run_workflow = False \<rparr>
     else
       let add_time = ''time.tick'' \<notin> set topics0;
           planned1 = raw_events @ (if add_time then [build_time_tick_event cycle_index timestamp_wall
               (dp_time_tick_period_ms active_policy) (dp_time_tick_priority active_policy)] else []);
           topics1 = topics0 @ (if add_time then [''time.tick''] else []);
           reasons1 = (if add_time then [''time_tick_scheduled''] else []) in
       ebind (maintenance_decision active_policy cycle_index vitality_state last_maintenance_cycle)
         (\<lambda>(maintenance_due, maintenance_reason, reasons2).
       let add_maintenance = (maintenance_due \<and> ''core.maintenance.tick'' \<notin> set topics1);
           planned2 = planned1 @ (if add_maintenance then [build_maintenance_tick_event cycle_index
               timestamp_wall (dp_maintenance_tick_priority active_policy) maintenance_reason
               (map_option vst_state vitality_state)] else []);
           topics2 = topics1 @ (if add_maintenance then [''core.maintenance.tick''] else []);
           external_events = filter (\<lambda>e. topic_or ''unknown'' e \<notin> set INTERNAL_AUTONOMY_TOPICS) planned2 in
       ebind (emap (\<lambda>e. py_int (por (dget e ''priority'') (PInt 0))) planned2) (\<lambda>priorities.
       let highest_priority = max_default0 priorities;
           (wake_decision, wake_reason) = (
             if external_events \<noteq> [] then (''affective_wake'', ''external_event_present'')
             else if ''core.maintenance.tick'' \<in> set topics2
               then (''maintenance_only'', ''maintenance_tick_present'')
             else if dp_wake_priority_threshold active_policy \<le> highest_priority
               then (''affective_wake'', ''priority_threshold_reached'')
             else (''sleep'', ''quiet_cycle''));
           cycle_kind = (
             if external_events \<noteq> [] \<and> ''core.maintenance.tick'' \<in> set topics2 then ''mixed''
             else if external_events \<noteq> [] then ''external_batch''
             else if ''core.maintenance.tick'' \<in> set topics2 then ''maintenance_tick''
             else ''time_tick'') in
       Inr \<lparr> cp_cycle_index = cycle_index, cp_cycle_kind = cycle_kind,
             cp_wake_decision = wake_decision,
             cp_reasons = reasons1 @ reasons2 @ [wake_reason],
             cp_raw_event_count = int (length raw_events),
             cp_planned_events = planned2,
             cp_synthetic_event_count = max 0 (int (length planned2) - int (length raw_events)),
             cp_should_run_workflow = (wake_decision = ''affective_wake'' \<or> wake_decision = ''maintenance_only'') \<rparr>)))"

section \<open>The daemon loop: planning the cycles of a replay\<close>

text \<open>
  The loop variables the planning uses, and the plans made so far (latest last). Cycle
  \<open>index\<close> counts from 1 (\<open>enumerate(batches, start=1)\<close>).
\<close>

record daemon_loop =
  dl_index :: int
  dl_last_maintenance_cycle :: "int option"
  dl_last_cycle_timestamp :: "string option"
  dl_env :: env
  dl_plans :: "AutonomousCyclePlan list"

definition daemon_start :: "env \<Rightarrow> daemon_loop" where
  "daemon_start w = \<lparr> dl_index = 1, dl_last_maintenance_cycle = None, dl_last_cycle_timestamp = None,
     dl_env = w, dl_plans = [] \<rparr>"

definition batch_timestamp :: "dict list \<Rightarrow> pyval" where
  "batch_timestamp batch = (if batch = [] then PNone else dget (last batch) ''timestamp_wall'')"

definition daemon_cycle ::
    "AutonomousDaemonPolicy option \<Rightarrow> VitalityState option \<Rightarrow> bool \<Rightarrow> daemon_loop \<Rightarrow> dict list \<Rightarrow> daemon_loop result" where
  "daemon_cycle policy vitality_state operator_paused l batch = (
     let (cycle_timestamp, w) = str_or_draw (batch_timestamp batch) utc_now_iso (dl_env l) in
     ebind (plan_autonomous_cycle batch (dl_index l) cycle_timestamp policy vitality_state
              (dl_last_maintenance_cycle l) operator_paused) (\<lambda>plan.
     let planned_batch = cp_planned_events plan;
         timestamp2 = (if truthy (batch_timestamp planned_batch)
           then py_str (batch_timestamp planned_batch) else cycle_timestamp);
         maintained = (\<exists>e \<in> set planned_batch. topic_or [] e = ''core.maintenance.tick'') in
     Inr \<lparr> dl_index = dl_index l + 1,
           dl_last_maintenance_cycle = (if maintained then Some (dl_index l) else dl_last_maintenance_cycle l),
           dl_last_cycle_timestamp = Some timestamp2,
           dl_env = w,
           dl_plans = dl_plans l @ [plan] \<rparr>))"

section \<open>The plan of one cycle\<close>

lemma topic_time_tick [simp]: "topic_or d (build_time_tick_event n t per pr) = ''time.tick''"
  by (simp add: topic_or_def build_time_tick_event_def Let_def)

lemma topic_maintenance_tick [simp]:
  "topic_or d (build_maintenance_tick_event n t pr r v) = ''core.maintenance.tick''"
  by (simp add: topic_or_def build_maintenance_tick_event_def Let_def)

lemma priority_ticks [simp]:
  "py_int (por (dget (build_time_tick_event n t per pr) ''priority'') (PInt 0)) = Inr pr"
  "py_int (por (dget (build_maintenance_tick_event n t pr r v) ''priority'') (PInt 0)) = Inr pr"
  by (cases "pr = 0"; simp add: build_time_tick_event_def build_maintenance_tick_event_def Let_def)+

definition active_policy_of :: "AutonomousDaemonPolicy option \<Rightarrow> AutonomousDaemonPolicy" where
  "active_policy_of policy = (case policy of None \<Rightarrow> default_AutonomousDaemonPolicy | Some p \<Rightarrow> p)"

definition event_priority :: "dict \<Rightarrow> int result" where
  "event_priority e = py_int (por (dget e ''priority'') (PInt 0))"

definition external_event :: "dict \<Rightarrow> bool" where
  "external_event e \<longleftrightarrow> topic_or ''unknown'' e \<notin> set INTERNAL_AUTONOMY_TOPICS"

definition has_topic :: "string \<Rightarrow> dict list \<Rightarrow> bool" where
  "has_topic t es \<longleftrightarrow> (\<exists>e \<in> set es. topic_or ''unknown'' e = t)"

lemma has_topic_append [simp]: "has_topic t (xs @ ys) \<longleftrightarrow> has_topic t xs \<or> has_topic t ys"
  by (auto simp: has_topic_def)

text \<open>The synthetic events of a cycle, given the maintenance decision.\<close>

definition synthetic_ticks ::
    "AutonomousDaemonPolicy \<Rightarrow> dict list \<Rightarrow> int \<Rightarrow> string \<Rightarrow> bool \<Rightarrow> string \<Rightarrow> string option \<Rightarrow> dict list" where
  "synthetic_ticks pol raw n ts due reason v =
     (if has_topic ''time.tick'' raw then []
      else [build_time_tick_event n ts (dp_time_tick_period_ms pol) (dp_time_tick_priority pol)])
     @ (if due \<and> \<not> has_topic ''core.maintenance.tick'' raw
        then [build_maintenance_tick_event n ts (dp_maintenance_tick_priority pol) reason v] else [])"

lemma has_topic_ticks [simp]:
  "has_topic ''core.maintenance.tick'' (synthetic_ticks pol raw n ts due reason v) \<longleftrightarrow>
     due \<and> \<not> has_topic ''core.maintenance.tick'' raw"
  "has_topic ''time.tick'' (synthetic_ticks pol raw n ts due reason v) \<longleftrightarrow> \<not> has_topic ''time.tick'' raw"
  by (auto simp: synthetic_ticks_def) (auto simp: has_topic_def)

lemma plan_Inr:
  assumes "plan_autonomous_cycle raw n ts policy vit lm False = Inr p"
  obtains due reason rs ps where
    "maintenance_decision (active_policy_of policy) n vit lm = Inr (due, reason, rs)"
    "cp_planned_events p = raw @ synthetic_ticks (active_policy_of policy) raw n ts due reason (map_option vst_state vit)"
    "emap event_priority (cp_planned_events p) = Inr ps"
    "cp_should_run_workflow p \<longleftrightarrow> (\<exists>e \<in> set (cp_planned_events p). external_event e)
       \<or> has_topic ''core.maintenance.tick'' (cp_planned_events p)
       \<or> dp_wake_priority_threshold (active_policy_of policy) \<le> max_default0 ps"
    "cp_raw_event_count p = int (length raw)"
    "cp_synthetic_event_count p = int (length (cp_planned_events p)) - int (length raw)"
    "cp_wake_decision p = ''sleep'' \<longleftrightarrow> \<not> cp_should_run_workflow p"
proof -
  let ?pol = "active_policy_of policy"
  have mem: "t \<in> topic_or ''unknown'' ` set es \<longleftrightarrow> has_topic t es" for t es
    by (auto simp: has_topic_def)
  note unfolded = assms[unfolded plan_autonomous_cycle_def Let_def active_policy_of_def[symmetric]]
  from unfolded obtain due reason rs ps where
    d: "maintenance_decision ?pol n vit lm = Inr (due, reason, rs)" by auto
  define planned where "planned = raw @ synthetic_ticks ?pol raw n ts due reason (map_option vst_state vit)"
  have m2: "''core.maintenance.tick'' \<in> set (map (topic_or ''unknown'') raw
      @ (if ''time.tick'' \<notin> set (map (topic_or ''unknown'') raw) then [''time.tick''] else []))
      \<longleftrightarrow> has_topic ''core.maintenance.tick'' raw" by (simp add: mem)
  have planned_eq: "(raw @ (if ''time.tick'' \<notin> set (map (topic_or ''unknown'') raw)
        then [build_time_tick_event n ts (dp_time_tick_period_ms ?pol) (dp_time_tick_priority ?pol)] else [])) @
      (if due \<and> ''core.maintenance.tick'' \<notin> set (map (topic_or ''unknown'') raw
        @ (if ''time.tick'' \<notin> set (map (topic_or ''unknown'') raw) then [''time.tick''] else []))
       then [build_maintenance_tick_event n ts (dp_maintenance_tick_priority ?pol) reason
         (map_option vst_state vit)] else []) = planned"
    unfolding m2 planned_def synthetic_ticks_def by (simp add: mem)
  have m3: "''core.maintenance.tick'' \<in> set ((map (topic_or ''unknown'') raw
        @ (if ''time.tick'' \<notin> set (map (topic_or ''unknown'') raw) then [''time.tick''] else []))
      @ (if due \<and> ''core.maintenance.tick'' \<notin> set (map (topic_or ''unknown'') raw
          @ (if ''time.tick'' \<notin> set (map (topic_or ''unknown'') raw) then [''time.tick''] else []))
         then [''core.maintenance.tick''] else [])) \<longleftrightarrow> has_topic ''core.maintenance.tick'' planned"
    unfolding m2 planned_def synthetic_ticks_def by (auto simp: mem, auto simp: has_topic_def)
  from unfolded obtain ps where ps: "emap event_priority planned = Inr ps"
    unfolding event_priority_def using d planned_eq by (auto simp del: append_assoc)
  have p: "cp_planned_events p = planned \<and>
     cp_should_run_workflow p = (filter (\<lambda>e. topic_or ''unknown'' e \<notin> set INTERNAL_AUTONOMY_TOPICS) planned \<noteq> []
        \<or> has_topic ''core.maintenance.tick'' planned \<or> dp_wake_priority_threshold ?pol \<le> max_default0 ps)
     \<and> cp_raw_event_count p = int (length raw)
     \<and> cp_synthetic_event_count p = max 0 (int (length planned) - int (length raw))
     \<and> (cp_wake_decision p = ''sleep'' \<longleftrightarrow> \<not> cp_should_run_workflow p)"
    using unfolded unfolding d ebind_simps prod.case planned_eq m3
    using ps[unfolded event_priority_def]
    by (auto simp del: filter_empty_conv split: if_splits)
  show thesis
  proof (rule that[OF d])
    show "cp_planned_events p = raw @ synthetic_ticks ?pol raw n ts due reason (map_option vst_state vit)"
      using p by (simp add: planned_def)
    show "emap event_priority (cp_planned_events p) = Inr ps" using p ps by simp
    show "cp_should_run_workflow p \<longleftrightarrow> (\<exists>e \<in> set (cp_planned_events p). external_event e)
       \<or> has_topic ''core.maintenance.tick'' (cp_planned_events p)
       \<or> dp_wake_priority_threshold ?pol \<le> max_default0 ps"
      using p by (auto simp: filter_empty_conv external_event_def)
    show "cp_raw_event_count p = int (length raw)" using p by simp
    show "cp_synthetic_event_count p = int (length (cp_planned_events p)) - int (length raw)"
      using p by (simp add: planned_def)
    show "cp_wake_decision p = ''sleep'' \<longleftrightarrow> \<not> cp_should_run_workflow p" using p by simp
  qed
qed

lemma plan_paused:
  "plan_autonomous_cycle raw n ts policy vit lm True = Inr \<lparr>
     cp_cycle_index = n, cp_cycle_kind = ''paused'', cp_wake_decision = ''paused'',
     cp_reasons = [''operator_paused''], cp_raw_event_count = int (length raw),
     cp_planned_events = raw, cp_synthetic_event_count = 0, cp_should_run_workflow = False \<rparr>"
  by (simp add: plan_autonomous_cycle_def Let_def)

text \<open>When the cycle can be planned at all: readable priorities and a usable interval.\<close>

definition priorities_readable :: "dict list \<Rightarrow> bool" where
  "priorities_readable es \<longleftrightarrow> (\<forall>e \<in> set es. case event_priority e of Inr _ \<Rightarrow> True | Inl _ \<Rightarrow> False)"

definition low_vitality :: "VitalityState option \<Rightarrow> bool" where
  "low_vitality vit \<longleftrightarrow> (case vit of None \<Rightarrow> False | Some v \<Rightarrow> vst_state v = ''concerned'' \<or> vst_state v = ''critical'')"

lemma emap_readable: "(\<exists>ps. emap event_priority es = Inr ps) \<longleftrightarrow> priorities_readable es"
proof (induction es)
  case Nil
  show ?case by (simp add: priorities_readable_def)
next
  case (Cons e es)
  then show ?case by (cases "event_priority e") (auto simp: priorities_readable_def)
qed

lemma readable_append [simp]: "priorities_readable (xs @ ys) \<longleftrightarrow> priorities_readable xs \<and> priorities_readable ys"
  by (auto simp: priorities_readable_def)

lemma readable_ticks [simp]: "priorities_readable (synthetic_ticks pol raw n ts due reason v)"
  by (auto simp: priorities_readable_def synthetic_ticks_def event_priority_def)

lemma maintenance_decision_total:
  "(\<exists>d. maintenance_decision pol n vit lm = Inr d) \<longleftrightarrow>
   low_vitality vit \<or> lm \<noteq> None \<or> dp_maintenance_interval_cycles pol \<noteq> 0"
  by (auto simp: maintenance_decision_def low_vitality_def Let_def split: option.splits)

lemma ebind_ex: "\<exists>x. m = Inr x \<Longrightarrow> (\<And>x. \<exists>y. f x = Inr y) \<Longrightarrow> \<exists>y. ebind m f = Inr y"
  by auto

lemma maintenance_due_iff:
  "maintenance_decision pol n vit lm = Inr (due, reason, rs) \<Longrightarrow>
   due \<longleftrightarrow> low_vitality vit \<or> (case lm of None \<Rightarrow> n mod dp_maintenance_interval_cycles pol = 0
      | Some l \<Rightarrow> dp_maintenance_interval_cycles pol \<le> n - l)"
  by (auto simp: maintenance_decision_def low_vitality_def Let_def split: option.splits if_splits)

lemma plan_total:
  assumes d: "maintenance_decision (active_policy_of policy) n vit lm = Inr (due, reason, rs)"
    and r: "priorities_readable raw"
  shows "\<exists>p. plan_autonomous_cycle raw n ts policy vit lm False = Inr p"
proof -
  let ?pol = "active_policy_of policy"
  have all: "\<exists>ps. emap (\<lambda>e. py_int (por (dget e ''priority'') (PInt 0)))
      ((raw @ (if b then [build_time_tick_event n ts x y] else []))
      @ (if c then [build_maintenance_tick_event n ts z reason v] else [])) = Inr ps" for b c x y z v
    unfolding event_priority_def[symmetric] emap_readable
    using r by (auto simp: priorities_readable_def event_priority_def)
  show ?thesis
    unfolding plan_autonomous_cycle_def Let_def active_policy_of_def[symmetric] d ebind_simps prod.case
      if_False
    by (rule ebind_ex[OF all]) (simp split: prod.splits)
qed

section \<open>Maintenance over a daemon run\<close>

text \<open>
  The bookkeeping invariant: the plans are those of cycles 1 to \<open>dl_index - 1\<close>, the last
  maintenance cycle is the index of one of them that carries a maintenance tick, and the
  distance to it (or to the start) has not exceeded the interval.
\<close>

definition plan_maintains :: "AutonomousCyclePlan \<Rightarrow> bool" where
  "plan_maintains p \<longleftrightarrow> has_topic ''core.maintenance.tick'' (cp_planned_events p)"

definition daemon_inv :: "int \<Rightarrow> daemon_loop \<Rightarrow> bool" where
  "daemon_inv k l \<longleftrightarrow> dl_index l = 1 + int (length (dl_plans l))
     \<and> (case dl_last_maintenance_cycle l of
          None \<Rightarrow> int (length (dl_plans l)) < k
        | Some m \<Rightarrow> 1 \<le> m \<and> m \<le> int (length (dl_plans l)) \<and> plan_maintains (dl_plans l ! nat (m - 1))
            \<and> int (length (dl_plans l)) - m < k)"

lemma topic_or_default: "t \<noteq> [] \<Longrightarrow> t \<noteq> ''unknown'' \<Longrightarrow> topic_or [] e = t \<longleftrightarrow> topic_or ''unknown'' e = t"
  by (auto simp: topic_or_def por_def)

lemma maintained_has_topic:
  "(\<exists>e \<in> set es. topic_or [] e = ''core.maintenance.tick'') \<longleftrightarrow> has_topic ''core.maintenance.tick'' es"
  by (simp add: has_topic_def topic_or_default)

lemma plan_due_maintains:
  assumes "plan_autonomous_cycle raw n ts policy vit lm False = Inr p"
    and "\<not> plan_maintains p"
  shows "case lm of None \<Rightarrow> n mod dp_maintenance_interval_cycles (active_policy_of policy) \<noteq> 0
    | Some l \<Rightarrow> n - l < dp_maintenance_interval_cycles (active_policy_of policy)"
proof -
  from plan_Inr[OF assms(1)] obtain due reason rs where
    d: "maintenance_decision (active_policy_of policy) n vit lm = Inr (due, reason, rs)" and
    p: "cp_planned_events p = raw @ synthetic_ticks (active_policy_of policy) raw n ts due reason (map_option vst_state vit)"
    by metis
  have "\<not> due" using assms(2) p by (auto simp: plan_maintains_def)
  with maintenance_due_iff[OF d] show ?thesis by (auto split: option.splits)
qed

lemma daemon_step_inv:
  assumes "daemon_inv k l" and "1 \<le> k" and "k = dp_maintenance_interval_cycles (active_policy_of policy)"
    and "daemon_cycle policy vit False l batch = Inr l'"
  shows "daemon_inv k l'"
proof -
  from assms(4) obtain ts plan where
    plan: "plan_autonomous_cycle batch (dl_index l) ts policy vit (dl_last_maintenance_cycle l) False = Inr plan" and
    l': "dl_index l' = dl_index l + 1" "dl_plans l' = dl_plans l @ [plan]"
      "dl_last_maintenance_cycle l' = (if plan_maintains plan then Some (dl_index l) else dl_last_maintenance_cycle l)"
    by (auto simp: daemon_cycle_def Let_def maintained_has_topic plan_maintains_def split: prod.splits)
  note inv = assms(1)[unfolded daemon_inv_def]
  show ?thesis
  proof (cases "plan_maintains plan")
    case True
    with inv l' assms(2) show ?thesis by (simp add: daemon_inv_def nth_append)
  next
    case False
    note due = plan_due_maintains[OF plan False, folded assms(3)]
    show ?thesis
    proof (cases "dl_last_maintenance_cycle l")
      case None
      with due have "dl_index l \<noteq> k" by auto
      with None inv l' False show ?thesis by (simp add: daemon_inv_def)
    next
      case (Some m)
      with due inv l' False show ?thesis by (simp add: daemon_inv_def nth_append nat_less_iff)
    qed
  qed
qed

interpretation daemon: checked_step "daemon_cycle policy vit False"
  "\<lambda>l. 1 \<le> dp_maintenance_interval_cycles (active_policy_of policy) \<longrightarrow>
     daemon_inv (dp_maintenance_interval_cycles (active_policy_of policy)) l" for policy vit
  by unfold_locales (auto intro: daemon_step_inv)

lemma daemon_plans_length:
  "efold (daemon_cycle policy vit b) l batches = Inr l' \<Longrightarrow>
   length (dl_plans l') = length (dl_plans l) + length batches"
proof (induction batches arbitrary: l)
  case (Cons x xs)
  then obtain l1 where "daemon_cycle policy vit b l x = Inr l1" and rest: "efold (daemon_cycle policy vit b) l1 xs = Inr l'"
    by auto
  then have "length (dl_plans l1) = length (dl_plans l) + 1"
    by (auto simp: daemon_cycle_def Let_def split: prod.splits)
  with Cons.IH[OF rest] show ?case by simp
qed simp

lemma daemon_start_inv: "1 \<le> k \<Longrightarrow> daemon_inv k (daemon_start w)"
  by (simp add: daemon_inv_def daemon_start_def)

section \<open>Keys of the ticks\<close>

definition tick_key :: "dict \<Rightarrow> pyval" where
  "tick_key e = dget e ''dedupe_key''"

lemma tick_keys:
  "tick_key (build_time_tick_event n t per pr) = PStr (''autonomy-time-tick-'' @ dec_int_04 n)"
  "tick_key (build_maintenance_tick_event n t pr' r v) = PStr (''autonomy-maintenance-tick-'' @ dec_int_04 n)"
  by (simp_all add: tick_key_def build_time_tick_event_def build_maintenance_tick_event_def Let_def)

lemma from_payload_maintenance:
  "PerceptionEvent_from_payload (normalize_payload (build_maintenance_tick_event n t pr r v)) w =
   Inr (\<lparr> pe_event_id = ''evt-autonomy-maintenance-tick-'' @ dec_int_04 n, pe_source_kind = ''core'',
     pe_event_type = ''core.maintenance.tick'',
     pe_timestamp_wall = fst (str_or_draw (PStr t) utc_now_iso w),
     pe_source_node = PStr ''core-daemon'', pe_source_app = PNone,
     pe_semantic_topic = PStr ''core.maintenance.tick'', pe_timestamp_mono = PNone,
     pe_priority = pr, pe_dedupe_key = PStr (''autonomy-maintenance-tick-'' @ dec_int_04 n),
     pe_causality_id = PStr (''autonomy-maintenance-tick-'' @ dec_int_04 n), pe_raw_payload_ref = PNone,
     pe_policy_tags = [PStr ''maintenance'', PStr ''autonomy''],
     pe_payload = [(''cycle_index'', PInt n), (''reason'', PStr r),
       (''vitality_state'', PStr (text_or v ''unknown'')), (''scheduler'', PStr ''autonomy_planner'')] \<rparr>,
     snd (str_or_draw (PStr t) utc_now_iso w))"
  by (simp add: PerceptionEvent_from_payload_def normalize_payload_def build_maintenance_tick_event_def
      Let_def dsetdefault_def dset_def por_def split_beta)

lemma daemon_run_total:
  assumes k: "dp_maintenance_interval_cycles (active_policy_of policy) \<noteq> 0"
  shows "list_all priorities_readable batches \<Longrightarrow> \<exists>l'. efold (daemon_cycle policy vit False) l batches = Inr l'"
proof (induction batches arbitrary: l)
  case Nil
  show ?case by (rule exI, rule efold.simps(1))
next
  case (Cons batch batches)
  obtain ts w where ts: "str_or_draw (batch_timestamp batch) utc_now_iso (dl_env l) = (ts, w)" by fastforce
  obtain due reason rs where
    "maintenance_decision (active_policy_of policy) (dl_index l) vit (dl_last_maintenance_cycle l) = Inr (due, reason, rs)"
    using k maintenance_decision_total by (metis prod_cases3)
  from plan_total[OF this] Cons.prems obtain p where
    "plan_autonomous_cycle batch (dl_index l) ts policy vit (dl_last_maintenance_cycle l) False = Inr p"
    by fastforce
  then obtain l1 where l1: "daemon_cycle policy vit False l batch = Inr l1"
    by (simp add: daemon_cycle_def ts Let_def)
  from Cons.IH[of l1] Cons.prems l1 show ?case by simp
qed

section \<open>Properties\<close>

text \<open>Planning a cycle that is not paused keeps the raw events as they are and appends at
  most two synthetic ticks after them; the planned events always contain a time tick, the
  synthetic count is exact, and the workflow runs exactly when an external event is planned, a
  maintenance tick is planned, or some planned event reaches the wake priority; otherwise the
  decision is to sleep.\<close>

theorem plan_wake_exact:
  assumes "plan_autonomous_cycle raw n ts policy vit lm False = Inr p"
  shows "\<exists>ticks. cp_planned_events p = raw @ ticks \<and> length ticks \<le> 2
      \<and> cp_synthetic_event_count p = int (length ticks) \<and> has_topic ''time.tick'' (cp_planned_events p)
      \<and> list_all (\<lambda>e. \<not> external_event e) ticks
      \<and> (cp_should_run_workflow p \<longleftrightarrow> list_ex external_event raw
          \<or> has_topic ''core.maintenance.tick'' (cp_planned_events p)
          \<or> list_ex (\<lambda>e. case event_priority e of
                Inr q \<Rightarrow> dp_wake_priority_threshold (active_policy_of policy) \<le> q | Inl _ \<Rightarrow> False) (cp_planned_events p))
      \<and> (cp_wake_decision p = ''sleep'' \<longleftrightarrow> \<not> cp_should_run_workflow p)"
proof -
  let ?pol = "active_policy_of policy"
  from plan_Inr[OF assms] obtain due reason rs ps where
    planned: "cp_planned_events p = raw @ synthetic_ticks ?pol raw n ts due reason (map_option vst_state vit)" and
    ps: "emap event_priority (cp_planned_events p) = Inr ps" and
    run: "cp_should_run_workflow p \<longleftrightarrow> (\<exists>e \<in> set (cp_planned_events p). external_event e)
       \<or> has_topic ''core.maintenance.tick'' (cp_planned_events p)
       \<or> dp_wake_priority_threshold ?pol \<le> max_default0 ps" and
    count: "cp_synthetic_event_count p = int (length (cp_planned_events p)) - int (length raw)" and
    sleep: "cp_wake_decision p = ''sleep'' \<longleftrightarrow> \<not> cp_should_run_workflow p" by metis
  let ?ticks = "synthetic_ticks ?pol raw n ts due reason (map_option vst_state vit)"
  have internal: "list_all (\<lambda>e. \<not> external_event e) ?ticks"
    by (simp add: synthetic_ticks_def external_event_def INTERNAL_AUTONOMY_TOPICS_def)
  have time: "has_topic ''time.tick'' (cp_planned_events p)" using planned by auto
  then have ne: "ps \<noteq> []" using emap_length[OF ps] by (auto simp: has_topic_def)
  have at: "list_all2 (\<lambda>e q. event_priority e = Inr q) (cp_planned_events p) ps"
    using ps by (simp add: emap_Inr_iff)
  have high: "dp_wake_priority_threshold ?pol \<le> max_default0 ps \<longleftrightarrow>
      list_ex (\<lambda>e. case event_priority e of Inr q \<Rightarrow> dp_wake_priority_threshold ?pol \<le> q | Inl _ \<Rightarrow> False)
        (cp_planned_events p)" (is "?l \<longleftrightarrow> ?r")
  proof
    assume ?l
    moreover obtain i where "i < length ps" "ps ! i = max_default0 ps"
      using max_default0_in[OF ne] by (auto simp: in_set_conv_nth)
    ultimately show ?r using at by (auto simp: list_ex_length list_all2_conv_all_nth)
  next
    assume ?r
    then obtain i where i: "i < length (cp_planned_events p)"
      "dp_wake_priority_threshold ?pol \<le> ps ! i"
      using at by (auto simp: list_ex_length list_all2_conv_all_nth)
    then have "ps ! i \<in> set ps" using list_all2_lengthD[OF at] by simp
    from max_default0_ge[OF this] i(2) show ?l by simp
  qed
  have ext: "(\<exists>e \<in> set (cp_planned_events p). external_event e) \<longleftrightarrow> list_ex external_event raw"
    using planned internal by (auto simp: list_ex_iff list_all_iff)
  show ?thesis
  proof (intro exI[of _ ?ticks] conjI)
    show "length ?ticks \<le> 2" by (simp add: synthetic_ticks_def)
    show "cp_synthetic_event_count p = int (length ?ticks)" using count planned by simp
  qed (rule planned, rule time, rule internal, simp only: run ext high, rule sleep)
qed

theorem plan_wake_exact_witness:
  "\<exists>p. plan_autonomous_cycle [] 3 ''t'' None None None False = Inr p \<and> cp_should_run_workflow p"
proof -
  obtain due reason rs where d: "maintenance_decision (active_policy_of None) 3 None None = Inr (due, reason, rs)"
    by (simp add: maintenance_decision_def active_policy_of_def default_AutonomousDaemonPolicy_def)
  from plan_total[OF d] obtain p where p: "plan_autonomous_cycle [] 3 ''t'' None None None False = Inr p"
    by (force simp: priorities_readable_def)
  have "plan_maintains p"
    using plan_due_maintains[OF p] by (auto simp: active_policy_of_def default_AutonomousDaemonPolicy_def)
  with plan_wake_exact[OF p] p show ?thesis by (auto simp: plan_maintains_def)
qed

text \<open>A paused operator always stops the workflow: the plan exists for every input, adds no
  event and never runs the workflow. Without a pause, planning fails exactly when a raw
  priority cannot be read as an integer, or when the maintenance interval is 0 and neither a
  low vitality nor an earlier maintenance cycle hides the division by it.\<close>

theorem plan_paused_or_total:
  "plan_autonomous_cycle raw n ts policy vit lm True = Inr \<lparr>
     cp_cycle_index = n, cp_cycle_kind = ''paused'', cp_wake_decision = ''paused'',
     cp_reasons = [''operator_paused''], cp_raw_event_count = int (length raw),
     cp_planned_events = raw, cp_synthetic_event_count = 0, cp_should_run_workflow = False \<rparr>
   \<and> ((\<exists>p. plan_autonomous_cycle raw n ts policy vit lm False = Inr p) \<longleftrightarrow>
      priorities_readable raw \<and> \<not> (dp_maintenance_interval_cycles (active_policy_of policy) = 0
        \<and> lm = None \<and> \<not> low_vitality vit))"
proof (intro conjI plan_paused iffI)
  assume "\<exists>p. plan_autonomous_cycle raw n ts policy vit lm False = Inr p"
  then obtain p where p: "plan_autonomous_cycle raw n ts policy vit lm False = Inr p" by blast
  from plan_Inr[OF p] obtain due reason rs ps where
    d: "maintenance_decision (active_policy_of policy) n vit lm = Inr (due, reason, rs)" and
    planned: "cp_planned_events p = raw @ synthetic_ticks (active_policy_of policy) raw n ts due reason (map_option vst_state vit)" and
    ps: "emap event_priority (cp_planned_events p) = Inr ps" by metis
  show "priorities_readable raw" using ps planned emap_readable by (metis readable_append)
  show "\<not> (dp_maintenance_interval_cycles (active_policy_of policy) = 0 \<and> lm = None \<and> \<not> low_vitality vit)"
    using d maintenance_decision_total by blast
next
  assume ok: "priorities_readable raw \<and> \<not> (dp_maintenance_interval_cycles (active_policy_of policy) = 0
        \<and> lm = None \<and> \<not> low_vitality vit)"
  then obtain due reason rs where
    "maintenance_decision (active_policy_of policy) n vit lm = Inr (due, reason, rs)"
    using maintenance_decision_total by (metis prod_cases3)
  from plan_total[OF this] ok show "\<exists>p. plan_autonomous_cycle raw n ts policy vit lm False = Inr p" by blast
qed

lemma daemon_plans_extend:
  "efold (daemon_cycle policy vit b) l batches = Inr l' \<Longrightarrow> \<exists>ps. dl_plans l' = dl_plans l @ ps"
proof (induction batches arbitrary: l)
  case (Cons x xs)
  then obtain l1 where one: "daemon_cycle policy vit b l x = Inr l1" and rest: "efold (daemon_cycle policy vit b) l1 xs = Inr l'"
    by auto
  then have "\<exists>p. dl_plans l1 = dl_plans l @ [p]"
    by (auto simp: daemon_cycle_def Let_def split: prod.splits)
  with Cons.IH[OF rest] show ?case by auto
qed simp

lemma daemon_plans_wake:
  "efold (daemon_cycle policy vit False) l batches = Inr l' \<Longrightarrow>
   list_all (\<lambda>p. plan_maintains p \<longrightarrow> cp_should_run_workflow p) (dl_plans l) \<Longrightarrow>
   list_all (\<lambda>p. plan_maintains p \<longrightarrow> cp_should_run_workflow p) (dl_plans l')"
proof (induction batches arbitrary: l)
  case (Cons x xs)
  then obtain l1 where one: "daemon_cycle policy vit False l x = Inr l1" and rest: "efold (daemon_cycle policy vit False) l1 xs = Inr l'"
    by auto
  then obtain ts p where p: "plan_autonomous_cycle x (dl_index l) ts policy vit (dl_last_maintenance_cycle l) False = Inr p"
    and l1: "dl_plans l1 = dl_plans l @ [p]"
    by (auto simp: daemon_cycle_def Let_def split: prod.splits)
  have "plan_maintains p \<longrightarrow> cp_should_run_workflow p"
    using plan_Inr[OF p] by (metis plan_maintains_def)
  with Cons.prems(2) l1 have "list_all (\<lambda>p. plan_maintains p \<longrightarrow> cp_should_run_workflow p) (dl_plans l1)" by simp
  from Cons.IH[OF rest this] show ?case .
qed simp

lemma daemon_window:
  assumes "1 \<le> dp_maintenance_interval_cycles (active_policy_of policy)"
    and "efold (daemon_cycle policy vit False) (daemon_start w) batches = Inr l"
    and "n \<le> length batches" and "dp_maintenance_interval_cycles (active_policy_of policy) \<le> int n"
  shows "\<exists>j<n. int n - dp_maintenance_interval_cycles (active_policy_of policy) \<le> int j \<and> plan_maintains (dl_plans l ! j)"
proof -
  let ?k = "dp_maintenance_interval_cycles (active_policy_of policy)"
  obtain l1 where l1: "efold (daemon_cycle policy vit False) (daemon_start w) (take n batches) = Inr l1"
    and rest: "efold (daemon_cycle policy vit False) l1 (drop n batches) = Inr l"
    using assms(2) efold_append[of "daemon_cycle policy vit False" "daemon_start w" "take n batches" "drop n batches"]
    by (cases "efold (daemon_cycle policy vit False) (daemon_start w) (take n batches)") simp_all
  have len: "length (dl_plans l1) = n"
    using daemon_plans_length[OF l1] assms(3) by (simp add: daemon_start_def)
  obtain ps where ps: "dl_plans l = dl_plans l1 @ ps" using daemon_plans_extend[OF rest] by blast
  have "daemon_inv ?k l1"
    using daemon.run_keeps[OF _ l1] daemon_start_inv assms(1) by blast
  with len assms(4) obtain m where m: "1 \<le> m" "m \<le> int n" "plan_maintains (dl_plans l1 ! nat (m - 1))" "int n - m < ?k"
    by (auto simp: daemon_inv_def split: option.splits)
  with len ps show ?thesis by (intro exI[of _ "nat (m - 1)"]) (auto simp: nth_append)
qed



text \<open>The ticks the daemon synthesises in one run all have different dedupe keys, whatever
  the timestamps, priorities, reasons and vitality states, so the router drops none of them as
  a duplicate of another.\<close>

theorem run_ticks_distinct_keys:
  "distinct (map tick_key (concat (map (\<lambda>n. [build_time_tick_event n (ts n) (per n) (pr n),
      build_maintenance_tick_event n (ts n) (pr' n) (reason n) (v n)]) [1..N])))"
proof -
  have keys: "map tick_key (concat (map (\<lambda>n. [build_time_tick_event n (ts n) (per n) (pr n),
      build_maintenance_tick_event n (ts n) (pr' n) (reason n) (v n)]) ns)) =
    concat (map (\<lambda>n. [PStr (''autonomy-time-tick-'' @ dec_int_04 n),
      PStr (''autonomy-maintenance-tick-'' @ dec_int_04 n)]) ns)" for ns
    by (induction ns) (simp_all add: tick_keys)
  have "distinct ns \<Longrightarrow> \<forall>n \<in> set ns. 0 \<le> n \<Longrightarrow> distinct (concat (map (\<lambda>n.
      [PStr (''autonomy-time-tick-'' @ dec_int_04 n), PStr (''autonomy-maintenance-tick-'' @ dec_int_04 n)]) ns))" for ns
    by (induction ns) (auto dest: dec_int_04_inj)
  from this[of "[1..N]"] show ?thesis unfolding keys by simp
qed

text \<open>A restarted daemon counts its cycles from 1 again, and its router is seeded with the
  dedupe keys stored by the run before. Then every maintenance tick whose cycle number was
  delivered before is dropped: normalising it yields no event, whatever its new timestamp,
  priority, reason and vitality state.\<close>

theorem restarted_maintenance_tick_dropped:
  assumes "normalize r0 w0 [build_maintenance_tick_event n t1 p1 reason1 v1] = (r1, Inr (evs, w1))"
    and "evs \<noteq> []"
  shows "snd (normalize (seed_dedupe_keys r (map pe_dedupe_key evs)) w
      [build_maintenance_tick_event n t2 p2 reason2 v2]) = Inr ([], snd (str_or_draw (PStr t2) utc_now_iso w))"
proof -
  have "pe_dedupe_key (hd evs) = PStr (''autonomy-maintenance-tick-'' @ dec_int_04 n) \<and> length evs = 1"
    using assms by (auto simp: normalize_def from_payload_maintenance event_key_def py_hash_def split: if_splits)
  then have "map pe_dedupe_key evs = [PStr (''autonomy-maintenance-tick-'' @ dec_int_04 n)]"
    by (cases evs) auto
  then show ?thesis
    by (simp add: normalize_def from_payload_maintenance event_key_def seed_dedupe_keys_def)
qed

theorem restarted_maintenance_tick_dropped_witness:
  "snd (normalize (seed_dedupe_keys \<lparr>subscribers = ([] :: unit subscriber list), seen_dedupe_keys = {}\<rparr>
      [PStr ''autonomy-maintenance-tick-0003'']) sample_env
      [build_maintenance_tick_event 3 ''later'' 25 ''again'' None]) = Inr ([], sample_env)"
proof -
  let ?r = "\<lparr>subscribers = ([] :: unit subscriber list), seen_dedupe_keys = {}\<rparr>"
  obtain r1 evs w1 where first: "normalize ?r sample_env [build_maintenance_tick_event 3 ''then'' 25 ''due'' None] = (r1, Inr (evs, w1))"
    and evs: "map pe_dedupe_key evs = [PStr (''autonomy-maintenance-tick-'' @ dec_int_04 3)]"
    by (simp add: normalize_def from_payload_maintenance event_key_def py_hash_def)
  have "dec_int_04 3 = ''0003''" by code_simp
  with restarted_maintenance_tick_dropped[OF first, of ?r sample_env "''later''" 25 "''again''" None] evs
  show ?thesis by auto
qed

end
