(* ===== verification/PyTime.thy ===== *)
theory PyTime
  imports PyVal
begin

text \<open>
  \<open>datetime.fromisoformat(s).astimezone(timezone.utc)\<close> for the extended ISO format
  \<open>YYYY-MM-DD[?HH:MM[:SS[.f...]]][+HH:MM[:SS]]\<close>, as microseconds since the start of
  year 1. A text of another shape is an \<open>OutOfModel\<close> error (Python accepts some further
  basic and week formats and raises ValueError for the rest); so is a time without an offset,
  which \<open>astimezone\<close> reads in the local zone of the process. Either is a raise, never a value.
\<close>

definition digits_n :: "nat \<Rightarrow> string \<Rightarrow> (int \<times> string) option" where
  "digits_n n s = (if length (take n s) = n \<and> list_all is_digit (take n s)
     then Some (dec_value 0 (take n s), drop n s) else None)"

definition expect :: "char \<Rightarrow> string \<Rightarrow> string option" where
  "expect c s = (case s of d # r \<Rightarrow> if d = c then Some r else None | [] \<Rightarrow> None)"

definition sep_digits :: "char \<Rightarrow> nat \<Rightarrow> string \<Rightarrow> (int \<times> string) option" where
  "sep_digits c n s = (case expect c s of None \<Rightarrow> None | Some r \<Rightarrow> digits_n n r)"

definition parse_date :: "string \<Rightarrow> ((int \<times> int \<times> int) \<times> string) option" where
  "parse_date s = (case digits_n 4 s of None \<Rightarrow> None | Some (y, r1) \<Rightarrow>
     (case sep_digits (CHR ''-'') 2 r1 of None \<Rightarrow> None | Some (m, r2) \<Rightarrow>
     (case sep_digits (CHR ''-'') 2 r2 of None \<Rightarrow> None | Some (d, r3) \<Rightarrow> Some ((y, m, d), r3))))"

text \<open>Fraction digits: at least one, truncated to six.\<close>

definition parse_fraction :: "string \<Rightarrow> (int \<times> string) option" where
  "parse_fraction s = (case s of [] \<Rightarrow> Some (0, []) | c # r \<Rightarrow>
     if c = CHR ''.'' \<or> c = CHR '','' then
       (let ds = takeWhile is_digit r in
        if ds = [] then None
        else Some (dec_value 0 (take 6 (ds @ replicate 6 (CHR ''0''))), dropWhile is_digit r))
     else Some (0, s))"

definition parse_clock :: "string \<Rightarrow> ((int \<times> int \<times> int \<times> int) \<times> string) option" where
  "parse_clock s = (case digits_n 2 s of None \<Rightarrow> None | Some (h, r1) \<Rightarrow>
     (case sep_digits (CHR '':'') 2 r1 of None \<Rightarrow> None | Some (mi, r2) \<Rightarrow>
     (case sep_digits (CHR '':'') 2 r2 of
        None \<Rightarrow> Some ((h, mi, 0, 0), r2)
      | Some (sec, r3) \<Rightarrow> (case parse_fraction r3 of None \<Rightarrow> None
          | Some (f, r4) \<Rightarrow> Some ((h, mi, sec, f), r4)))))"

definition leap_year :: "int \<Rightarrow> bool" where
  "leap_year y \<longleftrightarrow> y mod 4 = 0 \<and> (y mod 100 \<noteq> 0 \<or> y mod 400 = 0)"

definition month_lengths :: "int \<Rightarrow> int list" where
  "month_lengths y = [31, if leap_year y then 29 else 28, 31, 30, 31, 30, 31, 31, 30, 31, 30, 31]"

definition valid_date :: "int \<Rightarrow> int \<Rightarrow> int \<Rightarrow> bool" where
  "valid_date y m d \<longleftrightarrow> 1 \<le> y \<and> y \<le> 9999 \<and> 1 \<le> m \<and> m \<le> 12 \<and> 1 \<le> d \<and> d \<le> month_lengths y ! nat (m - 1)"

definition valid_clock :: "int \<Rightarrow> int \<Rightarrow> int \<Rightarrow> bool" where
  "valid_clock h mi sec \<longleftrightarrow> h < 24 \<and> mi < 60 \<and> sec < 60"

text \<open>Days since 0001-01-01.\<close>

definition day_number :: "int \<Rightarrow> int \<Rightarrow> int \<Rightarrow> int" where
  "day_number y m d = (let p = y - 1 in
     p * 365 + p div 4 - p div 100 + p div 400 + sum_list (take (nat (m - 1)) (month_lengths y)) + d - 1)"

definition micros :: "int \<Rightarrow> int \<Rightarrow> int \<Rightarrow> int \<Rightarrow> int" where
  "micros h mi sec f = ((h * 60 + mi) * 60 + sec) * 1000000 + f"

definition parse_offset :: "string \<Rightarrow> int option" where
  "parse_offset s = (case s of [] \<Rightarrow> None | c # r \<Rightarrow>
     if c = CHR ''+'' \<or> c = CHR ''-'' then
       (case parse_clock r of
          Some ((h, mi, sec, f), []) \<Rightarrow> if valid_clock h mi sec
            then Some ((if c = CHR ''-'' then -1 else 1) * micros h mi sec f) else None
        | _ \<Rightarrow> None)
     else None)"

definition max_utc :: int where
  "max_utc = (day_number 9999 12 31 + 1) * 86400000000"

definition from_iso_utc :: "string \<Rightarrow> int result" where
  "from_iso_utc s = (case parse_date s of
     Some ((y, m, d), sep # r) \<Rightarrow>
       (case parse_clock r of
          Some ((h, mi, sec, f), tz) \<Rightarrow>
            (case parse_offset tz of
               None \<Rightarrow> Inl (OutOfModel ''timestamp offset'')
             | Some off \<Rightarrow>
                 if \<not> (valid_date y m d \<and> valid_clock h mi sec)
                   then Inl (ValueError ''timestamp out of range'')
                 else let t = day_number y m d * 86400000000 + micros h mi sec f - off in
                   if 0 \<le> t \<and> t < max_utc then Inr t else Inl (OverflowError ''date value out of range''))
        | None \<Rightarrow> Inl (OutOfModel ''timestamp time''))
   | _ \<Rightarrow> Inl (OutOfModel ''timestamp date''))"

lemma from_iso_utc_examples:
  "from_iso_utc ''0001-01-01T00:00:00+00:00'' = Inr 0"
  "from_iso_utc ''2026-05-09T12:30:00+00:00'' = Inr 63913926600000000"
  "from_iso_utc ''2024-02-29 01:00:00.25-02:30'' = Inr 63844774200250000"
  by code_simp+

end
