(* ===== verification/Federation.thy ===== *)
theory Federation
  imports Interfaces PyTime
begin

text \<open>
  \<open>neurolink_core/federation.py\<close>: unit and peer descriptors, the topology registry, route
  planning, delegated-execution proposals and the route smoke command. The two registries
  are dicts in registration order; re-registering an id replaces its entry in place.
\<close>

definition FEDERATION_ROUTE_SCHEMA_VERSION :: string where
  "FEDERATION_ROUTE_SCHEMA_VERSION = ''1.2.6-federation-route-v1''"

definition UNIT_CAPABILITY_SCHEMA_VERSION :: string where
  "UNIT_CAPABILITY_SCHEMA_VERSION = ''1.2.6-unit-capability-v1''"

definition DELEGATED_EXECUTION_SCHEMA_VERSION :: string where
  "DELEGATED_EXECUTION_SCHEMA_VERSION = ''1.2.6-delegated-execution-v1''"

definition FEDERATION_ROUTE_SMOKE_SCHEMA_VERSION :: string where
  "FEDERATION_ROUTE_SMOKE_SCHEMA_VERSION = ''1.2.6-federation-route-smoke-v1''"

definition parse_utc :: "string \<Rightarrow> int result" where
  "parse_utc v = from_iso_utc (str_replace_char (CHR ''Z'') ''+00:00'' v)"

section \<open>Descriptors\<close>

record UnitCapabilityDescriptor =
  ud_node_id :: string
  ud_architecture :: string
  ud_abi :: string
  ud_board_family :: string
  ud_llext_supported :: bool
  ud_storage_class :: string
  ud_network_transports :: "string list"
  ud_relay_capable :: bool
  ud_signing_enforced :: bool
  ud_resource_budget :: "(string \<times> int) list"
  ud_relay_path :: "string list"
  ud_schema_version :: string

abbreviation texts :: "string list \<Rightarrow> pyval" where
  "texts xs \<equiv> PList (map PStr xs)"

definition UnitCapabilityDescriptor_to_dict :: "UnitCapabilityDescriptor \<Rightarrow> dict" where
  "UnitCapabilityDescriptor_to_dict u = [
     (''node_id'', PStr (ud_node_id u)),
     (''architecture'', PStr (ud_architecture u)),
     (''abi'', PStr (ud_abi u)),
     (''board_family'', PStr (ud_board_family u)),
     (''llext_supported'', PBool (ud_llext_supported u)),
     (''storage_class'', PStr (ud_storage_class u)),
     (''network_transports'', texts (ud_network_transports u)),
     (''relay_capable'', PBool (ud_relay_capable u)),
     (''signing_enforced'', PBool (ud_signing_enforced u)),
     (''resource_budget'', PDict (map (apsnd PInt) (ud_resource_budget u))),
     (''relay_path'', texts (ud_relay_path u)),
     (''schema_version'', PStr (ud_schema_version u))]"

record CorePeerDescriptor =
  pd_core_id :: string
  pd_trust_scope :: string
  pd_remote_units :: "string list"
  pd_remote_unit_attachments :: "dict list"
  pd_capabilities :: "string list"
  pd_advertised_at :: string
  pd_expires_at :: string
  pd_reachable :: bool

definition is_fresh :: "CorePeerDescriptor \<Rightarrow> string \<Rightarrow> bool result" where
  "is_fresh p now = ebind (parse_utc (pd_expires_at p)) (\<lambda>e. ebind (parse_utc now) (\<lambda>n. Inr (n \<le> e)))"

definition CorePeerDescriptor_to_dict :: "CorePeerDescriptor \<Rightarrow> dict" where
  "CorePeerDescriptor_to_dict p = [
     (''core_id'', PStr (pd_core_id p)),
     (''trust_scope'', PStr (pd_trust_scope p)),
     (''remote_units'', texts (pd_remote_units p)),
     (''remote_unit_attachments'', PList (map PDict (pd_remote_unit_attachments p))),
     (''capabilities'', texts (pd_capabilities p)),
     (''advertised_at'', PStr (pd_advertised_at p)),
     (''expires_at'', PStr (pd_expires_at p)),
     (''reachable'', PBool (pd_reachable p))]"

definition attachment_for :: "CorePeerDescriptor \<Rightarrow> string \<Rightarrow> dict option" where
  "attachment_for p node = find (\<lambda>a. str_or (dget a ''node_id'') [] = node) (pd_remote_unit_attachments p)"

section \<open>Route decisions and delegated execution\<close>

record RouteDecision =
  rd_source_core :: string
  rd_target_node :: string
  rd_route_kind :: string
  rd_status :: string
  rd_trust_scope :: string
  rd_target_core :: "string option"
  rd_relay_path :: "string list"
  rd_failure_reason :: string
  rd_evidence_refs :: "string list"

definition rd_ok :: "RouteDecision \<Rightarrow> bool" where
  "rd_ok d \<longleftrightarrow> rd_status d = ''route_ready''"

definition RouteDecision_to_dict :: "RouteDecision \<Rightarrow> dict" where
  "RouteDecision_to_dict d = [
     (''schema_version'', PStr FEDERATION_ROUTE_SCHEMA_VERSION),
     (''ok'', PBool (rd_ok d)),
     (''source_core'', PStr (rd_source_core d)),
     (''target_node'', PStr (rd_target_node d)),
     (''target_core'', opt_str (rd_target_core d)),
     (''route_kind'', PStr (rd_route_kind d)),
     (''status'', PStr (rd_status d)),
     (''trust_scope'', PStr (rd_trust_scope d)),
     (''relay_path'', texts (rd_relay_path d)),
     (''failure_reason'', PStr (rd_failure_reason d)),
     (''evidence_refs'', texts (rd_evidence_refs d))]"

record DelegatedExecutionProposal =
  dp_delegation_id :: string
  dp_source_core :: string
  dp_target_core :: string
  dp_target_node :: string
  dp_resource :: string
  dp_policy_scope :: string
  dp_route_kind :: string
  dp_timeout_ms :: int
  dp_cleanup_required :: bool
  dp_audit_correlation_id :: string

definition DelegatedExecutionProposal_to_dict :: "DelegatedExecutionProposal \<Rightarrow> dict" where
  "DelegatedExecutionProposal_to_dict p = [
     (''delegation_id'', PStr (dp_delegation_id p)),
     (''source_core'', PStr (dp_source_core p)),
     (''target_core'', PStr (dp_target_core p)),
     (''target_node'', PStr (dp_target_node p)),
     (''resource'', PStr (dp_resource p)),
     (''policy_scope'', PStr (dp_policy_scope p)),
     (''route_kind'', PStr (dp_route_kind p)),
     (''timeout_ms'', PInt (dp_timeout_ms p)),
     (''cleanup_required'', PBool (dp_cleanup_required p)),
     (''audit_correlation_id'', PStr (dp_audit_correlation_id p)),
     (''schema_version'', PStr DELEGATED_EXECUTION_SCHEMA_VERSION)]"

section \<open>The registry and route planning\<close>

record FederationTopologyRegistry =
  fr_local_core_id :: string
  fr_local_trust_scope :: string
  fr_local_units :: "(string \<times> UnitCapabilityDescriptor) list"
  fr_peers :: "(string \<times> CorePeerDescriptor) list"

definition new_registry :: "string \<Rightarrow> string \<Rightarrow> FederationTopologyRegistry" where
  "new_registry local_core_id local_trust_scope = \<lparr> fr_local_core_id = local_core_id,
     fr_local_trust_scope = local_trust_scope, fr_local_units = [], fr_peers = [] \<rparr>"

definition register_local_unit ::
    "FederationTopologyRegistry \<Rightarrow> UnitCapabilityDescriptor \<Rightarrow> FederationTopologyRegistry" where
  "register_local_unit r u = r\<lparr> fr_local_units := AList.update (ud_node_id u) u (fr_local_units r) \<rparr>"

definition register_peer ::
    "FederationTopologyRegistry \<Rightarrow> CorePeerDescriptor \<Rightarrow> FederationTopologyRegistry" where
  "register_peer r p = r\<lparr> fr_peers := AList.update (pd_core_id p) p (fr_peers r) \<rparr>"

definition list_peers :: "FederationTopologyRegistry \<Rightarrow> CorePeerDescriptor list" where
  "list_peers r = sort_key pd_core_id (map snd (fr_peers r))"

text \<open>\<open>[x for x in xs if p(x)]\<close> with a test that may raise.\<close>

fun efilter :: "('a \<Rightarrow> bool result) \<Rightarrow> 'a list \<Rightarrow> 'a list result" where
  "efilter p [] = Inr []"
| "efilter p (x # xs) = ebind (p x) (\<lambda>b. ebind (efilter p xs) (\<lambda>ys. Inr (if b then x # ys else ys)))"

text \<open>\<open>tuple(str(item) for item in (attachment.get(k) or ()) if str(item))\<close>.\<close>

definition attachment_texts :: "dict \<Rightarrow> string \<Rightarrow> string list result" where
  "attachment_texts a k = ebind (py_list (por (dget a k) (PTuple [])))
     (\<lambda>xs. Inr (filter (\<lambda>s. s \<noteq> []) (map py_str xs)))"

definition plan_local_route ::
    "FederationTopologyRegistry \<Rightarrow> UnitCapabilityDescriptor \<Rightarrow> string \<Rightarrow> string option \<Rightarrow> string option \<Rightarrow> RouteDecision" where
  "plan_local_route r u target_node required_trust_scope required_transport = (
     let kind = (if ud_relay_path u \<noteq> [] then ''relay'' else ''direct'');
         reject = \<lparr> rd_source_core = fr_local_core_id r, rd_target_node = target_node,
           rd_route_kind = kind, rd_status = ''route_rejected'',
           rd_trust_scope = fr_local_trust_scope r, rd_target_core = None,
           rd_relay_path = ud_relay_path u, rd_failure_reason = [],
           rd_evidence_refs = target_node # ud_relay_path u \<rparr> in
     if text_set required_trust_scope \<and> required_trust_scope \<noteq> Some (fr_local_trust_scope r) then
       reject\<lparr> rd_route_kind := ''local'', rd_relay_path := [],
         rd_failure_reason := ''trust_scope_mismatch'', rd_evidence_refs := [target_node] \<rparr>
     else if text_set required_transport \<and> the required_transport \<notin> set (ud_network_transports u) then
       reject\<lparr> rd_failure_reason := ''transport_mismatch'' \<rparr>
     else if ud_relay_path u \<noteq> [] \<and> \<not> ud_relay_capable u then
       reject\<lparr> rd_failure_reason := ''relay_capability_mismatch'' \<rparr>
     else reject\<lparr> rd_status := ''route_ready'', rd_evidence_refs := [target_node] \<rparr>)"

definition advertises :: "string \<Rightarrow> CorePeerDescriptor \<Rightarrow> bool" where
  "advertises node p \<longleftrightarrow> node \<in> set (pd_remote_units p) \<or> attachment_for p node \<noteq> None"

definition plan_peer_route ::
    "FederationTopologyRegistry \<Rightarrow> string \<Rightarrow> string \<Rightarrow> string option \<Rightarrow> string option \<Rightarrow> RouteDecision result" where
  "plan_peer_route r target_node now required_trust_scope required_transport = (
     let peers = filter (advertises target_node) (map snd (fr_peers r));
         decision = \<lparr> rd_source_core = fr_local_core_id r, rd_target_node = target_node,
           rd_route_kind = ''delegated_core'', rd_status = ''route_rejected'', rd_trust_scope = [],
           rd_target_core = None, rd_relay_path = [], rd_failure_reason = [], rd_evidence_refs = [] \<rparr> in
     if peers = [] then Inr (decision\<lparr> rd_route_kind := ''none'', rd_status := ''no_route'',
         rd_trust_scope := text_or required_trust_scope [],
         rd_failure_reason := ''target_node_not_advertised'' \<rparr>)
     else
     let trusted_peers = (if text_set required_trust_scope
           then filter (\<lambda>p. Some (pd_trust_scope p) = required_trust_scope) peers else peers) in
     if trusted_peers = [] then Inr (decision\<lparr> rd_trust_scope := text_or required_trust_scope [],
         rd_failure_reason := ''trust_scope_mismatch'',
         rd_evidence_refs := sort (map pd_core_id peers) \<rparr>)
     else
     ebind (efilter (\<lambda>p. is_fresh p now) trusted_peers) (\<lambda>fresh_peers.
     if fresh_peers = [] then Inr (decision\<lparr> rd_status := ''stale_route'',
         rd_trust_scope := text_or required_trust_scope (pd_trust_scope (hd trusted_peers)),
         rd_failure_reason := ''peer_advertisement_stale'',
         rd_evidence_refs := sort (map pd_core_id trusted_peers) \<rparr>)
     else
     let reachable_peers = filter pd_reachable fresh_peers in
     if reachable_peers = [] then Inr (decision\<lparr> rd_status := ''route_failed'',
         rd_trust_scope := text_or required_trust_scope (pd_trust_scope (hd fresh_peers)),
         rd_failure_reason := ''peer_unreachable'',
         rd_evidence_refs := sort (map pd_core_id fresh_peers) \<rparr>)
     else
     let selected = hd (sort_key pd_core_id reachable_peers);
         selected_attachment = (case attachment_for selected target_node of None \<Rightarrow> [] | Some a \<Rightarrow> a) in
     ebind (attachment_texts selected_attachment ''relay_path'') (\<lambda>selected_relay_path.
     ebind (attachment_texts selected_attachment ''network_transports'') (\<lambda>selected_transports.
     let chosen = decision\<lparr> rd_target_core := Some (pd_core_id selected),
           rd_trust_scope := pd_trust_scope selected, rd_relay_path := selected_relay_path,
           rd_evidence_refs := [pd_core_id selected, target_node] @ selected_relay_path \<rparr> in
     if text_set required_transport \<and> selected_transports \<noteq> []
         \<and> the required_transport \<notin> set selected_transports
       then Inr (chosen\<lparr> rd_failure_reason := ''transport_mismatch'' \<rparr>)
     else Inr (chosen\<lparr> rd_status := ''route_ready'' \<rparr>)))))"

definition plan_route ::
    "FederationTopologyRegistry \<Rightarrow> string \<Rightarrow> string \<Rightarrow> string option \<Rightarrow> string option \<Rightarrow> RouteDecision result" where
  "plan_route r target_node now required_trust_scope required_transport = (
     case map_of (fr_local_units r) target_node of
       Some u \<Rightarrow> Inr (plan_local_route r u target_node required_trust_scope required_transport)
     | None \<Rightarrow> plan_peer_route r target_node now required_trust_scope required_transport)"

definition build_delegated_execution_proposal ::
    "string \<Rightarrow> RouteDecision \<Rightarrow> string \<Rightarrow> string \<Rightarrow> int \<Rightarrow> bool \<Rightarrow> string \<Rightarrow> DelegatedExecutionProposal result" where
  "build_delegated_execution_proposal delegation_id route resource policy_scope timeout_ms
      cleanup_required audit_correlation_id = (
     case rd_target_core route of
       None \<Rightarrow> Inl (ValueError ''delegated_execution_requires_ready_delegated_core_route'')
     | Some core \<Rightarrow>
         if rd_route_kind route \<noteq> ''delegated_core'' \<or> \<not> rd_ok route
         then Inl (ValueError ''delegated_execution_requires_ready_delegated_core_route'')
         else Inr \<lparr> dp_delegation_id = delegation_id, dp_source_core = rd_source_core route,
           dp_target_core = core, dp_target_node = rd_target_node route, dp_resource = resource,
           dp_policy_scope = policy_scope, dp_route_kind = rd_route_kind route,
           dp_timeout_ms = timeout_ms, dp_cleanup_required = cleanup_required,
           dp_audit_correlation_id = audit_correlation_id \<rparr>)"

section \<open>The route smoke command\<close>

record smoke_args =
  sa_target_node :: string
  sa_now :: string
  sa_required_trust_scope :: string
  sa_required_transport :: string
  sa_local_unit :: bool
  sa_network_transports :: "string list"
  sa_relay_via :: "string list"
  sa_relay_capable :: "bool option"
  sa_peer_core_id :: string
  sa_peer_trust_scope :: string
  sa_peer_network_transports :: "string list"
  sa_peer_relay_via :: "string list"
  sa_peer_expires_at :: string
  sa_peer_reachable :: bool
  sa_include_delegation_proposal :: bool

definition default_smoke_args :: "string \<Rightarrow> string \<Rightarrow> smoke_args" where
  "default_smoke_args target_node now = \<lparr> sa_target_node = target_node, sa_now = now,
     sa_required_trust_scope = [], sa_required_transport = [], sa_local_unit = False,
     sa_network_transports = [''wifi'', ''serial_bridge''], sa_relay_via = [],
     sa_relay_capable = None, sa_peer_core_id = ''core-b'',
     sa_peer_trust_scope = ''lab-federation'', sa_peer_network_transports = [],
     sa_peer_relay_via = [], sa_peer_expires_at = ''2026-05-09T12:30:00Z'',
     sa_peer_reachable = True, sa_include_delegation_proposal = True \<rparr>"

definition text_arg :: "string \<Rightarrow> string option" where
  "text_arg s = (if s = [] then None else Some s)"

definition smoke_registry :: "smoke_args \<Rightarrow> FederationTopologyRegistry" where
  "smoke_registry a = (
     let registry = new_registry ''core-a'' ''local'' in
     if sa_local_unit a then
       register_local_unit registry \<lparr> ud_node_id = sa_target_node a, ud_architecture = ''xtensa'',
         ud_abi = ''zephyr-llext-v1'', ud_board_family = ''generic-unit-class'',
         ud_llext_supported = True, ud_storage_class = ''removable_or_flash'',
         ud_network_transports = sa_network_transports a,
         ud_relay_capable = (case sa_relay_capable a of None \<Rightarrow> sa_relay_via a \<noteq> [] | Some b \<Rightarrow> b),
         ud_signing_enforced = False, ud_resource_budget = [], ud_relay_path = sa_relay_via a,
         ud_schema_version = UNIT_CAPABILITY_SCHEMA_VERSION \<rparr>
     else
       register_peer registry \<lparr> pd_core_id = sa_peer_core_id a, pd_trust_scope = sa_peer_trust_scope a,
         pd_remote_units = [sa_target_node a],
         pd_remote_unit_attachments = (if sa_peer_relay_via a \<noteq> [] \<or> sa_peer_network_transports a \<noteq> []
           then [[(''node_id'', PStr (sa_target_node a)),
                  (''relay_path'', texts (sa_peer_relay_via a)),
                  (''network_transports'', texts (sa_peer_network_transports a))]] else []),
         pd_capabilities = [''delegated_execution''],
         pd_advertised_at = ''2026-05-09T11:00:00Z'',
         pd_expires_at = sa_peer_expires_at a,
         pd_reachable = sa_peer_reachable a \<rparr>)"

definition smoke_proposal :: "smoke_args \<Rightarrow> RouteDecision \<Rightarrow> dict option result" where
  "smoke_proposal a route = (
     if sa_include_delegation_proposal a \<and> rd_ok route \<and> rd_route_kind route = ''delegated_core'' then
       ebind (build_delegated_execution_proposal ''fed-del-smoke-001'' route
          (''neuro/'' @ sa_target_node a @ ''/query/device'') ''read_only'' 5000 False ''audit-fed-smoke-001'')
         (\<lambda>p. Inr (Some (DelegatedExecutionProposal_to_dict p)))
     else Inr None)"

definition smoke_payload :: "smoke_args \<Rightarrow> RouteDecision \<Rightarrow> dict option \<Rightarrow> dict" where
  "smoke_payload a route proposal_payload = (
     let direct_or_relay = (rd_route_kind route = ''direct'' \<or> rd_route_kind route = ''relay'') in [
     (''schema_version'', PStr FEDERATION_ROUTE_SMOKE_SCHEMA_VERSION),
     (''command'', PStr ''federation-route-smoke''),
     (''ok'', PBool (rd_ok route)),
     (''status'', PStr (rd_status route)),
     (''reason'', PStr (if rd_ok route then ''route_ready'' else rd_failure_reason route)),
     (''route_decision'', PDict (RouteDecision_to_dict route)),
     (''delegated_execution'', case proposal_payload of None \<Rightarrow> PNone | Some d \<Rightarrow> PDict d),
     (''closure_gates'', PDict [
        (''route_decision_recorded'', PBool True),
        (''route_ready'', PBool (rd_ok route)),
        (''direct_or_relay_route_recorded'', PBool (direct_or_relay \<and> rd_ok route)),
        (''delegated_route_recorded'', PBool (rd_route_kind route = ''delegated_core'')),
        (''delegated_execution_contract_ready'', PBool (proposal_payload \<noteq> None)),
        (''trust_scope_checked'', PBool (sa_required_trust_scope a \<noteq> [] \<or> direct_or_relay))]),
     (''evidence_summary'', PDict [
        (''target_node'', PStr (sa_target_node a)),
        (''route_kind'', PStr (rd_route_kind route)),
        (''target_core'', opt_str (rd_target_core route)),
        (''relay_path'', texts (rd_relay_path route)),
        (''trust_scope'', PStr (rd_trust_scope route)),
        (''required_transport'', PStr (sa_required_transport a)),
        (''supported_transports'', texts (if sa_local_unit a then sa_network_transports a
           else sa_peer_network_transports a)),
        (''failure_reason'', PStr (rd_failure_reason route))])])"

definition federation_route_smoke :: "smoke_args \<Rightarrow> dict result" where
  "federation_route_smoke a =
     ebind (plan_route (smoke_registry a) (sa_target_node a) (sa_now a)
        (text_arg (sa_required_trust_scope a)) (text_arg (sa_required_transport a))) (\<lambda>route.
     ebind (smoke_proposal a route) (\<lambda>proposal_payload.
     Inr (smoke_payload a route proposal_payload)))"

section \<open>The registry\<close>

interpretation local_units: registry register_local_unit "\<lambda>r. map_of (fr_local_units r)" ud_node_id
  by unfold_locales (simp add: register_local_unit_def update_conv')

interpretation peers: registry register_peer "\<lambda>r. map_of (fr_peers r)" pd_core_id
  by unfold_locales (simp add: register_peer_def update_conv')

text \<open>A registry built by registrations: peers are filed once, under their own id.\<close>

definition registry_ok :: "FederationTopologyRegistry \<Rightarrow> bool" where
  "registry_ok r \<longleftrightarrow> distinct (map fst (fr_peers r)) \<and> list_all (\<lambda>kp. fst kp = pd_core_id (snd kp)) (fr_peers r)"

lemma registry_ok_ids: "registry_ok r \<Longrightarrow> map pd_core_id (map snd (fr_peers r)) = map fst (fr_peers r)"
  by (auto simp: registry_ok_def list_all_iff)

lemma registry_ok_distinct: "registry_ok r \<Longrightarrow> distinct (map pd_core_id (map snd (fr_peers r)))"
  by (simp only: registry_ok_ids) (simp add: registry_ok_def)

lemma registry_ok_new [inv_intros]: "registry_ok (new_registry c s)"
  by (simp add: registry_ok_def new_registry_def)

lemma registry_ok_peer [inv_intros]: "registry_ok r \<Longrightarrow> registry_ok (register_peer r p)"
  unfolding registry_ok_def list_all_iff
  by (elim conjE) (simp add: register_peer_def distinct_update keyed_update)

lemma registry_ok_unit [inv_intros]: "registry_ok r \<Longrightarrow> registry_ok (register_local_unit r u)"
  by (simp add: registry_ok_def register_local_unit_def)

section \<open>Peer selection\<close>

lemma efilter_Inr:
  "efilter p xs = Inr ys \<longleftrightarrow> list_all (\<lambda>x. \<exists>b. p x = Inr b) xs \<and> ys = filter (\<lambda>x. p x = Inr True) xs"
proof (induction xs arbitrary: ys)
  case (Cons x xs)
  show ?case by (cases "p x") (simp_all add: Cons.IH eq_commute[of _ ys] conj_commute)
qed (simp add: eq_commute)

lemma efilter_bind:
  "ebind (efilter p xs) f = ebind (efilter p xs) (\<lambda>_. f (filter (\<lambda>x. p x = Inr True) xs))"
proof (cases "efilter p xs")
  case (Inr ys)
  then have "ys = filter (\<lambda>x. p x = Inr True) xs" by (simp only: efilter_Inr)
  with Inr show ?thesis by (simp only: ebind_simps)
qed simp

text \<open>The peers a remote route may use: advertising, trusted, fresh and reachable.\<close>

definition eligible_peer :: "string \<Rightarrow> string \<Rightarrow> string option \<Rightarrow> CorePeerDescriptor \<Rightarrow> bool" where
  "eligible_peer node now trust p \<longleftrightarrow> advertises node p \<and> (\<not> text_set trust \<or> Some (pd_trust_scope p) = trust)
     \<and> is_fresh p now = Inr True \<and> pd_reachable p"

definition transport_ok :: "CorePeerDescriptor \<Rightarrow> string \<Rightarrow> string option \<Rightarrow> bool" where
  "transport_ok p node transport \<longleftrightarrow> \<not> text_set transport \<or>
     (case attachment_texts (case attachment_for p node of None \<Rightarrow> [] | Some a \<Rightarrow> a) ''network_transports'' of
        Inl _ \<Rightarrow> False | Inr ts \<Rightarrow> ts = [] \<or> the transport \<in> set ts)"

lemma hd_sort_key:
  assumes "xs \<noteq> []"
  shows "hd (sort_key k xs) \<in> set xs" and "x \<in> set xs \<Longrightarrow> k (hd (sort_key k xs)) \<le> k x"
proof -
  have ne: "sort_key k xs \<noteq> []" using assms by (metis length_0_conv length_sort)
  show "hd (sort_key k xs) \<in> set xs" using hd_in_set[OF ne] by simp
  show "k (hd (sort_key k xs)) \<le> k x" if "x \<in> set xs"
  proof -
    from ne obtain y ys where y: "sort_key k xs = y # ys" by (cases "sort_key k xs") auto
    have "x \<in> set (y # ys)" using that y by (metis set_sort)
    moreover have "sorted (map k (y # ys))" using y by (metis sorted_sort_key)
    ultimately show ?thesis using y by auto
  qed
qed

definition trust_ok :: "string option \<Rightarrow> CorePeerDescriptor \<Rightarrow> bool" where
  "trust_ok trust p \<longleftrightarrow> \<not> text_set trust \<or> Some (pd_trust_scope p) = trust"

definition peer_list :: "FederationTopologyRegistry \<Rightarrow> CorePeerDescriptor list" where
  "peer_list r = map snd (fr_peers r)"

definition trusted_list :: "FederationTopologyRegistry \<Rightarrow> string \<Rightarrow> string option \<Rightarrow> CorePeerDescriptor list" where
  "trusted_list r node trust = filter (\<lambda>p. advertises node p \<and> trust_ok trust p) (peer_list r)"

definition fresh_list :: "FederationTopologyRegistry \<Rightarrow> string \<Rightarrow> string \<Rightarrow> string option \<Rightarrow> CorePeerDescriptor list" where
  "fresh_list r node now trust = filter (\<lambda>p. is_fresh p now = Inr True) (trusted_list r node trust)"

definition eligible_list :: "FederationTopologyRegistry \<Rightarrow> string \<Rightarrow> string \<Rightarrow> string option \<Rightarrow> CorePeerDescriptor list" where
  "eligible_list r node now trust = filter (eligible_peer node now trust) (peer_list r)"

lemma eligible_list_fresh: "eligible_list r node now trust = filter pd_reachable (fresh_list r node now trust)"
  by (auto simp: eligible_list_def fresh_list_def trusted_list_def eligible_peer_def trust_ok_def
      intro!: filter_cong)

definition selected_peer :: "FederationTopologyRegistry \<Rightarrow> string \<Rightarrow> string \<Rightarrow> string option \<Rightarrow> CorePeerDescriptor" where
  "selected_peer r node now trust = hd (sort_key pd_core_id (eligible_list r node now trust))"

definition selected_attachment :: "CorePeerDescriptor \<Rightarrow> string \<Rightarrow> dict" where
  "selected_attachment p node = (case attachment_for p node of None \<Rightarrow> [] | Some a \<Rightarrow> a)"

text \<open>The five outcomes of a remote route, in the order the code tests them.\<close>

lemma plan_peer_route_eq:
  "plan_peer_route r node now trust transport = (
     let base = \<lparr> rd_source_core = fr_local_core_id r, rd_target_node = node,
           rd_route_kind = ''delegated_core'', rd_status = ''route_rejected'', rd_trust_scope = [],
           rd_target_core = None, rd_relay_path = [], rd_failure_reason = [], rd_evidence_refs = [] \<rparr>;
         p = selected_peer r node now trust; a = selected_attachment p node in
     if filter (advertises node) (peer_list r) = [] then Inr (base\<lparr> rd_route_kind := ''none'',
         rd_status := ''no_route'', rd_trust_scope := text_or trust [],
         rd_failure_reason := ''target_node_not_advertised'' \<rparr>)
     else if trusted_list r node trust = [] then Inr (base\<lparr> rd_trust_scope := text_or trust [],
         rd_failure_reason := ''trust_scope_mismatch'',
         rd_evidence_refs := sort (map pd_core_id (filter (advertises node) (peer_list r))) \<rparr>)
     else ebind (efilter (\<lambda>p. is_fresh p now) (trusted_list r node trust)) (\<lambda>_.
     if fresh_list r node now trust = [] then Inr (base\<lparr> rd_status := ''stale_route'',
         rd_trust_scope := text_or trust (pd_trust_scope (hd (trusted_list r node trust))),
         rd_failure_reason := ''peer_advertisement_stale'',
         rd_evidence_refs := sort (map pd_core_id (trusted_list r node trust)) \<rparr>)
     else if eligible_list r node now trust = [] then Inr (base\<lparr> rd_status := ''route_failed'',
         rd_trust_scope := text_or trust (pd_trust_scope (hd (fresh_list r node now trust))),
         rd_failure_reason := ''peer_unreachable'',
         rd_evidence_refs := sort (map pd_core_id (fresh_list r node now trust)) \<rparr>)
     else ebind (attachment_texts a ''relay_path'') (\<lambda>path.
       ebind (attachment_texts a ''network_transports'') (\<lambda>ts.
       let chosen = base\<lparr> rd_target_core := Some (pd_core_id p), rd_trust_scope := pd_trust_scope p,
             rd_relay_path := path, rd_evidence_refs := [pd_core_id p, node] @ path \<rparr> in
       if \<not> transport_ok p node transport
       then Inr (chosen\<lparr> rd_failure_reason := ''transport_mismatch'' \<rparr>)
       else Inr (chosen\<lparr> rd_status := ''route_ready'' \<rparr>)))))"
proof -
  have trusted: "(if text_set trust then filter (\<lambda>p. Some (pd_trust_scope p) = trust)
        (filter (advertises node) (map snd (fr_peers r))) else filter (advertises node) (map snd (fr_peers r)))
      = trusted_list r node trust"
    by (auto simp: trusted_list_def trust_ok_def peer_list_def conj_commute intro!: filter_cong)
  show ?thesis
    unfolding plan_peer_route_def Let_def trusted
    apply (subst efilter_bind)
    apply (simp only: fresh_list_def[symmetric] peer_list_def[symmetric] eligible_list_fresh[symmetric] selected_peer_def[symmetric]
        selected_attachment_def[symmetric])
    apply (intro if_cong ebind_cong refl)
    by (auto simp: transport_ok_def selected_attachment_def[symmetric])
qed

lemma plan_peer_route_ready:
  assumes "plan_peer_route r node now trust transport = Inr d"
  shows "rd_ok d \<longleftrightarrow> eligible_list r node now trust \<noteq> []
      \<and> transport_ok (selected_peer r node now trust) node transport"
    and "rd_ok d \<Longrightarrow> rd_target_core d = Some (pd_core_id (selected_peer r node now trust))
      \<and> rd_trust_scope d = pd_trust_scope (selected_peer r node now trust)
      \<and> rd_route_kind d = ''delegated_core''"
    and "rd_target_core d \<noteq> None \<Longrightarrow> rd_target_core d = Some (pd_core_id (selected_peer r node now trust))"
proof -
  have chain: "eligible_list r node now trust \<noteq> [] \<Longrightarrow> fresh_list r node now trust \<noteq> []"
    "fresh_list r node now trust \<noteq> [] \<Longrightarrow> trusted_list r node trust \<noteq> []"
    "trusted_list r node trust \<noteq> [] \<Longrightarrow> filter (advertises node) (peer_list r) \<noteq> []"
    by (auto simp: eligible_list_fresh fresh_list_def trusted_list_def filter_empty_conv)
  note eq = assms[unfolded plan_peer_route_eq Let_def]
  show "rd_ok d \<longleftrightarrow> eligible_list r node now trust \<noteq> []
      \<and> transport_ok (selected_peer r node now trust) node transport"
    using eq chain by (auto simp: rd_ok_def simp del: filter_empty_conv split: if_splits)
  show "rd_target_core d = Some (pd_core_id (selected_peer r node now trust))
      \<and> rd_trust_scope d = pd_trust_scope (selected_peer r node now trust)
      \<and> rd_route_kind d = ''delegated_core''" if "rd_ok d"
    using eq that by (auto simp: rd_ok_def simp del: filter_empty_conv split: if_splits)
  show "rd_target_core d \<noteq> None \<Longrightarrow> rd_target_core d = Some (pd_core_id (selected_peer r node now trust))"
    using eq by (auto simp del: filter_empty_conv split: if_splits)
qed

text \<open>The peer with the least core id among the eligible ones.\<close>

definition least_eligible ::
    "FederationTopologyRegistry \<Rightarrow> string \<Rightarrow> string \<Rightarrow> string option \<Rightarrow> CorePeerDescriptor \<Rightarrow> bool" where
  "least_eligible r node now trust p \<longleftrightarrow> p \<in> set (peer_list r) \<and> eligible_peer node now trust p
     \<and> (\<forall>q \<in> set (peer_list r). eligible_peer node now trust q \<longrightarrow> pd_core_id p \<le> pd_core_id q)"

lemma selected_least:
  assumes "eligible_list r node now trust \<noteq> []"
  shows "least_eligible r node now trust (selected_peer r node now trust)"
  using hd_sort_key(1)[OF assms, of pd_core_id] hd_sort_key(2)[OF assms, of _ pd_core_id]
  by (auto simp: least_eligible_def selected_peer_def eligible_list_def)

lemma least_unique:
  assumes "registry_ok r" "least_eligible r node now trust p" "least_eligible r node now trust q"
  shows "p = q"
proof -
  have "pd_core_id p = pd_core_id q" using assms(2,3) unfolding least_eligible_def by (blast intro: order_antisym)
  moreover have "inj_on pd_core_id (set (peer_list r))"
    using registry_ok_distinct[OF assms(1)] unfolding distinct_map peer_list_def by blast
  ultimately show ?thesis using assms(2,3) by (meson inj_onD least_eligible_def)
qed

lemma least_nonempty: "least_eligible r node now trust p \<Longrightarrow> eligible_list r node now trust \<noteq> []"
  by (auto simp: least_eligible_def eligible_list_def filter_empty_conv)

definition unit_ready ::
    "FederationTopologyRegistry \<Rightarrow> UnitCapabilityDescriptor \<Rightarrow> string option \<Rightarrow> string option \<Rightarrow> bool" where
  "unit_ready r u trust transport \<longleftrightarrow> (text_set trust \<longrightarrow> trust = Some (fr_local_trust_scope r))
     \<and> (text_set transport \<longrightarrow> the transport \<in> set (ud_network_transports u))
     \<and> (ud_relay_path u \<noteq> [] \<longrightarrow> ud_relay_capable u)"

lemma plan_local_ready: "rd_ok (plan_local_route r u node trust transport) \<longleftrightarrow> unit_ready r u trust transport"
  by (simp add: plan_local_route_def rd_ok_def unit_ready_def Let_def)

lemma plan_local_core: "rd_target_core (plan_local_route r u node trust transport) = None"
  by (simp add: plan_local_route_def Let_def)

section \<open>Properties\<close>

definition sample_peer :: "string \<Rightarrow> CorePeerDescriptor" where
  "sample_peer cid = \<lparr> pd_core_id = cid, pd_trust_scope = ''lab'', pd_remote_units = [''u1''],
     pd_remote_unit_attachments = [], pd_capabilities = [], pd_advertised_at = ''2026-05-09T11:00:00Z'',
     pd_expires_at = ''2026-05-09T12:30:00Z'', pd_reachable = True \<rparr>"

definition sample_registry :: FederationTopologyRegistry where
  "sample_registry = register_peer (register_peer (new_registry ''core-a'' ''local'') (sample_peer ''c2''))
     (sample_peer ''c1'')"

lemma sample_registry_ok: "registry_ok sample_registry"
  unfolding sample_registry_def by (intro inv_intros)

text \<open>C27: A planned route is ready exactly when it may be used. A local unit is ready when the
  required trust scope is the local one, it has the required transport, and it can relay when it
  has a relay path. A remote unit is ready when the least core id among the advertising,
  trusted, fresh and reachable peers belongs to a peer whose attachment does not exclude the
  required transport; then the decision names this peer and its trust scope.\<close>

theorem route_ready_exact:
  assumes "registry_ok r" and "plan_route r node now trust transport = Inr d"
  shows "case map_of (fr_local_units r) node of
      Some u \<Rightarrow> (rd_ok d \<longleftrightarrow> unit_ready r u trust transport) \<and> rd_target_core d = None
    | None \<Rightarrow> (rd_ok d \<longleftrightarrow> (\<exists>p. least_eligible r node now trust p \<and> transport_ok p node transport))
        \<and> (\<forall>p. rd_ok d \<and> least_eligible r node now trust p \<longrightarrow>
             rd_target_core d = Some (pd_core_id p) \<and> rd_trust_scope d = pd_trust_scope p
             \<and> rd_route_kind d = ''delegated_core'')"
proof (cases "map_of (fr_local_units r) node")
  case (Some u)
  with assms(2) have "d = plan_local_route r u node trust transport" by (simp add: plan_route_def)
  with Some show ?thesis by (simp add: plan_local_ready plan_local_core)
next
  case None
  with assms(2) have d: "plan_peer_route r node now trust transport = Inr d" by (simp add: plan_route_def)
  have sel: "p = selected_peer r node now trust" if "least_eligible r node now trust p" for p
    using least_unique[OF assms(1) that selected_least[OF least_nonempty[OF that]]] .
  note ready = plan_peer_route_ready(1,2)[OF d]
  have "rd_ok d \<longleftrightarrow> (\<exists>p. least_eligible r node now trust p \<and> transport_ok p node transport)"
    using ready(1) sel selected_least least_nonempty by metis
  moreover have "\<forall>p. rd_ok d \<and> least_eligible r node now trust p \<longrightarrow>
             rd_target_core d = Some (pd_core_id p) \<and> rd_trust_scope d = pd_trust_scope p
             \<and> rd_route_kind d = ''delegated_core''"
    using ready(2) sel by metis
  ultimately show ?thesis unfolding None option.case by (rule conjI)
qed

theorem route_ready_exact_witness:
  "\<exists>d. plan_route sample_registry ''u1'' ''2026-05-09T12:00:00Z'' (Some ''lab'') None = Inr d
    \<and> rd_ok d \<and> rd_target_core d = Some ''c1''"
proof -
  have "(case plan_route sample_registry ''u1'' ''2026-05-09T12:00:00Z'' (Some ''lab'') None of
      Inr d \<Rightarrow> True | Inl _ \<Rightarrow> False)" by code_simp
  then obtain d where d: "plan_route sample_registry ''u1'' ''2026-05-09T12:00:00Z'' (Some ''lab'') None = Inr d"
    by (auto split: sum.splits)
  have units: "map_of (fr_local_units sample_registry) ''u1'' = None" by code_simp
  have least: "least_eligible sample_registry ''u1'' ''2026-05-09T12:00:00Z'' (Some ''lab'') (sample_peer ''c1'')"
    by code_simp
  have transport: "transport_ok (sample_peer ''c1'') ''u1'' None" by code_simp
  from route_ready_exact[OF sample_registry_ok d] units least transport d show ?thesis
    by (auto simp: sample_peer_def)
qed

text \<open>The planner answers \<open>no_route\<close> exactly when the node is neither a local unit nor
  advertised by any peer, through its unit list or an attachment; this answer needs no clock, so
  it is given also when a timestamp cannot be parsed.\<close>

theorem no_route_exact:
  "(\<exists>d. plan_route r node now trust transport = Inr d \<and> rd_status d = ''no_route'') \<longleftrightarrow>
   map_of (fr_local_units r) node = None \<and> \<not> list_ex (advertises node) (peer_list r)"
proof (cases "map_of (fr_local_units r) node")
  case (Some u)
  then show ?thesis by (simp add: plan_route_def plan_local_route_def Let_def)
next
  case None
  have "\<not> list_ex (advertises node) (peer_list r) \<longleftrightarrow> filter (advertises node) (peer_list r) = []"
    by (auto simp: list_ex_iff filter_empty_conv)
  with None show ?thesis
    by (auto simp: plan_route_def plan_peer_route_eq Let_def simp del: filter_empty_conv split: if_splits)
qed

text \<open>Routing does not depend on the order in which the peers were registered: with the
  same peers in another order every decision is the same, except for the trust scope reported
  with a stale or failed route when no scope was required.\<close>

theorem route_registration_order:
  assumes "registry_ok r" and "registry_ok r'" and "set (fr_peers r) = set (fr_peers r')"
    and "fr_local_units r = fr_local_units r'" and "fr_local_core_id r = fr_local_core_id r'"
    and "fr_local_trust_scope r = fr_local_trust_scope r'"
    and "plan_route r node now trust transport = Inr d"
  shows "\<exists>d'. plan_route r' node now trust transport = Inr d'
    \<and> d' = d\<lparr> rd_trust_scope := rd_trust_scope d' \<rparr>
    \<and> (rd_status d = ''stale_route'' \<or> rd_status d = ''route_failed'' \<or> rd_trust_scope d' = rd_trust_scope d)"
proof (cases "map_of (fr_local_units r) node")
  case (Some u)
  with assms(4-7) show ?thesis by (auto simp: plan_route_def plan_local_route_def Let_def)
next
  case None
  have sets: "set (peer_list r) = set (peer_list r')" by (simp add: peer_list_def assms(3))
  have dist: "distinct (map pd_core_id (peer_list r))" "distinct (map pd_core_id (peer_list r'))"
    unfolding peer_list_def by (rule registry_ok_distinct[OF assms(1)], rule registry_ok_distinct[OF assms(2)])
  have ids: "sort (map pd_core_id (filter P (peer_list r))) = sort (map pd_core_id (filter P (peer_list r')))" for P
    using dist sets by (intro sorted_distinct_set_unique) (auto simp: distinct_map_filter)
  have nil: "filter P (peer_list r) = [] \<longleftrightarrow> filter P (peer_list r') = []" for P
    using sets by (simp add: filter_empty_conv)
  have lists: "trusted_list x node trust = filter (\<lambda>p. advertises node p \<and> trust_ok trust p) (peer_list x)"
    "fresh_list x node now trust = filter (\<lambda>p. is_fresh p now = Inr True \<and> advertises node p \<and> trust_ok trust p) (peer_list x)"
    "eligible_list x node now trust = filter (eligible_peer node now trust) (peer_list x)" for x
    by (simp_all add: trusted_list_def fresh_list_def eligible_list_def conj_commute)
  have sel: "eligible_list r node now trust \<noteq> [] \<Longrightarrow> selected_peer r node now trust = selected_peer r' node now trust"
  proof -
    assume ne: "eligible_list r node now trust \<noteq> []"
    then have ne': "eligible_list r' node now trust \<noteq> []" by (simp add: lists(3) nil)
    have "least_eligible r' node now trust (selected_peer r node now trust)"
      using selected_least[OF ne] sets by (simp add: least_eligible_def)
    from least_unique[OF assms(2) this selected_least[OF ne']] show ?thesis .
  qed
  have fresh: "(\<exists>ys. efilter (\<lambda>p. is_fresh p now) (trusted_list r node trust) = Inr ys) \<longleftrightarrow>
      (\<exists>ys. efilter (\<lambda>p. is_fresh p now) (trusted_list r' node trust) = Inr ys)"
    unfolding efilter_Inr lists(1) by (simp add: list_all_iff sets)
  from None assms(4,7) have d: "plan_peer_route r node now trust transport = Inr d"
    "plan_route r' node now trust transport = plan_peer_route r' node now trust transport"
    by (simp_all add: plan_route_def)
  let ?P = "\<lambda>n. \<exists>d'. n = Inr d' \<and> d' = d\<lparr>rd_trust_scope := rd_trust_scope d'\<rparr> \<and>
       (rd_status d = ''stale_route'' \<or> rd_status d = ''route_failed'' \<or> rd_trust_scope d' = rd_trust_scope d)"
  have nils: "filter (advertises node) (peer_list r) = [] \<longleftrightarrow> filter (advertises node) (peer_list r') = []"
    "trusted_list r node trust = [] \<longleftrightarrow> trusted_list r' node trust = []"
    "fresh_list r node now trust = [] \<longleftrightarrow> fresh_list r' node now trust = []"
    "eligible_list r node now trust = [] \<longleftrightarrow> eligible_list r' node now trust = []"
    unfolding lists by (rule nil)+
  have sorts: "sort (map pd_core_id (filter (advertises node) (peer_list r'))) = sort (map pd_core_id (filter (advertises node) (peer_list r)))"
    "sort (map pd_core_id (trusted_list r' node trust)) = sort (map pd_core_id (trusted_list r node trust))"
    "sort (map pd_core_id (fresh_list r' node now trust)) = sort (map pd_core_id (fresh_list r node now trust))"
    unfolding lists by (rule ids[symmetric])+
  note eq = d(1)[unfolded plan_peer_route_eq Let_def]
  note eq' = plan_peer_route_eq[of r' node now trust transport, unfolded Let_def, folded nils assms(5), unfolded sorts]
  have "?P (plan_peer_route r' node now trust transport)"
  proof (cases "filter (advertises node) (peer_list r) = [] \<or> trusted_list r node trust = []")
    case True
    with eq show ?thesis unfolding eq' by (auto simp del: filter_empty_conv split: if_splits)
  next
    case False
    with eq fresh obtain ys ys' where ys: "efilter (\<lambda>p. is_fresh p now) (trusted_list r node trust) = Inr ys"
      "efilter (\<lambda>p. is_fresh p now) (trusted_list r' node trust) = Inr ys'" by auto
    show ?thesis
    proof (cases "fresh_list r node now trust = [] \<or> eligible_list r node now trust = []")
      case True
      with False eq show ?thesis unfolding eq' ys ebind_simps
        by (auto simp del: filter_empty_conv split: if_splits)
    next
      case ready: False
      then have "selected_peer r' node now trust = selected_peer r node now trust" by (simp add: sel)
      with False ready eq have "plan_peer_route r' node now trust transport = Inr d"
        unfolding eq' ys ebind_simps
        by (cases "transport_ok (selected_peer r node now trust) node transport") (auto simp del: filter_empty_conv)
      then show ?thesis by simp
    qed
  qed
  with d(2) show ?thesis by simp
qed

theorem route_registration_order_witness:
  "\<exists>d d'. plan_route sample_registry ''u1'' ''2026-05-09T12:00:00Z'' (Some ''lab'') None = Inr d
    \<and> plan_route (register_peer (register_peer (new_registry ''core-a'' ''local'') (sample_peer ''c1''))
        (sample_peer ''c2'')) ''u1'' ''2026-05-09T12:00:00Z'' (Some ''lab'') None = Inr d'
    \<and> d' = d\<lparr> rd_trust_scope := rd_trust_scope d' \<rparr>"
proof -
  let ?r' = "register_peer (register_peer (new_registry ''core-a'' ''local'') (sample_peer ''c1'')) (sample_peer ''c2'')"
  have "(case plan_route sample_registry ''u1'' ''2026-05-09T12:00:00Z'' (Some ''lab'') None of
      Inr d \<Rightarrow> True | Inl _ \<Rightarrow> False)" by code_simp
  then obtain d where d: "plan_route sample_registry ''u1'' ''2026-05-09T12:00:00Z'' (Some ''lab'') None = Inr d"
    by (auto split: sum.splits)
  have ok: "registry_ok ?r'" by (intro inv_intros)
  have same: "set (fr_peers sample_registry) = set (fr_peers ?r')"
    by (auto simp: sample_registry_def register_peer_def new_registry_def sample_peer_def)
  from route_registration_order[OF sample_registry_ok ok same _ _ _ d] d show ?thesis
    by (auto simp: sample_registry_def register_peer_def new_registry_def)
qed

text \<open>A delegated execution proposal is only ever built for a ready delegated route, and then
  it always can be: for a route the planner returned, building the proposal succeeds exactly when
  the route is ready and the node is not a local unit, and the proposal then carries the target
  core, node and route kind of the route; otherwise it raises.\<close>

theorem delegation_exact:
  assumes "plan_route r node now trust transport = Inr d"
  shows "if rd_ok d \<and> map_of (fr_local_units r) node = None
    then \<exists>p. build_delegated_execution_proposal i d res scope ms clean audit = Inr p
      \<and> Some (dp_target_core p) = rd_target_core d \<and> dp_target_node p = rd_target_node d
      \<and> dp_route_kind p = ''delegated_core''
    else build_delegated_execution_proposal i d res scope ms clean audit =
      Inl (ValueError ''delegated_execution_requires_ready_delegated_core_route'')"
proof (cases "map_of (fr_local_units r) node")
  case (Some u)
  with assms have "d = plan_local_route r u node trust transport" by (simp add: plan_route_def)
  with Some show ?thesis by (simp add: build_delegated_execution_proposal_def plan_local_core)
next
  case None
  with assms have d: "plan_peer_route r node now trust transport = Inr d" by (simp add: plan_route_def)
  show ?thesis
  proof (cases "rd_ok d")
    case True
    with None plan_peer_route_ready(2)[OF d True] show ?thesis
      by (simp add: build_delegated_execution_proposal_def)
  next
    case False
    then show ?thesis by (simp add: build_delegated_execution_proposal_def split: option.splits)
  qed
qed

theorem delegation_exact_witness:
  "\<exists>d p. plan_route sample_registry ''u1'' ''2026-05-09T12:00:00Z'' (Some ''lab'') None = Inr d
    \<and> build_delegated_execution_proposal ''i'' d ''res'' ''read_only'' 5000 False ''audit'' = Inr p"
proof -
  have "(case plan_route sample_registry ''u1'' ''2026-05-09T12:00:00Z'' (Some ''lab'') None of
      Inr d \<Rightarrow> rd_ok d | Inl _ \<Rightarrow> False)" by code_simp
  then obtain d where d: "plan_route sample_registry ''u1'' ''2026-05-09T12:00:00Z'' (Some ''lab'') None = Inr d"
    and ok: "rd_ok d"
    by (auto split: sum.splits)
  have units: "map_of (fr_local_units sample_registry) ''u1'' = None" by code_simp
  from delegation_exact[OF d, of "''i''" "''res''" "''read_only''" 5000 False "''audit''"] ok units d
  show ?thesis by auto
qed

text \<open>The smoke command raises only when it has to read a timestamp it cannot parse: with a
  local unit it always answers, and its proposal step never raises.\<close>

theorem smoke_total:
  "(sa_local_unit a \<longrightarrow> (\<exists>d. federation_route_smoke a = Inr d)) \<and>
   ((\<exists>d. federation_route_smoke a = Inr d) \<longleftrightarrow>
    (\<exists>d. plan_route (smoke_registry a) (sa_target_node a) (sa_now a)
        (text_arg (sa_required_trust_scope a)) (text_arg (sa_required_transport a)) = Inr d))"
proof -
  have proposal: "\<exists>o'. smoke_proposal a d = Inr o'"
    if d: "plan_route r n w t p = Inr d" for r n w t p d
  proof (cases "sa_include_delegation_proposal a \<and> rd_ok d \<and> rd_route_kind d = ''delegated_core''")
    case True
    have "map_of (fr_local_units r) n = None"
      using d True by (auto simp: plan_route_def plan_local_route_def Let_def split: option.splits if_splits)
    with d have "plan_peer_route r n w t p = Inr d" by (simp add: plan_route_def)
    from plan_peer_route_ready(2)[OF this] True show ?thesis
      by (auto simp: smoke_proposal_def build_delegated_execution_proposal_def)
  next
    case False
    show ?thesis unfolding smoke_proposal_def if_not_P[OF False] by blast
  qed
  have total: "(\<exists>d. federation_route_smoke a = Inr d) \<longleftrightarrow>
    (\<exists>d. plan_route (smoke_registry a) (sa_target_node a) (sa_now a)
        (text_arg (sa_required_trust_scope a)) (text_arg (sa_required_transport a)) = Inr d)"
    using proposal by (fastforce simp: federation_route_smoke_def)
  moreover have "sa_local_unit a \<Longrightarrow> map_of (fr_local_units (smoke_registry a)) (sa_target_node a) \<noteq> None"
    by (simp add: smoke_registry_def Let_def register_local_unit_def update_conv')
  then have "sa_local_unit a \<longrightarrow> (\<exists>d. plan_route (smoke_registry a) (sa_target_node a) (sa_now a)
        (text_arg (sa_required_trust_scope a)) (text_arg (sa_required_transport a)) = Inr d)"
    by (auto simp: plan_route_def)
  ultimately show ?thesis by blast
qed

theorem smoke_total_witness:
  "\<exists>d. federation_route_smoke ((default_smoke_args ''u1'' ''never'')\<lparr> sa_local_unit := True \<rparr>) = Inr d"
  using smoke_total[of "(default_smoke_args ''u1'' ''never'')\<lparr> sa_local_unit := True \<rparr>"] by simp

end
