(* ===== verification/DataStore.thy ===== *)
theory DataStore
  imports Common
begin

text \<open>
  \<open>neurolink_core/data.py\<close>: the SQLite store. A table is its list of rows in rowid order;
  a payload column holds the value that \<open>json.loads\<close> gives back for the text
  \<open>json.dumps(payload, sort_keys=True)\<close> that was written (\<^const>\<open>json_norm\<close>).

  SQL as used here: a plain INSERT with an existing primary key raises; INSERT OR IGNORE
  then does nothing; INSERT OR REPLACE deletes the old row and appends the new one. ORDER BY
  compares text by code points; rows with equal sort keys come in rowid order (SQLite leaves
  this open). A negative LIMIT is no limit. A TEXT column stores an integer as its decimal text;
  lists and dicts cannot be bound.
\<close>

section \<open>SQL\<close>

definition insert_row :: "('r \<Rightarrow> string) \<Rightarrow> 'r \<Rightarrow> 'r list \<Rightarrow> 'r list result" where
  "insert_row key row rows = (if key row \<in> key ` set rows
     then Inl (SqlError ''UNIQUE constraint failed'') else Inr (rows @ [row]))"

definition insert_or_ignore :: "('r \<Rightarrow> string) \<Rightarrow> 'r \<Rightarrow> 'r list \<Rightarrow> 'r list" where
  "insert_or_ignore key row rows = (if key row \<in> key ` set rows then rows else rows @ [row])"

definition insert_or_replace :: "('r \<Rightarrow> string) \<Rightarrow> 'r \<Rightarrow> 'r list \<Rightarrow> 'r list" where
  "insert_or_replace key row rows = filter (\<lambda>r. key r \<noteq> key row) rows @ [row]"

definition fetchone :: "('r \<Rightarrow> bool) \<Rightarrow> 'r list \<Rightarrow> 'r option" where
  "fetchone P rows = find P rows"

definition sql_limit :: "int \<Rightarrow> 'r list \<Rightarrow> 'r list" where
  "sql_limit limit rows = (if limit < 0 then rows else take (nat limit) rows)"

definition int64 :: "int \<Rightarrow> bool" where
  "int64 n \<longleftrightarrow> - (2 ^ 63) \<le> n \<and> n < 2 ^ 63"

definition bind_int :: "int \<Rightarrow> int result" where
  "bind_int n = (if int64 n then Inr n else Inl (OverflowError ''Python int too large to convert to SQLite INTEGER''))"

definition text_column :: "pyval \<Rightarrow> pyval result" where
  "text_column v = (case v of
     PNone \<Rightarrow> Inr PNone
   | PStr s \<Rightarrow> Inr (PStr s)
   | PInt n \<Rightarrow> ebind (bind_int n) (\<lambda>n. Inr (PStr (dec_int n)))
   | PBool b \<Rightarrow> Inr (PStr (if b then ''1'' else ''0''))
   | PFloat _ \<Rightarrow> Inl (OutOfModel ''text of a REAL'')
   | _ \<Rightarrow> Inl (SqlError ''type is not supported''))"

definition real_column :: "pyval \<Rightarrow> pyval result" where
  "real_column v = (case v of
     PNone \<Rightarrow> Inr PNone
   | PFloat f \<Rightarrow> Inr (if f = NaN then PNone else PFloat f)
   | PInt n \<Rightarrow> ebind (bind_int n) (\<lambda>n. Inr (PFloat (fl (of_int n))))
   | PBool b \<Rightarrow> Inr (PFloat (Fin (if b then 1 else 0)))
   | PStr _ \<Rightarrow> Inl (OutOfModel ''text in a REAL column'')
   | _ \<Rightarrow> Inl (SqlError ''type is not supported''))"

section \<open>Tables\<close>

record event_row =
  er_event_id :: string
  er_source_kind :: string
  er_source_node :: pyval
  er_source_app :: pyval
  er_event_type :: string
  er_semantic_topic :: pyval
  er_timestamp_mono :: pyval
  er_timestamp_wall :: string
  er_priority :: int
  er_dedupe_key :: pyval
  er_causality_id :: pyval
  er_raw_payload_ref :: pyval
  er_policy_tags :: pyval
  er_payload :: pyval
  er_created_at :: string

record span_row =
  sr_execution_span_id :: string
  sr_session_id :: "string option"
  sr_status :: string
  sr_payload :: pyval
  sr_started_at :: string
  sr_completed_at :: "string option"

record fact_row =
  fa_fact_id :: string
  fa_execution_span_id :: string
  fa_fact_type :: string
  fa_subject :: string
  fa_payload :: pyval
  fa_created_at :: string

record policy_row =
  pr_policy_decision_id :: string
  pr_execution_span_id :: string
  pr_tool_name :: string
  pr_allowed :: bool
  pr_reason :: string
  pr_payload :: pyval
  pr_created_at :: string

record candidate_row =
  mc_memory_candidate_id :: string
  mc_execution_span_id :: string
  mc_semantic_topic :: string
  mc_payload :: pyval
  mc_created_at :: string

record memory_row =
  mr_memory_id :: string
  mr_source_execution_span_id :: string
  mr_semantic_topic :: string
  mr_payload :: pyval
  mr_created_at :: string

record tool_result_row =
  tr_tool_result_id :: string
  tr_execution_span_id :: string
  tr_tool_name :: string
  tr_status :: string
  tr_payload :: pyval
  tr_created_at :: string

record approval_request_row =
  ar_approval_request_id :: string
  ar_session_id :: string
  ar_source_execution_span_id :: string
  ar_tool_name :: string
  ar_status :: string
  ar_payload :: pyval
  ar_created_at :: string
  ar_updated_at :: string

record approval_decision_row =
  ad_approval_decision_id :: string
  ad_approval_request_id :: string
  ad_session_id :: string
  ad_decision :: string
  ad_payload :: pyval
  ad_created_at :: string

record audit_row =
  au_audit_id :: string
  au_execution_span_id :: string
  au_session_id :: "string option"
  au_status :: string
  au_payload :: pyval
  au_created_at :: string

record store =
  perception_events :: "event_row list"
  execution_spans :: "span_row list"
  facts :: "fact_row list"
  policy_decisions :: "policy_row list"
  memory_candidates :: "candidate_row list"
  long_term_memories :: "memory_row list"
  tool_results :: "tool_result_row list"
  approval_requests :: "approval_request_row list"
  approval_decisions :: "approval_decision_row list"
  audit_records :: "audit_row list"

definition empty_store :: store where
  "empty_store = \<lparr> perception_events = [], execution_spans = [], facts = [], policy_decisions = [],
     memory_candidates = [], long_term_memories = [], tool_results = [], approval_requests = [],
     approval_decisions = [], audit_records = [] \<rparr>"

text \<open>The database and the environment the identifiers and timestamps come from.\<close>

type_synonym db = "store \<times> env"

section \<open>Writes\<close>

definition persist_event :: "db \<Rightarrow> perception_event \<Rightarrow> db result" where
  "persist_event d event = (case d of (s, w) \<Rightarrow>
     let (now, w') = utc_now_iso w in
     ebind (text_column (pe_source_node event)) (\<lambda>source_node.
     ebind (text_column (pe_source_app event)) (\<lambda>source_app.
     ebind (text_column (pe_semantic_topic event)) (\<lambda>semantic_topic.
     ebind (real_column (pe_timestamp_mono event)) (\<lambda>timestamp_mono.
     ebind (bind_int (pe_priority event)) (\<lambda>priority.
     ebind (text_column (pe_dedupe_key event)) (\<lambda>dedupe_key.
     ebind (text_column (pe_causality_id event)) (\<lambda>causality_id.
     ebind (text_column (pe_raw_payload_ref event)) (\<lambda>raw_payload_ref.
     Inr (s\<lparr> perception_events := insert_or_ignore er_event_id \<lparr>
            er_event_id = pe_event_id event, er_source_kind = pe_source_kind event,
            er_source_node = source_node, er_source_app = source_app,
            er_event_type = pe_event_type event, er_semantic_topic = semantic_topic,
            er_timestamp_mono = timestamp_mono, er_timestamp_wall = pe_timestamp_wall event,
            er_priority = priority, er_dedupe_key = dedupe_key, er_causality_id = causality_id,
            er_raw_payload_ref = raw_payload_ref,
            er_policy_tags = json_norm (PList (pe_policy_tags event)),
            er_payload = json_norm (PDict (pe_payload event)), er_created_at = now \<rparr>
          (perception_events s) \<rparr>, w'))))))))))"

definition persist_execution_span ::
    "db \<Rightarrow> string \<Rightarrow> string \<Rightarrow> dict \<Rightarrow> string option \<Rightarrow> db" where
  "persist_execution_span d execution_span_id status payload session_id = (case d of (s, w) \<Rightarrow>
     let (now, w1) = utc_now_iso w;
         (completed_at, w2) = (if status \<noteq> ''running''
           then (case utc_now_iso w1 of (t, w2) \<Rightarrow> (Some t, w2)) else (None, w1));
         started_at = (case fetchone (\<lambda>r. sr_execution_span_id r = execution_span_id) (execution_spans s) of
           Some r \<Rightarrow> sr_started_at r | None \<Rightarrow> now) in
     (s\<lparr> execution_spans := insert_or_replace sr_execution_span_id \<lparr>
         sr_execution_span_id = execution_span_id, sr_session_id = session_id, sr_status = status,
         sr_payload = json_norm (PDict payload), sr_started_at = started_at,
         sr_completed_at = completed_at \<rparr> (execution_spans s) \<rparr>, w2))"

definition persist_fact :: "db \<Rightarrow> string \<Rightarrow> string \<Rightarrow> string \<Rightarrow> dict \<Rightarrow> (string \<times> db) result" where
  "persist_fact d execution_span_id fact_type subject payload = (case d of (s, w) \<Rightarrow>
     let (fact_id, w1) = new_id ''fact'' w; (now, w2) = utc_now_iso w1 in
     ebind (insert_row fa_fact_id \<lparr> fa_fact_id = fact_id, fa_execution_span_id = execution_span_id,
        fa_fact_type = fact_type, fa_subject = subject, fa_payload = json_norm (PDict payload),
        fa_created_at = now \<rparr> (facts s)) (\<lambda>rows.
     Inr (fact_id, s\<lparr> facts := rows \<rparr>, w2)))"

definition persist_policy_decision :: "db \<Rightarrow> string \<Rightarrow> string \<Rightarrow> dict \<Rightarrow> (string \<times> db) result" where
  "persist_policy_decision d execution_span_id tool_name decision = (case d of (s, w) \<Rightarrow>
     let (policy_decision_id, w1) = new_id ''policy'' w; (now, w2) = utc_now_iso w1 in
     ebind (insert_row pr_policy_decision_id \<lparr> pr_policy_decision_id = policy_decision_id,
        pr_execution_span_id = execution_span_id, pr_tool_name = tool_name,
        pr_allowed = truthy (dget_or decision ''allowed'' (PBool False)),
        pr_reason = str_or (dget decision ''reason'') [],
        pr_payload = json_norm (PDict decision), pr_created_at = now \<rparr> (policy_decisions s)) (\<lambda>rows.
     Inr (policy_decision_id, s\<lparr> policy_decisions := rows \<rparr>, w2)))"

definition persist_memory_candidate :: "db \<Rightarrow> string \<Rightarrow> string \<Rightarrow> dict \<Rightarrow> (string \<times> db) result" where
  "persist_memory_candidate d execution_span_id semantic_topic payload = (case d of (s, w) \<Rightarrow>
     let (memory_candidate_id, w1) = new_id ''memcand'' w; (now, w2) = utc_now_iso w1 in
     ebind (insert_row mc_memory_candidate_id \<lparr> mc_memory_candidate_id = memory_candidate_id,
        mc_execution_span_id = execution_span_id, mc_semantic_topic = semantic_topic,
        mc_payload = json_norm (PDict payload), mc_created_at = now \<rparr> (memory_candidates s)) (\<lambda>rows.
     Inr (memory_candidate_id, s\<lparr> memory_candidates := rows \<rparr>, w2)))"

definition persist_tool_result :: "db \<Rightarrow> string \<Rightarrow> string \<Rightarrow> string \<Rightarrow> string \<Rightarrow> dict \<Rightarrow> db result" where
  "persist_tool_result d tool_result_id execution_span_id tool_name status payload = (case d of (s, w) \<Rightarrow>
     let (now, w1) = utc_now_iso w in
     ebind (insert_row tr_tool_result_id \<lparr> tr_tool_result_id = tool_result_id,
        tr_execution_span_id = execution_span_id, tr_tool_name = tool_name, tr_status = status,
        tr_payload = json_norm (PDict payload), tr_created_at = now \<rparr> (tool_results s)) (\<lambda>rows.
     Inr (s\<lparr> tool_results := rows \<rparr>, w1)))"

definition persist_audit_record ::
    "db \<Rightarrow> string \<Rightarrow> string \<Rightarrow> string \<Rightarrow> dict \<Rightarrow> string option \<Rightarrow> db result" where
  "persist_audit_record d audit_id execution_span_id status payload session_id = (case d of (s, w) \<Rightarrow>
     let (now, w1) = utc_now_iso w in
     ebind (insert_row au_audit_id \<lparr> au_audit_id = audit_id, au_execution_span_id = execution_span_id,
        au_session_id = session_id, au_status = status, au_payload = json_norm (PDict payload),
        au_created_at = now \<rparr> (audit_records s)) (\<lambda>rows.
     Inr (s\<lparr> audit_records := rows \<rparr>, w1)))"

definition persist_approval_request ::
    "db \<Rightarrow> string \<Rightarrow> string \<Rightarrow> string \<Rightarrow> string \<Rightarrow> dict \<Rightarrow> string option \<Rightarrow> string \<times> db" where
  "persist_approval_request d session_id source_execution_span_id tool_name status payload
      approval_request_id = (case d of (s, w) \<Rightarrow>
     let (rid, w1) = (if text_set approval_request_id then (the approval_request_id, w)
           else new_id ''approval'' w);
         (timestamp, w2) = utc_now_iso w1;
         created_at = (case fetchone (\<lambda>r. ar_approval_request_id r = rid) (approval_requests s) of
           Some r \<Rightarrow> ar_created_at r | None \<Rightarrow> timestamp) in
     (rid, s\<lparr> approval_requests := insert_or_replace ar_approval_request_id \<lparr>
         ar_approval_request_id = rid, ar_session_id = session_id,
         ar_source_execution_span_id = source_execution_span_id, ar_tool_name = tool_name,
         ar_status = status, ar_payload = json_norm (PDict payload), ar_created_at = created_at,
         ar_updated_at = timestamp \<rparr> (approval_requests s) \<rparr>, w2))"

definition persist_approval_decision ::
    "db \<Rightarrow> string \<Rightarrow> string \<Rightarrow> string \<Rightarrow> dict \<Rightarrow> (string \<times> db) result" where
  "persist_approval_decision d approval_request_id session_id decision payload = (case d of (s, w) \<Rightarrow>
     let (approval_decision_id, w1) = new_id ''approvaldec'' w; (now, w2) = utc_now_iso w1 in
     ebind (insert_row ad_approval_decision_id \<lparr> ad_approval_decision_id = approval_decision_id,
        ad_approval_request_id = approval_request_id, ad_session_id = session_id,
        ad_decision = decision, ad_payload = json_norm (PDict payload), ad_created_at = now \<rparr>
        (approval_decisions s)) (\<lambda>rows.
     Inr (approval_decision_id, s\<lparr> approval_decisions := rows \<rparr>, w2)))"

definition persist_long_term_memory :: "db \<Rightarrow> string \<Rightarrow> string \<Rightarrow> dict \<Rightarrow> (string \<times> db) result" where
  "persist_long_term_memory d source_execution_span_id semantic_topic payload = (case d of (s, w) \<Rightarrow>
     let (memory_id, w1) = new_id ''memory'' w; (now, w2) = utc_now_iso w1 in
     ebind (insert_row mr_memory_id \<lparr> mr_memory_id = memory_id,
        mr_source_execution_span_id = source_execution_span_id, mr_semantic_topic = semantic_topic,
        mr_payload = json_norm (PDict payload), mr_created_at = now \<rparr> (long_term_memories s)) (\<lambda>rows.
     Inr (memory_id, s\<lparr> long_term_memories := rows \<rparr>, w2)))"

definition update_long_term_memory :: "db \<Rightarrow> string \<Rightarrow> dict \<Rightarrow> db" where
  "update_long_term_memory d memory_id payload = (case d of (s, w) \<Rightarrow>
     (s\<lparr> long_term_memories := map (\<lambda>r. if mr_memory_id r = memory_id
          then r\<lparr> mr_payload := json_norm (PDict payload) \<rparr> else r) (long_term_memories s) \<rparr>, w))"

definition store_count :: "store \<Rightarrow> string \<Rightarrow> int result" where
  "store_count s table_name = (
     if table_name = ''perception_events'' then Inr (int (length (perception_events s)))
     else if table_name = ''execution_spans'' then Inr (int (length (execution_spans s)))
     else if table_name = ''facts'' then Inr (int (length (facts s)))
     else if table_name = ''policy_decisions'' then Inr (int (length (policy_decisions s)))
     else if table_name = ''memory_candidates'' then Inr (int (length (memory_candidates s)))
     else if table_name = ''long_term_memories'' then Inr (int (length (long_term_memories s)))
     else if table_name = ''tool_results'' then Inr (int (length (tool_results s)))
     else if table_name = ''approval_requests'' then Inr (int (length (approval_requests s)))
     else if table_name = ''approval_decisions'' then Inr (int (length (approval_decisions s)))
     else if table_name = ''audit_records'' then Inr (int (length (audit_records s)))
     else Inl (ValueError (''unsupported table: '' @ table_name)))"

section \<open>Reads\<close>

definition policy_row_dict :: "policy_row \<Rightarrow> dict" where
  "policy_row_dict r = [
     (''policy_decision_id'', PStr (pr_policy_decision_id r)),
     (''execution_span_id'', PStr (pr_execution_span_id r)),
     (''tool_name'', PStr (pr_tool_name r)),
     (''allowed'', PBool (pr_allowed r)),
     (''reason'', PStr (pr_reason r)),
     (''payload'', pr_payload r),
     (''created_at'', PStr (pr_created_at r))]"

definition get_policy_decisions :: "store \<Rightarrow> string \<Rightarrow> dict list" where
  "get_policy_decisions s execution_span_id = map policy_row_dict (sort_key pr_created_at
     (filter (\<lambda>r. pr_execution_span_id r = execution_span_id) (policy_decisions s)))"

definition span_row_dict :: "span_row \<Rightarrow> dict" where
  "span_row_dict r = [
     (''execution_span_id'', PStr (sr_execution_span_id r)),
     (''session_id'', opt_str (sr_session_id r)),
     (''status'', PStr (sr_status r)),
     (''payload'', sr_payload r),
     (''started_at'', PStr (sr_started_at r)),
     (''completed_at'', opt_str (sr_completed_at r))]"

definition get_execution_span :: "store \<Rightarrow> string \<Rightarrow> dict option" where
  "get_execution_span s execution_span_id = map_option span_row_dict
     (fetchone (\<lambda>r. sr_execution_span_id r = execution_span_id) (execution_spans s))"

definition get_execution_spans_for_session :: "store \<Rightarrow> string \<Rightarrow> int \<Rightarrow> dict list" where
  "get_execution_spans_for_session s session_id limit = map span_row_dict (sql_limit limit
     (sort_key_desc (\<lambda>r. (sr_started_at r, sr_execution_span_id r))
       (filter (\<lambda>r. sr_session_id r = Some session_id) (execution_spans s))))"

definition approval_request_row_dict :: "approval_request_row \<Rightarrow> dict" where
  "approval_request_row_dict r = [
     (''approval_request_id'', PStr (ar_approval_request_id r)),
     (''session_id'', PStr (ar_session_id r)),
     (''source_execution_span_id'', PStr (ar_source_execution_span_id r)),
     (''tool_name'', PStr (ar_tool_name r)),
     (''status'', PStr (ar_status r)),
     (''payload'', ar_payload r),
     (''created_at'', PStr (ar_created_at r)),
     (''updated_at'', PStr (ar_updated_at r))]"

definition get_approval_request :: "store \<Rightarrow> string \<Rightarrow> dict option" where
  "get_approval_request s approval_request_id = map_option approval_request_row_dict
     (fetchone (\<lambda>r. ar_approval_request_id r = approval_request_id) (approval_requests s))"

text \<open>\<open>AND column = ?\<close> for an argument that is not None.\<close>

definition sql_match :: "'a option \<Rightarrow> 'a \<Rightarrow> bool" where
  "sql_match arg v = (case arg of None \<Rightarrow> True | Some x \<Rightarrow> v = x)"

definition get_approval_requests ::
    "store \<Rightarrow> string option \<Rightarrow> string option \<Rightarrow> string option \<Rightarrow> int \<Rightarrow> dict list" where
  "get_approval_requests s session_id source_execution_span_id status limit =
     map approval_request_row_dict (sql_limit limit
       (sort_key_desc (\<lambda>r. (ar_created_at r, ar_approval_request_id r))
         (filter (\<lambda>r. sql_match session_id (ar_session_id r)
              \<and> sql_match source_execution_span_id (ar_source_execution_span_id r)
              \<and> sql_match status (ar_status r)) (approval_requests s))))"

definition get_approval_decisions :: "store \<Rightarrow> string \<Rightarrow> dict list" where
  "get_approval_decisions s approval_request_id = map (\<lambda>r. [
       (''approval_decision_id'', PStr (ad_approval_decision_id r)),
       (''approval_request_id'', PStr (ad_approval_request_id r)),
       (''session_id'', PStr (ad_session_id r)),
       (''decision'', PStr (ad_decision r)),
       (''payload'', ad_payload r),
       (''created_at'', PStr (ad_created_at r))])
     (sort_key ad_created_at
       (filter (\<lambda>r. ad_approval_request_id r = approval_request_id) (approval_decisions s)))"

definition get_facts :: "store \<Rightarrow> string \<Rightarrow> string option \<Rightarrow> dict list" where
  "get_facts s execution_span_id fact_type = map (\<lambda>r. [
       (''fact_id'', PStr (fa_fact_id r)),
       (''execution_span_id'', PStr (fa_execution_span_id r)),
       (''fact_type'', PStr (fa_fact_type r)),
       (''subject'', PStr (fa_subject r)),
       (''payload'', fa_payload r),
       (''created_at'', PStr (fa_created_at r))])
     (sort_key fa_created_at
       (filter (\<lambda>r. fa_execution_span_id r = execution_span_id
            \<and> (text_set fact_type \<longrightarrow> fact_type = Some (fa_fact_type r))) (facts s)))"

definition get_memory_candidates :: "store \<Rightarrow> string \<Rightarrow> dict list" where
  "get_memory_candidates s execution_span_id = map (\<lambda>r. [
       (''memory_candidate_id'', PStr (mc_memory_candidate_id r)),
       (''execution_span_id'', PStr (mc_execution_span_id r)),
       (''semantic_topic'', PStr (mc_semantic_topic r)),
       (''payload'', mc_payload r),
       (''created_at'', PStr (mc_created_at r))])
     (sort_key mc_created_at
       (filter (\<lambda>r. mc_execution_span_id r = execution_span_id) (memory_candidates s)))"

definition memory_row_dict :: "memory_row \<Rightarrow> dict" where
  "memory_row_dict r = [
     (''memory_id'', PStr (mr_memory_id r)),
     (''source_execution_span_id'', PStr (mr_source_execution_span_id r)),
     (''semantic_topic'', PStr (mr_semantic_topic r)),
     (''payload'', mr_payload r),
     (''created_at'', PStr (mr_created_at r))]"

text \<open>
  The SELECT of \<open>get_long_term_memories\<close>, the lifecycle test on a row, and the function.
  The limit applies to the SELECT, before retired rows are dropped.
\<close>

definition select_memories :: "store \<Rightarrow> string option \<Rightarrow> string option \<Rightarrow> int \<Rightarrow> memory_row list" where
  "select_memories s source_execution_span_id semantic_topic limit = sql_limit limit
     (sort_key_desc (\<lambda>r. (mr_created_at r, mr_memory_id r))
       (filter (\<lambda>r. sql_match source_execution_span_id (mr_source_execution_span_id r)
            \<and> sql_match semantic_topic (mr_semantic_topic r)) (long_term_memories s)))"

definition memory_retired :: "memory_row \<Rightarrow> bool result" where
  "memory_retired r = ebind (as_dict (mr_payload r)) (\<lambda>payload.
     ebind (as_dict (por (dget payload ''memory_governance'') (PDict []))) (\<lambda>governance.
     Inr (dget governance ''lifecycle_state'' = PStr ''retired'')))"

definition get_long_term_memories ::
    "store \<Rightarrow> string option \<Rightarrow> string option \<Rightarrow> bool \<Rightarrow> int \<Rightarrow> dict list result" where
  "get_long_term_memories s source_execution_span_id semantic_topic include_retired limit = (
     let rows = select_memories s source_execution_span_id semantic_topic limit in
     if include_retired then Inr (map memory_row_dict rows)
     else ebind (emap (\<lambda>r. ebind (memory_retired r) (\<lambda>b. Inr (r, b))) rows) (\<lambda>marked.
       Inr (map (\<lambda>rb. memory_row_dict (fst rb)) (filter (\<lambda>rb. \<not> snd rb) marked))))"

text \<open>
  Retiring one row: the new payload, or None when the row is retired already. The payload and
  its governance are converted with \<open>dict(...)\<close> and the history with \<open>list(...)\<close>.
\<close>

definition governance_of :: "memory_row \<Rightarrow> (dict \<times> dict) result" where
  "governance_of r = ebind (py_dict (mr_payload r)) (\<lambda>payload.
     ebind (py_dict (por (dget payload ''memory_governance'') (PDict []))) (\<lambda>governance.
     Inr (payload, governance)))"

definition retired_payload :: "dict \<Rightarrow> dict \<Rightarrow> string \<Rightarrow> string \<Rightarrow> dict result" where
  "retired_payload payload governance reason retired_at =
     ebind (py_list (por (dget governance ''lifecycle_history'') (PList []))) (\<lambda>history.
     let lifecycle_history = (if PStr ''retired'' \<in> set history then history else history @ [PStr ''retired'']) in
     Inr (dset payload ''memory_governance'' (PDict (dupdate governance [
        (''lifecycle_state'', PStr ''retired''),
        (''decision_reason'', PStr reason),
        (''retired_at'', PStr retired_at),
        (''lifecycle_history'', PList lifecycle_history)]))))"

definition retire_step :: "string \<Rightarrow> string list \<times> db \<Rightarrow> memory_row \<Rightarrow> (string list \<times> db) result" where
  "retire_step reason acc r = (case acc of (ids, s, w) \<Rightarrow>
     ebind (governance_of r) (\<lambda>(payload, governance).
     if dget governance ''lifecycle_state'' = PStr ''retired'' then Inr (ids, s, w)
     else let (now, w') = utc_now_iso w in
       ebind (retired_payload payload governance reason now) (\<lambda>payload'.
       Inr (ids @ [mr_memory_id r], update_long_term_memory (s, w') (mr_memory_id r) payload'))))"

definition retire_long_term_memories ::
    "db \<Rightarrow> string option \<Rightarrow> string option \<Rightarrow> string \<Rightarrow> (string list \<times> db) result" where
  "retire_long_term_memories d semantic_topic source_execution_span_id reason =
     efold (retire_step reason) ([], d)
       (select_memories (fst d) source_execution_span_id semantic_topic 1000)"

definition expire_step :: "string \<Rightarrow> string list \<times> db \<Rightarrow> memory_row \<Rightarrow> (string list \<times> db) result" where
  "expire_step reference_time acc r = (case acc of (ids, s, w) \<Rightarrow>
     ebind (governance_of r) (\<lambda>(payload, governance).
     if dget governance ''lifecycle_state'' = PStr ''retired'' then Inr (ids, s, w)
     else let expires = str_or (dget governance ''retention_expires_at'') [] in
       if expires = [] \<or> reference_time < expires then Inr (ids, s, w)
       else ebind (retired_payload payload governance ''retention_expired'' reference_time) (\<lambda>payload'.
         Inr (ids @ [mr_memory_id r], update_long_term_memory (s, w) (mr_memory_id r) payload'))))"

definition retire_expired_long_term_memories :: "db \<Rightarrow> string option \<Rightarrow> (string list \<times> db) result" where
  "retire_expired_long_term_memories d reference_time = (case d of (s, w) \<Rightarrow>
     let (resolved, w') = (if text_set reference_time then (the reference_time, w) else utc_now_iso w) in
     efold (expire_step resolved) ([], s, w') (select_memories s None None 1000))"

definition get_audit_record :: "store \<Rightarrow> string \<Rightarrow> dict option" where
  "get_audit_record s audit_id = map_option (\<lambda>r. [
       (''audit_id'', PStr (au_audit_id r)),
       (''execution_span_id'', PStr (au_execution_span_id r)),
       (''session_id'', opt_str (au_session_id r)),
       (''status'', PStr (au_status r)),
       (''payload'', au_payload r),
       (''created_at'', PStr (au_created_at r))])
     (fetchone (\<lambda>r. au_audit_id r = audit_id) (audit_records s))"

fun opt_dict :: "dict option \<Rightarrow> pyval" where
  "opt_dict None = PNone"
| "opt_dict (Some d) = PDict d"

definition build_execution_evidence :: "store \<Rightarrow> string \<Rightarrow> string \<Rightarrow> dict result" where
  "build_execution_evidence s execution_span_id audit_id =
     ebind (get_long_term_memories s (Some execution_span_id) None False 20) (\<lambda>memories.
     Inr [
       (''execution_span'', opt_dict (get_execution_span s execution_span_id)),
       (''facts'', PList (map PDict (get_facts s execution_span_id None))),
       (''policy_decisions'', PList (map PDict (get_policy_decisions s execution_span_id))),
       (''memory_candidates'', PList (map PDict (get_memory_candidates s execution_span_id))),
       (''approval_requests'', PList (map PDict
          (get_approval_requests s None (Some execution_span_id) None 20))),
       (''long_term_memories'', PList (map PDict memories)),
       (''audit_record'', opt_dict (get_audit_record s audit_id))])"

definition row_to_event_dict :: "event_row \<Rightarrow> dict result" where
  "row_to_event_dict r = ebind (py_list (er_policy_tags r)) (\<lambda>tags. Inr [
     (''event_id'', PStr (er_event_id r)),
     (''source_kind'', PStr (er_source_kind r)),
     (''source_node'', er_source_node r),
     (''source_app'', er_source_app r),
     (''event_type'', PStr (er_event_type r)),
     (''semantic_topic'', er_semantic_topic r),
     (''timestamp_mono'', er_timestamp_mono r),
     (''timestamp_wall'', PStr (er_timestamp_wall r)),
     (''priority'', PInt (er_priority r)),
     (''dedupe_key'', er_dedupe_key r),
     (''causality_id'', er_causality_id r),
     (''raw_payload_ref'', er_raw_payload_ref r),
     (''policy_tags'', PTuple tags),
     (''payload'', er_payload r)])"

definition query_events :: "store \<Rightarrow> int \<Rightarrow> int \<Rightarrow> string option \<Rightarrow> dict list result" where
  "query_events s limit min_priority topic = emap row_to_event_dict (sql_limit limit
     (sort_key_desc er_timestamp_wall (filter (\<lambda>r. min_priority \<le> er_priority r
        \<and> (text_set topic \<longrightarrow> er_semantic_topic r = PStr (the topic))) (perception_events s))))"

definition get_recent_dedupe_keys :: "store \<Rightarrow> int \<Rightarrow> string list" where
  "get_recent_dedupe_keys s limit = map (\<lambda>r. py_str (er_dedupe_key r)) (sql_limit limit
     (sort_key_desc (\<lambda>r. (er_timestamp_wall r, er_created_at r))
       (filter (\<lambda>r. truthy (er_dedupe_key r)) (perception_events s))))"

text \<open>
  \<open>CoreDataStore.build_frame\<close> on event dicts with integer priorities and text topics; other
  values would have to be compared with each other.
\<close>

definition dindex :: "dict \<Rightarrow> string \<Rightarrow> pyval result" where
  "dindex d k = (case map_of d k of None \<Rightarrow> Inl (KeyError k) | Some v \<Rightarrow> Inr v)"

definition int_of_val :: "pyval \<Rightarrow> int result" where
  "int_of_val v = (case v of PInt n \<Rightarrow> Inr n | _ \<Rightarrow> Inl (OutOfModel ''priority that is not an int''))"

definition store_build_frame :: "dict list \<Rightarrow> env \<Rightarrow> (dict \<times> env) result" where
  "store_build_frame events w = (if events = [] then Inr ([], w) else
     ebind (emap (\<lambda>e. dindex e ''event_id'') events) (\<lambda>event_ids.
     ebind (emap (\<lambda>e. ebind (dindex e ''priority'') int_of_val) events) (\<lambda>priorities.
     ebind (emap (\<lambda>e. dindex e ''semantic_topic'') events) (\<lambda>all_topics.
     ebind (emap text_of (filter truthy all_topics)) (\<lambda>topics.
     let (frame_id, w') = new_id ''frame'' w in
     Inr ([(''frame_id'', PStr frame_id),
           (''event_ids'', PTuple event_ids),
           (''highest_priority'', PInt (max_default0 priorities)),
           (''topics'', PTuple (map PStr (sorted_set topics)))], w'))))))"

section \<open>Lemmas: JSON normal form\<close>

lemma map_of_insort:
  "sorted (map fst ys) \<Longrightarrow> map_of (insort_key fst (k, v) ys) = (map_of ys)(k \<mapsto> v)"
proof (induction ys)
  case (Cons y ys)
  then show ?case by (cases y) (auto simp: fun_eq_iff dest: weak_map_of_SomeI)
qed simp

lemma map_of_sort_key: "map_of (sort_key fst kvs) = map_of kvs"
proof (induction kvs)
  case (Cons kv kvs)
  then show ?case by (cases kv) (simp add: map_of_insort)
qed simp

lemma json_norm_dict:
  "json_norm (PDict d) = PDict e \<Longrightarrow> dget e k = json_norm (dget d k)"
proof -
  assume "json_norm (PDict d) = PDict e"
  then have e: "e = sort_key fst (map (\<lambda>kv. (fst kv, json_norm (snd kv))) d)" by simp
  have "map_of (map (\<lambda>kv. (fst kv, json_norm (snd kv))) d) k = map_option json_norm (map_of d k)"
    by (induction d) auto
  then show ?thesis by (simp add: e dget_def map_of_sort_key split: option.splits)
qed

lemma truthy_json_norm [simp]: "truthy (json_norm v) = truthy v"
proof (cases v)
  case (PDict d)
  have "sort_key fst (map f d) = [] \<longleftrightarrow> d = []" for f :: "_ \<Rightarrow> string \<times> pyval"
    by (metis length_0_conv length_map length_sort)
  with PDict show ?thesis by simp
qed simp_all

lemma json_norm_text: "json_norm v = PStr s \<longleftrightarrow> v = PStr s"
  by (cases v) simp_all

section \<open>Lemmas: tables\<close>

lemma insert_row_Inr:
  "insert_row key row rows = Inr rows' \<longleftrightarrow> key row \<notin> key ` set rows \<and> rows' = rows @ [row]"
  by (auto simp: insert_row_def)

lemma insert_row_keys [inv_intros]:
  "insert_row key row rows = Inr rows' \<Longrightarrow> distinct (map key rows) \<Longrightarrow> distinct (map key rows')"
  by (auto simp: insert_row_Inr)

lemma insert_or_ignore_keys [inv_intros]:
  "distinct (map key rows) \<Longrightarrow> distinct (map key (insert_or_ignore key row rows))"
  by (auto simp: insert_or_ignore_def)

lemma insert_or_replace_keys [inv_intros]:
  "distinct (map key rows) \<Longrightarrow> distinct (map key (insert_or_replace key row rows))"
  by (auto simp: insert_or_replace_def distinct_map_filter)

lemma insert_or_replace_fetch:
  "fetchone (\<lambda>r. key r = k) (insert_or_replace key row rows) =
   (if key row = k then Some row else fetchone (\<lambda>r. key r = k) rows)"
  unfolding fetchone_def insert_or_replace_def by (induction rows) auto

lemma insert_row_prefix: "insert_row key row rows = Inr rows' \<Longrightarrow> prefix rows rows'"
  by (auto simp: insert_row_Inr)

lemma insert_or_ignore_prefix: "prefix rows (insert_or_ignore key row rows)"
  by (auto simp: insert_or_ignore_def)

section \<open>Sequences of writes\<close>

datatype db_op =
    WEvent perception_event
  | WSpan string string dict "string option"
  | WFact string string string dict
  | WPolicy string string dict
  | WCandidate string string dict
  | WToolResult string string string string dict
  | WAudit string string string dict "string option"
  | WApproval string string string string dict "string option"
  | WDecision string string string dict
  | WMemory string string dict
  | WUpdateMemory string dict
  | WRetire "string option" "string option" string
  | WExpire "string option"

definition drop_id :: "('a \<times> db) result \<Rightarrow> db result" where
  "drop_id m = ebind m (\<lambda>x. Inr (snd x))"

fun db_step :: "db \<Rightarrow> db_op \<Rightarrow> db result" where
  "db_step d (WEvent e) = persist_event d e"
| "db_step d (WSpan i st p sid) = Inr (persist_execution_span d i st p sid)"
| "db_step d (WFact i t sub p) = drop_id (persist_fact d i t sub p)"
| "db_step d (WPolicy i t p) = drop_id (persist_policy_decision d i t p)"
| "db_step d (WCandidate i t p) = drop_id (persist_memory_candidate d i t p)"
| "db_step d (WToolResult r i t st p) = persist_tool_result d r i t st p"
| "db_step d (WAudit a i st p sid) = persist_audit_record d a i st p sid"
| "db_step d (WApproval sid i t st p rid) = Inr (snd (persist_approval_request d sid i t st p rid))"
| "db_step d (WDecision rid sid dec p) = drop_id (persist_approval_decision d rid sid dec p)"
| "db_step d (WMemory i t p) = drop_id (persist_long_term_memory d i t p)"
| "db_step d (WUpdateMemory m p) = Inr (update_long_term_memory d m p)"
| "db_step d (WRetire t i reason) = drop_id (retire_long_term_memories d t i reason)"
| "db_step d (WExpire t) = drop_id (retire_expired_long_term_memories d t)"

definition keys_ok :: "store \<Rightarrow> bool" where
  "keys_ok s \<longleftrightarrow> distinct (map er_event_id (perception_events s))
     \<and> distinct (map sr_execution_span_id (execution_spans s))
     \<and> distinct (map fa_fact_id (facts s)) \<and> distinct (map pr_policy_decision_id (policy_decisions s))
     \<and> distinct (map mc_memory_candidate_id (memory_candidates s))
     \<and> distinct (map mr_memory_id (long_term_memories s))
     \<and> distinct (map tr_tool_result_id (tool_results s))
     \<and> distinct (map ar_approval_request_id (approval_requests s))
     \<and> distinct (map ad_approval_decision_id (approval_decisions s))
     \<and> distinct (map au_audit_id (audit_records s))"

text \<open>A memory row without its payload, the only column that is ever updated in place.\<close>

definition memory_head :: "memory_row \<Rightarrow> memory_row" where
  "memory_head r = r\<lparr> mr_payload := PNone \<rparr>"

text \<open>The evidence tables of a later store extend those of an earlier one.\<close>

definition evidence_extends :: "store \<Rightarrow> store \<Rightarrow> bool" where
  "evidence_extends s s' \<longleftrightarrow> prefix (perception_events s) (perception_events s')
     \<and> prefix (facts s) (facts s') \<and> prefix (policy_decisions s) (policy_decisions s')
     \<and> prefix (memory_candidates s) (memory_candidates s') \<and> prefix (tool_results s) (tool_results s')
     \<and> prefix (approval_decisions s) (approval_decisions s') \<and> prefix (audit_records s) (audit_records s')
     \<and> prefix (map memory_head (long_term_memories s)) (map memory_head (long_term_memories s'))"

lemma evidence_refl [simp]: "evidence_extends s s"
  by (simp add: evidence_extends_def)

lemma evidence_trans: "evidence_extends a b \<Longrightarrow> evidence_extends b c \<Longrightarrow> evidence_extends a c"
  unfolding evidence_extends_def by (meson prefix_order.trans)

lemma memory_head_fields [simp]:
  "mr_memory_id (memory_head r) = mr_memory_id r"
  "mr_source_execution_span_id (memory_head r) = mr_source_execution_span_id r"
  "mr_semantic_topic (memory_head r) = mr_semantic_topic r"
  "mr_created_at (memory_head r) = mr_created_at r"
  by (simp_all add: memory_head_def)

lemma memory_head_update [simp]: "memory_head (r\<lparr> mr_payload := p \<rparr>) = memory_head r"
  by (simp add: memory_head_def)

text \<open>What an in-place rewrite of the memory table may do: keep every other table and the heads.\<close>

definition memory_rewrite :: "store \<Rightarrow> store \<Rightarrow> bool" where
  "memory_rewrite s s' \<longleftrightarrow> (\<exists>rows. s' = s\<lparr> long_term_memories := rows \<rparr>
     \<and> map memory_head rows = map memory_head (long_term_memories s))"

lemma memory_rewrite_refl [simp]: "memory_rewrite s s"
  unfolding memory_rewrite_def by (rule exI[of _ "long_term_memories s"]) simp

lemma memory_rewrite_trans: "memory_rewrite a b \<Longrightarrow> memory_rewrite b c \<Longrightarrow> memory_rewrite a c"
  unfolding memory_rewrite_def by auto

lemma update_memory_rewrite: "memory_rewrite s (fst (update_long_term_memory (s, w) m p))"
  by (auto simp: memory_rewrite_def update_long_term_memory_def comp_def)

lemma heads_ids: "map memory_head rs = map memory_head rs' \<Longrightarrow> map mr_memory_id rs = map mr_memory_id rs'"
  by (metis (no_types, lifting) list.map_comp list.map_cong comp_apply memory_head_fields(1))

lemma memory_rewrite_ids:
  "memory_rewrite s s' \<Longrightarrow> map mr_memory_id (long_term_memories s') = map mr_memory_id (long_term_memories s)"
  by (auto simp: memory_rewrite_def intro: heads_ids)

lemma memory_rewrite_keys: "memory_rewrite s s' \<Longrightarrow> keys_ok s \<Longrightarrow> keys_ok s'"
  using memory_rewrite_ids[of s s'] by (auto simp: memory_rewrite_def keys_ok_def)

lemma memory_rewrite_extends: "memory_rewrite s s' \<Longrightarrow> evidence_extends s s'"
  by (auto simp: memory_rewrite_def evidence_extends_def)

lemma retire_step_rewrite:
  "retire_step reason (ids, s, w) r = Inr (ids', s', w') \<Longrightarrow> memory_rewrite s s'"
  using update_memory_rewrite[of s]
  by (auto simp: retire_step_def Let_def update_long_term_memory_def split: prod.splits if_splits)

lemma expire_step_rewrite:
  "expire_step t (ids, s, w) r = Inr (ids', s', w') \<Longrightarrow> memory_rewrite s s'"
  using update_memory_rewrite[of s]
  by (auto simp: expire_step_def Let_def update_long_term_memory_def split: prod.splits if_splits)

lemma rewrite_loop:
  assumes "\<And>ids s w r ids' s' w'. step (ids, s, w) r = Inr (ids', s', w') \<Longrightarrow> memory_rewrite s s'"
    and "efold step (ids, s, w) rows = Inr (ids', s', w')"
  shows "memory_rewrite s s'"
proof -
  have keep: "memory_rewrite s (fst (snd acc'))"
    if "memory_rewrite s (fst (snd acc))" and "step acc r = Inr acc'" for acc acc' r
    using that assms(1)[of "fst acc" "fst (snd acc)" "snd (snd acc)" r "fst acc'" "fst (snd acc')" "snd (snd acc')"]
    by (auto intro: memory_rewrite_trans)
  have "memory_rewrite s (fst (snd acc))" if "efold step (ids, s, w) rows = Inr acc" for acc
    by (rule efold_invariant[OF _ _ that, of "\<lambda>acc. memory_rewrite s (fst (snd acc))"])
      (auto intro: keep)
  from this[OF assms(2)] show ?thesis by simp
qed

section \<open>Every write keeps keys and evidence\<close>

lemma store_write_ok:
  assumes "db_step d x = Inr d'" and "keys_ok (fst d)"
  shows "keys_ok (fst d') \<and> evidence_extends (fst d) (fst d')"
proof (cases x)
  case (WRetire t i reason)
  with assms(1) obtain ids where
    "efold (retire_step reason) ([], fst d, snd d) (select_memories (fst d) i t 1000) = Inr (ids, fst d', snd d')"
    by (auto simp: drop_id_def retire_long_term_memories_def)
  then have "memory_rewrite (fst d) (fst d')"
    by (rule rewrite_loop[rotated]) (rule retire_step_rewrite)
  with assms(2) show ?thesis
    by (blast intro: memory_rewrite_keys memory_rewrite_extends)
next
  case (WExpire t)
  with assms(1) obtain ids w2 res where
    "efold (expire_step res) ([], fst d, w2) (select_memories (fst d) None None 1000) = Inr (ids, fst d', snd d')"
    by (cases d) (auto simp: drop_id_def retire_expired_long_term_memories_def Let_def split: prod.splits)
  then have "memory_rewrite (fst d) (fst d')"
    by (rule rewrite_loop[rotated]) (rule expire_step_rewrite)
  with assms(2) show ?thesis
    by (blast intro: memory_rewrite_keys memory_rewrite_extends)
next
  case (WUpdateMemory m p)
  with assms update_memory_rewrite[of "fst d" "snd d" m p] show ?thesis
    by (auto intro: memory_rewrite_keys memory_rewrite_extends)
next
  case (WEvent e)
  with assms show ?thesis
    by (cases d) (auto simp: persist_event_def Let_def keys_ok_def evidence_extends_def
        intro: insert_or_ignore_keys insert_or_ignore_prefix split: prod.splits)
next
  case (WSpan i st p sid)
  with assms show ?thesis
    by (cases d) (auto simp: persist_execution_span_def Let_def keys_ok_def evidence_extends_def
        intro: insert_or_replace_keys split: prod.splits)
next
  case (WApproval sid i t st p rid)
  with assms show ?thesis
    by (cases d) (auto simp: persist_approval_request_def Let_def keys_ok_def evidence_extends_def
        intro: insert_or_replace_keys split: prod.splits)
next
  case (WFact i t sub p)
  with assms show ?thesis
    by (cases d) (auto simp: drop_id_def persist_fact_def Let_def keys_ok_def evidence_extends_def
        insert_row_Inr split: prod.splits)
next
  case (WPolicy i t p)
  with assms show ?thesis
    by (cases d) (auto simp: drop_id_def persist_policy_decision_def Let_def keys_ok_def evidence_extends_def
        insert_row_Inr split: prod.splits)
next
  case (WCandidate i t p)
  with assms show ?thesis
    by (cases d) (auto simp: drop_id_def persist_memory_candidate_def Let_def keys_ok_def evidence_extends_def
        insert_row_Inr split: prod.splits)
next
  case (WToolResult r i t st p)
  with assms show ?thesis
    by (cases d) (auto simp: persist_tool_result_def Let_def keys_ok_def evidence_extends_def
        insert_row_Inr split: prod.splits)
next
  case (WAudit a i st p sid)
  with assms show ?thesis
    by (cases d) (auto simp: persist_audit_record_def Let_def keys_ok_def evidence_extends_def
        insert_row_Inr split: prod.splits)
next
  case (WDecision rid sid dec p)
  with assms show ?thesis
    by (cases d) (auto simp: drop_id_def persist_approval_decision_def Let_def keys_ok_def evidence_extends_def
        insert_row_Inr split: prod.splits)
next
  case (WMemory i t p)
  with assms show ?thesis
    by (cases d) (auto simp: drop_id_def persist_long_term_memory_def Let_def keys_ok_def evidence_extends_def
        insert_row_Inr split: prod.splits)
qed

interpretation writes: checked_step db_step "\<lambda>d. keys_ok (fst d) \<and> evidence_extends s0 (fst d)" for s0
  by unfold_locales (blast dest: store_write_ok intro: evidence_trans)

section \<open>Retiring memories\<close>

lemma fetch_governance:
  "json_norm (PDict payload) = v \<Longrightarrow> \<exists>e. v = PDict e \<and> (\<forall>k. dget e k = json_norm (dget payload k))"
  using json_norm_dict by fastforce

lemma retired_payload_retires:
  assumes "retired_payload payload governance reason t = Inr payload'"
  shows "memory_retired (r\<lparr> mr_payload := json_norm (PDict payload') \<rparr>) = Inr True"
proof -
  from assms obtain gov where p': "payload' = dset payload ''memory_governance'' (PDict gov)"
    and gov: "dget gov ''lifecycle_state'' = PStr ''retired''"
    by (auto simp: retired_payload_def Let_def)
  obtain e where e: "json_norm (PDict payload') = PDict e" "\<And>k. dget e k = json_norm (dget payload' k)"
    using fetch_governance[OF refl] by blast
  obtain g where g: "json_norm (PDict gov) = PDict g" "\<And>k. dget g k = json_norm (dget gov k)"
    using fetch_governance[OF refl] by blast
  have "gov \<noteq> []" using gov by auto
  then have "truthy (PDict g)" using g(1) truthy_json_norm[of "PDict gov"] by simp
  then show ?thesis
    using e g gov by (simp add: memory_retired_def p')
qed

text \<open>A row whose payload and governance are JSON objects, as the program writes them.\<close>

definition governed :: "memory_row \<Rightarrow> bool" where
  "governed r \<longleftrightarrow> (case memory_retired r of Inr _ \<Rightarrow> True | Inl _ \<Rightarrow> False)"

lemma governed_governance:
  assumes "governed r"
  obtains payload governance where "governance_of r = Inr (payload, governance)"
    and "memory_retired r = Inr (dget governance ''lifecycle_state'' = PStr ''retired'')"
proof -
  have as_dict_iff: "as_dict v = Inr d \<longleftrightarrow> v = PDict d" for v d by (cases v) (auto simp: as_dict_def)
  from assms obtain b where b: "memory_retired r = Inr b"
    by (auto simp: governed_def split: sum.splits)
  then obtain payload governance where
    "mr_payload r = PDict payload" "por (dget payload ''memory_governance'') (PDict []) = PDict governance"
    unfolding memory_retired_def ebind_eq_Inr as_dict_iff by blast
  then show thesis
    by (intro that[of payload governance]) (simp_all add: governance_of_def memory_retired_def)
qed

text \<open>
  What a loop over selected rows does to the table: the rows that are due come out retired,
  every other row is untouched, and no row loses more than its payload.
\<close>

definition retires_rows ::
    "(memory_row \<Rightarrow> bool) \<Rightarrow> memory_row list \<Rightarrow> (memory_row \<Rightarrow> memory_row) \<Rightarrow> bool" where
  "retires_rows due rows f \<longleftrightarrow> (\<forall>r. memory_head (f r) = memory_head r)
     \<and> (\<forall>r. mr_memory_id r \<notin> mr_memory_id ` set (filter due rows) \<longrightarrow> f r = r)
     \<and> (\<forall>r \<in> set rows. due r \<longrightarrow> memory_retired (f r) = Inr True)"

lemma retires_rows_Cons:
  assumes step: "retires_rows due [r] g" and rest: "retires_rows due rs f"
    and new: "mr_memory_id r \<notin> mr_memory_id ` set rs"
  shows "retires_rows due (r # rs) (\<lambda>x. f (g x))"
proof -
  have ids: "mr_memory_id (g x) = mr_memory_id x" for x
    using step by (metis memory_head_fields(1) retires_rows_def)
  have other: "g x = x" if "x \<in> set rs" for x
  proof -
    have "mr_memory_id x \<noteq> mr_memory_id r" using new that by (metis imageI)
    with step show ?thesis by (simp add: retires_rows_def)
  qed
  have "mr_memory_id (g r) \<notin> mr_memory_id ` set (filter due rs)" using new ids by auto
  then have self: "f (g r) = g r" using rest by (simp add: retires_rows_def)
  show ?thesis using step rest ids other self by (auto simp: retires_rows_def)
qed

text \<open>The two retirement loops share this contract of their step.\<close>

locale retirement =
  fixes step :: "string list \<times> db \<Rightarrow> memory_row \<Rightarrow> (string list \<times> db) result"
    and due :: "memory_row \<Rightarrow> bool"
  assumes step_row: "governed r \<Longrightarrow> step (ids, s, w) r = Inr (ids', s', w') \<Longrightarrow>
    \<exists>g. retires_rows due [r] g \<and> s' = s\<lparr> long_term_memories := map g (long_term_memories s) \<rparr>
      \<and> ids' = ids @ (if due r then [mr_memory_id r] else [])"
begin

lemma loop:
  "list_all governed rows \<Longrightarrow> distinct (map mr_memory_id rows) \<Longrightarrow>
   efold step (ids, s, w) rows = Inr (ids', s', w') \<Longrightarrow>
   \<exists>f. retires_rows due rows f \<and> s' = s\<lparr> long_term_memories := map f (long_term_memories s) \<rparr>
    \<and> ids' = ids @ map mr_memory_id (filter due rows)"
proof (induction rows arbitrary: ids s w)
  case Nil
  then show ?case by (intro exI[of _ id]) (simp add: retires_rows_def)
next
  case (Cons r rs)
  from Cons.prems(3) obtain ids1 s1 w1 where
    step: "step (ids, s, w) r = Inr (ids1, s1, w1)" and
    rest: "efold step (ids1, s1, w1) rs = Inr (ids', s', w')" by auto
  from step_row[OF _ step] Cons.prems(1) obtain g where
    g: "retires_rows due [r] g" "s1 = s\<lparr> long_term_memories := map g (long_term_memories s) \<rparr>"
      "ids1 = ids @ (if due r then [mr_memory_id r] else [])" by auto
  from Cons.IH[OF _ _ rest] Cons.prems(1,2) obtain f where
    f: "retires_rows due rs f" "s' = s1\<lparr> long_term_memories := map f (long_term_memories s1) \<rparr>"
      "ids' = ids1 @ map mr_memory_id (filter due rs)" by auto
  from retires_rows_Cons[OF g(1) f(1)] Cons.prems(2) f(2,3) g(2,3) show ?case
    by (intro exI[of _ "\<lambda>x. f (g x)"]) (auto simp: comp_def)
qed

end

lemma retires_one:
  assumes "retired_payload payload governance reason t = Inr p" and "due r"
  shows "retires_rows due [r] (\<lambda>x. if mr_memory_id x = mr_memory_id r
      then x\<lparr> mr_payload := json_norm (PDict p) \<rparr> else x)"
  using retired_payload_retires[OF assms(1)] assms(2) by (simp add: retires_rows_def)

lemma retires_none: "\<not> due r \<Longrightarrow> retires_rows due [r] id"
  by (simp add: retires_rows_def)

definition row_active :: "memory_row \<Rightarrow> bool" where
  "row_active r \<longleftrightarrow> memory_retired r \<noteq> Inr True"

definition retention_due :: "string \<Rightarrow> memory_row \<Rightarrow> bool" where
  "retention_due reference_time r \<longleftrightarrow> row_active r \<and> (case governance_of r of Inl _ \<Rightarrow> False
     | Inr (payload, governance) \<Rightarrow> (let expires = str_or (dget governance ''retention_expires_at'') [] in
         expires \<noteq> [] \<and> expires \<le> reference_time))"

interpretation retire: retirement "retire_step reason" row_active for reason
proof
  fix r ids s w ids' s' w'
  assume gov: "governed r" and step: "retire_step reason (ids, s, w) r = Inr (ids', s', w')"
  from gov obtain payload governance where g: "governance_of r = Inr (payload, governance)"
    "memory_retired r = Inr (dget governance ''lifecycle_state'' = PStr ''retired'')"
    by (rule governed_governance)
  show "\<exists>g. retires_rows row_active [r] g \<and> s' = s\<lparr> long_term_memories := map g (long_term_memories s) \<rparr>
      \<and> ids' = ids @ (if row_active r then [mr_memory_id r] else [])"
  proof (cases "row_active r")
    case False
    with step g have "s' = s" "ids' = ids" by (simp_all add: retire_step_def row_active_def)
    with retires_none[of row_active, OF False] False show ?thesis by (intro exI[of _ id]) simp
  next
    case True
    with step g obtain t p where p: "retired_payload payload governance reason t = Inr p"
      and eq: "ids' = ids @ [mr_memory_id r]" "s' = fst (update_long_term_memory (s, w') (mr_memory_id r) p)"
      by (auto simp: retire_step_def row_active_def Let_def update_long_term_memory_def split: prod.splits)
    from retires_one[of _ _ _ _ _ row_active, OF p True] True eq show ?thesis
      by (auto simp: update_long_term_memory_def)
  qed
qed

interpretation expire: retirement "expire_step reference_time" "retention_due reference_time" for reference_time
proof
  fix r ids s w ids' s' w'
  assume gov: "governed r" and step: "expire_step reference_time (ids, s, w) r = Inr (ids', s', w')"
  from gov obtain payload governance where g: "governance_of r = Inr (payload, governance)"
    "memory_retired r = Inr (dget governance ''lifecycle_state'' = PStr ''retired'')"
    by (rule governed_governance)
  show "\<exists>g. retires_rows (retention_due reference_time) [r] g
      \<and> s' = s\<lparr> long_term_memories := map g (long_term_memories s) \<rparr>
      \<and> ids' = ids @ (if retention_due reference_time r then [mr_memory_id r] else [])"
  proof (cases "retention_due reference_time r")
    case False
    with step g have "s' = s" "ids' = ids"
      by (auto simp: expire_step_def retention_due_def row_active_def Let_def not_le split: if_splits)
    with retires_none[of "retention_due reference_time", OF False] False show ?thesis
      by (intro exI[of _ id]) simp
  next
    case True
    with step g obtain p where p: "retired_payload payload governance ''retention_expired'' reference_time = Inr p"
      and eq: "ids' = ids @ [mr_memory_id r]" "s' = fst (update_long_term_memory (s, w') (mr_memory_id r) p)"
      by (auto simp: expire_step_def retention_due_def row_active_def Let_def update_long_term_memory_def
          not_less split: if_splits)
    from retires_one[of _ _ _ _ _ "retention_due reference_time", OF p True] True eq show ?thesis
      by (auto simp: update_long_term_memory_def)
  qed
qed

definition memory_matches :: "string option \<Rightarrow> string option \<Rightarrow> memory_row \<Rightarrow> bool" where
  "memory_matches src topic r \<longleftrightarrow> sql_match src (mr_source_execution_span_id r) \<and> sql_match topic (mr_semantic_topic r)"

lemma set_select: "set (select_memories s src topic limit) \<subseteq> {r \<in> set (long_term_memories s). memory_matches src topic r}"
  unfolding select_memories_def sql_limit_def
  by (auto simp: memory_matches_def dest!: in_set_takeD)

lemma set_select_all:
  "int (length (filter (memory_matches src topic) (long_term_memories s))) \<le> limit \<Longrightarrow>
   set (select_memories s src topic limit) = {r \<in> set (long_term_memories s). memory_matches src topic r}"
  unfolding select_memories_def sql_limit_def memory_matches_def[symmetric]
  by (auto simp: take_all)

lemma distinct_select:
  assumes "keys_ok s"
  shows "distinct (map mr_memory_id (select_memories s src topic limit))"
proof -
  let ?m = "filter (\<lambda>r. sql_match src (mr_source_execution_span_id r) \<and> sql_match topic (mr_semantic_topic r)) (long_term_memories s)"
  have "distinct (map mr_memory_id ?m)" using assms by (simp add: keys_ok_def distinct_map_filter)
  then have d: "distinct (map mr_memory_id (sort_key_desc k ?m))" for k :: "memory_row \<Rightarrow> string \<times> string"
    using mset_eq_imp_distinct_iff[of "map mr_memory_id (sort_key_desc k ?m)" "map mr_memory_id ?m"]
    by (simp only: mset_map mset_sort_key_desc)
  show ?thesis
  proof (cases "limit < 0")
    case True
    with d show ?thesis by (simp only: select_memories_def sql_limit_def if_True)
  next
    case False
    with distinct_take[OF d] show ?thesis
      by (simp only: select_memories_def sql_limit_def if_False take_map)
  qed
qed

lemma active_none:
  assumes "\<And>r. r \<in> set (long_term_memories s) \<Longrightarrow> memory_matches src topic r \<Longrightarrow> memory_retired r = Inr True"
  shows "get_long_term_memories s src topic False limit = Inr []"
proof -
  have "emap (\<lambda>r. ebind (memory_retired r) (\<lambda>b. Inr (r, b))) (select_memories s src topic limit) =
      Inr (map (\<lambda>r. (r, True)) (select_memories s src topic limit))"
    by (rule emap_total) (use set_select[of s src topic limit] assms in auto)
  then show ?thesis by (simp add: get_long_term_memories_def Let_def filter_map comp_def)
qed

section \<open>Properties\<close>

text \<open>C31: Whatever sequence of writes the program makes, as long as none raises, primary keys stay
  unique in all ten tables and the evidence is append-only: no event, fact, policy decision,
  memory candidate, tool result, approval decision or audit record is ever changed, reordered or
  removed, and a long-term memory can at most get another payload.\<close>

theorem store_run_append_only:
  assumes "keys_ok (fst d)" and "efold db_step d ops = Inr d'"
  shows "keys_ok (fst d') \<and> evidence_extends (fst d) (fst d')"
  using writes.run_keeps[OF _ assms(2), of "fst d"] assms(1) by simp

lemma empty_keys: "keys_ok empty_store"
  by (simp add: keys_ok_def empty_store_def)

definition governed_payload :: "string \<Rightarrow> string \<Rightarrow> dict" where
  "governed_payload state expires = [(''memory_governance'', PDict [
     (''lifecycle_state'', PStr state), (''retention_expires_at'', PStr expires)])]"

theorem store_run_append_only_witness:
  "\<exists>d'. efold db_step (empty_store, sample_env) [WMemory ''span'' ''topic'' (governed_payload ''accepted'' [])] = Inr d'
    \<and> keys_ok (fst d') \<and> evidence_extends empty_store (fst d')"
proof -
  have "\<exists>d'. efold db_step (empty_store, sample_env) [WMemory ''span'' ''topic'' (governed_payload ''accepted'' [])] = Inr d'"
    by (simp add: drop_id_def persist_long_term_memory_def new_id_def utc_now_iso_def insert_row_def
        empty_store_def Let_def)
  then obtain d' where "efold db_step (empty_store, sample_env) [WMemory ''span'' ''topic'' (governed_payload ''accepted'' [])] = Inr d'"
    by blast
  from store_run_append_only[OF _ this] this empty_keys show ?thesis by auto
qed

text \<open>C26: Retiring the memories of a topic or a span is complete, exact and lossless, on a store with unique
  keys whose memories are governed (payload and governance are JSON objects, as the program writes
  them) and with at most 1000 of them matching, the bound of the code's SELECT. It reports exactly the
  matching memories that were active, newest first; exactly those rows come out retired, with no column
  but the payload changed; every other row, also one that was retired already, and every other table is
  as it was; and no read of active memories with this filter returns anything, at any limit.\<close>

theorem retire_exact:
  assumes "retire_long_term_memories (s, w) topic src reason = Inr (ids, s', w')"
    and "keys_ok s" and "list_all governed (long_term_memories s)"
    and "length (filter (memory_matches src topic) (long_term_memories s)) \<le> 1000"
  shows "ids = map mr_memory_id (filter row_active (select_memories s src topic 1000))
    \<and> s' = s\<lparr> long_term_memories := long_term_memories s' \<rparr>
    \<and> list_all2 (\<lambda>r r'. if memory_matches src topic r \<and> row_active r
          then memory_head r' = memory_head r \<and> memory_retired r' = Inr True else r' = r)
        (long_term_memories s) (long_term_memories s')
    \<and> get_long_term_memories s' src topic False limit = Inr []"
proof -
  let ?rows = "select_memories s src topic 1000"
  have all: "set ?rows = {r \<in> set (long_term_memories s). memory_matches src topic r}"
    using assms(4) by (intro set_select_all) simp
  have gov: "list_all governed ?rows" using all assms(3) by (auto simp: list_all_iff)
  have "efold (retire_step reason) ([], s, w) ?rows = Inr (ids, s', w')"
    using assms(1) by (simp add: retire_long_term_memories_def)
  from retire.loop[OF gov distinct_select[OF assms(2)] this] obtain f where
    f: "retires_rows row_active ?rows f" and s': "s' = s\<lparr> long_term_memories := map f (long_term_memories s) \<rparr>"
    and ids: "ids = map mr_memory_id (filter row_active ?rows)" by auto
  have head: "memory_head (f r) = memory_head r" for r using f by (simp add: retires_rows_def)
  have match: "memory_matches src topic (f r) = memory_matches src topic r" for r
    using arg_cong[OF head[of r], of mr_source_execution_span_id] arg_cong[OF head[of r], of mr_semantic_topic]
    by (simp add: memory_matches_def)
  have dist: "inj_on mr_memory_id (set (long_term_memories s))"
    using assms(2) by (simp add: keys_ok_def distinct_map)
  have row: "if memory_matches src topic r \<and> row_active r
      then memory_head (f r) = memory_head r \<and> memory_retired (f r) = Inr True else f r = r"
    if r: "r \<in> set (long_term_memories s)" for r
  proof (cases "memory_matches src topic r \<and> row_active r")
    case True
    with r f all head show ?thesis by (simp add: retires_rows_def)
  next
    case False
    then have "mr_memory_id r \<notin> mr_memory_id ` set (filter row_active ?rows)"
      using dist r all by (auto dest: inj_onD)
    with f False show ?thesis by (auto simp: retires_rows_def)
  qed
  have "memory_retired r' = Inr True" if "r' \<in> set (long_term_memories s')" "memory_matches src topic r'" for r'
  proof -
    from that s' obtain r where "r \<in> set (long_term_memories s)" "r' = f r" by auto
    with row[of r] that(2) match show ?thesis by (auto simp: row_active_def split: if_splits)
  qed
  then have "get_long_term_memories s' src topic False limit = Inr []" by (rule active_none)
  with ids s' row show ?thesis by (simp add: list_all2_conv_all_nth)
qed

definition sample_memory :: "string \<Rightarrow> string \<Rightarrow> string \<Rightarrow> string \<Rightarrow> memory_row" where
  "sample_memory mid topic state created = \<lparr> mr_memory_id = mid, mr_source_execution_span_id = ''span'',
     mr_semantic_topic = topic, mr_payload = PDict (governed_payload state ''2026-01-01''),
     mr_created_at = created \<rparr>"

definition sample_store :: store where
  "sample_store = empty_store\<lparr> long_term_memories := [sample_memory ''m1'' ''a'' ''accepted'' ''2026-01-01'',
     sample_memory ''m2'' ''b'' ''retired'' ''2026-02-02''] \<rparr>"

lemma sample_store_ok: "keys_ok sample_store" "list_all governed (long_term_memories sample_store)"
  by (simp_all add: sample_store_def keys_ok_def empty_store_def sample_memory_def governed_def
      memory_retired_def governed_payload_def por_def)

theorem retire_exact_witness:
  "\<exists>ids s' w'. retire_long_term_memories (sample_store, sample_env) (Some ''a'') None ''done'' = Inr (ids, s', w')
    \<and> get_long_term_memories s' None (Some ''a'') False 50 = Inr []"
proof -
  have "(case retire_long_term_memories (sample_store, sample_env) (Some ''a'') None ''done'' of
      Inr _ \<Rightarrow> True | Inl _ \<Rightarrow> False)" by code_simp
  then obtain ids s' w' where r: "retire_long_term_memories (sample_store, sample_env) (Some ''a'') None ''done'' = Inr (ids, s', w')"
    by (auto split: sum.splits)
  have "length (filter (memory_matches None (Some ''a'')) (long_term_memories sample_store)) \<le> 1000"
    by (simp add: sample_store_def empty_store_def)
  from retire_exact[OF r sample_store_ok this] r show ?thesis by blast
qed

text \<open>Expiry retires exactly the active memories whose retention date is set and not after
  the reference time, in the order of the SELECT, and leaves every other row as it is.\<close>

theorem expire_exact:
  assumes "retire_expired_long_term_memories (s, w) (Some now) = Inr (ids, s', w')" and "now \<noteq> []"
    and "keys_ok s" and "list_all governed (long_term_memories s)" and "length (long_term_memories s) \<le> 1000"
  shows "ids = map mr_memory_id (filter (retention_due now) (select_memories s None None 1000))
    \<and> list_all2 (\<lambda>r r'. if retention_due now r then memory_retired r' = Inr True \<and> memory_head r' = memory_head r
         else r' = r) (long_term_memories s) (long_term_memories s')"
proof -
  let ?rows = "select_memories s None None 1000"
  have all: "set ?rows = set (long_term_memories s)"
    using set_select_all[of None None s 1000] assms(5) by (simp add: memory_matches_def sql_match_def)
  have gov: "list_all governed ?rows" using all assms(4) by (auto simp: list_all_iff)
  have "efold (expire_step now) ([], s, w) ?rows = Inr (ids, s', w')"
    using assms(1,2) by (simp add: retire_expired_long_term_memories_def text_set_def)
  from expire.loop[OF gov distinct_select[OF assms(3)] this] obtain f where
    f: "retires_rows (retention_due now) ?rows f" and s': "s' = s\<lparr> long_term_memories := map f (long_term_memories s) \<rparr>"
    and ids: "ids = map mr_memory_id (filter (retention_due now) ?rows)" by auto
  have dist: "inj_on mr_memory_id (set (long_term_memories s))"
    using assms(3) by (simp add: keys_ok_def distinct_map)
  have keep: "f r = r" if r: "r \<in> set (long_term_memories s)" and "\<not> retention_due now r" for r
  proof -
    have "mr_memory_id r \<notin> mr_memory_id ` set (filter (retention_due now) ?rows)"
      using dist that all by (auto dest: inj_onD)
    with f show ?thesis by (simp add: retires_rows_def)
  qed
  have "list_all2 (\<lambda>r r'. if retention_due now r then memory_retired r' = Inr True \<and> memory_head r' = memory_head r
         else r' = r) (long_term_memories s) (map f (long_term_memories s))"
    using f keep all by (auto simp: list_all2_conv_all_nth retires_rows_def)
  with ids s' show ?thesis by simp
qed

theorem expire_exact_witness:
  "\<exists>ids s' w'. retire_expired_long_term_memories (sample_store, sample_env) (Some ''2026-03-03'') = Inr (ids, s', w')
    \<and> ids = [''m1'']"
proof -
  have rows: "select_memories sample_store None None 1000 =
      [sample_memory ''m2'' ''b'' ''retired'' ''2026-02-02'', sample_memory ''m1'' ''a'' ''accepted'' ''2026-01-01'']"
    by code_simp
  have "(case retire_expired_long_term_memories (sample_store, sample_env) (Some ''2026-03-03'') of
      Inr _ \<Rightarrow> True | Inl _ \<Rightarrow> False)" by code_simp
  then obtain ids s' w' where r: "retire_expired_long_term_memories (sample_store, sample_env) (Some ''2026-03-03'') = Inr (ids, s', w')"
    by (auto split: sum.splits)
  have len: "length (long_term_memories sample_store) \<le> 1000" by (simp add: sample_store_def)
  have due: "\<not> retention_due ''2026-03-03'' (sample_memory ''m2'' ''b'' ''retired'' ''2026-02-02'')"
    "retention_due ''2026-03-03'' (sample_memory ''m1'' ''a'' ''accepted'' ''2026-01-01'')" by code_simp+
  from expire_exact[OF r _ sample_store_ok len] due rows r show ?thesis
    by (auto simp: sample_memory_def)
qed

text \<open>An execution span is upserted without losing its start: reading it back gives the new
  status, session and normalised payload, the start time of the first write, and a completion
  time exactly when the status is not running; no other span changes.\<close>

theorem span_upsert:
  "get_execution_span (fst (persist_execution_span (s, w) i st p sid)) j =
   (if j = i then Some [
        (''execution_span_id'', PStr i), (''session_id'', opt_str sid), (''status'', PStr st),
        (''payload'', json_norm (PDict p)),
        (''started_at'', case get_execution_span s i of Some old \<Rightarrow> dget old ''started_at''
           | None \<Rightarrow> PStr (fst (utc_now_iso w))),
        (''completed_at'', if st = ''running'' then PNone
           else PStr (fst (utc_now_iso (snd (utc_now_iso w)))))]
    else get_execution_span s j)"
  by (auto simp: get_execution_span_def persist_execution_span_def Let_def insert_or_replace_fetch
      span_row_dict_def split: prod.splits option.splits)

text \<open>An approval request is upserted without losing its creation time: reading it back gives
  the new status and payload, the creation time of the first write and the time of this write as
  update time; requests with another id do not change.\<close>

theorem approval_upsert:
  "(case persist_approval_request (s, w) sid src tool st p (Some (c # cs)) of (rid, s', w') \<Rightarrow>
     rid = c # cs \<and> get_approval_request s' j =
      (if j = c # cs then Some [
        (''approval_request_id'', PStr (c # cs)), (''session_id'', PStr sid),
        (''source_execution_span_id'', PStr src), (''tool_name'', PStr tool), (''status'', PStr st),
        (''payload'', json_norm (PDict p)),
        (''created_at'', case get_approval_request s (c # cs) of Some old \<Rightarrow> dget old ''created_at''
           | None \<Rightarrow> PStr (fst (utc_now_iso w))),
        (''updated_at'', PStr (fst (utc_now_iso w)))]
       else get_approval_request s j))"
  by (auto simp: get_approval_request_def persist_approval_request_def Let_def insert_or_replace_fetch
      approval_request_row_dict_def text_set_def split: prod.splits option.splits)

text \<open>The limit of a memory read counts retired rows: with a newer retired memory and an older
  active one, reading one active memory returns none, although reading two returns the active
  one.\<close>

theorem active_memory_hidden_by_limit:
  "get_long_term_memories sample_store None None False 1 = Inr []
   \<and> get_long_term_memories sample_store None None False 2 =
     Inr [memory_row_dict (sample_memory ''m1'' ''a'' ''accepted'' ''2026-01-01'')]"
  by code_simp

end
