(* ===== verification/Social.thy ===== *)
theory Social
  imports Events
begin

text \<open>
  \<open>neurolink_core/social.py\<close>: social message, delivery and approval envelopes, the approval
  summary, and the mock social adapter that binds principals, turns messages into perception
  events and delivers affective responses.
\<close>

definition normalize_channel_kind :: "string \<Rightarrow> string result" where
  "normalize_channel_kind channel_kind = (
     let normalized = str_lower (str_strip channel_kind) in
     if normalized \<in> set [''group'', ''direct'', ''channel''] then Inr normalized
     else Inl (ValueError (''unsupported social channel kind: '' @ channel_kind)))"

record SocialMessageEnvelope =
  sm_social_message_id :: string
  sm_adapter_kind :: string
  sm_channel_id :: string
  sm_channel_kind :: string
  sm_external_user_id :: string
  sm_principal_id :: string
  sm_message_kind :: string
  sm_text :: string
  sm_received_at :: string
  sm_rate_limit_class :: string
  sm_policy_tags :: "string list"
  sm_metadata :: dict

definition SocialMessageEnvelope_from_dict :: "dict \<Rightarrow> SocialMessageEnvelope result" where
  "SocialMessageEnvelope_from_dict payload =
     ebind (normalize_channel_kind (str_or (dget payload ''channel_kind'') ''direct'')) (\<lambda>channel_kind.
     ebind (str_items (por (dget payload ''policy_tags'') (PList []))) (\<lambda>policy_tags.
     ebind (py_dict (por (dget payload ''metadata'') (PDict []))) (\<lambda>metadata.
     Inr \<lparr> sm_social_message_id = str_or (dget payload ''social_message_id'') ''social-unknown'',
           sm_adapter_kind = str_or (dget payload ''adapter_kind'') ''mock_social'',
           sm_channel_id = str_or (dget payload ''channel_id'') ''unknown-channel'',
           sm_channel_kind = channel_kind,
           sm_external_user_id = str_or (dget payload ''external_user_id'') ''unknown-user'',
           sm_principal_id = str_or (dget payload ''principal_id'') ''user-unknown'',
           sm_message_kind = str_or (dget payload ''message_kind'') ''text'',
           sm_text = str_or (dget payload ''text'') [],
           sm_received_at = str_or (dget payload ''received_at'') [],
           sm_rate_limit_class = str_or (dget payload ''rate_limit_class'') ''normal_user'',
           sm_policy_tags = policy_tags,
           sm_metadata = metadata \<rparr>)))"

definition SocialMessageEnvelope_to_dict :: "SocialMessageEnvelope \<Rightarrow> dict" where
  "SocialMessageEnvelope_to_dict m = [
     (''social_message_id'', PStr (sm_social_message_id m)),
     (''adapter_kind'', PStr (sm_adapter_kind m)),
     (''channel_id'', PStr (sm_channel_id m)),
     (''channel_kind'', PStr (sm_channel_kind m)),
     (''external_user_id'', PStr (sm_external_user_id m)),
     (''principal_id'', PStr (sm_principal_id m)),
     (''message_kind'', PStr (sm_message_kind m)),
     (''text'', PStr (sm_text m)),
     (''received_at'', PStr (sm_received_at m)),
     (''rate_limit_class'', PStr (sm_rate_limit_class m)),
     (''policy_tags'', PList (map PStr (sm_policy_tags m))),
     (''metadata'', PDict (sm_metadata m))]"

record SocialDeliveryRecord =
  sd_delivery_id :: string
  sd_adapter_kind :: string
  sd_channel_id :: string
  sd_principal_id :: string
  sd_speaker :: string
  sd_delivery_status :: string
  sd_delivered_text :: string
  sd_audit_tags :: "string list"

definition SocialDeliveryRecord_to_dict :: "SocialDeliveryRecord \<Rightarrow> dict" where
  "SocialDeliveryRecord_to_dict r = [
     (''delivery_id'', PStr (sd_delivery_id r)),
     (''adapter_kind'', PStr (sd_adapter_kind r)),
     (''channel_id'', PStr (sd_channel_id r)),
     (''principal_id'', PStr (sd_principal_id r)),
     (''speaker'', PStr (sd_speaker r)),
     (''delivery_status'', PStr (sd_delivery_status r)),
     (''delivered_text'', PStr (sd_delivered_text r)),
     (''audit_tags'', PList (map PStr (sd_audit_tags r)))]"

record SocialApprovalEnvelope =
  sp_approval_request_id :: string
  sp_adapter_kind :: string
  sp_channel_id :: string
  sp_channel_kind :: string
  sp_external_user_id :: string
  sp_principal_id :: string
  sp_decision_text :: string
  sp_received_at :: string

definition SocialApprovalEnvelope_to_dict :: "SocialApprovalEnvelope \<Rightarrow> dict" where
  "SocialApprovalEnvelope_to_dict a = [
     (''approval_request_id'', PStr (sp_approval_request_id a)),
     (''adapter_kind'', PStr (sp_adapter_kind a)),
     (''channel_id'', PStr (sp_channel_id a)),
     (''channel_kind'', PStr (sp_channel_kind a)),
     (''external_user_id'', PStr (sp_external_user_id a)),
     (''principal_id'', PStr (sp_principal_id a)),
     (''decision_text'', PStr (sp_decision_text a)),
     (''received_at'', PStr (sp_received_at a))]"

definition build_social_approval_summary :: "dict \<Rightarrow> dict \<Rightarrow> dict result" where
  "build_social_approval_summary approval_request approval_context =
     ebind (py_dict (por (dget approval_request ''payload'') (PDict []))) (\<lambda>request_payload.
     ebind (py_dict (por (dget request_payload ''requested_args'') (PDict []))) (\<lambda>requested_args.
     ebind (py_dict (por (dget approval_context ''operator_requirements'') (PDict []))) (\<lambda>requirements.
     ebind (py_list (por (dget requirements ''required_resources'') (PList []))) (\<lambda>required.
     ebind (py_list (por (dget requirements ''missing_required_resources'') (PList []))) (\<lambda>missing.
     let none = PList [PStr ''none''] in
     Inr [
       (''approval_request_id'', dget approval_request ''approval_request_id''),
       (''status'', dget approval_request ''status''),
       (''tool_name'', dget approval_request ''tool_name''),
       (''requested_args'', PDict requested_args),
       (''required_resources'', PList required),
       (''missing_required_resources'', PList missing),
       (''human_summary'', PStr (''Pending approval for '' @ py_str (dget approval_request ''tool_name'')
          @ '' with args '' @ py_str (PDict requested_args)
          @ ''. Required resources: '' @ py_str (por (PList required) none)
          @ ''. Missing resources: '' @ py_str (por (PList missing) none) @ ''.''))])))))"

section \<open>The mock adapter\<close>

definition bind_principal ::
    "string \<Rightarrow> string \<Rightarrow> string \<Rightarrow> string \<Rightarrow> string \<Rightarrow> string \<Rightarrow> bool \<Rightarrow> SocialMessageEnvelope result" where
  "bind_principal adapter_kind channel_id channel_kind external_user_id text_arg received_at is_admin =
     ebind (normalize_channel_kind channel_kind) (\<lambda>resolved_channel_kind.
     Inr \<lparr> sm_social_message_id = ''social-'' @ adapter_kind @ ''-'' @ channel_id @ ''-'' @ external_user_id,
           sm_adapter_kind = adapter_kind,
           sm_channel_id = channel_id,
           sm_channel_kind = resolved_channel_kind,
           sm_external_user_id = external_user_id,
           sm_principal_id = adapter_kind @ '':'' @ external_user_id,
           sm_message_kind = ''text'',
           sm_text = text_arg,
           sm_received_at = received_at,
           sm_rate_limit_class = (if is_admin then ''admin''
             else if resolved_channel_kind = ''group'' then ''group_user'' else ''normal_user''),
           sm_policy_tags = [''social_ingress'', ''user_input'', ''channel_'' @ resolved_channel_kind],
           sm_metadata = [(''is_admin'', PBool is_admin), (''channel_kind'', PStr resolved_channel_kind)] \<rparr>)"

definition to_perception_event :: "SocialMessageEnvelope \<Rightarrow> dict" where
  "to_perception_event m = (
     let semantic_topic = (if sm_channel_kind m = ''group'' then ''user.input.social.group''
           else if sm_channel_kind m = ''channel'' then ''user.input.social.channel''
           else ''user.input.social.direct'') in [
     (''event_id'', PStr (sm_social_message_id m)),
     (''source_kind'', PStr ''social''),
     (''source_node'', PStr (sm_adapter_kind m)),
     (''event_type'', PStr ''user.input.social''),
     (''semantic_topic'', PStr semantic_topic),
     (''timestamp_wall'', PStr (sm_received_at m)),
     (''priority'', PInt (if sm_rate_limit_class m = ''admin'' then 70 else 55)),
     (''dedupe_key'', PStr (sm_social_message_id m)),
     (''policy_tags'', PList (map PStr (sm_policy_tags m))),
     (''payload'', PDict [
        (''text'', PStr (sm_text m)),
        (''channel_id'', PStr (sm_channel_id m)),
        (''channel_kind'', PStr (sm_channel_kind m)),
        (''external_user_id'', PStr (sm_external_user_id m)),
        (''principal_id'', PStr (sm_principal_id m)),
        (''rate_limit_class'', PStr (sm_rate_limit_class m)),
        (''social_adapter'', PStr (sm_adapter_kind m))])])"

definition deliver_affective_response :: "SocialMessageEnvelope \<Rightarrow> dict \<Rightarrow> SocialDeliveryRecord result" where
  "deliver_affective_response m response = (
     let speaker = str_or (dget response ''speaker'') [] in
     if speaker \<noteq> ''affective'' then Inl (ValueError ''social_delivery_requires_affective_speaker'')
     else Inr \<lparr> sd_delivery_id = ''delivery-'' @ sm_social_message_id m,
                sd_adapter_kind = sm_adapter_kind m,
                sd_channel_id = sm_channel_id m,
                sd_principal_id = sm_principal_id m,
                sd_speaker = speaker,
                sd_delivery_status = ''delivered'',
                sd_delivered_text = str_or (dget response ''text'') [],
                sd_audit_tags = [''social_egress'', ''affective_only''] \<rparr>)"

definition bind_approval_principal ::
    "string \<Rightarrow> string \<Rightarrow> string \<Rightarrow> string \<Rightarrow> string \<Rightarrow> string \<Rightarrow> string \<Rightarrow> SocialApprovalEnvelope result" where
  "bind_approval_principal approval_request_id adapter_kind channel_id channel_kind external_user_id
      decision_text received_at =
     ebind (normalize_channel_kind channel_kind) (\<lambda>resolved_channel_kind.
     Inr \<lparr> sp_approval_request_id = approval_request_id, sp_adapter_kind = adapter_kind,
           sp_channel_id = channel_id, sp_channel_kind = resolved_channel_kind,
           sp_external_user_id = external_user_id,
           sp_principal_id = adapter_kind @ '':'' @ external_user_id,
           sp_decision_text = decision_text, sp_received_at = received_at \<rparr>)"

definition social_approval_metadata :: "SocialApprovalEnvelope \<Rightarrow> dict" where
  "social_approval_metadata a = [
     (''approval_channel'', PStr ''social''),
     (''social_adapter'', PStr (sp_adapter_kind a)),
     (''channel_id'', PStr (sp_channel_id a)),
     (''channel_kind'', PStr (sp_channel_kind a)),
     (''external_user_id'', PStr (sp_external_user_id a)),
     (''principal_id'', PStr (sp_principal_id a)),
     (''decision_text'', PStr (sp_decision_text a)),
     (''received_at'', PStr (sp_received_at a))]"

section \<open>Lemmas\<close>

definition envelope_ok :: "SocialMessageEnvelope \<Rightarrow> bool" where
  "envelope_ok m \<longleftrightarrow> sm_social_message_id m \<noteq> [] \<and> sm_adapter_kind m \<noteq> [] \<and> sm_channel_id m \<noteq> []
     \<and> sm_channel_kind m \<in> set [''group'', ''direct'', ''channel''] \<and> sm_external_user_id m \<noteq> []
     \<and> sm_principal_id m \<noteq> [] \<and> sm_message_kind m \<noteq> [] \<and> sm_rate_limit_class m \<noteq> []"

lemma channel_kind_fixed:
  "k \<in> set [''group'', ''direct'', ''channel''] \<Longrightarrow> normalize_channel_kind k = Inr k"
proof -
  have "normalize_channel_kind ''group'' = Inr ''group''" "normalize_channel_kind ''direct'' = Inr ''direct''"
    "normalize_channel_kind ''channel'' = Inr ''channel''" by code_simp+
  then show "k \<in> set [''group'', ''direct'', ''channel''] \<Longrightarrow> ?thesis" by auto
qed

lemma channel_kind_not_Nil: "k \<in> set [''group'', ''direct'', ''channel''] \<Longrightarrow> k \<noteq> []"
  by auto

interpretation envelope_codec: dict_codec SocialMessageEnvelope_to_dict SocialMessageEnvelope_from_dict envelope_ok
proof
  fix m :: SocialMessageEnvelope
  assume ok: "envelope_ok m"
  then have "normalize_channel_kind (sm_channel_kind m) = Inr (sm_channel_kind m)" "sm_channel_kind m \<noteq> []"
    using channel_kind_fixed channel_kind_not_Nil by (auto simp only: envelope_ok_def)
  with ok show "SocialMessageEnvelope_from_dict (SocialMessageEnvelope_to_dict m) = Inr m"
    by (simp add: SocialMessageEnvelope_from_dict_def SocialMessageEnvelope_to_dict_def envelope_ok_def
        str_items_plain)
qed

text \<open>The event an envelope becomes in the router.\<close>

definition social_topic :: "SocialMessageEnvelope \<Rightarrow> string" where
  "social_topic m = (if sm_channel_kind m = ''group'' then ''user.input.social.group''
     else if sm_channel_kind m = ''channel'' then ''user.input.social.channel''
     else ''user.input.social.direct'')"

definition social_event :: "SocialMessageEnvelope \<Rightarrow> perception_event" where
  "social_event m = \<lparr> pe_event_id = sm_social_message_id m, pe_source_kind = ''social'',
     pe_event_type = ''user.input.social'', pe_timestamp_wall = sm_received_at m,
     pe_source_node = PStr (sm_adapter_kind m), pe_source_app = PNone,
     pe_semantic_topic = PStr (social_topic m), pe_timestamp_mono = PNone,
     pe_priority = (if sm_rate_limit_class m = ''admin'' then 70 else 55),
     pe_dedupe_key = PStr (sm_social_message_id m), pe_causality_id = PStr (sm_social_message_id m),
     pe_raw_payload_ref = PNone, pe_policy_tags = map PStr (sm_policy_tags m),
     pe_payload = [
        (''text'', PStr (sm_text m)), (''channel_id'', PStr (sm_channel_id m)),
        (''channel_kind'', PStr (sm_channel_kind m)),
        (''external_user_id'', PStr (sm_external_user_id m)),
        (''principal_id'', PStr (sm_principal_id m)),
        (''rate_limit_class'', PStr (sm_rate_limit_class m)),
        (''social_adapter'', PStr (sm_adapter_kind m))] \<rparr>"

lemma social_from_payload:
  assumes "sm_social_message_id m \<noteq> []" "sm_received_at m \<noteq> []"
  shows "PerceptionEvent_from_payload (normalize_payload (to_perception_event m)) w = Inr (social_event m, w)"
proof -
  have "to_perception_event m = [
     (''event_id'', PStr (sm_social_message_id m)), (''source_kind'', PStr ''social''),
     (''source_node'', PStr (sm_adapter_kind m)), (''event_type'', PStr ''user.input.social''),
     (''semantic_topic'', PStr (social_topic m)), (''timestamp_wall'', PStr (sm_received_at m)),
     (''priority'', PInt (if sm_rate_limit_class m = ''admin'' then 70 else 55)),
     (''dedupe_key'', PStr (sm_social_message_id m)),
     (''policy_tags'', PList (map PStr (sm_policy_tags m))),
     (''payload'', PDict (pe_payload (social_event m)))]"
    by (simp add: to_perception_event_def social_topic_def social_event_def Let_def)
  then show ?thesis using assms
    by (simp add: PerceptionEvent_from_payload_def normalize_payload_def Let_def dsetdefault_def dset_def
        por_def social_event_def)
qed

lemma social_event_key: "sm_social_message_id m \<noteq> [] \<Longrightarrow> event_key (social_event m) = PStr (sm_social_message_id m)"
  by (simp add: event_key_def social_event_def)

lemma bind_principal_id:
  "bind_principal adapter cid kind user txt rcvd adm = Inr m \<Longrightarrow>
   sm_social_message_id m = ''social-'' @ adapter @ ''-'' @ cid @ ''-'' @ user \<and> sm_received_at m = rcvd"
  by (auto simp: bind_principal_def)

section \<open>Properties\<close>

text \<open>A message is never delivered in another voice than the affective one: delivery succeeds
  exactly when the response names the affective speaker, goes to the channel and principal of
  the message it answers, and carries the text of the response.\<close>

theorem delivery_affective_only:
  "(case deliver_affective_response m response of
      Inr r \<Rightarrow> str_or (dget response ''speaker'') [] = ''affective'' \<and> sd_speaker r = ''affective''
        \<and> sd_channel_id r = sm_channel_id m \<and> sd_principal_id r = sm_principal_id m
        \<and> sd_delivered_text r = str_or (dget response ''text'') []
    | Inl e \<Rightarrow> str_or (dget response ''speaker'') [] \<noteq> ''affective''
        \<and> e = ValueError ''social_delivery_requires_affective_speaker'')"
  by (simp add: deliver_affective_response_def Let_def)

text \<open>C40: The mock adapter gives all messages of one user in one channel the same message id, and
  the router takes it as dedupe key: once the first message has been routed, every later message
  of this user in this channel is dropped, whatever its text and time.\<close>

theorem later_social_message_dropped:
  assumes "bind_principal adapter cid kind user txt1 at1 adm1 = Inr m1"
    and "bind_principal adapter cid kind' user txt2 at2 adm2 = Inr m2"
    and "at1 \<noteq> []" and "at2 \<noteq> []"
  shows "snd (normalize (fst (normalize r w [to_perception_event m1])) w' [to_perception_event m2]) = Inr ([], w')"
proof -
  let ?k = "PStr (''social-'' @ adapter @ ''-'' @ cid @ ''-'' @ user)"
  have k: "sm_social_message_id m1 = ''social-'' @ adapter @ ''-'' @ cid @ ''-'' @ user" "sm_received_at m1 = at1"
    "sm_social_message_id m2 = ''social-'' @ adapter @ ''-'' @ cid @ ''-'' @ user" "sm_received_at m2 = at2"
    using bind_principal_id[OF assms(1)] bind_principal_id[OF assms(2)] by (simp_all only:)
  have ne: "sm_social_message_id m1 \<noteq> []" "sm_social_message_id m2 \<noteq> []" by (simp_all add: k)
  have e1: "PerceptionEvent_from_payload (normalize_payload (to_perception_event m1)) w = Inr (social_event m1, w)"
    "event_key (social_event m1) = ?k"
    using social_from_payload[OF ne(1), of w] social_event_key[OF ne(1)] assms(3) k by simp_all
  have e2: "PerceptionEvent_from_payload (normalize_payload (to_perception_event m2)) w' = Inr (social_event m2, w')"
    "event_key (social_event m2) = ?k"
    using social_from_payload[OF ne(2), of w'] social_event_key[OF ne(2)] assms(4) k by simp_all
  have "?k \<in> seen_dedupe_keys (fst (normalize r w [to_perception_event m1]))"
    by (auto simp: normalize_def e1)
  then show ?thesis unfolding normalize_def[of "fst (normalize r w [to_perception_event m1])"] by (simp add: e2)
qed

theorem later_social_message_dropped_witness:
  "\<exists>m1 m2. bind_principal ''mock'' ''c'' ''direct'' ''u'' ''hello'' ''t1'' False = Inr m1
    \<and> bind_principal ''mock'' ''c'' ''direct'' ''u'' ''stop'' ''t2'' False = Inr m2
    \<and> snd (normalize (fst (normalize \<lparr>subscribers = ([] :: unit subscriber list), seen_dedupe_keys = {}\<rparr>
        sample_env [to_perception_event m1])) sample_env [to_perception_event m2]) = Inr ([], sample_env)"
proof -
  have kind: "normalize_channel_kind ''direct'' = Inr ''direct''" by code_simp
  obtain m1 m2 where m: "bind_principal ''mock'' ''c'' ''direct'' ''u'' ''hello'' ''t1'' False = Inr m1"
    "bind_principal ''mock'' ''c'' ''direct'' ''u'' ''stop'' ''t2'' False = Inr m2"
    by (simp add: bind_principal_def kind)
  from later_social_message_dropped[OF m, of "\<lparr>subscribers = ([] :: unit subscriber list), seen_dedupe_keys = {}\<rparr>"
      sample_env sample_env] m
  show ?thesis by blast
qed

end
