(* ===== verification/Agents.thy ===== *)
theory Agents
  imports Common
begin

text \<open>
  \<open>neurolink_core/agents.py\<close>: the deterministic affective agent, which decides whether a
  perception frame is delegated, and the deterministic rational agent, which picks the tool.
\<close>

record AffectiveDecision =
  af_delegated :: bool
  af_reason :: string
  af_salience :: int

definition AffectiveDecision_to_dict :: "AffectiveDecision \<Rightarrow> dict" where
  "AffectiveDecision_to_dict d = [
     (''delegated'', PBool (af_delegated d)),
     (''reason'', PStr (af_reason d)),
     (''salience'', PInt (af_salience d))]"

record RationalPlan =
  rp_tool_name :: string
  rp_args :: dict
  rp_reason :: string

definition RationalPlan_to_dict :: "RationalPlan \<Rightarrow> dict" where
  "RationalPlan_to_dict p = [
     (''tool_name'', PStr (rp_tool_name p)),
     (''args'', PDict (rp_args p)),
     (''reason'', PStr (rp_reason p))]"

definition OPERATIONAL_WAKE_TOPICS :: "(string \<times> string \<times> int) list" where
  "OPERATIONAL_WAKE_TOPICS = [
     (''unit.network.endpoint_drift'', (''network_endpoint_drift_requires_rational_window'', 85)),
     (''unit.health.degraded'', (''degraded_health_requires_rational_window'', 85)),
     (''unit.lifecycle.activate_failed'', (''activate_failure_requires_rational_window'', 90)),
     (''unit.state.offline'', (''offline_state_requires_rational_window'', 90)),
     (''unit.state.online'', (''online_state_requires_rational_window'', 70))]"

text \<open>\<open>for topic in frame.topics: if topic in OPERATIONAL_WAKE_TOPICS: return ...\<close>.\<close>

fun first_wake :: "string list \<Rightarrow> (string \<times> int) option" where
  "first_wake [] = None"
| "first_wake (topic # topics) = (case map_of OPERATIONAL_WAKE_TOPICS topic of
     Some rs \<Rightarrow> Some rs | None \<Rightarrow> first_wake topics)"

definition affective_decide :: "perception_frame \<Rightarrow> AffectiveDecision" where
  "affective_decide frame = (case first_wake (pf_topics frame) of
     Some (reason, minimum_salience) \<Rightarrow> \<lparr> af_delegated = True, af_reason = reason,
        af_salience = max (pf_highest_priority frame) minimum_salience \<rparr>
   | None \<Rightarrow>
       if 50 \<le> pf_highest_priority frame \<or> ''unit.callback'' \<in> set (pf_topics frame)
       then \<lparr> af_delegated = True, af_reason = ''salient_perception_frame_requires_rational_window'',
              af_salience = pf_highest_priority frame \<rparr>
       else \<lparr> af_delegated = False, af_reason = ''low_salience_frame_recorded_without_action'',
              af_salience = pf_highest_priority frame \<rparr>)"

text \<open>The \<open>if/elif\<close> chain of \<open>FakeRationalAgent.plan\<close>: topic, tool and reason, first match wins.\<close>

definition tool_choices :: "(string \<times> string \<times> string) list" where
  "tool_choices = [
     (''unit.lifecycle.activate_failed'', ''system_activation_health_guard'', ''post_activate_health_guard_required''),
     (''user.input.control.app.restart'', ''system_restart_app'', ''app_restart_requested_by_user_input''),
     (''user.input.control.app.start'', ''system_start_app'', ''app_start_requested_by_user_input''),
     (''user.input.control.app.stop'', ''system_stop_app'', ''app_stop_requested_by_user_input''),
     (''user.input.control.app.unload'', ''system_unload_app'', ''app_unload_requested_by_user_input''),
     (''user.input.query.device'', ''system_query_device'', ''device_query_requested_by_user_input''),
     (''user.input.query.apps'', ''system_query_apps'', ''app_query_requested_by_user_input''),
     (''user.input.query.leases'', ''system_query_leases'', ''lease_query_requested_by_user_input''),
     (''user.input.capabilities'', ''system_capabilities'', ''capabilities_query_requested_by_user_input'')]"

definition app_tools :: "string list" where
  "app_tools = [''system_activation_health_guard'', ''system_restart_app'', ''system_start_app'',
     ''system_stop_app'', ''system_unload_app'']"

definition rational_plan ::
    "AffectiveDecision \<Rightarrow> perception_frame \<Rightarrow> dict option \<Rightarrow> RationalPlan option" where
  "rational_plan decision frame session_context = (
     if \<not> af_delegated decision then None
     else
       let (tool_name, reason) = (case find (\<lambda>c. fst c \<in> set (pf_topics frame)) tool_choices of
             Some c \<Rightarrow> snd c
           | None \<Rightarrow> (''system_state_sync'', ''state_sync_before_any_unit_side_effect''));
           args = [(''event_ids'', PList (map PStr (pf_event_ids frame))),
                   (''reason'', PStr (af_reason decision))];
           target_app_id = (case session_context of None \<Rightarrow> []
             | Some c \<Rightarrow> if tool_name \<in> set app_tools then str_or (dget c ''target_app_id'') [] else []);
           args' = (if target_app_id \<noteq> []
             then dset (dset args ''app_id'' (PStr target_app_id)) ''app'' (PStr target_app_id) else args)
       in Some \<lparr> rp_tool_name = tool_name, rp_args = args', rp_reason = reason \<rparr>)"

text \<open>The two agents in sequence, as the workflow runs them without a model.\<close>

definition decide_and_plan :: "perception_frame \<Rightarrow> dict option \<Rightarrow> RationalPlan option" where
  "decide_and_plan frame session_context = rational_plan (affective_decide frame) frame session_context"

section \<open>Lemmas\<close>

lemma first_wake_None: "first_wake ts = None \<longleftrightarrow> (\<forall>t \<in> set ts. t \<notin> fst ` set OPERATIONAL_WAKE_TOPICS)"
proof (induction ts)
  case (Cons t ts)
  have "map_of OPERATIONAL_WAKE_TOPICS t = None \<longleftrightarrow> t \<notin> fst ` set OPERATIONAL_WAKE_TOPICS"
    by (simp add: map_of_eq_None_iff)
  with Cons show ?case by (auto split: option.splits)
qed simp

lemma find_choice:
  assumes "find P cs = Some c" shows "c \<in> set cs \<and> P c"
  using assms by (auto simp: find_Some_iff in_set_conv_nth)

definition side_effect_tools :: "(string \<times> string) list" where
  "side_effect_tools = [
     (''system_restart_app'', ''user.input.control.app.restart''),
     (''system_start_app'', ''user.input.control.app.start''),
     (''system_stop_app'', ''user.input.control.app.stop''),
     (''system_unload_app'', ''user.input.control.app.unload'')]"

lemma choice_of_side_effect:
  "(topic, tool, reason) \<in> set tool_choices \<Longrightarrow> map_of side_effect_tools tool = Some t \<Longrightarrow> topic = t"
  by (auto simp: tool_choices_def side_effect_tools_def split: if_splits)

section \<open>Properties\<close>

text \<open>A frame reaches the rational side exactly when it carries an operational wake topic or a
  unit callback, or has priority 50 or more; a tool that changes an app is planned only when the
  frame carries the user control topic that asks for it, and an app id is passed only to the
  tools that act on an app.\<close>

theorem agents_plan_sound:
  "(case decide_and_plan frame ctx of
      None \<Rightarrow> pf_highest_priority frame < 50 \<and> ''unit.callback'' \<notin> set (pf_topics frame)
        \<and> set (pf_topics frame) \<inter> fst ` set OPERATIONAL_WAKE_TOPICS = {}
    | Some p \<Rightarrow> (50 \<le> pf_highest_priority frame \<or> ''unit.callback'' \<in> set (pf_topics frame)
        \<or> list_ex (\<lambda>t. t \<in> fst ` set OPERATIONAL_WAKE_TOPICS) (pf_topics frame))
      \<and> (case map_of side_effect_tools (rp_tool_name p) of None \<Rightarrow> True
          | Some topic \<Rightarrow> topic \<in> set (pf_topics frame))
      \<and> (if dhas (rp_args p) ''app_id'' then rp_tool_name p \<in> set app_tools else True))"
proof -
  have delegated: "af_delegated (affective_decide frame) \<longleftrightarrow>
      50 \<le> pf_highest_priority frame \<or> ''unit.callback'' \<in> set (pf_topics frame)
        \<or> list_ex (\<lambda>t. t \<in> fst ` set OPERATIONAL_WAKE_TOPICS) (pf_topics frame)"
    using first_wake_None[of "pf_topics frame"]
    by (auto simp: affective_decide_def list_ex_iff split: option.splits)
  show ?thesis
  proof (cases "decide_and_plan frame ctx")
    case None
    then have "\<not> af_delegated (affective_decide frame)"
      by (auto simp: decide_and_plan_def rational_plan_def Let_def split: prod.splits)
    with None delegated show ?thesis by (auto simp: list_ex_iff)
  next
    case (Some p)
    then have del: "af_delegated (affective_decide frame)"
      by (auto simp: decide_and_plan_def rational_plan_def split: if_splits)
    have effect: "topic \<in> set (pf_topics frame)" if "map_of side_effect_tools (rp_tool_name p) = Some topic" for topic
    proof (cases "find (\<lambda>c. fst c \<in> set (pf_topics frame)) tool_choices")
      case None
      with Some del have "rp_tool_name p = ''system_state_sync''"
        by (auto simp: decide_and_plan_def rational_plan_def Let_def)
      with that show ?thesis by (simp add: side_effect_tools_def)
    next
      case choice: (Some c)
      with Some del have tool: "rp_tool_name p = fst (snd c)"
        by (auto simp: decide_and_plan_def rational_plan_def Let_def split: prod.splits)
      from find_choice[OF choice] have "c \<in> set tool_choices" "fst c \<in> set (pf_topics frame)" by auto
      with choice_of_side_effect[of "fst c" "fst (snd c)" "snd (snd c)" topic] that tool show ?thesis by simp
    qed
    have app: "rp_tool_name p \<in> set app_tools" if "dhas (rp_args p) ''app_id''"
      using that Some del
      by (auto simp: decide_and_plan_def rational_plan_def Let_def split: prod.splits option.splits if_splits)
    from Some del delegated effect app show ?thesis by (simp split: option.splits)
  qed
qed

end
