(* ===== verification/Memory.thy ===== *)
theory Memory
  imports DataStore Sha256
begin

text \<open>
  \<open>neurolink_core/memory.py\<close>: memory candidates and their governance, screening, commits into
  the store, and the three backends (fake, local, Mem0 sidecar with a local mirror).

  The Mem0 client is third-party code: a value of type \<open>'c mem0_client\<close> whose calls act on
  an arbitrary client state \<open>'c\<close> and return a value or the name of the exception class
  they raise.
\<close>

definition MEMORY_GOVERNANCE_SCHEMA_VERSION :: string where
  "MEMORY_GOVERNANCE_SCHEMA_VERSION = ''1.2.5-memory-governance-v1''"

text \<open>\<open>priority / 100.0\<close>: the integer is converted to a float first.\<close>

definition candidate_confidence :: "int \<Rightarrow> pyfloat result" where
  "candidate_confidence priority = (
     if priority \<le> 0 then Inr (fl (2/10))
     else ebind (float_of_int priority) (\<lambda>p. Inr (
       let scaled = (case p of Fin q \<Rightarrow> fl (q / 100) | x \<Rightarrow> x) in
       fl_round 3 (fl_min (Fin 1) (fl_max (fl (2/10)) scaled)))))"

definition utc_after_days :: "int \<Rightarrow> env \<Rightarrow> string \<times> env" where
  "utc_after_days days w = (clock_iso w (clock_pos w) days, w\<lparr>clock_pos := Suc (clock_pos w)\<rparr>)"

definition retention_policy_for_topic :: "string \<Rightarrow> string \<times> int" where
  "retention_policy_for_topic semantic_topic = (
     if startswith semantic_topic ''user.input'' then (''user_context'', 30)
     else if startswith semantic_topic ''unit.callback'' then (''operational_lesson'', 14)
     else if startswith semantic_topic ''time.'' then (''ephemeral_telemetry'', 1)
     else (''operational_context'', 7))"

text \<open>Sorting or joining a list with an item that is not text raises TypeError.\<close>

definition text_item :: "pyval \<Rightarrow> string result" where
  "text_item v = (case v of PStr s \<Rightarrow> Inr s | _ \<Rightarrow> Inl (TypeError ''expected str instance''))"

definition candidate_dedupe_key :: "string \<Rightarrow> string \<Rightarrow> pyval list \<Rightarrow> string result" where
  "candidate_dedupe_key semantic_topic source event_ids =
     ebind (emap text_item event_ids) (\<lambda>ids.
     Inr (''memcand:'' @ take 16 (sha256_hex (str_join ''|'' ([semantic_topic, source] @ sort ids)))))"

definition governed_candidate ::
    "string \<Rightarrow> string \<Rightarrow> string list \<Rightarrow> int \<Rightarrow> string option \<Rightarrow> string option \<Rightarrow> string option \<Rightarrow> dict result" where
  "governed_candidate semantic_topic source event_ids priority memory_backend user_id agent_id =
     ebind (candidate_dedupe_key semantic_topic source (map PStr event_ids)) (\<lambda>dedupe_key.
     ebind (candidate_confidence priority) (\<lambda>confidence.
     let governance = [
           (''schema_version'', PStr MEMORY_GOVERNANCE_SCHEMA_VERSION),
           (''lifecycle_state'', PStr ''proposed''),
           (''decision_reason'', PStr ''frame_topic_candidate_detected''),
           (''confidence'', PFloat confidence),
           (''confidence_source'', PStr ''frame_priority''),
           (''dedupe_key'', PStr dedupe_key),
           (''source_event_refs'', PList (map PStr event_ids)),
           (''source_fact_refs'', PList []),
           (''source_fact_ref_count'', PInt 0),
           (''review_mode'', PStr ''deterministic_auto_candidate''),
           (''lifecycle_history'', PList [PStr ''proposed''])] @
           (case memory_backend of None \<Rightarrow> [] | Some b \<Rightarrow> [(''memory_backend'', PStr b)]) in
     Inr ([
       (''semantic_topic'', PStr semantic_topic),
       (''source'', PStr source),
       (''event_ids'', PList (map PStr event_ids)),
       (''priority'', PInt priority),
       (''candidate_dedupe_key'', PStr dedupe_key),
       (''source_event_refs'', PList (map PStr event_ids)),
       (''memory_governance'', PDict governance)] @
       (case memory_backend of None \<Rightarrow> [] | Some b \<Rightarrow> [(''memory_backend'', PStr b)]) @
       (case user_id of None \<Rightarrow> [] | Some u \<Rightarrow> [(''user_id'', PStr u)]) @
       (case agent_id of None \<Rightarrow> [] | Some a \<Rightarrow> [(''agent_id'', PStr a)]))))"

text \<open>\<open>str(a or b or f())\<close> where \<open>f\<close> may raise and is only called when needed.\<close>

definition str_or_else :: "pyval \<Rightarrow> string result \<Rightarrow> string result" where
  "str_or_else v f = (if truthy v then Inr (py_str v) else f)"

definition history_with :: "string \<Rightarrow> pyval list \<Rightarrow> pyval list" where
  "history_with state history = (if PStr state \<in> set history then history else history @ [PStr state])"

definition governance_field :: "dict \<Rightarrow> dict result" where
  "governance_field payload = py_dict (por (dget payload ''memory_governance'') (PDict []))"

definition screen_candidate :: "dict \<Rightarrow> env \<Rightarrow> (dict \<times> env) result" where
  "screen_candidate candidate w =
     ebind (governance_field candidate) (\<lambda>governance.
     let semantic_topic = str_or (dget candidate ''semantic_topic'') ''unknown'';
         source = str_or (dget candidate ''source'') ''unknown'' in
     ebind (py_list (por (dget candidate ''event_ids'') (PList []))) (\<lambda>event_ids.
     ebind (py_int (por (dget candidate ''priority'') (PInt 0))) (\<lambda>priority.
     ebind (str_or_else (dget governance ''dedupe_key'') (str_or_else (dget candidate ''candidate_dedupe_key'')
        (candidate_dedupe_key semantic_topic source event_ids))) (\<lambda>dedupe_key.
     ebind (py_list (por (dget governance ''source_fact_refs'') (por (dget candidate ''source_fact_refs'') (PList []))))
        (\<lambda>source_fact_refs.
     ebind (py_list (por (dget governance ''lifecycle_history'') (PList [PStr ''proposed'']))) (\<lambda>history0.
     let (retention_class, retention_ttl_days) = retention_policy_for_topic semantic_topic;
         (lifecycle_state, decision_reason) = (
           if retention_class = ''ephemeral_telemetry'' then (''rejected'', ''ephemeral_telemetry_not_retained'')
           else if priority < 10 then (''rejected'', ''candidate_confidence_below_threshold'')
           else (''accepted'', ''deterministic_candidate_accepted''));
         lifecycle_history = history_with lifecycle_state (history_with ''screened'' history0) in
     ebind (candidate_confidence priority) (\<lambda>confidence.
     let (expires, w1) = utc_after_days retention_ttl_days w;
         governance1 = dupdate governance [
           (''schema_version'', PStr MEMORY_GOVERNANCE_SCHEMA_VERSION),
           (''lifecycle_state'', PStr lifecycle_state),
           (''decision_reason'', PStr decision_reason),
           (''screening_reason'', PStr decision_reason),
           (''confidence'', PFloat confidence),
           (''confidence_source'', PStr ''frame_priority''),
           (''dedupe_key'', PStr dedupe_key),
           (''source_event_refs'', PList event_ids),
           (''source_fact_refs'', PList source_fact_refs),
           (''source_fact_ref_count'', PInt (int (length source_fact_refs))),
           (''review_mode'', PStr ''deterministic_auto_candidate''),
           (''retention_class'', PStr retention_class),
           (''retention_ttl_days'', PInt retention_ttl_days),
           (''retention_expires_at'', PStr expires),
           (''commit_eligible'', PBool (lifecycle_state = ''accepted'')),
           (''lifecycle_history'', PList lifecycle_history)];
         stamp = (if lifecycle_state = ''accepted'' then ''accepted_at'' else ''rejected_at'');
         (stamped, w2) = (if truthy (dget governance1 stamp) then (dget governance1 stamp, w1)
           else (case utc_after_days 0 w1 of (t, w2) \<Rightarrow> (PStr t, w2)));
         governance2 = dset governance1 stamp stamped in
     Inr (dset (dset (dset (dset candidate ''candidate_dedupe_key'' (PStr dedupe_key))
            ''source_event_refs'' (PList event_ids))
            ''source_fact_refs'' (PList source_fact_refs))
            ''memory_governance'' (PDict governance2), w2))))))))"

text \<open>\<open>if x: d[k] = x\<close> for an optional text.\<close>

definition dset_text :: "dict \<Rightarrow> string \<Rightarrow> string option \<Rightarrow> dict" where
  "dset_text d k o' = (case o' of None \<Rightarrow> d | Some s \<Rightarrow> if s = [] then d else dset d k (PStr s))"

definition committed_memory_payload ::
    "dict \<Rightarrow> string \<Rightarrow> string \<Rightarrow> string option \<Rightarrow> string option \<Rightarrow> env \<Rightarrow> (dict \<times> env) result" where
  "committed_memory_payload candidate commit_backend commit_reason external_memory_id sidecar_status w =
     ebind (governance_field candidate) (\<lambda>governance.
     ebind (py_list (por (dget governance ''lifecycle_history'') (PList []))) (\<lambda>history.
     let (now, w') = utc_after_days 0 w;
         governance1 = dupdate governance [
           (''schema_version'', PStr MEMORY_GOVERNANCE_SCHEMA_VERSION),
           (''lifecycle_state'', PStr ''committed''),
           (''decision_reason'', PStr commit_reason),
           (''commit_backend'', PStr commit_backend),
           (''committed_at'', PStr now),
           (''lifecycle_history'', PList (history_with ''committed'' history))];
         governance2 = dset_text (dset_text governance1 ''external_memory_id'' external_memory_id)
           ''sidecar_status'' sidecar_status in
     Inr (dset_text (dset_text (dset candidate ''memory_governance'' (PDict governance2))
            ''external_memory_id'' external_memory_id) ''sidecar_status'' sidecar_status, w')))"

definition candidate_commit_eligible :: "dict \<Rightarrow> bool result" where
  "candidate_commit_eligible candidate = ebind (governance_field candidate) (\<lambda>governance.
     Inr (truthy (dget_or governance ''commit_eligible'' (PBool False))
       \<or> str_or (dget governance ''lifecycle_state'') [] = ''accepted''))"

definition external_memory_payload :: "dict \<Rightarrow> dict result" where
  "external_memory_payload candidate =
     ebind (governance_field candidate) (\<lambda>governance.
     ebind (py_list (por (dget candidate ''event_ids'') (PList []))) (\<lambda>event_ids.
     ebind (py_list (por (dget governance ''source_event_refs'') (PList []))) (\<lambda>event_refs.
     ebind (py_list (por (dget governance ''source_fact_refs'') (PList []))) (\<lambda>fact_refs.
     Inr [
       (''semantic_topic'', PStr (str_or (dget candidate ''semantic_topic'') ''unknown'')),
       (''source'', PStr (str_or (dget candidate ''source'') ''unknown'')),
       (''event_ids'', PList event_ids),
       (''source_event_refs'', PList event_refs),
       (''source_fact_refs'', PList fact_refs),
       (''memory_governance'', PDict [
          (''schema_version'', PStr MEMORY_GOVERNANCE_SCHEMA_VERSION),
          (''lifecycle_state'', PStr (str_or (dget governance ''lifecycle_state'') ''unknown'')),
          (''decision_reason'', PStr (str_or (dget governance ''decision_reason'') [])),
          (''confidence'', dget governance ''confidence''),
          (''confidence_source'', PStr (str_or (dget governance ''confidence_source'') [])),
          (''dedupe_key'', PStr (str_or (dget governance ''dedupe_key'') [])),
          (''retention_class'', PStr (str_or (dget governance ''retention_class'') [])),
          (''retention_expires_at'', PStr (str_or (dget governance ''retention_expires_at'') [])),
          (''review_mode'', PStr (str_or (dget governance ''review_mode'') []))])]))))"

section \<open>The backends\<close>

definition fake_runtime_metadata :: dict where
  "fake_runtime_metadata = [
     (''backend_kind'', PStr ''fake''),
     (''backend_runtime'', PStr ''local_deterministic_empty''),
     (''governance_schema_version'', PStr MEMORY_GOVERNANCE_SCHEMA_VERSION),
     (''requires_external_service'', PBool False),
     (''fallback_active'', PBool False),
     (''can_execute_tools_directly'', PBool False)]"

definition local_runtime_metadata :: dict where
  "local_runtime_metadata = [
     (''backend_kind'', PStr ''local_sqlite''),
     (''backend_runtime'', PStr ''sqlite_candidate_store''),
     (''governance_schema_version'', PStr MEMORY_GOVERNANCE_SCHEMA_VERSION),
     (''requires_external_service'', PBool False),
     (''fallback_active'', PBool False),
     (''can_execute_tools_directly'', PBool False)]"

definition propose_for_topics ::
    "string \<Rightarrow> string option \<Rightarrow> string option \<Rightarrow> string option \<Rightarrow> perception_frame \<Rightarrow> dict list result" where
  "propose_for_topics source memory_backend user_id agent_id frame =
     emap (\<lambda>topic. governed_candidate topic source (pf_event_ids frame) (pf_highest_priority frame)
        memory_backend user_id agent_id) (pf_topics frame)"

definition fake_propose_candidates :: "perception_frame \<Rightarrow> dict list result" where
  "fake_propose_candidates = propose_for_topics ''no_model_perception_frame'' None None None"

definition local_propose_candidates :: "perception_frame \<Rightarrow> dict list result" where
  "local_propose_candidates = propose_for_topics ''local_candidate_backed_memory'' (Some ''local_sqlite'') None None"

text \<open>\<open>screen_candidates\<close>, the same in the three backends.\<close>

fun screen_candidates :: "dict list \<Rightarrow> env \<Rightarrow> (dict list \<times> env) result" where
  "screen_candidates [] w = Inr ([], w)"
| "screen_candidates (c # cs) w = ebind (screen_candidate c w) (\<lambda>(c', w1).
     ebind (screen_candidates cs w1) (\<lambda>(cs', w2). Inr (c' # cs', w2)))"

definition local_lookup :: "store \<Rightarrow> perception_frame \<Rightarrow> dict list result" where
  "local_lookup s frame = ebind (emap (\<lambda>topic. get_long_term_memories s None (Some topic) False 5)
     (pf_topics frame)) (\<lambda>items. Inr (concat items))"

text \<open>
  The part the commit loops share: screen a candidate that is still proposed, test whether it
  may be committed, and compute its dedupe key.
\<close>

definition commit_key :: "dict \<Rightarrow> string result" where
  "commit_key payload = ebind (governance_field payload) (\<lambda>governance.
     str_or_else (dget governance ''dedupe_key'') (str_or_else (dget payload ''candidate_dedupe_key'')
       (ebind (py_list (por (dget payload ''event_ids'') (PList []))) (\<lambda>event_ids.
        candidate_dedupe_key (str_or (dget payload ''semantic_topic'') ''unknown'')
          (str_or (dget payload ''source'') ''unknown'') event_ids))))"

definition prepare_candidate :: "dict \<Rightarrow> env \<Rightarrow> ((dict \<times> string) option \<times> env) result" where
  "prepare_candidate candidate w =
     ebind (governance_field candidate) (\<lambda>governance.
     ebind (if str_or (dget governance ''lifecycle_state'') [] \<in> set [[], ''proposed'']
            then screen_candidate candidate w else Inr (candidate, w)) (\<lambda>(payload, w1).
     ebind (candidate_commit_eligible payload) (\<lambda>eligible.
     if \<not> eligible then Inr (None, w1)
     else ebind (commit_key payload) (\<lambda>key. Inr (Some (payload, key), w1)))))"

type_synonym commit_acc = "string list \<times> string list \<times> db"

definition local_commit_step :: "string \<Rightarrow> commit_acc \<Rightarrow> dict \<Rightarrow> commit_acc result" where
  "local_commit_step execution_span_id acc candidate = (case acc of (ids, keys, s, w) \<Rightarrow>
     ebind (prepare_candidate candidate w) (\<lambda>(prepared, w1).
     case prepared of
       None \<Rightarrow> Inr (ids, keys, s, w1)
     | Some (payload, key) \<Rightarrow>
         if key \<in> set keys then Inr (ids, keys, s, w1)
         else ebind (committed_memory_payload payload ''local_sqlite'' ''auto_commit_local_sqlite'' None None w1)
           (\<lambda>(committed, w2).
           ebind (persist_long_term_memory (s, w2) execution_span_id
              (str_or (dget payload ''semantic_topic'') ''unknown'') committed) (\<lambda>(memory_id, d).
           Inr (ids @ [memory_id], keys @ [key], d)))))"

definition local_commit_candidates :: "string \<Rightarrow> dict list \<Rightarrow> db \<Rightarrow> (string list \<times> db) result" where
  "local_commit_candidates execution_span_id candidates d =
     ebind (efold (local_commit_step execution_span_id) ([], [], d) candidates)
       (\<lambda>(ids, keys, d'). Inr (ids, d'))"

section \<open>The Mem0 sidecar\<close>

record 'c mem0_client =
  cl_search :: "bool \<Rightarrow> string \<Rightarrow> string \<Rightarrow> int \<Rightarrow> 'c \<Rightarrow> (string + pyval) \<times> 'c"
    \<comment> \<open>called with a keyword query, or positionally; query, user id, limit\<close>
  cl_add :: "bool \<Rightarrow> string \<Rightarrow> string \<Rightarrow> dict \<Rightarrow> 'c \<Rightarrow> (string + pyval) \<times> 'c"
    \<comment> \<open>called positionally, or with a keyword message; message, user id, metadata\<close>

record 'c mem0 =
  m0_client :: "'c mem0_client option"
  m0_client_state :: 'c
  m0_user_id :: string
  m0_agent_id :: string
  m0_package_available :: bool
  m0_unavailable_reason :: string
  m0_last_lookup_status :: string
  m0_last_commit_status :: string
  m0_last_sidecar_memory_ids :: "string list"

definition new_mem0 ::
    "'c mem0_client option \<Rightarrow> 'c \<Rightarrow> string \<Rightarrow> string \<Rightarrow> bool option \<Rightarrow> string \<Rightarrow> 'c mem0" where
  "new_mem0 client st user_id agent_id package_available unavailable_reason = \<lparr>
     m0_client = client, m0_client_state = st, m0_user_id = user_id, m0_agent_id = agent_id,
     m0_package_available = (case package_available of None \<Rightarrow> client \<noteq> None | Some b \<Rightarrow> b),
     m0_unavailable_reason = unavailable_reason,
     m0_last_lookup_status = ''not_requested'', m0_last_commit_status = ''not_requested'',
     m0_last_sidecar_memory_ids = [] \<rparr>"

definition mem0_runtime_metadata :: "'c mem0 \<Rightarrow> dict" where
  "mem0_runtime_metadata m = (
     let fallback_active = (m0_client m = None) in [
     (''backend_kind'', PStr ''mem0_sidecar''),
     (''backend_runtime'', PStr ''mem0_with_sqlite_mirror''),
     (''governance_schema_version'', PStr MEMORY_GOVERNANCE_SCHEMA_VERSION),
     (''requires_external_service'', PBool True),
     (''package_available'', PBool (m0_package_available m)),
     (''sidecar_configured'', PBool (m0_client m \<noteq> None)),
     (''fallback_backend'', PStr ''local_sqlite''),
     (''fallback_active'', PBool fallback_active),
     (''unavailable_reason'', PStr (if fallback_active then m0_unavailable_reason m else [])),
     (''user_id'', PStr (m0_user_id m)),
     (''agent_id'', PStr (m0_agent_id m)),
     (''last_lookup_status'', PStr (m0_last_lookup_status m)),
     (''last_commit_status'', PStr (m0_last_commit_status m)),
     (''sidecar_memory_ids'', PList (map PStr (m0_last_sidecar_memory_ids m))),
     (''can_execute_tools_directly'', PBool False)])"

text \<open>The class name of an exception raised by the module itself inside a \<open>try\<close>.\<close>

fun error_class :: "py_error \<Rightarrow> string" where
  "error_class (ValueError _) = ''ValueError''"
| "error_class (TypeError _) = ''TypeError''"
| "error_class (AttributeError _) = ''AttributeError''"
| "error_class (KeyError _) = ''KeyError''"
| "error_class IndexError = ''IndexError''"
| "error_class ZeroDivisionError = ''ZeroDivisionError''"
| "error_class (OverflowError _) = ''OverflowError''"
| "error_class (SqlError _) = ''IntegrityError''"
| "error_class (ExternalError s) = s"
| "error_class (OutOfModel _) = ''Exception''"

text \<open>A call that is repeated in the other calling convention when it raises TypeError.\<close>

definition retry_type_error :: "(bool \<Rightarrow> 'c \<Rightarrow> (string + pyval) \<times> 'c) \<Rightarrow> bool \<Rightarrow> 'c \<Rightarrow> (string + pyval) \<times> 'c" where
  "retry_type_error call keyword st = (case call keyword st of
     (Inl e, st1) \<Rightarrow> if e = ''TypeError'' then call (\<not> keyword) st1 else (Inl e, st1)
   | (Inr v, st1) \<Rightarrow> (Inr v, st1))"

definition search_sidecar :: "'c mem0_client \<Rightarrow> string \<Rightarrow> string \<Rightarrow> 'c \<Rightarrow> (string + pyval) \<times> 'c" where
  "search_sidecar c user_id query st = retry_type_error (\<lambda>kw. cl_search c kw query user_id 5) True st"

definition add_sidecar_memory ::
    "'c mem0_client \<Rightarrow> string \<Rightarrow> string \<Rightarrow> string \<Rightarrow> dict \<Rightarrow> 'c \<Rightarrow> (string + pyval) \<times> 'c" where
  "add_sidecar_memory c user_id agent_id execution_span_id candidate st = (
     let metadata = [
           (''source_execution_span_id'', PStr execution_span_id),
           (''semantic_topic'', dget candidate ''semantic_topic''),
           (''event_ids'', dget_or candidate ''event_ids'' (PList [])),
           (''agent_id'', PStr agent_id)] in
     case external_memory_payload candidate of
       Inl e \<Rightarrow> (Inl (error_class e), st)
     | Inr payload \<Rightarrow> retry_type_error
         (\<lambda>kw. cl_add c kw (json_text '', '' '': '' (PDict payload)) user_id metadata) False st)"

definition normalize_search_results :: "pyval \<Rightarrow> dict list" where
  "normalize_search_results raw_results = (
     let candidate_results = (case raw_results of
           PDict d \<Rightarrow> por (dget d ''results'') (por (dget d ''memories'') (PList [])) | v \<Rightarrow> v) in
     case candidate_results of
       PList items \<Rightarrow> map (\<lambda>item. dsetdefault (case item of PDict d \<Rightarrow> d
           | v \<Rightarrow> [(''memory'', PStr (py_str v))]) ''source'' (PStr ''mem0_sidecar'')) items
     | _ \<Rightarrow> [])"

definition text_id :: "pyval \<Rightarrow> string option" where
  "text_id v = (case v of PStr s \<Rightarrow> if s = [] then None else Some s | _ \<Rightarrow> None)"

definition extract_sidecar_memory_id :: "pyval \<Rightarrow> string option" where
  "extract_sidecar_memory_id result = (case result of
     PDict d \<Rightarrow>
       (case find (\<lambda>k. text_id (dget d k) \<noteq> None) [''id'', ''memory_id'', ''memoryId''] of
          Some k \<Rightarrow> text_id (dget d k)
        | None \<Rightarrow> (case dget d ''results'' of
            PList (PDict first_result # _) \<Rightarrow>
              text_id (por (dget first_result ''id'') (dget first_result ''memory_id''))
          | _ \<Rightarrow> None))
   | _ \<Rightarrow> None)"

definition mem0_lookup :: "'c mem0 \<Rightarrow> store \<Rightarrow> perception_frame \<Rightarrow> (dict list \<times> 'c mem0) result" where
  "mem0_lookup m s frame = ebind (local_lookup s frame) (\<lambda>local_items. Inr (
     case m0_client m of
       None \<Rightarrow> (local_items, m\<lparr> m0_last_lookup_status := ''fallback_local_sqlite'' \<rparr>)
     | Some c \<Rightarrow>
         let joined = str_join '' '' (pf_topics frame);
             query = (if joined = [] then pf_frame_id frame else joined) in
         (case search_sidecar c (m0_user_id m) query (m0_client_state m) of
            (Inl e, st) \<Rightarrow> (local_items, m\<lparr> m0_client_state := st,
               m0_last_lookup_status := ''fallback_local_sqlite_after_'' @ e \<rparr>)
          | (Inr raw, st) \<Rightarrow> (normalize_search_results raw @ local_items, m\<lparr> m0_client_state := st,
               m0_last_lookup_status := ''sidecar_and_local_sqlite'' \<rparr>))))"

definition mem0_propose_candidates :: "'c mem0 \<Rightarrow> perception_frame \<Rightarrow> dict list result" where
  "mem0_propose_candidates m = propose_for_topics ''mem0_sidecar_memory'' (Some ''mem0_sidecar'')
     (Some (m0_user_id m)) (Some (m0_agent_id m))"

text \<open>
  The loop over the candidates with a client: the commit status, the sidecar ids and the
  committed payloads it ends with. An exception of the client ends the loop and clears both lists.
\<close>

fun sidecar_commit_loop ::
    "'c mem0 \<Rightarrow> 'c mem0_client \<Rightarrow> string \<Rightarrow> string list \<times> string list \<times> dict list \<Rightarrow> dict list \<Rightarrow> env \<Rightarrow>
     (string \<times> string list \<times> dict list \<times> 'c mem0 \<times> env) result" where
  "sidecar_commit_loop m c execution_span_id (keys, ids, committed) [] w =
     Inr (''sidecar_and_sqlite_mirror'', ids, committed, m, w)"
| "sidecar_commit_loop m c execution_span_id (keys, ids, committed) (candidate # candidates) w =
     ebind (prepare_candidate candidate w) (\<lambda>(prepared, w1).
     case prepared of
       None \<Rightarrow> sidecar_commit_loop m c execution_span_id (keys, ids, committed) candidates w1
     | Some (payload, key) \<Rightarrow>
         if key \<in> set keys
         then sidecar_commit_loop m c execution_span_id (keys, ids, committed) candidates w1
         else (case add_sidecar_memory c (m0_user_id m) (m0_agent_id m) execution_span_id payload (m0_client_state m) of
            (Inl e, st) \<Rightarrow> Inr (''sqlite_mirror_after_'' @ e, [], [], m\<lparr> m0_client_state := st \<rparr>, w1)
          | (Inr result, st) \<Rightarrow>
              let mid = extract_sidecar_memory_id result in
              ebind (committed_memory_payload payload ''mem0_sidecar'' ''auto_commit_mem0_sidecar'' mid
                  (Some ''sidecar_committed'') w1) (\<lambda>(done, w2).
              sidecar_commit_loop (m\<lparr> m0_client_state := st \<rparr>) c execution_span_id
                (keys @ [key], (case mid of None \<Rightarrow> ids | Some i \<Rightarrow> ids @ [i]), committed @ [done])
                candidates w2)))"

definition fallback_commit_step ::
    "string list \<times> dict list \<times> env \<Rightarrow> dict \<Rightarrow> (string list \<times> dict list \<times> env) result" where
  "fallback_commit_step acc candidate = (case acc of (keys, committed, w) \<Rightarrow>
     ebind (prepare_candidate candidate w) (\<lambda>(prepared, w1).
     case prepared of
       None \<Rightarrow> Inr (keys, committed, w1)
     | Some (payload, key) \<Rightarrow>
         if key \<in> set keys then Inr (keys, committed, w1)
         else ebind (committed_memory_payload payload ''local_sqlite_fallback''
              ''auto_commit_mem0_fallback_local_sqlite'' None (Some ''fallback_local_sqlite'') w1)
           (\<lambda>(done, w2). Inr (keys @ [key], committed @ [done], w2))))"

definition mirrored_candidate :: "string \<Rightarrow> string list \<Rightarrow> dict \<Rightarrow> dict result" where
  "mirrored_candidate status sidecar_memory_ids candidate = (
     let c3 = dset (dset (dset candidate ''memory_backend'' (PStr ''mem0_sidecar''))
           ''sidecar_status'' (PStr status)) ''sidecar_memory_ids'' (PList (map PStr sidecar_memory_ids)) in
     ebind (governance_field c3) (\<lambda>governance.
     Inr (dset c3 ''memory_governance'' (PDict (dset (dset (dset (dset (dset governance
        ''mirror_backend'' (PStr ''local_sqlite''))
        ''mirror_status'' (PStr status))
        ''sqlite_mirror_status'' (PStr status))
        ''sidecar_memory_ids'' (PList (map PStr sidecar_memory_ids)))
        ''fallback_continuity'' (PBool (startswith status ''fallback_'')))))))"

definition mem0_commit_candidates ::
    "'c mem0 \<Rightarrow> string \<Rightarrow> dict list \<Rightarrow> db \<Rightarrow> (string list \<times> 'c mem0 \<times> db) result" where
  "mem0_commit_candidates m execution_span_id candidates d = (case d of (s, w) \<Rightarrow>
     ebind (case m0_client m of
         Some c \<Rightarrow> sidecar_commit_loop m c execution_span_id ([], [], []) candidates w
       | None \<Rightarrow> ebind (efold fallback_commit_step ([], [], w) candidates)
           (\<lambda>(keys, committed, w1). Inr (''fallback_local_sqlite'', [], committed, m, w1)))
       (\<lambda>(status, sidecar_memory_ids, committed, m1, w1).
     ebind (emap (mirrored_candidate status sidecar_memory_ids) committed) (\<lambda>mirrored.
     ebind (local_commit_candidates execution_span_id mirrored (s, w1)) (\<lambda>(ids, d').
     Inr (ids, m1\<lparr> m0_last_commit_status := status, m0_last_sidecar_memory_ids := sidecar_memory_ids \<rparr>, d')))))"

section \<open>Proposed candidates\<close>

text \<open>
  What screening reads of a freshly proposed candidate: topic \<open>t\<close>, priority \<open>p\<close>, dedupe
  key \<open>k\<close>, lifecycle state proposed.
\<close>

definition proposed_governance :: "string \<Rightarrow> dict \<Rightarrow> bool" where
  "proposed_governance k g \<longleftrightarrow> dget g ''lifecycle_state'' = PStr ''proposed''
     \<and> dget g ''dedupe_key'' = PStr k \<and> dget g ''source_fact_refs'' = PList []
     \<and> dget g ''lifecycle_history'' = PList [PStr ''proposed'']
     \<and> dget g ''accepted_at'' = PNone \<and> dget g ''rejected_at'' = PNone \<and> g \<noteq> []"

definition proposed_candidate :: "string \<Rightarrow> int \<Rightarrow> string \<Rightarrow> dict \<Rightarrow> bool" where
  "proposed_candidate t p k c \<longleftrightarrow> dget c ''semantic_topic'' = PStr t \<and> dget c ''priority'' = PInt p
     \<and> dget c ''source_fact_refs'' = PNone \<and> k \<noteq> []
     \<and> (case dget c ''event_ids'' of PList _ \<Rightarrow> True | _ \<Rightarrow> False)
     \<and> (case dget c ''memory_governance'' of PDict g \<Rightarrow> proposed_governance k g | _ \<Rightarrow> False)"

lemma governed_candidate_proposed:
  assumes "governed_candidate t src ids p be u a = Inr c"
  shows "\<exists>k. candidate_dedupe_key t src (map PStr ids) = Inr k \<and> proposed_candidate t p k c
    \<and> (\<exists>x. candidate_confidence p = Inr x)"
proof -
  from assms obtain k x where k: "candidate_dedupe_key t src (map PStr ids) = Inr k"
    "candidate_confidence p = Inr x"
    by (auto simp: governed_candidate_def)
  have "k \<noteq> []" using k(1) by (auto simp: candidate_dedupe_key_def)
  with assms k show ?thesis
    by (auto simp: governed_candidate_def proposed_candidate_def proposed_governance_def Let_def
        split: option.splits)
qed

text \<open>
  The contract of the \<open>LongTermMemory\<close> protocol the workflow relies on: a backend proposes one
  candidate for each topic of the frame, in order, with the priority of the frame, still
  unscreened, under a key that depends on the topic alone.
\<close>

locale long_term_memory =
  fixes propose :: "perception_frame \<Rightarrow> dict list result"
    and key :: "perception_frame \<Rightarrow> string \<Rightarrow> string"
  assumes propose_topics: "propose f = Inr cs \<Longrightarrow>
    list_all2 (\<lambda>t c. proposed_candidate t (pf_highest_priority f) (key f t) c) (pf_topics f) cs
    \<and> (pf_topics f \<noteq> [] \<longrightarrow> (\<exists>x. candidate_confidence (pf_highest_priority f) = Inr x))"
begin

lemma one_per_topic: "propose f = Inr cs \<Longrightarrow> length cs = length (pf_topics f)"
  by (drule propose_topics) (auto dest: list_all2_lengthD)

end

definition topic_key :: "string \<Rightarrow> perception_frame \<Rightarrow> string \<Rightarrow> string" where
  "topic_key src f t = (case candidate_dedupe_key t src (map PStr (pf_event_ids f)) of Inr k \<Rightarrow> k | Inl _ \<Rightarrow> [])"

lemma propose_for_topics_ok:
  assumes "propose_for_topics src be u a f = Inr cs"
  shows "list_all2 (\<lambda>t c. proposed_candidate t (pf_highest_priority f) (topic_key src f t) c) (pf_topics f) cs
    \<and> (pf_topics f \<noteq> [] \<longrightarrow> (\<exists>x. candidate_confidence (pf_highest_priority f) = Inr x))"
proof -
  let ?g = "\<lambda>t c. governed_candidate t src (pf_event_ids f) (pf_highest_priority f) be u a = Inr c"
  have all: "list_all2 ?g (pf_topics f) cs"
    using assms by (simp add: propose_for_topics_def emap_Inr_iff)
  have "proposed_candidate t (pf_highest_priority f) (topic_key src f t) c
      \<and> (\<exists>x. candidate_confidence (pf_highest_priority f) = Inr x)" if "?g t c" for t c
    using governed_candidate_proposed[OF that] by (auto simp: topic_key_def)
  note each = this
  have "list_all2 (\<lambda>t c. proposed_candidate t (pf_highest_priority f) (topic_key src f t) c) (pf_topics f) cs"
    using all by (rule list_all2_mono) (use each in blast)
  moreover have "pf_topics f \<noteq> [] \<longrightarrow> (\<exists>x. candidate_confidence (pf_highest_priority f) = Inr x)"
    using all each by (cases "pf_topics f") (auto simp: list_all2_Cons1)
  ultimately show ?thesis by blast
qed

interpretation fake_memory: long_term_memory fake_propose_candidates "topic_key ''no_model_perception_frame''"
  by unfold_locales (unfold fake_propose_candidates_def, rule propose_for_topics_ok)

interpretation local_memory: long_term_memory local_propose_candidates "topic_key ''local_candidate_backed_memory''"
  by unfold_locales (unfold local_propose_candidates_def, rule propose_for_topics_ok)

interpretation mem0_memory: long_term_memory "mem0_propose_candidates m" "topic_key ''mem0_sidecar_memory''" for m
  by unfold_locales (unfold mem0_propose_candidates_def, rule propose_for_topics_ok)

section \<open>Screening\<close>

definition retained :: "string \<Rightarrow> int \<Rightarrow> bool" where
  "retained t p \<longleftrightarrow> \<not> startswith t ''time.'' \<and> 10 \<le> p"

lemma retention_ephemeral:
  "fst (retention_policy_for_topic t) = ''ephemeral_telemetry'' \<longleftrightarrow> startswith t ''time.''"
proof -
  have "\<not> (startswith t ''time.'' \<and> startswith t ''user.input'')"
    "\<not> (startswith t ''time.'' \<and> startswith t ''unit.callback'')"
    unfolding startswith_prefix by (auto simp: prefix_def)
  then show ?thesis by (auto simp: retention_policy_for_topic_def)
qed

text \<open>The clock is the only part of the environment that screening and stamping use.\<close>

definition clock_only :: "env \<Rightarrow> env \<Rightarrow> bool" where
  "clock_only w w' \<longleftrightarrow> (\<exists>n. w' = w\<lparr> clock_pos := n \<rparr>)"

lemma clock_only_refl [simp]: "clock_only w w"
  unfolding clock_only_def by (rule exI[of _ "clock_pos w"]) simp

lemma clock_only_trans: "clock_only a b \<Longrightarrow> clock_only b c \<Longrightarrow> clock_only a c"
  by (auto simp: clock_only_def)

lemma clock_only_after [simp]: "clock_only w (snd (utc_after_days n w))"
  by (auto simp: clock_only_def utc_after_days_def)

lemma clock_only_after2 [simp]: "clock_only w (snd (utc_after_days n (snd (utc_after_days k w))))"
  by (rule clock_only_trans[OF clock_only_after clock_only_after])

definition screened_state :: "string \<Rightarrow> int \<Rightarrow> string" where
  "screened_state t p = (if retained t p then ''accepted'' else ''rejected'')"

definition screened_governance :: "string \<Rightarrow> int \<Rightarrow> string \<Rightarrow> dict \<Rightarrow> bool" where
  "screened_governance t p k g \<longleftrightarrow> g \<noteq> [] \<and> dget g ''lifecycle_state'' = PStr (screened_state t p)
     \<and> dget g ''commit_eligible'' = PBool (retained t p) \<and> dhas g ''commit_eligible'' \<and> dget g ''dedupe_key'' = PStr k
     \<and> dget g ''retention_class'' = PStr (fst (retention_policy_for_topic t))
     \<and> dget g ''retention_ttl_days'' = PInt (snd (retention_policy_for_topic t))
     \<and> dget g ''lifecycle_history'' = PList [PStr ''proposed'', PStr ''screened'', PStr (screened_state t p)]
     \<and> (case dget g ''source_event_refs'' of PList _ \<Rightarrow> True | _ \<Rightarrow> False) \<and> dget g ''source_fact_refs'' = PList []"

lemma screen_proposed:
  assumes "proposed_candidate t p k c" and "t \<noteq> []" and "candidate_confidence p = Inr x"
  shows "\<exists>c' w' g. screen_candidate c w = Inr (c', w') \<and> clock_only w w'
    \<and> dget c' ''memory_governance'' = PDict g \<and> screened_governance t p k g
    \<and> dget c' ''semantic_topic'' = PStr t \<and> dget c' ''event_ids'' = dget c ''event_ids''"
proof -
  from assms(1) obtain ids g where c: "dget c ''semantic_topic'' = PStr t" "dget c ''priority'' = PInt p"
    "dget c ''event_ids'' = PList ids" "dget c ''memory_governance'' = PDict g" "k \<noteq> []"
    "dget c ''source_fact_refs'' = PNone" and g: "proposed_governance k g"
    by (auto simp: proposed_candidate_def split: pyval.splits)
  obtain rc days where rp: "retention_policy_for_topic t = (rc, days)" by fastforce
  have rc: "rc = ''ephemeral_telemetry'' \<longleftrightarrow> startswith t ''time.''" using retention_ephemeral[of t] rp by simp
  note g' = g[unfolded proposed_governance_def]
  have gf: "governance_field c = Inr g" using c g' by (simp add: governance_field_def)
  have lists: "py_list (por (PList ids) (PList [])) = Inr ids"
    "py_list (por (PList []) (por PNone (PList []))) = Inr []"
    "py_list (por (PList [PStr ''proposed'']) (PList [PStr ''proposed''])) = Inr [PStr ''proposed'']"
    "py_int (por (PInt p) (PInt 0)) = Inr p" by (cases "p = 0"; simp add: por_def)+
  have key: "str_or_else (PStr k) f = Inr k" for f using c(5) by (simp add: str_or_else_def)
  have hist: "history_with s (history_with ''screened'' [PStr ''proposed'']) = [PStr ''proposed'', PStr ''screened'', PStr s]"
    if "s = ''accepted'' \<or> s = ''rejected''" for s using that by (auto simp: history_with_def)
  consider (time) "rc = ''ephemeral_telemetry''" | (low) "rc \<noteq> ''ephemeral_telemetry''" "p < 10"
    | (ok) "rc \<noteq> ''ephemeral_telemetry''" "\<not> p < 10" by blast
  then show ?thesis
  proof cases
    case time
    then have st: "\<not> retained t p" using rc by (simp add: retained_def)
    show ?thesis using c g' rp time st assms(2,3)
      by (auto simp: screen_candidate_def gf lists key hist Let_def split_beta screened_governance_def
          screened_state_def intro: clock_only_trans)
  next
    case low
    then have st: "\<not> retained t p" by (simp add: retained_def)
    show ?thesis using c g' rp low st assms(2,3)
      by (auto simp: screen_candidate_def gf lists key hist Let_def split_beta screened_governance_def
          screened_state_def intro: clock_only_trans)
  next
    case ok
    then have st: "retained t p" using rc by (simp add: retained_def)
    show ?thesis using c g' rp ok st assms(2,3)
      by (auto simp: screen_candidate_def gf lists key hist Let_def split_beta screened_governance_def
          screened_state_def intro: clock_only_trans)
  qed
qed

section \<open>Commits of proposed candidates\<close>

definition screened_payload :: "string \<Rightarrow> int \<Rightarrow> string \<Rightarrow> dict \<Rightarrow> bool" where
  "screened_payload t p k c \<longleftrightarrow> dget c ''semantic_topic'' = PStr t
     \<and> (case dget c ''event_ids'' of PList _ \<Rightarrow> True | _ \<Rightarrow> False)
     \<and> (case dget c ''memory_governance'' of PDict g \<Rightarrow> screened_governance t p k g | _ \<Rightarrow> False)"

lemma prepare_proposed:
  assumes "proposed_candidate t p k c" and "t \<noteq> []" and "candidate_confidence p = Inr x"
  shows "\<exists>w'. clock_only w w' \<and> (if retained t p
    then \<exists>c'. prepare_candidate c w = Inr (Some (c', k), w') \<and> screened_payload t p k c'
    else prepare_candidate c w = Inr (None, w'))"
proof -
  from screen_proposed[OF assms, of w] obtain c' w' g where
    scr: "screen_candidate c w = Inr (c', w')" and w': "clock_only w w'" and
    gov: "dget c' ''memory_governance'' = PDict g" "screened_governance t p k g" and
    rest: "dget c' ''semantic_topic'' = PStr t" "dget c' ''event_ids'' = dget c ''event_ids''" by blast
  from assms(1) obtain g0 where g0: "dget c ''memory_governance'' = PDict g0" "proposed_governance k g0" and k: "k \<noteq> []"
    by (auto simp: proposed_candidate_def split: pyval.splits)
  have f0: "governance_field c = Inr g0"
    using g0 by (simp add: governance_field_def proposed_governance_def)
  have f1: "governance_field c' = Inr g"
    using gov by (simp add: governance_field_def screened_governance_def)
  have state: "str_or (dget g0 ''lifecycle_state'') [] \<in> set [[], ''proposed'']"
    using g0(2) by (simp add: proposed_governance_def)
  have eligible: "candidate_commit_eligible c' = Inr (retained t p)"
    using gov(2) by (auto simp: candidate_commit_eligible_def f1 screened_governance_def screened_state_def
        dget_or_def dget_def dhas_def split: option.splits)
  have key: "commit_key c' = Inr k"
    using gov(2) k by (simp add: commit_key_def f1 screened_governance_def str_or_else_def)
  have pay: "screened_payload t p k c'"
    using assms(1) gov rest by (simp add: screened_payload_def proposed_candidate_def)
  have "prepare_candidate c w = (if retained t p then Inr (Some (c', k), w') else Inr (None, w'))"
    using state by (simp add: prepare_candidate_def f0 scr eligible key)
  with w' pay show ?thesis by (intro exI[of _ w']) auto
qed

lemma committed_screened:
  assumes "screened_payload t p k c"
  shows "\<exists>c' g. committed_memory_payload c be reason ext side w = Inr (c', snd (utc_after_days 0 w))
    \<and> dget c' ''memory_governance'' = PDict g \<and> dget g ''lifecycle_state'' = PStr ''committed''
    \<and> dget c' ''semantic_topic'' = PStr t"
proof -
  from assms obtain g where g: "dget c ''memory_governance'' = PDict g" "screened_governance t p k g"
    by (auto simp: screened_payload_def split: pyval.splits)
  have f: "governance_field c = Inr g" using g by (simp add: governance_field_def screened_governance_def)
  have other_key: "dget (dset_text d k1 o') k2 = dget d k2" if "k1 \<noteq> k2" for d k1 k2 o'
    using that by (simp add: dset_text_def split: option.splits)
  show ?thesis using assms g(2)
    by (simp add: committed_memory_payload_def f Let_def split_beta other_key screened_payload_def
        screened_governance_def)
qed

text \<open>The next \<open>n\<close> identifiers the process draws are different and not in use yet.\<close>

definition drawn_id :: "env \<Rightarrow> nat \<Rightarrow> string" where
  "drawn_id w i = ''memory-'' @ take 12 (uuid_hex w i)"

definition ids_fresh :: "nat \<Rightarrow> store \<Rightarrow> env \<Rightarrow> bool" where
  "ids_fresh n s w \<longleftrightarrow> distinct (map (drawn_id w) [uuid_pos w ..< uuid_pos w + n])
     \<and> set (map (drawn_id w) [uuid_pos w ..< uuid_pos w + n]) \<inter> set (map mr_memory_id (long_term_memories s)) = {}"

lemma drawn_id_pos [simp]: "drawn_id (w\<lparr>clock_pos := c\<rparr>) = drawn_id w"
  "drawn_id (w\<lparr>uuid_pos := u\<rparr>) = drawn_id w"
  by (simp_all add: drawn_id_def fun_eq_iff)

lemma ids_fresh_clock: "clock_only w w' \<Longrightarrow> ids_fresh n s w \<Longrightarrow> ids_fresh n s w'"
  unfolding clock_only_def ids_fresh_def by (elim exE) simp

lemma ids_fresh_first: "ids_fresh (Suc n) s w \<longleftrightarrow>
    drawn_id w (uuid_pos w) \<notin> mr_memory_id ` set (long_term_memories s)
  \<and> drawn_id w (uuid_pos w) \<notin> set (map (drawn_id w) [Suc (uuid_pos w) ..< Suc (uuid_pos w) + n])
  \<and> ids_fresh n s (w\<lparr>uuid_pos := Suc (uuid_pos w)\<rparr>)"
proof -
  have "[uuid_pos w ..< uuid_pos w + Suc n] = uuid_pos w # [Suc (uuid_pos w) ..< Suc (uuid_pos w) + n]"
    by (simp add: upt_conv_Cons del: upt_Suc)
  then show ?thesis unfolding ids_fresh_def by (simp del: upt_Suc) blast
qed

lemma ids_fresh_insert:
  "ids_fresh (Suc n) s w \<Longrightarrow> mr_memory_id r = drawn_id w (uuid_pos w) \<Longrightarrow>
    ids_fresh n (s\<lparr>long_term_memories := long_term_memories s @ [r]\<rparr>) (w\<lparr>uuid_pos := Suc (uuid_pos w), clock_pos := c\<rparr>)"
  unfolding ids_fresh_first by (simp add: ids_fresh_def del: upt_Suc)

lemma ids_fresh_less: "ids_fresh (Suc n) s w \<Longrightarrow> ids_fresh n s w"
  by (simp add: ids_fresh_def)

definition memory_state :: "memory_row \<Rightarrow> pyval" where
  "memory_state r = (case mr_payload r of
     PDict d \<Rightarrow> (case dget d ''memory_governance'' of PDict g \<Rightarrow> dget g ''lifecycle_state'' | _ \<Rightarrow> PNone)
   | _ \<Rightarrow> PNone)"

lemma memory_state_norm:
  assumes "dget c ''memory_governance'' = PDict g" and "dget g ''lifecycle_state'' = PStr st"
  shows "memory_state (r\<lparr> mr_payload := json_norm (PDict c) \<rparr>) = PStr st"
proof -
  obtain e where e: "json_norm (PDict c) = PDict e" "\<And>k. dget e k = json_norm (dget c k)"
    using fetch_governance[OF refl] by blast
  obtain g' where g': "json_norm (PDict g) = PDict g'" "\<And>k. dget g' k = json_norm (dget g k)"
    using fetch_governance[OF refl] by blast
  show ?thesis using e g' assms by (simp add: memory_state_def)
qed

definition committed_row :: "string \<Rightarrow> string \<Rightarrow> memory_row \<Rightarrow> bool" where
  "committed_row execution_span_id t r \<longleftrightarrow> mr_semantic_topic r = t
     \<and> mr_source_execution_span_id r = execution_span_id \<and> memory_state r = PStr ''committed''"

lemma persist_committed:
  assumes "ids_fresh (Suc n) s w" and "dget c ''memory_governance'' = PDict g" and "dget g ''lifecycle_state'' = PStr ''committed''"
  shows "\<exists>r w'. persist_long_term_memory (s, w) i t c =
      Inr (mr_memory_id r, s\<lparr> long_term_memories := long_term_memories s @ [r] \<rparr>, w')
    \<and> committed_row i t r \<and> ids_fresh n (s\<lparr> long_term_memories := long_term_memories s @ [r] \<rparr>) w'"
proof -
  let ?id = "drawn_id w (uuid_pos w)"
  define r where "r = \<lparr> mr_memory_id = ?id, mr_source_execution_span_id = i, mr_semantic_topic = t,
     mr_payload = json_norm (PDict c), mr_created_at = clock_iso w (clock_pos w) 0 \<rparr>"
  let ?w = "w\<lparr> uuid_pos := Suc (uuid_pos w), clock_pos := Suc (clock_pos w) \<rparr>"
  have "persist_long_term_memory (s, w) i t c =
      Inr (mr_memory_id r, s\<lparr> long_term_memories := long_term_memories s @ [r] \<rparr>, ?w)"
    using assms(1)[unfolded ids_fresh_first] by (simp add: drawn_id_def persist_long_term_memory_def new_id_def utc_now_iso_def insert_row_def
        r_def Let_def)
  moreover have "committed_row i t r"
    using memory_state_norm[OF assms(2,3), of r] by (simp add: committed_row_def r_def)
  moreover have "ids_fresh n (s\<lparr> long_term_memories := long_term_memories s @ [r] \<rparr>) ?w"
    by (rule ids_fresh_insert[OF assms(1)]) (simp add: r_def)
  ultimately show ?thesis by blast
qed

lemma local_step_proposed:
  assumes "proposed_candidate t p k c" and "t \<noteq> []" and "candidate_confidence p = Inr x" and "ids_fresh (Suc n) s w"
  shows "\<exists>w'. (if retained t p \<and> k \<notin> set keys
    then \<exists>r. local_commit_step i (ids, keys, s, w) c = Inr (ids @ [mr_memory_id r], keys @ [k],
            s\<lparr> long_term_memories := long_term_memories s @ [r] \<rparr>, w')
        \<and> committed_row i t r \<and> ids_fresh n (s\<lparr> long_term_memories := long_term_memories s @ [r] \<rparr>) w'
    else local_commit_step i (ids, keys, s, w) c = Inr (ids, keys, s, w') \<and> ids_fresh n s w')"
proof -
  from prepare_proposed[OF assms(1-3), of w] obtain w1 where w1: "clock_only w w1" and
    prep: "if retained t p then \<exists>c'. prepare_candidate c w = Inr (Some (c', k), w1) \<and> screened_payload t p k c'
      else prepare_candidate c w = Inr (None, w1)" by blast
  note fresh1 = ids_fresh_clock[OF w1 assms(4)] and less = ids_fresh_less[OF ids_fresh_clock[OF w1 assms(4)]]
  show ?thesis
  proof (cases "retained t p")
    case False
    with prep less show ?thesis by (auto simp: local_commit_step_def)
  next
    case True
    with prep obtain c1 where c1: "prepare_candidate c w = Inr (Some (c1, k), w1)" "screened_payload t p k c1" by auto
    show ?thesis
    proof (cases "k \<in> set keys")
      case True
      with c1 less show ?thesis by (auto simp: local_commit_step_def)
    next
      case new: False
      from committed_screened[OF c1(2)] obtain c2 g where
        c2: "committed_memory_payload c1 ''local_sqlite'' ''auto_commit_local_sqlite'' None None w1 =
          Inr (c2, snd (utc_after_days 0 w1))"
        "dget c2 ''memory_governance'' = PDict g" "dget g ''lifecycle_state'' = PStr ''committed''" by blast
      have "ids_fresh (Suc n) s (snd (utc_after_days 0 w1))" by (rule ids_fresh_clock[OF clock_only_after fresh1])
      from persist_committed[OF this c2(2,3), of i t] obtain r w3 where
        r: "persist_long_term_memory (s, snd (utc_after_days 0 w1)) i t c2 =
            Inr (mr_memory_id r, s\<lparr> long_term_memories := long_term_memories s @ [r] \<rparr>, w3)"
          "committed_row i t r" "ids_fresh n (s\<lparr> long_term_memories := long_term_memories s @ [r] \<rparr>) w3" by blast
      have "str_or (dget c1 ''semantic_topic'') ''unknown'' = t"
        using c1(2) assms(2) by (simp add: screened_payload_def)
      with True new c1(1) c2(1) r show ?thesis
        by (intro exI[of _ w3]) (auto simp: local_commit_step_def)
    qed
  qed
qed

lemma local_fold_proposed:
  assumes "list_all2 (\<lambda>t c. proposed_candidate t p (key t) c) ts cs" and "[] \<notin> set ts"
    and "ts \<noteq> [] \<longrightarrow> (\<exists>x. candidate_confidence p = Inr x)" and "ids_fresh (length ts) s w"
  shows "\<exists>rows keys' w'. efold (local_commit_step i) (ids, keys, s, w) cs
      = Inr (ids @ map mr_memory_id rows, keys', s\<lparr> long_term_memories := long_term_memories s @ rows \<rparr>, w')
    \<and> list_all2 (committed_row i) (first_fresh key (set keys) (filter (\<lambda>t. retained t p) ts)) rows"
  using assms
proof (induction ts cs arbitrary: ids keys s w rule: list_all2_induct)
  case Nil
  have "s\<lparr> long_term_memories := long_term_memories s \<rparr> = s" by simp
  then show ?case by (intro exI[of _ "[]"] exI[of _ keys] exI[of _ w]) simp
next
  case (Cons t ts c cs)
  then obtain x where x: "candidate_confidence p = Inr x" by auto
  have t: "t \<noteq> []" and ts: "[] \<notin> set ts" and conf: "ts \<noteq> [] \<longrightarrow> (\<exists>x. candidate_confidence p = Inr x)"
    using Cons.prems x by auto
  have "ids_fresh (Suc (length ts)) s w" using Cons.prems(3) by simp
  note step = local_step_proposed[OF Cons.hyps(1) t x this, where i = i and ids = ids and keys = keys]
  show ?case
  proof (cases "retained t p \<and> key t \<notin> set keys")
    case True
    with step obtain r w1 where one: "local_commit_step i (ids, keys, s, w) c = Inr (ids @ [mr_memory_id r], keys @ [key t],
        s\<lparr> long_term_memories := long_term_memories s @ [r] \<rparr>, w1)" "committed_row i t r"
      and fresh: "ids_fresh (length ts) (s\<lparr> long_term_memories := long_term_memories s @ [r] \<rparr>) w1" by auto
    from Cons.IH[OF ts conf fresh, of "ids @ [mr_memory_id r]" "keys @ [key t]"] obtain rows keys' w2 where
      rest: "efold (local_commit_step i) (ids @ [mr_memory_id r], keys @ [key t],
          s\<lparr> long_term_memories := long_term_memories s @ [r] \<rparr>, w1) cs
        = Inr ((ids @ [mr_memory_id r]) @ map mr_memory_id rows, keys',
            s\<lparr> long_term_memories := (long_term_memories s @ [r]) @ rows \<rparr>, w2)"
      "list_all2 (committed_row i) (first_fresh key (insert (key t) (set keys)) (filter (\<lambda>t. retained t p) ts)) rows"
      by auto
    show ?thesis using one rest True by (intro exI[of _ "r # rows"]) simp
  next
    case False
    with step obtain w1 where one: "local_commit_step i (ids, keys, s, w) c = Inr (ids, keys, s, w1)"
      and fresh: "ids_fresh (length ts) s w1" by auto
    from Cons.IH[OF ts conf fresh, of ids keys] one False show ?thesis by auto
  qed
qed

text \<open>C25: The local memory pipeline of a workflow run: committing the candidates proposed for a frame
  without empty topics always succeeds on a store in which the identifiers drawn next (as many as there are
  topics) are fresh; it returns the ids of the rows it added, which are appended to the table (nothing else in
  the store changes), and there is exactly one new row, in state committed and for that topic, for
  each topic that is kept (not a time topic, priority at least 10) and whose dedupe key is not that
  of an earlier kept topic of the same frame. What the store holds already makes no difference: a topic
  that was committed by an earlier run is committed again.\<close>

theorem local_pipeline_exact:
  assumes "local_propose_candidates frame = Inr cs" and "[] \<notin> set (pf_topics frame)"
    and "ids_fresh (length (pf_topics frame)) s w"
  shows "\<exists>rows w'. local_commit_candidates span_id cs (s, w)
      = Inr (map mr_memory_id rows, s\<lparr> long_term_memories := long_term_memories s @ rows \<rparr>, w')
    \<and> list_all2 (committed_row span_id)
        (first_fresh (topic_key ''local_candidate_backed_memory'' frame) {}
          (filter (\<lambda>t. retained t (pf_highest_priority frame)) (pf_topics frame))) rows"
proof -
  note pr = local_memory.propose_topics[OF assms(1)]
  from local_fold_proposed[OF conjunct1[OF pr] assms(2) conjunct2[OF pr] assms(3), of span_id "[]" "[]"]
  show ?thesis unfolding local_commit_candidates_def by auto
qed

definition sample_frame :: perception_frame where
  "sample_frame = \<lparr> pf_frame_id = ''frame-1'', pf_event_ids = [''evt-1''], pf_highest_priority = 50,
     pf_topics = [''time.tick'', ''unit.callback''] \<rparr>"

lemma confidence_50: "\<exists>x. candidate_confidence 50 = Inr x"
proof -
  have "fl 50 = Fin 50" by code_simp
  then show ?thesis by (simp add: candidate_confidence_def float_of_int_def Let_def)
qed

lemma sample_proposed: "\<exists>cs. local_propose_candidates sample_frame = Inr cs"
  using confidence_50
  by (auto simp: local_propose_candidates_def propose_for_topics_def sample_frame_def governed_candidate_def
      candidate_dedupe_key_def text_item_def Let_def)

theorem local_pipeline_exact_witness:
  "\<exists>cs r w'. local_propose_candidates sample_frame = Inr cs
    \<and> local_commit_candidates ''span-1'' cs (empty_store, sample_env)
      = Inr ([mr_memory_id r], empty_store\<lparr> long_term_memories := [r] \<rparr>, w')
    \<and> committed_row ''span-1'' ''unit.callback'' r"
proof -
  obtain cs where cs: "local_propose_candidates sample_frame = Inr cs" using sample_proposed by blast
  have topics: "[] \<notin> set (pf_topics sample_frame)" by (simp add: sample_frame_def)
  have "length (pf_topics sample_frame) = 2" by (simp add: sample_frame_def)
  moreover have "ids_fresh 2 empty_store sample_env" by code_simp
  ultimately have fresh: "ids_fresh (length (pf_topics sample_frame)) empty_store sample_env" by simp
  from local_pipeline_exact[OF cs topics fresh, of "''span-1''"] obtain rows w' where
    run: "local_commit_candidates ''span-1'' cs (empty_store, sample_env)
      = Inr (map mr_memory_id rows, empty_store\<lparr> long_term_memories := rows \<rparr>, w')"
    and rows: "list_all2 (committed_row ''span-1'')
        (first_fresh (topic_key ''local_candidate_backed_memory'' sample_frame) {}
          (filter (\<lambda>t. retained t (pf_highest_priority sample_frame)) (pf_topics sample_frame))) rows"
    by (auto simp: empty_store_def)
  have "filter (\<lambda>t. retained t (pf_highest_priority sample_frame)) (pf_topics sample_frame) = [''unit.callback'']"
    by (simp add: sample_frame_def retained_def startswith_def)
  with rows have "list_all2 (committed_row ''span-1'') [''unit.callback''] rows" by simp
  then obtain r where "rows = [r]" "committed_row ''span-1'' ''unit.callback'' r"
    by (auto simp: list_all2_Cons1)
  with cs run show ?thesis by auto
qed

section \<open>Screening and the sidecar on proposed candidates\<close>

lemma screen_all_proposed:
  assumes "list_all2 (\<lambda>t c. proposed_candidate t p (key t) c) ts cs" and "[] \<notin> set ts"
    and "ts \<noteq> [] \<longrightarrow> (\<exists>x. candidate_confidence p = Inr x)"
  shows "\<exists>cs' w'. screen_candidates cs w = Inr (cs', w') \<and> clock_only w w'
    \<and> list_all2 (\<lambda>t c. screened_payload t p (key t) c) ts cs'"
  using assms
proof (induction ts cs arbitrary: w rule: list_all2_induct)
  case Nil
  then show ?case by simp
next
  case (Cons t ts c cs)
  then obtain x where x: "candidate_confidence p = Inr x" by auto
  have t: "t \<noteq> []" using Cons.prems by auto
  from screen_proposed[OF Cons.hyps(1) t x, of w] obtain c' w1 g where
    one: "screen_candidate c w = Inr (c', w1)" "clock_only w w1"
    and c': "dget c' ''memory_governance'' = PDict g" "screened_governance t p (key t) g"
      "dget c' ''semantic_topic'' = PStr t" "dget c' ''event_ids'' = dget c ''event_ids''" by blast
  have pay: "screened_payload t p (key t) c'"
    using Cons.hyps(1) c' by (simp add: screened_payload_def proposed_candidate_def)
  from Cons.IH[of w1] Cons.prems x obtain cs' w2 where
    "screen_candidates cs w1 = Inr (cs', w2)" "clock_only w1 w2"
    "list_all2 (\<lambda>t c. screened_payload t p (key t) c) ts cs'" by auto
  with one pay show ?case by (auto intro: clock_only_trans)
qed

text \<open>Screening the candidates the local backend proposed for a frame without empty topics
  always succeeds, keeps their order and topics, and accepts exactly those whose topic is not a time
  topic and whose frame priority is at least 10: an accepted candidate has lifecycle state
  accepted and is commit eligible, any other one is rejected and is not, and every one records the
  history proposed, screened, decision and the retention class and days of its topic.\<close>

theorem screening_exact:
  assumes "local_propose_candidates frame = Inr cs" and "[] \<notin> set (pf_topics frame)"
  shows "\<exists>cs' w'. screen_candidates cs w = Inr (cs', w')
    \<and> list_all2 (\<lambda>t c. screened_payload t (pf_highest_priority frame)
          (topic_key ''local_candidate_backed_memory'' frame t) c) (pf_topics frame) cs'"
proof -
  note pr = local_memory.propose_topics[OF assms(1)]
  from screen_all_proposed[OF conjunct1[OF pr] assms(2) conjunct2[OF pr], of w] show ?thesis by blast
qed

theorem screening_exact_witness:
  "\<exists>cs c1 c2 w'. local_propose_candidates sample_frame = Inr cs
    \<and> screen_candidates cs sample_env = Inr ([c1, c2], w')
    \<and> (\<exists>k. screened_payload ''time.tick'' 50 k c1) \<and> (\<exists>k. screened_payload ''unit.callback'' 50 k c2)"
proof -
  obtain cs where cs: "local_propose_candidates sample_frame = Inr cs" using sample_proposed by blast
  have "[] \<notin> set (pf_topics sample_frame)" by (simp add: sample_frame_def)
  from screening_exact[OF cs this, of sample_env] cs show ?thesis
    by (auto simp: sample_frame_def list_all2_Cons1)
qed

text \<open>A client whose \<open>add\<close> always raises the exception class \<open>e\<close>, in both calling conventions.\<close>

definition add_raises :: "'c mem0_client \<Rightarrow> string \<Rightarrow> bool" where
  "add_raises c e \<longleftrightarrow> (\<forall>kw a b d st. fst (cl_add c kw a b d st) = Inl e)"

lemma add_sidecar_raises:
  assumes "screened_payload t p k c'" and "add_raises c e"
  shows "fst (add_sidecar_memory c u a i c' st) = Inl e"
proof -
  from assms(1) obtain g where g: "dget c' ''memory_governance'' = PDict g" "screened_governance t p k g"
    by (auto simp: screened_payload_def split: pyval.splits)
  then have "governance_field c' = Inr g" by (simp add: governance_field_def screened_governance_def)
  moreover have "py_list (por (PList xs) (PList [])) = Inr xs" for xs by (cases xs) (simp_all add: por_def)
  ultimately have "\<exists>payload. external_memory_payload c' = Inr payload"
    using assms(1) g by (auto simp: external_memory_payload_def screened_payload_def screened_governance_def
        split: pyval.splits)
  with assms(2) show ?thesis
    by (auto simp: add_sidecar_memory_def retry_type_error_def add_raises_def Let_def prod_eq_iff
        split: prod.splits sum.splits)
qed

lemma sidecar_loop_raises:
  assumes "list_all2 (\<lambda>t c. proposed_candidate t p (key t) c) ts cs" and "[] \<notin> set ts"
    and "ts \<noteq> [] \<longrightarrow> (\<exists>x. candidate_confidence p = Inr x)" and "\<exists>t \<in> set ts. retained t p" and "add_raises c e"
  shows "\<exists>m' w'. sidecar_commit_loop m c i ([], [], []) cs w = Inr (''sqlite_mirror_after_'' @ e, [], [], m', w')
    \<and> clock_only w w'"
  using assms
proof (induction ts cs arbitrary: w rule: list_all2_induct)
  case Nil
  then show ?case by simp
next
  case (Cons t ts c' cs)
  then obtain x where x: "candidate_confidence p = Inr x" by auto
  have t: "t \<noteq> []" using Cons.prems by auto
  from prepare_proposed[OF Cons.hyps(1) t x, of w] obtain w1 where w1: "clock_only w w1" and
    prep: "if retained t p then \<exists>d. prepare_candidate c' w = Inr (Some (d, key t), w1) \<and> screened_payload t p (key t) d
      else prepare_candidate c' w = Inr (None, w1)" by blast
  show ?case
  proof (cases "retained t p")
    case True
    with prep obtain d where d: "prepare_candidate c' w = Inr (Some (d, key t), w1)" "screened_payload t p (key t) d" by auto
    obtain st where "add_sidecar_memory c (m0_user_id m) (m0_agent_id m) i d (m0_client_state m) = (Inl e, st)"
      using add_sidecar_raises[OF d(2) Cons.prems(4)] by (metis prod.collapse)
    with d(1) w1 show ?thesis by auto
  next
    case False
    with prep have prep': "prepare_candidate c' w = Inr (None, w1)" by simp
    have "\<exists>t \<in> set ts. retained t p" using False Cons.prems(3) by auto
    with Cons.IH[of w1] Cons.prems x obtain m' w' where
      "sidecar_commit_loop m c i ([], [], []) cs w1 = Inr (''sqlite_mirror_after_'' @ e, [], [], m', w')" "clock_only w1 w'"
      by auto
    with prep' w1 show ?thesis by (auto intro: clock_only_trans)
  qed
qed

text \<open>When the Mem0 client's \<open>add\<close> raises (any exception class, in both calling conventions) and
  the frame has a topic that is kept, committing the proposed candidates stores nothing, neither in
  the sidecar nor in the local database: the commit returns no ids and leaves the store as it was,
  although it reports the status \<open>sqlite_mirror_after_<class>\<close>.\<close>

theorem sidecar_failure_loses_memories:
  assumes "mem0_propose_candidates m frame = Inr cs" and "[] \<notin> set (pf_topics frame)"
    and "\<exists>t \<in> set (pf_topics frame). retained t (pf_highest_priority frame)"
    and "m0_client m = Some c" and "add_raises c e"
  shows "\<exists>m' w'. mem0_commit_candidates m span_id cs (s, w) = Inr ([], m', s, w')
    \<and> m0_last_commit_status m' = ''sqlite_mirror_after_'' @ e \<and> m0_last_sidecar_memory_ids m' = []"
proof -
  note pr = mem0_memory.propose_topics[OF assms(1)]
  from sidecar_loop_raises[OF conjunct1[OF pr] assms(2) conjunct2[OF pr] assms(3,5), of m span_id w]
  show ?thesis using assms(4) by (auto simp: mem0_commit_candidates_def local_commit_candidates_def)
qed

definition offline_client :: "unit mem0_client" where
  "offline_client = \<lparr> cl_search = (\<lambda>kw q u n st. (Inl ''ConnectionError'', st)),
     cl_add = (\<lambda>kw m u d st. (Inl ''ConnectionError'', st)) \<rparr>"

definition offline_mem0 :: "unit mem0" where
  "offline_mem0 = new_mem0 (Some offline_client) () ''local-user'' ''neurolink-core'' None []"

theorem sidecar_failure_loses_memories_witness:
  "\<exists>cs m' w'. mem0_propose_candidates offline_mem0 sample_frame = Inr cs
    \<and> mem0_commit_candidates offline_mem0 ''span-1'' cs (empty_store, sample_env) = Inr ([], m', empty_store, w')
    \<and> m0_last_commit_status m' = ''sqlite_mirror_after_ConnectionError''"
proof -
  obtain cs where cs: "mem0_propose_candidates offline_mem0 sample_frame = Inr cs"
    using confidence_50
    by (auto simp: mem0_propose_candidates_def propose_for_topics_def sample_frame_def governed_candidate_def
      candidate_dedupe_key_def text_item_def Let_def)
  have kept: "[] \<notin> set (pf_topics sample_frame)"
    "\<exists>t \<in> set (pf_topics sample_frame). retained t (pf_highest_priority sample_frame)"
    by (simp_all add: sample_frame_def retained_def startswith_def)
  have client: "m0_client offline_mem0 = Some offline_client" "add_raises offline_client ''ConnectionError''"
    by (simp_all add: offline_mem0_def new_mem0_def add_raises_def offline_client_def)
  from sidecar_failure_loses_memories[OF cs kept client, of "''span-1''" empty_store sample_env] cs
  show ?thesis by auto
qed

end
