(* ===== verification/Tools.thy ===== *)
theory Tools
  imports Policy Common
begin

text \<open>
  \<open>neurolink_core/tools.py\<close>: results of tool calls, state-sync snapshots, the manifest and
  the execution of the fake Unit adapter the no-model slice runs on, and the classification of
  the health of an activation. The contract record itself is in \<open>Policy\<close>. An adapter is a
  function from a tool name and arguments to a result; the adapters that start processes
  (\<open>NeuroCliToolAdapter\<close>) are arguments of the definitions that call one.
\<close>

section \<open>Results and snapshots\<close>

definition TOOL_MANIFEST_SCHEMA_VERSION :: string where
  "TOOL_MANIFEST_SCHEMA_VERSION = ''1.2.0-tool-manifest-v1''"

definition STATE_SYNC_SCHEMA_VERSION :: string where
  "STATE_SYNC_SCHEMA_VERSION = ''1.2.0-state-sync-v1''"

definition ACTIVATION_HEALTH_SCHEMA_VERSION :: string where
  "ACTIVATION_HEALTH_SCHEMA_VERSION = ''1.2.3-activation-health-v1''"

definition APP_CONTROL_TOOL_ACTIONS :: "(string \<times> string) list" where
  "APP_CONTROL_TOOL_ACTIONS = [
     (''system_start_app'', ''start''), (''system_stop_app'', ''stop''), (''system_unload_app'', ''unload'')]"

record ToolExecutionResult =
  te_tool_result_id :: string
  te_tool_name :: string
  te_status :: string
  te_payload :: dict

definition ToolExecutionResult_to_dict :: "ToolExecutionResult \<Rightarrow> dict" where
  "ToolExecutionResult_to_dict r = [
     (''tool_result_id'', PStr (te_tool_result_id r)),
     (''tool_name'', PStr (te_tool_name r)),
     (''status'', PStr (te_status r)),
     (''payload'', PDict (te_payload r))]"

record StateSyncSurface =
  sy_ok :: bool
  sy_status :: string
  sy_payload :: dict
  sy_attempt :: int
  sy_max_attempts :: int
  sy_retried :: bool
  sy_failure_status :: string

text \<open>A surface with the default values of the class.\<close>

definition new_StateSyncSurface :: "bool \<Rightarrow> string \<Rightarrow> dict \<Rightarrow> StateSyncSurface" where
  "new_StateSyncSurface ok status payload = \<lparr> sy_ok = ok, sy_status = status, sy_payload = payload,
     sy_attempt = 1, sy_max_attempts = 1, sy_retried = False, sy_failure_status = [] \<rparr>"

definition StateSyncSurface_from_dict :: "dict \<Rightarrow> StateSyncSurface result" where
  "StateSyncSurface_from_dict payload =
     ebind (py_dict (por (dget payload ''payload'') (PDict []))) (\<lambda>inner.
     ebind (py_int (dget_or payload ''attempt'' (PInt 1))) (\<lambda>attempt.
     ebind (py_int (dget_or payload ''max_attempts'' (PInt 1))) (\<lambda>max_attempts.
     Inr \<lparr> sy_ok = truthy (dget_or payload ''ok'' (PBool False)),
           sy_status = str_or (dget payload ''status'') ''unknown'',
           sy_payload = inner,
           sy_attempt = attempt,
           sy_max_attempts = max_attempts,
           sy_retried = truthy (dget_or payload ''retried'' (PBool False)),
           sy_failure_status = str_or (dget payload ''failure_status'') [] \<rparr>)))"

definition StateSyncSurface_to_dict :: "StateSyncSurface \<Rightarrow> dict" where
  "StateSyncSurface_to_dict s = [
     (''ok'', PBool (sy_ok s)),
     (''status'', PStr (sy_status s)),
     (''payload'', PDict (sy_payload s)),
     (''attempt'', PInt (sy_attempt s)),
     (''max_attempts'', PInt (sy_max_attempts s)),
     (''retried'', PBool (sy_retried s)),
     (''failure_status'', PStr (sy_failure_status s))]"

record StateSyncSnapshot =
  sn_status :: string
  sn_state :: "(string \<times> StateSyncSurface) list"
  sn_recommended_next_actions :: "string list"
  sn_schema_version :: string

definition StateSyncSnapshot_from_dict :: "dict \<Rightarrow> StateSyncSnapshot result" where
  "StateSyncSnapshot_from_dict payload =
     ebind (py_dict (por (dget payload ''state'') (PDict []))) (\<lambda>state_payload.
     ebind (emap (\<lambda>(name, surface_payload). ebind (py_dict surface_payload) (\<lambda>d.
        ebind (StateSyncSurface_from_dict d) (\<lambda>s. Inr (name, s)))) state_payload) (\<lambda>state.
     ebind (str_items (por (dget payload ''recommended_next_actions'') (PTuple []))) (\<lambda>actions.
     Inr \<lparr> sn_status = str_or (dget payload ''status'') ''unknown'',
           sn_state = state,
           sn_recommended_next_actions = actions,
           sn_schema_version = str_or (dget payload ''schema_version'') STATE_SYNC_SCHEMA_VERSION \<rparr>)))"

definition StateSyncSnapshot_to_dict :: "StateSyncSnapshot \<Rightarrow> dict" where
  "StateSyncSnapshot_to_dict s = [
     (''ok'', PBool (sn_status s = ''ok'')),
     (''status'', PStr (sn_status s)),
     (''schema_version'', PStr (sn_schema_version s)),
     (''state'', PDict (map (\<lambda>(name, surface). (name, PDict (StateSyncSurface_to_dict surface))) (sn_state s))),
     (''recommended_next_actions'', PList (map PStr (sn_recommended_next_actions s)))]"

definition surface_ok :: "StateSyncSurface \<Rightarrow> bool" where
  "surface_ok s \<longleftrightarrow> sy_status s \<noteq> []"

definition snapshot_ok :: "StateSyncSnapshot \<Rightarrow> bool" where
  "snapshot_ok s \<longleftrightarrow> sn_status s \<noteq> [] \<and> sn_schema_version s \<noteq> [] \<and> list_all (\<lambda>x. surface_ok (snd x)) (sn_state s)"

interpretation surface_codec: dict_codec StateSyncSurface_to_dict StateSyncSurface_from_dict surface_ok
proof
  fix s assume "surface_ok s"
  then show "StateSyncSurface_from_dict (StateSyncSurface_to_dict s) = Inr s"
    by (cases "sy_payload s = []")
      (simp_all add: StateSyncSurface_from_dict_def StateSyncSurface_to_dict_def surface_ok_def)
qed

interpretation snapshot_codec: dict_codec StateSyncSnapshot_to_dict StateSyncSnapshot_from_dict snapshot_ok
proof
  fix s assume ok: "snapshot_ok s"
  let ?enc = "map (\<lambda>(name, surface). (name, PDict (StateSyncSurface_to_dict surface))) (sn_state s)"
  have "emap (\<lambda>(name, surface_payload). ebind (py_dict surface_payload) (\<lambda>d.
        ebind (StateSyncSurface_from_dict d) (\<lambda>s. Inr (name, s)))) ?enc = Inr (map id (sn_state s))"
    unfolding emap_map using ok
    by (intro emap_total) (auto simp: snapshot_ok_def list_all_iff surface_codec.decode_encode)
  then have state: "emap (\<lambda>(name, surface_payload). ebind (py_dict surface_payload) (\<lambda>d.
        ebind (StateSyncSurface_from_dict d) (\<lambda>s. Inr (name, s)))) ?enc = Inr (sn_state s)" by simp
  have "py_dict (por (PDict ?enc) (PDict [])) = Inr ?enc" by (cases ?enc) simp_all
  with state ok show "StateSyncSnapshot_from_dict (StateSyncSnapshot_to_dict s) = Inr s"
    by (simp add: StateSyncSnapshot_from_dict_def StateSyncSnapshot_to_dict_def snapshot_ok_def str_items_def comp_def)
qed

section \<open>The fake Unit adapter\<close>

definition contract_system_query_device :: ToolContract where
  "contract_system_query_device = \<lparr> tc_tool_name = ''system_query_device'',
     tc_description = ''Read current Unit device/network state through the query plane.'',
     tc_side_effect_level = level_value READ_ONLY,
     tc_argv_template = [''python'', ''neuro_cli/scripts/invoke_neuro_cli.py'', ''query'', ''device'', ''--output'', ''json''],
     tc_resource = ''device query plane'',
     tc_required_arguments = [''--node''],
     tc_required_resources = [],
     tc_timeout_seconds = 10, tc_retryable = True, tc_approval_required = False,
     tc_cleanup_hint = PNone,
     tc_output_contract = [(''format'', PStr ''json''),
        (''top_level_ok'', PBool True),
        (''failure_statuses'', PList [PStr ''no_reply'', PStr ''query_failed'', PStr ''error_reply'', PStr ''parse_failed''])] \<rparr>"

definition contract_system_query_apps :: ToolContract where
  "contract_system_query_apps = \<lparr> tc_tool_name = ''system_query_apps'',
     tc_description = ''Read current Unit application lifecycle state through the query plane.'',
     tc_side_effect_level = level_value READ_ONLY,
     tc_argv_template = [''python'', ''neuro_cli/scripts/invoke_neuro_cli.py'', ''query'', ''apps'', ''--output'', ''json''],
     tc_resource = ''app query plane'',
     tc_required_arguments = [''--node''],
     tc_required_resources = [],
     tc_timeout_seconds = 10, tc_retryable = True, tc_approval_required = False,
     tc_cleanup_hint = PNone,
     tc_output_contract = [(''format'', PStr ''json''),
        (''top_level_ok'', PBool True),
        (''failure_statuses'', PList [PStr ''no_reply'', PStr ''query_failed'', PStr ''error_reply'', PStr ''parse_failed''])] \<rparr>"

definition contract_system_query_leases :: ToolContract where
  "contract_system_query_leases = \<lparr> tc_tool_name = ''system_query_leases'',
     tc_description = ''Read current active leases before any side-effecting action.'',
     tc_side_effect_level = level_value READ_ONLY,
     tc_argv_template = [''python'', ''neuro_cli/scripts/invoke_neuro_cli.py'', ''query'', ''leases'', ''--output'', ''json''],
     tc_resource = ''lease query plane'',
     tc_required_arguments = [''--node''],
     tc_required_resources = [],
     tc_timeout_seconds = 10, tc_retryable = True, tc_approval_required = False,
     tc_cleanup_hint = PNone,
     tc_output_contract = [(''format'', PStr ''json''),
        (''top_level_ok'', PBool True),
        (''failure_statuses'', PList [PStr ''no_reply'', PStr ''query_failed'', PStr ''error_reply'', PStr ''parse_failed''])] \<rparr>"

definition contract_system_state_sync :: ToolContract where
  "contract_system_state_sync = \<lparr> tc_tool_name = ''system_state_sync'',
     tc_description = ''Aggregate device, apps, leases, protocol, and agent runtime metadata into one read-only sync snapshot.'',
     tc_side_effect_level = level_value READ_ONLY,
     tc_argv_template = [''python'', ''neuro_cli/scripts/invoke_neuro_cli.py'', ''system'', ''state-sync'', ''--output'', ''json''],
     tc_resource = ''state sync aggregate'',
     tc_required_arguments = [''--node''],
     tc_required_resources = [],
     tc_timeout_seconds = 10, tc_retryable = True, tc_approval_required = False,
     tc_cleanup_hint = PStr ''review active leases before side-effecting commands'',
     tc_output_contract = [(''format'', PStr ''json''),
        (''top_level_ok'', PBool True),
        (''failure_statuses'', PList [PStr ''partial_failure'', PStr ''no_reply'', PStr ''query_failed'', PStr ''error_reply'', PStr ''parse_failed''])] \<rparr>"

definition contract_system_activation_health_guard :: ToolContract where
  "contract_system_activation_health_guard = \<lparr> tc_tool_name = ''system_activation_health_guard'',
     tc_description = ''Classify post-activation health from read-only state sync evidence before any recovery action.'',
     tc_side_effect_level = level_value READ_ONLY,
     tc_argv_template = [''python'', ''neuro_cli/scripts/invoke_neuro_cli.py'', ''system'', ''state-sync'', ''--output'', ''json''],
     tc_resource = ''post-activation health observation'',
     tc_required_arguments = [''--node'', ''--app-id''],
     tc_required_resources = [],
     tc_timeout_seconds = 10, tc_retryable = True, tc_approval_required = False,
     tc_cleanup_hint = PStr ''treat rollback as an operator decision after reviewing health evidence'',
     tc_output_contract = [(''format'', PStr ''json''),
        (''top_level_ok'', PBool True),
        (''classification_statuses'', PList [PStr ''healthy'', PStr ''degraded'', PStr ''no_reply'', PStr ''rollback_required''])] \<rparr>"

definition contract_system_rollback_app :: ToolContract where
  "contract_system_rollback_app = \<lparr> tc_tool_name = ''system_rollback_app'',
     tc_description = ''Rollback a staged app update after explicit operator approval.'',
     tc_side_effect_level = level_value APPROVAL_REQUIRED,
     tc_argv_template = [''python'', ''neuro_cli/scripts/invoke_neuro_cli.py'', ''deploy'', ''rollback'', ''--output'', ''json''],
     tc_resource = ''neuro/<node>/update/app/<app-id>/rollback'',
     tc_required_arguments = [''--node'', ''--app-id'', ''--lease-id''],
     tc_required_resources = [''update_rollback_lease''],
     tc_timeout_seconds = 15, tc_retryable = False, tc_approval_required = True,
     tc_cleanup_hint = PStr ''confirm rollback evidence, lease ownership, and target app identity before resume'',
     tc_output_contract = [(''format'', PStr ''json''),
        (''top_level_ok'', PBool True),
        (''failure_statuses'', PList [PStr ''approval_required'', PStr ''lease_missing'', PStr ''control_failed'', PStr ''parse_failed''])] \<rparr>"

definition contract_system_capabilities :: ToolContract where
  "contract_system_capabilities = \<lparr> tc_tool_name = ''system_capabilities'',
     tc_description = ''Read stable Neuro CLI protocol, workflow, and agent runtime metadata.'',
     tc_side_effect_level = level_value OBSERVE_ONLY,
     tc_argv_template = [''python'', ''neuro_cli/scripts/invoke_neuro_cli.py'', ''system'', ''capabilities'', ''--output'', ''json''],
     tc_resource = ''capability map'',
     tc_required_arguments = [],
     tc_required_resources = [],
     tc_timeout_seconds = 5, tc_retryable = False, tc_approval_required = False,
     tc_cleanup_hint = PNone,
     tc_output_contract = [(''format'', PStr ''json''),
        (''top_level_ok'', PBool True),
        (''failure_statuses'', PList [PStr ''parse_failed''])] \<rparr>"

definition contract_system_restart_app :: ToolContract where
  "contract_system_restart_app = \<lparr> tc_tool_name = ''system_restart_app'',
     tc_description = ''Restart a Unit application through the control plane after explicit approval.'',
     tc_side_effect_level = level_value APPROVAL_REQUIRED,
     tc_argv_template = [''python'', ''neuro_cli/scripts/invoke_neuro_cli.py'', ''control'', ''app-restart'', ''--output'', ''json''],
     tc_resource = ''app control plane'',
     tc_required_arguments = [''--node'', ''--app''],
     tc_required_resources = [''app_control_lease''],
     tc_timeout_seconds = 15, tc_retryable = False, tc_approval_required = True,
     tc_cleanup_hint = PStr ''confirm target app identity and active leases before restart'',
     tc_output_contract = [(''format'', PStr ''json''),
        (''top_level_ok'', PBool True),
        (''failure_statuses'', PList [PStr ''approval_required'', PStr ''lease_missing'', PStr ''control_failed'', PStr ''parse_failed''])] \<rparr>"

definition contract_system_start_app :: ToolContract where
  "contract_system_start_app = \<lparr> tc_tool_name = ''system_start_app'',
     tc_description = ''Start a Unit application through the control plane after explicit approval.'',
     tc_side_effect_level = level_value APPROVAL_REQUIRED,
     tc_argv_template = [''python'', ''neuro_cli/scripts/invoke_neuro_cli.py'', ''app'', ''start'', ''--output'', ''json''],
     tc_resource = ''app control plane'',
     tc_required_arguments = [''--node'', ''--app-id'', ''--lease-id''],
     tc_required_resources = [''app_control_lease''],
     tc_timeout_seconds = 15, tc_retryable = False, tc_approval_required = True,
     tc_cleanup_hint = PStr ''confirm target app identity and active leases before start'',
     tc_output_contract = [(''format'', PStr ''json''),
        (''top_level_ok'', PBool True),
        (''failure_statuses'', PList [PStr ''approval_required'', PStr ''lease_missing'', PStr ''control_failed'', PStr ''parse_failed''])] \<rparr>"

definition contract_system_stop_app :: ToolContract where
  "contract_system_stop_app = \<lparr> tc_tool_name = ''system_stop_app'',
     tc_description = ''Stop a Unit application through the control plane after explicit approval.'',
     tc_side_effect_level = level_value APPROVAL_REQUIRED,
     tc_argv_template = [''python'', ''neuro_cli/scripts/invoke_neuro_cli.py'', ''app'', ''stop'', ''--output'', ''json''],
     tc_resource = ''app control plane'',
     tc_required_arguments = [''--node'', ''--app-id'', ''--lease-id''],
     tc_required_resources = [''app_control_lease''],
     tc_timeout_seconds = 15, tc_retryable = False, tc_approval_required = True,
     tc_cleanup_hint = PStr ''confirm target app identity and active leases before stop'',
     tc_output_contract = [(''format'', PStr ''json''),
        (''top_level_ok'', PBool True),
        (''failure_statuses'', PList [PStr ''approval_required'', PStr ''lease_missing'', PStr ''control_failed'', PStr ''parse_failed''])] \<rparr>"

definition contract_system_unload_app :: ToolContract where
  "contract_system_unload_app = \<lparr> tc_tool_name = ''system_unload_app'',
     tc_description = ''Unload a Unit application through the control plane after explicit approval.'',
     tc_side_effect_level = level_value APPROVAL_REQUIRED,
     tc_argv_template = [''python'', ''neuro_cli/scripts/invoke_neuro_cli.py'', ''app'', ''unload'', ''--output'', ''json''],
     tc_resource = ''app control plane'',
     tc_required_arguments = [''--node'', ''--app-id'', ''--lease-id''],
     tc_required_resources = [''app_control_lease''],
     tc_timeout_seconds = 15, tc_retryable = False, tc_approval_required = True,
     tc_cleanup_hint = PStr ''confirm target app identity and active leases before unload'',
     tc_output_contract = [(''format'', PStr ''json''),
        (''top_level_ok'', PBool True),
        (''failure_statuses'', PList [PStr ''approval_required'', PStr ''lease_missing'', PStr ''control_failed'', PStr ''parse_failed''])] \<rparr>"

definition tool_manifest :: "ToolContract list" where
  "tool_manifest = [contract_system_query_device,
     contract_system_query_apps,
     contract_system_query_leases,
     contract_system_state_sync,
     contract_system_activation_health_guard,
     contract_system_rollback_app,
     contract_system_capabilities,
     contract_system_restart_app,
     contract_system_start_app,
     contract_system_stop_app,
     contract_system_unload_app]"

lemmas contract_defs = contract_system_query_device_def contract_system_query_apps_def contract_system_query_leases_def contract_system_state_sync_def contract_system_activation_health_guard_def contract_system_rollback_app_def contract_system_capabilities_def contract_system_restart_app_def contract_system_start_app_def contract_system_stop_app_def contract_system_unload_app_def

definition tool_manifest_payload :: dict where
  "tool_manifest_payload = [
     (''ok'', PBool True),
     (''status'', PStr ''ok''),
     (''schema_version'', PStr TOOL_MANIFEST_SCHEMA_VERSION),
     (''tools'', PList (map (\<lambda>c. PDict (ToolContract_to_dict c)) tool_manifest))]"

definition parse_tool_manifest_payload :: "dict \<Rightarrow> ToolContract list result" where
  "parse_tool_manifest_payload payload =
     ebind (py_list (por (dget payload ''tools'') (PTuple []))) (\<lambda>items.
     emap (\<lambda>item. ebind (py_dict item) ToolContract_from_dict) items)"

definition describe_tool :: "string \<Rightarrow> ToolContract option" where
  "describe_tool tool_name = find (\<lambda>c. tc_tool_name c = tool_name) tool_manifest"

text \<open>\<open>str(args.get("app_id") or args.get("app") or d)\<close>.\<close>

definition app_arg :: "string \<Rightarrow> dict \<Rightarrow> string" where
  "app_arg d args = str_or (por (dget args ''app_id'') (dget args ''app'')) d"

definition event_ids_arg :: "dict \<Rightarrow> pyval list result" where
  "event_ids_arg args = py_list (por (dget args ''event_ids'') (PList []))"

definition build_state_sync_snapshot :: "dict \<Rightarrow> StateSyncSnapshot result" where
  "build_state_sync_snapshot args = ebind (event_ids_arg args) (\<lambda>event_ids.
     let target_app_id = app_arg [] args;
         apps = (if target_app_id = [] then [] else [PDict [
           (''app_id'', PStr target_app_id), (''state'', PStr ''running''), (''status'', PStr ''active'')]]) in
     Inr \<lparr> sn_status = ''ok'',
       sn_state = [
         (''device'', new_StateSyncSurface True ''ok'' [
            (''status'', PStr ''ok''), (''network_state'', PStr ''NETWORK_READY''), (''ipv4'', PStr ''192.168.2.67'')]),
         (''apps'', new_StateSyncSurface True ''ok'' [
            (''status'', PStr ''ok''), (''app_count'', PInt (int (length apps))), (''apps'', PList apps),
            (''observed_event_ids'', PList event_ids)]),
         (''leases'', new_StateSyncSurface True ''ok'' [(''status'', PStr ''ok''), (''leases'', PList [])])],
       sn_recommended_next_actions = [''state sync is clean; read-only delegated reasoning may continue''],
       sn_schema_version = STATE_SYNC_SCHEMA_VERSION \<rparr>)"

definition ok_payload :: "dict \<Rightarrow> dict" where
  "ok_payload payload = [(''ok'', PBool True), (''status'', PStr ''ok''), (''payload'', PDict payload)]"

definition query_reply :: "dict \<Rightarrow> env \<Rightarrow> dict \<times> env" where
  "query_reply reply_payload w = (let (request_id, w') = new_id ''req'' w in
     ([(''ok'', PBool True), (''status'', PStr ''ok''),
       (''payload'', PDict [(''request_id'', PStr request_id)]),
       (''replies'', PList [PDict [(''ok'', PBool True), (''payload'', PDict reply_payload)]])], w'))"

definition fake_query_payload :: "string \<Rightarrow> dict \<Rightarrow> env \<Rightarrow> (dict \<times> env) result" where
  "fake_query_payload tool_name args w = ebind (event_ids_arg args) (\<lambda>event_ids.
     if tool_name = ''system_query_device'' then Inr (query_reply [
         (''status'', PStr ''ok''), (''network_state'', PStr ''NETWORK_READY''), (''ipv4'', PStr ''192.168.2.67'')] w)
     else if tool_name = ''system_query_apps'' then Inr (query_reply [
         (''status'', PStr ''ok''), (''app_count'', PInt 0), (''apps'', PList []),
         (''observed_event_ids'', PList event_ids)] w)
     else if tool_name = ''system_query_leases'' then Inr (query_reply [
         (''status'', PStr ''ok''), (''leases'', PList [])] w)
     else if tool_name = ''system_capabilities'' then Inr (ok_payload [
         (''agent_runtime'', PStr ''1.2.0-agent-runtime-v1''),
         (''tool_manifest_command'', PStr ''system tool-manifest --output json''),
         (''state_sync_command'', PStr ''system state-sync --output json'')], w)
     else if tool_name = ''system_restart_app'' then Inr (ok_payload [
         (''status'', PStr ''ok''), (''requested_action'', PStr ''restart_app''),
         (''requested_app'', PStr (str_or (dget args ''app'') ''default-app''))], w)
     else (case map_of APP_CONTROL_TOOL_ACTIONS tool_name of
       Some action \<Rightarrow> Inr (ok_payload [
         (''status'', PStr ''ok''), (''requested_action'', PStr action),
         (''requested_app'', PStr (app_arg ''default-app'' args))], w)
     | None \<Rightarrow>
         if tool_name = ''system_rollback_app'' then Inr (ok_payload [
           (''status'', PStr ''ok''), (''requested_action'', PStr ''rollback_app''),
           (''requested_app'', PStr (app_arg ''default-app'' args)),
           (''reason'', PStr (str_or (dget args ''reason'') []))], w)
         else Inl (ValueError (''unsupported fake tool: '' @ tool_name))))"

section \<open>Activation health\<close>

record ActivationHealthObservation =
  ah_app_id :: string
  ah_classification :: string
  ah_reason :: string
  ah_ready_for_rollback_consideration :: bool
  ah_device_status :: string
  ah_network_state :: string
  ah_app_status :: string
  ah_app_present :: bool
  ah_observed_app_state :: string
  ah_recommended_next_actions :: "string list"
  ah_schema_version :: string

definition ActivationHealthObservation_to_dict :: "ActivationHealthObservation \<Rightarrow> dict" where
  "ActivationHealthObservation_to_dict h = [
     (''schema_version'', PStr (ah_schema_version h)),
     (''app_id'', PStr (ah_app_id h)),
     (''classification'', PStr (ah_classification h)),
     (''reason'', PStr (ah_reason h)),
     (''ready_for_rollback_consideration'', PBool (ah_ready_for_rollback_consideration h)),
     (''device_status'', PStr (ah_device_status h)),
     (''network_state'', PStr (ah_network_state h)),
     (''app_status'', PStr (ah_app_status h)),
     (''app_present'', PBool (ah_app_present h)),
     (''observed_app_state'', PStr (ah_observed_app_state h)),
     (''recommended_next_actions'', PList (map PStr (ah_recommended_next_actions h)))]"

text \<open>\<open>snapshot.state.get(name, default)\<close>.\<close>

definition surface_of :: "StateSyncSnapshot \<Rightarrow> string \<Rightarrow> dict \<Rightarrow> StateSyncSurface" where
  "surface_of snapshot name payload = (case map_of (sn_state snapshot) name of
     Some s \<Rightarrow> s | None \<Rightarrow> new_StateSyncSurface False ''unknown'' payload)"

text \<open>The first dict among the observed apps that names the app.\<close>

definition names_app :: "string \<Rightarrow> pyval \<Rightarrow> bool" where
  "names_app app_id v = (case v of
     PDict d \<Rightarrow> str_or (por (dget d ''app_id'') (dget d ''name'')) [] = app_id | _ \<Rightarrow> False)"

definition match_app :: "string \<Rightarrow> pyval list \<Rightarrow> dict option" where
  "match_app app_id apps = (case find (names_app app_id) apps of Some (PDict d) \<Rightarrow> Some d | _ \<Rightarrow> None)"

definition app_state :: "dict \<Rightarrow> string" where
  "app_state app = str_or (por (dget app ''state'') (dget app ''status'')) ''unknown''"

text \<open>The classification, its reason, whether rollback may be considered, and the next action.\<close>

definition health_verdict :: "StateSyncSurface \<Rightarrow> string \<Rightarrow> string option \<Rightarrow> string \<times> string \<times> bool \<times> string" where
  "health_verdict device network_state observed_app_state = (
     if \<not> sy_ok device \<or> sy_status device \<notin> {''ok'', ''ready''} then
       (''no_reply'', if sy_status device = [] then ''device_unreachable'' else sy_status device, False,
        ''rerun query device and verify Unit/router reachability before rollback'')
     else if network_state \<noteq> ''NETWORK_READY'' then
       (''degraded'', ''network_not_ready_after_activate'', False,
        ''inspect network readiness and event stream before protected rollback'')
     else (case observed_app_state of
       None \<Rightarrow>
         (''rollback_required'', ''target_app_missing_after_activate'', True,
          ''confirm activation evidence and prepare protected rollback review'')
     | Some st \<Rightarrow>
         if str_lower st \<in> {''running'', ''active'', ''started''} then
           (''healthy'', ''target_app_running_after_activate'', False,
            ''activation health is good; continue observation and preserve evidence'')
         else
           (''degraded'', ''target_app_not_running_after_activate'', True,
            ''inspect app lifecycle state and decide whether protected rollback is required'')))"

definition classify_activation_health_result ::
    "ToolExecutionResult \<Rightarrow> string \<Rightarrow> ActivationHealthObservation result" where
  "classify_activation_health_result r app_id = (
     if te_status r \<noteq> ''ok'' then
       let failure_status = str_or (dget (te_payload r) ''failure_status'') ''state_sync_failed'' in
       Inr \<lparr> ah_app_id = app_id, ah_classification = ''no_reply'', ah_reason = failure_status,
         ah_ready_for_rollback_consideration = False, ah_device_status = failure_status,
         ah_network_state = ''unknown'', ah_app_status = ''unknown'', ah_app_present = False,
         ah_observed_app_state = ''unknown'',
         ah_recommended_next_actions = [''rerun state sync and verify Unit/router reachability before recovery''],
         ah_schema_version = ACTIVATION_HEALTH_SCHEMA_VERSION \<rparr>
     else
       ebind (as_dict (por (dget (te_payload r) ''state_sync'') (PDict []))) (\<lambda>sync.
       ebind (StateSyncSnapshot_from_dict sync) (\<lambda>snapshot.
       let device = surface_of snapshot ''device'' [(''status'', PStr ''unknown'')];
           apps = surface_of snapshot ''apps'' [(''status'', PStr ''unknown''), (''apps'', PList [])];
           network_state = str_or (dget (sy_payload device) ''network_state'') ''unknown'' in
       ebind (py_list (por (dget (sy_payload apps) ''apps'') (PList []))) (\<lambda>observed_apps.
       let matched_app = match_app app_id observed_apps;
           (classification, reason, ready, action) =
             health_verdict device network_state (map_option app_state matched_app) in
       Inr \<lparr> ah_app_id = app_id, ah_classification = classification, ah_reason = reason,
         ah_ready_for_rollback_consideration = ready,
         ah_device_status = str_or (por (PStr (sy_status device)) (dget (sy_payload device) ''status'')) ''unknown'',
         ah_network_state = network_state,
         ah_app_status = str_or (por (dget (sy_payload apps) ''status'') (PStr (sy_status apps))) ''unknown'',
         ah_app_present = (matched_app \<noteq> None),
         ah_observed_app_state = (case matched_app of None \<Rightarrow> ''unknown'' | Some a \<Rightarrow> app_state a),
         ah_recommended_next_actions = [action],
         ah_schema_version = ACTIVATION_HEALTH_SCHEMA_VERSION \<rparr>))))"

section \<open>Execution by the fake adapter\<close>

type_synonym 'a adapter = "string \<Rightarrow> dict \<Rightarrow> 'a \<times> env \<Rightarrow> (ToolExecutionResult \<times> 'a \<times> env) result"

definition observe_activation_health ::
    "'a adapter \<Rightarrow> string \<Rightarrow> string list \<Rightarrow> 'a \<times> env \<Rightarrow> (ActivationHealthObservation \<times> 'a \<times> env) result" where
  "observe_activation_health execute app_id event_ids st =
     ebind (execute ''system_state_sync'' [
         (''app_id'', PStr app_id), (''app'', PStr app_id), (''event_ids'', PList (map PStr event_ids))] st) (\<lambda>(r, st').
     ebind (classify_activation_health_result r app_id) (\<lambda>h. Inr (h, st')))"

definition fake_result :: "string \<Rightarrow> string \<Rightarrow> dict \<Rightarrow> env \<Rightarrow> ToolExecutionResult \<times> env" where
  "fake_result tool_name status payload w = (let (i, w') = new_id ''tool'' w in
     (\<lparr> te_tool_result_id = i, te_tool_name = tool_name, te_status = status, te_payload = payload \<rparr>, w'))"

definition fake_contract_payload :: "ToolContract \<Rightarrow> pyval list \<Rightarrow> dict" where
  "fake_contract_payload contract event_ids = [
     (''contract'', PDict (ToolContract_to_dict contract)),
     (''mode'', PStr ''fake_no_model''),
     (''side_effect_level'', PStr (tc_side_effect_level contract)),
     (''event_ids'', PList event_ids)]"

text \<open>\<open>self.execute("system_state_sync", args)\<close>.\<close>

definition fake_state_sync :: "dict \<Rightarrow> env \<Rightarrow> (ToolExecutionResult \<times> env) result" where
  "fake_state_sync args w = ebind (event_ids_arg args) (\<lambda>event_ids.
     ebind (build_state_sync_snapshot args) (\<lambda>snapshot.
     Inr (fake_result ''system_state_sync'' ''ok''
       (fake_contract_payload contract_system_state_sync event_ids @
        [(''state_sync'', PDict (StateSyncSnapshot_to_dict snapshot))]) w)))"

definition fake_execute :: "'a adapter" where
  "fake_execute tool_name args st = (case st of (a, w) \<Rightarrow>
     ebind (case describe_tool tool_name of
       None \<Rightarrow> Inr (fake_result tool_name ''error'' [
          (''failure_status'', PStr ''unknown_tool''), (''failure_class'', PStr ''manifest_lookup_failed'')] w)
     | Some contract \<Rightarrow>
         if tool_name = ''system_state_sync'' then fake_state_sync args w
         else ebind (event_ids_arg args) (\<lambda>event_ids.
           let payload = fake_contract_payload contract event_ids in
           if tool_name = ''system_activation_health_guard'' then
             ebind (fake_state_sync args w) (\<lambda>(sync, w1).
             ebind (classify_activation_health_result sync (app_arg [] args)) (\<lambda>health.
             ebind (if te_status sync = ''ok''
                 then ebind (py_dict (por (dget (te_payload sync) ''state_sync'') (PDict [])))
                   (\<lambda>d. Inr (''state_sync'', PDict d))
                 else Inr (''state_sync_error'', PDict (te_payload sync))) (\<lambda>entry.
             Inr (fake_result tool_name ''ok''
               (payload @ [(''activation_health'', PDict (ActivationHealthObservation_to_dict health)), entry]) w1))))
           else ebind (fake_query_payload tool_name args w) (\<lambda>(reply, w1).
             Inr (fake_result tool_name ''ok'' (payload @ [(''result'', PDict reply)]) w1))))
     (\<lambda>(r, w'). Inr (r, a, w')))"

section \<open>Lemmas\<close>

lemma manifest_names: "map tc_tool_name tool_manifest = [''system_query_device'', ''system_query_apps'',
    ''system_query_leases'', ''system_state_sync'', ''system_activation_health_guard'', ''system_rollback_app'',
    ''system_capabilities'', ''system_restart_app'', ''system_start_app'', ''system_stop_app'', ''system_unload_app'']"
  by (simp add: tool_manifest_def contract_defs)

lemma describe_tool_None: "describe_tool t = None \<longleftrightarrow> t \<notin> set (map tc_tool_name tool_manifest)"
  by (auto simp: describe_tool_def find_None_iff)

lemma describe_tool_Some:
  "describe_tool t = Some c \<Longrightarrow> c \<in> set tool_manifest \<and> tc_tool_name c = t \<and> t \<in> set (map tc_tool_name tool_manifest)"
  by (auto simp: describe_tool_def find_Some_iff)

lemma fake_result_fields [simp]:
  "te_tool_name (fst (fake_result t s p w)) = t" "te_status (fst (fake_result t s p w)) = s"
  "te_payload (fst (fake_result t s p w)) = p"
  by (simp_all add: fake_result_def split_beta)

lemma sync_snapshot_ok: "build_state_sync_snapshot args = Inr s \<Longrightarrow> snapshot_ok s"
  by (auto simp: build_state_sync_snapshot_def snapshot_ok_def surface_ok_def new_StateSyncSurface_def
      STATE_SYNC_SCHEMA_VERSION_def Let_def)

lemma names_app_running [simp]:
  "names_app a (PDict [(''app_id'', PStr b), (''state'', PStr s), (''status'', PStr t)]) \<longleftrightarrow> b = a"
  by (cases "b = []") (auto simp: names_app_def)

text \<open>The guard of the fake adapter: healthy for a named app, and missing when none is named.\<close>

lemma fake_guard_health:
  assumes "build_state_sync_snapshot args = Inr s" and "te_status r = ''ok''"
    and "dget (te_payload r) ''state_sync'' = PDict (StateSyncSnapshot_to_dict s)"
  shows "\<exists>h. classify_activation_health_result r (app_arg [] args) = Inr h
    \<and> ah_classification h = (if app_arg [] args = [] then ''rollback_required'' else ''healthy'')"
proof -
  have decoded: "StateSyncSnapshot_from_dict (StateSyncSnapshot_to_dict s) = Inr s"
    by (rule snapshot_codec.decode_encode[OF sync_snapshot_ok[OF assms(1)]])
  have enc: "truthy (PDict (StateSyncSnapshot_to_dict s))" by (simp add: StateSyncSnapshot_to_dict_def)
  show ?thesis
    using assms decoded enc
    by (auto simp: classify_activation_health_result_def build_state_sync_snapshot_def Let_def surface_of_def
        new_StateSyncSurface_def match_app_def health_verdict_def app_state_def str_lower_def lower_char_def)
qed

lemma fake_query_supported:
  assumes "t \<in> set (map tc_tool_name tool_manifest)" and "t \<noteq> ''system_state_sync''"
    and "t \<noteq> ''system_activation_health_guard''" and "event_ids_arg args = Inr ids"
  shows "\<exists>p w'. fake_query_payload t args w = Inr (p, w')"
  using assms unfolding manifest_names
  by (auto simp: fake_query_payload_def APP_CONTROL_TOOL_ACTIONS_def query_reply_def split_beta)

lemma fake_result_shape:
  "fake_result t s p w = (r, w') \<Longrightarrow> te_tool_name r = t \<and> te_status r = s \<and> te_payload r = p"
  by (auto simp: fake_result_def split_beta)

lemma fake_result_ex: "\<exists>r w'. fake_result t s p w = (r, w') \<and> te_tool_name r = t \<and> te_status r = s \<and> te_payload r = p"
  using fake_result_shape by (metis surj_pair)

lemma fake_state_sync_ok:
  assumes "event_ids_arg args = Inr ids"
  shows "\<exists>s r w'. build_state_sync_snapshot args = Inr s \<and> fake_state_sync args w = Inr (r, w')
    \<and> te_tool_name r = ''system_state_sync'' \<and> te_status r = ''ok''
    \<and> dget (te_payload r) ''state_sync'' = PDict (StateSyncSnapshot_to_dict s)"
proof -
  obtain s where s: "build_state_sync_snapshot args = Inr s"
    using assms by (simp add: build_state_sync_snapshot_def Let_def)
  from fake_result_ex[of "''system_state_sync''" "''ok''" "fake_contract_payload contract_system_state_sync ids @
      [(''state_sync'', PDict (StateSyncSnapshot_to_dict s))]" w] obtain r w' where
    "fake_result ''system_state_sync'' ''ok'' (fake_contract_payload contract_system_state_sync ids @
      [(''state_sync'', PDict (StateSyncSnapshot_to_dict s))]) w = (r, w')"
    "te_tool_name r = ''system_state_sync''" "te_status r = ''ok''"
    "te_payload r = fake_contract_payload contract_system_state_sync ids @
      [(''state_sync'', PDict (StateSyncSnapshot_to_dict s))]" by blast
  with s assms show ?thesis by (simp add: fake_state_sync_def fake_contract_payload_def)
qed

text \<open>What the fake adapter returns for a name: the four kinds of calls.\<close>

lemma fake_execute_unknown:
  assumes "describe_tool t = None"
  shows "\<exists>r w'. fake_execute t args (a, w) = Inr (r, a, w') \<and> te_tool_name r = t \<and> te_status r = ''error''"
proof -
  obtain r w' where "fake_result t ''error'' [
      (''failure_status'', PStr ''unknown_tool''), (''failure_class'', PStr ''manifest_lookup_failed'')] w = (r, w')"
    "te_tool_name r = t" "te_status r = ''error''" using fake_result_ex by blast
  with assms show ?thesis by (simp add: fake_execute_def)
qed

lemma fake_execute_sync:
  assumes "event_ids_arg args = Inr ids"
  shows "\<exists>r w'. fake_execute ''system_state_sync'' args (a, w) = Inr (r, a, w')
    \<and> te_tool_name r = ''system_state_sync'' \<and> te_status r = ''ok''"
proof -
  have "describe_tool ''system_state_sync'' = Some contract_system_state_sync"
    by (simp add: describe_tool_def tool_manifest_def contract_defs)
  with fake_state_sync_ok[OF assms, of w] show ?thesis by (auto simp: fake_execute_def)
qed

lemma fake_execute_guard:
  assumes "event_ids_arg args = Inr ids"
  shows "\<exists>r w' h. fake_execute ''system_activation_health_guard'' args (a, w) = Inr (r, a, w')
    \<and> te_tool_name r = ''system_activation_health_guard'' \<and> te_status r = ''ok''
    \<and> dget (te_payload r) ''activation_health'' = PDict (ActivationHealthObservation_to_dict h)
    \<and> ah_classification h = (if app_arg [] args = [] then ''rollback_required'' else ''healthy'')"
proof -
  let ?t = "''system_activation_health_guard''"
  let ?c = "contract_system_activation_health_guard"
  have d: "describe_tool ?t = Some ?c"
    by (simp add: describe_tool_def tool_manifest_def contract_defs)
  from fake_state_sync_ok[OF assms, of w] obtain s sync w1 where
    sync: "build_state_sync_snapshot args = Inr s" "fake_state_sync args w = Inr (sync, w1)" "te_status sync = ''ok''"
      "dget (te_payload sync) ''state_sync'' = PDict (StateSyncSnapshot_to_dict s)" by blast
  from fake_guard_health[OF sync(1,3,4)] obtain h where
    h: "classify_activation_health_result sync (app_arg [] args) = Inr h"
      "ah_classification h = (if app_arg [] args = [] then ''rollback_required'' else ''healthy'')" by blast
  have enc: "truthy (PDict (StateSyncSnapshot_to_dict s))" by (simp add: StateSyncSnapshot_to_dict_def)
  obtain r w' where r: "fake_result ?t ''ok'' (fake_contract_payload ?c ids @
      [(''activation_health'', PDict (ActivationHealthObservation_to_dict h)),
       (''state_sync'', PDict (StateSyncSnapshot_to_dict s))]) w1 = (r, w')"
    "te_tool_name r = ?t" "te_status r = ''ok''" "te_payload r = fake_contract_payload ?c ids @
      [(''activation_health'', PDict (ActivationHealthObservation_to_dict h)),
       (''state_sync'', PDict (StateSyncSnapshot_to_dict s))]" using fake_result_ex by blast
  have run: "fake_execute ?t args (a, w) = Inr (r, a, w')"
    using d assms sync h(1) enc r(1) by (simp add: fake_execute_def)
  have "dget (te_payload r) ''activation_health'' = PDict (ActivationHealthObservation_to_dict h)"
    using r(4) by (simp add: fake_contract_payload_def)
  with run r(2,3) h(2) show ?thesis by blast
qed

lemma fake_execute_query:
  assumes "t \<in> set (map tc_tool_name tool_manifest)" and "t \<noteq> ''system_state_sync''"
    and "t \<noteq> ''system_activation_health_guard''" and "event_ids_arg args = Inr ids"
  shows "\<exists>r w'. fake_execute t args (a, w) = Inr (r, a, w') \<and> te_tool_name r = t \<and> te_status r = ''ok''"
proof -
  from assms(1) describe_tool_None obtain c where c: "describe_tool t = Some c" by (cases "describe_tool t") auto
  from fake_query_supported[OF assms] obtain p w1 where p: "fake_query_payload t args w = Inr (p, w1)" by blast
  obtain r w' where "fake_result t ''ok'' (fake_contract_payload c ids @ [(''result'', PDict p)]) w1 = (r, w')"
    "te_tool_name r = t" "te_status r = ''ok''" using fake_result_ex by blast
  with c p assms show ?thesis by (simp add: fake_execute_def)
qed

lemma fake_execute_ok:
  assumes "event_ids_arg args = Inr ids"
  shows "\<exists>r w'. fake_execute t args (a, w) = Inr (r, a, w') \<and> te_tool_name r = t
       \<and> te_status r = (if t \<in> set (map tc_tool_name tool_manifest) then ''ok'' else ''error'')"
proof (cases "t \<in> set (map tc_tool_name tool_manifest)")
  case False
  with fake_execute_unknown[of t args a w] describe_tool_None[of t] show ?thesis by simp
next
  case True
  consider "t = ''system_state_sync''" | "t = ''system_activation_health_guard''"
    | "t \<noteq> ''system_state_sync''" "t \<noteq> ''system_activation_health_guard''" by blast
  then show ?thesis
    using True fake_execute_sync[OF assms, of a w] fake_execute_guard[OF assms, of a w]
      fake_execute_query[OF True _ _ assms, of a w]
    by cases auto
qed

lemma fake_execute_bad_ids:
  assumes "event_ids_arg args = Inl e" and "t \<in> set (map tc_tool_name tool_manifest)"
  shows "fake_execute t args st = Inl e"
proof -
  from assms(2) describe_tool_None obtain c where "describe_tool t = Some c" by (cases "describe_tool t") auto
  with assms(1) show ?thesis
    by (cases st) (simp add: fake_execute_def fake_state_sync_def)
qed

text \<open>The fake adapter executes its whole manifest. Whatever the tool name, arguments with a
  readable event id list never make it raise (no manifest tool is missing from the dispatcher), the
  result names the tool it was asked for, and its status is ok exactly for the tools of the
  manifest, error for any other name; unreadable event ids raise for every tool of the manifest.\<close>

theorem fake_execute_exact:
  "case event_ids_arg args of
     Inr ids \<Rightarrow> \<exists>r w'. fake_execute t args (a, w) = Inr (r, a, w') \<and> te_tool_name r = t
       \<and> te_status r = (if t \<in> set (map tc_tool_name tool_manifest) then ''ok'' else ''error'')
   | Inl e \<Rightarrow> (if t \<in> set (map tc_tool_name tool_manifest) then fake_execute t args (a, w) = Inl e
       else \<exists>r w'. fake_execute t args (a, w) = Inr (r, a, w') \<and> te_status r = ''error'')"
  using fake_execute_ok[of args _ t a w] fake_execute_bad_ids[of args _ t "(a, w)"]
    fake_execute_unknown[of t args a w] describe_tool_None[of t]
  by (auto split: sum.splits)

text \<open>The manifest is governed: tool names are distinct, reading the manifest document back gives
  the manifest, and a tool passes the read-only gate exactly when it holds no lease; every tool
  that needs a lease needs an approval and has a cleanup hint, and it is one of the five tools that
  change an app.\<close>

theorem tool_manifest_governed:
  "distinct (map tc_tool_name tool_manifest)
   \<and> parse_tool_manifest_payload tool_manifest_payload = Inr tool_manifest
   \<and> list_all (\<lambda>c. (\<exists>d. evaluate_contract c = Inr d \<and> pd_allowed d = (tc_required_resources c = []))
        \<and> tc_approval_required c = (tc_required_resources c \<noteq> [])
        \<and> tc_approval_required c = (tc_tool_name c \<in> {''system_rollback_app'', ''system_restart_app'',
             ''system_start_app'', ''system_stop_app'', ''system_unload_app''})
        \<and> (if tc_approval_required c then truthy (tc_cleanup_hint c) else True)) tool_manifest"
proof -
  have names: "distinct (map tc_tool_name tool_manifest)" unfolding manifest_names by simp
  have ok: "\<forall>c \<in> set tool_manifest. contract_ok c"
    by (simp add: tool_manifest_def contract_defs contract_ok_def all_levels_def)
  have "parse_tool_manifest_payload tool_manifest_payload = Inr tool_manifest"
    using contract_codec.decode_list[OF ok]
    by (simp add: parse_tool_manifest_payload_def tool_manifest_payload_def emap_map por_def tool_manifest_def)
  moreover have "list_all (\<lambda>c. (\<exists>d. evaluate_contract c = Inr d \<and> pd_allowed d = (tc_required_resources c = []))
        \<and> tc_approval_required c = (tc_required_resources c \<noteq> [])
        \<and> tc_approval_required c = (tc_tool_name c \<in> {''system_rollback_app'', ''system_restart_app'',
             ''system_start_app'', ''system_stop_app'', ''system_unload_app''})
        \<and> (if tc_approval_required c then truthy (tc_cleanup_hint c) else True)) tool_manifest"
    by (simp add: tool_manifest_def contract_defs evaluate_contract_def SideEffectLevel_of_def all_levels_def
        allowed_levels_def)
  ultimately show ?thesis using names by blast
qed

definition running_state :: "string \<Rightarrow> bool" where
  "running_state st \<longleftrightarrow> str_lower st \<in> {''running'', ''active'', ''started''}"

text \<open>What a state sync shows of a unit and an app: the unit answers on a ready network; the rows of its apps.\<close>

definition unit_answers :: "StateSyncSnapshot \<Rightarrow> bool" where
  "unit_answers snapshot = (let device = surface_of snapshot ''device'' [(''status'', PStr ''unknown'')] in
     sy_ok device \<and> sy_status device \<in> {''ok'', ''ready''})"

definition network_ready :: "StateSyncSnapshot \<Rightarrow> bool" where
  "network_ready snapshot =
     (str_or (dget (sy_payload (surface_of snapshot ''device'' [(''status'', PStr ''unknown'')])) ''network_state'') [] = ''NETWORK_READY'')"

definition named_app :: "string \<Rightarrow> pyval \<Rightarrow> dict list" where
  "named_app app_id v = (case v of
     PDict d \<Rightarrow> if str_or (por (dget d ''app_id'') (dget d ''name'')) [] = app_id then [d] else [] | _ \<Rightarrow> [])"

definition app_rows :: "StateSyncSnapshot \<Rightarrow> string \<Rightarrow> dict list" where
  "app_rows snapshot app_id = (
     case py_list (por (dget (sy_payload (surface_of snapshot ''apps'' [(''status'', PStr ''unknown''), (''apps'', PList [])])) ''apps'') (PList [])) of
       Inl _ \<Rightarrow> [] | Inr rows \<Rightarrow> concat (map (named_app app_id) rows))"

lemma match_app_rows: "match_app app_id rows = (case concat (map (named_app app_id) rows) of [] \<Rightarrow> None | d # _ \<Rightarrow> Some d)"
proof (induction rows)
  case (Cons v rows)
  then show ?case by (cases v) (simp_all add: match_app_def named_app_def names_app_def)
qed (simp add: match_app_def)

lemma network_ready_text:
  "str_or v ''unknown'' = ''NETWORK_READY'' \<longleftrightarrow> str_or v [] = ''NETWORK_READY''"
  by (simp add: str_or_def por_def)

text \<open>C38: The verdict after an activation, for every tool result and app id. An observation of a sync that is not ok
  is no reply and never asks for a rollback. Otherwise the verdict is the one of the snapshot read from the
  result: no reply exactly when the unit does not answer; healthy exactly when it answers on a ready network and
  the first of its rows that names the app shows it running; rollback required exactly when it answers on a
  ready network and no row names the app; and rollback may be considered exactly when it answers on a ready
  network and the app is missing or not running. Only an ok result whose payload cannot be read raises.\<close>

theorem health_verdict_exact:
  "case classify_activation_health_result r app_id of Inl _ \<Rightarrow> te_status r = ''ok''
   | Inr h \<Rightarrow> ah_app_id h = app_id \<and>
      (if te_status r = ''ok'' then
         \<exists>sync snapshot. por (dget (te_payload r) ''state_sync'') (PDict []) = PDict sync
          \<and> StateSyncSnapshot_from_dict sync = Inr snapshot
          \<and> (let rows = app_rows snapshot app_id; up = (unit_answers snapshot \<and> network_ready snapshot);
                 running = (rows \<noteq> [] \<and> running_state (app_state (hd rows))) in
             (ah_classification h = ''healthy'') = (up \<and> running)
             \<and> (ah_classification h = ''rollback_required'') = (up \<and> rows = [])
             \<and> (ah_classification h = ''no_reply'') = (\<not> unit_answers snapshot)
             \<and> ah_classification h \<in> {''healthy'', ''degraded'', ''no_reply'', ''rollback_required''}
             \<and> ah_ready_for_rollback_consideration h = (up \<and> \<not> running)
             \<and> ah_app_present h = (rows \<noteq> []))
       else ah_classification h = ''no_reply'' \<and> \<not> ah_ready_for_rollback_consideration h \<and> \<not> ah_app_present h)"
proof (cases "classify_activation_health_result r app_id")
  case (Inl e)
  then show ?thesis by (auto simp: classify_activation_health_result_def Let_def split: if_splits)
next
  case (Inr h)
  show ?thesis
  proof (cases "te_status r = ''ok''")
    case False
    with Inr show ?thesis by (auto simp: classify_activation_health_result_def Let_def)
  next
    case True
    define device where "device snapshot = surface_of snapshot ''device'' [(''status'', PStr ''unknown'')]" for snapshot
    from Inr True obtain sync snapshot rows where
      sync: "por (dget (te_payload r) ''state_sync'') (PDict []) = PDict sync" "StateSyncSnapshot_from_dict sync = Inr snapshot"
      and rows: "py_list (por (dget (sy_payload (surface_of snapshot ''apps'' [(''status'', PStr ''unknown''), (''apps'', PList [])])) ''apps'') (PList []))
        = Inr rows"
      by (auto simp: classify_activation_health_result_def Let_def as_dict_def split: pyval.splits)
    let ?net = "str_or (dget (sy_payload (device snapshot)) ''network_state'') ''unknown''"
    let ?m = "match_app app_id rows"
    from Inr True sync rows have h: "ah_app_id h = app_id" "ah_app_present h = (?m \<noteq> None)"
      "ah_classification h = fst (health_verdict (device snapshot) ?net (map_option app_state ?m))"
      "ah_ready_for_rollback_consideration h = fst (snd (snd (health_verdict (device snapshot) ?net (map_option app_state ?m))))"
      by (auto simp: classify_activation_health_result_def Let_def as_dict_def split_beta device_def)
    have net: "?net = ''NETWORK_READY'' \<longleftrightarrow> network_ready snapshot"
      by (simp add: network_ready_def device_def network_ready_text)
    have answers: "unit_answers snapshot \<longleftrightarrow> sy_ok (device snapshot) \<and> sy_status (device snapshot) \<in> {''ok'', ''ready''}"
      by (simp add: unit_answers_def device_def Let_def)
    define named where "named = concat (map (named_app app_id) rows)"
    have apps: "app_rows snapshot app_id = concat (map (named_app app_id) rows)" by (simp add: app_rows_def rows)
    have verdict: "let rows = app_rows snapshot app_id; up = (unit_answers snapshot \<and> network_ready snapshot);
                 running = (rows \<noteq> [] \<and> running_state (app_state (hd rows))) in
             (ah_classification h = ''healthy'') = (up \<and> running)
             \<and> (ah_classification h = ''rollback_required'') = (up \<and> rows = [])
             \<and> (ah_classification h = ''no_reply'') = (\<not> unit_answers snapshot)
             \<and> ah_classification h \<in> {''healthy'', ''degraded'', ''no_reply'', ''rollback_required''}
             \<and> ah_ready_for_rollback_consideration h = (up \<and> \<not> running)
             \<and> ah_app_present h = (rows \<noteq> [])"
      unfolding Let_def h apps match_app_rows answers net[symmetric] named_def[symmetric]
      by (cases named) (auto simp: health_verdict_def running_state_def)
    show ?thesis
      unfolding Inr sum.case if_P[OF True] using h(1) sync verdict by blast
  qed
qed

text \<open>The health guard of the fake adapter answers healthy for every app it is asked about, but
  when it is called without an app id it reports that the (unnamed) target app is missing and that
  a rollback is required.\<close>

theorem fake_guard_verdict:
  "case event_ids_arg args of Inl _ \<Rightarrow> True
   | Inr ids \<Rightarrow> \<exists>r w' h. fake_execute ''system_activation_health_guard'' args (a, w) = Inr (r, a, w')
      \<and> dget (te_payload r) ''activation_health'' = PDict (ActivationHealthObservation_to_dict h)
      \<and> ah_classification h = (if app_arg [] args = [] then ''rollback_required'' else ''healthy'')"
proof (cases "event_ids_arg args")
  case (Inr ids)
  from fake_execute_guard[OF this, of a w] Inr show ?thesis by (simp only: sum.case) blast
qed simp

text \<open>The contract a client of an adapter relies on: a result names the tool that was asked for.\<close>

locale tool_adapter =
  fixes execute :: "'a adapter"
  assumes result_named: "execute t args st = Inr (r, st') \<Longrightarrow> te_tool_name r = t"
begin

lemma result_dict_named: "execute t args st = Inr (r, st') \<Longrightarrow> dget (ToolExecutionResult_to_dict r) ''tool_name'' = PStr t"
  by (drule result_named) (simp add: ToolExecutionResult_to_dict_def)

end

lemma fake_execute_named:
  assumes "fake_execute t args st = Inr (r, st')"
  shows "te_tool_name r = t"
proof (cases "event_ids_arg args")
  case (Inr ids)
  with fake_execute_ok[OF Inr, of t "fst st" "snd st"] assms show ?thesis by auto
next
  case (Inl e)
  with fake_execute_bad_ids[OF Inl, of t st] fake_execute_unknown[of t args "fst st" "snd st"] describe_tool_None[of t] assms
  show ?thesis by auto
qed

interpretation fake_adapter: tool_adapter fake_execute
  by unfold_locales (rule fake_execute_named)

end
