(* ===== verification/Session.thy ===== *)
theory Session
  imports DataStore
begin

text \<open>
  \<open>neurolink_core/session.py\<close>: session snapshots over the store, and the prompt-safe context:
  the bounded, whitelisted summary of a session that a model may see.

  \<open>_summarize_runtime_metadata\<close> iterates over a set of keys; the model lists them in the order
  of the source, which only affects the order of the entries of a dict.
\<close>

section \<open>Snapshots\<close>

definition PROMPT_SAFE_CONTEXT_SCHEMA_VERSION :: string where
  "PROMPT_SAFE_CONTEXT_SCHEMA_VERSION = ''1.2.5-prompt-safe-context-v2''"

definition MEMORY_RECALL_POLICY_SCHEMA_VERSION :: string where
  "MEMORY_RECALL_POLICY_SCHEMA_VERSION = ''1.2.5-memory-recall-policy-v1''"

record CoreSessionSnapshot =
  cs_session_id :: string
  cs_current_execution_span_id :: "string option"
  cs_recent_execution_spans :: "dict list"
  cs_recent_audit_ids :: "string list"
  cs_pending_approval_requests :: "dict list"

definition CoreSessionSnapshot_to_dict :: "CoreSessionSnapshot \<Rightarrow> dict" where
  "CoreSessionSnapshot_to_dict s = [
     (''session_id'', PStr (cs_session_id s)),
     (''current_execution_span_id'', opt_str (cs_current_execution_span_id s)),
     (''recent_execution_spans'', PList (map PDict (cs_recent_execution_spans s))),
     (''recent_audit_ids'', PList (map PStr (cs_recent_audit_ids s))),
     (''pending_approval_requests'', PList (map PDict (cs_pending_approval_requests s)))]"

definition resolve_session_id :: "string option \<Rightarrow> env \<Rightarrow> string \<times> env" where
  "resolve_session_id session_id w = (if text_set session_id then (the session_id, w) else new_id ''session'' w)"

definition span_audit_id :: "dict \<Rightarrow> pyval result" where
  "span_audit_id sp = ebind (as_dict (dget sp ''payload'')) (\<lambda>p. Inr (dget p ''audit_id''))"

definition load_snapshot :: "store \<Rightarrow> string \<Rightarrow> string option \<Rightarrow> int \<Rightarrow> CoreSessionSnapshot result" where
  "load_snapshot s session_id current_execution_span_id limit = (
     let spans = get_execution_spans_for_session s session_id limit in
     ebind (emap span_audit_id spans) (\<lambda>ids.
     Inr \<lparr> cs_session_id = session_id,
       cs_current_execution_span_id = current_execution_span_id,
       cs_recent_execution_spans = spans,
       cs_recent_audit_ids = map py_str (filter truthy ids),
       cs_pending_approval_requests = get_approval_requests s (Some session_id) None (Some ''pending'') 20 \<rparr>))"

definition build_context :: "store \<Rightarrow> string \<Rightarrow> string option \<Rightarrow> int \<Rightarrow> dict result" where
  "build_context s session_id current_execution_span_id limit =
     ebind (load_snapshot s session_id current_execution_span_id limit) (\<lambda>snapshot. Inr [
       (''session_id'', PStr (cs_session_id snapshot)),
       (''current_execution_span_id'', opt_str (cs_current_execution_span_id snapshot)),
       (''previous_execution_spans'', PList (map PDict (filter
          (\<lambda>sp. dget sp ''execution_span_id'' \<noteq> opt_str current_execution_span_id)
          (cs_recent_execution_spans snapshot)))),
       (''recent_audit_ids'', PList (map PStr (cs_recent_audit_ids snapshot))),
       (''pending_approval_requests'', PList (map PDict (cs_pending_approval_requests snapshot)))])"

section \<open>Summaries\<close>

text \<open>\<open>cast(dict[str, Any], d.get(k) or {})\<close> and \<open>list(v or [])[:n]\<close>.\<close>

definition sub_dict :: "dict \<Rightarrow> string \<Rightarrow> dict result" where
  "sub_dict d k = as_dict (por (dget d k) (PDict []))"

definition list_of :: "pyval \<Rightarrow> pyval list result" where
  "list_of v = py_list (por v (PList []))"

definition first_n :: "nat \<Rightarrow> pyval \<Rightarrow> pyval result" where
  "first_n n v = ebind (list_of v) (\<lambda>xs. Inr (PList (take n xs)))"

definition int_or0 :: "pyval \<Rightarrow> pyval result" where
  "int_or0 v = ebind (py_int (por v (PInt 0))) (\<lambda>n. Inr (PInt n))"

definition text0 :: "dict \<Rightarrow> string \<Rightarrow> pyval" where
  "text0 d k = PStr (str_or (dget d k) [])"

definition flag :: "dict \<Rightarrow> string \<Rightarrow> pyval" where
  "flag d k = PBool (truthy (dget_or d k (PBool False)))"

definition summarize_execution_span :: "dict \<Rightarrow> dict result" where
  "summarize_execution_span sp =
     ebind (sub_dict sp ''payload'') (\<lambda>payload.
     ebind (first_n 12 (dget payload ''steps'')) (\<lambda>steps.
     ebind (int_or0 (dget payload ''tool_result_count'')) (\<lambda>tool_result_count.
     Inr [
       (''execution_span_id'', text0 sp ''execution_span_id''),
       (''status'', text0 sp ''status''),
       (''steps'', steps),
       (''delegated'', flag payload ''delegated''),
       (''tool_result_count'', tool_result_count),
       (''audit_id'', text0 payload ''audit_id'')])))"

definition summarize_pending_approval :: "dict \<Rightarrow> dict result" where
  "summarize_pending_approval approval =
     ebind (sub_dict approval ''payload'') (\<lambda>payload.
     ebind (sub_dict payload ''contract'') (\<lambda>contract.
     ebind (list_of (por (dget payload ''required_resources'') (dget contract ''required_resources'')))
       (\<lambda>required_resources.
     Inr [
       (''approval_request_id'', text0 approval ''approval_request_id''),
       (''tool_name'', PStr (str_or (por (dget approval ''tool_name'') (dget payload ''tool_name'')) [])),
       (''status'', PStr (str_or (por (dget approval ''status'') (dget payload ''status'')) [])),
       (''side_effect_level'', PStr (str_or
          (por (dget payload ''side_effect_level'') (dget contract ''side_effect_level'')) [])),
       (''required_resources'', PList required_resources),
       (''target_app_id'', text0 payload ''target_app_id'')])))"

definition summarize_memory_item :: "dict \<Rightarrow> dict result" where
  "summarize_memory_item item =
     ebind (sub_dict item ''payload'') (\<lambda>payload.
     ebind (sub_dict payload ''memory_governance'') (\<lambda>governance.
     ebind (first_n 10 (por (dget payload ''event_ids'') (dget item ''event_ids''))) (\<lambda>event_ids.
     ebind (first_n 10 (dget governance ''source_fact_refs'')) (\<lambda>source_fact_refs.
     Inr [
       (''memory_id'', PStr (str_or (por (dget item ''memory_id'') (dget item ''id'')) [])),
       (''semantic_topic'', PStr (str_or (por (dget item ''semantic_topic'')
          (por (dget payload ''semantic_topic'') (dget item ''topic''))) [])),
       (''source'', PStr (str_or (por (dget item ''source'') (dget payload ''source'')) [])),
       (''source_execution_span_id'', text0 item ''source_execution_span_id''),
       (''created_at'', text0 item ''created_at''),
       (''event_ids'', event_ids),
       (''priority'', dget_or payload ''priority'' (dget item ''priority'')),
       (''source_fact_refs'', source_fact_refs),
       (''retention_class'', text0 governance ''retention_class''),
       (''lifecycle_state'', text0 governance ''lifecycle_state''),
       (''commit_backend'', text0 governance ''commit_backend'')]))))"

definition classify_memory_recall_item :: "dict \<Rightarrow> string result" where
  "classify_memory_recall_item item =
     ebind (sub_dict item ''payload'') (\<lambda>payload.
     ebind (sub_dict payload ''memory_governance'') (\<lambda>governance.
     let lifecycle_state = str_or (dget governance ''lifecycle_state'') [];
         retention_class = str_or (dget governance ''retention_class'') [] in
     Inr (if governance = [] then ''ungoverned_memory_result''
       else if lifecycle_state \<noteq> ''committed''
         then ''lifecycle_'' @ (if lifecycle_state = [] then ''unknown'' else lifecycle_state)
       else if retention_class = ''user_context'' then ''affective_long_term''
       else if retention_class \<in> {''operational_lesson'', ''operational_context''} then ''rational_operational''
       else ''retention_'' @ (if retention_class = [] then ''unknown'' else retention_class))))"

definition runtime_allowed_keys :: "string list" where
  "runtime_allowed_keys = [''backend_kind'', ''backend_runtime'', ''requires_external_service'',
     ''fallback_active'', ''fallback_backend'', ''package_available'', ''sidecar_configured'',
     ''last_lookup_status'', ''last_commit_status'', ''can_execute_tools_directly'']"

definition summarize_runtime_metadata :: "dict \<Rightarrow> dict" where
  "summarize_runtime_metadata metadata =
     map (\<lambda>k. (k, dget metadata k)) (filter (dhas metadata) runtime_allowed_keys)"

section \<open>Memory recall\<close>

definition increment :: "string \<Rightarrow> (string \<times> int) list \<Rightarrow> (string \<times> int) list" where
  "increment category t = AList.update category ((case map_of t category of None \<Rightarrow> 0 | Some n \<Rightarrow> n) + 1) t"

type_synonym recall_acc = "dict list \<times> dict list \<times> (string \<times> int) list"

definition recall_step :: "recall_acc \<Rightarrow> dict \<Rightarrow> recall_acc result" where
  "recall_step acc item = (case acc of (affective_items, rational_items, filtered_out) \<Rightarrow>
     ebind (classify_memory_recall_item item) (\<lambda>classification.
     ebind (summarize_memory_item item) (\<lambda>summary.
     Inr (if classification = ''affective_long_term'' then (affective_items @ [summary], rational_items, filtered_out)
       else if classification = ''rational_operational'' then (affective_items, rational_items @ [summary], filtered_out)
       else (affective_items, rational_items, increment classification filtered_out)))))"

text \<open>\<open>sorted({str(item.get("memory_id") or "") ...})\<close> without the empty ids.\<close>

definition recall_refs :: "dict list \<Rightarrow> string list" where
  "recall_refs items = sorted_set (filter (\<lambda>i. i \<noteq> []) (map (\<lambda>item. str_or (dget item ''memory_id'') []) items))"

definition recall_view :: "string \<Rightarrow> dict list \<Rightarrow> dict \<Rightarrow> dict" where
  "recall_view policy_mode items filtered_out = [
     (''policy_mode'', PStr policy_mode),
     (''selected_count'', PInt (int (length items))),
     (''items'', PList (map PDict (take 5 items))),
     (''source_refs'', PList (map PStr (take 10 (recall_refs items)))),
     (''filtered_out_categories'', PDict filtered_out)]"

definition build_memory_recall_context :: "dict list \<Rightarrow> pyval \<Rightarrow> dict result" where
  "build_memory_recall_context memory_items memory_runtime =
     ebind (efold recall_step ([], [], []) memory_items) (\<lambda>(affective_items, rational_items, filtered_out0).
     let filtered_out = map (\<lambda>(k, n). (k, PInt n)) filtered_out0 in
     ebind (as_dict memory_runtime) (\<lambda>runtime. Inr [
       (''schema_version'', PStr MEMORY_RECALL_POLICY_SCHEMA_VERSION),
       (''lookup_count'', PInt (int (length memory_items))),
       (''backend_kind'', text0 runtime ''backend_kind''),
       (''fallback_backend'', text0 runtime ''fallback_backend''),
       (''fallback_active'', flag runtime ''fallback_active''),
       (''last_lookup_status'', text0 runtime ''last_lookup_status''),
       (''affective_recall'', PDict (recall_view ''affective_long_term_context'' affective_items filtered_out)),
       (''rational_recall'', PDict (recall_view ''rational_operational_context'' rational_items filtered_out)),
       (''filtered_out_categories'', PDict filtered_out),
       (''runtime'', PDict (summarize_runtime_metadata runtime))]))"

section \<open>The prompt-safe context\<close>

definition summarize_maf_runtime :: "dict \<Rightarrow> dict result" where
  "summarize_maf_runtime metadata =
     ebind (sub_dict metadata ''provider_config'') (\<lambda>provider_config.
     ebind (list_of (dget metadata ''agent_roles'')) (\<lambda>agent_roles. Inr [
       (''provider_mode'', text0 metadata ''provider_mode''),
       (''real_provider_enabled'', flag metadata ''real_provider_enabled''),
       (''provider_ready_for_model_call'', flag metadata ''provider_ready_for_model_call''),
       (''provider_kind'', PStr (str_or (dget provider_config ''provider_kind'') ''unknown'')),
       (''agent_roles'', PList agent_roles)]))"

definition summarize_tool_contract :: "dict \<Rightarrow> dict result" where
  "summarize_tool_contract tool =
     ebind (list_of (dget tool ''required_resources'')) (\<lambda>required_resources. Inr [
       (''name'', PStr (str_or (por (dget tool ''name'') (dget tool ''tool_name'')) [])),
       (''side_effect_level'', text0 tool ''side_effect_level''),
       (''required_resources'', PList required_resources),
       (''approval_required'', flag tool ''approval_required'')])"

definition summarize_skill_descriptor :: "dict \<Rightarrow> dict" where
  "summarize_skill_descriptor skill = [
     (''name'', text0 skill ''name''),
     (''schema_version'', text0 skill ''schema_version''),
     (''workflow_plan_required'', flag skill ''workflow_plan_required''),
     (''json_output_required'', flag skill ''json_output_required''),
     (''release_target_promotion_blocked'', flag skill ''release_target_promotion_blocked''),
     (''callback_audit_required'', flag skill ''callback_audit_required'')]"

text \<open>A flag of the descriptor itself, or else of its safety boundaries.\<close>

definition mcp_flag :: "dict \<Rightarrow> dict \<Rightarrow> string \<Rightarrow> pyval" where
  "mcp_flag mcp safety_boundaries k = PBool (if dhas mcp k then truthy (dget mcp k)
     else truthy (dget_or safety_boundaries k (PBool False)))"

definition count_of :: "dict \<Rightarrow> string \<Rightarrow> pyval result" where
  "count_of d k = ebind (py_len (por (dget d k) (PList []))) (\<lambda>n. Inr (PInt n))"

definition summarize_mcp_descriptor :: "dict \<Rightarrow> dict result" where
  "summarize_mcp_descriptor mcp =
     ebind (sub_dict mcp ''safety_boundaries'') (\<lambda>safety_boundaries.
     ebind (count_of mcp ''read_only_tools'') (\<lambda>read_only_tool_count.
     ebind (count_of mcp ''blocked_tools'') (\<lambda>blocked_tool_count. Inr [
       (''bridge_name'', text0 mcp ''bridge_name''),
       (''schema_version'', text0 mcp ''schema_version''),
       (''bridge_mode'', text0 mcp ''bridge_mode''),
       (''transport'', text0 mcp ''transport''),
       (''read_only_tool_count'', read_only_tool_count),
       (''blocked_tool_count'', blocked_tool_count),
       (''tool_execution_via_mcp_forbidden'', mcp_flag mcp safety_boundaries ''tool_execution_via_mcp_forbidden''),
       (''external_mcp_connection_enabled'', mcp_flag mcp safety_boundaries ''external_mcp_connection_enabled'')])))"

definition summarize_affective_runtime_context :: "dict \<Rightarrow> dict result" where
  "summarize_affective_runtime_context context =
     ebind (sub_dict context ''multimodal_summary'') (\<lambda>mm.
     ebind (sub_dict context ''profile_route'') (\<lambda>route.
     ebind (sub_dict context ''presentation_policy'') (\<lambda>policy.
     ebind (list_of (dget mm ''input_modes'')) (\<lambda>input_modes.
     ebind (list_of (dget mm ''response_modes'')) (\<lambda>response_modes.
     ebind (int_or0 (dget mm ''text_count'')) (\<lambda>text_count.
     ebind (list_of (dget mm ''text_preview'')) (\<lambda>text_preview.
     ebind (int_or0 (dget mm ''image_ref_count'')) (\<lambda>image_ref_count.
     ebind (int_or0 (dget mm ''audio_ref_count'')) (\<lambda>audio_ref_count.
     ebind (int_or0 (dget mm ''video_ref_count'')) (\<lambda>video_ref_count.
     ebind (int_or0 (dget route ''candidate_rejection_count'')) (\<lambda>candidate_rejection_count.
     Inr [
       (''schema_version'', text0 context ''schema_version''),
       (''multimodal_summary'', PDict [
          (''request_id'', text0 mm ''request_id''),
          (''input_modes'', PList input_modes),
          (''response_modes'', PList response_modes),
          (''profile_hint'', PStr (str_or (dget mm ''profile_hint'') ''auto'')),
          (''latency_class'', text0 mm ''latency_class''),
          (''text_count'', text_count),
          (''text_preview'', PList text_preview),
          (''image_ref_count'', image_ref_count),
          (''audio_ref_count'', audio_ref_count),
          (''video_ref_count'', video_ref_count),
          (''provenance'', text0 mm ''provenance'')]),
       (''profile_route'', PDict [
          (''requested_profile'', PStr (str_or (dget route ''requested_profile'') ''auto'')),
          (''selected_profile'', text0 route ''selected_profile''),
          (''route_status'', PStr (str_or (dget route ''route_status'') ''unknown'')),
          (''route_reason'', text0 route ''route_reason''),
          (''failure_status'', text0 route ''failure_status''),
          (''fallback_used'', flag route ''fallback_used''),
          (''candidate_rejection_count'', candidate_rejection_count),
          (''requires_live_backend'', flag route ''requires_live_backend''),
          (''route_ready'', flag route ''route_ready'')]),
       (''presentation_policy'', PDict [
          (''prompt_safe_multimodal_summary_only'', flag policy ''prompt_safe_multimodal_summary_only''),
          (''internal_facts_remain_core_owned'', flag policy ''internal_facts_remain_core_owned''),
          (''model_may_not_execute_tools_directly'', flag policy ''model_may_not_execute_tools_directly''),
          (''user_visible_output_separated_from_internal_facts'',
           flag policy ''user_visible_output_separated_from_internal_facts'')])])))))))))))"

text \<open>A value the source measures with \<open>len\<close> and slices: a sequence.\<close>

definition seq_field :: "dict \<Rightarrow> string \<Rightarrow> pyval list result" where
  "seq_field d k = (case por (dget d k) (PList []) of
     PList xs \<Rightarrow> Inr xs | PTuple xs \<Rightarrow> Inr xs | PStr s \<Rightarrow> Inr (map (\<lambda>c. PStr [c]) s)
   | PDict _ \<Rightarrow> Inl (KeyError ''slice'') | _ \<Rightarrow> Inl (TypeError ''object is not subscriptable''))"

text \<open>\<open>[f(x) for x in xs[:n] if isinstance(x, dict)]\<close>.\<close>

definition dicts_of :: "pyval list \<Rightarrow> dict list" where
  "dicts_of xs = concat (map (\<lambda>v. case v of PDict d \<Rightarrow> [d] | _ \<Rightarrow> []) xs)"

definition summarize_first :: "nat \<Rightarrow> (dict \<Rightarrow> dict result) \<Rightarrow> pyval list \<Rightarrow> pyval result" where
  "summarize_first n f xs = ebind (emap f (dicts_of (take n xs))) (\<lambda>ds. Inr (PList (map PDict ds)))"

definition safety_boundaries :: dict where
  "safety_boundaries = [
     (''model_context_only'', PBool True),
     (''can_execute_tools_directly'', PBool False),
     (''tool_execution_requires_core_policy'', PBool True),
     (''approval_and_lease_gates_authoritative'', PBool True),
     (''prompt_safe_multimodal_summary_only'', PBool True)]"

definition prompt_frame :: "perception_frame \<Rightarrow> dict" where
  "prompt_frame frame = [
     (''frame_id'', PStr (pf_frame_id frame)),
     (''event_ids'', PList (map PStr (pf_event_ids frame))),
     (''topics'', PList (map PStr (pf_topics frame))),
     (''highest_priority'', PInt (pf_highest_priority frame))]"

text \<open>\<open>list(memory_recall[view]["items"])\<close>.\<close>

definition recall_items :: "dict \<Rightarrow> string \<Rightarrow> pyval result" where
  "recall_items recall view = ebind (as_dict (dget recall view)) (\<lambda>d.
     ebind (py_list (dget d ''items'')) (\<lambda>xs. Inr (PList xs)))"

definition build_prompt_safe_context ::
    "dict \<Rightarrow> perception_frame \<Rightarrow> dict list \<Rightarrow> pyval list \<Rightarrow> dict result" where
  "build_prompt_safe_context ctx frame memory_items available_tools =
     ebind (build_memory_recall_context memory_items (por (dget ctx ''memory_runtime'') (PDict []))) (\<lambda>memory_recall.
     ebind (sub_dict ctx ''memory_runtime'') (\<lambda>memory_runtime.
     ebind (seq_field ctx ''previous_execution_spans'') (\<lambda>previous_spans.
     ebind (first_n 5 (dget ctx ''recent_audit_ids'')) (\<lambda>recent_audit_ids.
     ebind (summarize_first 5 summarize_execution_span previous_spans) (\<lambda>previous_executions.
     ebind (seq_field ctx ''pending_approval_requests'') (\<lambda>pending.
     ebind (summarize_first 5 summarize_pending_approval pending) (\<lambda>pending_approvals.
     ebind (recall_items memory_recall ''rational_recall'') (\<lambda>rational_items.
     ebind (recall_items memory_recall ''affective_recall'') (\<lambda>affective_items.
     ebind (sub_dict ctx ''maf_runtime'') (\<lambda>maf_runtime.
     ebind (summarize_maf_runtime maf_runtime) (\<lambda>maf.
     ebind (summarize_first 20 summarize_tool_contract available_tools) (\<lambda>tools.
     ebind (seq_field ctx ''skill_descriptors'') (\<lambda>skill_descriptors.
     ebind (summarize_first 5 (\<lambda>d. Inr (summarize_skill_descriptor d)) skill_descriptors) (\<lambda>skills.
     ebind (seq_field ctx ''mcp_descriptors'') (\<lambda>mcp_descriptors.
     ebind (summarize_first 5 summarize_mcp_descriptor mcp_descriptors) (\<lambda>mcp_bridges.
     ebind (sub_dict ctx ''affective_runtime_context'') (\<lambda>affective_context.
     ebind (summarize_affective_runtime_context affective_context) (\<lambda>affective_runtime.
     Inr [
       (''schema_version'', PStr PROMPT_SAFE_CONTEXT_SCHEMA_VERSION),
       (''session_id'', text0 ctx ''session_id''),
       (''execution_span_id'', text0 ctx ''execution_span_id''),
       (''target_app_id'', text0 ctx ''target_app_id''),
       (''frame'', PDict (prompt_frame frame)),
       (''history'', PDict [
          (''previous_execution_count'', PInt (int (length previous_spans))),
          (''recent_audit_ids'', recent_audit_ids),
          (''previous_executions'', previous_executions)]),
       (''pending_approvals'', pending_approvals),
       (''memory'', PDict [
          (''lookup_count'', PInt (int (length memory_items))),
          (''items'', rational_items),
          (''affective_items'', affective_items),
          (''rational_items'', rational_items),
          (''recall_policy'', PDict memory_recall),
          (''runtime'', PDict (summarize_runtime_metadata memory_runtime))]),
       (''runtime'', PDict [
          (''maf'', PDict maf),
          (''memory'', PDict (summarize_runtime_metadata memory_runtime))]),
       (''available_tools'', tools),
       (''skills'', skills),
       (''mcp_bridges'', mcp_bridges),
       (''affective_runtime'', PDict affective_runtime),
       (''safety_boundaries'', PDict safety_boundaries)]))))))))))))))))))"

section \<open>Lemmas\<close>

lemma sum_increment [simp]: "sum_list (map snd (increment c t)) = sum_list (map snd t) + 1"
  by (induction t) (auto simp: increment_def)

definition recalled_as :: "string \<Rightarrow> dict \<Rightarrow> bool" where
  "recalled_as category item \<longleftrightarrow> classify_memory_recall_item item = Inr category"

definition recalled :: "dict \<Rightarrow> bool" where
  "recalled item \<longleftrightarrow> recalled_as ''affective_long_term'' item \<or> recalled_as ''rational_operational'' item"

lemma recall_step_Inr:
  assumes "recall_step (as, rs, f) item = Inr acc"
  obtains c s where "classify_memory_recall_item item = Inr c" "summarize_memory_item item = Inr s"
    "acc = (if c = ''affective_long_term'' then (as @ [s], rs, f)
       else if c = ''rational_operational'' then (as, rs @ [s], f) else (as, rs, increment c f))"
  using assms by (auto simp: recall_step_def)

definition recall_counted :: "dict list \<Rightarrow> recall_acc \<Rightarrow> recall_acc \<Rightarrow> bool" where
  "recall_counted items acc acc' = (case (acc, acc') of ((as, rs, f), (as', rs', f')) \<Rightarrow>
     \<exists>xs ys. as' = as @ xs \<and> rs' = rs @ ys
    \<and> list_all2 (\<lambda>i s. summarize_memory_item i = Inr s) (filter (recalled_as ''affective_long_term'') items) xs
    \<and> list_all2 (\<lambda>i s. summarize_memory_item i = Inr s) (filter (recalled_as ''rational_operational'') items) ys
    \<and> sum_list (map snd f') = sum_list (map snd f) + int (length (filter (\<lambda>i. \<not> recalled i) items)))"

lemma recall_fold: "efold recall_step acc items = Inr acc' \<Longrightarrow> recall_counted items acc acc'"
proof (induction items arbitrary: acc)
  case Nil
  then show ?case by (simp add: recall_counted_def split_beta)
next
  case (Cons item items)
  obtain as rs f where acc: "acc = (as, rs, f)" by (cases acc) auto
  obtain as' rs' f' where acc': "acc' = (as', rs', f')" by (cases acc') auto
  from Cons.prems acc obtain acc1 where step: "recall_step (as, rs, f) item = Inr acc1"
    and rest: "efold recall_step acc1 items = Inr acc'" by auto
  from recall_step_Inr[OF step] obtain c s where cs: "classify_memory_recall_item item = Inr c"
    "summarize_memory_item item = Inr s"
    "acc1 = (if c = ''affective_long_term'' then (as @ [s], rs, f)
       else if c = ''rational_operational'' then (as, rs @ [s], f) else (as, rs, increment c f))" by blast
  note ih = Cons.IH[OF rest]
  consider (aff) "c = ''affective_long_term''" | (rat) "c = ''rational_operational''"
    | (other) "c \<noteq> ''affective_long_term''" "c \<noteq> ''rational_operational''" by blast
  then show ?case
  proof cases
    case aff
    then have "acc1 = (as @ [s], rs, f)" using cs(3) by simp
    from ih[unfolded this acc' recall_counted_def prod.case] obtain xs ys where "as' = (as @ [s]) @ xs" "rs' = rs @ ys"
      "list_all2 (\<lambda>i s. summarize_memory_item i = Inr s) (filter (recalled_as ''affective_long_term'') items) xs"
      "list_all2 (\<lambda>i s. summarize_memory_item i = Inr s) (filter (recalled_as ''rational_operational'') items) ys"
      "sum_list (map snd f') = sum_list (map snd f) + int (length (filter (\<lambda>i. \<not> recalled i) items))"
      by blast
    moreover have "recalled_as ''affective_long_term'' item" "\<not> recalled_as ''rational_operational'' item" "recalled item"
      using aff cs(1) by (simp_all add: recalled_as_def recalled_def)
    ultimately show ?thesis
      unfolding recall_counted_def acc acc' prod.case using cs(2) by (intro exI[of _ "s # xs"] exI[of _ ys]) simp
  next
    case rat
    then have "acc1 = (as, rs @ [s], f)" using cs(3) by simp
    from ih[unfolded this acc' recall_counted_def prod.case] obtain xs ys where "as' = as @ xs" "rs' = (rs @ [s]) @ ys"
      "list_all2 (\<lambda>i s. summarize_memory_item i = Inr s) (filter (recalled_as ''affective_long_term'') items) xs"
      "list_all2 (\<lambda>i s. summarize_memory_item i = Inr s) (filter (recalled_as ''rational_operational'') items) ys"
      "sum_list (map snd f') = sum_list (map snd f) + int (length (filter (\<lambda>i. \<not> recalled i) items))"
      by blast
    moreover have "\<not> recalled_as ''affective_long_term'' item" "recalled_as ''rational_operational'' item" "recalled item"
      using rat cs(1) by (simp_all add: recalled_as_def recalled_def)
    ultimately show ?thesis
      unfolding recall_counted_def acc acc' prod.case using cs(2) by (intro exI[of _ xs] exI[of _ "s # ys"]) simp
  next
    case other
    then have "acc1 = (as, rs, increment c f)" using cs(3) by simp
    note ih' = ih[unfolded this acc' recall_counted_def prod.case]
    have "\<not> recalled_as ''affective_long_term'' item" "\<not> recalled_as ''rational_operational'' item" "\<not> recalled item"
      using other cs(1) by (simp_all add: recalled_as_def recalled_def)
    with ih' show ?thesis
      unfolding recall_counted_def acc acc' prod.case by (simp add: add.assoc)
  qed
qed

lemma recall_class_committed:
  assumes "classify_memory_recall_item item = Inr c" and "c = ''affective_long_term'' \<or> c = ''rational_operational''"
  obtains payload g where "sub_dict item ''payload'' = Inr payload" "sub_dict payload ''memory_governance'' = Inr g"
    "str_or (dget g ''lifecycle_state'') [] = ''committed''"
    "c = ''affective_long_term'' \<Longrightarrow> str_or (dget g ''retention_class'') [] = ''user_context''"
    "c = ''rational_operational'' \<Longrightarrow> str_or (dget g ''retention_class'') [] \<in> {''operational_lesson'', ''operational_context''}"
proof -
  from assms(1) obtain payload g where p: "sub_dict item ''payload'' = Inr payload"
    "sub_dict payload ''memory_governance'' = Inr g"
    and c: "c = (if g = [] then ''ungoverned_memory_result''
       else if str_or (dget g ''lifecycle_state'') [] \<noteq> ''committed''
         then ''lifecycle_'' @ (if str_or (dget g ''lifecycle_state'') [] = [] then ''unknown'' else str_or (dget g ''lifecycle_state'') [])
       else if str_or (dget g ''retention_class'') [] = ''user_context'' then ''affective_long_term''
       else if str_or (dget g ''retention_class'') [] \<in> {''operational_lesson'', ''operational_context''} then ''rational_operational''
       else ''retention_'' @ (if str_or (dget g ''retention_class'') [] = [] then ''unknown'' else str_or (dget g ''retention_class'') []))"
    unfolding classify_memory_recall_item_def Let_def ebind_eq_Inr by blast
  show ?thesis
  proof (rule that[OF p])
    show "str_or (dget g ''lifecycle_state'') [] = ''committed''"
      using c assms(2) by (cases "g = []"; cases "str_or (dget g ''lifecycle_state'') [] = ''committed''") simp_all
    then show "c = ''affective_long_term'' \<Longrightarrow> str_or (dget g ''retention_class'') [] = ''user_context''"
      and "c = ''rational_operational'' \<Longrightarrow> str_or (dget g ''retention_class'') [] \<in> {''operational_lesson'', ''operational_context''}"
      using c by (simp_all split: if_split_asm)
  qed
qed

lemma classified_summary:
  assumes "classify_memory_recall_item item = Inr c" and "summarize_memory_item item = Inr s"
    and "c = ''affective_long_term'' \<or> c = ''rational_operational''"
  shows "dget s ''lifecycle_state'' = PStr ''committed''
    \<and> (if c = ''affective_long_term'' then dget s ''retention_class'' = PStr ''user_context''
       else dget s ''retention_class'' = PStr ''operational_lesson'' \<or> dget s ''retention_class'' = PStr ''operational_context'')"
proof -
  from recall_class_committed[OF assms(1,3)] obtain payload g where
    g: "sub_dict item ''payload'' = Inr payload" "sub_dict payload ''memory_governance'' = Inr g"
    "str_or (dget g ''lifecycle_state'') [] = ''committed''"
    "c = ''affective_long_term'' \<Longrightarrow> str_or (dget g ''retention_class'') [] = ''user_context''"
    "c = ''rational_operational'' \<Longrightarrow> str_or (dget g ''retention_class'') [] \<in> {''operational_lesson'', ''operational_context''}"
    by blast
  have "dget s ''lifecycle_state'' = text0 g ''lifecycle_state''" "dget s ''retention_class'' = text0 g ''retention_class''"
    using assms(2) g(1,2) unfolding summarize_memory_item_def ebind_eq_Inr by auto
  with g assms(3) show ?thesis by (auto simp: text0_def)
qed

text \<open>The value at a path of nested dicts.\<close>

fun vget :: "pyval \<Rightarrow> string list \<Rightarrow> pyval" where
  "vget v [] = v"
| "vget (PDict d) (k # ks) = vget (dget d k) ks"
| "vget _ (k # ks) = PNone"

definition recall_memory_safe :: "string \<Rightarrow> pyval \<Rightarrow> bool" where
  "recall_memory_safe category v \<longleftrightarrow> vget v [''lifecycle_state''] = PStr ''committed''
    \<and> vget v [''retention_class''] \<in> (if category = ''affective_long_term'' then {PStr ''user_context''}
        else {PStr ''operational_lesson'', PStr ''operational_context''})"

definition list_within :: "nat \<Rightarrow> (pyval \<Rightarrow> bool) \<Rightarrow> pyval \<Rightarrow> bool" where
  "list_within n P v = (case v of PList xs \<Rightarrow> length xs \<le> n \<and> list_all P xs | _ \<Rightarrow> False)"

lemma recall_context_Inr:
  assumes "build_memory_recall_context items rt = Inr r"
  obtains as rs f runtime where
    "list_all2 (\<lambda>i s. summarize_memory_item i = Inr s) (filter (recalled_as ''affective_long_term'') items) as"
    "list_all2 (\<lambda>i s. summarize_memory_item i = Inr s) (filter (recalled_as ''rational_operational'') items) rs"
    "sum_list (map snd f) = int (length (filter (\<lambda>i. \<not> recalled i) items))"
    "rt = PDict runtime"
    "dget r ''affective_recall'' = PDict (recall_view ''affective_long_term_context'' as (map (\<lambda>(k, n). (k, PInt n)) f))"
    "dget r ''rational_recall'' = PDict (recall_view ''rational_operational_context'' rs (map (\<lambda>(k, n). (k, PInt n)) f))"
    "dget r ''filtered_out_categories'' = PDict (map (\<lambda>(k, n). (k, PInt n)) f)"
proof -
  from assms obtain as rs f runtime where run: "efold recall_step ([], [], []) items = Inr (as, rs, f)"
    and rt: "rt = PDict runtime" and r: "dget r ''affective_recall'' = PDict (recall_view ''affective_long_term_context'' as (map (\<lambda>(k, n). (k, PInt n)) f))"
    "dget r ''rational_recall'' = PDict (recall_view ''rational_operational_context'' rs (map (\<lambda>(k, n). (k, PInt n)) f))"
    "dget r ''filtered_out_categories'' = PDict (map (\<lambda>(k, n). (k, PInt n)) f)"
    unfolding build_memory_recall_context_def as_dict_def by (auto simp: Let_def split: pyval.splits)
  from recall_fold[OF run] show ?thesis
    using rt r by (intro that[of as rs f runtime]) (auto simp: recall_counted_def)
qed

lemma recalled_summaries_safe:
  assumes "list_all2 (\<lambda>i s. summarize_memory_item i = Inr s) (filter (recalled_as c) items) ss"
    and "c = ''affective_long_term'' \<or> c = ''rational_operational''"
  shows "list_all (recall_memory_safe c) (map PDict (take n ss))"
proof -
  have "recall_memory_safe c (PDict s)" if "s \<in> set ss" for s
  proof -
    from that obtain k where k: "k < length ss" "s = ss ! k" by (auto simp: in_set_conv_nth)
    let ?i = "filter (recalled_as c) items ! k"
    have i: "summarize_memory_item ?i = Inr s" using list_all2_nthD2[OF assms(1) k(1)] k(2) by simp
    have "?i \<in> set (filter (recalled_as c) items)" using k(1) list_all2_lengthD[OF assms(1)] by (metis nth_mem)
    then have "classify_memory_recall_item ?i = Inr c" by (simp add: recalled_as_def)
    from classified_summary[OF this i assms(2)] assms(2) show ?thesis
      by (auto simp: recall_memory_safe_def)
  qed
  then show ?thesis by (auto simp: list_all_iff dest: in_set_takeD)
qed

definition context_shape ::
    "dict \<Rightarrow> perception_frame \<Rightarrow> int \<Rightarrow> int \<Rightarrow> dict \<Rightarrow> dict \<Rightarrow> (string \<Rightarrow> pyval) \<Rightarrow> dict" where
  "context_shape ctx frame nspans nitems recall runtime parts = [
       (''schema_version'', PStr PROMPT_SAFE_CONTEXT_SCHEMA_VERSION),
       (''session_id'', text0 ctx ''session_id''),
       (''execution_span_id'', text0 ctx ''execution_span_id''),
       (''target_app_id'', text0 ctx ''target_app_id''),
       (''frame'', PDict (prompt_frame frame)),
       (''history'', PDict [
          (''previous_execution_count'', PInt nspans),
          (''recent_audit_ids'', parts ''audits''),
          (''previous_executions'', parts ''spans'')]),
       (''pending_approvals'', parts ''approvals''),
       (''memory'', PDict [
          (''lookup_count'', PInt nitems),
          (''items'', parts ''rational''),
          (''affective_items'', parts ''affective''),
          (''rational_items'', parts ''rational''),
          (''recall_policy'', PDict recall),
          (''runtime'', PDict runtime)]),
       (''runtime'', PDict [(''maf'', parts ''maf''), (''memory'', PDict runtime)]),
       (''available_tools'', parts ''tools''),
       (''skills'', parts ''skills''),
       (''mcp_bridges'', parts ''mcps''),
       (''affective_runtime'', parts ''context''),
       (''safety_boundaries'', PDict safety_boundaries)]"

lemma prompt_context_Inr:
  assumes "build_prompt_safe_context ctx frame items tools = Inr c"
  obtains recall spans pending skills mcps runtime parts where
    "c = context_shape ctx frame (int (length spans)) (int (length items)) recall runtime parts"
    "build_memory_recall_context items (por (dget ctx ''memory_runtime'') (PDict [])) = Inr recall"
    "recall_items recall ''affective_recall'' = Inr (parts ''affective'')"
    "recall_items recall ''rational_recall'' = Inr (parts ''rational'')"
    "first_n 5 (dget ctx ''recent_audit_ids'') = Inr (parts ''audits'')"
    "seq_field ctx ''previous_execution_spans'' = Inr spans"
    "summarize_first 5 summarize_execution_span spans = Inr (parts ''spans'')"
    "summarize_first 5 summarize_pending_approval pending = Inr (parts ''approvals'')"
    "summarize_first 20 summarize_tool_contract tools = Inr (parts ''tools'')"
    "summarize_first 5 (\<lambda>d. Inr (summarize_skill_descriptor d)) skills = Inr (parts ''skills'')"
    "summarize_first 5 summarize_mcp_descriptor mcps = Inr (parts ''mcps'')"
proof -
  from assms obtain recall rt spans audits prev pending approvals rat aff maf maf' tl sk skills mc mcps ac ar where
    run: "build_memory_recall_context items (por (dget ctx ''memory_runtime'') (PDict [])) = Inr recall"
    "seq_field ctx ''previous_execution_spans'' = Inr spans"
    "first_n 5 (dget ctx ''recent_audit_ids'') = Inr audits"
    "summarize_first 5 summarize_execution_span spans = Inr prev"
    "summarize_first 5 summarize_pending_approval pending = Inr approvals"
    "recall_items recall ''rational_recall'' = Inr rat" "recall_items recall ''affective_recall'' = Inr aff"
    "summarize_first 20 summarize_tool_contract tools = Inr tl"
    "summarize_first 5 (\<lambda>d. Inr (summarize_skill_descriptor d)) sk = Inr skills"
    "summarize_first 5 summarize_mcp_descriptor mc = Inr mcps"
    and c: "c = context_shape ctx frame (int (length spans)) (int (length items)) recall (summarize_runtime_metadata rt)
      ((\<lambda>_. PNone)(''audits'' := audits, ''spans'' := prev, ''approvals'' := approvals, ''rational'' := rat,
        ''affective'' := aff, ''maf'' := PDict maf', ''tools'' := tl, ''skills'' := skills, ''mcps'' := mcps,
        ''context'' := PDict ar))"
    unfolding build_prompt_safe_context_def ebind_eq_Inr context_shape_def by (elim exE conjE) fastforce
  show ?thesis by (rule that[OF c]; simp add: run(1-4,6-8); rule run)
qed

lemma summarize_first_within:
  assumes "summarize_first n f xs = Inr v"
  shows "list_within n (\<lambda>x. \<exists>d y. x = PDict d \<and> f y = Inr d) v"
proof -
  from assms obtain ds where ds: "emap f (dicts_of (take n xs)) = Inr ds" "v = PList (map PDict ds)"
    by (auto simp: summarize_first_def)
  have "length (dicts_of ys) \<le> length ys" for ys
    by (induction ys) (auto simp: dicts_of_def split: pyval.splits)
  from this[of "take n xs"] have "length ds \<le> n" using emap_length[OF ds(1)] by simp
  moreover have "\<forall>d \<in> set ds. \<exists>y. f y = Inr d"
    using ds(1) by (auto simp: emap_Inr_iff list_all2_conv_all_nth in_set_conv_nth) blast
  ultimately show ?thesis using ds(2) by (auto simp: list_within_def list_all_iff)
qed

lemma first_n_within: "first_n n v = Inr w \<Longrightarrow> list_within n (\<lambda>_. True) w"
  by (auto simp: first_n_def list_within_def list_all_iff)

lemma recall_items_view: "dget r k = PDict (recall_view m ss f) \<Longrightarrow> recall_items r k = Inr (PList (map PDict (take 5 ss)))"
  by (simp add: recall_items_def recall_view_def)

text \<open>C36: Whatever the lookup returned, a memory reaches the prompt only when it is committed and of a
  retained class: the affective view holds at most five committed user-context memories, the
  rational view at most five committed operational ones (\<open>items\<close> is the rational view), and the
  counts the context reports are those of the lookup.\<close>

theorem prompt_memory_safe:
  assumes "build_prompt_safe_context ctx frame items tools = Inr c"
  shows "list_within 5 (recall_memory_safe ''affective_long_term'') (vget (PDict c) [''memory'', ''affective_items''])
    \<and> list_within 5 (recall_memory_safe ''rational_operational'') (vget (PDict c) [''memory'', ''rational_items''])
    \<and> vget (PDict c) [''memory'', ''items''] = vget (PDict c) [''memory'', ''rational_items'']
    \<and> vget (PDict c) [''memory'', ''lookup_count''] = PInt (int (length items))
    \<and> vget (PDict c) [''memory'', ''recall_policy'', ''affective_recall'', ''selected_count''] =
        PInt (int (length (filter (recalled_as ''affective_long_term'') items)))
    \<and> vget (PDict c) [''memory'', ''recall_policy'', ''rational_recall'', ''selected_count''] =
        PInt (int (length (filter (recalled_as ''rational_operational'') items)))"
proof -
  obtain recall n rt parts where
    c: "c = context_shape ctx frame n (int (length items)) recall rt parts"
    and recall: "build_memory_recall_context items (por (dget ctx ''memory_runtime'') (PDict [])) = Inr recall"
    and views: "recall_items recall ''affective_recall'' = Inr (parts ''affective'')"
      "recall_items recall ''rational_recall'' = Inr (parts ''rational'')"
    by (rule prompt_context_Inr[OF assms]) (rule that; assumption)
  obtain as rs f where
    as: "list_all2 (\<lambda>i s. summarize_memory_item i = Inr s) (filter (recalled_as ''affective_long_term'') items) as"
    and rs: "list_all2 (\<lambda>i s. summarize_memory_item i = Inr s) (filter (recalled_as ''rational_operational'') items) rs"
    and v: "dget recall ''affective_recall'' = PDict (recall_view ''affective_long_term_context'' as (map (\<lambda>(k, n). (k, PInt n)) f))"
      "dget recall ''rational_recall'' = PDict (recall_view ''rational_operational_context'' rs (map (\<lambda>(k, n). (k, PInt n)) f))"
    by (rule recall_context_Inr[OF recall]) (rule that; assumption)
  have "parts ''affective'' = PList (map PDict (take 5 as))" "parts ''rational'' = PList (map PDict (take 5 rs))"
    using views recall_items_view[OF v(1)] recall_items_view[OF v(2)] by simp_all
  moreover have "vget (PDict recall) [''affective_recall'', ''selected_count''] = PInt (int (length as))"
    "vget (PDict recall) [''rational_recall'', ''selected_count''] = PInt (int (length rs))"
    using v by (simp_all add: recall_view_def)
  moreover note recalled_summaries_safe[OF as, of 5] recalled_summaries_safe[OF rs, of 5]
    list_all2_lengthD[OF as] list_all2_lengthD[OF rs]
  ultimately show ?thesis by (simp add: list_within_def c context_shape_def)
qed

definition committed_item :: "string \<Rightarrow> string \<Rightarrow> dict" where
  "committed_item i c = [(''memory_id'', PStr i), (''payload'', PDict [(''memory_governance'', PDict [
     (''lifecycle_state'', PStr ''committed''), (''retention_class'', PStr c)])])]"

definition sample_session_frame :: perception_frame where
  "sample_session_frame = \<lparr> pf_frame_id = ''frame-1'', pf_event_ids = [''evt-1''], pf_highest_priority = 50,
     pf_topics = [''unit.callback''] \<rparr>"

theorem prompt_memory_safe_witness:
  "\<exists>c. build_prompt_safe_context [] sample_session_frame
      [committed_item ''m1'' ''user_context'', [(''memory_id'', PStr ''m2'')]] [] = Inr c
    \<and> list_within 5 (recall_memory_safe ''affective_long_term'') (vget (PDict c) [''memory'', ''affective_items''])
    \<and> vget (PDict c) [''memory'', ''lookup_count''] = PInt 2"
proof -
  let ?items = "[committed_item ''m1'' ''user_context'', [(''memory_id'', PStr ''m2'')]]"
  have "\<not> isl (build_prompt_safe_context [] sample_session_frame ?items [])" by code_simp
  then obtain c where c: "build_prompt_safe_context [] sample_session_frame ?items [] = Inr c"
    by (auto simp: isl_def split: sum.splits) (metis sum.exhaust)
  from prompt_memory_safe[OF c] c show ?thesis by simp
qed

text \<open>A dict with exactly these keys, in this order.\<close>

definition fields :: "string list \<Rightarrow> pyval \<Rightarrow> bool" where
  "fields ks v = (case v of PDict d \<Rightarrow> map fst d = ks | _ \<Rightarrow> False)"

definition approval_fields :: "string list" where
  "approval_fields = [''approval_request_id'', ''tool_name'', ''status'', ''side_effect_level'',
     ''required_resources'', ''target_app_id'']"

lemma list_within_mono: "list_within n P v \<Longrightarrow> (\<And>x. P x \<Longrightarrow> Q x) \<Longrightarrow> list_within n Q v"
  by (auto simp: list_within_def list_all_iff split: pyval.splits)

lemma span_summary_steps: "summarize_execution_span d = Inr s \<Longrightarrow> list_within 12 (\<lambda>_. True) (vget (PDict s) [''steps''])"
  by (auto simp: summarize_execution_span_def intro: first_n_within)

lemma approval_summary_fields: "summarize_pending_approval d = Inr s \<Longrightarrow> fields approval_fields (PDict s)"
  by (auto simp: summarize_pending_approval_def fields_def approval_fields_def)

lemma tool_summary_fields:
  "summarize_tool_contract d = Inr s \<Longrightarrow> fields [''name'', ''side_effect_level'', ''required_resources'', ''approval_required''] (PDict s)"
  by (auto simp: summarize_tool_contract_def fields_def)



section \<open>What the context does not depend on\<close>

definition same_keys :: "string list \<Rightarrow> dict \<Rightarrow> dict \<Rightarrow> bool" where
  "same_keys ks d e \<longleftrightarrow> list_all (\<lambda>k. dget d k = dget e k) ks"

text \<open>Two pending approvals that agree outside the requested arguments and other unlisted fields.\<close>

definition approvals_agree :: "pyval \<Rightarrow> pyval \<Rightarrow> bool" where
  "approvals_agree u v = (case (u, v) of
     (PDict a, PDict b) \<Rightarrow> same_keys [''approval_request_id'', ''tool_name'', ''status''] a b
        \<and> (case (dget a ''payload'', dget b ''payload'') of
            (PDict p, PDict q) \<Rightarrow> same_keys [''tool_name'', ''status'', ''side_effect_level'', ''required_resources'',
               ''target_app_id'', ''contract''] p q
          | _ \<Rightarrow> False)
   | _ \<Rightarrow> False)"

lemma approvals_agree_dicts:
  assumes "approvals_agree u v"
  obtains a b where "u = PDict a" "v = PDict b" "summarize_pending_approval a = summarize_pending_approval b"
proof -
  from assms obtain a b p q where *: "u = PDict a" "v = PDict b" "dget a ''payload'' = PDict p" "dget b ''payload'' = PDict q"
    "same_keys [''approval_request_id'', ''tool_name'', ''status''] a b"
    "same_keys [''tool_name'', ''status'', ''side_effect_level'', ''required_resources'', ''target_app_id'', ''contract''] p q"
    by (auto simp: approvals_agree_def split: pyval.splits)
  have "sub_dict a ''payload'' = Inr p" "sub_dict b ''payload'' = Inr q"
    using *(3,4) by (cases p; cases q; simp add: sub_dict_def por_def)+
  moreover have "sub_dict p ''contract'' = sub_dict q ''contract''"
    using *(6) by (simp add: same_keys_def sub_dict_def)
  ultimately have "summarize_pending_approval a = summarize_pending_approval b"
    using *(5,6) by (simp add: summarize_pending_approval_def same_keys_def text0_def cong: ebind_cong)
  with * show ?thesis by (intro that)
qed

lemma summarize_first_agree:
  "list_all2 approvals_agree ps qs \<Longrightarrow>
    summarize_first n summarize_pending_approval ps = summarize_first n summarize_pending_approval qs"
proof (induction arbitrary: n rule: list_all2_induct)
  case Nil
  then show ?case by simp
next
  case (Cons u us v vs)
  from approvals_agree_dicts[OF Cons.hyps(1)] obtain a b where
    "u = PDict a" "v = PDict b" "summarize_pending_approval a = summarize_pending_approval b" by blast
  moreover have "emap summarize_pending_approval (dicts_of (take m us)) = emap summarize_pending_approval (dicts_of (take m vs))" for m
  proof -
    have inj: "ebind x (\<lambda>ds. Inr (PList (map PDict ds))) = ebind y (\<lambda>ds. Inr (PList (map PDict ds))) \<longleftrightarrow> x = y"
      for x y :: "dict list result"
      by (cases x; cases y) (auto simp: inj_map_eq_map inj_def)
    show ?thesis using Cons.IH[of m] by (simp add: summarize_first_def inj)
  qed
  ultimately show ?case by (cases n) (simp_all add: summarize_first_def dicts_of_def)
qed

text \<open>The requested arguments of a pending approval never reach the model: replacing the pending
  approvals by others that agree on the identifying fields (and differ in arguments, rationale or
  any other payload field) gives the same prompt-safe context.\<close>

theorem prompt_hides_approval_arguments:
  assumes "list_all2 approvals_agree ps qs"
  shows "build_prompt_safe_context (dset ctx ''pending_approval_requests'' (PList ps)) frame items tools =
    build_prompt_safe_context (dset ctx ''pending_approval_requests'' (PList qs)) frame items tools"
proof -
  have seq: "seq_field (dset ctx ''pending_approval_requests'' (PList xs)) ''pending_approval_requests'' = Inr xs" for xs
    by (cases xs) (simp_all add: seq_field_def)
  have other: "seq_field (dset ctx ''pending_approval_requests'' v) k = seq_field ctx k"
    "sub_dict (dset ctx ''pending_approval_requests'' v) k = sub_dict ctx k"
    "text0 (dset ctx ''pending_approval_requests'' v) k = text0 ctx k"
    if "k \<noteq> ''pending_approval_requests''" for k v
    using that by (simp_all add: seq_field_def sub_dict_def text0_def)
  show ?thesis
    by (simp add: build_prompt_safe_context_def seq other summarize_first_agree[OF assms] cong: ebind_cong)
qed

theorem prompt_hides_approval_arguments_witness:
  "build_prompt_safe_context (dset [] ''pending_approval_requests''
      (PList [PDict [(''payload'', PDict [(''requested_args'', PStr ''secret'')])]])) sample_session_frame [] [] =
    build_prompt_safe_context (dset [] ''pending_approval_requests''
      (PList [PDict [(''payload'', PDict [(''rationale'', PNone)])]])) sample_session_frame [] []"
  by (rule prompt_hides_approval_arguments) (simp add: approvals_agree_def same_keys_def)

end
