(* ===== verification/Effects.thy ===== *)
theory Effects
  imports Prelude
begin

text \<open>
  Code whose effects survive an exception: a program takes a state and returns a value or an
  exception, together with the state it left behind. \<open>triple\<close> is the usual partial-state
  specification with a postcondition for normal and one for exceptional ends; its rules follow
  the structure of a program.
\<close>

type_synonym ('s, 'a) prog = "'s \<Rightarrow> 'a result \<times> 's"

definition pret :: "'a \<Rightarrow> ('s, 'a) prog" where
  "pret x s = (Inr x, s)"

definition pfail :: "py_error \<Rightarrow> ('s, 'a) prog" where
  "pfail e s = (Inl e, s)"

definition plift :: "'a result \<Rightarrow> ('s, 'a) prog" where
  "plift r s = (r, s)"

definition pread :: "('s \<Rightarrow> 'a) \<Rightarrow> ('s, 'a) prog" where
  "pread f s = (Inr (f s), s)"

definition pbind :: "('s, 'a) prog \<Rightarrow> ('a \<Rightarrow> ('s, 'b) prog) \<Rightarrow> ('s, 'b) prog" where
  "pbind m f s = (case m s of (Inl e, s') \<Rightarrow> (Inl e, s') | (Inr x, s') \<Rightarrow> f x s')"

text \<open>An operation that returns a new state, or raises and leaves the state alone.\<close>

definition pupdate :: "('s \<Rightarrow> ('a \<times> 's) result) \<Rightarrow> ('s, 'a) prog" where
  "pupdate f s = (case f s of Inl e \<Rightarrow> (Inl e, s) | Inr (x, s') \<Rightarrow> (Inr x, s'))"

lemma pbind_simps [simp]:
  "pbind (pret x) f = f x"
  "pbind (pfail e) f = pfail e"
  "pbind (plift (Inr x)) f = f x"
  "pbind (plift (Inl e)) f = pfail e"
  by (simp_all add: pbind_def pret_def pfail_def plift_def fun_eq_iff)

lemma pbind_assoc: "pbind (pbind m f) g = pbind m (\<lambda>x. pbind (f x) g)"
  by (auto simp: pbind_def fun_eq_iff split: prod.splits sum.splits)

lemma pbind_Inr:
  "pbind m f s = (Inr y, t) \<longleftrightarrow> (\<exists>x s'. m s = (Inr x, s') \<and> f x s' = (Inr y, t))"
  by (auto simp: pbind_def split: prod.splits sum.splits)

definition triple ::
    "('s \<Rightarrow> bool) \<Rightarrow> ('s, 'a) prog \<Rightarrow> ('a \<Rightarrow> 's \<Rightarrow> bool) \<Rightarrow> ('s \<Rightarrow> bool) \<Rightarrow> bool" where
  "triple P m Q E \<longleftrightarrow> (\<forall>s. P s \<longrightarrow> (case m s of (Inr x, s') \<Rightarrow> Q x s' | (Inl e, s') \<Rightarrow> E s'))"

lemma triple_Inr: "triple P m Q E \<Longrightarrow> P s \<Longrightarrow> m s = (Inr x, s') \<Longrightarrow> Q x s'"
  by (fastforce simp: triple_def)

lemma triple_Inl: "triple P m Q E \<Longrightarrow> P s \<Longrightarrow> m s = (Inl e, s') \<Longrightarrow> E s'"
  by (fastforce simp: triple_def)

lemma triple_end: "triple P m (\<lambda>_. R) R \<Longrightarrow> P s \<Longrightarrow> R (snd (m s))"
proof -
  assume t: "triple P m (\<lambda>_. R) R" and P: "P s"
  obtain r s' where m: "m s = (r, s')" by (cases "m s")
  show "R (snd (m s))"
  proof (cases r)
    case (Inl e)
    with m triple_Inl[OF t P] show ?thesis by simp
  next
    case (Inr x)
    with m triple_Inr[OF t P] show ?thesis by simp
  qed
qed

lemma triple_bind:
  assumes "triple P m R E" and "\<And>x. triple (R x) (f x) Q E"
  shows "triple P (pbind m f) Q E"
  unfolding triple_def
proof (intro allI impI)
  fix s assume P: "P s"
  show "case pbind m f s of (Inr x, s') \<Rightarrow> Q x s' | (Inl e, s') \<Rightarrow> E s'"
  proof (cases "m s")
    case (Pair r s')
    show ?thesis
    proof (cases r)
      case (Inl e)
      with Pair triple_Inl[OF assms(1) P] show ?thesis by (simp add: pbind_def)
    next
      case (Inr x)
      with Pair triple_Inr[OF assms(1) P] have "R x s'" by simp
      from assms(2)[of x, unfolded triple_def, rule_format, OF this]
      show ?thesis using Pair Inr by (simp add: pbind_def)
    qed
  qed
qed

lemma triple_weaken:
  assumes "triple P' m Q' E'" and "\<And>s. P s \<Longrightarrow> P' s" and "\<And>x s. Q' x s \<Longrightarrow> Q x s" and "\<And>s. E' s \<Longrightarrow> E s"
  shows "triple P m Q E"
  unfolding triple_def
proof (intro allI impI)
  fix s assume "P s"
  with assms(2) have P: "P' s" by blast
  obtain r s' where m: "m s = (r, s')" by (cases "m s")
  show "case m s of (Inr x, s') \<Rightarrow> Q x s' | (Inl e, s') \<Rightarrow> E s'"
  proof (cases r)
    case (Inl e)
    with m triple_Inl[OF assms(1) P] assms(4) show ?thesis by simp
  next
    case (Inr x)
    with m triple_Inr[OF assms(1) P] assms(3) show ?thesis by simp
  qed
qed

lemma triple_pret [intro]: "(\<And>s. P s \<Longrightarrow> Q x s) \<Longrightarrow> triple P (pret x) Q E"
  by (simp add: triple_def pret_def)

lemma triple_pfail [intro]: "(\<And>s. P s \<Longrightarrow> E s) \<Longrightarrow> triple P (pfail e) Q E"
  by (simp add: triple_def pfail_def)

lemma triple_plift: "(\<And>s x. P s \<Longrightarrow> r = Inr x \<Longrightarrow> Q x s) \<Longrightarrow> (\<And>s. P s \<Longrightarrow> E s) \<Longrightarrow> triple P (plift r) Q E"
  by (cases r) (auto simp: triple_def plift_def)

lemma triple_pread: "(\<And>s. P s \<Longrightarrow> Q (f s) s) \<Longrightarrow> triple P (pread f) Q E"
  by (simp add: triple_def pread_def)

lemma triple_pupdate:
  "(\<And>s x s'. P s \<Longrightarrow> f s = Inr (x, s') \<Longrightarrow> Q x s') \<Longrightarrow> (\<And>s. P s \<Longrightarrow> E s) \<Longrightarrow> triple P (pupdate f) Q E"
  by (auto simp: triple_def pupdate_def split: sum.splits prod.splits)

lemma triple_if:
  "(b \<Longrightarrow> triple P m Q E) \<Longrightarrow> (\<not> b \<Longrightarrow> triple P m' Q E) \<Longrightarrow> triple P (if b then m else m') Q E"
  by simp

lemma triple_pure: "(b \<Longrightarrow> triple P m Q E) \<Longrightarrow> triple (\<lambda>s. P s \<and> b) m Q E"
  by (simp add: triple_def)

text \<open>A property of the state that a program keeps, however it ends.\<close>

abbreviation keeps :: "('s \<Rightarrow> bool) \<Rightarrow> ('s, 'a) prog \<Rightarrow> bool" where
  "keeps P m \<equiv> triple P m (\<lambda>_. P) P"

lemma keeps_bind: "keeps P m \<Longrightarrow> (\<And>x. keeps P (f x)) \<Longrightarrow> keeps P (pbind m f)"
  by (rule triple_bind)

lemma keeps_basic [simp]: "keeps P (pret x)" "keeps P (pfail e)" "keeps P (plift r)" "keeps P (pread g)"
  by (auto intro: triple_plift triple_pread)

end
