(* ===== verification/Approval.thy ===== *)
theory Approval
  imports Effects Tools Session
begin

text \<open>
  The approval slice of \<open>neurolink_core/workflow.py\<close>: the operator requirements of a pending
  request, the context shown with it, and \<open>apply_approval_decision\<close>, which decides a request
  and, when it is approved and its resources are there, resumes the delegated tool call.

  The writes that precede an exception stay (every \<open>persist_*\<close> commits), so the functions are
  programs over a world: the store, the environment and the state of the tool adapter. An
  adapter that raises is taken to leave its own state alone. The adapter is always given; the
  default \<open>FakeUnitToolAdapter()\<close> of the source is one instance (\<^const>\<open>fake_execute\<close>).
  \<open>result.payload[...] = ...\<close> is an update of the result; whether the adapter keeps a reference
  to that payload is not modelled. An empty \<open>approval_metadata\<close> stands for None.
\<close>

type_synonym 'a world = "store \<times> env \<times> 'a"

definition call_tool :: "'a adapter \<Rightarrow> string \<Rightarrow> dict \<Rightarrow> ('a world, ToolExecutionResult) prog" where
  "call_tool execute t args = pupdate (\<lambda>(s, w, a). ebind (execute t args (a, w)) (\<lambda>(r, a', w'). Inr (r, s, w', a')))"

definition on_db :: "(db \<Rightarrow> ('x \<times> db) result) \<Rightarrow> ('a world, 'x) prog" where
  "on_db f = pupdate (\<lambda>(s, w, a). ebind (f (s, w)) (\<lambda>(x, s', w'). Inr (x, s', w', a)))"

definition write_db :: "(db \<Rightarrow> db result) \<Rightarrow> ('a world, unit) prog" where
  "write_db f = on_db (\<lambda>d. ebind (f d) (\<lambda>d'. Inr ((), d')))"

definition draw_id :: "string \<Rightarrow> ('a world, string) prog" where
  "draw_id p = on_db (\<lambda>(s, w). case new_id p w of (i, w') \<Rightarrow> Inr (i, s, w'))"

definition query :: "(store \<Rightarrow> 'x) \<Rightarrow> ('a world, 'x) prog" where
  "query f = pread (\<lambda>(s, w, a). f s)"

definition query_ok :: "(store \<Rightarrow> 'x result) \<Rightarrow> ('a world, 'x) prog" where
  "query_ok f = pbind (query f) plift"

section \<open>Observations\<close>

definition first_lease_name :: "dict \<Rightarrow> string option" where
  "first_lease_name lease = (case filter (\<lambda>v. case v of PStr s \<Rightarrow> s \<noteq> [] | _ \<Rightarrow> False)
      (map (dget lease) [''resource'', ''resource_name'', ''lease_name'', ''name'']) of
     PStr s # _ \<Rightarrow> Some s | _ \<Rightarrow> None)"

definition extract_observed_resource_names :: "pyval list \<Rightarrow> string list" where
  "extract_observed_resource_names leases = sorted_set (List.map_filter first_lease_name (dicts_of leases))"

text \<open>
  \<open>_extract_observed_lease_rows\<close> and \<open>_extract_observed_app_rows\<close> are the same function but for
  the key they read last.
\<close>

definition observed_rows :: "string \<Rightarrow> dict \<Rightarrow> dict list result" where
  "observed_rows key observation = (
     if dget observation ''status'' \<noteq> PStr ''ok'' then Inr []
     else case dget observation ''payload'' of
       PDict payload \<Rightarrow> (case dget payload ''result'' of
         PDict result_payload \<Rightarrow> (case dget result_payload ''replies'' of
           PList (reply # _) \<Rightarrow> ebind (as_dict reply) (\<lambda>first_reply.
             case dget first_reply ''payload'' of
               PDict reply_payload \<Rightarrow> (case dget reply_payload key of
                   PList rows \<Rightarrow> Inr (dicts_of rows) | _ \<Rightarrow> Inr [])
             | _ \<Rightarrow> Inr [])
         | _ \<Rightarrow> Inr [])
       | _ \<Rightarrow> Inr [])
     | _ \<Rightarrow> Inr [])"

definition extract_observed_lease_rows :: "dict \<Rightarrow> dict list result" where
  "extract_observed_lease_rows = observed_rows ''leases''"

definition extract_observed_app_rows :: "dict \<Rightarrow> dict list result" where
  "extract_observed_app_rows = observed_rows ''apps''"

section \<open>Operator requirements\<close>

text \<open>The parts of \<open>_build_operator_requirements\<close>, in the order it computes them.\<close>

definition required_resources_of :: "dict \<Rightarrow> string list" where
  "required_resources_of request_payload = (case dget request_payload ''required_resources'' of
     PList xs \<Rightarrow> map py_str xs | PTuple xs \<Rightarrow> map py_str xs | _ \<Rightarrow> [])"

definition requested_app :: "dict \<Rightarrow> pyval \<Rightarrow> string result" where
  "requested_app request_payload recovery =
     ebind (as_dict (por (dget request_payload ''requested_args'') (PDict []))) (\<lambda>requested_args.
     let v = por (por (dget requested_args ''app_id'') (dget requested_args ''app''))
               (dget request_payload ''target_app_id'') in
     if truthy v then Inr (py_str v)
     else ebind (as_dict recovery) (\<lambda>r. Inr (str_or (dget r ''app_id'') [])))"

definition observed_app_name :: "dict \<Rightarrow> string" where
  "observed_app_name app = str_or (por (por (dget app ''app_id'') (dget app ''name'')) (dget app ''app'')) []"

definition target_app :: "string \<Rightarrow> dict list \<Rightarrow> string" where
  "target_app requested observed_apps = (case observed_apps of
     [app] \<Rightarrow> if requested = [] then observed_app_name app else requested
   | _ \<Rightarrow> requested)"

text \<open>A required resource: resolved to the name of a lease, or left unresolved.\<close>

definition resolve_resource :: "string \<Rightarrow> string \<Rightarrow> string option" where
  "resolve_resource target_app_id resource = (
     if resource = ''app_control_lease'' then
       (if target_app_id \<noteq> [] then Some (''app/'' @ target_app_id @ ''/control'') else None)
     else if resource = ''update_rollback_lease'' then
       (if target_app_id \<noteq> [] then Some (''update/app/'' @ target_app_id @ ''/rollback'') else None)
     else Some resource)"

definition resolved_resources :: "string \<Rightarrow> string list \<Rightarrow> string list" where
  "resolved_resources target_app_id = List.map_filter (resolve_resource target_app_id)"

definition unresolved_resources :: "string \<Rightarrow> string list \<Rightarrow> string list" where
  "unresolved_resources target_app_id = filter (\<lambda>r. resolve_resource target_app_id r = None)"

definition matching_leases :: "string list \<Rightarrow> dict list \<Rightarrow> string list" where
  "matching_leases resolved leases = filter (\<lambda>i. i \<noteq> []) (map (\<lambda>l. str_or (dget l ''lease_id'') [])
     (filter (\<lambda>l. str_or (dget l ''resource'') [] \<in> set resolved) leases))"

definition missing_resources :: "string list \<Rightarrow> string list \<Rightarrow> string list \<Rightarrow> string list" where
  "missing_resources resolved unresolved observed = filter (\<lambda>r. r \<notin> set observed) resolved @ unresolved"

text \<open>\<open>v or None\<close>, and a list of texts as a value.\<close>

abbreviation or_none :: "pyval \<Rightarrow> pyval" where
  "or_none v \<equiv> por v PNone"

abbreviation texts :: "string list \<Rightarrow> pyval" where
  "texts xs \<equiv> PList (map PStr xs)"

definition requirements_dict ::
    "dict \<Rightarrow> pyval \<Rightarrow> pyval \<Rightarrow> pyval \<Rightarrow> dict \<Rightarrow> dict \<Rightarrow> dict \<Rightarrow> dict result" where
  "requirements_dict request_payload plan_quality skill mcp lease_observation apps_observation
      state_sync_observation =
     ebind (extract_observed_lease_rows lease_observation) (\<lambda>observed_leases.
     ebind (extract_observed_app_rows apps_observation) (\<lambda>observed_apps.
     let recovery = por (dget request_payload ''recovery_candidate_summary'') (PDict []);
         required = required_resources_of request_payload in
     ebind (requested_app request_payload recovery) (\<lambda>requested.
     let target_app_id = target_app requested observed_apps;
         observed = extract_observed_resource_names (map PDict observed_leases);
         resolved = resolved_resources target_app_id required;
         unresolved = unresolved_resources target_app_id required;
         missing = missing_resources resolved unresolved observed in
     ebind (as_dict skill) (\<lambda>skill_requirements.
     let plan_required = truthy (dget skill_requirements ''workflow_plan_required'');
         plan_present = truthy (dget skill_requirements ''workflow_plan_evidence_present'') in
     ebind (as_dict (por (dget request_payload ''contract'') (PDict []))) (\<lambda>contract.
     Inr [
       (''resource'', PStr (str_or (por (dget contract ''resource'') (dget request_payload ''tool_name'')) [])),
       (''required_resources'', texts required),
       (''resolved_required_resources'', texts resolved),
       (''unresolved_required_resources'', texts unresolved),
       (''observed_resources'', texts observed),
       (''missing_required_resources'', texts missing),
       (''resource_requirements_satisfied'', PBool (missing = [])),
       (''plan_quality'', or_none plan_quality),
       (''skill_requirements'', or_none skill),
       (''mcp_requirements'', or_none mcp),
       (''workflow_plan_required'', PBool plan_required),
       (''workflow_plan_evidence_present'', PBool plan_present),
       (''missing_operational_prerequisites'',
          texts (if plan_required \<and> \<not> plan_present then [''workflow_plan_evidence''] else [])),
       (''cleanup_hint'', dget request_payload ''cleanup_hint''),
       (''target_app_id'', PStr target_app_id),
       (''matching_lease_ids'', texts (matching_leases resolved observed_leases)),
       (''recovery_candidate_summary'', or_none recovery),
       (''lease_observation'', PDict lease_observation),
       (''apps_observation'', PDict apps_observation),
       (''state_sync_observation'', PDict state_sync_observation)])))))"

text \<open>One read-only observation through the adapter.\<close>

definition operator_inspect :: "'a adapter \<Rightarrow> string \<Rightarrow> ('a world, dict) prog" where
  "operator_inspect execute t = pbind (call_tool execute t [(''reason'', PStr ''approval_operator_inspect'')])
     (\<lambda>r. pret (ToolExecutionResult_to_dict r))"

definition build_operator_requirements :: "'a adapter \<Rightarrow> dict \<Rightarrow> ('a world, dict) prog" where
  "build_operator_requirements execute approval_request =
     pbind (plift (ebind (dindex approval_request ''payload'') as_dict)) (\<lambda>request_payload.
     let plan_quality = por (dget request_payload ''plan_quality'') (PDict []) in
     pbind (plift (as_dict plan_quality)) (\<lambda>plan.
     let skill = por (por (dget plan ''skill_requirements'') (dget request_payload ''skill_requirements'')) (PDict []);
         mcp = por (por (dget plan ''mcp_requirements'') (dget request_payload ''mcp_requirements'')) (PDict []) in
     pbind (operator_inspect execute ''system_query_leases'') (\<lambda>lease_observation.
     pbind (operator_inspect execute ''system_query_apps'') (\<lambda>apps_observation.
     pbind (operator_inspect execute ''system_state_sync'') (\<lambda>state_sync_observation.
     plift (requirements_dict request_payload plan_quality skill mcp
       lease_observation apps_observation state_sync_observation))))))"

section \<open>Approval context\<close>

text \<open>The evidence of an execution whose span and audit id are known; of a span whose audit id is in it.\<close>

definition span_audit :: "dict option \<Rightarrow> pyval result" where
  "span_audit sp = (case sp of None \<Rightarrow> Inr PNone | Some d \<Rightarrow> span_audit_id d)"

definition evidence_for :: "store \<Rightarrow> string \<Rightarrow> pyval \<Rightarrow> dict option result" where
  "evidence_for s span_id audit_id = (if audit_id = PNone then Inr None
     else ebind (build_execution_evidence s span_id (py_str audit_id)) (\<lambda>e. Inr (Some e)))"

definition resumed_evidence :: "store \<Rightarrow> dict \<Rightarrow> dict option \<Rightarrow> dict option result" where
  "resumed_evidence s approval_request resumed_execution = (case resumed_execution of
     Some r \<Rightarrow>
       ebind (dindex r ''execution_span_id'') (\<lambda>i.
       ebind (dindex r ''audit_id'') (\<lambda>a.
       ebind (build_execution_evidence s (py_str i) (py_str a)) (\<lambda>e. Inr (Some e))))
   | None \<Rightarrow>
       ebind (ebind (dindex approval_request ''payload'') as_dict) (\<lambda>payload.
       let i = dget payload ''resumed_execution_span_id'' in
       if i = PNone then Inr None
       else ebind (span_audit (get_execution_span s (py_str i))) (\<lambda>a. evidence_for s (py_str i) a)))"

definition rational_evidence :: "dict option \<Rightarrow> pyval result" where
  "rational_evidence evidence = (case evidence of None \<Rightarrow> Inr PNone | Some e \<Rightarrow>
     ebind (sub_dict e ''audit_record'') (\<lambda>audit_record.
     ebind (sub_dict audit_record ''payload'') (\<lambda>audit_payload.
     Inr (por (dget audit_payload ''rational_plan_evidence'') (PDict [])))))"

definition build_approval_context ::
    "'a adapter \<Rightarrow> dict \<Rightarrow> dict option \<Rightarrow> dict option \<Rightarrow> ('a world, dict) prog" where
  "build_approval_context execute approval_request resumed_execution operator_requirements =
     pbind (plift (dindex approval_request ''source_execution_span_id'')) (\<lambda>source.
     pbind (query (\<lambda>s. get_execution_span s (py_str source))) (\<lambda>source_span.
     pbind (plift (span_audit source_span)) (\<lambda>source_audit_id.
     pbind (query_ok (\<lambda>s. evidence_for s (py_str source) source_audit_id)) (\<lambda>source_evidence.
     pbind (query_ok (\<lambda>s. resumed_evidence s approval_request resumed_execution)) (\<lambda>resumed.
     pbind (case operator_requirements of Some r \<Rightarrow> pret r
        | None \<Rightarrow> build_operator_requirements execute approval_request) (\<lambda>requirements.
     pbind (plift (rational_evidence source_evidence)) (\<lambda>rational.
     let effective = (if truthy rational then dset requirements ''rational_plan_evidence'' rational
                      else requirements) in
     pret [
       (''source_execution_span'', opt_dict source_span),
       (''source_execution_evidence'', opt_dict source_evidence),
       (''resumed_execution_evidence'', opt_dict resumed),
       (''operator_requirements'', PDict effective),
       (''recovery_candidate_summary'', dget effective ''recovery_candidate_summary'')])))))))"

section \<open>Deciding a request\<close>

text \<open>\<open>{**v, ...}\<close>, \<open>s.replace(p, "")\<close> for a non-empty \<open>p\<close>, and an optional metadata entry.\<close>

definition star_dict :: "pyval \<Rightarrow> dict result" where
  "star_dict v = (case v of PDict d \<Rightarrow> Inr d | _ \<Rightarrow> Inl (TypeError ''object is not a mapping''))"

fun str_remove :: "string \<Rightarrow> string \<Rightarrow> string" where
  "str_remove p [] = []"
| "str_remove p (c # s) = (if startswith (c # s) p then str_remove p (drop (length p - 1) s)
     else c # str_remove p s)"

definition metadata_entry :: "dict \<Rightarrow> dict" where
  "metadata_entry metadata = (if metadata = [] then [] else [(''approval_metadata'', PDict metadata)])"

definition metadata_value :: "dict \<Rightarrow> pyval" where
  "metadata_value metadata = (if metadata = [] then PNone else PDict metadata)"

definition base_decision :: "dict \<Rightarrow> string \<Rightarrow> dict \<Rightarrow> dict" where
  "base_decision approval_request decision metadata = [
     (''decision'', PStr decision),
     (''tool_name'', dget approval_request ''tool_name''),
     (''source_execution_span_id'', dget approval_request ''source_execution_span_id'')]
     @ metadata_entry metadata"

text \<open>The two writes every decided or blocked request ends with, and the reply that reads them back.\<close>

definition request_text :: "dict \<Rightarrow> string \<Rightarrow> string" where
  "request_text approval_request k = py_str (dget approval_request k)"

definition record_decision ::
    "string \<Rightarrow> dict \<Rightarrow> string \<Rightarrow> dict \<Rightarrow> string \<Rightarrow> dict \<Rightarrow> ('a world, dict) prog" where
  "record_decision approval_request_id approval_request decision decision_payload status entries =
     (let session_id = request_text approval_request ''session_id'' in
     pbind (on_db (\<lambda>d. persist_approval_decision d approval_request_id session_id decision decision_payload)) (\<lambda>_.
     pbind (plift (star_dict (dget approval_request ''payload''))) (\<lambda>request_payload.
     pbind (on_db (\<lambda>d. Inr (persist_approval_request d session_id
        (request_text approval_request ''source_execution_span_id'')
        (request_text approval_request ''tool_name'') status
        (dupdate request_payload entries) (Some approval_request_id)))) (\<lambda>_.
     pbind (query (\<lambda>s. get_approval_request s approval_request_id)) (\<lambda>updated.
     case updated of None \<Rightarrow> pfail AssertionError | Some r \<Rightarrow> pret r)))))"

definition decision_reply ::
    "'a adapter \<Rightarrow> string \<Rightarrow> dict \<Rightarrow> dict \<Rightarrow> dict \<Rightarrow> dict option \<Rightarrow> dict option \<Rightarrow> dict \<Rightarrow> ('a world, dict) prog" where
  "decision_reply execute approval_request_id approval_request updated_request metadata
      resumed_execution operator_requirements head_entries =
     pbind (query (\<lambda>s. get_approval_decisions s approval_request_id)) (\<lambda>decisions.
     pbind (build_approval_context execute updated_request resumed_execution operator_requirements) (\<lambda>context.
     pbind (query_ok (\<lambda>s. load_snapshot s (request_text approval_request ''session_id'') None 5)) (\<lambda>snapshot.
     pret (head_entries @ [
       (''approval_request'', PDict updated_request),
       (''approval_decisions'', PList (map PDict decisions)),
       (''approval_metadata'', metadata_value metadata),
       (''resumed_execution'', opt_dict resumed_execution),
       (''approval_context'', PDict context),
       (''session'', PDict (CoreSessionSnapshot_to_dict snapshot))]))))"

text \<open>The resource gate refuses: the attempt is recorded and the request stays pending.\<close>

definition block_decision ::
    "'a adapter \<Rightarrow> string \<Rightarrow> dict \<Rightarrow> dict \<Rightarrow> dict \<Rightarrow> ('a world, dict) prog" where
  "block_decision execute approval_request_id approval_request metadata requirements =
     (let missing = dget requirements ''missing_required_resources'';
          decision_payload = base_decision approval_request ''approve'' metadata
            @ [(''operator_requirements'', PDict requirements),
               (''decision_outcome'', PStr ''blocked_resource_gate''),
               (''failure_class'', PStr ''approval_resource_gate_unsatisfied''),
               (''failure_status'', PStr ''missing_required_resources''),
               (''missing_required_resources'', missing)] in
     pbind (record_decision approval_request_id approval_request ''approve'' decision_payload ''pending''
        [(''status'', PStr ''pending''),
         (''last_decision_attempt'', PStr ''approve''),
         (''last_decision_outcome'', PStr ''blocked_resource_gate''),
         (''last_missing_required_resources'', missing)]) (\<lambda>updated_request.
     decision_reply execute approval_request_id approval_request updated_request metadata None (Some requirements)
       [(''ok'', PBool False), (''status'', PStr ''blocked_resource_gate''),
        (''failure_class'', PStr ''approval_resource_gate_unsatisfied''),
        (''failure_status'', PStr ''missing_required_resources'')]))"

text \<open>The arguments of the resumed call: the requested ones, completed by what was observed.\<close>

definition resolved_arguments :: "dict \<Rightarrow> string \<Rightarrow> string list \<Rightarrow> dict" where
  "resolved_arguments requested_args target_app_id matching_lease_ids =
     (let args = (if target_app_id = [] then requested_args else
            dsetdefault (dsetdefault requested_args ''app_id'' (PStr target_app_id)) ''app'' (PStr target_app_id)) in
      case matching_lease_ids of lease # _ \<Rightarrow> if lease = [] then args else dsetdefault args ''lease_id'' (PStr lease)
      | [] \<Rightarrow> args)"

definition final_response_of :: "string \<Rightarrow> dict" where
  "final_response_of tool_name = [
     (''speaker'', PStr ''affective''),
     (''delegated'', PBool True),
     (''text'', PStr (''Approved delegated '' @ str_replace_char (CHR ''_'') '' '' (str_remove ''system_'' tool_name)
        @ '' and resumed execution.'')),
     (''salience'', PInt 80)]"

definition requirement_texts :: "dict \<Rightarrow> string \<Rightarrow> string list" where
  "requirement_texts requirements k = (case dget requirements k of PList xs \<Rightarrow> map py_str xs | _ \<Rightarrow> [])"

definition resume_execution ::
    "'a adapter \<Rightarrow> string \<Rightarrow> dict \<Rightarrow> dict \<Rightarrow> dict \<Rightarrow> ('a world, dict) prog" where
  "resume_execution execute approval_request_id approval_request metadata requirements =
     pbind (draw_id ''span'') (\<lambda>execution_span_id.
     let tool_name = request_text approval_request ''tool_name'';
         session_id = request_text approval_request ''session_id'' in
     pbind (plift (ebind (as_dict (dget approval_request ''payload'')) (\<lambda>p.
        py_dict (por (dget p ''requested_args'') (PDict []))))) (\<lambda>requested_args.
     pbind (call_tool execute tool_name (resolved_arguments requested_args
        (request_text requirements ''target_app_id'') (requirement_texts requirements ''matching_lease_ids''))) (\<lambda>r.
     let result = r\<lparr> te_payload := dset (dset (te_payload r) ''approval_request_id'' (PStr approval_request_id))
           ''approval_decision'' (PStr ''approve'') \<rparr>;
         final_response = final_response_of tool_name in
     pbind (draw_id ''audit'') (\<lambda>audit_id.
     pbind (write_db (\<lambda>d. Inr (persist_execution_span d execution_span_id ''running'' [
          (''session_id'', PStr session_id),
          (''approval_request_id'', PStr approval_request_id),
          (''resumed_from_execution_span_id'', dget approval_request ''source_execution_span_id''),
          (''decision'', PStr ''approve'')] (Some session_id)))) (\<lambda>_.
     pbind (write_db (\<lambda>d. persist_tool_result d (te_tool_result_id result) execution_span_id
          (te_tool_name result) (te_status result) (te_payload result))) (\<lambda>_.
     pbind (write_db (\<lambda>d. persist_audit_record d audit_id execution_span_id ''ok''
          ([(''approval_request_id'', PStr approval_request_id),
            (''approval_decision'', PStr ''approve'')] @ metadata_entry metadata @
           [(''resumed_execution'', PDict (ToolExecutionResult_to_dict result)),
            (''final_response'', PDict final_response)]) (Some session_id))) (\<lambda>_.
     pbind (write_db (\<lambda>d. Inr (persist_execution_span d execution_span_id ''ok'' [
          (''session_id'', PStr session_id),
          (''approval_request_id'', PStr approval_request_id),
          (''decision'', PStr ''approve''),
          (''tool_result_id'', PStr (te_tool_result_id result)),
          (''audit_id'', PStr audit_id)] (Some session_id)))) (\<lambda>_.
     pret [
       (''execution_span_id'', PStr execution_span_id),
       (''tool_result'', PDict (ToolExecutionResult_to_dict result)),
       (''audit_id'', PStr audit_id),
       (''final_response'', PDict final_response)]))))))))"

text \<open>The end of a decision that was not blocked.\<close>

definition settle_decision ::
    "'a adapter \<Rightarrow> string \<Rightarrow> dict \<Rightarrow> string \<Rightarrow> dict \<Rightarrow> string \<Rightarrow> dict option \<Rightarrow> dict option \<Rightarrow> ('a world, dict) prog" where
  "settle_decision execute approval_request_id approval_request decision metadata status
      requirements resumed_execution =
     (let span_entry = (case resumed_execution of None \<Rightarrow> []
           | Some r \<Rightarrow> [(''resumed_execution_span_id'', dget r ''execution_span_id'')]);
          decision_payload = base_decision approval_request decision metadata
            @ (case requirements of None \<Rightarrow> [] | Some r \<Rightarrow> [(''operator_requirements'', PDict r)]) @ span_entry in
     pbind (record_decision approval_request_id approval_request decision decision_payload status
        ([(''status'', PStr status), (''last_decision'', PStr decision)] @ span_entry)) (\<lambda>updated_request.
     decision_reply execute approval_request_id approval_request updated_request metadata
       resumed_execution requirements [(''ok'', PBool True), (''status'', PStr status)]))"

definition approve_request :: "'a adapter \<Rightarrow> string \<Rightarrow> dict \<Rightarrow> dict \<Rightarrow> ('a world, dict) prog" where
  "approve_request execute approval_request_id approval_request metadata =
     pbind (build_operator_requirements execute approval_request) (\<lambda>requirements.
     if dget requirements ''resource_requirements_satisfied'' \<noteq> PBool True
     then block_decision execute approval_request_id approval_request metadata requirements
     else pbind (resume_execution execute approval_request_id approval_request metadata requirements)
       (\<lambda>resumed_execution.
       settle_decision execute approval_request_id approval_request ''approve'' metadata ''approved''
         (Some requirements) (Some resumed_execution)))"

definition apply_approval_decision ::
    "'a adapter \<Rightarrow> string \<Rightarrow> string \<Rightarrow> dict \<Rightarrow> ('a world, dict) prog" where
  "apply_approval_decision execute approval_request_id decision metadata =
     (if decision \<notin> {''approve'', ''deny'', ''expire''}
      then pfail (ValueError ''approval_decision_must_be_approve_deny_or_expire'')
      else pbind (query (\<lambda>s. get_approval_request s approval_request_id)) (\<lambda>found.
      case found of
        None \<Rightarrow> pfail (ValueError ''approval_request_not_found'')
      | Some approval_request \<Rightarrow>
          if dget approval_request ''status'' \<noteq> PStr ''pending''
          then pfail (ValueError (''approval_request_not_pending_'' @ request_text approval_request ''status''))
          else if decision = ''approve''
          then approve_request execute approval_request_id approval_request metadata
          else settle_decision execute approval_request_id approval_request decision metadata
            (if decision = ''expire'' then ''expired'' else ''denied'') None None))"

section \<open>Lemmas: reading leaves the store alone\<close>

text \<open>A predicate on the store, as a predicate on worlds.\<close>

abbreviation on_store :: "(store \<Rightarrow> bool) \<Rightarrow> 'a world \<Rightarrow> bool" where
  "on_store P \<equiv> \<lambda>(s, w, a). P s"

named_theorems keeps_store \<open>programs that leave the store alone\<close>

lemma call_tool_keeps [keeps_store]: "keeps (on_store P) (call_tool execute t args)"
  unfolding call_tool_def by (rule triple_pupdate) auto

lemma draw_id_keeps [keeps_store]: "keeps (on_store P) (draw_id p)"
  unfolding draw_id_def on_db_def by (rule triple_pupdate) (auto split: prod.splits)

lemma query_keeps [keeps_store]: "keeps (on_store P) (query f)"
  unfolding query_def by simp

lemma query_ok_keeps [keeps_store]: "keeps (on_store P) (query_ok f)"
  unfolding query_ok_def by (intro keeps_bind query_keeps) simp

lemma operator_inspect_keeps [keeps_store]: "keeps (on_store P) (operator_inspect execute t)"
  unfolding operator_inspect_def by (intro keeps_bind keeps_store) simp

lemma requirements_keep [keeps_store]: "keeps (on_store P) (build_operator_requirements execute req)"
  unfolding build_operator_requirements_def Let_def
  by (intro keeps_bind keeps_store) simp_all

lemma context_keeps [keeps_store]: "keeps (on_store P) (build_approval_context execute req res ops)"
  unfolding build_approval_context_def Let_def
  by (intro keeps_bind keeps_store) (auto split: option.splits intro: keeps_store)

lemma reply_keeps [keeps_store]: "keeps (on_store P) (decision_reply execute rid req upd m res ops head_entries)"
  unfolding decision_reply_def by (intro keeps_bind keeps_store) simp

lemma query_read: "triple (on_store P) (query f) (\<lambda>x (s, w, a). P s \<and> x = f s) (on_store P)"
  unfolding query_def by (rule triple_pread) auto

section \<open>Lemmas: what the writes do\<close>

lemma triple_result:
  assumes "triple P m Q E" and "\<And>s x s'. m s = (Inr x, s') \<Longrightarrow> R x"
  shows "triple P m (\<lambda>x s. Q x s \<and> R x) E"
  unfolding triple_def
proof (intro allI impI)
  fix s assume P: "P s"
  obtain r s' where m: "m s = (r, s')" by (cases "m s")
  show "case m s of (Inr x, s') \<Rightarrow> Q x s' \<and> R x | (Inl e, s') \<Rightarrow> E s'"
  proof (cases r)
    case (Inl e)
    with m triple_Inl[OF assms(1) P] show ?thesis by simp
  next
    case (Inr x)
    with m triple_Inr[OF assms(1) P] assms(2)[of s x s'] show ?thesis by simp
  qed
qed

text \<open>The attempt is recorded; the attempt is recorded and the request rewritten.\<close>

definition attempted :: "store \<Rightarrow> string \<Rightarrow> string \<Rightarrow> store \<Rightarrow> bool" where
  "attempted s0 rid decision s \<longleftrightarrow> (\<exists>d. s = s0\<lparr> approval_decisions := approval_decisions s0 @ [d] \<rparr>
     \<and> ad_approval_request_id d = rid \<and> ad_decision d = decision)"

definition recorded :: "store \<Rightarrow> string \<Rightarrow> string \<Rightarrow> string \<Rightarrow> store \<Rightarrow> bool" where
  "recorded s0 rid decision status s \<longleftrightarrow> (\<exists>d r. s = s0\<lparr>
       approval_decisions := approval_decisions s0 @ [d],
       approval_requests := insert_or_replace ar_approval_request_id r (approval_requests s0) \<rparr>
     \<and> ad_approval_request_id d = rid \<and> ad_decision d = decision
     \<and> ar_approval_request_id r = rid \<and> ar_status r = status)"

lemma record_decision_spec:
  assumes "rid \<noteq> []"
  shows "triple (on_store (\<lambda>s. s = s0)) (record_decision rid req dec payload st entries)
     (\<lambda>x. on_store (recorded s0 rid dec st))
     (on_store (\<lambda>s. s = s0 \<or> attempted s0 rid dec s \<or> recorded s0 rid dec st s))"
  unfolding record_decision_def Let_def
  apply (rule triple_bind[where R = "\<lambda>_. on_store (attempted s0 rid dec)"])
  subgoal
    unfolding on_db_def
    by (rule triple_pupdate)
      (auto simp: persist_approval_decision_def attempted_def insert_row_def Let_def split: prod.splits if_splits)
  apply (rule triple_bind[where R = "\<lambda>_. on_store (attempted s0 rid dec)"])
  subgoal by (rule triple_plift) auto
  apply (rule triple_bind[where R = "\<lambda>_. on_store (recorded s0 rid dec st)"])
  subgoal
    unfolding on_db_def
    by (rule triple_pupdate)
      (fastforce simp: persist_approval_request_def attempted_def recorded_def Let_def assms text_set_def
        split: prod.splits)+
  apply (rule triple_bind[where R = "\<lambda>_. on_store (recorded s0 rid dec st)"])
  subgoal by (rule triple_weaken[OF query_keeps[where P = "recorded s0 rid dec st"]]) auto
  subgoal for _ _ _ x by (cases x) (auto intro!: triple_pret triple_pfail)
  done

text \<open>A tool call that was resumed: one tool result and one audit record more, one span written.\<close>

definition span_written :: "store \<Rightarrow> store \<Rightarrow> bool" where
  "span_written s0 s \<longleftrightarrow> (\<exists>spans. s = s0\<lparr> execution_spans := spans \<rparr>)"

text \<open>\<open>F\<close> is what is known of the tool result.\<close>

definition result_written :: "store \<Rightarrow> string \<Rightarrow> (tool_result_row \<Rightarrow> bool) \<Rightarrow> store \<Rightarrow> bool" where
  "result_written s0 i F s \<longleftrightarrow> (\<exists>spans t. s = s0\<lparr> execution_spans := spans,
     tool_results := tool_results s0 @ [t] \<rparr> \<and> tr_execution_span_id t = i \<and> F t)"

definition audit_written :: "store \<Rightarrow> string \<Rightarrow> (tool_result_row \<Rightarrow> bool) \<Rightarrow> store \<Rightarrow> bool" where
  "audit_written s0 i F s \<longleftrightarrow> (\<exists>spans t u. s = s0\<lparr> execution_spans := spans,
     tool_results := tool_results s0 @ [t], audit_records := audit_records s0 @ [u] \<rparr>
     \<and> tr_execution_span_id t = i \<and> F t \<and> au_execution_span_id u = i \<and> au_status u = ''ok'')"

definition resumed :: "store \<Rightarrow> (tool_result_row \<Rightarrow> bool) \<Rightarrow> store \<Rightarrow> bool" where
  "resumed s0 F s \<longleftrightarrow> (\<exists>i. audit_written s0 i F s
     \<and> (\<exists>sp \<in> set (execution_spans s). sr_execution_span_id sp = i \<and> sr_status sp = ''ok''))"

definition partly_resumed :: "store \<Rightarrow> store \<Rightarrow> bool" where
  "partly_resumed s0 s \<longleftrightarrow> (\<exists>i F. s = s0 \<or> span_written s0 s \<or> result_written s0 i F s
     \<or> audit_written s0 i F s)"

lemma triple_write:
  assumes "\<And>s w s' w'. P s \<Longrightarrow> f (s, w) = Inr (s', w') \<Longrightarrow> Q s'" and "\<And>s. P s \<Longrightarrow> E s"
  shows "triple (on_store P) (write_db f) (\<lambda>_. on_store Q) (on_store E)"
  unfolding write_db_def on_db_def
  by (rule triple_pupdate) (use assms in \<open>auto split: prod.splits\<close>)

lemma triple_keep_then:
  assumes "keeps (on_store P) m" and "\<And>x. triple (on_store P) (f x) Q E" and "\<And>s. P s \<Longrightarrow> E' s"
    and "E = on_store E'"
  shows "triple (on_store P) (pbind m f) Q E"
  by (rule triple_bind[OF triple_weaken[OF assms(1)] assms(2)]) (use assms(3,4) in auto)

lemma write_span:
  "triple (on_store (\<lambda>s. s = s0)) (write_db (\<lambda>d. Inr (persist_execution_span d i st p sid)))
     (\<lambda>_. on_store (span_written s0)) (on_store (partly_resumed s0))"
  by (rule triple_write)
    (auto simp: persist_execution_span_def span_written_def partly_resumed_def Let_def split: prod.splits)

text \<open>The stored result is what a call of the named tool returned.\<close>

definition result_of_call :: "'a adapter \<Rightarrow> string \<Rightarrow> tool_result_row \<Rightarrow> bool" where
  "result_of_call execute tool t \<longleftrightarrow> (\<exists>args st r st'. execute tool args st = Inr (r, st')
     \<and> tr_tool_result_id t = te_tool_result_id r \<and> tr_tool_name t = te_tool_name r \<and> tr_status t = te_status r)"

lemma call_tool_result:
  "call_tool execute tool args W = (Inr r, W') \<Longrightarrow> \<exists>st st'. execute tool args st = Inr (r, st')"
  by (auto simp: call_tool_def pupdate_def split: sum.splits prod.splits)

lemma write_result:
  assumes "\<And>row. \<lbrakk>tr_tool_result_id row = t; tr_tool_name row = n; tr_status row = st\<rbrakk> \<Longrightarrow> F row"
  shows "triple (on_store (span_written s0)) (write_db (\<lambda>d. persist_tool_result d t i n st p))
     (\<lambda>_. on_store (result_written s0 i F)) (on_store (partly_resumed s0))"
proof (rule triple_write)
  fix s w s' w'
  assume "span_written s0 s" and run: "persist_tool_result (s, w) t i n st p = Inr (s', w')"
  then obtain spans where "s = s0\<lparr> execution_spans := spans \<rparr>" by (auto simp: span_written_def)
  with run show "result_written s0 i F s'"
    by (auto simp: persist_tool_result_def result_written_def insert_row_def Let_def simp del: json_norm.simps
        split: prod.splits if_splits) (intro exI conjI, rule refl, simp, rule assms, simp_all)
qed (auto simp: partly_resumed_def)

lemma write_audit:
  "triple (on_store (result_written s0 i F)) (write_db (\<lambda>d. persist_audit_record d a i ''ok'' p sid))
     (\<lambda>_. on_store (audit_written s0 i F)) (on_store (partly_resumed s0))"
proof (rule triple_write)
  fix s w s' w'
  assume "result_written s0 i F s" and run: "persist_audit_record (s, w) a i ''ok'' p sid = Inr (s', w')"
  then obtain spans t where "s = s0\<lparr> execution_spans := spans, tool_results := tool_results s0 @ [t] \<rparr>"
    "tr_execution_span_id t = i" "F t" by (auto simp: result_written_def)
  with run show "audit_written s0 i F s'"
    by (auto simp: persist_audit_record_def audit_written_def insert_row_def Let_def simp del: json_norm.simps
        split: prod.splits if_splits) (intro exI conjI, rule refl, simp_all)
qed (auto simp: partly_resumed_def)

lemma close_span:
  "triple (on_store (audit_written s0 i F)) (write_db (\<lambda>d. Inr (persist_execution_span d i ''ok'' p sid)))
     (\<lambda>_. on_store (resumed s0 F)) (on_store (partly_resumed s0))"
proof (rule triple_write)
  fix s w s' w'
  assume "audit_written s0 i F s" and run: "Inr (persist_execution_span (s, w) i ''ok'' p sid) = Inr (s', w')"
  then obtain spans t u where s: "s = s0\<lparr> execution_spans := spans, tool_results := tool_results s0 @ [t],
      audit_records := audit_records s0 @ [u] \<rparr>"
    "tr_execution_span_id t = i \<and> F t \<and> au_execution_span_id u = i \<and> au_status u = ''ok''"
    by (auto simp: audit_written_def)
  from run have sp: "\<exists>sp \<in> set (execution_spans s'). sr_execution_span_id sp = i \<and> sr_status sp = ''ok''"
    by (auto simp: persist_execution_span_def insert_or_replace_def Let_def split: prod.splits)
  from run have "\<exists>spans'. s' = s\<lparr> execution_spans := spans' \<rparr>"
    by (auto simp: persist_execution_span_def Let_def split: prod.splits)
  then obtain spans' where "s' = s\<lparr> execution_spans := spans' \<rparr>" by blast
  with s have "s' = s0\<lparr> execution_spans := spans', tool_results := tool_results s0 @ [t],
      audit_records := audit_records s0 @ [u] \<rparr>" by simp
  with s(2) have "audit_written s0 i F s'" unfolding audit_written_def by blast
  with sp show "resumed s0 F s'" by (auto simp: resumed_def)
qed (auto simp: partly_resumed_def)

lemma resume_execution_spec:
  "triple (on_store (\<lambda>s. s = s0)) (resume_execution execute rid req m ops)
     (\<lambda>x. on_store (resumed s0 (result_of_call execute (request_text req ''tool_name'')))) (on_store (partly_resumed s0))"
proof -
  have err: "s = s0 \<Longrightarrow> partly_resumed s0 s" for s by (simp add: partly_resumed_def)
  have call: "triple (on_store (\<lambda>s. s = s0)) (call_tool execute tool args)
      (\<lambda>r W. on_store (\<lambda>s. s = s0) W \<and> (\<exists>st st'. execute tool args st = Inr (r, st'))) (on_store (partly_resumed s0))"
    for tool args
    by (rule triple_weaken[OF triple_result[OF call_tool_keeps[where P = "\<lambda>s. s = s0"] call_tool_result]])
      (auto simp: err)
  show ?thesis
    unfolding resume_execution_def Let_def
    apply (rule triple_keep_then[OF draw_id_keeps _ err refl], assumption?)
     apply (rule triple_keep_then[OF keeps_basic(3) _ err refl])
      apply (rule triple_bind[OF call], rule triple_pure)
      apply (rule triple_keep_then[OF draw_id_keeps _ err refl])
       apply (rule triple_bind[OF write_span],
        rule triple_bind[OF write_result[where F = "result_of_call execute (request_text req ''tool_name'')"]])
        apply (force simp: result_of_call_def)
       apply (rule triple_bind[OF write_audit], rule triple_bind[OF close_span], rule triple_pret)
       apply assumption+
    done
qed

section \<open>Lemmas: the outcome of a decision\<close>

lemma triple_ghost:
  assumes "\<And>s1. P s1 \<Longrightarrow> triple (on_store (\<lambda>s. s = s1)) m (\<lambda>x. on_store (Q s1 x)) (on_store (E s1))"
  shows "triple (on_store P) m (\<lambda>x. on_store (\<lambda>s. \<exists>s1. P s1 \<and> Q s1 x s)) (on_store (\<lambda>s. \<exists>s1. P s1 \<and> E s1 s))"
  unfolding triple_def
proof (intro allI impI)
  fix W :: "'a world" assume P: "on_store P W"
  obtain s w a where W: "W = (s, w, a)" by (cases W)
  with P have "P s" by simp
  from assms[OF this] W have t: "triple (\<lambda>v. v = (s, w, a)) m (\<lambda>x. on_store (Q s x)) (on_store (E s))"
    by (auto intro: triple_weaken)
  obtain r V where m: "m W = (r, V)" by (cases "m W")
  obtain s' w' a' where V: "V = (s', w', a')" by (cases V)
  show "case m W of (Inr x, s') \<Rightarrow> on_store (\<lambda>s. \<exists>s1. P s1 \<and> Q s1 x s) s'
      | (Inl e, s') \<Rightarrow> on_store (\<lambda>s. \<exists>s1. P s1 \<and> E s1 s) s'"
  proof (cases r)
    case (Inl e)
    with triple_Inl[OF t refl] m W V \<open>P s\<close> show ?thesis by auto
  next
    case (Inr x)
    with triple_Inr[OF t refl] m W V \<open>P s\<close> show ?thesis by auto
  qed
qed

text \<open>The missing resources a reply reports.\<close>

definition reply_missing :: "dict \<Rightarrow> pyval" where
  "reply_missing reply = (case dget reply ''approval_context'' of
     PDict context \<Rightarrow> (case dget context ''operator_requirements'' of
       PDict requirements \<Rightarrow> dget requirements ''missing_required_resources'' | _ \<Rightarrow> PNone)
   | _ \<Rightarrow> PNone)"

lemma context_requirements:
  assumes "build_approval_context execute req res (Some ops) W = (Inr x, W')"
  shows "\<exists>eff. dget x ''operator_requirements'' = PDict eff
    \<and> dget eff ''missing_required_resources'' = dget ops ''missing_required_resources''"
  using assms by (auto simp: build_approval_context_def pbind_Inr pret_def Let_def split: if_splits)

lemma reply_shape:
  assumes "decision_reply execute rid req upd m res ops ((''ok'', v) # (''status'', st) # hd_entries) W = (Inr x, W')"
    and "dget hd_entries ''approval_context'' = PNone" and "\<not> dhas hd_entries ''approval_context''"
  shows "dget x ''status'' = st \<and> dget x ''ok'' = v \<and> (case ops of None \<Rightarrow> True
     | Some q \<Rightarrow> reply_missing x = dget q ''missing_required_resources'')"
proof -
  from assms(1) obtain tl1 ctx V V' where x: "x = (''ok'', v) # (''status'', st) # hd_entries @ [
       (''approval_request'', PDict upd), (''approval_decisions'', tl1),
       (''approval_metadata'', metadata_value m), (''resumed_execution'', opt_dict res),
       (''approval_context'', PDict ctx)] @ [last x]"
    and ctx: "build_approval_context execute upd res ops V = (Inr ctx, V')"
    by (auto simp: decision_reply_def pbind_Inr pret_def)
  have "dget x ''approval_context'' = PDict ctx"
    using assms(3) by (subst x) (auto simp: dget_def dhas_def map_add_def)
  moreover have "dget x ''status'' = st" "dget x ''ok'' = v" by (subst x, simp)+
  moreover have "reply_missing x = dget q ''missing_required_resources''" if "ops = Some q" for q
    using context_requirements[OF ctx[unfolded that]] calculation(1) by (auto simp: reply_missing_def)
  ultimately show ?thesis by (simp split: option.split)
qed

lemma requirements_missing:
  assumes "build_operator_requirements execute req W = (Inr x, W')"
  shows "\<exists>m. dget x ''missing_required_resources'' = texts m \<and> dget x ''resource_requirements_satisfied'' = PBool (m = [])"
  using assms
  by (auto simp: build_operator_requirements_def pbind_Inr plift_def Let_def requirements_dict_def)

text \<open>What the store is after a decision that returns, and what it can be after one that raises.\<close>

definition unsettled :: "store \<Rightarrow> string \<Rightarrow> string \<Rightarrow> string \<Rightarrow> store \<Rightarrow> bool" where
  "unsettled s0 rid dec st s \<longleftrightarrow> s = s0 \<or> attempted s0 rid dec s \<or> recorded s0 rid dec st s"

definition settled_reply :: "store \<Rightarrow> string \<Rightarrow> string \<Rightarrow> string \<Rightarrow> dict \<Rightarrow> store \<Rightarrow> bool" where
  "settled_reply s0 rid dec st x s \<longleftrightarrow> recorded s0 rid dec st s \<and> dget x ''status'' = PStr st \<and> dget x ''ok'' = PBool True"

definition blocked_reply :: "store \<Rightarrow> string \<Rightarrow> dict \<Rightarrow> store \<Rightarrow> bool" where
  "blocked_reply s0 rid x s \<longleftrightarrow> recorded s0 rid ''approve'' ''pending'' s
     \<and> dget x ''status'' = PStr ''blocked_resource_gate'' \<and> dget x ''ok'' = PBool False
     \<and> (\<exists>m. reply_missing x = texts m \<and> m \<noteq> [])"

definition approved_reply :: "store \<Rightarrow> (tool_result_row \<Rightarrow> bool) \<Rightarrow> string \<Rightarrow> dict \<Rightarrow> store \<Rightarrow> bool" where
  "approved_reply s0 F rid x s \<longleftrightarrow> (\<exists>s1. resumed s0 F s1 \<and> settled_reply s1 rid ''approve'' ''approved'' x s)
     \<and> reply_missing x = texts []"

lemma reply_spec:
  assumes "dget hd_entries ''approval_context'' = PNone" and "\<not> dhas hd_entries ''approval_context''"
  shows "triple (on_store P) (decision_reply execute rid req upd m res ops ((''ok'', v) # (''status'', st) # hd_entries))
     (\<lambda>x. on_store (\<lambda>s. P s \<and> dget x ''status'' = st \<and> dget x ''ok'' = v \<and> (case ops of None \<Rightarrow> True
        | Some q \<Rightarrow> reply_missing x = dget q ''missing_required_resources''))) (on_store P)"
  by (rule triple_weaken[OF triple_result[OF reply_keeps[where P = P] reply_shape[OF _ assms]]]) auto

lemma settle_spec:
  assumes "rid \<noteq> []"
  shows "triple (on_store (\<lambda>s. s = s0)) (settle_decision execute rid req dec m st ops res)
     (\<lambda>x. on_store (\<lambda>s. settled_reply s0 rid dec st x s \<and> (case ops of None \<Rightarrow> True
        | Some q \<Rightarrow> reply_missing x = dget q ''missing_required_resources'')))
     (on_store (unsettled s0 rid dec st))"
  unfolding settle_decision_def Let_def
  by (rule triple_bind[OF triple_weaken[OF record_decision_spec[OF assms]]], assumption, assumption,
      force simp: unsettled_def, rule triple_weaken[OF reply_spec[where P = "recorded s0 rid dec st"]])
    (auto simp: unsettled_def settled_reply_def)

lemma block_spec:
  assumes "rid \<noteq> []" and "dget ops ''missing_required_resources'' = texts ms" and "ms \<noteq> []"
  shows "triple (on_store (\<lambda>s. s = s0)) (block_decision execute rid req m ops)
     (\<lambda>x. on_store (blocked_reply s0 rid x)) (on_store (unsettled s0 rid ''approve'' ''pending''))"
  unfolding block_decision_def Let_def
  by (rule triple_bind[OF triple_weaken[OF record_decision_spec[OF assms(1)]]], assumption, assumption,
      force simp: unsettled_def, rule triple_weaken[OF reply_spec[where P = "recorded s0 rid ''approve'' ''pending''"]])
    (use assms in \<open>auto simp: unsettled_def blocked_reply_def\<close>)

definition approve_failed :: "store \<Rightarrow> string \<Rightarrow> store \<Rightarrow> bool" where
  "approve_failed s0 rid s \<longleftrightarrow> unsettled s0 rid ''approve'' ''pending'' s \<or> partly_resumed s0 s
     \<or> (\<exists>F s1. resumed s0 F s1 \<and> unsettled s1 rid ''approve'' ''approved'' s)"

lemma approve_spec:
  assumes rid: "rid \<noteq> []"
  shows "triple (on_store (\<lambda>s. s = s0)) (approve_request execute rid req m)
     (\<lambda>x. on_store (\<lambda>s. approved_reply s0 (result_of_call execute (request_text req ''tool_name'')) rid x s \<or> blocked_reply s0 rid x s)) (on_store (approve_failed s0 rid))"
proof -
  let ?F = "result_of_call execute (request_text req ''tool_name'')"
  let ?req = "\<lambda>ops. \<exists>ms. dget ops ''missing_required_resources'' = texts ms
    \<and> dget ops ''resource_requirements_satisfied'' = PBool (ms = [])"
  let ?go = "\<lambda>ops. if dget ops ''resource_requirements_satisfied'' \<noteq> PBool True
     then block_decision execute rid req m ops
     else pbind (resume_execution execute rid req m ops)
       (\<lambda>res. settle_decision execute rid req ''approve'' m ''approved'' (Some ops) (Some res))"
  have settle: "triple (on_store (resumed s0 ?F))
      (settle_decision execute rid req ''approve'' m ''approved'' (Some ops) (Some res))
      (\<lambda>x. on_store (approved_reply s0 ?F rid x)) (on_store (approve_failed s0 rid))"
    if "dget ops ''missing_required_resources'' = texts []" for ops res
    by (rule triple_weaken[OF triple_ghost[where P = "resumed s0 ?F", OF settle_spec[OF rid]]])
      (use that in \<open>auto simp: approved_reply_def approve_failed_def\<close>)
  have go: "triple (on_store (\<lambda>s. s = s0)) (?go ops)
      (\<lambda>x. on_store (\<lambda>s. approved_reply s0 ?F rid x s \<or> blocked_reply s0 rid x s)) (on_store (approve_failed s0 rid))"
    if "?req ops" for ops
  proof -
    from that obtain ms where ms: "dget ops ''missing_required_resources'' = texts ms"
      "dget ops ''resource_requirements_satisfied'' = PBool (ms = [])" by blast
    show ?thesis
    proof (cases "ms = []")
      case True
      have "triple (on_store (\<lambda>s. s = s0)) (pbind (resume_execution execute rid req m ops)
          (\<lambda>res. settle_decision execute rid req ''approve'' m ''approved'' (Some ops) (Some res)))
        (\<lambda>x. on_store (approved_reply s0 ?F rid x)) (on_store (approve_failed s0 rid))"
      proof (rule triple_bind)
        show "triple (on_store (\<lambda>s. s = s0)) (resume_execution execute rid req m ops)
            (\<lambda>_. on_store (resumed s0 ?F)) (on_store (approve_failed s0 rid))"
          by (rule triple_weaken[OF resume_execution_spec[of s0]]) (auto simp: approve_failed_def)
      qed (use settle ms True in simp)
      then have "triple (on_store (\<lambda>s. s = s0)) (pbind (resume_execution execute rid req m ops)
          (\<lambda>res. settle_decision execute rid req ''approve'' m ''approved'' (Some ops) (Some res)))
        (\<lambda>x. on_store (\<lambda>s. approved_reply s0 ?F rid x s \<or> blocked_reply s0 rid x s)) (on_store (approve_failed s0 rid))"
        by (rule triple_weaken) auto
      with ms True show ?thesis by simp
    next
      case False
      with ms show ?thesis
        by simp (rule triple_weaken[OF block_spec[OF rid ms(1) False]], auto simp: approve_failed_def)
    qed
  qed
  have req: "triple (on_store (\<lambda>s. s = s0)) (build_operator_requirements execute req)
     (\<lambda>ops W. on_store (\<lambda>s. s = s0) W \<and> ?req ops) (on_store (\<lambda>s. s = s0))"
    by (rule triple_result[OF requirements_keep]) (rule requirements_missing)
  have req': "triple (on_store (\<lambda>s. s = s0)) (build_operator_requirements execute req)
     (\<lambda>ops W. on_store (\<lambda>s. s = s0) W \<and> ?req ops) (on_store (approve_failed s0 rid))"
    by (rule triple_weaken[OF req]) (auto simp: approve_failed_def unsettled_def)
  show ?thesis
    unfolding approve_request_def by (rule triple_bind[OF req']) (rule triple_pure, rule go)
qed

section \<open>The life of a request\<close>

definition request_status :: "store \<Rightarrow> string \<Rightarrow> string option" where
  "request_status s rid = map_option ar_status (fetchone (\<lambda>r. ar_approval_request_id r = rid) (approval_requests s))"

text \<open>What one call may do to the status of the request it names.\<close>

inductive approval_move :: "string \<Rightarrow> string option \<Rightarrow> string option \<Rightarrow> bool" where
  stay: "approval_move decision st st"
| approve: "approval_move ''approve'' (Some ''pending'') (Some ''approved'')"
| deny: "approval_move ''deny'' (Some ''pending'') (Some ''denied'')"
| expire: "approval_move ''expire'' (Some ''pending'') (Some ''expired'')"

inductive_cases approval_move_elims: "approval_move d st st'"

inductive_simps approval_move_simps: "approval_move d (Some p) st'"

lemma request_found: "get_approval_request s rid = Some d \<Longrightarrow>
    \<exists>st. request_status s rid = Some st \<and> dget d ''status'' = PStr st"
  by (auto simp: get_approval_request_def request_status_def approval_request_row_dict_def)

lemma request_absent: "get_approval_request s rid = None \<longleftrightarrow> request_status s rid = None"
  by (simp add: get_approval_request_def request_status_def)

lemma recorded_fetch:
  assumes "recorded s0 rid dec st s"
  shows "request_status s j = (if j = rid then Some st else request_status s0 j)"
    and "j \<noteq> rid \<Longrightarrow> get_approval_request s j = get_approval_request s0 j"
  using assms by (auto simp: recorded_def request_status_def get_approval_request_def insert_or_replace_fetch)

lemma requests_same:
  "approval_requests s = approval_requests s0 \<Longrightarrow> request_status s j = request_status s0 j"
  "approval_requests s = approval_requests s0 \<Longrightarrow> get_approval_request s j = get_approval_request s0 j"
  by (simp_all add: request_status_def get_approval_request_def)

lemma requests_kept:
  "attempted s0 rid dec s \<Longrightarrow> approval_requests s = approval_requests s0"
  "partly_resumed s0 s \<Longrightarrow> approval_requests s = approval_requests s0"
  "resumed s0 F s \<Longrightarrow> approval_requests s = approval_requests s0"
  by (auto simp: attempted_def partly_resumed_def resumed_def span_written_def result_written_def audit_written_def)

text \<open>\<open>moved\<close>: the request has the given status, or its old one; no other request changed.\<close>

definition moved :: "store \<Rightarrow> string \<Rightarrow> string list \<Rightarrow> store \<Rightarrow> bool" where
  "moved s0 rid sts s \<longleftrightarrow>
     (request_status s rid = request_status s0 rid \<or> (\<exists>st \<in> set sts. request_status s rid = Some st))
     \<and> (\<forall>j. j \<noteq> rid \<longrightarrow> get_approval_request s j = get_approval_request s0 j)"

lemma recorded_moved: "recorded s0 rid dec st s \<Longrightarrow> moved s0 rid [st] s"
  using recorded_fetch[of s0 rid dec st s] by (auto simp: moved_def)

lemma same_moved: "approval_requests s = approval_requests s0 \<Longrightarrow> moved s0 rid sts s"
  using requests_same[of s s0] by (auto simp: moved_def)

lemma moved_after: "approval_requests s1 = approval_requests s0 \<Longrightarrow> moved s1 rid sts s \<Longrightarrow> moved s0 rid sts s"
  using requests_same[of s1 s0] by (auto simp: moved_def)

lemma moved_mono: "moved s0 rid sts s \<Longrightarrow> set sts \<subseteq> set sts' \<Longrightarrow> moved s0 rid sts' s"
  by (auto simp: moved_def)

lemma unsettled_moved: "unsettled s0 rid dec st s \<Longrightarrow> moved s0 rid [st] s"
  unfolding unsettled_def by (auto intro: recorded_moved same_moved requests_kept)

lemma approve_failed_moved:
  assumes "approve_failed s0 rid s"
  shows "moved s0 rid [''pending'', ''approved''] s"
  using assms unfolding approve_failed_def
proof (elim disjE exE conjE)
  fix F s1 assume "resumed s0 F s1" "unsettled s1 rid ''approve'' ''approved'' s"
  then have "moved s0 rid [''approved''] s" by (rule moved_after[OF requests_kept(3) unsettled_moved])
  then show ?thesis by (rule moved_mono) auto
qed (auto dest!: unsettled_moved intro: same_moved requests_kept elim!: moved_mono)

text \<open>The outcome of a call, by its decision.\<close>

definition request_tool :: "store \<Rightarrow> string \<Rightarrow> string" where
  "request_tool s rid = (case get_approval_request s rid of None \<Rightarrow> [] | Some d \<Rightarrow> request_text d ''tool_name'')"

lemma apply_refused:
  assumes "request_status s rid \<noteq> Some ''pending'' \<or> decision \<notin> {''approve'', ''deny'', ''expire''}"
  shows "\<exists>e. apply_approval_decision execute rid decision m (s, w, a) = (Inl (ValueError e), s, w, a)"
  using assms request_found[of s rid]
  by (cases "get_approval_request s rid")
    (auto simp: apply_approval_decision_def query_def pread_def pbind_def pfail_def)

lemma apply_pending:
  assumes "request_status s rid = Some ''pending''" and "decision \<in> {''approve'', ''deny'', ''expire''}"
  shows "\<exists>req. request_tool s rid = request_text req ''tool_name''
    \<and> apply_approval_decision execute rid decision m (s, w, a) =
    (if decision = ''approve'' then approve_request execute rid req m
     else settle_decision execute rid req decision m
       (if decision = ''expire'' then ''expired'' else ''denied'') None None) (s, w, a)"
proof -
  from assms(1) request_absent obtain req where "get_approval_request s rid = Some req"
    by (cases "get_approval_request s rid") auto
  with assms request_found[OF this] show ?thesis
    by (intro exI[of _ req]) (auto simp: apply_approval_decision_def query_def pread_def pbind_def request_tool_def)
qed

lemma apply_approve_outcome:
  assumes "rid \<noteq> []" and "request_status s rid = Some ''pending''"
    and "apply_approval_decision execute rid ''approve'' m (s, w, a) = (r, s', w', a')"
  shows "case r of Inl e \<Rightarrow> approve_failed s rid s'
    | Inr x \<Rightarrow> approved_reply s (result_of_call execute (request_tool s rid)) rid x s' \<or> blocked_reply s rid x s'"
proof -
  from apply_pending[OF assms(2), of "''approve''" execute m w a] assms(3) obtain req where
    tool: "request_tool s rid = request_text req ''tool_name''"
    and run: "approve_request execute rid req m (s, w, a) = (r, s', w', a')" by auto
  show ?thesis
    unfolding tool
    using triple_Inr[OF approve_spec[OF assms(1)]] triple_Inl[OF approve_spec[OF assms(1)]] run
    by (cases r) fastforce+
qed

lemma apply_settle_outcome:
  assumes "rid \<noteq> []" and "request_status s rid = Some ''pending''" and "decision \<in> {''deny'', ''expire''}"
    and "apply_approval_decision execute rid decision m (s, w, a) = (r, s', w', a')"
    and "st = (if decision = ''expire'' then ''expired'' else ''denied'')"
  shows "case r of Inl e \<Rightarrow> unsettled s rid decision st s' | Inr x \<Rightarrow> settled_reply s rid decision st x s'"
proof -
  from apply_pending[OF assms(2), of decision execute m w a] assms(3-5) obtain req where
    run: "settle_decision execute rid req decision m st None None (s, w, a) = (r, s', w', a')" by auto
  show ?thesis
    using triple_Inr[OF settle_spec[OF assms(1)]] triple_Inl[OF settle_spec[OF assms(1)]] run
    by (cases r) fastforce+
qed

lemma moved_approval_move:
  assumes "moved s0 rid [''pending'', ''approved''] s" and "request_status s0 rid = Some ''pending''"
  shows "approval_move ''approve'' (request_status s0 rid) (request_status s rid)"
  using assms by (auto simp: moved_def intro: approval_move.intros)

lemma reply_moved:
  "approved_reply s0 F rid x s \<Longrightarrow> moved s0 rid [''pending'', ''approved''] s"
  "blocked_reply s0 rid x s \<Longrightarrow> moved s0 rid [''pending'', ''approved''] s"
proof -
  assume "approved_reply s0 F rid x s"
  then obtain s1 where "resumed s0 F s1" "recorded s1 rid ''approve'' ''approved'' s"
    by (auto simp: approved_reply_def settled_reply_def)
  then have "moved s0 rid [''approved''] s" by (rule moved_after[OF requests_kept(3) recorded_moved])
  then show "moved s0 rid [''pending'', ''approved''] s" by (rule moved_mono) auto
qed (auto simp: blocked_reply_def intro: moved_mono[OF recorded_moved])

lemma apply_moved:
  assumes rid: "rid \<noteq> []"
    and run: "apply_approval_decision execute rid decision m (s, w, a) = (r, s', w', a')"
  shows "approval_move decision (request_status s rid) (request_status s' rid)
    \<and> (\<forall>j. j \<noteq> rid \<longrightarrow> get_approval_request s' j = get_approval_request s j)"
proof (cases "request_status s rid = Some ''pending'' \<and> decision \<in> {''approve'', ''deny'', ''expire''}")
  case False
  with apply_refused[of s rid decision execute m w a] run have "s' = s" by auto
  then show ?thesis by (simp add: approval_move.stay)
next
  case pending: True
  show ?thesis
  proof (cases "decision = ''approve''")
    case True
    from apply_approve_outcome[OF rid _ run[unfolded True]] pending
    have "case r of Inl e \<Rightarrow> approve_failed s rid s'
      | Inr x \<Rightarrow> approved_reply s (result_of_call execute (request_tool s rid)) rid x s' \<or> blocked_reply s rid x s'" by blast
    then have "moved s rid [''pending'', ''approved''] s'"
      by (auto split: sum.splits intro: approve_failed_moved reply_moved)
    with pending True moved_approval_move[of s rid s'] show ?thesis by (simp add: moved_def)
  next
    case False
    define st where "st = (if decision = ''expire'' then ''expired'' else ''denied'')"
    from apply_settle_outcome[OF rid _ _ run st_def] pending False
    have "case r of Inl e \<Rightarrow> unsettled s rid decision st s' | Inr x \<Rightarrow> settled_reply s rid decision st x s'" by blast
    then have "moved s rid [st] s'"
      by (auto simp: settled_reply_def split: sum.splits intro: unsettled_moved recorded_moved)
    with pending False st_def show ?thesis by (auto simp: moved_def intro: approval_move.intros)
  qed
qed

text \<open>C6: A call of \<open>apply_approval_decision\<close>, whether it returns or raises at any point, moves the
  request it names along \<open>pending\<close> to \<open>approved\<close>, \<open>denied\<close> or \<open>expired\<close> as the decision says, or
  leaves its status, and changes no other request. A decided or unknown request, or an unknown
  decision, is refused with a ValueError and no effect at all.\<close>

theorem approval_transitions:
  "case apply_approval_decision execute (c # cs) decision m (s, w, a) of (r, s', w', a') \<Rightarrow>
     approval_move decision (request_status s (c # cs)) (request_status s' (c # cs))
     \<and> (if j = c # cs then True else get_approval_request s' j = get_approval_request s j)
     \<and> (if request_status s (c # cs) = Some ''pending'' \<and> decision \<in> {''approve'', ''deny'', ''expire''} then True
        else (\<exists>e. r = Inl (ValueError e)) \<and> s' = s \<and> w' = w \<and> a' = a)"
proof -
  obtain r s' w' a' where run: "apply_approval_decision execute (c # cs) decision m (s, w, a) = (r, s', w', a')"
    by (rule prod_cases4)
  with apply_moved[OF _ run] apply_refused[of s "c # cs" decision execute m w a] show ?thesis by auto
qed

text \<open>\<open>grown\<close>: rows appended to three tables; requests and spans apart, no other table changed.\<close>

definition grown ::
    "store \<Rightarrow> tool_result_row list \<Rightarrow> approval_decision_row list \<Rightarrow> audit_row list \<Rightarrow> store \<Rightarrow> bool" where
  "grown s ts ds us s' \<longleftrightarrow> tool_results s' = tool_results s @ ts
     \<and> approval_decisions s' = approval_decisions s @ ds \<and> audit_records s' = audit_records s @ us
     \<and> perception_events s' = perception_events s \<and> facts s' = facts s
     \<and> policy_decisions s' = policy_decisions s \<and> memory_candidates s' = memory_candidates s
     \<and> long_term_memories s' = long_term_memories s"

definition decision_of :: "approval_decision_row \<Rightarrow> string \<times> string" where
  "decision_of d = (ad_approval_request_id d, ad_decision d)"

text \<open>One run of a tool, as the evidence shows it: a result and an ok audit record of an ok span.\<close>

definition evidenced_run :: "tool_result_row \<Rightarrow> audit_row \<Rightarrow> store \<Rightarrow> bool" where
  "evidenced_run t u s \<longleftrightarrow> au_execution_span_id u = tr_execution_span_id t \<and> au_status u = ''ok''
     \<and> list_ex (\<lambda>sp. sr_execution_span_id sp = tr_execution_span_id t \<and> sr_status sp = ''ok'') (execution_spans s)"

lemma recorded_effects:
  assumes "recorded s rid dec st s'"
  shows "\<exists>d. grown s [] [d] [] s' \<and> execution_spans s' = execution_spans s \<and> decision_of d = (rid, dec)
    \<and> request_status s' rid = Some st"
proof -
  from assms obtain d r where d: "s' = s\<lparr> approval_decisions := approval_decisions s @ [d],
      approval_requests := insert_or_replace ar_approval_request_id r (approval_requests s) \<rparr>"
    "ad_approval_request_id d = rid" "ad_decision d = dec" unfolding recorded_def by blast
  with recorded_fetch(1)[OF assms, of rid] show ?thesis
    by (intro exI[of _ d]) (simp add: grown_def decision_of_def)
qed

lemma resumed_effects:
  assumes "resumed s F s'"
  shows "\<exists>t u. grown s [t] [] [u] s' \<and> evidenced_run t u s' \<and> F t"
proof -
  from assms obtain i where i: "audit_written s i F s'"
    "\<exists>sp \<in> set (execution_spans s'). sr_execution_span_id sp = i \<and> sr_status sp = ''ok''"
    unfolding resumed_def by blast
  from i(1) obtain spans t u where t: "s' = s\<lparr> execution_spans := spans, tool_results := tool_results s @ [t],
      audit_records := audit_records s @ [u] \<rparr>" "tr_execution_span_id t = i" "F t" "au_execution_span_id u = i"
      "au_status u = ''ok''"
    unfolding audit_written_def by blast
  with i(2) show ?thesis
    by (intro exI[of _ t] exI[of _ u]) (simp add: grown_def evidenced_run_def list_ex_iff)
qed

lemma approved_reply_effects:
  assumes "approved_reply s F rid x s'"
  shows "\<exists>d t u. grown s [t] [d] [u] s' \<and> evidenced_run t u s' \<and> F t \<and> decision_of d = (rid, ''approve'')
    \<and> request_status s' rid = Some ''approved'' \<and> dget x ''status'' = PStr ''approved''
    \<and> reply_missing x = texts []"
proof -
  from assms obtain s1 where s1: "resumed s F s1" "recorded s1 rid ''approve'' ''approved'' s'"
    and x: "dget x ''status'' = PStr ''approved''" "reply_missing x = texts []"
    by (auto simp: approved_reply_def settled_reply_def)
  from resumed_effects[OF s1(1)] obtain t u where t: "grown s [t] [] [u] s1" "evidenced_run t u s1" "F t" by blast
  from recorded_effects[OF s1(2)] obtain d where d: "grown s1 [] [d] [] s'" "execution_spans s' = execution_spans s1"
    "decision_of d = (rid, ''approve'')" "request_status s' rid = Some ''approved''" by blast
  from t(1) d(1) have "grown s [t] [d] [u] s'" by (simp add: grown_def)
  with t(2,3) d(2-4) x show ?thesis
    by (intro exI[of _ d] exI[of _ t] exI[of _ u]) (simp add: evidenced_run_def)
qed

text \<open>C5: What a call that returns has done. Exactly one decision naming the request and the decision
  is appended. If the request ends approved, no required resource was missing and exactly one tool
  result and one audit record were appended, both of the same execution span, which ends ok, and the
  result is what a call of the tool the request names returned; otherwise no execution left a trace: the reply says denied or expired, or the request is still
  pending because the resource gate reports missing resources. No other table changes.\<close>

theorem approval_effects:
  "case apply_approval_decision execute (c # cs) decision m (s, w, a) of (Inl _, _) \<Rightarrow> True
   | (Inr x, s', w', a') \<Rightarrow> \<exists>d st t u.
       request_status s' (c # cs) = Some st \<and> decision_of d = (c # cs, decision)
       \<and> (if st = ''approved'' then
            grown s [t] [d] [u] s' \<and> evidenced_run t u s' \<and> result_of_call execute (request_tool s (c # cs)) t
            \<and> decision = ''approve'' \<and> dget x ''status'' = PStr ''approved'' \<and> reply_missing x = texts []
          else
            grown s [] [d] [] s' \<and> execution_spans s' = execution_spans s
            \<and> (if st = ''pending'' then decision = ''approve'' \<and> dget x ''status'' = PStr ''blocked_resource_gate''
                 \<and> (\<exists>ms. reply_missing x = texts ms \<and> ms \<noteq> [])
               else dget x ''status'' = PStr st \<and> st = (if decision = ''expire'' then ''expired'' else ''denied'')
                 \<and> decision \<in> {''deny'', ''expire''}))"
proof -
  let ?rid = "c # cs"
  obtain r s' w' a' where run: "apply_approval_decision execute ?rid decision m (s, w, a) = (r, s', w', a')"
    by (rule prod_cases4)
  show ?thesis
  proof (cases r)
    case (Inl e)
    with run show ?thesis by simp
  next
    case (Inr x)
    have pending: "request_status s ?rid = Some ''pending''" "decision \<in> {''approve'', ''deny'', ''expire''}"
      using apply_refused[of s ?rid decision execute m w a] run Inr by auto
    show ?thesis
    proof (cases "decision = ''approve''")
      case True
      from apply_approve_outcome[OF _ pending(1) run[unfolded True]] Inr
      consider "approved_reply s (result_of_call execute (request_tool s ?rid)) ?rid x s'" | "blocked_reply s ?rid x s'" by auto
      then show ?thesis
      proof cases
        case 1
        from approved_reply_effects[OF this] obtain d t u where
          "grown s [t] [d] [u] s'" "evidenced_run t u s'"
          "result_of_call execute (request_tool s ?rid) t" "decision_of d = (?rid, ''approve'')"
          "request_status s' ?rid = Some ''approved''" "dget x ''status'' = PStr ''approved''"
          "reply_missing x = texts []" by blast
        with run Inr True show ?thesis
          by (simp, intro exI[of _ d] exI[of _ "''approved''"] conjI) (auto intro!: exI[of _ t] exI[of _ u])
      next
        case 2
        then have rec: "recorded s ?rid ''approve'' ''pending'' s'" by (simp add: blocked_reply_def)
        from recorded_effects[OF this] obtain d where
          "grown s [] [d] [] s'" "execution_spans s' = execution_spans s" "decision_of d = (?rid, ''approve'')"
          "request_status s' ?rid = Some ''pending''" by blast
        with 2 run Inr True show ?thesis
          by (simp add: blocked_reply_def) (intro exI[of _ d] exI[of _ "''pending''"], simp)
      qed
    next
      case False
      define st where "st = (if decision = ''expire'' then ''expired'' else ''denied'')"
      from apply_settle_outcome[OF _ pending(1) _ run st_def] False pending Inr
      have sr: "settled_reply s ?rid decision st x s'" by auto
      then have rec: "recorded s ?rid decision st s'" by (simp add: settled_reply_def)
      from recorded_effects[OF this] obtain d where
        "grown s [] [d] [] s'" "execution_spans s' = execution_spans s" "decision_of d = (?rid, decision)"
        "request_status s' ?rid = Some st" by blast
      with sr run Inr False pending(2) show ?thesis
        by (simp add: settled_reply_def) (auto simp: st_def)
    qed
  qed
qed

text \<open>
  A sequence of calls, by any operators, on any requests. A call that raises is answered with its
  error and the next one goes on from the world it left.
\<close>

fun run_decisions ::
    "'a adapter \<Rightarrow> (string \<times> string \<times> dict) list \<Rightarrow> 'a world \<Rightarrow> dict result list \<times> 'a world" where
  "run_decisions execute [] W = ([], W)"
| "run_decisions execute ((rid, decision, m) # calls) W =
     (let (r, W1) = apply_approval_decision execute rid decision m W;
          (rs, W2) = run_decisions execute calls W1 in (r # rs, W2))"

definition approved_result :: "dict result \<Rightarrow> bool" where
  "approved_result r = (case r of Inl _ \<Rightarrow> False | Inr x \<Rightarrow> dget x ''status'' = PStr ''approved'')"

definition approvals_of :: "string \<Rightarrow> (string \<times> string \<times> dict) list \<Rightarrow> dict result list \<Rightarrow> nat" where
  "approvals_of rid calls rs = length (filter (\<lambda>(c, r). fst c = rid \<and> approved_result r) (zip calls rs))"

lemma run_decided:
  assumes "list_all (\<lambda>c. fst c \<noteq> []) calls" and "run_decisions execute calls (s, w, a) = (rs, s', w', a')"
    and "request_status s rid \<noteq> Some ''pending''"
  shows "approvals_of rid calls rs = 0"
  using assms
proof (induction calls arbitrary: s w a rs)
  case Nil
  then show ?case by (simp add: approvals_of_def)
next
  case (Cons call calls)
  obtain i d m where call: "call = (i, d, m)" by (cases call)
  obtain r s1 w1 a1 where r: "apply_approval_decision execute i d m (s, w, a) = (r, s1, w1, a1)"
    by (rule prod_cases4)
  from Cons.prems(2) call r obtain rs' where rs: "rs = r # rs'"
    "run_decisions execute calls (s1, w1, a1) = (rs', s', w', a')" by (auto split: prod.splits)
  from Cons.prems(1) call have i: "i \<noteq> []" by simp
  have same: "request_status s1 rid \<noteq> Some ''pending''"
  proof (cases "i = rid")
    case True
    with apply_refused[of s i d execute m w a] r Cons.prems(3) show ?thesis by auto
  next
    case False
    with apply_moved[OF i r] have "get_approval_request s1 rid = get_approval_request s rid" by auto
    then show ?thesis using Cons.prems(3) request_found[of s1 rid] request_found[of s rid] request_absent
      by (metis (no_types, lifting) option.exhaust option.inject pyval.inject(4))
  qed
  have "approvals_of rid calls rs' = 0" using Cons.IH[OF _ rs(2) same] Cons.prems(1) by simp
  moreover have "\<not> (i = rid \<and> approved_result r)"
    using apply_refused[of s i d execute m w a] r Cons.prems(3) by (auto simp: approved_result_def)
  ultimately show ?case by (simp add: call rs(1) approvals_of_def)
qed

lemma apply_returns:
  assumes rid: "rid \<noteq> []"
    and run: "apply_approval_decision execute rid decision m (s, w, a) = (Inr x, s', w', a')"
  shows "length (tool_results s') = length (tool_results s) + (if approved_result (Inr x) then 1 else 0)
    \<and> (approved_result (Inr x) \<longrightarrow> request_status s' rid \<noteq> Some ''pending'')"
proof -
  have pending: "request_status s rid = Some ''pending''" "decision \<in> {''approve'', ''deny'', ''expire''}"
    using apply_refused[of s rid decision execute m w a] run by auto
  show ?thesis
  proof (cases "decision = ''approve''")
    case True
    from apply_approve_outcome[OF rid pending(1) run[unfolded True]]
    consider "approved_reply s (result_of_call execute (request_tool s rid)) rid x s'" | "blocked_reply s rid x s'" by auto
    then show ?thesis
    proof cases
      case 1
      from approved_reply_effects[OF this] show ?thesis by (auto simp: grown_def approved_result_def)
    next
      case 2
      then have "recorded s rid ''approve'' ''pending'' s'" "dget x ''status'' = PStr ''blocked_resource_gate''"
        by (simp_all add: blocked_reply_def)
      with recorded_effects[OF this(1)] show ?thesis by (auto simp: grown_def approved_result_def)
    qed
  next
    case False
    define st where "st = (if decision = ''expire'' then ''expired'' else ''denied'')"
    from apply_settle_outcome[OF rid pending(1) _ run st_def] False pending
    have "recorded s rid decision st s'" "dget x ''status'' = PStr st" by (auto simp: settled_reply_def)
    with recorded_effects[OF this(1)] show ?thesis by (auto simp: grown_def approved_result_def st_def)
  qed
qed

lemma run_decisions_Cons:
  assumes "run_decisions execute (call # calls) (s, w, a) = (rs, s', w', a')"
  obtains i d m r s1 w1 a1 rs' where "call = (i, d, m)"
    "apply_approval_decision execute i d m (s, w, a) = (r, s1, w1, a1)" "rs = r # rs'"
    "run_decisions execute calls (s1, w1, a1) = (rs', s', w', a')"
proof -
  obtain i d m where call: "call = (i, d, m)" by (cases call)
  obtain r s1 w1 a1 where r: "apply_approval_decision execute i d m (s, w, a) = (r, s1, w1, a1)"
    by (rule prod_cases4)
  from assms call r obtain rs' where "rs = r # rs'" "run_decisions execute calls (s1, w1, a1) = (rs', s', w', a')"
    by (auto split: prod.splits)
  with call r that show thesis by blast
qed

lemma run_approvals_once:
  assumes "list_all (\<lambda>c. fst c \<noteq> []) calls" and "run_decisions execute calls (s, w, a) = (rs, s', w', a')"
  shows "approvals_of rid calls rs \<le> 1"
  using assms
proof (induction calls arbitrary: s w a rs)
  case Nil
  then show ?case by (simp add: approvals_of_def)
next
  case (Cons call calls)
  from Cons.prems(2) obtain i d m r s1 w1 a1 rs' where c: "call = (i, d, m)"
    "apply_approval_decision execute i d m (s, w, a) = (r, s1, w1, a1)" "rs = r # rs'"
    "run_decisions execute calls (s1, w1, a1) = (rs', s', w', a')" by (rule run_decisions_Cons)
  show ?case
  proof (cases "i = rid \<and> approved_result r")
    case True
    with c Cons.prems(1) have "request_status s1 rid \<noteq> Some ''pending''"
      using apply_returns[of i execute d m s w a _ s1 w1 a1]
      by (cases r) (auto simp: approved_result_def)
    from run_decided[OF _ c(4) this] Cons.prems(1) show ?thesis by (simp add: c(1,3) approvals_of_def)
  next
    case False
    with Cons.IH[OF _ c(4)] Cons.prems(1) show ?thesis by (auto simp: c(1,3) approvals_of_def)
  qed
qed

lemma run_growth:
  assumes "list_all (\<lambda>c. fst c \<noteq> []) calls" and "run_decisions execute calls (s, w, a) = (rs, s', w', a')"
    and "list_all (\<lambda>r. \<not> isl r) rs"
  shows "length (tool_results s') = length (tool_results s) + length (filter approved_result rs)"
  using assms
proof (induction calls arbitrary: s w a rs)
  case Nil
  then show ?case by simp
next
  case (Cons call calls)
  from Cons.prems(2) obtain i d m r s1 w1 a1 rs' where c: "call = (i, d, m)"
    "apply_approval_decision execute i d m (s, w, a) = (r, s1, w1, a1)" "rs = r # rs'"
    "run_decisions execute calls (s1, w1, a1) = (rs', s', w', a')" by (rule run_decisions_Cons)
  from Cons.prems(3) c(3) obtain x where "r = Inr x" by (cases r) auto
  with apply_returns[of i execute d m s w a x s1 w1 a1] c Cons.prems
  have "length (tool_results s1) = length (tool_results s) + (if approved_result r then 1 else 0)" by simp
  with Cons.IH[OF _ c(4)] Cons.prems c(3) show ?case by simp
qed

text \<open>The resource gate opens exactly when every required resource, after the names of the app
  control and rollback leases are resolved for the target app, is among the leases the unit reported;
  a lease resource without a target app is never satisfied.\<close>

theorem resource_gate_exact:
  "case requirements_dict p plan_quality skill mcp lease_obs apps_obs sync_obs of Inl _ \<Rightarrow> True
   | Inr r \<Rightarrow> \<exists>app leases. dget r ''target_app_id'' = PStr app
      \<and> extract_observed_lease_rows lease_obs = Inr leases
      \<and> dget r ''resource_requirements_satisfied'' = PBool (list_all
          (\<lambda>q. case resolve_resource app q of None \<Rightarrow> False
             | Some lease \<Rightarrow> list_ex (\<lambda>l. first_lease_name l = Some lease) leases)
          (required_resources_of p))
      \<and> (if app = [] then resolve_resource app ''app_control_lease'' = None
            \<and> resolve_resource app ''update_rollback_lease'' = None
         else resolve_resource app ''app_control_lease'' = Some (''app/'' @ app @ ''/control'')
            \<and> resolve_resource app ''update_rollback_lease'' = Some (''update/app/'' @ app @ ''/rollback''))"
proof (cases "requirements_dict p plan_quality skill mcp lease_obs apps_obs sync_obs")
  case (Inr r)
  then obtain app leases where r: "extract_observed_lease_rows lease_obs = Inr leases"
    "dget r ''target_app_id'' = PStr app"
    "dget r ''resource_requirements_satisfied'' = PBool (missing_resources (resolved_resources app (required_resources_of p))
        (unresolved_resources app (required_resources_of p))
        (extract_observed_resource_names (map PDict leases)) = [])"
    by (auto simp: requirements_dict_def Let_def)
  have dicts: "dicts_of (map PDict ls) = ls" for ls by (induction ls) (simp_all add: dicts_of_def)
  have observed: "q \<in> set (extract_observed_resource_names (map PDict leases))
      \<longleftrightarrow> list_ex (\<lambda>l. first_lease_name l = Some q) leases" for q
    by (force simp: extract_observed_resource_names_def dicts list_ex_iff map_filter_def image_iff)
  have "(missing_resources (resolved_resources app qs) (unresolved_resources app qs) obs = [])
      \<longleftrightarrow> list_all (\<lambda>q. case resolve_resource app q of None \<Rightarrow> False | Some n \<Rightarrow> n \<in> set obs) qs" for qs obs
    by (induction qs) (auto simp: missing_resources_def resolved_resources_def unresolved_resources_def
        map_filter_simps split: option.splits)
  with r Inr observed show ?thesis by (simp add: resolve_resource_def)
qed simp

text \<open>The resources a stored request asks for.\<close>

definition request_resources :: "store \<Rightarrow> string \<Rightarrow> string list" where
  "request_resources s rid = (case get_approval_request s rid of
     Some req \<Rightarrow> (case dget req ''payload'' of PDict p \<Rightarrow> required_resources_of p | _ \<Rightarrow> []) | None \<Rightarrow> [])"

lemma as_dict_Inr: "as_dict v = Inr d \<longleftrightarrow> v = PDict d"
  by (cases v) (simp_all add: as_dict_def)

lemma requirements_satisfied:
  assumes "requirements_dict p plan_quality skill mcp lease_obs apps_obs sync_obs = Inr ops" and "required_resources_of p = []"
  shows "dget ops ''resource_requirements_satisfied'' = PBool True"
proof -
  have "missing_resources (resolved_resources app []) (unresolved_resources app []) obs = []" for app obs
    by (simp add: missing_resources_def resolved_resources_def unresolved_resources_def map_filter_simps)
  with assms show ?thesis by (auto simp: requirements_dict_def Let_def)
qed

lemma no_resources_satisfied:
  assumes "build_operator_requirements execute req W = (Inr ops, W')"
    and "case dget req ''payload'' of PDict p \<Rightarrow> required_resources_of p = [] | _ \<Rightarrow> True"
  shows "dget ops ''resource_requirements_satisfied'' = PBool True"
proof -
  from assms(1)[unfolded build_operator_requirements_def Let_def pbind_Inr] obtain p where
    p: "ebind (dindex req ''payload'') as_dict = Inr p"
    and ops: "\<exists>pq sk mcp l a y. requirements_dict p pq sk mcp l a y = Inr ops"
    by (auto simp: plift_def) blast
  from p have "dget req ''payload'' = PDict p"
    by (auto simp: dindex_def as_dict_Inr dget_def split: option.splits if_splits)
  with assms(2) ops requirements_satisfied show ?thesis by auto
qed

lemma satisfied_approves:
  assumes "approve_request execute rid req m W = (Inr x, W')"
    and "case dget req ''payload'' of PDict p \<Rightarrow> required_resources_of p = [] | _ \<Rightarrow> True"
  shows "dget x ''status'' = PStr ''approved''"
proof -
  from assms(1) obtain ops W1 where ops: "build_operator_requirements execute req W = (Inr ops, W1)"
    and rest: "(if dget ops ''resource_requirements_satisfied'' \<noteq> PBool True then block_decision execute rid req m ops
      else pbind (resume_execution execute rid req m ops) (\<lambda>res.
        settle_decision execute rid req ''approve'' m ''approved'' (Some ops) (Some res))) W1 = (Inr x, W')"
    by (auto simp: approve_request_def pbind_Inr)
  from rest no_resources_satisfied[OF ops assms(2)] obtain res W2 where
    "settle_decision execute rid req ''approve'' m ''approved'' (Some ops) (Some res) W2 = (Inr x, W')"
    by (auto simp: pbind_Inr)
  then obtain upd W3 where "decision_reply execute rid req upd m (Some res) (Some ops)
      [(''ok'', PBool True), (''status'', PStr ''approved'')] W3 = (Inr x, W')"
    by (auto simp: settle_decision_def pbind_Inr Let_def)
  from reply_shape[OF this] show ?thesis by simp
qed


definition pending_store :: store where
  "pending_store = empty_store\<lparr> approval_requests := [\<lparr>
     ar_approval_request_id = ''a'', ar_session_id = ''s'', ar_source_execution_span_id = ''x'',
     ar_tool_name = ''t'', ar_status = ''pending'', ar_payload = PDict [], ar_created_at = ''0'',
     ar_updated_at = ''0'' \<rparr>] \<rparr>"

definition failing_adapter :: "unit adapter" where
  "failing_adapter = (\<lambda>t args (a, w). Inr (\<lparr>te_tool_result_id = ''r'', te_tool_name = t, te_status = ''error'', te_payload = []\<rparr>, a, w))"


end
