(* ===== verification/Cbor.thy ===== *)
theory Cbor
  imports PyVal "HOL-Library.Word"
begin

text \<open>
  The CBOR codec of \<open>neuro_cli/src/neuro_protocol.py\<close>: \<open>cbor_encode\<close>, \<open>cbor_decode\<close> and their
  helpers over byte strings (lists of 8-bit words).

  A \<open>cbor\<close> value is a Python value as the codec sees it: a boolean, an int, a text, a sequence
  that is not bytes, a mapping, or a value of any other type. Mapping keys are booleans, ints or
  texts. Text is Latin-1 (code points 0 to 255); a well-formed UTF-8 text with a larger
  code point decodes to \<^const>\<open>OutOfModel\<close>. \<open>CborDecodeError\<close> and \<open>UnicodeDecodeError\<close> are
  \<open>ValueError\<close>s. Python's recursion limit is not modelled.
\<close>

unbundle bit_operations_syntax

type_synonym byte = "8 word"

datatype ckey = KBool bool | KInt int | KStr string

datatype cbor =
    CBool bool
  | CInt int
  | CStr string
  | CList "cbor list"
  | CMap "(ckey \<times> cbor) list"
  | COther
    \<comment> \<open>None, a float, bytes: a value the encoder has no case for\<close>

section \<open>Text as UTF-8\<close>

definition utf8_char :: "char \<Rightarrow> byte list" where
  "utf8_char c = (let n = code_point c in
     if n < 128 then [word_of_nat n] else [word_of_nat (192 + n div 64), word_of_nat (128 + n mod 64)])"

definition utf8_encode :: "string \<Rightarrow> byte list" where
  "utf8_encode s = concat (map utf8_char s)"

text \<open>
  One code point of a UTF-8 text, and the bytes after it: the sequences that Python's strict
  decoder accepts (no overlong forms, no surrogates, nothing above 10FFFF).
\<close>

abbreviation cont :: "nat \<Rightarrow> bool" where
  "cont n \<equiv> 128 \<le> n \<and> n < 192"

fun utf8_step :: "nat list \<Rightarrow> (nat \<times> nat list) option" where
  "utf8_step (a # r) = (
     if a < 128 then Some (a, r)
     else case r of
       [] \<Rightarrow> None
     | b # r1 \<Rightarrow>
       if \<not> cont b then None
       else if 194 \<le> a \<and> a < 224 then Some ((a - 192) * 64 + (b - 128), r1)
       else (case r1 of
         [] \<Rightarrow> None
       | c # r2 \<Rightarrow>
         if \<not> cont c then None
         else if 224 \<le> a \<and> a < 240 \<and> (a = 224 \<longrightarrow> 160 \<le> b) \<and> (a = 237 \<longrightarrow> b < 160)
           then Some (((a - 224) * 64 + (b - 128)) * 64 + (c - 128), r2)
         else (case r2 of
           [] \<Rightarrow> None
         | d # r3 \<Rightarrow>
           if cont d \<and> 240 \<le> a \<and> a < 245 \<and> (a = 240 \<longrightarrow> 144 \<le> b) \<and> (a = 244 \<longrightarrow> b < 144)
             then Some ((((a - 240) * 64 + (b - 128)) * 64 + (c - 128)) * 64 + (d - 128), r3)
           else None)))"
| "utf8_step [] = None"

lemma utf8_step_shorter: "utf8_step bs = Some (n, r) \<Longrightarrow> length r < length bs"
  by (induction bs rule: utf8_step.induct) (auto split: if_splits list.splits)

function utf8_points :: "nat list \<Rightarrow> nat list option" where
  "utf8_points bs = (if bs = [] then Some []
     else case utf8_step bs of None \<Rightarrow> None
     | Some (n, r) \<Rightarrow> map_option (Cons n) (utf8_points r))"
  by pat_completeness auto
termination
  by (relation "measure length") (auto dest: utf8_step_shorter)

declare utf8_points.simps [simp del]

definition utf8_decode :: "byte list \<Rightarrow> string result" where
  "utf8_decode bs = (case utf8_points (map unat bs) of
     None \<Rightarrow> Inl (ValueError ''utf-8 codec cannot decode'')
   | Some ns \<Rightarrow> if \<forall>n \<in> set ns. n < 256 then Inr (map char_of ns)
       else Inl (OutOfModel ''text beyond Latin-1''))"

section \<open>Encoding\<close>

text \<open>\<open>value.to_bytes(k, "big")\<close> of a value that is not negative, and \<open>int.from_bytes(bs, "big")\<close>.\<close>

fun be_bytes :: "nat \<Rightarrow> int \<Rightarrow> byte list" where
  "be_bytes 0 v = []"
| "be_bytes (Suc k) v = be_bytes k (v div 256) @ [word_of_int v]"

definition to_bytes_big :: "nat \<Rightarrow> int \<Rightarrow> byte list result" where
  "to_bytes_big k v = (if v < 256 ^ k then Inr (be_bytes k v) else Inl (OverflowError ''int too big to convert''))"

definition from_bytes_big :: "byte list \<Rightarrow> int" where
  "from_bytes_big bs = foldl (\<lambda>v b. v * 256 + uint b) 0 bs"

definition head_byte :: "int \<Rightarrow> int \<Rightarrow> byte" where
  "head_byte major n = word_of_int (push_bit 5 major OR n)"

definition cbor_encode_uint :: "int \<Rightarrow> int \<Rightarrow> byte list result" where
  "cbor_encode_uint major value = (
     if value < 0 then Inl (ValueError ''CBOR unsigned value must be non-negative'')
     else if value < 24 then Inr [head_byte major value]
     else if value \<le> 0xFF then Inr [head_byte major 24, word_of_int value]
     else if value \<le> 0xFFFF then ebind (to_bytes_big 2 value) (\<lambda>bs. Inr (head_byte major 25 # bs))
     else if value \<le> 0xFFFFFFFF then ebind (to_bytes_big 4 value) (\<lambda>bs. Inr (head_byte major 26 # bs))
     else ebind (to_bytes_big 8 value) (\<lambda>bs. Inr (head_byte major 27 # bs)))"

text \<open>
  \<open>sorted(value.items(), key=lambda item: item[0])\<close>: ints and booleans compare with each other,
  texts with texts.
\<close>

fun key_int :: "ckey \<Rightarrow> int option" where
  "key_int (KBool b) = Some (if b then 1 else 0)"
| "key_int (KInt n) = Some n"
| "key_int (KStr _) = None"

fun key_text :: "ckey \<Rightarrow> string option" where
  "key_text (KStr s) = Some s"
| "key_text _ = None"

definition sort_items :: "(ckey \<times> 'v) list \<Rightarrow> (ckey \<times> 'v) list result" where
  "sort_items items = (
     if length items \<le> 1 then Inr items
     else if \<forall>kv \<in> set items. key_int (fst kv) \<noteq> None then Inr (sort_key (\<lambda>kv. the (key_int (fst kv))) items)
     else if \<forall>kv \<in> set items. key_text (fst kv) \<noteq> None then Inr (sort_key (\<lambda>kv. the (key_text (fst kv))) items)
     else Inl (TypeError ''keys cannot be ordered''))"

fun key_value :: "ckey \<Rightarrow> cbor" where
  "key_value (KBool b) = CBool b"
| "key_value (KInt n) = CInt n"
| "key_value (KStr s) = CStr s"

fun encode_scalar :: "cbor \<Rightarrow> byte list result" where
  "encode_scalar (CBool b) = Inr [if b then 0xF5 else 0xF4]"
| "encode_scalar (CInt n) = (if 0 \<le> n then cbor_encode_uint 0 n else cbor_encode_uint 1 (- 1 - n))"
| "encode_scalar (CStr s) = (let data = utf8_encode s in
     ebind (cbor_encode_uint 3 (int (length data))) (\<lambda>head. Inr (head @ data)))"
| "encode_scalar _ = Inl (TypeError ''unsupported CBOR value type'')"

text \<open>
  The encoder. The items of a mapping are sorted before they are encoded; the sort moves whole
  items, so the encodings of the items can be computed first and sorted: an exception of an item
  is raised in the sorted order.
\<close>

fun cbor_encode :: "cbor \<Rightarrow> byte list result" where
  "cbor_encode (CList xs) =
     ebind (cbor_encode_uint 4 (int (length xs))) (\<lambda>head.
     ebind (emap cbor_encode xs) (\<lambda>parts. Inr (head @ concat parts)))"
| "cbor_encode (CMap items) =
     ebind (sort_items (map (\<lambda>kv. (fst kv, cbor_encode (snd kv))) items)) (\<lambda>sorted_items.
     ebind (cbor_encode_uint 5 (int (length sorted_items))) (\<lambda>head.
     ebind (emap (\<lambda>(k, item). ebind (encode_scalar (key_value k)) (\<lambda>kb. ebind item (\<lambda>vb. Inr (kb @ vb))))
       sorted_items) (\<lambda>parts. Inr (head @ concat parts))))"
| "cbor_encode v = encode_scalar v"

section \<open>Decoding\<close>

definition cbor_read_arg :: "byte list \<Rightarrow> nat \<Rightarrow> int \<Rightarrow> (int \<times> nat) result" where
  "cbor_read_arg data offset additional = (
     if additional < 24 then Inr (additional, offset)
     else if 28 \<le> additional then Inl (ValueError ''unsupported indefinite or reserved CBOR length'')
     else let end_offset = offset + (if additional = 24 then 1 else if additional = 25 then 2
             else if additional = 26 then 4 else 8) in
       if end_offset > length data then Inl (ValueError ''truncated CBOR value'')
       else Inr (from_bytes_big (take (end_offset - offset) (drop offset data)), end_offset))"

text \<open>\<open>result[key] = value\<close>: a list or a dict cannot be a key; \<open>True\<close> and 1 are the same key.\<close>

definition key_of :: "cbor \<Rightarrow> ckey result" where
  "key_of v = (case v of CBool b \<Rightarrow> Inr (KBool b) | CInt n \<Rightarrow> Inr (KInt n) | CStr s \<Rightarrow> Inr (KStr s)
     | _ \<Rightarrow> Inl (TypeError ''unhashable type''))"

definition key_eq :: "ckey \<Rightarrow> ckey \<Rightarrow> bool" where
  "key_eq a b \<longleftrightarrow> key_int a = key_int b \<and> key_text a = key_text b"

fun cset :: "(ckey \<times> 'v) list \<Rightarrow> ckey \<Rightarrow> 'v \<Rightarrow> (ckey \<times> 'v) list" where
  "cset [] k v = [(k, v)]"
| "cset ((k', v') # m) k v = (if key_eq k' k then (k', v) # m else (k', v') # cset m k v)"

definition text_at :: "byte list \<Rightarrow> int \<times> nat \<Rightarrow> (cbor \<times> nat) result" where
  "text_at data arg = (case arg of (n, offset) \<Rightarrow>
     if offset + nat n > length data then Inl (ValueError ''truncated CBOR text string'')
     else ebind (utf8_decode (take (nat n) (drop offset data))) (\<lambda>s. Inr (CStr s, offset + nat n)))"

text \<open>The number of nodes of a decoded value.\<close>

fun csize :: "cbor \<Rightarrow> nat" where
  "csize (CList xs) = 1 + sum_list (map csize xs)"
| "csize (CMap items) = 1 + sum_list (map (\<lambda>kv. 1 + csize (snd kv)) items)"
| "csize _ = 1"

abbreviation pairs_size :: "(ckey \<times> cbor) list \<Rightarrow> nat" where
  "pairs_size m \<equiv> sum_list (map (\<lambda>kv. 1 + csize (snd kv)) m)"

lemma cset_size: "pairs_size (cset m k v) \<le> pairs_size m + 1 + csize v"
  by (induction m k v rule: cset.induct) auto

lemma text_size: "text_at data (n, offset) = Inr (v, o') \<Longrightarrow> csize v = 1 \<and> offset \<le> o'"
  by (auto simp: text_at_def split: if_splits)

lemma csize_pos: "1 \<le> csize v"
  by (cases v) auto

function cbor_decode_at :: "byte list \<Rightarrow> nat \<Rightarrow> (cbor \<times> nat) result"
  and decode_items :: "byte list \<Rightarrow> int \<Rightarrow> nat \<Rightarrow> (cbor list \<times> nat) result"
  and decode_pairs :: "byte list \<Rightarrow> int \<Rightarrow> (ckey \<times> cbor) list \<Rightarrow> nat \<Rightarrow> ((ckey \<times> cbor) list \<times> nat) result"
where
  "cbor_decode_at data offset = (
     if length data \<le> offset then Inl (ValueError ''empty or truncated CBOR payload'')
     else let initial = data ! offset;
              major = uint (drop_bit 5 initial);
              additional = uint (initial AND 0x1F) in
       if major = 0 then ebind (cbor_read_arg data (Suc offset) additional) (\<lambda>(n, o'). Inr (CInt n, o'))
       else if major = 1 then ebind (cbor_read_arg data (Suc offset) additional) (\<lambda>(n, o'). Inr (CInt (- 1 - n), o'))
       else if major = 3 then ebind (cbor_read_arg data (Suc offset) additional) (text_at data)
       else if major = 4 then ebind (cbor_read_arg data (Suc offset) additional) (\<lambda>(n, o').
         ebind (decode_items data n o') (\<lambda>(items, o'). Inr (CList items, o')))
       else if major = 5 then ebind (cbor_read_arg data (Suc offset) additional) (\<lambda>(n, o').
         ebind (decode_pairs data n [] o') (\<lambda>(m, o'). Inr (CMap m, o')))
       else if major = 7 \<and> (additional = 20 \<or> additional = 21) then Inr (CBool (additional = 21), Suc offset)
       else Inl (ValueError ''unsupported CBOR major type''))"
| "decode_items data n offset = (if n \<le> 0 then Inr ([], offset)
     else ebind (cbor_decode_at data offset) (\<lambda>(item, o').
       ebind (decode_items data (n - 1) o') (\<lambda>(items, o'). Inr (item # items, o'))))"
| "decode_pairs data n m offset = (if n \<le> 0 then Inr (m, offset)
     else ebind (cbor_decode_at data offset) (\<lambda>(key, o').
       ebind (cbor_decode_at data o') (\<lambda>(v, o'').
       ebind (key_of key) (\<lambda>k.
       decode_pairs data (n - 1) (cset m k v) o''))))"
  by pat_completeness auto

lemma read_arg_forward: "cbor_read_arg data offset a = Inr (n, o') \<Longrightarrow> offset \<le> o' \<and> (offset \<le> length data \<longrightarrow> o' \<le> length data)"
  by (auto simp: cbor_read_arg_def Let_def split: if_splits)

lemma text_forward: "text_at data (n, offset) = Inr (v, o') \<Longrightarrow> offset \<le> o' \<and> o' \<le> length data"
  by (auto simp: text_at_def split: if_splits)

text \<open>
  Progress, on the domain of the decoder: a value that was read takes at least one byte, ends
  inside the data, and has no more nodes than bytes. Termination follows, the recursion being
  nested.
\<close>

lemma decode_progress:
  "cbor_decode_at_decode_items_decode_pairs_dom (Inl (data, offset)) \<Longrightarrow>
     cbor_decode_at data offset = Inr (v, o') \<Longrightarrow> offset < o' \<and> o' \<le> length data \<and> offset + csize v \<le> o'"
  "cbor_decode_at_decode_items_decode_pairs_dom (Inr (Inl (data, n, offset))) \<Longrightarrow>
     decode_items data n offset = Inr (vs, o') \<Longrightarrow> offset \<le> length data \<Longrightarrow>
     offset + sum_list (map csize vs) \<le> o' \<and> o' \<le> length data"
  "cbor_decode_at_decode_items_decode_pairs_dom (Inr (Inr (data, n, m, offset))) \<Longrightarrow>
     decode_pairs data n m offset = Inr (kvs, o') \<Longrightarrow> offset \<le> length data \<Longrightarrow>
     offset + pairs_size kvs \<le> o' + pairs_size m \<and> offset \<le> o' \<and> o' \<le> length data"
proof (induction data offset and data n offset and data n m offset arbitrary: v o' and vs o' and kvs o'
    rule: cbor_decode_at_decode_items_decode_pairs.pinduct)
  case (1 data offset)
  let ?arg = "cbor_read_arg data (Suc offset) (uint (data ! offset AND 0x1F))"
  let ?major = "uint (drop_bit 5 (data ! offset))"
  from "1.prems" have inside: "offset < length data"
    by (simp add: cbor_decode_at.psimps[OF "1.hyps"] split: if_splits)
  note run = "1.prems"[unfolded cbor_decode_at.psimps[OF "1.hyps"]]
  have arg: "offset < o1 \<and> o1 \<le> length data" if "?arg = Inr (n, o1)" for n o1
    using read_arg_forward[OF that] inside by simp
  consider "?major = 0" | "?major = 1" | "?major = 3" | "?major = 4" | "?major = 5"
    | "?major \<noteq> 0" "?major \<noteq> 1" "?major \<noteq> 3" "?major \<noteq> 4" "?major \<noteq> 5" by blast
  then show ?case
  proof cases
    case 1
    with run inside arg show ?thesis by (force simp: Let_def)
  next
    case 2
    with run inside arg show ?thesis by (force simp: Let_def)
  next
    case 3
    with run inside obtain n o1 where "?arg = Inr (n, o1)" "text_at data (n, o1) = Inr (v, o')"
      by (auto simp: Let_def)
    with arg[of n o1] text_forward[of data n o1 v o'] text_size[of data n o1 v o'] show ?thesis by simp
  next
    case 4
    with run inside obtain n o1 items where r: "?arg = Inr (n, o1)" "decode_items data n o1 = Inr (items, o')"
      and v: "v = CList items" by (auto simp: Let_def)
    from "1.IH"(1)[OF _ refl refl refl _ _ _ _ r(1) refl r(2)] inside 4 arg[OF r(1)] v show ?thesis by auto
  next
    case 5
    with run inside obtain n o1 m where r: "?arg = Inr (n, o1)" "decode_pairs data n [] o1 = Inr (m, o')"
      and v: "v = CMap m" by (auto simp: Let_def)
    from "1.IH"(2)[OF _ refl refl refl _ _ _ _ _ r(1) refl r(2)] inside 5 arg[OF r(1)] v show ?thesis by auto
  next
    case 6
    with run inside show ?thesis by (auto simp: Let_def split: if_splits)
  qed
next
  case (2 data n offset)
  note run = "2.prems"(1)[unfolded decode_items.psimps[OF "2.hyps"]]
  show ?case
  proof (cases "n \<le> 0")
    case True
    with run "2.prems"(2) show ?thesis by simp
  next
    case False
    with run obtain x o1 xs where r: "cbor_decode_at data offset = Inr (x, o1)"
      "decode_items data (n - 1) o1 = Inr (xs, o')" and vs: "vs = x # xs" by auto
    from "2.IH"(1)[OF False r(1)] "2.IH"(2)[OF False r(1) refl r(2)] vs show ?thesis by auto
  qed
next
  case (3 data n m offset)
  note run = "3.prems"(1)[unfolded decode_pairs.psimps[OF "3.hyps"]]
  show ?case
  proof (cases "n \<le> 0")
    case True
    with run "3.prems"(2) show ?thesis by simp
  next
    case False
    with run obtain x o1 y o2 k where r: "cbor_decode_at data offset = Inr (x, o1)"
      "cbor_decode_at data o1 = Inr (y, o2)" "key_of x = Inr k" "decode_pairs data (n - 1) (cset m k y) o2 = Inr (kvs, o')" by auto
    from "3.IH"(1)[OF False r(1)] "3.IH"(2)[OF False r(1) refl r(2)]
      "3.IH"(3)[OF False r(1) refl r(2) refl r(3) r(4)] cset_size[of m k y] show ?thesis by auto
  qed
qed

lemma decode_total: "All cbor_decode_at_decode_items_decode_pairs_dom"
proof (relation "measures [
    \<lambda>x. case x of Inl (d, i) \<Rightarrow> length d - i | Inr (Inl (d, n, i)) \<Rightarrow> length d - i
      | Inr (Inr (d, n, m, i)) \<Rightarrow> length d - i,
    \<lambda>x. case x of Inl _ \<Rightarrow> 0 | Inr _ \<Rightarrow> 1]", goal_cases)
  case 1
  then show ?case by simp
next
  case 2
  then show ?case by (auto dest!: read_arg_forward)
next
  case 3
  then show ?case by (auto dest!: read_arg_forward)
next
  case 4
  then show ?case by simp
next
  case 5
  then show ?case by (auto dest!: decode_progress(1))
next
  case 6
  then show ?case by simp
next
  case 7
  then show ?case by (auto dest!: decode_progress(1))
next
  case 8
  then show ?case by (auto dest!: decode_progress(1))
qed

termination cbor_decode_at
  by (rule decode_total)

lemmas decode_size = decode_progress[OF decode_total[THEN spec]]

declare cbor_decode_at.simps [simp del] decode_items.simps [simp del] decode_pairs.simps [simp del]

definition cbor_decode :: "byte list \<Rightarrow> cbor result" where
  "cbor_decode data = ebind (cbor_decode_at data 0) (\<lambda>(v, offset).
     if offset \<noteq> length data then Inl (ValueError ''trailing CBOR bytes'') else Inr v)"

section \<open>Lemmas: heads, lengths and text\<close>

lemma head_byte_fields:
  assumes "m \<in> {0, 1, 3, 4, 5}" and "0 \<le> n" and "n < 32"
  shows "uint (drop_bit 5 (head_byte m n)) = m" "uint (head_byte m n AND 0x1F) = n"
proof -
  have "m \<in> {0, 1, 3, 4, 5} \<and> n \<in> {0..<32}" using assms by simp
  moreover have "\<forall>m \<in> {0, 1, 3, 4, 5}. \<forall>n \<in> {0..<32}. uint (drop_bit 5 (head_byte m n)) = m
      \<and> uint (head_byte m n AND 0x1F) = n"
    by code_simp
  ultimately show "uint (drop_bit 5 (head_byte m n)) = m" "uint (head_byte m n AND 0x1F) = n" by blast+
qed

lemma length_be_bytes [simp]: "length (be_bytes k v) = k"
  by (induction k arbitrary: v) auto

lemma from_bytes_be: "0 \<le> v \<Longrightarrow> v < 256 ^ k \<Longrightarrow> from_bytes_big (be_bytes k v) = v"
proof (induction k arbitrary: v)
  case 0
  then show ?case by (simp add: from_bytes_big_def)
next
  case (Suc k)
  define b :: int where "b = 256 ^ k"
  from Suc.prems(2) have "v < 256 * b" by (simp add: b_def)
  then have "v div 256 < b" by linarith
  then have "v div 256 < 256 ^ k" by (simp add: b_def)
  with Suc have "from_bytes_big (be_bytes k (v div 256)) = v div 256" by simp
  moreover have "uint (word_of_int v :: byte) = v mod 256" by (simp add: unsigned_of_int take_bit_eq_mod)
  ultimately show ?case by (simp add: from_bytes_big_def)
qed

lemma code_point_256: "code_point c < 256"
  using of_char_mod_256[of c, where ?'a = nat] by (metis mod_less_divisor zero_less_numeral)

lemma unat_small: "n < 256 \<Longrightarrow> unat (word_of_nat n :: byte) = n"
  by (simp add: unsigned_of_nat take_bit_eq_mod)

lemma utf8_step_char: "utf8_step (map unat (utf8_char c) @ r) = Some (code_point c, r)"
proof -
  let ?n = "code_point c"
  have "?n < 256" by (rule code_point_256)
  then have "unat (word_of_nat (192 + ?n div 64) :: byte) = 192 + ?n div 64"
    "unat (word_of_nat (128 + ?n mod 64) :: byte) = 128 + ?n mod 64" "unat (word_of_nat ?n :: byte) = ?n"
    using unat_small[of "192 + ?n div 64"] unat_small[of "128 + ?n mod 64"] unat_small[of ?n] by linarith+
  moreover have "?n div 64 \<ge> 2" "?n div 64 < 32" if "\<not> ?n < 128" using that \<open>?n < 256\<close> by linarith+
  ultimately show ?thesis by (auto simp: utf8_char_def Let_def simp del: of_nat_add)
qed

lemma utf8_char_not_Nil [simp]: "utf8_char c \<noteq> []"
  by (simp add: utf8_char_def Let_def)

lemma utf8_points_encode: "utf8_points (map unat (utf8_encode s)) = Some (map code_point s)"
proof (induction s)
  case Nil
  then show ?case by (simp add: utf8_encode_def utf8_points.simps)
next
  case (Cons c s)
  have "utf8_step (map unat (utf8_encode (c # s))) = Some (code_point c, map unat (utf8_encode s))"
    by (simp add: utf8_encode_def utf8_step_char)
  moreover have "utf8_encode (c # s) \<noteq> []" by (simp add: utf8_encode_def)
  ultimately show ?case using Cons.IH by (subst utf8_points.simps) simp
qed

lemma utf8_decode_encode: "utf8_decode (utf8_encode s) = Inr s"
proof -
  have "\<forall>n \<in> set (map code_point s). n < 256" by (auto intro: code_point_256)
  then show ?thesis unfolding utf8_decode_def utf8_points_encode by (simp add: comp_def)
qed

section \<open>Lemmas: reading back what was written\<close>

text \<open>Reading an encoded unsigned argument at an offset: the head byte, then the value.\<close>

lemma nth_at [simp]: "(pre @ b # r) ! length pre = b"
  by simp

lemma read_uint:
  assumes "cbor_encode_uint m v = Inr bs" and "m \<in> {0, 1, 3, 4, 5}"
  shows "bs \<noteq> [] \<and> 0 \<le> v \<and> v < 2 ^ 64 \<and> uint (drop_bit 5 (hd bs)) = m
    \<and> cbor_read_arg (pre @ bs @ suf) (Suc (length pre)) (uint (hd bs AND 0x1F)) = Inr (v, length pre + length bs)"
proof -
  have v: "0 \<le> v" using assms(1) by (auto simp: cbor_encode_uint_def split: if_splits)
  consider "v < 24" | "24 \<le> v" "v \<le> 0xFF" | "0xFF < v" "v \<le> 0xFFFF" | "0xFFFF < v" "v \<le> 0xFFFFFFFF"
    | "0xFFFFFFFF < v" by linarith
  then show ?thesis
  proof cases
    case 1
    with assms(1) v have "bs = [head_byte m v]" by (simp add: cbor_encode_uint_def)
    with 1 v show ?thesis using head_byte_fields[OF assms(2), of v] by (simp add: cbor_read_arg_def)
  next
    case 2
    with assms(1) v have "bs = [head_byte m 24, word_of_int v]" by (simp add: cbor_encode_uint_def)
    with 2 v show ?thesis using head_byte_fields[OF assms(2), of 24]
      by (simp add: cbor_read_arg_def from_bytes_big_def unsigned_of_int take_bit_eq_mod)
  next
    case 3
    with assms(1) v have "bs = head_byte m 25 # be_bytes 2 v"
      by (auto simp: cbor_encode_uint_def to_bytes_big_def split: if_splits)
    with 3 v show ?thesis using head_byte_fields[OF assms(2), of 25] from_bytes_be[of v 2]
      by (simp add: cbor_read_arg_def)
  next
    case 4
    with assms(1) v have "bs = head_byte m 26 # be_bytes 4 v"
      by (auto simp: cbor_encode_uint_def to_bytes_big_def split: if_splits)
    with 4 v show ?thesis using head_byte_fields[OF assms(2), of 26] from_bytes_be[of v 4]
      by (simp add: cbor_read_arg_def)
  next
    case 5
    with assms(1) v have "bs = head_byte m 27 # be_bytes 8 v" "v < 256 ^ 8"
      by (auto simp: cbor_encode_uint_def to_bytes_big_def split: if_splits)
    with 5 v show ?thesis using head_byte_fields[OF assms(2), of 27] from_bytes_be[of v 8]
      by (simp add: cbor_read_arg_def)
  qed
qed

text \<open>Sorting the items of a mapping does not look at the values.\<close>

abbreviation on_value :: "('v \<Rightarrow> 'w) \<Rightarrow> 'k \<times> 'v \<Rightarrow> 'k \<times> 'w" where
  "on_value f \<equiv> \<lambda>kv. (fst kv, f (snd kv))"

lemma sort_key_on_value: "sort_key (\<lambda>kv. g (fst kv)) (map (on_value f) xs) = map (on_value f) (sort_key (\<lambda>kv. g (fst kv)) xs)"
proof -
  have "insort_key (\<lambda>kv. g (fst kv)) (on_value f x) (map (on_value f) ys) = map (on_value f) (insort_key (\<lambda>kv. g (fst kv)) x ys)"
    for x ys by (induction ys) auto
  then show ?thesis by (induction xs) auto
qed

lemma sort_items_on_value: "sort_items (map (on_value f) items) = map_sum id (map (on_value f)) (sort_items items)"
  by (auto simp: sort_items_def sort_key_on_value[of "\<lambda>k. the (key_int k)"] sort_key_on_value[of "\<lambda>k. the (key_text k)"])

lemma sort_items_perm: "sort_items items = Inr s \<Longrightarrow> mset s = mset items"
  by (auto simp: sort_items_def split: if_splits)

text \<open>The identity of a key; a mapping has no two keys with the same identity.\<close>

definition key_id :: "ckey \<Rightarrow> int option \<times> string option" where
  "key_id k = (key_int k, key_text k)"

lemma key_eq_id: "key_eq a b \<longleftrightarrow> key_id a = key_id b"
  by (simp add: key_eq_def key_id_def)

fun wf_cbor :: "cbor \<Rightarrow> bool" where
  "wf_cbor (CList xs) = (\<forall>x \<in> set xs. wf_cbor x)"
| "wf_cbor (CMap items) = (distinct (map (\<lambda>kv. key_id (fst kv)) items) \<and> (\<forall>kv \<in> set items. wf_cbor (snd kv)))"
| "wf_cbor _ = True"

text \<open>The value with the items of every mapping in the order the encoder writes them.\<close>

definition sorted_items :: "(ckey \<times> 'v) list \<Rightarrow> (ckey \<times> 'v) list" where
  "sorted_items items = (case sort_items items of Inl _ \<Rightarrow> items | Inr s \<Rightarrow> s)"

fun canon :: "cbor \<Rightarrow> cbor" where
  "canon (CList xs) = CList (map canon xs)"
| "canon (CMap items) = CMap (sorted_items (map (\<lambda>kv. (fst kv, canon (snd kv))) items))"
| "canon v = v"

definition reads :: "byte list \<Rightarrow> cbor \<Rightarrow> bool" where
  "reads bs v \<longleftrightarrow> (\<forall>pre suf. cbor_decode_at (pre @ bs @ suf) (length pre) = Inr (v, length pre + length bs))"

lemma decode_head:
  assumes "cbor_encode_uint m v = Inr bs" and "m \<in> {0, 1, 3, 4, 5}"
  shows "cbor_decode_at (pre @ bs @ suf) (length pre) = (let arg = (v, length pre + length bs); data = pre @ bs @ suf in
     if m = 0 then Inr (CInt v, snd arg) else if m = 1 then Inr (CInt (- 1 - v), snd arg)
     else if m = 3 then text_at data arg
     else if m = 4 then ebind (decode_items data v (snd arg)) (\<lambda>(items, o'). Inr (CList items, o'))
     else ebind (decode_pairs data v [] (snd arg)) (\<lambda>(kvs, o'). Inr (CMap kvs, o')))"
proof -
  from read_uint[OF assms, of pre suf] obtain b r where bs: "bs = b # r" by (cases bs) auto
  note h = read_uint[OF assms, of pre suf, unfolded bs list.sel]
  have "\<not> length (pre @ bs @ suf) \<le> length pre" "(pre @ bs @ suf) ! length pre = b" using bs by simp_all
  with h assms(2) show ?thesis
    by (subst cbor_decode_at.simps) (auto simp: bs Let_def)
qed

lemma scalar_reads: "encode_scalar v = Inr bs \<Longrightarrow> reads bs v"
proof (cases v)
  case (CBool b)
  assume "encode_scalar v = Inr bs"
  with CBool have bs: "bs = [if b then 0xF5 else 0xF4]" by simp
  have "uint (drop_bit 5 (0xF5 :: byte)) = 7" "uint (drop_bit 5 (0xF4 :: byte)) = 7"
    "uint ((0xF5 :: byte) AND 0x1F) = 21" "uint ((0xF4 :: byte) AND 0x1F) = 20" by code_simp+
  with CBool bs show ?thesis by (auto simp: reads_def cbor_decode_at.simps Let_def)
next
  case (CInt n)
  assume "encode_scalar v = Inr bs"
  with CInt show ?thesis
    using decode_head[of 0 n bs] decode_head[of 1 "- 1 - n" bs] by (auto simp: reads_def Let_def split: if_splits)
next
  case (CStr s)
  assume "encode_scalar v = Inr bs"
  with CStr obtain head where h: "cbor_encode_uint 3 (int (length (utf8_encode s))) = Inr head"
    and bs: "bs = head @ utf8_encode s" by (auto simp: Let_def)
  show ?thesis
    using decode_head[OF h, of _ "utf8_encode s @ _"] CStr
    by (simp add: reads_def bs text_at_def utf8_decode_encode)
qed auto

lemma items_read:
  assumes "list_all2 (\<lambda>x b. reads b (canon x)) xs parts"
  shows "decode_items (pre @ concat parts @ suf) (int (length xs)) (length pre)
    = Inr (map canon xs, length pre + length (concat parts))"
  using assms
proof (induction xs parts arbitrary: pre rule: list_all2_induct)
  case Nil
  then show ?case by (simp add: decode_items.simps)
next
  case (Cons x xs b parts)
  have "cbor_decode_at (pre @ b @ concat parts @ suf) (length pre) = Inr (canon x, length pre + length b)"
    using Cons.hyps(1) by (simp add: reads_def)
  moreover have "decode_items ((pre @ b) @ concat parts @ suf) (int (length xs)) (length (pre @ b))
      = Inr (map canon xs, length (pre @ b) + length (concat parts))" by (rule Cons.IH)
  ultimately show ?case by (simp add: decode_items.simps[of _ "1 + int (length xs)"])
qed

lemma cset_new: "\<forall>kv \<in> set m. \<not> key_eq (fst kv) k \<Longrightarrow> cset m k v = m @ [(k, v)]"
  by (induction m) auto

lemma key_of_value [simp]: "key_of (key_value k) = Inr k"
  by (cases k) (simp_all add: key_of_def)

lemma pairs_read:
  assumes "list_all2 (\<lambda>kv b. \<exists>kb vb. b = kb @ vb \<and> reads kb (key_value (fst kv)) \<and> reads vb (snd kv)) kvs parts"
    and "distinct (map (\<lambda>kv. key_id (fst kv)) (m @ kvs))"
  shows "decode_pairs (pre @ concat parts @ suf) (int (length kvs)) m (length pre)
    = Inr (m @ kvs, length pre + length (concat parts))"
  using assms
proof (induction kvs parts arbitrary: pre m rule: list_all2_induct)
  case Nil
  then show ?case by (simp add: decode_pairs.simps)
next
  case (Cons kv kvs b parts)
  obtain k v where kv: "kv = (k, v)" by (cases kv)
  from Cons.hyps(1) kv obtain kb vb where b: "b = kb @ vb" "reads kb (key_value k)" "reads vb v" by auto
  have "cbor_decode_at (pre @ kb @ vb @ concat parts @ suf) (length pre) = Inr (key_value k, length pre + length kb)"
    using b(2) by (simp add: reads_def)
  moreover have "cbor_decode_at ((pre @ kb) @ vb @ concat parts @ suf) (length (pre @ kb))
      = Inr (v, length (pre @ kb) + length vb)"
    using b(3) unfolding reads_def by blast
  moreover have "cset m k v = m @ [(k, v)]"
    using Cons.prems kv by (intro cset_new) (force simp: key_eq_id)
  moreover have "decode_pairs ((pre @ kb @ vb) @ concat parts @ suf) (int (length kvs)) (m @ [(k, v)]) (length (pre @ kb @ vb))
      = Inr ((m @ [(k, v)]) @ kvs, length (pre @ kb @ vb) + length (concat parts))"
    using Cons.prems kv by (intro Cons.IH) auto
  ultimately show ?case
    by (simp add: decode_pairs.simps[of _ "1 + int (length kvs)"] b(1) kv add.assoc)
qed

lemma encode_reads: "cbor_encode v = Inr bs \<Longrightarrow> wf_cbor v \<Longrightarrow> reads bs (canon v)"
proof (induction v arbitrary: bs)
  case (CList xs)
  then obtain head parts where h: "cbor_encode_uint 4 (int (length xs)) = Inr head"
    "emap cbor_encode xs = Inr parts" and bs: "bs = head @ concat parts" by auto
  from h(2) CList have "list_all2 (\<lambda>x b. reads b (canon x)) xs parts"
    unfolding emap_Inr_iff by (auto elim!: list.rel_mono_strong)
  from items_read[OF this] show ?case
    unfolding reads_def
  proof (intro allI)
    fix pre suf
    have "decode_items ((pre @ head) @ concat parts @ suf) (int (length xs)) (length (pre @ head))
      = Inr (map canon xs, length (pre @ head) + length (concat parts))"
      by (rule items_read) fact
    then show "cbor_decode_at (pre @ bs @ suf) (length pre) = Inr (canon (CList xs), length pre + length bs)"
      using decode_head[OF h(1), of pre "concat parts @ suf"] by (simp add: bs Let_def)
  qed
next
  case (CMap items)
  let ?enc = "map (\<lambda>kv. (fst kv, cbor_encode (snd kv))) items"
  from CMap.prems obtain s head parts where s: "sort_items ?enc = Inr s"
    and h: "cbor_encode_uint 5 (int (length s)) = Inr head"
    and p: "emap (\<lambda>(k, item). ebind (encode_scalar (key_value k)) (\<lambda>kb. ebind item (\<lambda>vb. Inr (kb @ vb)))) s = Inr parts"
    and bs: "bs = head @ concat parts" by auto
  from s obtain t where t: "sort_items items = Inr t" "s = map (\<lambda>kv. (fst kv, cbor_encode (snd kv))) t"
    unfolding sort_items_on_value by (cases "sort_items items") auto
  define kvs where "kvs = map (on_value canon) t"
  have canon: "canon (CMap items) = CMap kvs"
    by (simp add: sorted_items_def sort_items_on_value t(1) kvs_def)
  have perm: "mset t = mset items" by (rule sort_items_perm[OF t(1)])
  then have set_t: "set t = set items" by (rule mset_eq_setD)
  have "distinct (map (\<lambda>kv. key_id (fst kv)) t)"
    using CMap.prems(2) perm by (metis mset_eq_imp_distinct_iff mset_map wf_cbor.simps(2))
  then have dist: "distinct (map (\<lambda>kv. key_id (fst kv)) ([] @ kvs))" by (simp add: kvs_def comp_def)
  have "list_all2 (\<lambda>kv b. \<exists>kb vb. b = kb @ vb \<and> reads kb (key_value (fst kv)) \<and> reads vb (snd kv)) kvs parts"
    using p unfolding t(2) emap_map emap_Inr_iff kvs_def list_all2_map1
  proof (rule list.rel_mono_strong)
    fix kv b assume kv: "kv \<in> set t"
      and "(case (fst kv, cbor_encode (snd kv)) of (k, item) \<Rightarrow>
          ebind (encode_scalar (key_value k)) (\<lambda>kb. ebind item (\<lambda>vb. Inr (kb @ vb)))) = Inr b"
    then obtain kb vb where e: "encode_scalar (key_value (fst kv)) = Inr kb" "cbor_encode (snd kv) = Inr vb" "b = kb @ vb"
      by auto
    from kv set_t CMap.prems(2) have "kv \<in> set items" "wf_cbor (snd kv)" by auto
    with CMap.IH[of kv "snd kv" vb] e scalar_reads[OF e(1)]
    show "\<exists>kb vb. b = kb @ vb \<and> reads kb (key_value (fst (on_value canon kv))) \<and> reads vb (snd (on_value canon kv))"
      by (cases kv) auto
  qed
  then have pairs: "decode_pairs ((pre @ head) @ concat parts @ suf) (int (length kvs)) [] (length (pre @ head))
      = Inr ([] @ kvs, length (pre @ head) + length (concat parts))" for pre suf
    using dist by (rule pairs_read)
  have len: "length s = length kvs" by (simp add: t(2) kvs_def)
  show ?case
    unfolding reads_def
  proof (intro allI)
    fix pre suf
    show "cbor_decode_at (pre @ bs @ suf) (length pre) = Inr (canon (CMap items), length pre + length bs)"
      unfolding canon
      using decode_head[OF h, of pre "concat parts @ suf"] pairs[of pre suf] by (simp add: bs Let_def len)
  qed
qed (auto intro: scalar_reads)

text \<open>The values the encoder accepts, and the errors it raises for the others.\<close>

fun encodable_key :: "ckey \<Rightarrow> bool" where
  "encodable_key (KStr s) = (length (utf8_encode s) < 2 ^ 64)"
| "encodable_key (KInt n) = (- (2 ^ 64) \<le> n \<and> n < 2 ^ 64)"
| "encodable_key (KBool _) = True"

fun encodable :: "cbor \<Rightarrow> bool" where
  "encodable (CBool _) = True"
| "encodable (CInt n) = (- (2 ^ 64) \<le> n \<and> n < 2 ^ 64)"
| "encodable (CStr s) = (length (utf8_encode s) < 2 ^ 64)"
| "encodable (CList xs) = (length xs < 2 ^ 64 \<and> list_all encodable xs)"
| "encodable (CMap items) = (length items < 2 ^ 64
     \<and> (length items \<le> 1 \<or> list_all (\<lambda>kv. key_text (fst kv) = None) items \<or> list_all (\<lambda>kv. key_int (fst kv) = None) items)
     \<and> list_all (\<lambda>kv. encodable_key (fst kv) \<and> encodable (snd kv)) items)"
| "encodable COther = False"

fun encode_error :: "py_error \<Rightarrow> bool" where
  "encode_error (TypeError _) = True"
| "encode_error (OverflowError _) = True"
| "encode_error _ = False"

definition accepts :: "bool \<Rightarrow> 'a result \<Rightarrow> bool" where
  "accepts b r \<longleftrightarrow> (case r of Inl e \<Rightarrow> \<not> b \<and> encode_error e | Inr _ \<Rightarrow> b)"

lemma uint_accepts: "0 \<le> v \<Longrightarrow> accepts (v < 2 ^ 64) (cbor_encode_uint m v)"
  by (auto simp: accepts_def cbor_encode_uint_def to_bytes_big_def)

lemma accepts_bind: "accepts a m \<Longrightarrow> (\<And>x. accepts b (f x)) \<Longrightarrow> accepts (a \<and> b) (ebind m f)"
  by (cases m) (auto simp: accepts_def)

lemma accepts_Inr [simp]: "accepts b (Inr x) = b"
  by (simp add: accepts_def)

lemma accepts_emap: "(\<And>x. x \<in> set xs \<Longrightarrow> accepts (P x) (f x)) \<Longrightarrow> accepts (list_all P xs) (emap f xs)"
proof (induction xs)
  case (Cons x xs)
  then have "accepts (P x \<and> list_all P xs) (ebind (f x) (\<lambda>y. ebind (emap f xs) (\<lambda>ys. Inr (y # ys))))"
    by (intro accepts_bind[where a = "P x"] accepts_bind[where b = True, simplified]) auto
  then show ?case by simp
qed simp

lemma accepts_Inr_bind: "accepts b m \<Longrightarrow> accepts b (ebind m (\<lambda>x. Inr (f x)))"
  by (cases m) (auto simp: accepts_def)

lemma scalar_accepts: "(case v of CList _ \<Rightarrow> False | CMap _ \<Rightarrow> False | _ \<Rightarrow> True) \<Longrightarrow> accepts (encodable v) (encode_scalar v)"
proof (cases v)
  case (CInt n)
  show ?thesis
  proof (cases "0 \<le> n")
    case True
    then have "encodable v = (n < 2 ^ 64)" by (simp add: CInt)
    with True uint_accepts[of n 0] CInt show ?thesis by simp
  next
    case False
    then have "encodable v = (- 1 - n < 2 ^ 64)" by (auto simp add: CInt)
    with False uint_accepts[of "- 1 - n" 1] CInt show ?thesis by simp
  qed
next
  case (CStr s)
  have "accepts (int (length (utf8_encode s)) < 2 ^ 64) (cbor_encode_uint 3 (int (length (utf8_encode s))))"
    by (rule uint_accepts) simp
  then have "accepts (int (length (utf8_encode s)) < 2 ^ 64) (encode_scalar v)"
    using CStr by (simp add: Let_def accepts_Inr_bind)
  moreover have "(int (length (utf8_encode s)) < 2 ^ 64) = (length (utf8_encode s) < 2 ^ 64)" by simp
  ultimately show ?thesis using CStr by simp
qed (auto simp: accepts_def)

lemma length_accepts: "accepts (length xs < 2 ^ 64) (cbor_encode_uint m (int (length xs)))"
proof -
  have "accepts (int (length xs) < 2 ^ 64) (cbor_encode_uint m (int (length xs)))" by (rule uint_accepts) simp
  moreover have "(int (length xs) < 2 ^ 64) = (length xs < 2 ^ 64)" by simp
  ultimately show ?thesis by simp
qed

lemma key_kind: "(key_int k \<noteq> None) = (key_text k = None)"
  by (cases k) simp_all

lemma sort_accepts: "accepts (length items \<le> 1 \<or> list_all (\<lambda>kv. key_text (fst kv) = None) items
    \<or> list_all (\<lambda>kv. key_int (fst kv) = None) items) (sort_items items)"
proof -
  have "(\<forall>kv \<in> set items. key_int (fst kv) \<noteq> None) = list_all (\<lambda>kv. key_text (fst kv) = None) items"
    "(\<forall>kv \<in> set items. key_text (fst kv) \<noteq> None) = list_all (\<lambda>kv. key_int (fst kv) = None) items"
    by (simp_all only: list_all_iff key_kind) (metis key_kind)
  then show ?thesis unfolding sort_items_def by (auto simp: accepts_def)
qed

lemma key_accepts: "accepts (encodable_key k) (encode_scalar (key_value k))"
  using scalar_accepts[of "key_value k"] by (cases k) simp_all

lemma encode_accepts: "accepts (encodable v) (cbor_encode v)"
proof (induction v)
  case (CList xs)
  then have "accepts (list_all encodable xs) (emap cbor_encode xs)" by (intro accepts_emap) simp
  then show ?case
    unfolding encodable.simps cbor_encode.simps by (intro accepts_bind length_accepts accepts_Inr_bind)
next
  case (CMap items)
  let ?enc = "map (\<lambda>kv. (fst kv, cbor_encode (snd kv))) items"
  let ?ordered = "length items \<le> 1 \<or> list_all (\<lambda>kv. key_text (fst kv) = None) items
    \<or> list_all (\<lambda>kv. key_int (fst kv) = None) items"
  have ordered: "accepts ?ordered (sort_items items)" by (rule sort_accepts)
  show ?case
  proof (cases "sort_items items")
    case (Inl e)
    with ordered have "\<not> ?ordered" "encode_error e" by (simp_all add: accepts_def)
    then show ?thesis by (simp add: sort_items_on_value Inl accepts_def)
  next
    case (Inr t)
    with ordered have ord: ?ordered by (simp add: accepts_def)
    have perm: "mset t = mset items" by (rule sort_items_perm[OF Inr])
    then have t: "set t = set items" "length t = length items" by (metis mset_eq_setD, metis mset_eq_length)
    let ?item = "\<lambda>(k, item). ebind (encode_scalar (key_value k)) (\<lambda>kb. ebind item (\<lambda>vb. Inr (kb @ vb)))"
    have "accepts (list_all (\<lambda>kv. encodable_key (fst kv) \<and> encodable (snd kv)) t)
        (emap (\<lambda>kv. ?item (fst kv, cbor_encode (snd kv))) t)"
    proof (rule accepts_emap)
      fix kv assume "kv \<in> set t"
      with t CMap have "accepts (encodable (snd kv)) (cbor_encode (snd kv))" by (cases kv) auto
      then show "accepts (encodable_key (fst kv) \<and> encodable (snd kv)) (?item (fst kv, cbor_encode (snd kv)))"
        by (auto intro!: accepts_bind key_accepts accepts_Inr_bind)
    qed
    then have items: "accepts (list_all (\<lambda>kv. encodable_key (fst kv) \<and> encodable (snd kv)) items)
        (emap ?item (map (\<lambda>kv. (fst kv, cbor_encode (snd kv))) t))"
      using t by (simp add: emap_map list_all_iff)
    have "accepts (length items < 2 ^ 64 \<and> list_all (\<lambda>kv. encodable_key (fst kv) \<and> encodable (snd kv)) items)
        (cbor_encode (CMap items))"
      using accepts_bind[OF length_accepts[of items 5] accepts_Inr_bind[OF items]]
      by (simp add: sort_items_on_value Inr t)
    with ord show ?thesis by simp
  qed
next
  case (CBool b)
  then show ?case using scalar_accepts[of "CBool b"] by simp
next
  case (CInt n)
  show ?case using scalar_accepts[of "CInt n"] unfolding cbor_encode.simps by simp
next
  case (CStr s)
  show ?case using scalar_accepts[of "CStr s"] unfolding cbor_encode.simps by simp
next
  case COther
  then show ?case using scalar_accepts[of COther] by simp
qed

text \<open>\<open>cbor_encode\<close> accepts exactly the booleans, the integers from -2^64 to 2^64 - 1, texts, and
  sequences and mappings of these below 2^64 items whose keys are all numbers or all texts (a single
  key may be anything); for every other value it raises TypeError or OverflowError.\<close>

theorem cbor_encode_exact:
  "case cbor_encode v of Inr _ \<Rightarrow> encodable v | Inl e \<Rightarrow> \<not> encodable v \<and> encode_error e"
  using encode_accepts[of v] by (auto simp: accepts_def split: sum.splits)

lemma cbor_roundtrip_aux:
  assumes "wf_cbor v" and "encodable v"
  shows "\<exists>bs. cbor_encode v = Inr bs \<and> cbor_decode bs = Inr (canon v)"
proof -
  from encode_accepts[of v] assms(2) obtain bs where bs: "cbor_encode v = Inr bs" by (auto simp: accepts_def split: sum.splits)
  from encode_reads[OF bs assms(1), unfolded reads_def, rule_format, of "[]" "[]"] bs
  show ?thesis by (simp add: cbor_decode_def)
qed

text \<open>C33: CBOR round trip. Every value the encoder accepts and that has no duplicate keys is encoded,
  and \<open>cbor_decode\<close> gives back that value, with the items of every mapping in the order of their
  keys; encoding is therefore unambiguous.\<close>

theorem cbor_roundtrip:
  assumes "wf_cbor v" and "encodable v"
  shows "\<exists>bs. cbor_encode v = Inr bs \<and> cbor_decode bs = Inr (canon v)"
  using assms by (rule cbor_roundtrip_aux)

definition sample_cbor :: cbor where
  "sample_cbor = CMap [(KInt 52, CList [CInt (- 300), CBool True]), (KInt 0, CInt 2), (KBool True, CStr ''lease'')]"

theorem cbor_roundtrip_witness:
  "\<exists>bs. cbor_encode sample_cbor = Inr bs \<and> cbor_decode bs = Inr (CMap [(KInt 0, CInt 2), (KBool True, CStr ''lease''),
     (KInt 52, CList [CInt (- 300), CBool True])])"
proof -
  have "wf_cbor sample_cbor" "encodable sample_cbor"
    "canon sample_cbor = CMap [(KInt 0, CInt 2), (KBool True, CStr ''lease''), (KInt 52, CList [CInt (- 300), CBool True])]"
    by (simp_all add: sample_cbor_def key_id_def utf8_encode_def utf8_char_def sorted_items_def sort_items_def)
  with cbor_roundtrip[of sample_cbor] show ?thesis by simp
qed

text \<open>C35: The decoder terminates on every byte string, and what it returns is bounded by what it has
  read: a value decoded at an offset takes at least one byte, ends inside the data, and has at most
  as many nodes as bytes were read, whatever lengths the data announce.\<close>

theorem cbor_decode_bounded:
  "case cbor_decode_at data offset of Inl _ \<Rightarrow> True
   | Inr (v, o') \<Rightarrow> offset < o' \<and> o' \<le> length data \<and> csize v \<le> o' - offset"
proof (cases "cbor_decode_at data offset")
  case (Inr r)
  obtain v o' where "r = (v, o')" by (cases r)
  with Inr decode_size(1)[of data offset v o'] show ?thesis by auto
qed simp

end
