(* ===== verification/Build.thy ===== *)
theory Build
  imports Cbor Sha256
begin

text \<open>
  The release gate of \<open>neurolink_core/workflow.py\<close>, first part: the build plan of an app, the admission
  of its artifact (file name, ELF header, target architecture, identity strings, source identity), and
  the deploy plan with the command lines of its eleven steps. The regular expressions of the source
  are functions. The file system is a parameter: the content of every path that is a file. So is the
  path of the Python interpreter, \<open>sys.executable\<close>.
\<close>

section \<open>Text and paths\<close>

abbreviation ptexts :: "string list \<Rightarrow> pyval" where
  "ptexts xs \<equiv> PList (map PStr xs)"

definition to_slashes :: "string \<Rightarrow> string" where
  "to_slashes s = str_replace_char (CHR 0x5C) ''/'' s"

definition strip_opt :: "string option \<Rightarrow> string" where
  "strip_opt o' = str_strip (text_or o' [])"

definition ascii_word :: "char \<Rightarrow> bool" where
  "ascii_word c = (let n = code_point c in 48 \<le> n \<and> n \<le> 57 \<or> 65 \<le> n \<and> n \<le> 90 \<or> 97 \<le> n \<and> n \<le> 122 \<or> n = 95)"

text \<open>\<open>PurePosixPath\<close>: empty and \<open>.\<close> segments vanish, two leading slashes are a root of their own.\<close>

definition path_root :: "string \<Rightarrow> string" where
  "path_root s = (if startswith s ''//'' \<and> \<not> startswith s ''///'' then ''//''
     else if startswith s ''/'' then ''/'' else [])"

definition path_parts :: "string \<Rightarrow> string list" where
  "path_parts s = filter (\<lambda>p. p \<noteq> [] \<and> p \<noteq> ''.'') (split_slash s)"

definition path_text :: "string \<Rightarrow> string list \<Rightarrow> string" where
  "path_text r parts = (if r = [] \<and> parts = [] then ''.'' else r @ str_join ''/'' parts)"

definition path_name :: "string list \<Rightarrow> string" where
  "path_name parts = (if parts = [] then [] else last parts)"

type_synonym files = "string \<Rightarrow> byte list option"

text \<open>\<open>read_text(encoding="utf-8")\<close>, with universal newlines.\<close>

fun newlines :: "string \<Rightarrow> string" where
  "newlines [] = []"
| "newlines (c # s) = (if c = CHR 0x0D then CHR 0x0A # newlines (if s \<noteq> [] \<and> hd s = CHR 0x0A then tl s else s)
     else c # newlines s)"

definition read_text :: "byte list \<Rightarrow> string result" where
  "read_text bs = ebind (utf8_decode bs) (\<lambda>s. Inr (newlines s))"

section \<open>The build plan\<close>

record build_request =
  br_preset :: string
  br_app_id :: string
  br_app_source_dir :: "string option"
  br_board :: string
  br_build_dir :: string
  br_check_c_style :: bool

definition default_build_request :: build_request where
  "default_build_request = \<lparr>br_preset = ''unit-app'', br_app_id = ''neuro_unit_app'', br_app_source_dir = None,
     br_board = ''dnesp32s3b/esp32s3/procpu'', br_build_dir = ''build/neurolink_unit'', br_check_c_style = False\<rparr>"

definition validate_app_build_app_id :: "string \<Rightarrow> string result" where
  "validate_app_build_app_id app_id = (let normalized = str_strip app_id in
     if normalized = [] then Inl (ValueError ''app_build_plan_requires_app_id'')
     else if ascii_word (hd normalized) \<and> list_all (\<lambda>c. ascii_word c \<or> c = CHR ''-'') (tl normalized) then Inr normalized
     else Inl (ValueError ''invalid_app_build_app_id''))"

definition validate_app_build_dir :: "string \<Rightarrow> string result" where
  "validate_app_build_dir build_dir = (let normalized = to_slashes (str_strip build_dir) in
     if normalized = [] then Inl (ValueError ''app_build_plan_requires_build_dir'')
     else if contains_str ''..'' normalized then Inl (ValueError ''invalid_app_build_dir'')
     else if startswith normalized ''build_'' \<and> drop 6 normalized \<noteq> [] \<and> CHR ''/'' \<notin> set (drop 6 normalized)
       then Inl (ValueError ''invalid_app_build_dir'')
     else if \<not> (startswith normalized ''build/'' \<and> drop 6 normalized \<noteq> [] \<and> CHR 0x0A \<notin> set (drop 6 normalized))
       then Inl (ValueError ''invalid_app_build_dir'')
     else Inr normalized)"

definition resolve_app_build_source_dir :: "string \<Rightarrow> string option \<Rightarrow> string result" where
  "resolve_app_build_source_dir app_id app_source_dir = (
     let given = to_slashes (strip_opt app_source_dir);
         candidate = (if given = [] then ''applocation/NeuroLink/subprojects/'' @ app_id else given) in
     if contains_str ''..'' candidate then Inl (ValueError ''invalid_app_build_source_dir'') else Inr candidate)"

text \<open>\<open>s.rpartition("/")\<close>: what is before and after the last slash.\<close>

definition rpartition_slash :: "string \<Rightarrow> string \<times> string" where
  "rpartition_slash s = (let parts = split_slash s in (str_join ''/'' (butlast parts), last parts))"

definition get_unit_app_build_dir :: "string \<Rightarrow> string \<Rightarrow> string" where
  "get_unit_app_build_dir build_dir app_id = (case rpartition_slash build_dir of (parent_dir, base_name) \<Rightarrow>
     if app_id = ''neuro_unit_app'' then parent_dir @ ''/'' @ base_name @ ''_app''
     else parent_dir @ ''/'' @ base_name @ ''_'' @ str_replace_char (CHR ''-'') ''_'' app_id @ ''_app'')"

definition build_command_parts :: "string \<Rightarrow> string \<Rightarrow> string \<Rightarrow> string \<Rightarrow> string \<Rightarrow> bool \<Rightarrow> string list" where
  "build_command_parts preset app_id source_dir build_dir board check_c_style =
     [''bash'', ''applocation/NeuroLink/scripts/build_neurolink.sh'', ''--preset'', preset]
     @ (if app_id \<noteq> ''neuro_unit_app'' then [''--app'', app_id] else [])
     @ (if source_dir \<noteq> ''applocation/NeuroLink/subprojects/'' @ app_id then [''--app-source-dir'', source_dir] else [])
     @ (if build_dir \<noteq> ''build/neurolink_unit'' then [''--build-dir'', build_dir] else [])
     @ (if board \<noteq> ''dnesp32s3b/esp32s3/procpu'' then [''--board'', board] else [])
     @ (if check_c_style then [] else [''--no-c-style-check''])"

definition plan_document :: "string \<Rightarrow> string \<Rightarrow> string \<Rightarrow> string \<Rightarrow> string \<Rightarrow> bool \<Rightarrow> dict" where
  "plan_document preset app_id source_dir build_dir board check_c_style = (
     let app_build_dir = get_unit_app_build_dir build_dir app_id;
         source_artifact_file = app_build_dir @ ''/'' @ app_id @ ''.llext'';
         staged_artifact_file = build_dir @ ''/llext/'' @ app_id @ ''.llext'' in
     [(''schema_version'', PStr ''1.2.4-app-build-plan-v1''),
      (''release_slice'', PStr ''1.2.4''),
      (''preset'', PStr preset),
      (''board'', PStr board),
      (''app_id'', PStr app_id),
      (''app_source_dir'', PStr source_dir),
      (''unit_build_dir'', PStr build_dir),
      (''app_build_dir'', PStr app_build_dir),
      (''source_artifact_file'', PStr source_artifact_file),
      (''staged_artifact_file'', PStr staged_artifact_file),
      (''canonical_artifact_file'', PStr source_artifact_file),
      (''build_script'', PStr ''applocation/NeuroLink/scripts/build_neurolink.sh''),
      (''build_command'', PStr (str_join '' '' (build_command_parts preset app_id source_dir build_dir board check_c_style))),
      (''uses_edk_external_app_flow'', PBool True),
      (''admission_checks'', ptexts [''source_artifact_exists'', ''source_artifact_is_nonempty'',
         ''source_artifact_has_valid_elf_header'', ''staged_artifact_exists'', ''staged_artifact_is_nonempty'',
         ''staged_artifact_has_valid_elf_header'', ''artifact_app_id_matches_request''])])"

definition build_app_build_plan :: "build_request \<Rightarrow> dict result" where
  "build_app_build_plan r = (let preset = str_strip (br_preset r) in
     if preset \<notin> {''unit-app'', ''unit-ext''} then Inl (ValueError ''unsupported_app_build_preset'')
     else ebind (validate_app_build_app_id (br_app_id r)) (\<lambda>app_id.
     ebind (validate_app_build_dir (br_build_dir r)) (\<lambda>build_dir.
     ebind (resolve_app_build_source_dir app_id (br_app_source_dir r)) (\<lambda>source_dir.
     Inr [(''ok'', PBool True), (''status'', PStr ''ok''), (''command'', PStr ''app-build-plan''),
       (''build_plan'', PDict (plan_document preset app_id source_dir build_dir (br_board r) (br_check_c_style r)))]))))"

section \<open>Admission of an artifact\<close>

definition resolve_app_artifact_file :: "string option \<Rightarrow> string \<Rightarrow> string result" where
  "resolve_app_artifact_file artifact_file fallback_file = (
     let given = to_slashes (strip_opt artifact_file);
         candidate = (if given = [] then fallback_file else given) in
     if candidate = [] then Inl (ValueError ''app_artifact_admission_requires_artifact_file'') else Inr candidate)"

definition validate_deploy_plan_identifier :: "string \<Rightarrow> string \<Rightarrow> string result" where
  "validate_deploy_plan_identifier v failure_status = (let normalized = str_strip v in
     if normalized \<noteq> [] \<and> list_all (\<lambda>c. ascii_word c \<or> c = CHR ''.'' \<or> c = CHR ''-'') normalized then Inr normalized
     else Inl (ValueError failure_status))"

definition suggest_activation_lease_id :: "string \<Rightarrow> string" where
  "suggest_activation_lease_id app_id = ''l-'' @ str_lower (str_replace_char (CHR ''.'') ''-''
     (str_replace_char (CHR ''_'') ''-'' app_id)) @ ''-act''"

text \<open>
  \<open>re.search\<close> of a pattern that is a literal followed by something read by a matcher: the first
  position where both succeed. White space between tokens is \<open>\s*\<close>.
\<close>

fun search :: "(string \<Rightarrow> 'a option) \<Rightarrow> string \<Rightarrow> 'a option" where
  "search m [] = m []"
| "search m (c # s) = (case m (c # s) of Some x \<Rightarrow> Some x | None \<Rightarrow> search m s)"

definition literal :: "string \<Rightarrow> string \<Rightarrow> string option" where
  "literal p s = (if startswith s p then Some (drop (length p) s) else None)"

definition spaces :: "string \<Rightarrow> string" where
  "spaces s = dropWhile is_space s"

definition obind :: "'a option \<Rightarrow> ('a \<Rightarrow> 'b option) \<Rightarrow> 'b option" where
  "obind o' f = (case o' of None \<Rightarrow> None | Some x \<Rightarrow> f x)"

text \<open>\<open>static const char <name>[]\s*=\s*"([^"]+)";\<close>\<close>

definition constant_text :: "string \<Rightarrow> string \<Rightarrow> string option" where
  "constant_text name s =
     obind (literal (''static const char '' @ name @ ''[]'') s) (\<lambda>s.
     obind (literal ''='' (spaces s)) (\<lambda>s.
     obind (literal [CHR 0x22] (spaces s)) (\<lambda>s.
       let word = takeWhile (\<lambda>c. c \<noteq> CHR 0x22) s in
       if word = [] then None
       else obind (literal [CHR 0x22, CHR '';''] (drop (length word) s)) (\<lambda>_. Some word))))"

definition digits_of :: "string \<Rightarrow> (string \<times> string) option" where
  "digits_of s = (let ds = takeWhile is_digit s in if ds = [] then None else Some (ds, drop (length ds) s))"

definition version_field :: "string \<Rightarrow> string \<Rightarrow> (string \<times> string) option" where
  "version_field name s =
     obind (literal name (spaces s)) (\<lambda>s.
     obind (literal ''='' (spaces s)) (\<lambda>s. digits_of (spaces s)))"

text \<open>\<open>.version\s*=\s*{\s*.major\s*=\s*(\d+)\s*,\s*.minor\s*=\s*(\d+)\s*,\s*.patch\s*=\s*(\d+)\<close>\<close>

definition manifest_numbers :: "string \<Rightarrow> string list option" where
  "manifest_numbers s =
     obind (literal ''.version'' s) (\<lambda>s.
     obind (literal ''='' (spaces s)) (\<lambda>s.
     obind (literal ''{'' (spaces s)) (\<lambda>s.
     obind (version_field ''.major'' s) (\<lambda>(major, s).
     obind (literal '','' (spaces s)) (\<lambda>s.
     obind (version_field ''.minor'' s) (\<lambda>(minor, s).
     obind (literal '','' (spaces s)) (\<lambda>s.
     obind (version_field ''.patch'' s) (\<lambda>(patch, s). Some [major, minor, patch]))))))))"

definition require_match :: "'a option \<Rightarrow> string \<Rightarrow> 'a result" where
  "require_match m failure_status = (case m of None \<Rightarrow> Inl (ValueError failure_status) | Some x \<Rightarrow> Inr x)"

record source_identity =
  si_file :: string
  si_app_id :: string
  si_app_version :: string
  si_build_id :: string
  si_manifest_version :: string

definition source_identity_dict :: "source_identity \<Rightarrow> dict" where
  "source_identity_dict i = [(''source_identity_file'', PStr (si_file i)), (''app_id'', PStr (si_app_id i)),
     (''app_version'', PStr (si_app_version i)), (''build_id'', PStr (si_build_id i)),
     (''manifest_version'', PStr (si_manifest_version i))]"

definition load_app_source_identity :: "files \<Rightarrow> string \<Rightarrow> string \<Rightarrow> source_identity result" where
  "load_app_source_identity fs app_source_dir app_id = (
     let source_file = path_text (path_root app_source_dir) (path_parts app_source_dir @ [''src'', ''main.c'']) in
     case fs source_file of
       None \<Rightarrow> Inl (ValueError ''source_identity_file_missing'')
     | Some bs \<Rightarrow> ebind (read_text bs) (\<lambda>source_text.
         ebind (require_match (search (constant_text ''app_id'') source_text) ''source_identity_app_id_missing'') (\<lambda>source_app_id.
         if source_app_id \<noteq> app_id then Inl (ValueError ''source_app_id_mismatch'')
         else ebind (require_match (search (constant_text ''app_version'') source_text) ''source_identity_version_missing'') (\<lambda>app_version.
         ebind (require_match (search (constant_text ''app_build_id'') source_text) ''source_identity_build_id_missing'') (\<lambda>build_id.
         ebind (require_match (search manifest_numbers source_text) ''source_identity_manifest_version_missing'') (\<lambda>numbers.
         let manifest_version = str_join ''.'' numbers in
         if manifest_version \<noteq> app_version then Inl (ValueError ''source_manifest_version_mismatch'')
         else Inr \<lparr>si_file = source_file, si_app_id = source_app_id, si_app_version = app_version,
           si_build_id = build_id, si_manifest_version = manifest_version\<rparr>))))))"

definition ELF_MACHINE_NAMES :: "(int \<times> string) list" where
  "ELF_MACHINE_NAMES = [(3, ''x86''), (40, ''arm''), (62, ''x86_64''), (94, ''xtensa''), (183, ''aarch64''), (243, ''riscv'')]"

definition BOARD_ARCHITECTURE_NAMES :: "(string \<times> string) list" where
  "BOARD_ARCHITECTURE_NAMES = [(''dnesp32s3b/esp32s3/procpu'', ''xtensa'')]"

record elf_identity =
  elf_class :: string
  elf_endianness :: string
  elf_version :: int
  elf_type :: int
  elf_machine_id :: int
  elf_machine_name :: string

definition elf_identity_dict :: "elf_identity \<Rightarrow> dict" where
  "elf_identity_dict i = [(''elf_class'', PStr (elf_class i)), (''endianness'', PStr (elf_endianness i)),
     (''elf_version'', PInt (elf_version i)), (''elf_type'', PInt (elf_type i)),
     (''machine_id'', PInt (elf_machine_id i)), (''machine_name'', PStr (elf_machine_name i))]"

text \<open>\<open>struct.unpack\<close> of an unsigned integer in either byte order.\<close>

definition unpack_uint :: "bool \<Rightarrow> byte list \<Rightarrow> int" where
  "unpack_uint little bs = from_bytes_big (if little then rev bs else bs)"

definition machine_name :: "int \<Rightarrow> string" where
  "machine_name m = (case map_of ELF_MACHINE_NAMES m of Some n \<Rightarrow> n | None \<Rightarrow> ''unknown-'' @ dec_int m)"

definition read_elf_identity :: "byte list \<Rightarrow> elf_identity result" where
  "read_elf_identity bs = (
     let invalid = Inl (ValueError ''artifact_invalid_elf_header'') in
     if length bs < 24 then invalid
     else if take 4 bs \<noteq> [0x7F, 0x45, 0x4C, 0x46] then invalid
     else let elf_class = bs ! 4; elf_data = bs ! 5; elf_version = bs ! 6 in
     if elf_class \<notin> {1, 2} \<or> elf_data \<notin> {1, 2} \<or> elf_version \<noteq> 1 then invalid
     else let little = (elf_data = 1);
       e_type = unpack_uint little (take 2 (drop 16 bs));
       e_machine = unpack_uint little (take 2 (drop 18 bs));
       e_version_word = unpack_uint little (take 4 (drop 20 bs)) in
     if e_version_word \<noteq> 1 then invalid
     else Inr \<lparr>elf_class = (if elf_class = 1 then ''ELF32'' else ''ELF64''),
       elf_endianness = (if little then ''little_endian'' else ''big_endian''),
       elf_version = e_version_word, elf_type = e_type, elf_machine_id = e_machine,
       elf_machine_name = machine_name e_machine\<rparr>)"

definition admission_checks :: "string list" where
  "admission_checks = [''artifact_exists'', ''artifact_is_nonempty'', ''artifact_filename_matches_app_id'',
     ''artifact_has_valid_elf_header'', ''artifact_target_architecture_matches_board'',
     ''artifact_contains_app_id_string'', ''artifact_contains_build_id_string'',
     ''artifact_contains_version_string'', ''source_manifest_version_matches_source_version'']"

definition admission_document :: "string \<Rightarrow> byte list \<Rightarrow> string \<Rightarrow> elf_identity \<Rightarrow> source_identity \<Rightarrow> dict" where
  "admission_document artifact_file artifact_bytes expected_architecture elf source = [
     (''schema_version'', PStr ''1.2.4-app-artifact-admission-v1''),
     (''artifact_file'', PStr artifact_file),
     (''artifact_size_bytes'', PInt (int (length artifact_bytes))),
     (''artifact_sha256'', PStr (sha256_hex_bytes (map uint artifact_bytes))),
     (''expected_architecture'', PStr expected_architecture),
     (''elf_identity'', PDict (elf_identity_dict elf)),
     (''source_identity'', PDict (source_identity_dict source)),
     (''filename_matches_app_id'', PBool True),
     (''artifact_contains_app_id_string'', PBool True),
     (''artifact_contains_build_id_string'', PBool True),
     (''artifact_contains_version_string'', PBool True),
     (''admission_checks'', ptexts admission_checks),
     (''admitted'', PBool True)]"

text \<open>\<open>needle in haystack\<close> on bytes.\<close>

fun contains_bytes :: "byte list \<Rightarrow> byte list \<Rightarrow> bool" where
  "contains_bytes p [] = (p = [])"
| "contains_bytes p (b # bs) = (take (length p) (b # bs) = p \<or> contains_bytes p bs)"

text \<open>The checks on an artifact whose bytes are read, once the plan names its source directory.\<close>

definition admit_artifact :: "files \<Rightarrow> string \<Rightarrow> string \<Rightarrow> string \<Rightarrow> string \<Rightarrow> byte list \<Rightarrow> dict result" where
  "admit_artifact fs app_id app_source_dir board artifact_file artifact_bytes = (
     if artifact_bytes = [] then Inl (ValueError ''artifact_empty'')
     else ebind (load_app_source_identity fs app_source_dir app_id) (\<lambda>source.
     ebind (read_elf_identity artifact_bytes) (\<lambda>elf.
     let expected_architecture = (case map_of BOARD_ARCHITECTURE_NAMES board of Some a \<Rightarrow> a | None \<Rightarrow> ''unknown'') in
     if expected_architecture \<noteq> ''unknown'' \<and> elf_machine_name elf \<noteq> expected_architecture
       then Inl (ValueError ''artifact_target_arch_mismatch'')
     else if \<not> contains_bytes (utf8_encode (si_app_id source)) artifact_bytes
       then Inl (ValueError ''artifact_app_id_missing'')
     else if \<not> contains_bytes (utf8_encode (si_build_id source)) artifact_bytes
       then Inl (ValueError ''artifact_build_id_missing'')
     else if \<not> contains_bytes (utf8_encode (si_app_version source)) artifact_bytes
       then Inl (ValueError ''artifact_version_missing'')
     else Inr (admission_document artifact_file artifact_bytes expected_architecture elf source))))"

definition plan_of :: "dict \<Rightarrow> string \<Rightarrow> dict" where
  "plan_of payload key = (case dget payload key of PDict d \<Rightarrow> d | _ \<Rightarrow> [])"

definition build_app_artifact_admission :: "files \<Rightarrow> build_request \<Rightarrow> string option \<Rightarrow> dict result" where
  "build_app_artifact_admission fs r artifact_file =
     ebind (build_app_build_plan (r\<lparr>br_check_c_style := False\<rparr>)) (\<lambda>build_plan_payload.
     let build_plan = plan_of build_plan_payload ''build_plan'' in
     ebind (resolve_app_artifact_file artifact_file (py_str (dget build_plan ''source_artifact_file''))) (\<lambda>resolved.
     let artifact_path = path_text (path_root resolved) (path_parts resolved) in
     if path_name (path_parts resolved) \<noteq> br_app_id r @ ''.llext''
       then Inl (ValueError ''artifact_filename_app_id_mismatch'')
     else case fs artifact_path of
       None \<Rightarrow> Inl (ValueError ''artifact_missing'')
     | Some artifact_bytes \<Rightarrow>
         ebind (admit_artifact fs (br_app_id r) (py_str (dget build_plan ''app_source_dir'')) (br_board r)
           artifact_path artifact_bytes) (\<lambda>admission.
         Inr [(''ok'', PBool True), (''status'', PStr ''ok''), (''command'', PStr ''app-artifact-admission''),
           (''build_plan'', PDict build_plan), (''artifact_admission'', PDict admission)])))"

section \<open>The deploy plan\<close>

record deploy_request = build_request +
  dr_artifact_file :: "string option"
  dr_node_id :: string
  dr_source_agent :: string
  dr_lease_ttl_ms :: int
  dr_start_args :: "string option"

definition default_deploy_request :: deploy_request where
  "default_deploy_request = build_request.extend default_build_request
     \<lparr>dr_artifact_file = None, dr_node_id = ''unit-01'', dr_source_agent = ''rational'',
      dr_lease_ttl_ms = 120000, dr_start_args = None\<rparr>"

definition activation_resource :: "string \<Rightarrow> string" where
  "activation_resource app_id = ''update/app/'' @ app_id @ ''/activate''"

definition preflight_command :: "string \<Rightarrow> string \<Rightarrow> string list" where
  "preflight_command node_id artifact_file = [''bash'', ''applocation/NeuroLink/scripts/preflight_neurolink_linux.sh'',
     ''--node'', node_id, ''--artifact-file'', artifact_file, ''--auto-start-router'', ''--require-serial'',
     ''--install-missing-cli-deps'', ''--output'', ''json'']"

definition cli_prefix :: "string \<Rightarrow> string \<Rightarrow> string \<Rightarrow> string list" where
  "cli_prefix python node_id source_agent = [python, ''applocation/NeuroLink/neuro_cli/src/neuro_cli.py'',
     ''--output'', ''json'', ''--node'', node_id, ''--source-agent'', source_agent]"

definition health_guard_command :: "string \<Rightarrow> string \<Rightarrow> string list" where
  "health_guard_command python app_id = [python, ''-m'', ''neurolink_core.cli'', ''activation-health-guard'',
     ''--app-id'', app_id, ''--tool-adapter'', ''neuro-cli'', ''--output'', ''json'']"

definition activate_command :: "string list \<Rightarrow> string \<Rightarrow> string \<Rightarrow> string \<Rightarrow> string list" where
  "activate_command cli app_id lease_id start_args = cli @ [''deploy'', ''activate'', ''--app-id'', app_id,
     ''--lease-id'', lease_id] @ (if start_args \<noteq> [] then [''--start-args'', start_args] else [])"

definition step_head :: "string \<Rightarrow> string \<Rightarrow> bool \<Rightarrow> dict" where
  "step_head name kind side_effect_free =
     [(''name'', PStr name), (''kind'', PStr kind), (''side_effect_free'', PBool side_effect_free)]"

definition step_command :: "string list \<Rightarrow> dict" where
  "step_command argv = [(''command'', PStr (str_join '' '' argv)), (''argv'', ptexts argv)]"

definition deploy_steps :: "string \<Rightarrow> string \<Rightarrow> string \<Rightarrow> string \<Rightarrow> string \<Rightarrow> int \<Rightarrow> string \<Rightarrow> dict list" where
  "deploy_steps python node_id source_agent app_id artifact_file lease_ttl_ms start_args = (
     let cli = cli_prefix python node_id source_agent;
         resource = activation_resource app_id;
         lease_id = suggest_activation_lease_id app_id in
     [step_head ''preflight'' ''preflight'' False @ step_command (preflight_command node_id artifact_file)
        @ [(''expected_status'', PStr ''ready'')],
      step_head ''artifact_admission'' ''admission'' True
        @ [(''command'', PStr ''neurolink_core app-artifact-admission''), (''expected_status'', PStr ''ok'')],
      step_head ''lease_acquire_activate'' ''lease'' False
        @ step_command (cli @ [''lease'', ''acquire'', ''--resource'', resource, ''--lease-id'', lease_id, ''--ttl-ms'', dec_int lease_ttl_ms])
        @ [(''required_resource'', PStr resource), (''expected_status'', PStr ''ok'')],
      step_head ''deploy_prepare'' ''deploy_prepare'' False
        @ step_command (cli @ [''deploy'', ''prepare'', ''--app-id'', app_id, ''--file'', artifact_file])
        @ [(''expected_nested_payload_status'', PStr ''ok'')],
      step_head ''deploy_verify'' ''deploy_verify'' False
        @ step_command (cli @ [''deploy'', ''verify'', ''--app-id'', app_id])
        @ [(''expected_nested_payload_status'', PStr ''ok'')],
      step_head ''activation_approval_gate'' ''approval_gate'' True
        @ [(''approval_required'', PBool True), (''required_resource'', PStr resource), (''expected_decision'', PStr ''approved'')],
      step_head ''deploy_activate'' ''deploy_activate'' False
        @ step_command (activate_command cli app_id lease_id start_args)
        @ [(''approval_required'', PBool True), (''expected_nested_payload_status'', PStr ''ok'')],
      step_head ''activation_health_guard'' ''health_guard'' True
        @ step_command (health_guard_command python app_id) @ [(''expected_status'', PStr ''ok'')],
      step_head ''query_apps'' ''query_apps'' True
        @ step_command (cli @ [''query'', ''apps'']) @ [(''expected_status'', PStr ''ok'')],
      step_head ''lease_release_activate'' ''lease_cleanup'' False
        @ step_command (cli @ [''lease'', ''release'', ''--lease-id'', lease_id])
        @ [(''expected_status'', PStr ''ok_or_lease_not_found'')],
      step_head ''query_leases'' ''query_leases'' True
        @ step_command (cli @ [''query'', ''leases'']) @ [(''expected_status'', PStr ''ok''), (''expected_leases'', PList [])]])"

definition deploy_plan_document :: "string \<Rightarrow> string \<Rightarrow> string \<Rightarrow> string \<Rightarrow> string \<Rightarrow> string \<Rightarrow> int \<Rightarrow> string \<Rightarrow> dict" where
  "deploy_plan_document python node_id source_agent board app_id artifact_file lease_ttl_ms start_args = [
     (''schema_version'', PStr ''1.2.4-app-deploy-plan-v1''),
     (''release_slice'', PStr ''1.2.4''),
     (''node_id'', PStr node_id),
     (''source_agent'', PStr source_agent),
     (''board'', PStr board),
     (''app_id'', PStr app_id),
     (''artifact_file'', PStr artifact_file),
     (''activation_resource'', PStr (activation_resource app_id)),
     (''suggested_activate_lease_id'', PStr (suggest_activation_lease_id app_id)),
     (''lease_ttl_ms'', PInt lease_ttl_ms),
     (''start_args'', PStr start_args),
     (''activation_approval_required'', PBool True),
     (''cleanup_requires_empty_leases'', PBool True),
     (''final_expected_app_state'', PStr ''RUNNING_ACTIVE''),
     (''steps'', PList (map PDict (deploy_steps python node_id source_agent app_id artifact_file lease_ttl_ms start_args)))]"

definition build_app_deploy_plan :: "files \<Rightarrow> string \<Rightarrow> deploy_request \<Rightarrow> dict result" where
  "build_app_deploy_plan fs python r =
     ebind (validate_deploy_plan_identifier (dr_node_id r) ''invalid_deploy_node_id'') (\<lambda>node_id.
     ebind (validate_deploy_plan_identifier (dr_source_agent r) ''invalid_deploy_source_agent'') (\<lambda>source_agent.
     if dr_lease_ttl_ms r \<le> 0 then Inl (ValueError ''invalid_deploy_lease_ttl_ms'')
     else ebind (build_app_artifact_admission fs (build_request.truncate r) (dr_artifact_file r)) (\<lambda>admission_payload.
     let build_plan = plan_of admission_payload ''build_plan'';
         artifact_admission = plan_of admission_payload ''artifact_admission'';
         resolved_artifact_file = py_str (dget artifact_admission ''artifact_file'') in
     Inr [(''ok'', PBool True), (''status'', PStr ''ok''), (''command'', PStr ''app-deploy-plan''),
       (''build_plan'', PDict build_plan), (''artifact_admission'', PDict artifact_admission),
       (''deploy_plan'', PDict (deploy_plan_document python node_id source_agent (br_board r) (br_app_id r)
          resolved_artifact_file (dr_lease_ttl_ms r) (strip_opt (dr_start_args r))))])))"

section \<open>Paths of a plan\<close>

definition dots_free :: "string \<Rightarrow> bool" where
  "dots_free s \<longleftrightarrow> \<not> contains_str ''..'' s"

fun no_dots :: "string \<Rightarrow> bool" where
  "no_dots (a # b # s) \<longleftrightarrow> \<not> (a = CHR ''.'' \<and> b = CHR ''.'') \<and> no_dots (b # s)"
| "no_dots _ \<longleftrightarrow> True"

lemma dots_free_iff: "dots_free s \<longleftrightarrow> no_dots s"
  unfolding dots_free_def by (induction s rule: no_dots.induct) (auto simp: startswith_def)

lemma no_dots_append:
  "no_dots (s @ t) \<longleftrightarrow> no_dots s \<and> no_dots t \<and> \<not> (s \<noteq> [] \<and> t \<noteq> [] \<and> last s = CHR ''.'' \<and> hd t = CHR ''.'')"
proof (induction s)
  case (Cons a s)
  then show ?case by (cases s; cases t) auto
qed simp

lemma join_split: "str_join ''/'' (split_slash s) = s"
proof (induction s)
  case (Cons c s)
  obtain p ps where split: "split_slash s = p # ps" by (cases "split_slash s") (auto elim: split_slash.elims split: if_splits list.splits)
  show ?case
  proof (cases "c = CHR ''/''")
    case True
    with Cons split show ?thesis by simp
  next
    case False
    with Cons split show ?thesis by (cases ps) simp_all
  qed
qed simp

lemma split_slash_not_Nil: "split_slash s \<noteq> []"
  by (cases s) (auto split: list.split)

lemma split_slash_two: "CHR ''/'' \<in> set s \<Longrightarrow> 2 \<le> length (split_slash s)"
  by (induction s) (auto simp: split_slash_not_Nil Suc_le_eq split: list.split)

lemma join_snoc: "ps \<noteq> [] \<Longrightarrow> str_join sep (ps @ [p]) = str_join sep ps @ sep @ p"
  by (induction sep ps rule: str_join.induct) auto

lemma rpartition_join:
  assumes "CHR ''/'' \<in> set s" and "rpartition_slash s = (parent, base)"
  shows "parent @ ''/'' @ base = s"
proof -
  obtain ps p where ps: "split_slash s = ps @ [p]" by (metis rev_exhaust split_slash_not_Nil)
  with split_slash_two[OF assms(1)] have "ps \<noteq> []" by auto
  with ps assms(2) join_split[of s] show ?thesis by (auto simp: rpartition_slash_def Let_def join_snoc)
qed

lemma app_build_dir_suffix:
  assumes "CHR ''/'' \<in> set build_dir"
  shows "get_unit_app_build_dir build_dir app_id = build_dir @ (if app_id = ''neuro_unit_app'' then ''_app''
    else ''_'' @ str_replace_char (CHR ''-'') ''_'' app_id @ ''_app'')"
proof -
  obtain parent base where r: "rpartition_slash build_dir = (parent, base)" by (cases "rpartition_slash build_dir")
  from rpartition_join[OF assms r] show ?thesis by (auto simp: get_unit_app_build_dir_def r)
qed

lemma no_dots_Cons [simp]: "c \<noteq> CHR ''.'' \<Longrightarrow> no_dots (c # s) \<longleftrightarrow> no_dots s"
  by (cases s) auto

lemma no_dots_words: "list_all (\<lambda>c. c \<noteq> CHR ''.'') s \<Longrightarrow> no_dots s"
  by (induction s rule: no_dots.induct) auto

lemma app_id_words:
  assumes "validate_app_build_app_id a = Inr app"
  shows "app \<noteq> []" and "list_all (\<lambda>c. c \<noteq> CHR ''.'') app"
proof -
  have dot: "\<not> ascii_word (CHR ''.'')" by (simp add: ascii_word_def)
  from assms show "app \<noteq> []" by (auto simp: validate_app_build_app_id_def Let_def split: if_splits)
  from assms have "app \<noteq> []" "ascii_word (hd app)" "list_all (\<lambda>c. ascii_word c \<or> c = CHR ''-'') (tl app)"
    by (auto simp: validate_app_build_app_id_def Let_def split: if_splits)
  then have "list_all (\<lambda>c. ascii_word c \<or> c = CHR ''-'') app" by (cases app) auto
  then show "list_all (\<lambda>c. c \<noteq> CHR ''.'') app" by (rule list.pred_mono_strong) (use dot in auto)
qed

lemma replace_dash_words: "list_all (\<lambda>c. c \<noteq> CHR ''.'') s \<Longrightarrow> list_all (\<lambda>c. c \<noteq> CHR ''.'') (str_replace_char (CHR ''-'') ''_'' s)"
  by (induction s) auto

definition confined :: "string \<Rightarrow> bool" where
  "confined path \<longleftrightarrow> startswith path ''build/'' \<and> dots_free path"

text \<open>The paths of a build plan are confined. Whatever the request, a plan that is made has its build
  directories and artifact files below \<open>build/\<close>, with no two dots in a row anywhere; a request that gives
  no plan is refused with a ValueError.\<close>

theorem plan_paths_confined:
  "case build_app_build_plan r of
     Inl e \<Rightarrow> \<exists>m. e = ValueError m
   | Inr d \<Rightarrow> list_all (\<lambda>k. confined (py_str (dget (plan_of d ''build_plan'') k)))
       [''unit_build_dir'', ''app_build_dir'', ''source_artifact_file'', ''staged_artifact_file'', ''canonical_artifact_file'']"
proof (cases "build_app_build_plan r")
  case (Inl e)
  then show ?thesis
    by (auto simp: build_app_build_plan_def validate_app_build_app_id_def validate_app_build_dir_def
      resolve_app_build_source_dir_def Let_def ebind_def split: if_splits sum.splits)
next
  case (Inr d)
  then obtain preset app dir src where app: "validate_app_build_app_id (br_app_id r) = Inr app"
    and dir: "validate_app_build_dir (br_build_dir r) = Inr dir"
    and d: "plan_of d ''build_plan'' = plan_document preset app src dir (br_board r) (br_check_c_style r)"
    by (auto simp: build_app_build_plan_def plan_of_def Let_def split: if_splits)
  note words = app_id_words[OF app]
  from dir have dir_ok: "startswith dir ''build/''" "no_dots dir"
    by (auto simp: validate_app_build_dir_def Let_def dots_free_iff[unfolded dots_free_def, symmetric] split: if_splits)
  then have slash: "CHR ''/'' \<in> set dir" by (auto simp: startswith_prefix prefix_def)
  define suffix where "suffix = (if app = ''neuro_unit_app'' then ''_app'' else ''_'' @ str_replace_char (CHR ''-'') ''_'' app @ ''_app'')"
  have suffix: "no_dots suffix" "suffix \<noteq> []" "hd suffix \<noteq> CHR ''.''" "last suffix \<noteq> CHR ''.''"
    using no_dots_words[OF replace_dash_words[OF words(2)]] replace_dash_words[OF words(2)]
    by (auto simp: suffix_def no_dots_append)
  have app_dir: "get_unit_app_build_dir dir app = dir @ suffix"
    unfolding app_build_dir_suffix[OF slash] suffix_def by simp
  have file': "no_dots (app @ ''.llext'')" "hd (app @ ''.llext'') \<noteq> CHR ''.''"
    using words no_dots_words[OF words(2)] last_in_set[OF words(1)] hd_in_set[OF words(1)]
    by (simp_all add: no_dots_append list_all_iff)
  have conf: "confined (dir @ t)" if "no_dots t" "t \<noteq> [] \<longrightarrow> hd t \<noteq> CHR ''.''" for t
    using dir_ok that by (auto simp: confined_def dots_free_iff no_dots_append startswith_prefix)
  have "no_dots (''/'' @ app @ ''.llext'')" "no_dots (''/llext/'' @ app @ ''.llext'')"
    using file' words(1) by (simp_all add: no_dots_append del: append_assoc)
  then have "confined (dir @ suffix @ ''/'' @ app @ ''.llext'')" "confined (dir @ ''/llext/'' @ app @ ''.llext'')"
    "confined (dir @ suffix)" "confined dir"
    using conf[of "suffix @ ''/'' @ app @ ''.llext''"] conf[of "''/llext/'' @ app @ ''.llext''"] conf[of suffix] conf[of "[]"] suffix
    by (auto simp: no_dots_append)
  then show ?thesis
    by (simp add: Inr d plan_document_def Let_def app_dir)
qed

section \<open>What an admission says of the artifact\<close>

lemma split_slash_clean: "p \<in> set (split_slash s) \<Longrightarrow> CHR ''/'' \<notin> set p"
  by (induction s arbitrary: p) (auto split: if_splits list.splits)

lemma split_slash_single: "CHR ''/'' \<notin> set p \<Longrightarrow> split_slash p = [p]"
  by (induction p) auto

lemma split_slash_append: "CHR ''/'' \<notin> set p \<Longrightarrow> split_slash (p @ CHR ''/'' # s) = p # split_slash s"
  by (induction p) auto

lemma split_join: "list_all (\<lambda>p. CHR ''/'' \<notin> set p) ps \<Longrightarrow> ps \<noteq> [] \<Longrightarrow> split_slash (str_join ''/'' ps) = ps"
  by (induction ps rule: induct_list012) (auto simp: split_slash_single split_slash_append)

lemma path_parts_text: "path_parts (path_text (path_root s) (path_parts s)) = path_parts s"
proof (cases "path_parts s = []")
  case True
  then show ?thesis by (simp add: path_text_def path_root_def) (simp add: path_parts_def)
next
  case False
  let ?ps = "path_parts s"
  have "list_all (\<lambda>p. CHR ''/'' \<notin> set p) ?ps"
    by (auto simp: path_parts_def list_all_iff dest: split_slash_clean)
  from split_join[OF this False] have "filter (\<lambda>p. p \<noteq> [] \<and> p \<noteq> ''.'') (split_slash (str_join ''/'' ?ps)) = ?ps"
    by (simp add: path_parts_def)
  then show ?thesis
    using False by (auto simp: path_text_def path_root_def path_parts_def[of "path_text _ _"]) (simp_all add: path_parts_def)
qed

definition elf_machine :: "byte list \<Rightarrow> int" where
  "elf_machine bs = unpack_uint (bs ! 5 = 1) (take 2 (drop 18 bs))"

lemma machine_named: "machine_name m = ''xtensa'' \<Longrightarrow> m = 94"
  by (auto simp: machine_name_def ELF_MACHINE_NAMES_def split: if_splits)

text \<open>C12: An admitted artifact is what was asked for. The admission names an existing file of the app's name,
  with its size and SHA-256; the file is an ELF file, for Xtensa when the board is the known one; the
  source identifies itself as the app with matching source and manifest versions; and the bytes hold
  the source's app id, build id and version.\<close>

theorem admitted_artifact_sound:
  "case build_app_artifact_admission fs r artifact_file of
     Inl e \<Rightarrow> True
   | Inr d \<Rightarrow> (let a = plan_of d ''artifact_admission'' in \<exists>file' bs source_dir source.
       dget a ''artifact_file'' = PStr file' \<and> path_name (path_parts file') = br_app_id r @ ''.llext''
       \<and> fs file' = Some bs \<and> dget a ''artifact_size_bytes'' = PInt (int (length bs))
       \<and> dget a ''artifact_sha256'' = PStr (sha256_hex_bytes (map uint bs))
       \<and> 24 \<le> length bs \<and> take 4 bs = [0x7F, 0x45, 0x4C, 0x46]
       \<and> (if br_board r = ''dnesp32s3b/esp32s3/procpu'' then elf_machine bs = 94 else True)
       \<and> load_app_source_identity fs source_dir (br_app_id r) = Inr source
       \<and> si_app_id source = br_app_id r \<and> si_manifest_version source = si_app_version source
       \<and> list_all (\<lambda>t. contains_bytes (utf8_encode t) bs) [si_app_id source, si_build_id source, si_app_version source])"
proof (cases "build_app_artifact_admission fs r artifact_file")
  case (Inr d)
  from Inr obtain x where x: "build_app_build_plan (r\<lparr>br_check_c_style := False\<rparr>) = Inr x"
    by (cases "build_app_build_plan (r\<lparr>br_check_c_style := False\<rparr>)") (simp_all add: build_app_artifact_admission_def)
  let ?plan = "plan_of x ''build_plan''"
  from Inr obtain resolved bs a where
    name: "path_name (path_parts resolved) = br_app_id r @ ''.llext''"
    and bs: "fs (path_text (path_root resolved) (path_parts resolved)) = Some bs"
    and a: "admit_artifact fs (br_app_id r) (py_str (dget ?plan ''app_source_dir'')) (br_board r)
      (path_text (path_root resolved) (path_parts resolved)) bs = Inr a"
    and d: "plan_of d ''artifact_admission'' = a"
    by (auto simp: build_app_artifact_admission_def x Let_def plan_of_def[of _ "''artifact_admission''"]
      split: if_splits option.splits)
  define file' where "file' = path_text (path_root resolved) (path_parts resolved)"
  define source_dir where "source_dir = py_str (dget ?plan ''app_source_dir'')"
  from name have name: "path_name (path_parts file') = br_app_id r @ ''.llext''" by (simp add: file'_def path_parts_text)
  note bs = bs[folded file'_def] and a = a[folded file'_def source_dir_def]
  from a obtain source elf where source: "load_app_source_identity fs source_dir (br_app_id r) = Inr source"
    and elf: "read_elf_identity bs = Inr elf"
    and arch: "br_board r = ''dnesp32s3b/esp32s3/procpu'' \<longrightarrow> elf_machine_name elf = ''xtensa''"
    and strings: "list_all (\<lambda>t. contains_bytes (utf8_encode t) bs) [si_app_id source, si_build_id source, si_app_version source]"
    and doc: "\<exists>expected. a = admission_document file' bs expected elf source"
    by (auto simp: admit_artifact_def BOARD_ARCHITECTURE_NAMES_def Let_def split: if_splits)
  from source have "si_app_id source = br_app_id r" "si_manifest_version source = si_app_version source"
    by (auto simp: load_app_source_identity_def Let_def split: option.splits if_splits)
  moreover from elf have "24 \<le> length bs" "take 4 bs = [0x7F, 0x45, 0x4C, 0x46]"
      "elf_machine_name elf = machine_name (elf_machine bs)"
    by (auto simp: read_elf_identity_def elf_machine_def Let_def split: if_splits)
  moreover from arch calculation(5) machine_named
  have "if br_board r = ''dnesp32s3b/esp32s3/procpu'' then elf_machine bs = 94 else True" by simp
  moreover from doc have "dget a ''artifact_file'' = PStr file'" "dget a ''artifact_size_bytes'' = PInt (int (length bs))"
    "dget a ''artifact_sha256'' = PStr (sha256_hex_bytes (map uint bs))" by (auto simp: admission_document_def)
  ultimately show ?thesis
    unfolding Inr sum.case Let_def d
    by (intro exI[of _ file'] exI[of _ bs] exI[of _ source_dir] exI[of _ source] conjI name bs source strings)
qed simp

section \<open>A small repository\<close>

definition c_constant :: "string \<Rightarrow> string \<Rightarrow> string" where
  "c_constant name v = ''static const char '' @ name @ ''[] = '' @ [CHR 0x22] @ v @ [CHR 0x22, CHR '';'', CHR 0x0A]"

definition sample_source :: string where
  "sample_source = c_constant ''app_id'' ''neuro_unit_app'' @ c_constant ''app_version'' ''1.2.3''
     @ c_constant ''app_build_id'' ''b1'' @ ''.version = { .major = 1, .minor = 2, .patch = 3 }''"

definition sample_artifact :: "byte list" where
  "sample_artifact = [0x7F, 0x45, 0x4C, 0x46, 1, 1, 1, 0, 0, 0, 0, 0, 0, 0, 0, 0, 1, 0, 94, 0, 1, 0, 0, 0]
     @ utf8_encode ''neuro_unit_app 1.2.3 b1''"

definition sample_files :: files where
  "sample_files path = (if path = ''build/neurolink_unit_app/neuro_unit_app.llext'' then Some sample_artifact
     else if path = ''applocation/NeuroLink/subprojects/neuro_unit_app/src/main.c'' then Some (utf8_encode sample_source)
     else None)"

lemma sample_identity:
  "load_app_source_identity sample_files ''applocation/NeuroLink/subprojects/neuro_unit_app'' ''neuro_unit_app''
     = Inr \<lparr>si_file = ''applocation/NeuroLink/subprojects/neuro_unit_app/src/main.c'', si_app_id = ''neuro_unit_app'',
        si_app_version = ''1.2.3'', si_build_id = ''b1'', si_manifest_version = ''1.2.3''\<rparr>"
proof -
  have path: "path_text (path_root ''applocation/NeuroLink/subprojects/neuro_unit_app'')
      (path_parts ''applocation/NeuroLink/subprojects/neuro_unit_app'' @ [''src'', ''main.c''])
    = ''applocation/NeuroLink/subprojects/neuro_unit_app/src/main.c''" by code_simp
  have file': "sample_files ''applocation/NeuroLink/subprojects/neuro_unit_app/src/main.c'' = Some (utf8_encode sample_source)"
    by (simp add: sample_files_def)
  have source: "read_text (utf8_encode sample_source) = Inr sample_source"
    unfolding read_text_def utf8_decode_encode by code_simp
  have "search (constant_text ''app_id'') sample_source = Some ''neuro_unit_app''"
    "search (constant_text ''app_version'') sample_source = Some ''1.2.3''"
    "search (constant_text ''app_build_id'') sample_source = Some ''b1''"
    "search manifest_numbers sample_source = Some [''1'', ''2'', ''3'']" by code_simp+
  then show ?thesis
    unfolding load_app_source_identity_def Let_def path file' option.case source ebind_simps by (simp add: require_match_def)
qed

lemma sample_admission: "\<exists>d. build_app_artifact_admission sample_files default_build_request None = Inr d"
proof -
  have plan: "build_app_build_plan default_build_request = Inr [(''ok'', PBool True), (''status'', PStr ''ok''),
      (''command'', PStr ''app-build-plan''), (''build_plan'', PDict (plan_document ''unit-app'' ''neuro_unit_app''
        ''applocation/NeuroLink/subprojects/neuro_unit_app'' ''build/neurolink_unit'' ''dnesp32s3b/esp32s3/procpu'' False))]"
    (is "_ = Inr [_, _, _, (_, PDict ?p)]")
  proof -
    have "str_strip ''unit-app'' = ''unit-app''" "validate_app_build_app_id ''neuro_unit_app'' = Inr ''neuro_unit_app''"
      "validate_app_build_dir ''build/neurolink_unit'' = Inr ''build/neurolink_unit''"
      "resolve_app_build_source_dir ''neuro_unit_app'' None = Inr ''applocation/NeuroLink/subprojects/neuro_unit_app''"
      by code_simp+
    then show ?thesis by (simp add: build_app_build_plan_def default_build_request_def)
  qed
  have file': "dget ?p ''source_artifact_file'' = PStr ''build/neurolink_unit_app/neuro_unit_app.llext''"
    "dget ?p ''app_source_dir'' = PStr ''applocation/NeuroLink/subprojects/neuro_unit_app''"
    by code_simp+
  have resolved: "resolve_app_artifact_file None ''build/neurolink_unit_app/neuro_unit_app.llext''
      = Inr ''build/neurolink_unit_app/neuro_unit_app.llext''"
    "path_text (path_root ''build/neurolink_unit_app/neuro_unit_app.llext'') (path_parts ''build/neurolink_unit_app/neuro_unit_app.llext'')
      = ''build/neurolink_unit_app/neuro_unit_app.llext''"
    "path_name (path_parts ''build/neurolink_unit_app/neuro_unit_app.llext'') = ''neuro_unit_app.llext''"
    by code_simp+
  have elf: "read_elf_identity sample_artifact = Inr \<lparr>elf_class = ''ELF32'', elf_endianness = ''little_endian'', elf_version = 1,
      elf_type = 1, elf_machine_id = 94, elf_machine_name = ''xtensa''\<rparr>" by code_simp
  have strings: "contains_bytes (utf8_encode ''neuro_unit_app'') sample_artifact" "contains_bytes (utf8_encode ''b1'') sample_artifact"
    "contains_bytes (utf8_encode ''1.2.3'') sample_artifact" "sample_artifact \<noteq> []" by code_simp+
  have bytes: "sample_files ''build/neurolink_unit_app/neuro_unit_app.llext'' = Some sample_artifact"
    by (simp add: sample_files_def)
  have admitted: "\<exists>a. admit_artifact sample_files ''neuro_unit_app'' ''applocation/NeuroLink/subprojects/neuro_unit_app''
      ''dnesp32s3b/esp32s3/procpu'' ''build/neurolink_unit_app/neuro_unit_app.llext'' sample_artifact = Inr a"
    by (simp add: admit_artifact_def sample_identity elf strings BOARD_ARCHITECTURE_NAMES_def Let_def)
  have same: "default_build_request\<lparr>br_check_c_style := False\<rparr> = default_build_request"
    "br_app_id default_build_request = ''neuro_unit_app''" "br_board default_build_request = ''dnesp32s3b/esp32s3/procpu''"
    by (simp_all add: default_build_request_def)
  have p: "plan_of [(''ok'', PBool True), (''status'', PStr ''ok''), (''command'', PStr ''app-build-plan''), (''build_plan'', PDict ?p)]
      ''build_plan'' = ?p" by (simp add: plan_of_def)
  from admitted show ?thesis
    unfolding build_app_artifact_admission_def same plan ebind_simps Let_def p file' py_str.simps resolved bytes option.case
    by auto
qed

lemma sample_plan: "\<exists>p. build_app_deploy_plan sample_files ''python'' default_deploy_request = Inr p"
proof -
  have "validate_deploy_plan_identifier ''unit-01'' f = Inr ''unit-01''" "validate_deploy_plan_identifier ''rational'' f = Inr ''rational''"
    for f by code_simp+
  moreover have "build_request.truncate default_deploy_request = default_build_request"
    by (simp add: default_deploy_request_def default_build_request_def build_request.defs)
  ultimately show ?thesis
    using sample_admission
    by (auto simp: build_app_deploy_plan_def default_deploy_request_def[unfolded default_build_request_def build_request.defs] Let_def)
qed

end
