(* ===== verification/Json.thy ===== *)
theory Json
  imports PyVal
begin

text \<open>
  \<open>json.loads\<close> of the standard library, as CPython's scanner reads a document: white space,
  constants (with NaN and the infinities), numbers, strict strings with their escapes, arrays and
  objects, where a repeated key keeps its place and takes the last value. A text that is not a
  document raises JSONDecodeError, a ValueError. Outside the model: an escape for a character beyond
  Latin-1, the recursion limit, and the limit on the digits of an integer.
\<close>

definition json_error :: "'a result" where
  "json_error = Inl (ValueError ''JSONDecodeError'')"

definition out_of_fuel :: py_error where
  "out_of_fuel = OutOfModel ''fuel''"

lemma json_error_simps [simp]:
  "json_error \<noteq> Inr x" "Inr x \<noteq> json_error" "json_error \<noteq> Inl out_of_fuel"
  "ebind json_error f = json_error"
  by (simp_all add: json_error_def out_of_fuel_def)

definition json_ws :: "char \<Rightarrow> bool" where
  "json_ws c \<longleftrightarrow> c = CHR 0x20 \<or> c = CHR 0x09 \<or> c = CHR 0x0A \<or> c = CHR 0x0D"

abbreviation skip_ws :: "string \<Rightarrow> string" where
  "skip_ws s \<equiv> dropWhile json_ws s"

definition starts :: "char \<Rightarrow> string \<Rightarrow> bool" where
  "starts c s \<longleftrightarrow> s \<noteq> [] \<and> hd s = c"

lemma starts_simps [simp]: "starts c [] = False" "starts c (d # s) = (d = c)"
  by (simp_all add: starts_def)

section \<open>Strings\<close>

definition hex_value :: "char \<Rightarrow> nat option" where
  "hex_value c = (let n = code_point c in
     if 48 \<le> n \<and> n \<le> 57 then Some (n - 48)
     else if 65 \<le> n \<and> n \<le> 70 then Some (n - 55)
     else if 97 \<le> n \<and> n \<le> 102 then Some (n - 87) else None)"

fun hex4 :: "string \<Rightarrow> (nat \<times> string) option" where
  "hex4 (a # b # c # d # s) = (case (hex_value a, hex_value b, hex_value c, hex_value d) of
     (Some i, Some j, Some k, Some l) \<Rightarrow> Some (((i * 16 + j) * 16 + k) * 16 + l, s) | _ \<Rightarrow> None)"
| "hex4 _ = None"

definition json_escape :: "char \<Rightarrow> char option" where
  "json_escape c = map_of [(CHR 0x22, CHR 0x22), (CHR 0x5C, CHR 0x5C), (CHR 0x2F, CHR 0x2F), (CHR ''b'', CHR 0x08),
     (CHR ''f'', CHR 0x0C), (CHR ''n'', CHR 0x0A), (CHR ''r'', CHR 0x0D), (CHR ''t'', CHR 0x09)] c"

lemma hex4_shorter: "hex4 s = Some (n, r) \<Longrightarrow> length r < length s"
  by (induction s rule: hex4.induct) (auto split: option.splits)

text \<open>The rest of a string after its opening quote.\<close>

function json_string :: "string \<Rightarrow> (string \<times> string) result" where
  "json_string s = (case s of
     [] \<Rightarrow> json_error
   | c # s1 \<Rightarrow>
     if c = CHR 0x22 then Inr ([], s1)
     else if code_point c < 32 then json_error
     else if c \<noteq> CHR 0x5C then ebind (json_string s1) (\<lambda>(t, r). Inr (c # t, r))
     else (case s1 of
       [] \<Rightarrow> json_error
     | e # s2 \<Rightarrow>
       if e = CHR ''u'' then (case hex4 s2 of
           None \<Rightarrow> json_error
         | Some (n, s3) \<Rightarrow> if n < 256 then ebind (json_string s3) (\<lambda>(t, r). Inr (char_of n # t, r))
             else Inl (OutOfModel ''text beyond Latin-1''))
       else (case json_escape e of
           None \<Rightarrow> json_error
         | Some x \<Rightarrow> ebind (json_string s2) (\<lambda>(t, r). Inr (x # t, r)))))"
  by pat_completeness auto
termination
  by (relation "measure length") (auto dest: hex4_shorter)

declare json_string.simps [simp del]

lemma json_string_rest:
  "case json_string s of Inl e \<Rightarrow> e \<noteq> out_of_fuel | Inr (t, r) \<Rightarrow> length r < length s"
proof (induction s rule: json_string.induct)
  case (1 s)
  show ?case
  proof (cases s)
    case Nil
    then show ?thesis by (simp add: json_string.simps[of "[]"] json_error_def out_of_fuel_def)
  next
    case (Cons c s1)
    note s = this
    show ?thesis
    proof (cases "c = CHR 0x22 \<or> code_point c < 32 \<or> c \<noteq> CHR 0x5C \<or> s1 = []")
      case True
      with 1(1)[OF s] s show ?thesis
        by (auto simp: json_string.simps[of "c # s1"] json_error_def out_of_fuel_def ebind_def split: sum.splits)
    next
      case False
      then obtain e s2 where s1: "s1 = e # s2" by (cases s1) auto
      from False have c: "c = CHR 0x5C" and not_quote: "c \<noteq> CHR 0x22" "\<not> code_point c < 32" by auto
      show ?thesis
      proof (cases "e = CHR ''u''")
        case True
        note step = json_string.simps[of "CHR 0x5C # CHR ''u'' # s2"]
        show ?thesis
        proof (cases "hex4 s2")
          case None
          with s s1 c True show ?thesis by (simp add: step json_error_def out_of_fuel_def)
        next
          case (Some ns)
          obtain n s3 where ns: "ns = (n, s3)" by (cases ns)
          with Some hex4_shorter have "length s3 < length s2" by blast
          with 1(2)[OF s _ _ _ s1 True Some[unfolded ns]] s s1 c True Some ns show ?thesis
            by (auto simp: step out_of_fuel_def ebind_def simp del: json_string.simps split: sum.splits)
        qed
      next
        case no_u: False
        show ?thesis
        proof (cases "json_escape e")
          case None
          with s s1 c no_u show ?thesis by (simp add: json_string.simps[of "CHR 0x5C # e # s2"] json_error_def out_of_fuel_def)
        next
          case (Some x)
          with 1(3)[OF s _ _ _ s1 no_u Some] s s1 c no_u show ?thesis
            by (auto simp: json_string.simps[of "CHR 0x5C # e # s2"] ebind_def split: sum.splits)
        qed
      qed
    qed
  qed
qed

section \<open>Numbers\<close>

text \<open>
  The number at the head of a text, its text and the rest: \<open>-?(0|[1-9][0-9]*)(.[0-9]+)?([eE][-+]?[0-9]+)?\<close>,
  each optional part taken when it is complete.
\<close>

definition json_digits :: "string \<Rightarrow> string \<times> string" where
  "json_digits s = (takeWhile is_digit s, dropWhile is_digit s)"

definition json_int_part :: "string \<Rightarrow> (string \<times> string) option" where
  "json_int_part s = (let (sign, body) = (if starts (CHR ''-'') s then (''-'', tl s) else ([], s)) in
     if starts (CHR ''0'') body then Some (sign @ ''0'', tl body)
     else (case json_digits body of (ds, r) \<Rightarrow> if ds = [] then None else Some (sign @ ds, r)))"

definition json_frac_part :: "string \<Rightarrow> string \<times> string" where
  "json_frac_part s = (if starts (CHR ''.'') s then
       (case json_digits (tl s) of (ds, r) \<Rightarrow> if ds = [] then ([], s) else (CHR ''.'' # ds, r))
     else ([], s))"

definition json_exp_part :: "string \<Rightarrow> string \<times> string" where
  "json_exp_part s = (if starts (CHR ''e'') s \<or> starts (CHR ''E'') s then
       (let (sign, body) = (if starts (CHR ''-'') (tl s) \<or> starts (CHR ''+'') (tl s)
            then ([hd (tl s)], tl (tl s)) else ([], tl s)) in
        case json_digits body of (ds, r) \<Rightarrow> if ds = [] then ([], s) else (hd s # sign @ ds, r))
     else ([], s))"

definition json_number :: "string \<Rightarrow> (pyval \<times> string) result" where
  "json_number s = (case json_int_part s of
     None \<Rightarrow> json_error
   | Some (i, r) \<Rightarrow> (case json_frac_part r of (f, r1) \<Rightarrow> case json_exp_part r1 of (e, r2) \<Rightarrow>
       if f = [] \<and> e = [] then (case parse_int i of Some n \<Rightarrow> Inr (PInt n, r) | None \<Rightarrow> json_error)
       else (case parse_float (i @ f @ e) of Some x \<Rightarrow> Inr (PFloat x, r2) | None \<Rightarrow> json_error)))"

lemma json_digits_rest: "json_digits s = (ds, r) \<Longrightarrow> length s = length ds + length r"
  by (metis json_digits_def Pair_inject length_append takeWhile_dropWhile_id)

lemma json_int_part_rest: "json_int_part s = Some (i, r) \<Longrightarrow> length r < length s"
  by (cases s) (auto simp: json_int_part_def Let_def json_digits_rest split: if_splits prod.splits dest!: json_digits_rest)

lemma json_frac_part_rest: "json_frac_part s = (f, r) \<Longrightarrow> length r \<le> length s"
  by (cases s) (auto simp: json_frac_part_def split: if_splits prod.splits dest!: json_digits_rest)

lemma json_exp_part_rest: "json_exp_part s = (f, r) \<Longrightarrow> length r \<le> length s"
  by (cases s; cases "tl s")
    (auto simp: json_exp_part_def Let_def split: if_splits prod.splits dest!: json_digits_rest)

lemma json_number_rest:
  "case json_number s of Inl e \<Rightarrow> e \<noteq> out_of_fuel | Inr (v, r) \<Rightarrow> length r < length s"
proof (cases "json_int_part s")
  case None
  then show ?thesis by (simp add: json_number_def json_error_def out_of_fuel_def)
next
  case (Some ir)
  obtain i r f r1 e r2 where parts: "ir = (i, r)" "json_frac_part r = (f, r1)" "json_exp_part r1 = (e, r2)"
    by (metis surj_pair)
  with Some json_int_part_rest json_frac_part_rest json_exp_part_rest
  have "length r < length s" "length r1 \<le> length r" "length r2 \<le> length r1" by blast+
  with Some parts show ?thesis by (simp add: json_number_def json_error_def out_of_fuel_def split: option.split)
qed

section \<open>Documents\<close>

definition json_constants :: "(string \<times> pyval) list" where
  "json_constants = [(''null'', PNone), (''true'', PBool True), (''false'', PBool False), (''NaN'', PFloat NaN),
     (''Infinity'', PFloat PosInf), (''-Infinity'', PFloat NegInf)]"

definition json_constant :: "string \<Rightarrow> (pyval \<times> string) option" where
  "json_constant s = map_option (\<lambda>(k, v). (v, drop (length k) s)) (List.find (\<lambda>(k, v). startswith s k) json_constants)"

text \<open>
  Values, the elements of an array and the members of an object. Every call reads at least one
  character, and an array reads its elements where it stands, so
  twice the length of the text is enough fuel.
\<close>

fun json_value :: "nat \<Rightarrow> string \<Rightarrow> (pyval \<times> string) result"
  and json_elements :: "nat \<Rightarrow> string \<Rightarrow> (pyval list \<times> string) result"
  and json_members :: "nat \<Rightarrow> dict \<Rightarrow> string \<Rightarrow> (dict \<times> string) result"
where
  "json_value 0 s = Inl out_of_fuel"
| "json_value (Suc n) s = (
     if starts (CHR 0x22) s then ebind (json_string (tl s)) (\<lambda>(t, r). Inr (PStr t, r))
     else if starts (CHR ''{'') s then (let r = skip_ws (tl s) in
       if starts (CHR ''}'') r then Inr (PDict [], tl r)
       else ebind (json_members n [] r) (\<lambda>(d, r). Inr (PDict d, r)))
     else if starts (CHR ''['') s then (let r = skip_ws (tl s) in
       if starts (CHR '']'') r then Inr (PList [], tl r)
       else ebind (json_elements n r) (\<lambda>(xs, r). Inr (PList xs, r)))
     else (case json_constant s of Some vr \<Rightarrow> Inr vr | None \<Rightarrow> json_number s))"
| "json_elements 0 s = Inl out_of_fuel"
| "json_elements (Suc n) s = ebind (json_value n s) (\<lambda>(v, r). let r = skip_ws r in
     if starts (CHR '']'') r then Inr ([v], tl r)
     else if starts (CHR '','') r then ebind (json_elements n (skip_ws (tl r))) (\<lambda>(vs, r). Inr (v # vs, r))
     else json_error)"
| "json_members 0 d s = Inl out_of_fuel"
| "json_members (Suc n) d s = (
     if \<not> starts (CHR 0x22) s then json_error
     else ebind (json_string (tl s)) (\<lambda>(k, r). let r = skip_ws r in
       if \<not> starts (CHR '':'') r then json_error
       else ebind (json_value n (skip_ws (tl r))) (\<lambda>(v, r). let r = skip_ws r; d = dset d k v in
         if starts (CHR ''}'') r then Inr (d, tl r)
         else if starts (CHR '','') r then json_members n d (skip_ws (tl r))
         else json_error)))"

definition json_loads :: "string \<Rightarrow> pyval result" where
  "json_loads s = (let s = skip_ws s in
     ebind (json_value (Suc (2 * length s)) s) (\<lambda>(v, r). if skip_ws r = [] then Inr v else json_error))"

lemma skip_ws_length: "length (skip_ws s) \<le> length s"
  by (rule length_dropWhile_le)

lemma starts_length: "starts c s \<Longrightarrow> length (tl s) < length s"
  by (cases s) auto

lemma json_constant_rest: "json_constant s = Some (v, r) \<Longrightarrow> length r < length s"
proof -
  assume "json_constant s = Some (v, r)"
  then obtain k where k: "(k, v) \<in> set json_constants" "startswith s k" "r = drop (length k) s"
    by (auto simp: json_constant_def find_Some_iff) (metis nth_mem)
  from k(1) have "0 < length k" by (auto simp: json_constants_def)
  moreover from k(2) have "s \<noteq> []" if "k \<noteq> []" using that by (auto simp: startswith_def)
  ultimately show ?thesis using k(3) by auto
qed

definition reads_on :: "nat \<Rightarrow> ('a \<times> string) result \<Rightarrow> bool" where
  "reads_on l r = (case r of Inl e \<Rightarrow> e \<noteq> out_of_fuel | Inr (_, s) \<Rightarrow> length s < l)"

lemma reads_on_simps [simp]:
  "reads_on l (Inr (v, s)) \<longleftrightarrow> length s < l"
  "reads_on l json_error"
  by (simp_all add: reads_on_def json_error_def out_of_fuel_def)

lemma reads_on_bind:
  "reads_on l m \<Longrightarrow> (\<And>v r. m = Inr (v, r) \<Longrightarrow> length r < l \<Longrightarrow> reads_on l' (f (v, r))) \<Longrightarrow> reads_on l' (ebind m f)"
  by (auto simp: reads_on_def split: sum.splits prod.splits)

lemma string_reads_on: "reads_on (length s) (json_string s)"
  using json_string_rest[of s] by (simp add: reads_on_def)

lemma number_reads_on: "reads_on (length s) (json_number s)"
  using json_number_rest[of s] by (simp add: reads_on_def)

lemma reads_on_mono: "reads_on l m \<Longrightarrow> l \<le> l' \<Longrightarrow> reads_on l' m"
  by (auto simp: reads_on_def split: sum.splits)

declare length_tl [simp del]

lemma json_reads_on:
  "2 * length s < n \<Longrightarrow> reads_on (length s) (json_value n s)"
  "2 * length s + 1 < n \<Longrightarrow> reads_on (length s) (json_elements n s)"
  "2 * length s + 1 < n \<Longrightarrow> reads_on (length s) (json_members n d s)"
proof (induction n arbitrary: s d)
  case 0
  {
    case 1 then show ?case by simp
  next
    case 2 then show ?case by simp
  next
    case 3 then show ?case by simp
  }
next
  case (Suc n)
  have ws: "length (skip_ws r) \<le> length r" for r by (rule skip_ws_length)
  {
    case 1
    consider "starts (CHR 0x22) s" | "starts (CHR ''{'') s" | "starts (CHR ''['') s"
      | "\<not> starts (CHR 0x22) s" "\<not> starts (CHR ''{'') s" "\<not> starts (CHR ''['') s" by blast
    then show ?case
    proof cases
      case 1
      with string_reads_on[of "tl s"] show ?thesis
        by (auto dest!: starts_length intro!: reads_on_bind)
    next
      case 2
      then have "\<not> starts (CHR 0x22) s" and l: "length (tl s) < length s" by (cases s; simp)+
      moreover from l ws[of "tl s"] \<open>2 * length s < Suc n\<close>
      have "reads_on (length (skip_ws (tl s))) (json_members n [] (skip_ws (tl s)))" by (intro Suc.IH(3)) linarith
      then have "reads_on (length s) (ebind (json_members n [] (skip_ws (tl s))) (\<lambda>(d, r). Inr (PDict d, r)))"
        using l ws[of "tl s"] by (auto intro!: reads_on_bind)
      ultimately show ?thesis using 2 ws[of "tl s"] starts_length[of _ "skip_ws (tl s)"] by (fastforce simp: Let_def)
    next
      case 3
      then have "\<not> starts (CHR 0x22) s" "\<not> starts (CHR ''{'') s" and l: "length (tl s) < length s" by (cases s; simp)+
      moreover from l ws[of "tl s"] \<open>2 * length s < Suc n\<close>
      have "reads_on (length (skip_ws (tl s))) (json_elements n (skip_ws (tl s)))" by (intro Suc.IH(2)) linarith
      then have "reads_on (length s) (ebind (json_elements n (skip_ws (tl s))) (\<lambda>(xs, r). Inr (PList xs, r)))"
        using l ws[of "tl s"] by (auto intro!: reads_on_bind)
      ultimately show ?thesis using 3 ws[of "tl s"] starts_length[of _ "skip_ws (tl s)"] by (fastforce simp: Let_def)
    next
      case 4
      show ?thesis
      proof (cases "json_constant s")
        case None
        with 4 number_reads_on[of s] show ?thesis by (simp del: One_nat_def)
      next
        case (Some vr)
        with 4 json_constant_rest[of s "fst vr" "snd vr"] show ?thesis by (cases vr) simp
      qed
    qed
  next
    case 2
    have one: "reads_on (length s) (json_value n s)" using Suc.IH(1)[of s] 2 by simp
    have more_elements: "reads_on (length s) (json_elements n (skip_ws u))" if "length u < length s" for u
      using that ws[of u] 2 by (intro reads_on_mono[OF Suc.IH(2)]) linarith+
    show ?case
      unfolding json_elements.simps
    proof (rule reads_on_bind[OF one], goal_cases)
      case (1 v r)
      with ws[of r] more_elements[of "tl (skip_ws r)"] show ?case
        by (auto simp: Let_def dest!: starts_length intro!: reads_on_bind)
    qed
  next
    case 3
    show ?case
    proof (cases "starts (CHR 0x22) s")
      case True
      have more_members: "reads_on (length s) (json_members n d' (skip_ws v))" if "length v < length s" for v d'
        using that ws[of v] 3 by (intro reads_on_mono[OF Suc.IH(3)]) linarith+
      have one: "reads_on (length s) (json_value n (skip_ws v))" if "length v < length s" for v
        using that ws[of v] 3 by (intro reads_on_mono[OF Suc.IH(1)]) linarith+
      show ?thesis
        unfolding json_members.simps using True
      proof (simp only: not_True_eq_False if_False, intro reads_on_bind[OF string_reads_on[of "tl s"]], goal_cases)
        case (1 k r)
        note key = 1
        show ?case
        proof (cases "starts (CHR '':'') (skip_ws r)")
          case colon: True
          from key colon starts_length[OF True] starts_length[OF colon] ws[of r]
          have short: "length (tl (skip_ws r)) < length s" by linarith
          show ?thesis
            using colon
          proof (simp only: prod.case Let_def not_True_eq_False if_False, intro reads_on_bind[OF one[OF short]], goal_cases)
            case (1 x q)
            with ws[of q] more_members[of "tl (skip_ws q)"] show ?case
              by (auto simp: Let_def dest!: starts_length)
          qed
        qed (simp add: Let_def)
      qed
    qed simp
  }
qed

declare length_tl [simp]

text \<open>The reader never runs out of fuel.\<close>

lemma json_loads_total: "json_loads s \<noteq> Inl out_of_fuel"
proof (cases "json_value (Suc (2 * length (skip_ws s))) (skip_ws s)")
  case (Inl e)
  moreover have "reads_on (length (skip_ws s)) (json_value (Suc (2 * length (skip_ws s))) (skip_ws s))"
    by (rule json_reads_on) simp
  ultimately show ?thesis by (simp only: json_loads_def Let_def reads_on_def sum.case ebind_simps sum.inject not_False_eq_True)
next
  case (Inr vr)
  then show ?thesis by (cases vr) (simp only: json_loads_def Let_def ebind_simps prod.case json_error_simps sum.distinct
      split: if_split, simp)
qed

end
