(* ===== verification/Deploy.thy ===== *)
theory Deploy
  imports Build Json Approval
begin

text \<open>
  The release gate of \<open>neurolink_core/workflow.py\<close>, second part: running the deploy plan. Preflight,
  lease, prepare and verify; activation with its approval, health guard and recovery candidate;
  rollback with its observations; and the evidence the two write. Commands run through an adapter with
  two operations, \<open>runner\<close> (a command line, the answer is text) and \<open>execute\<close> (a tool), both with a
  state of their own and both free to raise. The adapter is always given; the Neuro CLI adapter that
  the source makes when there is none is one instance.
\<close>

record CommandExecutionResult =
  cr_exit_code :: int
  cr_stdout :: string
  cr_stderr :: string

type_synonym 'a runner = "string list \<Rightarrow> int \<Rightarrow> 'a \<times> env \<Rightarrow> (CommandExecutionResult \<times> 'a \<times> env) result"

text \<open>\<open>describe_tool\<close> is optional (\<open>getattr(..., None)\<close>); that of the CLI adapter runs a command.\<close>

record 'a tool_adapter =
  ta_runner :: "'a runner"
  ta_execute :: "'a adapter"
  ta_describe :: "(string \<Rightarrow> 'a \<times> env \<Rightarrow> (ToolContract option \<times> 'a \<times> env) result) option"

definition run_command :: "'a tool_adapter \<Rightarrow> string list \<Rightarrow> int \<Rightarrow> ('a \<times> env, CommandExecutionResult) prog" where
  "run_command ad argv timeout = pupdate (ta_runner ad argv timeout)"

definition run_tool :: "'a tool_adapter \<Rightarrow> string \<Rightarrow> dict \<Rightarrow> ('a \<times> env, ToolExecutionResult) prog" where
  "run_tool ad t args = pupdate (ta_execute ad t args)"

section \<open>Answers of commands and tools\<close>

text \<open>
  The JSON document on the standard output, or the text between the first and the last brace. The
  exceptions of the source are ValueErrors, which its callers turn into a status; an answer the model
  cannot represent stays an exception.
\<close>

definition brace_slice :: "string \<Rightarrow> string list" where
  "brace_slice s = (if CHR ''{'' \<in> set s \<and> CHR ''}'' \<in> set s
     then (let body = dropWhile (\<lambda>c. c \<noteq> CHR ''{'') s in
       if CHR ''}'' \<in> set body then [rev (dropWhile (\<lambda>c. c \<noteq> CHR ''}'') (rev body))] else [])
     else [])"

fun first_document :: "string list \<Rightarrow> pyval result" where
  "first_document [] = Inr PNone"
| "first_document (candidate # cs) = (
     if candidate = [] then first_document cs
     else case json_loads candidate of
       Inl (ValueError _) \<Rightarrow> first_document cs
     | r \<Rightarrow> r)"

definition parse_command_json_result :: "CommandExecutionResult \<Rightarrow> dict result" where
  "parse_command_json_result r = (let normalized_stdout = str_strip (cr_stdout r) in
     ebind (first_document (normalized_stdout # brace_slice normalized_stdout)) (\<lambda>payload.
     case payload of
       PNone \<Rightarrow> if cr_exit_code r \<noteq> 0 then Inl (ValueError (''command_exit_'' @ dec_int (cr_exit_code r)))
                else Inl (ValueError ''parse_failed'')
     | PDict d \<Rightarrow> Inr d
     | _ \<Rightarrow> Inl (ValueError ''parse_failed'')))"

definition failing_status :: "pyval \<Rightarrow> string option" where
  "failing_status v = (case v of PDict d \<Rightarrow>
       let s = str_or (dget d ''status'') [] in if s \<noteq> [] \<and> s \<noteq> ''ok'' then Some s else None
     | _ \<Rightarrow> None)"

definition reply_payloads :: "dict \<Rightarrow> pyval list" where
  "reply_payloads payload = (case dget payload ''replies'' of
       PList replies \<Rightarrow> map (\<lambda>d. dget d ''payload'') (dicts_of replies) | _ \<Rightarrow> [])"

definition first_some :: "('a \<Rightarrow> 'b option) \<Rightarrow> 'a list \<Rightarrow> 'b option" where
  "first_some f xs = (case List.map_filter f xs of [] \<Rightarrow> None | y # _ \<Rightarrow> Some y)"

definition command_payload_failure_status :: "dict \<Rightarrow> string" where
  "command_payload_failure_status payload = (
     let top_level_status = str_or (dget payload ''status'') [] in
     if dget payload ''ok'' = PBool False \<and> top_level_status \<noteq> [] then top_level_status
     else case first_some failing_status (dget payload ''payload'' # reply_payloads payload) of
       Some s \<Rightarrow> s | None \<Rightarrow> [])"

definition build_execution_step_result ::
    "string \<Rightarrow> string list \<Rightarrow> CommandExecutionResult \<Rightarrow> dict option \<Rightarrow> string \<Rightarrow> dict" where
  "build_execution_step_result name argv r payload failure_status =
     [(''name'', PStr name), (''command'', PStr (str_join '' '' argv)), (''argv'', ptexts argv),
      (''ok'', PBool (failure_status = [])), (''failure_status'', PStr failure_status),
      (''exit_code'', PInt (cr_exit_code r))]
     @ (if cr_stderr r \<noteq> [] then [(''stderr'', PStr (cr_stderr r))] else [])
     @ (case payload of None \<Rightarrow> [] | Some d \<Rightarrow> [(''result'', PDict d)])"

definition build_tool_execution_step_result :: "string \<Rightarrow> string \<Rightarrow> ToolExecutionResult \<Rightarrow> string \<Rightarrow> dict" where
  "build_tool_execution_step_result name tool_name r failure_status =
     [(''name'', PStr name), (''tool_name'', PStr tool_name), (''status'', PStr (te_status r)),
      (''ok'', PBool (failure_status = [])), (''failure_status'', PStr failure_status),
      (''result'', PDict (te_payload r))]"

definition tool_execution_failure_status :: "ToolExecutionResult \<Rightarrow> string" where
  "tool_execution_failure_status r = (
     if te_status r \<noteq> ''ok''
     then py_str (por (dget (te_payload r) ''failure_status'') (por (PStr (te_status r)) (PStr ''tool_execution_failed'')))
     else case dget (te_payload r) ''result'' of PDict d \<Rightarrow> command_payload_failure_status d | _ \<Rightarrow> [])"

definition normalize_activation_approval_decision :: "string \<Rightarrow> string result" where
  "normalize_activation_approval_decision decision = (let normalized = str_lower (str_strip decision) in
     if normalized \<in> {''approve'', ''approved''} then Inr ''approved''
     else if normalized \<in> {''deny'', ''denied''} then Inr ''denied''
     else if normalized \<in> {''expire'', ''expired''} then Inr ''expired''
     else if normalized \<in> {''pending'', []} then Inr ''pending''
     else Inl (ValueError ''invalid_activation_approval_decision''))"

definition release_gate_approval_failure_class :: "string \<Rightarrow> string \<Rightarrow> string" where
  "release_gate_approval_failure_class status prefx = (
     if status = ''pending_approval'' then prefx @ ''_approval_required''
     else if status = ''denied'' then prefx @ ''_approval_denied''
     else if status = ''expired'' then prefx @ ''_approval_expired''
     else prefx @ ''_approval_required'')"

definition decision_status :: "string \<Rightarrow> string" where
  "decision_status decision = (if decision = ''approved'' then ''approved''
     else if decision = ''pending'' then ''pending_approval''
     else if decision = ''expired'' then ''expired'' else ''denied'')"

section \<open>Steps\<close>

text \<open>The command line of a step of the plan; the plan is always the one \<open>build_app_deploy_plan\<close> made.\<close>

definition step_argv :: "dict \<Rightarrow> nat \<Rightarrow> string list" where
  "step_argv deploy_plan i = (case dget deploy_plan ''steps'' of
     PList steps \<Rightarrow> (if i < length steps then (case steps ! i of
         PDict d \<Rightarrow> (case dget d ''argv'' of PList xs \<Rightarrow> map py_str xs | _ \<Rightarrow> []) | _ \<Rightarrow> []) else [])
   | _ \<Rightarrow> [])"

text \<open>
  \<open>run_json_step\<close> of both runs. \<open>payload_failure\<close> is the failure of a document: \<open>expected_status\<close> is the
  status it must have (None for any), \<open>allowed\<close> the failures that are none.
\<close>

definition payload_failure :: "string option \<Rightarrow> string list \<Rightarrow> dict \<Rightarrow> string" where
  "payload_failure expected_status allowed payload = (
     let failure_status = command_payload_failure_status payload;
         failure_status = (case expected_status of None \<Rightarrow> failure_status
           | Some s \<Rightarrow> if str_or (dget payload ''status'') [] \<noteq> s
               then str_or (dget payload ''status'') ''unexpected_status'' else failure_status) in
     if failure_status \<in> set allowed then [] else failure_status)"

definition run_json_step ::
    "'a tool_adapter \<Rightarrow> int \<Rightarrow> string option \<Rightarrow> string list \<Rightarrow> string \<Rightarrow> string list \<Rightarrow> ('a \<times> env, dict \<times> string) prog" where
  "run_json_step ad timeout expected_status allowed name argv =
     pbind (run_command ad argv timeout) (\<lambda>r.
     case parse_command_json_result r of
       Inl (ValueError failure_status) \<Rightarrow> pret (build_execution_step_result name argv r None failure_status, failure_status)
     | Inl e \<Rightarrow> pfail e
     | Inr payload \<Rightarrow> pret (let failure_status = payload_failure expected_status allowed payload in
         (build_execution_step_result name argv r (Some payload) failure_status, failure_status)))"

definition leases_of :: "pyval \<Rightarrow> pyval list option" where
  "leases_of v = (case v of PDict d \<Rightarrow> (case dget d ''leases'' of PList xs \<Rightarrow> Some xs | _ \<Rightarrow> None) | _ \<Rightarrow> None)"

definition observed_leases :: "dict \<Rightarrow> pyval list" where
  "observed_leases leases_step = (case dget leases_step ''result'' of
     PDict leases_payload \<Rightarrow> (case first_some leases_of (reply_payloads leases_payload) of Some xs \<Rightarrow> xs | None \<Rightarrow> [])
   | _ \<Rightarrow> [])"

definition mark_failed :: "dict \<Rightarrow> string \<Rightarrow> dict" where
  "mark_failed step failure_status = dset (dset step ''failure_status'' (PStr failure_status)) ''ok'' (PBool False)"

text \<open>
  The first failure of a run: its step and status, two empty texts when there is none. A later failure
  does not replace an earlier one.
\<close>

type_synonym failure = "string \<times> string"

definition no_failure :: failure where
  "no_failure = ([], [])"

definition or_failure :: "failure \<Rightarrow> string \<Rightarrow> string \<Rightarrow> failure" where
  "or_failure f step status = (if status \<noteq> [] \<and> snd f = [] then (step, status) else f)"

text \<open>The release of the lease and the check that none is left, after every run that acquired it.\<close>

definition cleanup_lease ::
    "'a tool_adapter \<Rightarrow> int \<Rightarrow> string list \<Rightarrow> dict \<Rightarrow> dict \<times> failure \<Rightarrow> ('a \<times> env, dict \<times> failure) prog" where
  "cleanup_lease ad timeout allowed deploy_plan ef = (case ef of (execution, failure) \<Rightarrow>
     pbind (run_json_step ad timeout None allowed ''lease_release_activate'' (step_argv deploy_plan 9)) (\<lambda>(release_step, release_failure).
     pbind (run_json_step ad timeout None [] ''query_leases'' (step_argv deploy_plan 10)) (\<lambda>(leases_step, leases_failure).
     let held = (leases_failure = [] \<and> observed_leases leases_step \<noteq> []);
         leases_failure = (if held then ''cleanup_leases_not_empty'' else leases_failure);
         leases_step = (if held then mark_failed leases_step leases_failure else leases_step);
         execution = dset (dset (dset execution ''cleanup_attempted'' (PBool True))
           ''lease_release'' (PDict release_step)) ''query_leases'' (PDict leases_step) in
     pret (execution, or_failure (or_failure failure ''lease_release_activate'' release_failure) ''query_leases'' leases_failure))))"

definition new_execution :: "string \<Rightarrow> string \<Rightarrow> dict" where
  "new_execution schema marker = [(''schema_version'', PStr schema), (''completed_through'', PStr []), (marker, PBool False)]"

text \<open>Prepare, then verify, then what the run does when both went well.\<close>

definition prepare_then_verify ::
    "'a tool_adapter \<Rightarrow> int \<Rightarrow> dict \<Rightarrow> dict \<Rightarrow> (dict \<Rightarrow> ('a \<times> env, dict \<times> failure \<times> 'x) prog) \<Rightarrow> 'x
      \<Rightarrow> ('a \<times> env, dict \<times> failure \<times> 'x) prog" where
  "prepare_then_verify ad timeout deploy_plan execution next_step nothing =
     pbind (run_json_step ad timeout None [] ''deploy_prepare'' (step_argv deploy_plan 3)) (\<lambda>(prepare_step, prepare_failure).
     let execution = dset execution ''deploy_prepare'' (PDict prepare_step) in
     if prepare_failure \<noteq> [] then pret (execution, (''deploy_prepare'', prepare_failure), nothing)
     else pbind (run_json_step ad timeout None [] ''deploy_verify'' (step_argv deploy_plan 4)) (\<lambda>(verify_step, verify_failure).
     let execution = dset execution ''deploy_verify'' (PDict verify_step) in
     if verify_failure \<noteq> [] then pret (execution, (''deploy_verify'', verify_failure), nothing)
     else next_step execution))"

definition plan_entries :: "dict \<Rightarrow> dict" where
  "plan_entries deploy_payload = [(''build_plan'', dget deploy_payload ''build_plan''),
     (''artifact_admission'', dget deploy_payload ''artifact_admission''), (''deploy_plan'', dget deploy_payload ''deploy_plan'')]"

definition failed_reply :: "string \<Rightarrow> string \<Rightarrow> failure \<Rightarrow> dict" where
  "failed_reply command failure_class f = [(''ok'', PBool False), (''status'', PStr ''error''), (''command'', PStr command),
     (''failure_class'', PStr failure_class), (''failure_status'', PStr (snd f)), (''failed_step'', PStr (fst f))]"

definition ok_reply :: "string \<Rightarrow> dict" where
  "ok_reply command = [(''ok'', PBool True), (''status'', PStr ''ok''), (''command'', PStr command)]"

text \<open>
  Preflight, then the lease, then \<open>work\<close> when it was acquired, then its cleanup. Inl is the early
  return after a failed preflight.
\<close>

definition leased_run ::
    "'a tool_adapter \<Rightarrow> int \<Rightarrow> string list \<Rightarrow> dict \<Rightarrow> dict \<Rightarrow> (dict \<Rightarrow> ('a \<times> env, dict \<times> failure \<times> 'x) prog) \<Rightarrow> 'x
      \<Rightarrow> ('a \<times> env, (dict \<times> string) + (dict \<times> failure \<times> 'x)) prog" where
  "leased_run ad timeout allowed deploy_plan execution work nothing =
     pbind (run_json_step ad timeout (Some ''ready'') [] ''preflight'' (step_argv deploy_plan 0)) (\<lambda>(preflight_step, preflight_failure).
     let execution = dset execution ''preflight'' (PDict preflight_step) in
     if preflight_failure \<noteq> [] then pret (Inl (execution, preflight_failure))
     else pbind (run_json_step ad timeout None [] ''lease_acquire_activate'' (step_argv deploy_plan 2)) (\<lambda>(lease_step, lease_failure).
     let execution = dset execution ''lease_acquire'' (PDict lease_step) in
     if lease_failure \<noteq> [] then pret (Inr (execution, (''lease_acquire_activate'', lease_failure), nothing))
     else pbind (work execution) (\<lambda>(execution, failure, x).
       pbind (cleanup_lease ad timeout allowed deploy_plan (execution, failure)) (\<lambda>(execution, failure).
       pret (Inr (execution, failure, x))))))"

definition run_app_deploy_prepare_verify ::
    "files \<Rightarrow> string \<Rightarrow> 'a tool_adapter \<Rightarrow> deploy_request \<Rightarrow> int \<Rightarrow> ('a \<times> env, dict) prog" where
  "run_app_deploy_prepare_verify fs python ad r timeout =
     pbind (plift (build_app_deploy_plan fs python (r\<lparr>dr_start_args := None\<rparr>))) (\<lambda>deploy_payload.
     let deploy_plan = plan_of deploy_payload ''deploy_plan'';
         execution = new_execution ''1.2.4-app-deploy-prepare-verify-v1'' ''cleanup_attempted'';
         finish = (\<lambda>head execution. pret (head @ plan_entries deploy_payload @ [(''deploy_execution'', PDict execution)]));
         failed = failed_reply ''app-deploy-prepare-verify'' ''app_deploy_prepare_verify_failed'' in
     pbind (leased_run ad timeout [] deploy_plan execution (\<lambda>execution.
         prepare_then_verify ad timeout deploy_plan execution (\<lambda>execution.
           pret (dset execution ''completed_through'' (PStr ''deploy_verify''), no_failure, ())) ()) ()) (\<lambda>outcome.
     case outcome of
       Inl (execution, preflight_failure) \<Rightarrow> finish (failed (''preflight'', preflight_failure)) execution
     | Inr (execution, failure, _) \<Rightarrow>
         if snd failure \<noteq> [] then finish (failed failure) execution
         else finish (ok_reply ''app-deploy-prepare-verify'') execution))"

section \<open>Activation\<close>

definition matching_lease_ids_for_resource :: "dict \<Rightarrow> string \<Rightarrow> string list result" where
  "matching_lease_ids_for_resource lease_observation resource_name = (
     if resource_name = [] then Inr []
     else ebind (extract_observed_lease_rows lease_observation) (\<lambda>rows.
       Inr (filter (\<lambda>lease_id. lease_id \<noteq> []) (map (\<lambda>lease. str_or (dget lease ''lease_id'') [])
         (filter (\<lambda>lease. str_or (dget lease ''resource'') [] = resource_name) rows)))))"

definition rollback_resource :: "string \<Rightarrow> string" where
  "rollback_resource app_id = ''update/app/'' @ app_id @ ''/rollback''"

definition build_recovery_candidate_summary :: "dict \<Rightarrow> dict \<Rightarrow> dict \<Rightarrow> dict result" where
  "build_recovery_candidate_summary activation_health lease_observation activate_failed_payload = (
     let app_id = py_str (por (dget activation_health ''app_id'')
           (por (dget activate_failed_payload ''target_app_id'') (PStr [])));
         lease_resource = (if app_id \<noteq> [] then rollback_resource app_id else []);
         observed_health = str_or (dget activation_health ''classification'') ''unknown'';
         observed_app_state = str_or (dget activation_health ''observed_app_state'') ''unknown'' in
     ebind (matching_lease_ids_for_resource lease_observation lease_resource) (\<lambda>matching.
     Inr [(''trigger_topic'', PStr ''unit.lifecycle.activate_failed''),
       (''app_id'', PStr app_id),
       (''artifact_id'', PStr (str_or (dget activate_failed_payload ''artifact_id'') [])),
       (''activation_result'', PStr (py_str (por (dget activate_failed_payload ''activation_result'')
          (por (dget activate_failed_payload ''status'') (PStr ''activate_failed''))))),
       (''observed_health'', PStr observed_health),
       (''rollback_decision'', PStr (if observed_health = ''rollback_required'' then ''operator_review_required'' else ''not_required'')),
       (''final_app_state'', PStr observed_app_state),
       (''lease_resource'', PStr lease_resource),
       (''lease_ownership_status'', PStr (if matching \<noteq> [] then ''held'' else ''missing'')),
       (''matching_lease_ids'', ptexts matching),
       (''ready_for_rollback_consideration'',
          PBool (truthy (dget_or activation_health ''ready_for_rollback_consideration'' (PBool False))))]))"

definition build_guarded_rollback_approval :: "'a tool_adapter \<Rightarrow> dict \<Rightarrow> ('a \<times> env, dict) prog" where
  "build_guarded_rollback_approval ad summary =
     pbind (case ta_describe ad of None \<Rightarrow> pret None | Some describe \<Rightarrow> pupdate (describe ''system_rollback_app''))
       (\<lambda>rollback_contract.
     let app_id = str_or (dget summary ''app_id'') [] in
     pbind (plift (py_list (por (dget summary ''matching_lease_ids'') (PList [])))) (\<lambda>matching_lease_ids.
     let requested_args = [(''app_id'', PStr app_id), (''app'', PStr app_id),
           (''lease_id'', PStr (case matching_lease_ids of [] \<Rightarrow> [] | l # _ \<Rightarrow> py_str l)),
           (''reason'', PStr ''guarded_rollback_after_activation_health_failure'')];
         payload = [(''status'', PStr ''pending_approval''), (''tool_name'', PStr ''system_rollback_app''),
           (''reason'', PStr ''operator_approval_required_for_guarded_rollback''),
           (''requested_args'', PDict requested_args),
           (''required_resources'', ptexts [''update_rollback_lease'']),
           (''cleanup_hint'', PStr ''confirm rollback evidence, lease ownership, and target app identity before resume''),
           (''target_app_id'', PStr app_id),
           (''recovery_candidate_summary'', PDict summary)] in
     pret (case rollback_contract of None \<Rightarrow> payload
       | Some c \<Rightarrow> dset (dset (dset payload ''required_resources'' (ptexts (tc_required_resources c)))
           ''cleanup_hint'' (tc_cleanup_hint c)) ''contract'' (PDict (ToolContract_to_dict c)))))"

text \<open>
  What the health guard's answer says: the observed health, which the source binds only when the tool
  answered ok, and the failure.
\<close>

definition health_failure_of :: "ToolExecutionResult \<Rightarrow> (dict option \<times> string) result" where
  "health_failure_of r = (
     if te_status r \<noteq> ''ok''
     then Inr (None, py_str (por (dget (te_payload r) ''failure_status'')
       (por (PStr (te_status r)) (PStr ''activation_health_failed''))))
     else ebind (as_dict (por (dget (te_payload r) ''activation_health'')
         (por (dget (te_payload r) ''health_observation'') (PDict [])))) (\<lambda>activation_health.
       let health_classification = str_or (dget activation_health ''classification'') ''unknown'' in
       Inr (Some activation_health,
         if health_classification = ''healthy'' then []
         else if health_classification = ''unknown'' then ''activation_health_not_healthy''
         else health_classification)))"

definition artifact_id_of :: "dict \<Rightarrow> pyval result" where
  "artifact_id_of artifact_admission =
     ebind (as_dict (por (dget artifact_admission ''source_identity'') (PDict []))) (\<lambda>source.
     Inr (por (dget source ''build_id'') (por (dget artifact_admission ''artifact_sha256'') (PStr []))))"

text \<open>The recovery candidate of an unhealthy activation; reading an unbound \<open>activation_health\<close> raises.\<close>

definition recovery_of_unhealthy ::
    "'a tool_adapter \<Rightarrow> string \<Rightarrow> dict \<Rightarrow> dict option \<Rightarrow> string \<Rightarrow> dict
      \<Rightarrow> ('a \<times> env, dict \<times> failure \<times> (dict \<times> dict option) option) prog" where
  "recovery_of_unhealthy ad app_id artifact_admission activation_health health_failure execution =
     pbind (run_tool ad ''system_query_leases'' [(''app_id'', PStr app_id), (''app'', PStr app_id),
       (''reason'', PStr ''activation_rollback_candidate_lease_observation'')]) (\<lambda>observation.
     let observation_failure = (if te_status observation \<noteq> ''ok''
           then py_str (por (dget (te_payload observation) ''failure_status'')
             (por (PStr (te_status observation)) (PStr ''rollback_candidate_lease_observation_failed''))) else []);
         execution = dset execution ''rollback_candidate_lease_observation'' (PDict (build_tool_execution_step_result
           ''rollback_candidate_lease_observation'' ''system_query_leases'' observation observation_failure)) in
     case activation_health of
       None \<Rightarrow> pfail (UnboundLocalError ''activation_health'')
     | Some health \<Rightarrow>
         pbind (plift (artifact_id_of artifact_admission)) (\<lambda>artifact_id.
         pbind (plift (build_recovery_candidate_summary health (ToolExecutionResult_to_dict observation)
           [(''target_app_id'', PStr app_id), (''artifact_id'', PStr (py_str artifact_id)),
            (''activation_result'', PStr health_failure), (''status'', PStr health_failure)])) (\<lambda>summary.
         pbind (if health_failure = ''rollback_required''
           then pbind (build_guarded_rollback_approval ad summary) (\<lambda>a. pret (Some a)) else pret None) (\<lambda>approval.
         pret (execution, (''activation_health_guard'', health_failure), Some (summary, approval))))))"

definition target_state :: "dict option \<Rightarrow> dict" where
  "target_state matched_app = (case matched_app of
     None \<Rightarrow> [(''app_present'', PBool False), (''observed_app_state'', PStr ''missing''), (''app_running'', PBool False)]
   | Some app \<Rightarrow>
       let observed_app_state = py_str (por (dget app ''state'') (por (dget app ''status'') (PStr ''unknown''))) in
       [(''app_present'', PBool True), (''observed_app_state'', PStr observed_app_state),
        (''app_running'', PBool (str_lower observed_app_state \<in> {''running'', ''active'', ''started'', ''running_active''}))])"

definition find_app :: "string \<Rightarrow> dict list \<Rightarrow> dict option" where
  "find_app app_id apps = List.find (\<lambda>app. py_str (por (dget app ''app_id'') (por (dget app ''name'') (PStr []))) = app_id) apps"

definition apps_of :: "pyval \<Rightarrow> pyval list option" where
  "apps_of v = (case v of PDict d \<Rightarrow> (case dget d ''apps'' of PList xs \<Rightarrow> Some xs | _ \<Rightarrow> None) | _ \<Rightarrow> None)"

definition extract_query_apps_target_state :: "dict \<Rightarrow> string \<Rightarrow> dict" where
  "extract_query_apps_target_state payload app_id = target_state (find_app app_id (dicts_of
     (case first_some apps_of (dget payload ''payload'' # reply_payloads payload) of Some xs \<Rightarrow> xs | None \<Rightarrow> [])))"

definition check_running ::
    "'a tool_adapter \<Rightarrow> int \<Rightarrow> string \<Rightarrow> dict \<Rightarrow> dict \<Rightarrow> ('a \<times> env, dict \<times> failure \<times> (dict \<times> dict option) option) prog" where
  "check_running ad timeout app_id deploy_plan execution =
     pbind (run_json_step ad timeout None [] ''query_apps'' (step_argv deploy_plan 8)) (\<lambda>(step, failure).
     let (step, failure) = (case dget step ''result'' of
           PDict payload \<Rightarrow>
             let state = extract_query_apps_target_state payload app_id;
                 step = dset (dset step ''observed_app_state'' (PStr (py_str (dget state ''observed_app_state''))))
                   ''app_present'' (PBool (truthy (dget state ''app_present''))) in
             if failure = [] \<and> \<not> truthy (dget state ''app_running'')
             then (mark_failed step ''app_not_running_after_activate'', ''app_not_running_after_activate'')
             else (step, failure)
         | _ \<Rightarrow> (step, failure));
         execution = dset execution ''query_apps'' (PDict step) in
     if failure \<noteq> [] then pret (execution, (''query_apps'', failure), None)
     else pret (dset execution ''completed_through'' (PStr ''query_apps''), no_failure, None))"

definition activate_and_check ::
    "'a tool_adapter \<Rightarrow> int \<Rightarrow> string \<Rightarrow> dict \<Rightarrow> dict \<Rightarrow> dict
      \<Rightarrow> ('a \<times> env, dict \<times> failure \<times> (dict \<times> dict option) option) prog" where
  "activate_and_check ad timeout app_id artifact_admission deploy_plan execution =
     pbind (run_json_step ad timeout None [] ''deploy_activate'' (step_argv deploy_plan 6)) (\<lambda>(activate_step, activate_failure).
     let execution = dset execution ''deploy_activate'' (PDict activate_step) in
     if activate_failure \<noteq> [] then pret (execution, (''deploy_activate'', activate_failure), None)
     else pbind (run_tool ad ''system_activation_health_guard'' [(''app_id'', PStr app_id), (''app'', PStr app_id)]) (\<lambda>guard.
     pbind (plift (health_failure_of guard)) (\<lambda>(activation_health, health_failure).
     let execution = dset execution ''activation_health_guard'' (PDict (build_tool_execution_step_result
           ''activation_health_guard'' ''system_activation_health_guard'' guard health_failure)) in
     if health_failure \<noteq> [] then recovery_of_unhealthy ad app_id artifact_admission activation_health health_failure execution
     else check_running ad timeout app_id deploy_plan execution)))"

definition approval_decision :: "string \<Rightarrow> dict \<Rightarrow> string \<Rightarrow> dict" where
  "approval_decision decision resources note = [(''approval_required'', PBool True), (''decision'', PStr decision),
     (''status'', PStr (decision_status decision))] @ resources @ [(''approval_note'', PStr (str_strip note))]"

definition activation_decision :: "string \<Rightarrow> dict \<Rightarrow> string \<Rightarrow> string \<Rightarrow> dict" where
  "activation_decision decision deploy_plan app_id note = approval_decision decision
     [(''activation_resource'', PStr (py_str (dget deploy_plan ''activation_resource''))),
      (''resolved_app_id'', PStr app_id),
      (''resolved_lease_id'', PStr (py_str (dget deploy_plan ''suggested_activate_lease_id'')))] note
     @ [(''resume_hint'', PStr ''rerun with --approval-decision approve to execute activation'')]"

definition gate_reply :: "string \<Rightarrow> string \<Rightarrow> string \<Rightarrow> dict" where
  "gate_reply command prefx status = [(''ok'', PBool False), (''status'', PStr status), (''command'', PStr command),
     (''failure_class'', PStr (release_gate_approval_failure_class status prefx)), (''failure_status'', PStr status)]"

definition run_app_deploy_activate ::
    "files \<Rightarrow> string \<Rightarrow> 'a tool_adapter \<Rightarrow> deploy_request \<Rightarrow> int \<Rightarrow> string \<Rightarrow> string \<Rightarrow> ('a \<times> env, dict) prog" where
  "run_app_deploy_activate fs python ad r timeout decision note =
     pbind (plift (normalize_activation_approval_decision decision)) (\<lambda>decision.
     pbind (plift (build_app_deploy_plan fs python r)) (\<lambda>deploy_payload.
     let deploy_plan = plan_of deploy_payload ''deploy_plan'';
         artifact_admission = plan_of deploy_payload ''artifact_admission'';
         app_id = br_app_id r;
         decision_entry = activation_decision decision deploy_plan app_id note;
         execution = new_execution ''1.2.4-app-deploy-activate-v1'' ''cleanup_attempted'';
         finish = (\<lambda>head execution tail. pret (head @ plan_entries deploy_payload
           @ [(''activation_decision'', PDict decision_entry), (''deploy_execution'', PDict execution)] @ tail));
         failed = failed_reply ''app-deploy-activate'' ''app_deploy_activate_failed'' in
     if decision \<noteq> ''approved''
     then finish (gate_reply ''app-deploy-activate'' ''activation'' (decision_status decision)) execution []
     else pbind (leased_run ad timeout [''lease_not_found''] deploy_plan execution (\<lambda>execution.
         prepare_then_verify ad timeout deploy_plan execution
           (activate_and_check ad timeout app_id artifact_admission deploy_plan) None) None) (\<lambda>outcome.
     case outcome of
       Inl (execution, preflight_failure) \<Rightarrow> finish (failed (''preflight'', preflight_failure)) execution []
     | Inr (execution, failure, recovery) \<Rightarrow>
         if snd failure \<noteq> [] then finish (failed failure) execution (case recovery of None \<Rightarrow> []
           | Some (summary, approval) \<Rightarrow> [(''recovery_candidate_summary'', PDict summary)]
               @ (case approval of None \<Rightarrow> [] | Some a \<Rightarrow> [(''rollback_approval'', PDict a)]))
         else finish (ok_reply ''app-deploy-activate'') execution [])))"

section \<open>Rollback\<close>

definition build_rollback_app_state :: "dict \<Rightarrow> string \<Rightarrow> dict result" where
  "build_rollback_app_state apps_observation app_id =
     ebind (extract_observed_app_rows apps_observation) (\<lambda>rows. Inr (target_state (find_app app_id rows)))"

definition failure_advice :: "string \<Rightarrow> string \<times> string" where
  "failure_advice failure_status = (
     if failure_status = ''rollback_args_unresolved'' then (''argument_resolution'',
       ''provide explicit rollback lease identity or verify rollback lease discovery before retry'')
     else if failure_status = ''lease_holder_mismatch'' then (''lease_ownership'',
       ''reacquire or release the rollback lease with the correct source_agent before retry'')
     else if failure_status = ''lease_not_found'' then (''lease_resolution'',
       ''query rollback leases and confirm update/app/<app_id>/rollback is held before retry'')
     else if failure_status = ''no_reply'' then (''transport'',
       ''verify Unit and router reachability, then rerun preflight or state sync before retry'')
     else if failure_status = ''app_still_running_after_rollback'' then (''post_rollback_observation'',
       ''inspect app lifecycle state and confirm rollback target actually stopped before retry'')
     else if failure_status = ''rollback_lease_still_held_after_rollback'' then (''post_rollback_cleanup'',
       ''inspect rollback lease ownership and release stale rollback lease state before retry'')
     else (''rollback_execution'', ''inspect rollback result and query apps/leases evidence before retry''))"

definition build_rollback_failure_summary :: "failure \<Rightarrow> dict \<Rightarrow> dict \<Rightarrow> dict result" where
  "build_rollback_failure_summary f rollback_decision rollback_execution = (case f of (failed_step, failure_status) \<Rightarrow>
     ebind (as_dict (por (dget rollback_execution ''rollback'') (PDict []))) (\<lambda>rollback_step.
     ebind (as_dict (por (dget rollback_step ''result'') (PDict []))) (\<lambda>rollback_result.
     ebind (as_dict (por (dget rollback_result ''resolved_args'') (PDict []))) (\<lambda>resolved_args.
     let summary = [(''app_id'', PStr (str_or (dget rollback_decision ''resolved_app_id'') [])),
           (''failed_step'', PStr failed_step),
           (''failure_status'', PStr failure_status),
           (''failure_category'', PStr (fst (failure_advice failure_status))),
           (''rollback_resource'', PStr (str_or (dget rollback_decision ''rollback_resource'') [])),
           (''requested_lease_id'', PStr (str_or (dget rollback_decision ''requested_lease_id'') [])),
           (''resolved_lease_id'', PStr (str_or (dget resolved_args ''lease_id'') [])),
           (''source_agent'', PStr (str_or (dget rollback_decision ''source_agent'') [])),
           (''recommended_next_actions'', ptexts [snd (failure_advice failure_status)])] in
     ebind (if failed_step = ''query_apps''
         then ebind (as_dict (por (dget rollback_execution ''query_apps'') (PDict []))) (\<lambda>step.
           Inr [(''observed_app_state'', PStr (str_or (dget step ''observed_app_state'') ''unknown'')),
             (''app_present'', PBool (truthy (dget_or step ''app_present'' (PBool False))))])
         else if failed_step = ''query_leases''
         then ebind (as_dict (por (dget rollback_execution ''query_leases'') (PDict []))) (\<lambda>step.
           ebind (py_list (por (dget step ''matching_lease_ids'') (PList []))) (\<lambda>held.
           Inr [(''matching_lease_ids'', PList held)]))
         else Inr []) (\<lambda>extra.
     let tool_failure_class = str_or (dget rollback_result ''failure_class'') [] in
     Inr (summary @ extra @ (if tool_failure_class \<noteq> []
       then [(''tool_failure_class'', PStr tool_failure_class)] else [])))))))"

record rollback_request =
  rb_app_id :: string
  rb_node_id :: string
  rb_source_agent :: string
  rb_lease_id :: "string option"
  rb_reason :: string
  rb_decision :: string
  rb_note :: string

definition default_rollback_request :: "string \<Rightarrow> rollback_request" where
  "default_rollback_request app_id = \<lparr>rb_app_id = app_id, rb_node_id = ''unit-01'', rb_source_agent = ''rational'',
     rb_lease_id = None, rb_reason = ''guarded_rollback_after_activation_health_failure'', rb_decision = ''pending'', rb_note = []\<rparr>"

definition app_args :: "string \<Rightarrow> dict \<Rightarrow> string \<Rightarrow> dict" where
  "app_args app_id extra reason = [(''app_id'', PStr app_id), (''app'', PStr app_id)] @ extra @ [(''reason'', PStr reason)]"

text \<open>The observation of the apps after a rollback: the step, and why it fails.\<close>

definition observe_rolled_back_app ::
    "'a tool_adapter \<Rightarrow> string \<Rightarrow> ('a \<times> env, dict \<times> string) prog" where
  "observe_rolled_back_app ad app_id =
     pbind (run_tool ad ''system_query_apps'' (app_args app_id [] ''post_rollback_app_observation'')) (\<lambda>r.
     let failure = tool_execution_failure_status r;
         step = build_tool_execution_step_result ''query_apps'' ''system_query_apps'' r failure in
     if failure \<noteq> [] then pret (step, failure)
     else pbind (plift (build_rollback_app_state (ToolExecutionResult_to_dict r) app_id)) (\<lambda>state.
       let step = dset (dset step ''observed_app_state'' (PStr (py_str (dget state ''observed_app_state''))))
             ''app_present'' (PBool (truthy (dget state ''app_present''))) in
       if truthy (dget state ''app_running'')
       then pret (mark_failed step ''app_still_running_after_rollback'', ''app_still_running_after_rollback'')
       else pret (step, [])))"

definition observe_rollback_leases ::
    "'a tool_adapter \<Rightarrow> string \<Rightarrow> ('a \<times> env, dict \<times> string) prog" where
  "observe_rollback_leases ad app_id =
     pbind (run_tool ad ''system_query_leases'' (app_args app_id [] ''post_rollback_lease_observation'')) (\<lambda>r.
     let failure = tool_execution_failure_status r;
         step = build_tool_execution_step_result ''query_leases'' ''system_query_leases'' r failure in
     if failure \<noteq> [] then pret (step, failure)
     else pbind (plift (matching_lease_ids_for_resource (ToolExecutionResult_to_dict r) (rollback_resource app_id))) (\<lambda>held.
       let step = dset (dset step ''rollback_resource'' (PStr (rollback_resource app_id))) ''matching_lease_ids'' (ptexts held) in
       if held \<noteq> []
       then pret (mark_failed step ''rollback_lease_still_held_after_rollback'', ''rollback_lease_still_held_after_rollback'')
       else pret (step, [])))"

definition perform_rollback ::
    "'a tool_adapter \<Rightarrow> string \<Rightarrow> string \<Rightarrow> string \<Rightarrow> dict \<Rightarrow> ('a \<times> env, dict \<times> failure) prog" where
  "perform_rollback ad app_id lease_id reason execution =
     pbind (run_tool ad ''system_rollback_app'' (app_args app_id
       (if lease_id \<noteq> [] then [(''lease_id'', PStr lease_id)] else []) reason)) (\<lambda>r.
     let rollback_failure = tool_execution_failure_status r;
         execution = dset execution ''rollback''
           (PDict (build_tool_execution_step_result ''rollback'' ''system_rollback_app'' r rollback_failure)) in
     if rollback_failure \<noteq> [] then pret (execution, (''rollback'', rollback_failure))
     else pbind (observe_rolled_back_app ad app_id) (\<lambda>(apps_step, apps_failure).
       pbind (observe_rollback_leases ad app_id) (\<lambda>(leases_step, leases_failure).
       pret (dset (dset (dset (dset execution ''observation_attempted'' (PBool True)) ''query_apps'' (PDict apps_step))
           ''query_leases'' (PDict leases_step)) ''completed_through'' (PStr ''query_leases''),
         or_failure (or_failure no_failure ''query_apps'' apps_failure) ''query_leases'' leases_failure))))"

definition run_app_deploy_rollback :: "'a tool_adapter \<Rightarrow> rollback_request \<Rightarrow> ('a \<times> env, dict) prog" where
  "run_app_deploy_rollback ad r =
     pbind (plift (validate_app_build_app_id (rb_app_id r))) (\<lambda>app_id.
     pbind (plift (validate_deploy_plan_identifier (rb_node_id r) ''invalid_deploy_node_id'')) (\<lambda>node_id.
     pbind (plift (validate_deploy_plan_identifier (rb_source_agent r) ''invalid_deploy_source_agent'')) (\<lambda>source_agent.
     pbind (plift (normalize_activation_approval_decision (rb_decision r))) (\<lambda>decision.
     let lease_id = strip_opt (rb_lease_id r);
         decision_entry = approval_decision decision [(''rollback_resource'', PStr (rollback_resource app_id)),
             (''resolved_app_id'', PStr app_id), (''requested_lease_id'', PStr lease_id), (''rollback_reason'', PStr (rb_reason r))]
             (rb_note r)
           @ [(''resume_hint'', PStr ''rerun with --approval-decision approve to execute rollback''),
              (''node_id'', PStr node_id), (''source_agent'', PStr source_agent)];
         execution = new_execution ''1.2.4-app-deploy-rollback-v1'' ''observation_attempted'';
         finish = (\<lambda>head execution tail. pret (head @ [(''rollback_decision'', PDict decision_entry),
           (''rollback_execution'', PDict execution)] @ tail)) in
     if decision \<noteq> ''approved''
     then finish (gate_reply ''app-deploy-rollback'' ''rollback'' (decision_status decision)) execution []
     else pbind (perform_rollback ad app_id lease_id (rb_reason r) execution) (\<lambda>(execution, failure).
       if snd failure \<noteq> []
       then pbind (plift (build_rollback_failure_summary failure decision_entry execution)) (\<lambda>summary.
         finish (failed_reply ''app-deploy-rollback'' ''app_deploy_rollback_failed'' failure) execution
           [(''rollback_failure_summary'', PDict summary)])
       else finish (ok_reply ''app-deploy-rollback'') execution [])))))"

section \<open>Evidence of a release gate command\<close>

type_synonym fact_record = "string \<times> string \<times> dict"

fun persist_facts :: "string \<Rightarrow> fact_record list \<Rightarrow> (db, unit) prog" where
  "persist_facts execution_span_id [] = pret ()"
| "persist_facts execution_span_id ((fact_type, subject, fact_payload) # records) =
     pbind (pupdate (\<lambda>d. persist_fact d execution_span_id fact_type subject fact_payload)) (\<lambda>_.
     persist_facts execution_span_id records)"

definition persist_release_gate_command_result ::
    "string \<Rightarrow> string \<Rightarrow> dict \<Rightarrow> fact_record list \<Rightarrow> (db, dict) prog" where
  "persist_release_gate_command_result db_path command_name payload fact_records = (
     let draw = (\<lambda>p. pupdate (\<lambda>(s, w). case new_id p w of (i, w') \<Rightarrow> Inr (i, s, w')));
         ok = truthy (dget_or payload ''ok'' (PBool False));
         status = str_or (dget payload ''status'') ''unknown'' in
     pbind (draw ''session'') (\<lambda>session_id.
     pbind (draw ''exec'') (\<lambda>execution_span_id.
     pbind (draw ''audit'') (\<lambda>audit_id.
     pbind (pupdate (\<lambda>d. Inr ((), persist_execution_span d execution_span_id ''running''
       [(''command'', PStr command_name), (''status'', PStr ''running'')] (Some session_id)))) (\<lambda>_.
     pbind (persist_facts execution_span_id ((''release_gate_command'', command_name,
       [(''command'', PStr command_name), (''ok'', PBool ok), (''status'', PStr status)]) # fact_records)) (\<lambda>_.
     pbind (pupdate (\<lambda>d. ebind (persist_audit_record d audit_id execution_span_id
       (py_str (por (dget payload ''status'') (PStr (if truthy (dget payload ''ok'') then ''ok'' else ''error''))))
       payload (Some session_id)) (\<lambda>d'. Inr ((), d')))) (\<lambda>_.
     pbind (pupdate (\<lambda>d. Inr ((), persist_execution_span d execution_span_id
       (if ok then ''ok'' else str_or (dget payload ''status'') ''error'')
       [(''command'', PStr command_name), (''status'', PStr status), (''audit_id'', PStr audit_id)] (Some session_id)))) (\<lambda>_.
     pret [(''db_path'', PStr db_path), (''session_id'', PStr session_id),
       (''execution_span_id'', PStr execution_span_id), (''audit_id'', PStr audit_id)]))))))))"

definition entry :: "dict \<Rightarrow> string \<Rightarrow> dict result" where
  "entry d k = as_dict (por (dget d k) (PDict []))"

definition fact_of :: "string \<Rightarrow> string \<Rightarrow> string \<Rightarrow> dict \<Rightarrow> fact_record list" where
  "fact_of fact_type key dflt d = (if d = [] then [] else [(fact_type, str_or (dget d key) dflt, d)])"

definition activate_facts :: "dict \<Rightarrow> fact_record list result" where
  "activate_facts payload =
     ebind (entry payload ''activation_decision'') (\<lambda>activation_decision.
     let app_id = str_or (dget activation_decision ''resolved_app_id'') ''app-deploy-activate'' in
     ebind (entry payload ''deploy_execution'') (\<lambda>deploy_execution.
     ebind (entry deploy_execution ''activation_health_guard'') (\<lambda>guard.
     ebind (entry guard ''result'') (\<lambda>guard_result.
     ebind (as_dict (por (dget guard_result ''activation_health'')
       (por (dget guard_result ''health_observation'') (PDict [])))) (\<lambda>activation_health.
     ebind (entry payload ''recovery_candidate_summary'') (\<lambda>recovery.
     ebind (entry payload ''rollback_approval'') (\<lambda>rollback_approval.
     Inr ((if activation_decision = [] then [] else [(''activation_decision'', app_id, activation_decision)])
       @ fact_of ''activation_health_observation'' ''app_id'' app_id activation_health
       @ fact_of ''recovery_candidate'' ''app_id'' app_id recovery
       @ fact_of ''rollback_approval'' ''target_app_id'' app_id rollback_approval))))))))"

definition persist_app_deploy_activate_evidence :: "string \<Rightarrow> dict \<Rightarrow> (db, dict) prog" where
  "persist_app_deploy_activate_evidence db_path payload = pbind (plift (activate_facts payload)) (\<lambda>facts.
     persist_release_gate_command_result db_path ''app-deploy-activate'' payload facts)"

definition rollback_facts :: "dict \<Rightarrow> fact_record list result" where
  "rollback_facts payload =
     ebind (entry payload ''rollback_decision'') (\<lambda>rollback_decision.
     let app_id = str_or (dget rollback_decision ''resolved_app_id'') ''app-deploy-rollback'' in
     ebind (entry payload ''rollback_execution'') (\<lambda>rollback_execution.
     ebind (entry rollback_execution ''rollback'') (\<lambda>rollback_step.
     ebind (entry rollback_step ''result'') (\<lambda>rollback_result.
     ebind (entry payload ''rollback_failure_summary'') (\<lambda>rollback_failure_summary.
     Inr (concat (map (\<lambda>(k, d). if d = [] then [] else [(k, app_id, d)])
       [(''rollback_decision'', rollback_decision), (''rollback_result'', rollback_result),
        (''rollback_failure_summary'', rollback_failure_summary)])))))))"

definition persist_app_deploy_rollback_evidence :: "string \<Rightarrow> dict \<Rightarrow> (db, dict) prog" where
  "persist_app_deploy_rollback_evidence db_path payload = pbind (plift (rollback_facts payload)) (\<lambda>facts.
     persist_release_gate_command_result db_path ''app-deploy-rollback'' payload facts)"

end
