(* ===== verification/Trace.thy ===== *)
theory Trace
  imports Effects
begin

text \<open>
  What a program adds to a log that its state carries: \<open>lg\<close> reads the log, \<open>Q\<close> describes the result
  and the new entries when the program returns, \<open>E\<close> the new entries when it raises.
\<close>

definition adds :: "('s \<Rightarrow> 'e list) \<Rightarrow> ('s, 'x) prog \<Rightarrow> ('x \<Rightarrow> 'e list \<Rightarrow> bool) \<Rightarrow> ('e list \<Rightarrow> bool) \<Rightarrow> bool" where
  "adds lg m Q E \<longleftrightarrow> (\<forall>s r s'. m s = (r, s') \<longrightarrow>
     (\<exists>n. lg s' = lg s @ n \<and> (case r of Inr x \<Rightarrow> Q x n | Inl _ \<Rightarrow> E n)))"

lemma addsD: "adds lg m Q E \<Longrightarrow> m s = (r, s') \<Longrightarrow>
    \<exists>n. lg s' = lg s @ n \<and> (case r of Inr x \<Rightarrow> Q x n | Inl _ \<Rightarrow> E n)"
  unfolding adds_def by blast

lemma adds_bind:
  assumes m: "adds lg m Q1 E1" and f: "\<And>x a. Q1 x a \<Longrightarrow> adds lg (f x) (\<lambda>y b. Q y (a @ b)) (\<lambda>b. E (a @ b))"
    and E: "\<And>a. E1 a \<Longrightarrow> E a"
  shows "adds lg (pbind m f) Q E"
  unfolding adds_def
proof (intro allI impI)
  fix s r s'
  assume run: "pbind m f s = (r, s')"
  obtain r1 s1 where m1: "m s = (r1, s1)" by (cases "m s")
  from addsD[OF m m1] obtain a where a: "lg s1 = lg s @ a"
    "case r1 of Inr x \<Rightarrow> Q1 x a | Inl _ \<Rightarrow> E1 a" by blast
  show "\<exists>n. lg s' = lg s @ n \<and> (case r of Inr x \<Rightarrow> Q x n | Inl _ \<Rightarrow> E n)"
  proof (cases r1)
    case (Inl e)
    with run m1 a E show ?thesis by (auto simp: pbind_def)
  next
    case (Inr x)
    with a have "Q1 x a" by simp
    from f[OF this] have "adds lg (f x) (\<lambda>y b. Q y (a @ b)) (\<lambda>b. E (a @ b))" .
    moreover from run m1 Inr have "f x s1 = (r, s')" by (simp add: pbind_def)
    ultimately obtain b where "lg s' = lg s1 @ b" "case r of Inr y \<Rightarrow> Q y (a @ b) | Inl _ \<Rightarrow> E (a @ b)"
      by (blast dest: addsD)
    with a(1) show ?thesis by auto
  qed
qed

lemma adds_weaken:
  assumes "adds lg m Q' E'" and "\<And>x n. Q' x n \<Longrightarrow> Q x n" and "\<And>n. E' n \<Longrightarrow> E n"
  shows "adds lg m Q E"
  unfolding adds_def
proof (intro allI impI)
  fix s r s' assume "m s = (r, s')"
  from addsD[OF assms(1) this] show "\<exists>n. lg s' = lg s @ n \<and> (case r of Inr x \<Rightarrow> Q x n | Inl _ \<Rightarrow> E n)"
    using assms(2,3) by (auto split: sum.splits)
qed

lemma adds_pret: "Q x [] \<Longrightarrow> adds lg (pret x) Q E"
  by (auto simp: adds_def pret_def)

lemma adds_pfail: "E [] \<Longrightarrow> adds lg (pfail e) Q E"
  by (auto simp: adds_def pfail_def)

lemma adds_plift: "(\<And>x. r = Inr x \<Longrightarrow> Q x []) \<Longrightarrow> (\<And>e. r = Inl e \<Longrightarrow> E []) \<Longrightarrow> adds lg (plift r) Q E"
  by (cases r) (auto simp: adds_def plift_def)

lemma adds_pread: "(\<And>s. Q (f s) []) \<Longrightarrow> adds lg (pread f) Q E"
  by (auto simp: adds_def pread_def)

lemma adds_if: "(b \<Longrightarrow> adds lg m Q E) \<Longrightarrow> (\<not> b \<Longrightarrow> adds lg m' Q E) \<Longrightarrow> adds lg (if b then m else m') Q E"
  by simp

text \<open>A run from a state with an empty log.\<close>

lemma adds_run: "adds lg m Q E \<Longrightarrow> lg s = [] \<Longrightarrow> m s = (r, s') \<Longrightarrow>
    case r of Inr x \<Rightarrow> Q x (lg s') | Inl _ \<Rightarrow> E (lg s')"
  by (fastforce dest: addsD split: sum.splits)

text \<open>The same from the states of an invariant, which the program keeps.\<close>

definition adds_in :: "('s \<Rightarrow> bool) \<Rightarrow> ('s \<Rightarrow> 'e list) \<Rightarrow> ('s, 'x) prog \<Rightarrow> ('x \<Rightarrow> 'e list \<Rightarrow> bool) \<Rightarrow> ('e list \<Rightarrow> bool) \<Rightarrow> bool" where
  "adds_in P lg m Q E \<longleftrightarrow> (\<forall>s r s'. P s \<longrightarrow> m s = (r, s') \<longrightarrow>
     P s' \<and> (\<exists>n. lg s' = lg s @ n \<and> (case r of Inr x \<Rightarrow> Q x n | Inl _ \<Rightarrow> E n)))"

lemma adds_inD: "adds_in P lg m Q E \<Longrightarrow> P s \<Longrightarrow> m s = (r, s') \<Longrightarrow>
    P s' \<and> (\<exists>n. lg s' = lg s @ n \<and> (case r of Inr x \<Rightarrow> Q x n | Inl _ \<Rightarrow> E n))"
  unfolding adds_in_def by blast

lemma adds_inI: "adds lg m Q E \<Longrightarrow> keeps P m \<Longrightarrow> adds_in P lg m Q E"
  unfolding adds_in_def by (auto simp: triple_def dest: addsD split: sum.splits)

lemma adds_in_bind:
  assumes m: "adds_in P lg m Q1 E1" and f: "\<And>x a. Q1 x a \<Longrightarrow> adds_in P lg (f x) (\<lambda>y b. Q y (a @ b)) (\<lambda>b. E (a @ b))"
    and E: "\<And>a. E1 a \<Longrightarrow> E a"
  shows "adds_in P lg (pbind m f) Q E"
  unfolding adds_in_def
proof (intro allI impI)
  fix s r s'
  assume P: "P s" and run: "pbind m f s = (r, s')"
  obtain r1 s1 where m1: "m s = (r1, s1)" by (cases "m s")
  from adds_inD[OF m P m1] obtain a where P1: "P s1" and a: "lg s1 = lg s @ a"
    "case r1 of Inr x \<Rightarrow> Q1 x a | Inl _ \<Rightarrow> E1 a" by blast
  show "P s' \<and> (\<exists>n. lg s' = lg s @ n \<and> (case r of Inr x \<Rightarrow> Q x n | Inl _ \<Rightarrow> E n))"
  proof (cases r1)
    case (Inl e)
    with run m1 a E P1 show ?thesis by (auto simp: pbind_def)
  next
    case (Inr x)
    with a have "Q1 x a" by simp
    from run m1 Inr have "f x s1 = (r, s')" by (simp add: pbind_def)
    from adds_inD[OF f[OF \<open>Q1 x a\<close>] P1 this] a(1) show ?thesis by auto
  qed
qed

lemma adds_in_weaken:
  assumes "adds_in P lg m Q' E'" and "\<And>x n. Q' x n \<Longrightarrow> Q x n" and "\<And>n. E' n \<Longrightarrow> E n"
  shows "adds_in P lg m Q E"
  unfolding adds_in_def
proof (intro allI impI)
  fix s r s' assume "P s" and "m s = (r, s')"
  from adds_inD[OF assms(1) this] show "P s' \<and> (\<exists>n. lg s' = lg s @ n \<and> (case r of Inr x \<Rightarrow> Q x n | Inl _ \<Rightarrow> E n))"
    using assms(2,3) by (auto split: sum.splits)
qed

lemma adds_in_basic:
  "Q x [] \<Longrightarrow> adds_in P lg (pret x) Q E" "E [] \<Longrightarrow> adds_in P lg (pfail e) Q E"
  by (auto intro!: adds_inI adds_pret adds_pfail)

end
