(* ===== verification/Gate.thy ===== *)
theory Gate
  imports Deploy Trace
begin

text \<open>
  What the runs of the release gate do: the calls they make, in which order and after which answers,
  and what their replies say. A run is observed through an adapter that notes every answered call.
\<close>

section \<open>The calls of a run\<close>

text \<open>An adapter that also notes every call that was answered.\<close>

datatype event =
    Ran "string list" CommandExecutionResult
  | Used string dict ToolExecutionResult

definition noting :: "('r \<Rightarrow> event) \<Rightarrow> ('a \<times> env \<Rightarrow> ('r \<times> 'a \<times> env) result)
    \<Rightarrow> ('a \<times> event list) \<times> env \<Rightarrow> ('r \<times> ('a \<times> event list) \<times> env) result" where
  "noting e f st = (case st of ((a, l), w) \<Rightarrow> ebind (f (a, w)) (\<lambda>(r, a', w'). Inr (r, (a', l @ [e r]), w')))"

definition silent :: "('a \<times> env \<Rightarrow> ('r \<times> 'a \<times> env) result) \<Rightarrow> ('a \<times> event list) \<times> env \<Rightarrow> ('r \<times> ('a \<times> event list) \<times> env) result" where
  "silent f st = (case st of ((a, l), w) \<Rightarrow> ebind (f (a, w)) (\<lambda>(r, a', w'). Inr (r, (a', l), w')))"

definition logged :: "'a tool_adapter \<Rightarrow> ('a \<times> event list) tool_adapter" where
  "logged ad = \<lparr>ta_runner = (\<lambda>argv timeout. noting (Ran argv) (ta_runner ad argv timeout)),
     ta_execute = (\<lambda>t args. noting (Used t args) (ta_execute ad t args)),
     ta_describe = map_option (\<lambda>f t. silent (f t)) (ta_describe ad)\<rparr>"

abbreviation log_of :: "('a \<times> event list) \<times> env \<Rightarrow> event list" where
  "log_of s \<equiv> snd (fst s)"

text \<open>What a program adds to the log, when it returns and when it raises.\<close>

abbreviation emits :: "(('a \<times> event list) \<times> env, 'x) prog \<Rightarrow> ('x \<Rightarrow> event list \<Rightarrow> bool) \<Rightarrow> (event list \<Rightarrow> bool) \<Rightarrow> bool" where
  "emits \<equiv> adds log_of"

lemmas emitsD = addsD[where lg = log_of]
  and emits_bind = adds_bind[where lg = log_of]
  and emits_weaken = adds_weaken[where lg = log_of]
  and emits_pret = adds_pret[where lg = log_of]
  and emits_pfail = adds_pfail[where lg = log_of]
  and emits_plift = adds_plift[where lg = log_of]

lemma emits_run_command: "emits (run_command (logged ad) argv timeout) (\<lambda>r n. n = [Ran argv r]) (\<lambda>n. n = [])"
  by (auto simp: adds_def run_command_def pupdate_def logged_def noting_def ebind_def split: sum.splits prod.splits)

lemma emits_run_tool: "emits (run_tool (logged ad) t args) (\<lambda>r n. n = [Used t args r]) (\<lambda>n. n = [])"
  by (auto simp: adds_def run_tool_def pupdate_def logged_def noting_def ebind_def split: sum.splits prod.splits)

lemma emits_silent: "emits (pupdate (silent f)) (\<lambda>_ n. n = []) (\<lambda>n. n = [])"
  by (auto simp: adds_def pupdate_def silent_def ebind_def split: sum.splits prod.splits)

text \<open>The failure of an answer, and the document it carries.\<close>

definition answer_failure :: "string option \<Rightarrow> string list \<Rightarrow> CommandExecutionResult \<Rightarrow> string result" where
  "answer_failure expected allowed r = (case parse_command_json_result r of
     Inl (ValueError failure) \<Rightarrow> Inr failure | Inl e \<Rightarrow> Inl e | Inr payload \<Rightarrow> Inr (payload_failure expected allowed payload))"

definition answer_document :: "CommandExecutionResult \<Rightarrow> dict option" where
  "answer_document r = (case parse_command_json_result r of Inr d \<Rightarrow> Some d | Inl _ \<Rightarrow> None)"

definition step_of :: "dict \<Rightarrow> CommandExecutionResult \<Rightarrow> bool" where
  "step_of step r \<longleftrightarrow> dget step ''result'' = (case answer_document r of Some d \<Rightarrow> PDict d | None \<Rightarrow> PNone)"

lemma run_json_step_emits:
  "emits (run_json_step (logged ad) timeout expected allowed name argv)
     (\<lambda>y n. \<exists>r. n = [Ran argv r] \<and> answer_failure expected allowed r = Inr (snd y) \<and> step_of (fst y) r)
     (\<lambda>n. n = [] \<or> (\<exists>r. n = [Ran argv r]))"
  unfolding run_json_step_def
proof (rule emits_bind[OF emits_run_command])
  fix r n
  assume n: "n = [Ran argv r]"
  show "emits (case parse_command_json_result r of
       Inl (ValueError failure_status) \<Rightarrow> pret (build_execution_step_result name argv r None failure_status, failure_status)
     | Inl e \<Rightarrow> pfail e
     | Inr payload \<Rightarrow> pret (let failure_status = payload_failure expected allowed payload in
         (build_execution_step_result name argv r (Some payload) failure_status, failure_status)))
    (\<lambda>y b. \<exists>r. n @ b = [Ran argv r] \<and> answer_failure expected allowed r = Inr (snd y) \<and> step_of (fst y) r)
    (\<lambda>b. n @ b = [] \<or> (\<exists>r. n @ b = [Ran argv r]))"
  proof (cases "parse_command_json_result r")
    case (Inl e)
    then show ?thesis
      by (cases e) (auto simp: n answer_failure_def step_of_def answer_document_def build_execution_step_result_def
        intro!: emits_pret emits_pfail)
  next
    case (Inr d)
    then show ?thesis
      by (auto simp: n answer_failure_def step_of_def answer_document_def build_execution_step_result_def Let_def
        intro!: emits_pret)
  qed
qed auto

section \<open>The specification: how a run can go\<close>

text \<open>
  The ways a leased run can go, as the calls it makes and the failure it ends with: \<open>argv\<close> are the
  command lines of the plan, \<open>W\<close> the ways of the work between acquisition and release.
\<close>

definition leases_in :: "CommandExecutionResult \<Rightarrow> pyval list" where
  "leases_in r = (case answer_document r of None \<Rightarrow> []
     | Some d \<Rightarrow> (case first_some leases_of (reply_payloads d) of Some xs \<Rightarrow> xs | None \<Rightarrow> []))"

definition leases_failure :: "CommandExecutionResult \<Rightarrow> string result" where
  "leases_failure r = ebind (answer_failure None [] r) (\<lambda>f.
     Inr (if f = [] \<and> leases_in r \<noteq> [] then ''cleanup_leases_not_empty'' else f))"

inductive gate_trace ::
    "(nat \<Rightarrow> string list) \<Rightarrow> string list \<Rightarrow> (event list \<Rightarrow> failure \<Rightarrow> bool) \<Rightarrow> event list \<Rightarrow> failure \<Rightarrow> bool"
  for argv allowed W where
  preflight_failed: "answer_failure (Some ''ready'') [] r0 = Inr f \<Longrightarrow> f \<noteq> [] \<Longrightarrow>
     gate_trace argv allowed W [Ran (argv 0) r0] (''preflight'', f)"
| lease_refused: "answer_failure (Some ''ready'') [] r0 = Inr [] \<Longrightarrow> answer_failure None [] r2 = Inr f \<Longrightarrow> f \<noteq> [] \<Longrightarrow>
     gate_trace argv allowed W [Ran (argv 0) r0, Ran (argv 2) r2] (''lease_acquire_activate'', f)"
| leased: "answer_failure (Some ''ready'') [] r0 = Inr [] \<Longrightarrow> answer_failure None [] r2 = Inr [] \<Longrightarrow> W ws f \<Longrightarrow>
     answer_failure None allowed r9 = Inr f9 \<Longrightarrow> leases_failure r10 = Inr f10 \<Longrightarrow>
     gate_trace argv allowed W ([Ran (argv 0) r0, Ran (argv 2) r2] @ ws @ [Ran (argv 9) r9, Ran (argv 10) r10])
       (or_failure (or_failure f ''lease_release_activate'' f9) ''query_leases'' f10)"

inductive verify_trace :: "(nat \<Rightarrow> string list) \<Rightarrow> (event list \<Rightarrow> failure \<Rightarrow> bool) \<Rightarrow> event list \<Rightarrow> failure \<Rightarrow> bool"
  for argv N where
  prepare_failed: "answer_failure None [] r3 = Inr f \<Longrightarrow> f \<noteq> [] \<Longrightarrow> verify_trace argv N [Ran (argv 3) r3] (''deploy_prepare'', f)"
| verify_failed: "answer_failure None [] r3 = Inr [] \<Longrightarrow> answer_failure None [] r4 = Inr f \<Longrightarrow> f \<noteq> [] \<Longrightarrow>
     verify_trace argv N [Ran (argv 3) r3, Ran (argv 4) r4] (''deploy_verify'', f)"
| verified: "answer_failure None [] r3 = Inr [] \<Longrightarrow> answer_failure None [] r4 = Inr [] \<Longrightarrow> N ns f \<Longrightarrow>
     verify_trace argv N ([Ran (argv 3) r3, Ran (argv 4) r4] @ ns) f"

definition app_runs :: "string \<Rightarrow> CommandExecutionResult \<Rightarrow> bool" where
  "app_runs app_id r = (case answer_document r of None \<Rightarrow> False
     | Some d \<Rightarrow> dget (extract_query_apps_target_state d app_id) ''app_running'' = PBool True)"

inductive activate_trace :: "(nat \<Rightarrow> string list) \<Rightarrow> string \<Rightarrow> event list \<Rightarrow> failure \<Rightarrow> bool"
  for argv app_id where
  activate_failed: "answer_failure None [] r6 = Inr f \<Longrightarrow> f \<noteq> [] \<Longrightarrow>
     activate_trace argv app_id [Ran (argv 6) r6] (''deploy_activate'', f)"
| unhealthy: "answer_failure None [] r6 = Inr [] \<Longrightarrow> health_failure_of guard = Inr (Some health, f) \<Longrightarrow> f \<noteq> [] \<Longrightarrow>
     activate_trace argv app_id [Ran (argv 6) r6, Used ''system_activation_health_guard'' gargs guard,
       Used ''system_query_leases'' largs leases] (''activation_health_guard'', f)"
| not_running: "answer_failure None [] r6 = Inr [] \<Longrightarrow> health_failure_of guard = Inr (h, []) \<Longrightarrow>
     answer_failure None [] r8 = Inr f8 \<Longrightarrow>
     f = (if f8 = [] \<and> \<not> app_runs app_id r8 then ''app_not_running_after_activate'' else f8) \<Longrightarrow> f \<noteq> [] \<Longrightarrow>
     activate_trace argv app_id [Ran (argv 6) r6, Used ''system_activation_health_guard'' gargs guard, Ran (argv 8) r8] (''query_apps'', f)"
| active: "answer_failure None [] r6 = Inr [] \<Longrightarrow> health_failure_of guard = Inr (h, []) \<Longrightarrow>
     answer_failure None [] r8 = Inr [] \<Longrightarrow> app_runs app_id r8 \<Longrightarrow>
     activate_trace argv app_id [Ran (argv 6) r6, Used ''system_activation_health_guard'' gargs guard, Ran (argv 8) r8] no_failure"


section \<open>Runs follow the specification\<close>

abbreviation returns :: "(('a \<times> event list) \<times> env, 'x) prog \<Rightarrow> ('x \<Rightarrow> event list \<Rightarrow> bool) \<Rightarrow> bool" where
  "returns m Q \<equiv> emits m Q (\<lambda>_. True)"

lemma step_returns:
  "returns (run_json_step (logged ad) timeout expected allowed name argv)
     (\<lambda>y n. \<exists>r. n = [Ran argv r] \<and> answer_failure expected allowed r = Inr (snd y) \<and> step_of (fst y) r)"
  by (rule emits_weaken[OF run_json_step_emits]) auto

lemma returns_step_bind:
  assumes "\<And>step failure r. answer_failure expected allowed r = Inr failure \<Longrightarrow> step_of step r \<Longrightarrow>
    returns (f (step, failure)) (\<lambda>y b. Q y (Ran argv r # b))"
  shows "returns (pbind (run_json_step (logged ad) timeout expected allowed name argv) f) Q"
  by (rule emits_bind[OF step_returns]) (use assms in auto)

lemma returns_tool_bind:
  assumes "\<And>r. returns (f r) (\<lambda>y b. Q y (Used t args r # b))"
  shows "returns (pbind (run_tool (logged ad) t args) f) Q"
  by (rule emits_bind[OF emits_run_tool]) (use assms in auto)

lemma returns_lift_bind:
  assumes "\<And>x. r = Inr x \<Longrightarrow> returns (f x) Q"
  shows "returns (pbind (plift r) f) Q"
  using assms by (cases r) (auto intro: emits_pfail)

lemma returns_if:
  "(b \<Longrightarrow> returns m Q) \<Longrightarrow> (\<not> b \<Longrightarrow> returns m' Q) \<Longrightarrow> returns (if b then m else m') Q"
  by simp

lemma returns_pret: "Q x [] \<Longrightarrow> returns (pret x) Q"
  by (rule emits_pret)

lemma step_leases: "step_of step r \<Longrightarrow> observed_leases step = leases_in r"
  by (auto simp: observed_leases_def leases_in_def step_of_def split: option.split)

definition cleanup_trace :: "(nat \<Rightarrow> string list) \<Rightarrow> string list \<Rightarrow> event list \<Rightarrow> failure \<Rightarrow> failure \<Rightarrow> bool" where
  "cleanup_trace argv allowed n f f' \<longleftrightarrow> (\<exists>r9 f9 r10 f10. n = [Ran (argv 9) r9, Ran (argv 10) r10]
     \<and> answer_failure None allowed r9 = Inr f9 \<and> leases_failure r10 = Inr f10
     \<and> f' = or_failure (or_failure f ''lease_release_activate'' f9) ''query_leases'' f10)"

lemma cleanup_returns:
  "returns (cleanup_lease (logged ad) timeout allowed plan (execution, failure))
    (\<lambda>y n. cleanup_trace (step_argv plan) allowed n failure (snd y))"
  unfolding cleanup_lease_def prod.case
proof (rule returns_step_bind, unfold prod.case, rule returns_step_bind, unfold prod.case Let_def, rule returns_pret, goal_cases)
  case (1 _ f9 r9 leases_step f r10)
  then have "leases_failure r10 = Inr (if f = [] \<and> observed_leases leases_step \<noteq> [] then ''cleanup_leases_not_empty'' else f)"
    by (simp add: leases_failure_def step_leases)
  with 1 show ?case by (auto simp: cleanup_trace_def)
qed

lemma prepare_then_verify_returns:
  assumes "\<And>execution. returns (next_step execution) (\<lambda>y n. N n (fst (snd y)))"
  shows "returns (prepare_then_verify (logged ad) timeout plan execution next_step nothing)
    (\<lambda>y n. verify_trace (step_argv plan) N n (fst (snd y)))"
  unfolding prepare_then_verify_def
proof (rule returns_step_bind, unfold prod.case Let_def, rule returns_if, goal_cases)
  case (1 step f3 r3)
  then show ?case by (intro returns_pret) (auto intro: verify_trace.prepare_failed)
next
  case (2 step f3 r3)
  note prepared = 2
  show ?case
  proof (rule returns_step_bind, unfold prod.case, rule returns_if, goal_cases)
    case (1 step' f4 r4)
    with prepared show ?case by (intro returns_pret) (auto intro: verify_trace.verify_failed)
  next
    case (2 step' f4 r4)
    with prepared have fine: "answer_failure None [] r3 = Inr []" "answer_failure None [] r4 = Inr []" by auto
    show ?case
      by (rule emits_weaken[OF assms]) (use verify_trace.verified[OF fine, of N _ _ "step_argv plan"] in simp_all)
  qed
qed

fun failure_of :: "(dict \<times> string) + (dict \<times> failure \<times> 'x) \<Rightarrow> failure" where
  "failure_of (Inl (_, f)) = (''preflight'', f)"
| "failure_of (Inr (_, f, _)) = f"

lemma leased_run_returns:
  assumes "\<And>execution. returns (work execution) (\<lambda>y n. W n (fst (snd y)))"
  shows "returns (leased_run (logged ad) timeout allowed plan execution work nothing)
    (\<lambda>y n. gate_trace (step_argv plan) allowed W n (failure_of y) \<and> (\<forall>execution f. y = Inl (execution, f) \<longrightarrow> f \<noteq> []))"
  unfolding leased_run_def
proof (rule returns_step_bind, unfold prod.case Let_def, rule returns_if, goal_cases)
  case (1 step f0 r0)
  then show ?case by (intro returns_pret) (auto intro: gate_trace.preflight_failed)
next
  case (2 step f0 r0)
  note ready = 2
  show ?case
  proof (rule returns_step_bind, unfold prod.case, rule returns_if, goal_cases)
    case (1 step' f2 r2)
    with ready show ?case by (intro returns_pret) (auto intro: gate_trace.lease_refused)
  next
    case (2 step' f2 r2)
    note held = 2
    show ?case
    proof (rule emits_bind[OF assms], goal_cases)
      case (1 y ws)
      obtain execution' f x where y: "y = (execution', f, x)" by (cases y)
      show ?case
        unfolding y prod.case
      proof (rule emits_bind[OF cleanup_returns], goal_cases)
        case (1 z ns)
        then obtain f' execution'' where z: "z = (execution'', f')" and c: "cleanup_trace (step_argv plan) allowed ns f f'"
          by (cases z) auto
        from c obtain r9 f9 r10 f10 where ns: "ns = [Ran (step_argv plan 9) r9, Ran (step_argv plan 10) r10]"
          and a: "answer_failure None allowed r9 = Inr f9" "leases_failure r10 = Inr f10"
          and f': "f' = or_failure (or_failure f ''lease_release_activate'' f9) ''query_leases'' f10"
          unfolding cleanup_trace_def by blast
        from ready held \<open>W ws (fst (snd y))\<close> a
        have "gate_trace (step_argv plan) allowed W ([Ran (step_argv plan 0) r0, Ran (step_argv plan 2) r2] @ ws @ ns) f'"
          unfolding ns f' y by (intro gate_trace.leased) auto
        then show ?case unfolding z prod.case by (intro emits_pret) (simp add: y)
      qed simp
    qed simp
  qed
qed

lemma parse_failure_text: "parse_command_json_result r \<noteq> Inl (ValueError [])"
proof -
  have "first_document cs \<noteq> Inl (ValueError x)" for cs x
    by (induction cs rule: first_document.induct) (auto split: sum.splits py_error.splits)
  then show ?thesis
    unfolding parse_command_json_result_def Let_def ebind_def
    by (simp del: first_document.simps split: sum.split pyval.split) blast
qed

lemma fine_has_document: "answer_failure expected allowed r = Inr [] \<Longrightarrow> \<exists>d. answer_document r = Some d"
  using parse_failure_text[of r]
  by (auto simp: answer_failure_def answer_document_def split: sum.splits py_error.splits)

lemma check_running_returns:
  assumes "answer_failure None [] r6 = Inr []" and "health_failure_of guard = Inr (h, [])"
  shows "returns (check_running (logged ad) timeout app_id plan execution)
    (\<lambda>y n. activate_trace (step_argv plan) app_id
       ([Ran (step_argv plan 6) r6, Used ''system_activation_health_guard'' gargs guard] @ n) (fst (snd y)))"
  unfolding check_running_def
proof (rule returns_step_bind, unfold prod.case, goal_cases)
  case (1 step f8 r8)
  let ?f = "if f8 = [] \<and> \<not> app_runs app_id r8 then ''app_not_running_after_activate'' else f8"
  let ?r = "case dget step ''result'' of
           PDict payload \<Rightarrow>
             let state = extract_query_apps_target_state payload app_id;
                 step = dset (dset step ''observed_app_state'' (PStr (py_str (dget state ''observed_app_state''))))
                   ''app_present'' (PBool (truthy (dget state ''app_present''))) in
             if f8 = [] \<and> \<not> truthy (dget state ''app_running'')
             then (mark_failed step ''app_not_running_after_activate'', ''app_not_running_after_activate'')
             else (step, f8)
         | _ \<Rightarrow> (step, f8)"
  have runs: "truthy (dget (extract_query_apps_target_state d app_id) ''app_running'')
      = (dget (extract_query_apps_target_state d app_id) ''app_running'' = PBool True)" for d
    by (simp add: extract_query_apps_target_state_def target_state_def Let_def split: option.split)
  have "snd ?r = ?f"
  proof (cases "answer_document r8")
    case None
    with 1 fine_has_document[of None "[]" r8] show ?thesis by (auto simp: step_of_def app_runs_def)
  next
    case (Some d)
    with 1 show ?thesis by (simp add: step_of_def app_runs_def runs Let_def)
  qed
  then obtain step' where r: "?r = (step', ?f)" by (cases ?r) auto
  show ?case
    unfolding r unfolding Let_def prod.case
  proof (rule returns_if, goal_cases)
    case a: 1
    show ?case
      by (rule returns_pret) (use activate_trace.not_running[OF assms 1(1) refl] a in simp)
  next
    case a: 2
    then have "f8 = []" "app_runs app_id r8" by (auto split: if_splits)
    with activate_trace.active[OF assms, of r8] 1(1) show ?case by (intro returns_pret) simp
  qed
qed

lemma unhealthy_returns:
  assumes "answer_failure None [] r6 = Inr []" and "health_failure_of guard = Inr (h, f)" and "f \<noteq> []"
  shows "returns (recovery_of_unhealthy (logged ad) app_id artifact_admission h f execution)
    (\<lambda>y n. activate_trace (step_argv plan) app_id
       ([Ran (step_argv plan 6) r6, Used ''system_activation_health_guard'' gargs guard] @ n) (fst (snd y)))"
  unfolding recovery_of_unhealthy_def
proof (rule returns_tool_bind, unfold Let_def, cases h, goal_cases)
  case (1 leases)
  then show ?case by (simp add: emits_pfail)
next
  case (2 leases health)
  note trace = activate_trace.unhealthy[OF assms(1) assms(2)[unfolded 2] assms(3)]
  have quiet: "returns (if f = ''rollback_required'' then pbind (build_guarded_rollback_approval (logged ad) s) (\<lambda>a. pret (Some a))
      else pret None) (\<lambda>_ n. n = [])" for s
    unfolding build_guarded_rollback_approval_def
    by (rule returns_if, rule emits_bind[where ?Q1.0 = "\<lambda>_ n. n = []"], rule emits_bind[where ?Q1.0 = "\<lambda>_ n. n = []"])
      (auto simp: logged_def Let_def split: option.split intro!: emits_silent[THEN emits_weaken] emits_pret returns_lift_bind)
  show ?case
    unfolding 2 option.case
    by (rule returns_lift_bind)+ (rule emits_bind[OF quiet], auto intro!: emits_pret trace)
qed

lemma activate_and_check_returns:
  "returns (activate_and_check (logged ad) timeout app_id artifact_admission plan execution)
    (\<lambda>y n. activate_trace (step_argv plan) app_id n (fst (snd y)))"
  unfolding activate_and_check_def
proof (rule returns_step_bind, unfold prod.case Let_def, rule returns_if, goal_cases)
  case (1 step f6 r6)
  then show ?case by (intro returns_pret) (auto intro: activate_trace.activate_failed)
next
  case (2 step f6 r6)
  then have fine: "answer_failure None [] r6 = Inr []" by simp
  show ?case
  proof (rule returns_tool_bind, rule returns_lift_bind, goal_cases)
    case (1 guard y)
    obtain h f where y: "y = (h, f)" by (cases y)
    show ?case
      unfolding y prod.case
    proof (rule returns_if, goal_cases)
      case 1
      with unhealthy_returns[OF fine, of guard h f ad app_id artifact_admission] \<open>health_failure_of guard = Inr y\<close> y
      show ?case by simp
    next
      case 2
      with check_running_returns[OF fine, of guard h ad timeout app_id plan] \<open>health_failure_of guard = Inr y\<close> y
      show ?case by simp
    qed
  qed
qed

text \<open>What a reply says of the failure of the run.\<close>

definition reports :: "dict \<Rightarrow> failure \<Rightarrow> bool" where
  "reports reply f \<longleftrightarrow> (if snd f = [] then dget reply ''ok'' = PBool True \<and> dget reply ''status'' = PStr ''ok''
     else dget reply ''ok'' = PBool False \<and> dget reply ''status'' = PStr ''error''
       \<and> dget reply ''failed_step'' = PStr (fst f) \<and> dget reply ''failure_status'' = PStr (snd f))"

lemma reports_simps [simp]:
  "snd f \<noteq> [] \<Longrightarrow> reports (failed_reply c k f @ d) f"
  "snd f = [] \<Longrightarrow> reports (ok_reply c @ d) f"
  by (simp_all add: reports_def failed_reply_def ok_reply_def)

definition verified_only :: "event list \<Rightarrow> failure \<Rightarrow> bool" where
  "verified_only n f \<longleftrightarrow> n = [] \<and> f = no_failure"

abbreviation planned :: "dict \<Rightarrow> nat \<Rightarrow> string list" where
  "planned deploy_payload \<equiv> step_argv (plan_of deploy_payload ''deploy_plan'')"

lemma prepare_verify_returns:
  "returns (run_app_deploy_prepare_verify fs python (logged ad) r timeout)
    (\<lambda>reply n. \<exists>p f. build_app_deploy_plan fs python (r\<lparr>dr_start_args := None\<rparr>) = Inr p
       \<and> gate_trace (planned p) [] (verify_trace (planned p) verified_only) n f \<and> reports reply f)"
  unfolding run_app_deploy_prepare_verify_def
proof (rule returns_lift_bind, unfold Let_def, goal_cases)
  case (1 p)
  show ?case
  proof (rule emits_bind[OF leased_run_returns[OF prepare_then_verify_returns[where N=verified_only]]], goal_cases)
    case (1 execution execution')
    then show ?case by (intro returns_pret) (simp add: verified_only_def)
  next
    case (2 y n)
    show ?case
      by (rule emits_weaken[where Q' = "\<lambda>reply b. b = [] \<and> reports reply (failure_of y)"])
        (use 1 2 in \<open>(cases y; auto intro!: emits_pret split: prod.splits), auto, cases "failure_of y", auto\<close>)
  qed simp
qed

lemma activate_returns:
  "returns (run_app_deploy_activate fs python (logged ad) r timeout decision note)
    (\<lambda>reply n. \<exists>p d. build_app_deploy_plan fs python r = Inr p \<and> normalize_activation_approval_decision decision = Inr d
       \<and> (if d = ''approved''
          then \<exists>f. gate_trace (planned p) [''lease_not_found''] (verify_trace (planned p)
              (activate_trace (planned p) (br_app_id r))) n f \<and> reports reply f
          else n = [] \<and> dget reply ''ok'' = PBool False \<and> dget reply ''status'' = PStr (decision_status d)))"
  unfolding run_app_deploy_activate_def
proof (rule returns_lift_bind, rule returns_lift_bind, unfold Let_def, rule returns_if, goal_cases)
  case (1 d p)
  then show ?case by (intro returns_pret) (simp add: gate_reply_def)
next
  case (2 d p)
  show ?case
  proof (rule emits_bind[OF leased_run_returns[OF prepare_then_verify_returns[OF activate_and_check_returns]]], goal_cases)
    case (1 y n)
    show ?case
      by (rule emits_weaken[where Q' = "\<lambda>reply b. b = [] \<and> reports reply (failure_of y)"])
        (use 1 2 in \<open>(cases y; auto intro!: emits_pret split: prod.splits), auto, cases "failure_of y", auto\<close>)
  qed simp
qed

section \<open>What precedes an activation\<close>

text \<open>
  \<open>before c P l\<close>: at every call of the command line \<open>c\<close> in the log, \<open>P\<close> holds of the calls before it.
  Unlike a trace it also speaks of the runs that raise.
\<close>

definition before :: "string list \<Rightarrow> (event list \<Rightarrow> bool) \<Rightarrow> event list \<Rightarrow> bool" where
  "before c P l \<longleftrightarrow> (\<forall>pre r post. l = pre @ Ran c r # post \<longrightarrow> P pre)"

lemma before_simps [simp]:
  "before c P []"
  "before c P (Ran c r # l) \<longleftrightarrow> P [] \<and> before c (\<lambda>p. P (Ran c r # p)) l"
  "before c P (Used t args u # l) \<longleftrightarrow> before c (\<lambda>p. P (Used t args u # p)) l"
  by (auto simp: before_def Cons_eq_append_conv)

lemma before_other [simp]: "c' \<noteq> c \<Longrightarrow> before c P (Ran c' r # l) \<longleftrightarrow> before c (\<lambda>p. P (Ran c' r # p)) l"
  by (auto simp: before_def Cons_eq_append_conv)

lemma before_mono: "before c P l \<Longrightarrow> (\<And>p. P p \<Longrightarrow> Q p) \<Longrightarrow> before c Q l"
  by (auto simp: before_def)

definition guarded :: "string list \<Rightarrow> (event list \<Rightarrow> bool) \<Rightarrow> (('a \<times> event list) \<times> env, 'x) prog \<Rightarrow> bool" where
  "guarded c P m \<longleftrightarrow> emits m (\<lambda>_. before c P) (before c P)"

lemma guarded_mono: "guarded c P m \<Longrightarrow> (\<And>p. P p \<Longrightarrow> Q p) \<Longrightarrow> guarded c Q m"
  unfolding guarded_def by (erule emits_weaken) (auto intro: before_mono)

lemma guarded_basic:
  "guarded c P (pret x)" "guarded c P (pfail e)" "guarded c P (plift r)" "guarded c P (pupdate (silent f))"
  unfolding guarded_def by (auto intro: emits_pret emits_pfail emits_plift emits_weaken[OF emits_silent])

lemma before_never: "before c (\<lambda>_. False) l \<longleftrightarrow> (\<forall>r. Ran c r \<notin> set l)"
  unfolding before_def by (metis in_set_conv_decomp)

lemma guarded_bind:
  assumes "guarded c (\<lambda>_. False) m" and "\<And>x. guarded c (\<lambda>_. False) (f x)"
  shows "guarded c (\<lambda>_. False) (pbind m f)"
  unfolding guarded_def
proof (rule emits_bind[OF assms(1)[unfolded guarded_def]], goal_cases)
  case (1 x a)
  show ?case
    by (rule emits_weaken[OF assms(2)[of x, unfolded guarded_def]]) (use 1 in \<open>auto simp: before_never\<close>)
qed

lemma guarded_step:
  assumes "c' \<noteq> c"
    and "\<And>step f r. answer_failure expected allowed r = Inr f \<Longrightarrow> guarded c (\<lambda>p. P (Ran c' r # p)) (k (step, f))"
  shows "guarded c P (pbind (run_json_step (logged ad) timeout expected allowed name c') k)"
  unfolding guarded_def
  by (rule emits_bind[OF run_json_step_emits]) (use assms in \<open>auto simp: guarded_def\<close>)

lemma guarded_activation:
  assumes "P []" and "\<And>y. guarded c (\<lambda>_. False) (k y)"
  shows "guarded c P (pbind (run_json_step (logged ad) timeout expected allowed name c) k)"
  unfolding guarded_def
proof (rule emits_bind[OF run_json_step_emits], goal_cases)
  case (1 y a)
  then obtain r where a: "a = [Ran c r]" by blast
  from guarded_mono[OF assms(2)[of y], of "\<lambda>p. P (Ran c r # p)"]
  show ?case unfolding a guarded_def by (rule emits_weaken) (use assms(1) in simp_all)
qed (use assms(1) in auto)

lemma guarded_tool:
  "(\<And>r. guarded c (\<lambda>p. P (Used t args r # p)) (k r)) \<Longrightarrow> guarded c P (pbind (run_tool (logged ad) t args) k)"
  unfolding guarded_def by (rule emits_bind[OF emits_run_tool]) auto

lemma guarded_lift: "(\<And>x. r = Inr x \<Longrightarrow> guarded c P (k x)) \<Longrightarrow> guarded c P (pbind (plift r) k)"
  by (cases r) (auto intro: guarded_basic)

lemma guarded_if: "(b \<Longrightarrow> guarded c P m) \<Longrightarrow> (\<not> b \<Longrightarrow> guarded c P m') \<Longrightarrow> guarded c P (if b then m else m')"
  by simp


text \<open>The plan's command line of the activation is that of no other step.\<close>

lemma step_argv_nth:
  "dget plan ''steps'' = PList (map PDict steps) \<Longrightarrow> i < length steps \<Longrightarrow> dget (steps ! i) ''argv'' = ptexts argv \<Longrightarrow>
     step_argv plan i = argv"
  by (simp add: step_argv_def comp_def)

lemma planned_argv:
  fixes python node agent board app file' :: string and ttl :: int and start :: string
  defines "plan \<equiv> deploy_plan_document python node agent board app file' ttl start"
    and "cli \<equiv> cli_prefix python node agent" and "lease \<equiv> suggest_activation_lease_id app"
  shows "step_argv plan 0 = preflight_command node file'"
    "step_argv plan 2 = cli @ [''lease'', ''acquire'', ''--resource'', activation_resource app, ''--lease-id'', lease, ''--ttl-ms'', dec_int ttl]"
    "step_argv plan 3 = cli @ [''deploy'', ''prepare'', ''--app-id'', app, ''--file'', file']"
    "step_argv plan 4 = cli @ [''deploy'', ''verify'', ''--app-id'', app]"
    "step_argv plan 6 = activate_command cli app lease start"
    "step_argv plan 8 = cli @ [''query'', ''apps'']"
    "step_argv plan 9 = cli @ [''lease'', ''release'', ''--lease-id'', lease]"
    "step_argv plan 10 = cli @ [''query'', ''leases'']"
proof -
  have steps: "dget plan ''steps'' = PList (map PDict (deploy_steps python node agent app file' ttl start))"
    by (simp add: plan_def deploy_plan_document_def)
  note d = deploy_steps_def Let_def step_head_def step_command_def cli_def lease_def
  show "step_argv plan 0 = preflight_command node file'" by (rule step_argv_nth[OF steps]) (simp_all add: d)
  show "step_argv plan 2 = cli @ [''lease'', ''acquire'', ''--resource'', activation_resource app, ''--lease-id'', lease, ''--ttl-ms'', dec_int ttl]"
    by (rule step_argv_nth[OF steps]) (simp_all add: d)
  show "step_argv plan 3 = cli @ [''deploy'', ''prepare'', ''--app-id'', app, ''--file'', file']"
    by (rule step_argv_nth[OF steps]) (simp_all add: d)
  show "step_argv plan 4 = cli @ [''deploy'', ''verify'', ''--app-id'', app]" by (rule step_argv_nth[OF steps]) (simp_all add: d)
  show "step_argv plan 6 = activate_command cli app lease start" by (rule step_argv_nth[OF steps]) (simp_all add: d)
  show "step_argv plan 8 = cli @ [''query'', ''apps'']" by (rule step_argv_nth[OF steps]) (simp_all add: d)
  show "step_argv plan 9 = cli @ [''lease'', ''release'', ''--lease-id'', lease]" by (rule step_argv_nth[OF steps]) (simp_all add: d)
  show "step_argv plan 10 = cli @ [''query'', ''leases'']" by (rule step_argv_nth[OF steps]) (simp_all add: d)
qed

lemma plan_argv:
  assumes "build_app_deploy_plan fs python r = Inr p" and "i \<in> {0, 2, 3, 4, 8, 9, 10}"
  shows "planned p i \<noteq> planned p 6"
proof -
  from assms(1) obtain node agent artifact where
    p: "plan_of p ''deploy_plan'' = deploy_plan_document python node agent (br_board r) (br_app_id r) artifact
       (dr_lease_ttl_ms r) (strip_opt (dr_start_args r))"
    by (auto simp: build_app_deploy_plan_def Let_def plan_of_def split: if_splits)
  have "preflight_command node artifact \<noteq> cli_prefix python node agent @ x" for x
    by (simp add: preflight_command_def cli_prefix_def)
  with assms(2) show ?thesis
    unfolding p by (elim insertE emptyE) (simp_all add: planned_argv activate_command_def)
qed

lemma cleanup_guarded:
  assumes "step_argv plan 9 \<noteq> c" and "step_argv plan 10 \<noteq> c"
  shows "guarded c (\<lambda>_. False) (cleanup_lease (logged ad) timeout allowed plan ef)"
  unfolding cleanup_lease_def
  by (cases ef) (auto intro!: guarded_step guarded_basic assms simp: Let_def)

lemma activate_guarded:
  assumes "step_argv plan 6 = c" and "step_argv plan 8 \<noteq> c" and "P []"
  shows "guarded c P (activate_and_check (logged ad) timeout app_id artifact_admission plan execution)"
proof -
  have approval: "guarded c (\<lambda>_. False) (build_guarded_rollback_approval (logged ad) s)" for s
    unfolding build_guarded_rollback_approval_def
    by (auto intro!: guarded_bind guarded_basic simp: logged_def Let_def split: option.split)
  have recovery: "guarded c (\<lambda>_. False) (recovery_of_unhealthy (logged ad) app_id artifact_admission h f execution)" for h f execution
    unfolding recovery_of_unhealthy_def
    by (auto intro!: guarded_tool guarded_bind guarded_basic approval simp: Let_def split: option.split)
  have running: "guarded c (\<lambda>_. False) (check_running (logged ad) timeout app_id plan execution)" for execution
    unfolding check_running_def
    by (auto intro!: guarded_step guarded_if guarded_basic assms(2) simp: Let_def split: prod.split)
  show ?thesis
    unfolding activate_and_check_def assms(1)
    by (auto intro!: guarded_activation guarded_if guarded_tool guarded_lift guarded_basic assms(3) recovery running
      simp: Let_def split: prod.split)
qed

lemma before_append_never: "before c P a \<Longrightarrow> before c (\<lambda>_. False) b \<Longrightarrow> before c P (a @ b)"
  by (auto simp: before_never before_def append_eq_append_conv2 append_eq_Cons_conv) 

lemma guarded_then:
  assumes "guarded c P m" and "\<And>x. guarded c (\<lambda>_. False) (f x)"
  shows "guarded c P (pbind m f)"
  unfolding guarded_def
proof (rule emits_bind[OF assms(1)[unfolded guarded_def]], goal_cases)
  case (1 x a)
  show ?case
    by (rule emits_weaken[OF assms(2)[of x, unfolded guarded_def]]) (use 1 in \<open>auto intro: before_append_never\<close>)
qed

definition gate_open :: "(nat \<Rightarrow> string list) \<Rightarrow> event list \<Rightarrow> bool" where
  "gate_open argv l \<longleftrightarrow> (\<exists>r0 r2 r3 r4. l = [Ran (argv 0) r0, Ran (argv 2) r2, Ran (argv 3) r3, Ran (argv 4) r4]
     \<and> answer_failure (Some ''ready'') [] r0 = Inr [] \<and> answer_failure None [] r2 = Inr []
     \<and> answer_failure None [] r3 = Inr [] \<and> answer_failure None [] r4 = Inr [])"

lemma leased_guarded:
  assumes c: "step_argv plan 6 = c" and other: "\<And>i. i \<in> {0, 2, 3, 4, 8, 9, 10} \<Longrightarrow> step_argv plan i \<noteq> c"
  shows "guarded c (gate_open (step_argv plan)) (leased_run (logged ad) timeout allowed plan execution (\<lambda>execution.
    prepare_then_verify (logged ad) timeout plan execution
      (activate_and_check (logged ad) timeout app_id artifact_admission plan) None) None)"
  unfolding leased_run_def prepare_then_verify_def Let_def
proof (rule guarded_step, goal_cases)
  case (2 s0 f0 r0)
  note ready = 2
  show ?case
    unfolding prod.case
  proof (rule guarded_if, rule guarded_basic(1), rule guarded_step, goal_cases)
    case (2 s2 f2 r2)
    note held = 2
    show ?case
      unfolding prod.case
    proof (rule guarded_if, rule guarded_basic(1), rule guarded_then, rule guarded_step, goal_cases)
      case (2 s3 f3 r3)
      note prepared = 2
      show ?case
        unfolding prod.case
      proof (rule guarded_if, rule guarded_basic(1), rule guarded_step, goal_cases)
        case (2 s4 f4 r4)
        show ?case
          unfolding prod.case
          by (rule guarded_if, rule guarded_basic(1), rule activate_guarded)
            (use ready held prepared 2 c other in \<open>auto simp: gate_open_def\<close>)
      qed (use other in auto)
    next
      case (3 y)
      then show ?case by (cases y) (auto intro!: guarded_bind guarded_basic cleanup_guarded other)
    qed (use other in auto)
  qed (use other in auto)
qed (use other in auto)

lemma emits_run: "emits m Q E \<Longrightarrow> case m ((a, []), w) of (r, s') \<Rightarrow> (case r of Inr x \<Rightarrow> Q x (log_of s') | Inl _ \<Rightarrow> E (log_of s'))"
proof -
  assume e: "emits m Q E"
  obtain r s' where "m ((a, []), w) = (r, s')" by (cases "m ((a, []), w)")
  with emitsD[OF e this] show ?thesis by (auto split: sum.splits)
qed

text \<open>C7: An app is only activated behind the gate. Whatever the adapter answers, and whether the run returns
  or raises: when the activation command of the plan is run, the decision was an approval, and the calls
  before it are exactly preflight (ready), lease acquisition, prepare and verify, each answered without
  a failure. Without an approval nothing is called at all.\<close>

theorem activation_behind_gate:
  "let l = log_of (snd (run_app_deploy_activate fs python (logged ad) r timeout decision note ((a, []), w))) in
   l = [] \<or> (normalize_activation_approval_decision decision = Inr ''approved''
     \<and> (\<exists>p. build_app_deploy_plan fs python r = Inr p \<and> before (planned p 6) (gate_open (planned p)) l))"
proof -
  let ?ok = "\<lambda>l. l = [] \<or> (normalize_activation_approval_decision decision = Inr ''approved''
     \<and> (\<exists>p. build_app_deploy_plan fs python r = Inr p \<and> before (planned p 6) (gate_open (planned p)) l))"
  have "emits (run_app_deploy_activate fs python (logged ad) r timeout decision note) (\<lambda>_. ?ok) ?ok"
  proof (cases "normalize_activation_approval_decision decision")
    case (Inl e)
    then show ?thesis by (simp add: run_app_deploy_activate_def emits_pfail)
  next
    case d: (Inr d)
    show ?thesis
    proof (cases "build_app_deploy_plan fs python r")
      case (Inl e)
      with d show ?thesis by (simp add: run_app_deploy_activate_def emits_pfail)
    next
      case (Inr p)
      let ?run = "\<lambda>execution. leased_run (logged ad) timeout [''lease_not_found''] (plan_of p ''deploy_plan'') execution
        (\<lambda>execution. prepare_then_verify (logged ad) timeout (plan_of p ''deploy_plan'') execution
          (activate_and_check (logged ad) timeout (br_app_id r) (plan_of p ''artifact_admission'') (plan_of p ''deploy_plan'')) None) None"
      have "guarded (planned p 6) (gate_open (planned p)) (?run execution)" for execution
        by (rule leased_guarded) (use plan_argv[OF Inr] in auto)
      then have run: "emits (?run execution) (\<lambda>_. before (planned p 6) (gate_open (planned p)))
          (before (planned p 6) (gate_open (planned p)))" for execution by (simp add: guarded_def)
      show ?thesis
      proof (cases "d = ''approved''")
        case True
        show ?thesis
          unfolding run_app_deploy_activate_def d Inr pbind_simps Let_def
          by (simp only: True simp_thms if_False, rule emits_bind[OF run])
            (use d True Inr in \<open>auto intro!: emits_pret split: sum.split prod.split\<close>)
      next
        case False
        then show ?thesis by (simp add: run_app_deploy_activate_def d Inr emits_pret)
      qed
    qed
  qed
  from emits_run[OF this, of a w] show ?thesis
    by (cases "run_app_deploy_activate fs python (logged ad) r timeout decision note ((a, []), w)")
      (auto simp: Let_def split: sum.splits)
qed

text \<open>C8: The two leased runs refine their specification. A run that returns made the calls of one of the ways
  \<open>gate_trace\<close> lists (preflight, lease, prepare, verify, for an approved activation also activation,
  health guard and observation, and after every acquired lease its release and the query of leases), and
  its reply reports the failure of that way: the first one, ok only when there is none. An activation
  that is not approved calls nothing.\<close>

theorem leased_runs_refine:
  "(case run_app_deploy_prepare_verify fs python (logged ad) r timeout ((a, []), w) of
      (Inl e, s') \<Rightarrow> True
    | (Inr reply, s') \<Rightarrow> \<exists>p f. build_app_deploy_plan fs python (r\<lparr>dr_start_args := None\<rparr>) = Inr p
        \<and> gate_trace (planned p) [] (verify_trace (planned p) verified_only) (log_of s') f \<and> reports reply f)
   \<and> (case run_app_deploy_activate fs python (logged ad) r timeout decision note ((a, []), w) of
      (Inl e, s') \<Rightarrow> True
    | (Inr reply, s') \<Rightarrow> \<exists>p d. build_app_deploy_plan fs python r = Inr p \<and> normalize_activation_approval_decision decision = Inr d
        \<and> (if d = ''approved''
           then \<exists>f. gate_trace (planned p) [''lease_not_found''] (verify_trace (planned p)
               (activate_trace (planned p) (br_app_id r))) (log_of s') f \<and> reports reply f
           else log_of s' = [] \<and> dget reply ''ok'' = PBool False \<and> dget reply ''status'' = PStr (decision_status d)))"
  using emits_run[OF prepare_verify_returns[of fs python ad r timeout], of a w]
    emits_run[OF activate_returns[of fs python ad r timeout decision "note"], of a w]
  by (simp split: prod.splits sum.splits)

definition activated :: "dict \<Rightarrow> string \<Rightarrow> event list \<Rightarrow> bool" where
  "activated p app_id l \<longleftrightarrow> (\<exists>r0 r2 r3 r4 r6 gargs guard health r8 r9 r10.
     l = [Ran (planned p 0) r0, Ran (planned p 2) r2, Ran (planned p 3) r3, Ran (planned p 4) r4, Ran (planned p 6) r6,
          Used ''system_activation_health_guard'' gargs guard, Ran (planned p 8) r8, Ran (planned p 9) r9, Ran (planned p 10) r10]
     \<and> answer_failure (Some ''ready'') [] r0 = Inr []
     \<and> list_all (\<lambda>r. answer_failure None [] r = Inr []) [r2, r3, r4, r6, r8]
     \<and> health_failure_of guard = Inr (health, []) \<and> app_runs app_id r8
     \<and> answer_failure None [''lease_not_found''] r9 = Inr [] \<and> leases_failure r10 = Inr [])"

lemma or_failure_none: "snd (or_failure f s x) = [] \<longleftrightarrow> snd f = [] \<and> x = []"
  by (auto simp: or_failure_def)

lemma activated_trace:
  assumes "gate_trace (planned p) [''lease_not_found''] (verify_trace (planned p) (activate_trace (planned p) app_id)) l f"
  shows "snd f = [] \<longleftrightarrow> activated p app_id l"
  using assms
proof cases
  case (leased r0 r2 ws f' r9 f9 r10 f10)
  from leased(5) show ?thesis
  proof cases
    case (verified r3 r4 ns)
    from verified(4) show ?thesis
      by cases (use leased verified in \<open>auto simp: activated_def or_failure_none no_failure_def\<close>)
  qed (use leased in \<open>auto simp: activated_def or_failure_none\<close>)
qed (auto simp: activated_def)

text \<open>C9: An activation is reported ok exactly when it went all the way: preflight ready, lease, prepare,
  verify and activation without a failure, the health guard healthy, the app seen running, the lease
  released (or already gone) and no lease left.\<close>

theorem activation_ok_exact:
  "case run_app_deploy_activate fs python (logged ad) r timeout decision note ((a, []), w) of
      (Inl e, s') \<Rightarrow> True
    | (Inr reply, s') \<Rightarrow> \<exists>p. build_app_deploy_plan fs python r = Inr p
        \<and> (dget reply ''ok'' = PBool True) = activated p (br_app_id r) (log_of s')"
proof -
  let ?ok = "\<lambda>reply l. \<exists>p. build_app_deploy_plan fs python r = Inr p \<and> (dget reply ''ok'' = PBool True) = activated p (br_app_id r) l"
  have "returns (run_app_deploy_activate fs python (logged ad) r timeout decision note) ?ok"
  proof (rule emits_weaken[OF activate_returns], goal_cases)
    case (1 reply l)
    then obtain p d where p: "build_app_deploy_plan fs python r = Inr p"
      and run: "if d = ''approved''
          then \<exists>f. gate_trace (planned p) [''lease_not_found''] (verify_trace (planned p)
              (activate_trace (planned p) (br_app_id r))) l f \<and> reports reply f
          else l = [] \<and> dget reply ''ok'' = PBool False \<and> dget reply ''status'' = PStr (decision_status d)" by blast
    show ?case
    proof (cases "d = ''approved''")
      case True
      with run obtain f where "gate_trace (planned p) [''lease_not_found''] (verify_trace (planned p)
              (activate_trace (planned p) (br_app_id r))) l f" "reports reply f" by auto
      with activated_trace p show ?thesis by (auto simp: reports_def split: if_splits)
    next
      case False
      with run p show ?thesis by (auto simp: activated_def)
    qed
  qed simp
  from emits_run[OF this, of a w] show ?thesis by (simp split: prod.splits sum.splits)
qed

section \<open>A health guard that does not answer\<close>

text \<open>An adapter with one answer for every command and one for every tool.\<close>

definition constant_adapter :: "CommandExecutionResult \<Rightarrow> ToolExecutionResult \<Rightarrow> unit tool_adapter" where
  "constant_adapter answer tool_answer = \<lparr>ta_runner = (\<lambda>argv timeout (a, w). Inr (answer, a, w)),
     ta_execute = (\<lambda>t args (a, w). Inr (tool_answer, a, w)), ta_describe = None\<rparr>"

definition ready_answer :: CommandExecutionResult where
  "ready_answer = \<lparr>cr_exit_code = 0, cr_stdout = ''{'' @ json_str ''status'' @ '':'' @ json_str ''ready'' @ ''}'', cr_stderr = []\<rparr>"

lemma ready_parsed: "parse_command_json_result ready_answer = Inr [(''status'', PStr ''ready'')]"
  by code_simp

lemma ready_fine: "payload_failure (Some ''ready'') allowed [(''status'', PStr ''ready'')] = []"
    "payload_failure None allowed [(''status'', PStr ''ready'')] = []"
  by (simp_all add: payload_failure_def command_payload_failure_status_def first_some_def failing_status_def
    reply_payloads_def)

lemma pbind_run: "m s = (Inr x, s') \<Longrightarrow> pbind m f s = f x s'"
  by (simp add: pbind_def)

lemma ready_step:
  assumes "expected \<in> {None, Some ''ready''}"
  shows "pbind (run_json_step (logged (constant_adapter ready_answer t)) timeout expected allowed name argv) f ((a, l), w)
     = f (build_execution_step_result name argv ready_answer (Some [(''status'', PStr ''ready'')]) [], [])
         ((a, l @ [Ran argv ready_answer]), w)"
  by (rule pbind_run) (use assms in \<open>auto simp: run_json_step_def run_command_def logged_def constant_adapter_def noting_def
    pbind_def pupdate_def ready_parsed ready_fine pret_def Let_def\<close>)

lemma tool_step:
  "pbind (run_tool (logged (constant_adapter c t)) name args) f ((a, l), w) = f t ((a, l @ [Used name args t]), w)"
  by (rule pbind_run) (simp add: run_tool_def logged_def constant_adapter_def noting_def pupdate_def)

lemma unanswered_guard:
  assumes "te_status t \<noteq> ''ok''"
  shows "\<exists>f. health_failure_of t = Inr (None, f) \<and> f \<noteq> []"
  using assms py_str_truthy[of "por (dget (te_payload t) ''failure_status'') (por (PStr (te_status t)) (PStr ''activation_health_failed''))"]
  by (auto simp: health_failure_of_def por_def)

text \<open>C11: A health guard whose tool call fails leaks the lease. When every command is answered well but the health
  guard's tool answers with any status but ok, the approved activation raises UnboundLocalError after
  the app was activated: it makes no rollback candidate, and the lease it acquired is never released.\<close>

theorem unanswered_guard_leaks_lease:
  assumes "build_app_deploy_plan fs python r = Inr p" and "te_status t \<noteq> ''ok''"
  shows "\<exists>s' gargs largs. run_app_deploy_activate fs python (logged (constant_adapter ready_answer t)) r timeout ''approve'' note
      (((), []), w) = (Inl (UnboundLocalError ''activation_health''), s')
    \<and> log_of s' = map (\<lambda>i. Ran (planned p i) ready_answer) [0, 2, 3, 4, 6]
        @ [Used ''system_activation_health_guard'' gargs t, Used ''system_query_leases'' largs t]"
proof -
  have approve: "normalize_activation_approval_decision ''approve'' = Inr ''approved''" by code_simp
  obtain f where h: "health_failure_of t = Inr (None, f)" "f \<noteq> []" using unanswered_guard[OF assms(2)] by blast
  show ?thesis
    by (simp add: run_app_deploy_activate_def approve assms(1) Let_def leased_run_def prepare_then_verify_def
      activate_and_check_def recovery_of_unhealthy_def ready_step tool_step h pbind_assoc pfail_def)
qed

text \<open>The premises hold for a small repository and a guard that answers with an error.\<close>

definition error_answer :: ToolExecutionResult where
  "error_answer = \<lparr>te_tool_result_id = ''tool-1'', te_tool_name = ''system_activation_health_guard'',
     te_status = ''error'', te_payload = []\<rparr>"

theorem unanswered_guard_leaks_lease_witness:
  "\<exists>p s' gargs largs. build_app_deploy_plan sample_files ''python'' default_deploy_request = Inr p
    \<and> run_app_deploy_activate sample_files ''python'' (logged (constant_adapter ready_answer error_answer))
       default_deploy_request 30 ''approve'' [] (((), []), sample_env) = (Inl (UnboundLocalError ''activation_health''), s')
    \<and> log_of s' = map (\<lambda>i. Ran (planned p i) ready_answer) [0, 2, 3, 4, 6]
        @ [Used ''system_activation_health_guard'' gargs error_answer, Used ''system_query_leases'' largs error_answer]"
proof -
  obtain p where p: "build_app_deploy_plan sample_files ''python'' default_deploy_request = Inr p" using sample_plan by blast
  have "te_status error_answer \<noteq> ''ok''" by (simp add: error_answer_def)
  from unanswered_guard_leaks_lease[OF p this, of 30 "[]" sample_env] p show ?thesis by blast
qed

section \<open>Rollback\<close>

text \<open>What the calls of a rollback say: the failure of the rollback, else of the apps, else of the leases.\<close>

definition rollback_app_failure :: "string \<Rightarrow> ToolExecutionResult \<Rightarrow> string \<Rightarrow> bool" where
  "rollback_app_failure app_id r f \<longleftrightarrow> (if tool_execution_failure_status r \<noteq> [] then f = tool_execution_failure_status r
     else \<exists>state. build_rollback_app_state (ToolExecutionResult_to_dict r) app_id = Inr state
       \<and> f = (if truthy (dget state ''app_running'') then ''app_still_running_after_rollback'' else []))"

definition rollback_lease_failure :: "string \<Rightarrow> ToolExecutionResult \<Rightarrow> string \<Rightarrow> bool" where
  "rollback_lease_failure app_id r f \<longleftrightarrow> (if tool_execution_failure_status r \<noteq> [] then f = tool_execution_failure_status r
     else \<exists>held. matching_lease_ids_for_resource (ToolExecutionResult_to_dict r) (rollback_resource app_id) = Inr held
       \<and> f = (if held \<noteq> [] then ''rollback_lease_still_held_after_rollback'' else []))"

definition rollback_args :: "string \<Rightarrow> string \<Rightarrow> string \<Rightarrow> dict" where
  "rollback_args app_id lease_id reason = app_args app_id (if lease_id \<noteq> [] then [(''lease_id'', PStr lease_id)] else []) reason"

inductive rollback_trace :: "string \<Rightarrow> string \<Rightarrow> string \<Rightarrow> event list \<Rightarrow> failure \<Rightarrow> bool" for app_id lease_id reason where
  rollback_failed: "f = tool_execution_failure_status r \<Longrightarrow> f \<noteq> [] \<Longrightarrow>
     rollback_trace app_id lease_id reason [Used ''system_rollback_app''
       (rollback_args app_id lease_id reason) r] (''rollback'', f)"
| rolled_back: "tool_execution_failure_status r = [] \<Longrightarrow> rollback_app_failure app_id apps f8 \<Longrightarrow>
     rollback_lease_failure app_id leases f10 \<Longrightarrow>
     rollback_trace app_id lease_id reason [Used ''system_rollback_app''
         (rollback_args app_id lease_id reason) r,
       Used ''system_query_apps'' (app_args app_id [] ''post_rollback_app_observation'') apps,
       Used ''system_query_leases'' (app_args app_id [] ''post_rollback_lease_observation'') leases]
       (or_failure (or_failure no_failure ''query_apps'' f8) ''query_leases'' f10)"

lemma apps_observed_returns:
  "returns (observe_rolled_back_app (logged ad) app_id)
    (\<lambda>y n. \<exists>r. n = [Used ''system_query_apps'' (app_args app_id [] ''post_rollback_app_observation'') r]
       \<and> rollback_app_failure app_id r (snd y))"
  unfolding observe_rolled_back_app_def
proof (rule returns_tool_bind, unfold Let_def, rule returns_if, goal_cases)
  case (1 r)
  then show ?case by (intro returns_pret) (simp add: rollback_app_failure_def)
next
  case (2 r)
  show ?case
    by (rule returns_lift_bind, rule returns_if; rule returns_pret) (use 2 in \<open>simp_all add: rollback_app_failure_def\<close>)
qed

lemma leases_observed_returns:
  "returns (observe_rollback_leases (logged ad) app_id)
    (\<lambda>y n. \<exists>r. n = [Used ''system_query_leases'' (app_args app_id [] ''post_rollback_lease_observation'') r]
       \<and> rollback_lease_failure app_id r (snd y))"
  unfolding observe_rollback_leases_def
proof (rule returns_tool_bind, unfold Let_def, rule returns_if, goal_cases)
  case (1 r)
  then show ?case by (intro returns_pret) (simp add: rollback_lease_failure_def)
next
  case (2 r)
  show ?case
    by (rule returns_lift_bind, rule returns_if; rule returns_pret) (use 2 in \<open>simp_all add: rollback_lease_failure_def\<close>)
qed

lemma perform_rollback_returns:
  "returns (perform_rollback (logged ad) app_id lease_id reason execution) (\<lambda>y n. rollback_trace app_id lease_id reason n (snd y))"
  unfolding perform_rollback_def rollback_args_def[symmetric]
proof (rule returns_tool_bind, unfold Let_def, rule returns_if, goal_cases)
  case (1 r)
  then show ?case by (intro returns_pret) (auto intro: rollback_trace.rollback_failed)
next
  case (2 r)
  then have fine: "tool_execution_failure_status r = []" by simp
  show ?case
  proof (rule emits_bind[OF apps_observed_returns], goal_cases)
    case (1 y n)
    show ?case
    proof (cases y, hypsubst, unfold prod.case, rule emits_bind[OF leases_observed_returns], goal_cases)
      case (1 step f8 z m)
      with \<open>\<exists>r. n = _ \<and> _\<close> fine show ?case
        by (cases z) (auto intro!: returns_pret rollback_trace.rolled_back)
    qed simp
  qed simp
qed

text \<open>C10: A rollback refines its specification. A rollback that returns was approved or made no call; an approved
  one calls the rollback tool once for the validated app, then, when that went well, observes the apps and
  the leases; its reply is ok exactly when the rollback and both observations went well, the app is not
  running and no rollback lease is held, and reports the first failure otherwise.\<close>

theorem rollback_refines:
  "case run_app_deploy_rollback (logged ad) r ((a, []), w) of
      (Inl e, s') \<Rightarrow> True
    | (Inr reply, s') \<Rightarrow> \<exists>app_id d. validate_app_build_app_id (rb_app_id r) = Inr app_id
        \<and> normalize_activation_approval_decision (rb_decision r) = Inr d
        \<and> (if d = ''approved''
           then \<exists>f. rollback_trace app_id (strip_opt (rb_lease_id r)) (rb_reason r) (log_of s') f \<and> reports reply f
           else log_of s' = [] \<and> dget reply ''ok'' = PBool False \<and> dget reply ''status'' = PStr (decision_status d))"
proof -
  have "returns (run_app_deploy_rollback (logged ad) r) (\<lambda>reply n. \<exists>app_id d. validate_app_build_app_id (rb_app_id r) = Inr app_id
        \<and> normalize_activation_approval_decision (rb_decision r) = Inr d
        \<and> (if d = ''approved''
           then \<exists>f. rollback_trace app_id (strip_opt (rb_lease_id r)) (rb_reason r) n f \<and> reports reply f
           else n = [] \<and> dget reply ''ok'' = PBool False \<and> dget reply ''status'' = PStr (decision_status d)))"
    unfolding run_app_deploy_rollback_def
  proof (intro returns_lift_bind, unfold Let_def, rule returns_if, goal_cases)
    case (1 app_id node agent d)
    then show ?case by (intro returns_pret) (simp add: gate_reply_def)
  next
    case (2 app_id node agent d)
    note start = 2
    show ?case
    proof (rule emits_bind[OF perform_rollback_returns], goal_cases)
      case (1 y n)
      obtain execution step fx where y: "y = (execution, (step, fx))" by (cases y) auto
      show ?case
        by (rule emits_weaken[where Q' = "\<lambda>reply b. b = [] \<and> reports reply (step, fx)"])
          (use 1 start in \<open>auto simp: y intro!: returns_if returns_lift_bind emits_pret\<close>)
    qed simp
  qed
  from emits_run[OF this, of a w] show ?thesis by (simp split: prod.splits sum.splits)
qed

section \<open>Evidence\<close>

abbreviation on_db_store :: "(store \<Rightarrow> bool) \<Rightarrow> db \<Rightarrow> bool" where
  "on_db_store P \<equiv> \<lambda>(s, w). P s"

text \<open>A store with the span \<open>i\<close> written at some status, some facts more, and some audit records more.\<close>

definition evidenced ::
    "store \<Rightarrow> string \<Rightarrow> string \<Rightarrow> (string \<times> string \<times> pyval) list \<Rightarrow> (string \<times> pyval) list \<Rightarrow> store \<Rightarrow> bool" where
  "evidenced s0 i status new_facts new_audits s \<longleftrightarrow> (\<exists>spans fs us.
     s = s0\<lparr>execution_spans := spans, facts := facts s0 @ fs, audit_records := audit_records s0 @ us\<rparr>
     \<and> (\<exists>sp \<in> set spans. sr_execution_span_id sp = i \<and> sr_status sp = status)
     \<and> map (\<lambda>f. (fa_fact_type f, fa_subject f, fa_payload f)) fs = new_facts
     \<and> map (\<lambda>u. (au_status u, au_payload u)) us = new_audits
     \<and> list_all (\<lambda>f. fa_execution_span_id f = i) fs \<and> list_all (\<lambda>u. au_execution_span_id u = i) us)"

definition stored_fact :: "fact_record \<Rightarrow> string \<times> string \<times> pyval" where
  "stored_fact f = (case f of (fact_type, subject, p) \<Rightarrow> (fact_type, subject, json_norm (PDict p)))"

lemma fact_evidenced:
  assumes "evidenced s0 i st fs us s" and "persist_fact (s, w) i t sub p = Inr (x, s', w')"
  shows "evidenced s0 i st (fs @ [stored_fact (t, sub, p)]) us s'"
proof -
  from assms(1) obtain spans fr ur where s: "s = s0\<lparr>execution_spans := spans, facts := facts s0 @ fr, audit_records := audit_records s0 @ ur\<rparr>"
    and o: "\<exists>sp \<in> set spans. sr_execution_span_id sp = i \<and> sr_status sp = st"
      "map (\<lambda>f. (fa_fact_type f, fa_subject f, fa_payload f)) fr = fs" "map (\<lambda>u. (au_status u, au_payload u)) ur = us"
      "list_all (\<lambda>f. fa_execution_span_id f = i) fr" "list_all (\<lambda>u. au_execution_span_id u = i) ur"
    unfolding evidenced_def by blast
  from assms(2) obtain f where s': "s' = s\<lparr>facts := facts s @ [f]\<rparr>"
    and f: "fa_execution_span_id f = i" "fa_fact_type f = t" "fa_subject f = sub" "fa_payload f = json_norm (PDict p)"
    by (auto simp: persist_fact_def insert_row_def Let_def simp del: json_norm.simps split: prod.splits if_splits)
  show ?thesis
    unfolding evidenced_def
    by (rule exI[of _ spans], rule exI[of _ "fr @ [f]"], rule exI[of _ ur])
      (use o f in \<open>simp add: s' s stored_fact_def del: json_norm.simps\<close>)
qed

lemma facts_evidenced:
  "triple (on_db_store (evidenced s0 i st fs us)) (persist_facts i records)
     (\<lambda>_. on_db_store (evidenced s0 i st (fs @ map stored_fact records) us)) (\<lambda>_. True)"
proof (induction records arbitrary: fs)
  case Nil
  then show ?case by (auto intro: triple_pret)
next
  case (Cons r records)
  obtain t sub p where r: "r = (t, sub, p)" by (cases r)
  show ?case
    unfolding r persist_facts.simps
    by (rule triple_bind[OF triple_pupdate]) (use Cons[of "fs @ [stored_fact (t, sub, p)]"] in \<open>auto dest: fact_evidenced\<close>)
qed

lemma audit_evidenced:
  assumes "evidenced s0 i st fs [] s" and "persist_audit_record (s, w) a i au p sid = Inr (s', w')"
  shows "evidenced s0 i st fs [(au, json_norm (PDict p))] s'"
proof -
  from assms(1) obtain spans fr where s: "s = s0\<lparr>execution_spans := spans, facts := facts s0 @ fr, audit_records := audit_records s0\<rparr>"
    and o: "\<exists>sp \<in> set spans. sr_execution_span_id sp = i \<and> sr_status sp = st"
      "map (\<lambda>f. (fa_fact_type f, fa_subject f, fa_payload f)) fr = fs" "list_all (\<lambda>f. fa_execution_span_id f = i) fr"
    unfolding evidenced_def by auto
  from assms(2) obtain u where s': "s' = s\<lparr>audit_records := audit_records s @ [u]\<rparr>"
    and u: "au_execution_span_id u = i" "au_status u = au" "au_payload u = json_norm (PDict p)"
    by (auto simp: persist_audit_record_def insert_row_def Let_def simp del: json_norm.simps split: prod.splits if_splits)
  show ?thesis
    unfolding evidenced_def
    by (rule exI[of _ spans], rule exI[of _ fr], rule exI[of _ "[u]"]) (use o u in \<open>simp add: s' s del: json_norm.simps\<close>)
qed

lemma span_spans:
  assumes "persist_execution_span (s, w) i st p sid = (s', w')"
  shows "\<exists>spans. s' = s\<lparr>execution_spans := spans\<rparr> \<and> (\<exists>sp \<in> set spans. sr_execution_span_id sp = i \<and> sr_status sp = st)"
  using assms by (auto simp: persist_execution_span_def insert_or_replace_def Let_def split: prod.splits)

lemma span_opens:
  assumes "persist_execution_span (s0, w) i st p sid = (s', w')"
  shows "evidenced s0 i st [] [] s'"
proof -
  from span_spans[OF assms] obtain spans where "s' = s0\<lparr>execution_spans := spans\<rparr>"
    "\<exists>sp \<in> set spans. sr_execution_span_id sp = i \<and> sr_status sp = st" by blast
  then show ?thesis unfolding evidenced_def by (intro exI[of _ spans] exI[of _ "[]"]) simp
qed

lemma span_closes:
  assumes "evidenced s0 i st fs us s" and "persist_execution_span (s, w) i st' p sid = (s', w')"
  shows "evidenced s0 i st' fs us s'"
proof -
  from assms(1) obtain spans fr ur where s: "s = s0\<lparr>execution_spans := spans, facts := facts s0 @ fr, audit_records := audit_records s0 @ ur\<rparr>"
    and o: "map (\<lambda>f. (fa_fact_type f, fa_subject f, fa_payload f)) fr = fs" "map (\<lambda>u. (au_status u, au_payload u)) ur = us"
      "list_all (\<lambda>f. fa_execution_span_id f = i) fr" "list_all (\<lambda>u. au_execution_span_id u = i) ur"
    unfolding evidenced_def by blast
  from span_spans[OF assms(2)] obtain spans' where s': "s' = s\<lparr>execution_spans := spans'\<rparr>"
    and sp: "\<exists>sp \<in> set spans'. sr_execution_span_id sp = i \<and> sr_status sp = st'" by blast
  show ?thesis
    unfolding evidenced_def
    by (rule exI[of _ spans'], rule exI[of _ fr], rule exI[of _ ur]) (use o sp in \<open>simp add: s' s\<close>)
qed

definition gate_fact :: "string \<Rightarrow> dict \<Rightarrow> fact_record" where
  "gate_fact command_name payload = (''release_gate_command'', command_name, [(''command'', PStr command_name),
     (''ok'', PBool (truthy (dget_or payload ''ok'' (PBool False)))), (''status'', PStr (str_or (dget payload ''status'') ''unknown''))])"

text \<open>The evidence of a release gate command. Persisting a reply that returns adds, under one new span and
  nothing else: the facts, first the command's own and then the given ones in order; one audit record
  with the reply; and the span closed with the status of the reply (ok when the reply is ok).\<close>

theorem release_gate_evidence:
  "case persist_release_gate_command_result db_path cmd payload records (s, w) of
     (Inl e, _) \<Rightarrow> True
   | (Inr ids, s', w') \<Rightarrow> \<exists>i. dget ids ''execution_span_id'' = PStr i
       \<and> evidenced s i (if truthy (dget_or payload ''ok'' (PBool False)) then ''ok'' else str_or (dget payload ''status'') ''error'')
          (map stored_fact (gate_fact cmd payload # records))
          [(py_str (por (dget payload ''status'') (PStr (if truthy (dget payload ''ok'') then ''ok'' else ''error''))), json_norm (PDict payload))] s'"
proof -
  let ?st = "if truthy (dget_or payload ''ok'' (PBool False)) then ''ok'' else str_or (dget payload ''status'') ''error''"
  let ?fs = "map stored_fact (gate_fact cmd payload # records)"
  let ?au = "(py_str (por (dget payload ''status'') (PStr (if truthy (dget payload ''ok'') then ''ok'' else ''error''))), json_norm (PDict payload))"
  have draw: "triple (on_db_store (\<lambda>s'. s' = s)) (pupdate (\<lambda>(s, w). case new_id p w of (i, w') \<Rightarrow> Inr (i, s, w')))
      (\<lambda>_. on_db_store (\<lambda>s'. s' = s)) (\<lambda>_. True)" for p
    by (rule triple_pupdate) (auto split: prod.splits)
  have "triple (on_db_store (\<lambda>s'. s' = s)) (persist_release_gate_command_result db_path cmd payload records)
      (\<lambda>ids. on_db_store (\<lambda>s'. \<exists>i. dget ids ''execution_span_id'' = PStr i \<and> evidenced s i ?st ?fs [?au] s')) (\<lambda>_. True)"
    unfolding persist_release_gate_command_result_def Let_def
  proof (rule triple_bind[OF draw], rule triple_bind[OF draw], rule triple_bind[OF draw], goal_cases)
    case (1 session i audit)
    show ?case
      apply (rule triple_bind[where R = "\<lambda>_. on_db_store (evidenced s i ''running'' [] [])"])
      subgoal by (rule triple_pupdate) (auto dest: span_opens)
      apply (rule triple_bind[where R = "\<lambda>_. on_db_store (evidenced s i ''running'' ?fs [])"])
      subgoal by (rule triple_weaken[OF facts_evidenced]) (auto simp: gate_fact_def)
      apply (rule triple_bind[where R = "\<lambda>_. on_db_store (evidenced s i ''running'' ?fs [?au])"])
      subgoal by (rule triple_pupdate) (auto dest: audit_evidenced)
      apply (rule triple_bind[where R = "\<lambda>_. on_db_store (evidenced s i ?st ?fs [?au])"])
      subgoal by (rule triple_pupdate) (auto dest: span_closes)
      subgoal by (rule triple_pret) auto
      done
  qed
  from this[unfolded triple_def, rule_format, of "(s, w)"] show ?thesis by (simp split: prod.splits sum.splits)
qed

end
