(* ===== verification/ApprovalRuns.thy ===== *)
theory ApprovalRuns
  imports Gate
begin

text \<open>
  What approval decisions run on the unit. The adapter is given a log of the calls it answered: a decision
  looks at the unit three times (leases, apps, state sync) and, when it resumes the request, runs one tool. A
  call of the adapter that raises has no entry.
\<close>

section \<open>The log of one decision\<close>

definition noting_execute :: "'a adapter \<Rightarrow> ('a \<times> event list) adapter" where
  "noting_execute execute = (\<lambda>t args. noting (Used t args) (execute t args))"

abbreviation world_log :: "('a \<times> event list) world \<Rightarrow> event list" where
  "world_log W \<equiv> snd (snd (snd W))"

definition inspections :: "string list" where
  "inspections = [''system_query_leases'', ''system_query_apps'', ''system_state_sync'']"

definition inspection :: "string \<Rightarrow> event \<Rightarrow> bool" where
  "inspection t e = (case e of Used t' args _ \<Rightarrow> t' = t \<and> args = [(''reason'', PStr ''approval_operator_inspect'')] | _ \<Rightarrow> False)"

definition inspected :: "string list \<Rightarrow> event list \<Rightarrow> bool" where
  "inspected ts n = list_all2 inspection ts n"

text \<open>The log of a decision: its inspections, as far as it came, and a tool it executed after all of them.\<close>

definition executes :: "event list \<Rightarrow> bool" where
  "executes n \<longleftrightarrow> length inspections < length n"

definition decision_log :: "event list \<Rightarrow> bool" where
  "decision_log n \<longleftrightarrow> inspected (take (length n) inspections) (take (length inspections) n) \<and> length n \<le> Suc (length inspections)"

lemma inspected_log:
  assumes "inspected (take k inspections) n"
  shows "decision_log n \<and> \<not> executes n"
proof -
  from assms have len: "length n = length (take k inspections)" by (metis inspected_def list_all2_lengthD)
  then have "take (length n) inspections = take k inspections" by (simp add: min_def)
  moreover have "length n \<le> length inspections" using len by simp
  ultimately show ?thesis using assms by (simp add: decision_log_def executes_def)
qed

lemma executed_log: "inspected inspections pre \<Longrightarrow> decision_log (pre @ [e]) \<and> executes (pre @ [e])"
  using list_all2_lengthD[of inspection inspections pre]
  by (simp add: inspected_def decision_log_def executes_def)

named_theorems quiet \<open>programs that add nothing to the log\<close>

abbreviation silent_prog :: "(('a \<times> event list) world, 'x) prog \<Rightarrow> bool" where
  "silent_prog m \<equiv> adds world_log m (\<lambda>_ n. n = []) (\<lambda>n. n = [])"

lemma quiet_bind: "silent_prog m \<Longrightarrow> (\<And>x. adds world_log (f x) Q E) \<Longrightarrow> E [] \<Longrightarrow> adds world_log (pbind m f) Q E"
  by (rule adds_bind[where ?Q1.0 = "\<lambda>_ n. n = []" and ?E1.0 = "\<lambda>n. n = []"]) auto

lemma on_db_quiet [quiet]: "silent_prog (on_db f)"
  by (auto simp: adds_def on_db_def pupdate_def ebind_def split: sum.splits prod.splits)

lemma write_db_quiet [quiet]: "silent_prog (write_db f)"
  unfolding write_db_def by (rule quiet)

lemma draw_id_quiet [quiet]: "silent_prog (draw_id p)"
  unfolding draw_id_def by (rule quiet)

lemma basic_quiet [quiet]: "silent_prog (pret x)" "silent_prog (pfail e)" "silent_prog (plift r)" "silent_prog (query f)"
  by (auto intro: adds_pret adds_pfail adds_plift adds_pread simp: query_def)

lemma query_ok_quiet [quiet]: "silent_prog (query_ok f)"
  unfolding query_ok_def by (intro quiet_bind quiet) simp_all

lemma bind_quiet: "silent_prog m \<Longrightarrow> (\<And>x. silent_prog (f x)) \<Longrightarrow> silent_prog (pbind m f)"
  by (rule quiet_bind) auto

lemma call_adds: "adds world_log (call_tool (noting_execute execute) t args) (\<lambda>r n. n = [Used t args r]) (\<lambda>n. n = [])"
  by (auto simp: adds_def call_tool_def pupdate_def noting_execute_def noting_def ebind_def split: sum.splits prod.splits)

lemma inspect_adds: "adds world_log (operator_inspect (noting_execute execute) t) (\<lambda>_ n. inspected [t] n) (\<lambda>n. n = [])"
  unfolding operator_inspect_def
  by (rule adds_bind[OF call_adds]) (auto intro!: adds_pret simp: inspected_def inspection_def)

lemma inspect_bind:
  assumes "inspected ts pre" and "\<And>x n. inspected (ts @ [t]) n \<Longrightarrow> adds world_log (f x) (\<lambda>y b. Q y (n @ b)) (\<lambda>b. E (n @ b))" and "E pre"
  shows "adds world_log (pbind (operator_inspect (noting_execute execute) t) f) (\<lambda>y b. Q y (pre @ b)) (\<lambda>b. E (pre @ b))"
proof (rule adds_bind[OF inspect_adds])
  fix x a assume "inspected [t] a"
  with assms(1) have "inspected (ts @ [t]) (pre @ a)" by (simp add: inspected_def list_all2_appendI)
  from assms(2)[OF this, of x] show "adds world_log (f x) (\<lambda>y b. Q y (pre @ a @ b)) (\<lambda>b. E (pre @ a @ b))" by simp
qed (use assms(3) in simp)

definition looks :: "event list \<Rightarrow> bool" where
  "looks n \<longleftrightarrow> (\<exists>k. inspected (take k inspections) n)"

lemma looksI: "inspected ts n \<Longrightarrow> ts = take k inspections \<Longrightarrow> looks n"
  by (auto simp: looks_def)

lemma looks_Nil [simp]: "looks []"
  by (rule looksI[of "[]" _ 0]) (simp_all add: inspected_def)

lemma inspected_looks: "inspected inspections n \<Longrightarrow> looks n"
  by (rule looksI[of inspections _ 3]) (simp_all add: inspections_def)

lemma requirements_adds:
  "adds world_log (build_operator_requirements (noting_execute execute) req) (\<lambda>_ n. inspected inspections n) looks"
proof -
  have three: "adds world_log (pbind (operator_inspect (noting_execute execute) ''system_query_leases'') (\<lambda>l.
      pbind (operator_inspect (noting_execute execute) ''system_query_apps'') (\<lambda>a.
      pbind (operator_inspect (noting_execute execute) ''system_state_sync'') (\<lambda>y. plift (f l a y)))))
    (\<lambda>_ n. inspected inspections ([] @ n)) (\<lambda>n. looks ([] @ n))" for f :: "dict \<Rightarrow> dict \<Rightarrow> dict \<Rightarrow> dict result"
    by (rule inspect_bind[where ts = "[]"], simp add: inspected_def, rule inspect_bind, assumption, rule inspect_bind, assumption)
      (auto intro!: adds_plift simp: inspections_def
        intro: looksI[where k = 1] looksI[where k = 2] looksI[where k = 3])
  show ?thesis
    unfolding build_operator_requirements_def Let_def
    by (rule quiet_bind[OF basic_quiet(3)], rule quiet_bind[OF basic_quiet(3)]) (use three in simp_all)
qed

lemma option_quiet: "silent_prog m \<Longrightarrow> (\<And>x. silent_prog (f x)) \<Longrightarrow> silent_prog (case v of None \<Rightarrow> m | Some x \<Rightarrow> f x)"
  by (cases v) simp_all

lemma record_quiet [quiet]: "silent_prog (record_decision rid req dec payload st entries)"
  unfolding record_decision_def Let_def by (intro bind_quiet option_quiet quiet)

lemma context_quiet [quiet]: "silent_prog (build_approval_context execute req res (Some ops))"
  unfolding build_approval_context_def Let_def option.case by (intro bind_quiet quiet)

lemma context_adds:
  "adds world_log (build_approval_context (noting_execute execute) req res None) (\<lambda>_ n. inspected inspections n) looks"
proof -
  have "adds world_log (pbind (build_operator_requirements (noting_execute execute) req) (\<lambda>r. pbind (plift v) (f r)))
      (\<lambda>_ n. inspected inspections n) looks" if "\<And>r x. silent_prog (f r x)" for v f
    by (rule adds_bind[OF requirements_adds], rule adds_weaken[OF bind_quiet[OF basic_quiet(3) that]])
      (auto dest: inspected_looks)
  note rest = this
  show ?thesis
    unfolding build_approval_context_def Let_def option.case
    by (intro quiet_bind[OF basic_quiet(3)] quiet_bind[OF basic_quiet(4)] quiet_bind[OF query_ok_quiet] rest quiet looks_Nil)
qed

lemma reply_quiet [quiet]: "silent_prog (decision_reply execute rid req upd m res (Some ops) entries)"
  unfolding decision_reply_def by (intro bind_quiet quiet)

lemma reply_adds:
  "adds world_log (decision_reply (noting_execute execute) rid req upd m res None entries) (\<lambda>_ n. inspected inspections n) looks"
proof -
  have "adds world_log (pbind (build_approval_context (noting_execute execute) upd res None) (\<lambda>c. pbind (query_ok g) (f c)))
      (\<lambda>_ n. inspected inspections n) looks" if "\<And>r x. silent_prog (f r x)" for g f
    by (rule adds_bind[OF context_adds], rule adds_weaken[OF bind_quiet[OF query_ok_quiet that]])
      (auto dest: inspected_looks)
  note rest = this
  show ?thesis
    unfolding decision_reply_def
    by (intro quiet_bind[OF basic_quiet(4)] rest quiet looks_Nil)
qed

section \<open>A decision\<close>

lemma settle_adds:
  "adds world_log (settle_decision (noting_execute execute) rid req dec m st None None) (\<lambda>_ n. inspected inspections n) looks"
  unfolding settle_decision_def Let_def
  by (rule quiet_bind[OF record_quiet reply_adds looks_Nil])

lemma settle_quiet [quiet]: "silent_prog (settle_decision execute rid req dec m st (Some ops) res)"
  unfolding settle_decision_def Let_def by (intro bind_quiet quiet)

lemma block_quiet [quiet]: "silent_prog (block_decision execute rid req m ops)"
  unfolding block_decision_def Let_def by (intro bind_quiet quiet)

definition ran_one :: "string \<Rightarrow> event list \<Rightarrow> bool" where
  "ran_one tool n \<longleftrightarrow> (\<exists>args r. n = [Used tool args r])"

lemma resume_adds:
  "adds world_log (resume_execution (noting_execute execute) rid req m ops)
     (\<lambda>_ n. ran_one (request_text req ''tool_name'') n) (\<lambda>n. n = [] \<or> ran_one (request_text req ''tool_name'') n)"
proof -
  have call: "adds world_log (pbind (call_tool (noting_execute execute) tool args) f) (\<lambda>_ n. ran_one tool n) (\<lambda>n. n = [] \<or> ran_one tool n)"
    if "\<And>r. silent_prog (f r)" for tool args f
    by (rule adds_bind[OF call_adds], rule adds_weaken[OF that]) (auto simp: ran_one_def)
  show ?thesis
    unfolding resume_execution_def Let_def
    by (rule quiet_bind[OF draw_id_quiet], rule quiet_bind[OF basic_quiet(3)], rule call) (intro bind_quiet quiet, simp_all)
qed

text \<open>The log of an approval: what it saw; then nothing, or the tool of the request.\<close>

definition approval_log :: "string \<Rightarrow> bool \<Rightarrow> event list \<Rightarrow> bool" where
  "approval_log tool run n \<longleftrightarrow> (\<exists>pre rest. n = pre @ rest \<and> inspected inspections pre \<and> (if run then ran_one tool rest else rest = []))"

lemma adds_result:
  assumes "adds lg m Q E" and "\<And>s x s'. m s = (Inr x, s') \<Longrightarrow> R x"
  shows "adds lg m (\<lambda>x n. Q x n \<and> R x) E"
  unfolding adds_def
proof (intro allI impI)
  fix s r s' assume run: "m s = (r, s')"
  from addsD[OF assms(1) run] assms(2)[of s _ s'] run
  show "\<exists>n. lg s' = lg s @ n \<and> (case r of Inr x \<Rightarrow> Q x n \<and> R x | Inl _ \<Rightarrow> E n)" by (cases r) auto
qed

lemma settle_status:
  "settle_decision execute rid req dec m st ops res W = (Inr x, W') \<Longrightarrow> dget x ''status'' = PStr st"
proof -
  assume "settle_decision execute rid req dec m st ops res W = (Inr x, W')"
  then obtain upd W1 where "decision_reply execute rid req upd m res ops [(''ok'', PBool True), (''status'', PStr st)] W1 = (Inr x, W')"
    by (auto simp: settle_decision_def pbind_Inr Let_def)
  from reply_shape[OF this] show ?thesis by simp
qed

lemma block_status:
  "block_decision execute rid req m ops W = (Inr x, W') \<Longrightarrow> dget x ''status'' = PStr ''blocked_resource_gate''"
proof -
  assume "block_decision execute rid req m ops W = (Inr x, W')"
  then obtain upd W1 where "decision_reply execute rid req upd m None (Some ops) [(''ok'', PBool False), (''status'', PStr ''blocked_resource_gate''),
      (''failure_class'', PStr ''approval_resource_gate_unsatisfied''), (''failure_status'', PStr ''missing_required_resources'')] W1 = (Inr x, W')"
    by (auto simp: block_decision_def pbind_Inr Let_def)
  from reply_shape[OF this] show ?thesis by simp
qed

lemma approve_adds:
  "adds world_log (approve_request (noting_execute execute) rid req m)
     (\<lambda>x n. approval_log (request_text req ''tool_name'') (dget x ''status'' = PStr ''approved'') n)
     (\<lambda>n. looks n \<or> approval_log (request_text req ''tool_name'') True n)"
  unfolding approve_request_def
proof (rule adds_bind[OF requirements_adds], goal_cases)
  case (1 ops pre)
  have blocked: "adds world_log (block_decision (noting_execute execute) rid req m ops)
      (\<lambda>x b. b = [] \<and> dget x ''status'' = PStr ''blocked_resource_gate'') (\<lambda>b. b = [])"
    by (rule adds_result[OF block_quiet block_status])
  have settled: "adds world_log (settle_decision (noting_execute execute) rid req ''approve'' m ''approved'' (Some ops) (Some res))
      (\<lambda>x b. b = [] \<and> dget x ''status'' = PStr ''approved'') (\<lambda>b. b = [])" for res
    by (rule adds_result[OF settle_quiet settle_status])
  show ?case
  proof (rule adds_if, goal_cases)
    case 1
    show ?case
      by (rule adds_weaken[OF blocked]) (use \<open>inspected inspections pre\<close> in \<open>auto simp: approval_log_def dest: inspected_looks\<close>)
  next
    case 2
    show ?case
      by (rule adds_bind[OF resume_adds], rule adds_weaken[OF settled])
        (use \<open>inspected inspections pre\<close> in \<open>auto simp: approval_log_def dest: inspected_looks\<close>)
  qed
qed (use inspected_looks in auto)

text \<open>What a call has logged, by its result; nothing when the request is not pending.\<close>

definition call_log :: "dict result \<Rightarrow> event list \<Rightarrow> bool" where
  "call_log r n \<longleftrightarrow> decision_log n \<and> (case r of Inr _ \<Rightarrow> length inspections \<le> length n \<and> (executes n \<longleftrightarrow> approved_result r) | Inl _ \<Rightarrow> True)"

lemma approval_log_executes: "approval_log tool b n \<Longrightarrow> decision_log n \<and> length inspections \<le> length n \<and> (executes n \<longleftrightarrow> b)"
  using inspected_log[of 3] executed_log list_all2_lengthD
  by (cases b) (fastforce simp: approval_log_def ran_one_def inspected_def inspections_def)+

lemma inspected_all: "inspected inspections n \<Longrightarrow> decision_log n \<and> \<not> executes n \<and> length inspections \<le> length n"
  using inspected_log[of "length inspections" n] by (auto simp: inspected_def dest: list_all2_lengthD)

lemma call_adds_log:
  assumes run: "apply_approval_decision (noting_execute execute) rid decision m (s, w, a, l) = (r, s', w', a', l')"
  shows "\<exists>n. l' = l @ n \<and> call_log r n \<and> (if request_status s rid = Some ''pending'' then True else n = [])"
proof (cases "request_status s rid = Some ''pending'' \<and> decision \<in> {''approve'', ''deny'', ''expire''}")
  case False
  with apply_refused[of s rid decision "noting_execute execute" m w "(a, l)"] run obtain e where "r = Inl e" "l' = l" by auto
  then show ?thesis by (auto simp: call_log_def decision_log_def inspected_def)
next
  case True
  from apply_pending[of s rid decision "noting_execute execute" m w "(a, l)"] True run obtain req where
    go: "(if decision = ''approve'' then approve_request (noting_execute execute) rid req m
     else settle_decision (noting_execute execute) rid req decision m
       (if decision = ''expire'' then ''expired'' else ''denied'') None None) (s, w, a, l) = (r, s', w', a', l')" by auto
  have "\<exists>n. l' = l @ n \<and> call_log r n"
  proof (cases "decision = ''approve''")
    case True
    with go have "approve_request (noting_execute execute) rid req m (s, w, a, l) = (r, s', w', a', l')" by simp
    from addsD[OF approve_adds this] obtain n where n: "l' = l @ n"
      "case r of Inr x \<Rightarrow> approval_log (request_text req ''tool_name'') (dget x ''status'' = PStr ''approved'') n
        | Inl _ \<Rightarrow> looks n \<or> approval_log (request_text req ''tool_name'') True n" by auto
    have "call_log r n"
      using n(2) by (auto simp: call_log_def approved_result_def looks_def dest!: approval_log_executes dest: inspected_log split: sum.splits)
    with n(1) show ?thesis by blast
  next
    case False
    let ?st = "if decision = ''expire'' then ''expired'' else ''denied''"
    from go False have here: "settle_decision (noting_execute execute) rid req decision m ?st None None (s, w, a, l) = (r, s', w', a', l')" by simp
    have settled: "adds world_log (settle_decision (noting_execute execute) rid req decision m ?st None None)
        (\<lambda>x n. inspected inspections n \<and> dget x ''status'' = PStr ?st) looks"
      by (rule adds_result[OF settle_adds settle_status])
    from addsD[OF settled here] obtain n where n: "l' = l @ n"
      "case r of Inr x \<Rightarrow> inspected inspections n \<and> dget x ''status'' = PStr ?st | Inl _ \<Rightarrow> looks n" by auto
    have "call_log r n"
      using n(2) by (auto simp: call_log_def approved_result_def looks_def dest: inspected_all inspected_log split: sum.splits if_splits)
    with n(1) show ?thesis by blast
  qed
  with True show ?thesis by simp
qed

section \<open>A sequence of decisions\<close>

text \<open>The results of the calls on a request that executed a tool, in order.\<close>

definition executions :: "string \<Rightarrow> (string \<times> string \<times> dict) list \<Rightarrow> dict result list \<Rightarrow> event list list \<Rightarrow> dict result list" where
  "executions rid calls rs ns = map (\<lambda>(c, r, n). r) (filter (\<lambda>(c, r, n). fst c = rid \<and> executes n) (zip calls (zip rs ns)))"

lemma run_logs:
  assumes "list_all (\<lambda>c. fst c \<noteq> []) calls" and "run_decisions (noting_execute execute) calls (s, w, a, l) = (rs, s', w', a', l')"
  shows "\<exists>ns. l' = l @ concat ns \<and> list_all2 call_log rs ns \<and> list_all isl (butlast (executions rid calls rs ns))
    \<and> (if request_status s rid = Some ''pending'' then True else executions rid calls rs ns = [])"
  using assms
proof (induction calls arbitrary: s w a l rs)
  case Nil
  then show ?case by (intro exI[of _ "[]"]) (simp add: executions_def)
next
  case (Cons call calls)
  obtain i d m where call: "call = (i, d, m)" by (cases call)
  obtain r s1 w1 a1 l1 where r: "apply_approval_decision (noting_execute execute) i d m (s, w, a, l) = (r, s1, w1, a1, l1)"
    by (rule prod_cases5)
  from Cons.prems(2) call r obtain rs' where rs: "rs = r # rs'"
    "run_decisions (noting_execute execute) calls (s1, w1, a1, l1) = (rs', s', w', a', l')" by (auto split: prod.splits)
  from Cons.prems(1) call have i: "i \<noteq> []" by simp
  from call_adds_log[OF r] obtain n where n: "l1 = l @ n" "call_log r n"
    "if request_status s i = Some ''pending'' then True else n = []" by blast
  from Cons.IH[OF _ rs(2)] Cons.prems(1) obtain ns where ns: "l' = l1 @ concat ns" "list_all2 call_log rs' ns"
    "list_all isl (butlast (executions rid calls rs' ns))"
    "if request_status s1 rid = Some ''pending'' then True else executions rid calls rs' ns = []" by auto
  have step: "executions rid (call # calls) rs (n # ns) = (if i = rid \<and> executes n then [r] else []) @ executions rid calls rs' ns"
    by (simp add: executions_def call rs(1))
  have others: "request_status s1 rid = Some ''pending'' \<Longrightarrow> request_status s rid = Some ''pending''"
  proof (cases "i = rid")
    case True
    assume "request_status s1 rid = Some ''pending''"
    with True apply_moved[OF i r] show ?thesis by (auto elim: approval_move_elims)
  next
    case False
    assume "request_status s1 rid = Some ''pending''"
    moreover from False apply_moved[OF i r] have "get_approval_request s1 rid = get_approval_request s rid" by auto
    ultimately show ?thesis using request_found[of s1 rid] request_found[of s rid] request_absent
      by (metis (no_types, lifting) option.exhaust option.inject pyval.inject(4))
  qed
  have returned: "request_status s1 rid \<noteq> Some ''pending''" if "i = rid" "executes n" "\<not> isl r"
  proof -
    from that(3) obtain x where x: "r = Inr x" by (cases r) auto
    with that(2) n(2) have "approved_result (Inr x)" by (simp add: call_log_def)
    with apply_returns[OF i r[unfolded x]] that(1) show ?thesis by simp
  qed
  have "list_all isl (butlast (executions rid (call # calls) rs (n # ns)))"
    using step ns(3,4) returned by (cases "isl r") (auto simp: butlast_append)
  moreover have "if request_status s rid = Some ''pending'' then True else executions rid (call # calls) rs (n # ns) = []"
    using step ns(4) n(3) others by (cases "request_status s1 rid = Some ''pending''") (auto simp: executes_def inspections_def)
  ultimately show ?case using n(1,2) ns(1,2) rs(1) by (intro exI[of _ "n # ns"]) auto
qed

lemma approved_executes:
  assumes "list_all2 call_log rs ns" and "list_all (\<lambda>r. \<not> isl r) rs"
  shows "length (filter approved_result rs) = length (filter executes ns)"
  using assms by (induction rs ns rule: list_all2_induct) (auto simp: call_log_def split: sum.splits)

text \<open>C4: An approved request is executed once; one whose approval raised may be executed again. In any sequence of
  approve, deny and expire calls on any requests, with any adapter, some of which may raise: a call looks at the
  unit (leases, apps, state sync) and then runs at most one tool; one that returns has made all three
  inspections, and has run a tool exactly when it reports approved. At most one call per request
  reports approved, and of the calls that executed a request all but the last one raised: nothing is executed
  for a request after a call that returned approved. When every call returns, the tool results in the store
  grow by exactly the number of tools executed.\<close>

theorem approvals_execute_once:
  assumes "list_all (\<lambda>c. fst c \<noteq> []) calls"
  shows "case run_decisions (noting_execute execute) calls (s, w, a, []) of (rs, s', w', a', entries) \<Rightarrow>
     \<exists>ns. entries = concat ns \<and> list_all2 call_log rs ns
       \<and> approvals_of rid calls rs \<le> 1
       \<and> list_all isl (butlast (executions rid calls rs ns))
       \<and> (if list_all (\<lambda>r. \<not> isl r) rs
          then length (tool_results s') = length (tool_results s) + length (filter executes ns) else True)"
proof -
  obtain rs s' w' a' l' where run: "run_decisions (noting_execute execute) calls (s, w, a, []) = (rs, s', w', a', l')"
    by (rule prod_cases5)
  from run_logs[OF assms run, of rid] obtain ns where ns: "l' = concat ns" "list_all2 call_log rs ns"
    "list_all isl (butlast (executions rid calls rs ns))" by auto
  with run run_approvals_once[OF assms run, of rid] run_growth[OF assms run] approved_executes[OF ns(2)] show ?thesis
    by (simp, intro exI[of _ ns]) simp
qed

theorem approvals_execute_once_witness:
  "case run_decisions (noting_execute fake_execute) [(''a'', ''approve'', []), (''b'', ''deny'', []), (''a'', ''approve'', [])]
       (pending_store, sample_env, (), []) of (rs, s', w', a', entries) \<Rightarrow>
     \<exists>ns. entries = concat ns \<and> list_all2 call_log rs ns
       \<and> list_all isl (butlast (executions ''a'' [(''a'', ''approve'', []), (''b'', ''deny'', []), (''a'', ''approve'', [])] rs ns))"
proof -
  have "list_all (\<lambda>c. fst c \<noteq> []) [(''a'', ''approve'', []), (''b'', ''deny'', []), (''a'', ''approve'', [] :: dict)]" by simp
  from approvals_execute_once[OF this, where execute = fake_execute and s = pending_store and w = sample_env and a = "()" and rid = "''a''"]
  show ?thesis by (auto split: prod.splits)
qed

end
