(* ===== verification/Protocol.thy ===== *)
theory Protocol
  imports Cbor Common
begin

text \<open>
  The rest of \<open>neuro_cli/src/neuro_protocol.py\<close>: the numeric tables of the wire format, the
  translation between logical payloads and CBOR maps, the routes and the message kind of a route,
  and the metadata every request carries. \<open>parse_wire_payload\<close> and \<open>parse_reply\<close> work on
  objects of the Zenoh client and on JSON text; they are not modelled.

  A Python dict whose keys are ints or texts is its list of items in insertion order.
\<close>

section \<open>Tables\<close>

definition CBOR_V2_MESSAGE_KINDS :: "(string \<times> int) list" where
  "CBOR_V2_MESSAGE_KINDS =
    [(''query_request'', 1), (''lease_acquire_request'', 2), (''lease_release_request'', 3),
     (''app_command_request'', 4), (''callback_config_request'', 5), (''update_prepare_request'', 6),
     (''update_verify_request'', 7), (''update_activate_request'', 8), (''update_rollback_request'', 9),
     (''update_delete_request'', 10), (''error_reply'', 20), (''lease_reply'', 21),
     (''query_device_reply'', 22), (''query_apps_reply'', 23), (''query_leases_reply'', 24),
     (''update_prepare_reply'', 25), (''update_verify_reply'', 26), (''update_activate_reply'', 27),
     (''update_rollback_reply'', 28), (''app_command_reply'', 29), (''callback_event'', 40),
     (''update_event'', 41), (''state_event'', 42), (''lease_event'', 43)]"

definition CBOR_V2_KEYS :: "(string \<times> int) list" where
  "CBOR_V2_KEYS =
    [(''schema_version'', 0), (''message_kind'', 1), (''status'', 2), (''request_id'', 3), (''node_id'', 4),
     (''source_core'', 5), (''source_agent'', 6), (''target_node'', 7), (''timeout_ms'', 8),
     (''priority'', 9), (''idempotency_key'', 10), (''lease_id'', 11), (''forwarded'', 12),
     (''status_code'', 20), (''message'', 21), (''resource'', 30), (''expires_at_ms'', 31), (''ttl_ms'', 32),
     (''board'', 40), (''zenoh_mode'', 41), (''session_ready'', 42), (''network_state'', 43), (''ipv4'', 44),
     (''app_id'', 50), (''command'', 51), (''args'', 52), (''start_args'', 53), (''reason'', 54),
     (''path'', 55), (''transport'', 56), (''artifact_key'', 57), (''size'', 58), (''chunk_size'', 59),
     (''app_count'', 60), (''running_count'', 61), (''suspended_count'', 62), (''apps'', 63),
     (''runtime_state'', 64), (''manifest_present'', 65), (''update_state'', 66), (''artifact_state'', 67),
     (''stable_ref'', 68), (''last_error'', 69), (''rollback_reason'', 70), (''leases'', 71),
     (''callback_enabled'', 80), (''trigger_every'', 81), (''event_name'', 82), (''invoke_count'', 83),
     (''start_count'', 84), (''config_changed'', 85), (''publish_ret'', 86), (''echo'', 87), (''stage'', 90),
     (''detail'', 91), (''state_version'', 92), (''action'', 93)]"

definition CBOR_V2_KEY_NAMES :: "(int \<times> string) list" where
  "CBOR_V2_KEY_NAMES = map (\<lambda>(k, v). (v, k)) CBOR_V2_KEYS"

definition CBOR_V2_MESSAGE_KIND_NAMES :: "(int \<times> string) list" where
  "CBOR_V2_MESSAGE_KIND_NAMES = map (\<lambda>(k, v). (v, k)) CBOR_V2_MESSAGE_KINDS"

section \<open>Logical payloads\<close>

text \<open>\<open>NAMES.get(key, key)\<close>; \<open>True\<close> and 1 are the same key.\<close>

definition logical_key :: "ckey \<Rightarrow> ckey" where
  "logical_key k = (case key_int k of None \<Rightarrow> k
     | Some n \<Rightarrow> (case map_of CBOR_V2_KEY_NAMES n of None \<Rightarrow> k | Some name \<Rightarrow> KStr name))"

definition kind_name :: "cbor \<Rightarrow> int \<Rightarrow> cbor" where
  "kind_name item n = (case map_of CBOR_V2_MESSAGE_KIND_NAMES n of None \<Rightarrow> item | Some name \<Rightarrow> CStr name)"

fun cbor_int :: "cbor \<Rightarrow> int option" where
  "cbor_int (CBool b) = Some (if b then 1 else 0)"
| "cbor_int (CInt n) = Some n"
| "cbor_int _ = None"

definition is_map :: "cbor \<Rightarrow> bool" where
  "is_map v = (case v of CMap _ \<Rightarrow> True | _ \<Rightarrow> False)"

text \<open>
  \<open>cbor_map_to_logical\<close>, on the value it is given or recurses into: mappings are translated, also
  when they are entries of a list, but not deeper inside nested lists.
\<close>

fun logical_value :: "cbor \<Rightarrow> cbor" where
  "logical_value (CMap items) = CMap (fold (\<lambda>(name, item) logical. cset logical name item)
     (map (\<lambda>kv. (logical_key (fst kv),
        if logical_key (fst kv) = KStr ''message_kind'' \<and> cbor_int (snd kv) \<noteq> None
        then kind_name (snd kv) (the (cbor_int (snd kv)))
        else logical_value (snd kv))) items) [])"
| "logical_value (CList xs) = CList (map (\<lambda>entry. if is_map entry then logical_value entry else entry) xs)"
| "logical_value v = v"

definition cbor_map_to_logical :: "(ckey \<times> cbor) list \<Rightarrow> (ckey \<times> cbor) list" where
  "cbor_map_to_logical value = (case logical_value (CMap value) of CMap m \<Rightarrow> m | _ \<Rightarrow> [])"

definition wire_key :: "ckey \<Rightarrow> int option" where
  "wire_key k = (case k of KStr name \<Rightarrow> map_of CBOR_V2_KEYS name | _ \<Rightarrow> None)"

definition logical_to_cbor_map :: "(ckey \<times> cbor) list \<Rightarrow> string \<Rightarrow> (ckey \<times> cbor) list result" where
  "logical_to_cbor_map payload message_kind = (case map_of CBOR_V2_MESSAGE_KINDS message_kind of
     None \<Rightarrow> Inl (KeyError message_kind)
   | Some kind \<Rightarrow> Inr (fold (\<lambda>(name, item) m. case wire_key name of None \<Rightarrow> m | Some key \<Rightarrow> cset m (KInt key) item)
       payload [(KInt 0, CInt 2), (KInt 1, CInt kind)]))"

definition encode_payload_cbor :: "(ckey \<times> cbor) list \<Rightarrow> string \<Rightarrow> byte list result" where
  "encode_payload_cbor payload message_kind =
     ebind (logical_to_cbor_map payload message_kind) (\<lambda>m. cbor_encode (CMap m))"

definition decode_payload_cbor :: "byte list \<Rightarrow> (ckey \<times> cbor) list result" where
  "decode_payload_cbor data = ebind (cbor_decode data) (\<lambda>decoded. case decoded of
     CMap m \<Rightarrow> Inr (cbor_map_to_logical m)
   | _ \<Rightarrow> Inl (ValueError ''CBOR payload root must be a map''))"

section \<open>Routes\<close>

definition query_route :: "string \<Rightarrow> string \<Rightarrow> string" where
  "query_route node kind = ''neuro/'' @ node @ ''/query/'' @ kind"

definition lease_route :: "string \<Rightarrow> string \<Rightarrow> string" where
  "lease_route node action = ''neuro/'' @ node @ ''/cmd/lease/'' @ action"

definition app_command_route :: "string \<Rightarrow> string \<Rightarrow> string \<Rightarrow> string" where
  "app_command_route node app_id command = ''neuro/'' @ node @ ''/cmd/app/'' @ app_id @ ''/'' @ command"

definition update_route :: "string \<Rightarrow> string \<Rightarrow> string \<Rightarrow> string" where
  "update_route node app_id stage = ''neuro/'' @ node @ ''/update/app/'' @ app_id @ ''/'' @ stage"

definition event_subscription_route :: "string \<Rightarrow> string" where
  "event_subscription_route node = ''neuro/'' @ node @ ''/event/**''"

definition app_event_subscription_route :: "string \<Rightarrow> string \<Rightarrow> string" where
  "app_event_subscription_route node app_id = ''neuro/'' @ node @ ''/event/app/'' @ app_id @ ''/**''"

definition artifact_route :: "string \<Rightarrow> string \<Rightarrow> string" where
  "artifact_route node app_id = ''neuro/artifact/'' @ node @ ''/'' @ app_id"

definition update_kinds :: "(string \<times> string) list" where
  "update_kinds = [(''prepare'', ''update_prepare_request''), (''verify'', ''update_verify_request''),
     (''activate'', ''update_activate_request''), (''rollback'', ''update_rollback_request''),
     (''delete'', ''update_delete_request'')]"

definition unsupported_route :: "string \<Rightarrow> string result" where
  "unsupported_route keyexpr = Inl (ValueError (''unsupported CBOR route: '' @ keyexpr))"

text \<open>\<open>message_kind_for_keyexpr\<close>; a payload is the list of its keys, or None.\<close>

definition message_kind_for_keyexpr :: "string \<Rightarrow> string list option \<Rightarrow> string result" where
  "message_kind_for_keyexpr keyexpr payload = (
     let parts = split_slash keyexpr;
         n = length parts in
     if 4 \<le> n \<and> parts ! 2 = ''query'' then Inr ''query_request''
     else if 5 \<le> n \<and> take 2 (drop 2 parts) = [''cmd'', ''lease''] \<and> parts ! 4 = ''acquire''
       then Inr ''lease_acquire_request''
     else if 5 \<le> n \<and> take 2 (drop 2 parts) = [''cmd'', ''lease''] \<and> parts ! 4 = ''release''
       then Inr ''lease_release_request''
     else if 5 \<le> n \<and> take 2 (drop 2 parts) = [''cmd'', ''app''] then
       Inr (case payload of
         Some keys \<Rightarrow> if last parts = ''invoke'' \<and> (\<exists>k \<in> set keys. k \<in> {''callback_enabled'', ''trigger_every'', ''event_name''})
           then ''callback_config_request'' else ''app_command_request''
       | None \<Rightarrow> ''app_command_request'')
     else if 6 \<le> n \<and> take 2 (drop 2 parts) = [''update'', ''app''] then
       (case map_of update_kinds (parts ! 5) of Some kind \<Rightarrow> Inr kind | None \<Rightarrow> unsupported_route keyexpr)
     else unsupported_route keyexpr)"

definition key_texts :: "(ckey \<times> cbor) list \<Rightarrow> string list" where
  "key_texts payload = List.map_filter (\<lambda>kv. key_text (fst kv)) payload"

definition encode_query_payload :: "string \<Rightarrow> (ckey \<times> cbor) list \<Rightarrow> byte list result" where
  "encode_query_payload keyexpr payload =
     ebind (message_kind_for_keyexpr keyexpr (Some (key_texts payload))) (encode_payload_cbor payload)"

section \<open>Request metadata\<close>

text \<open>The arguments the payload builders read; their types are those the command line gives them.\<close>

record cli_args =
  ca_request_id :: string
  ca_source_core :: string
  ca_source_agent :: string
  ca_node :: string
  ca_timeout :: pyfloat
  ca_priority :: int
  ca_idempotency_key :: string
  ca_lease_id :: string
  ca_mode :: string
  ca_trigger_every :: int
  ca_event_name :: string

definition make_request_id :: "env \<Rightarrow> string \<times> env" where
  "make_request_id = new_id ''req''"

definition make_idempotency_key :: "env \<Rightarrow> string \<times> env" where
  "make_idempotency_key = new_id ''idem''"

definition missing_value :: "pyval \<Rightarrow> bool" where
  "missing_value v \<longleftrightarrow> v = PStr [] \<or> v = PNone \<or> v = PInt 0 \<or> v = PBool False \<or> v = PFloat (Fin 0)"

fun require_fields :: "dict \<Rightarrow> string list \<Rightarrow> unit result" where
  "require_fields payload [] = Inr ()"
| "require_fields payload (field # others) = (
     if \<not> dhas payload field \<or> missing_value (dget payload field)
     then Inl (ValueError (''missing required common metadata: '' @ field)) else require_fields payload others)"

definition common_fields :: "string list" where
  "common_fields = [''request_id'', ''source_core'', ''source_agent'', ''target_node'', ''timeout_ms'']"

definition validate_payload :: "dict \<Rightarrow> string \<Rightarrow> unit result" where
  "validate_payload payload mode =
     ebind (require_fields payload common_fields) (\<lambda>_.
     if mode \<in> {''write'', ''protected''} \<and> dget payload ''priority'' = PNone
       then Inl (ValueError ''missing required write metadata: priority'')
     else if mode \<in> {''write'', ''protected''} \<and> \<not> truthy (dget_or payload ''idempotency_key'' (PStr []))
       then Inl (ValueError ''missing required write metadata: idempotency_key'')
     else if mode = ''protected'' \<and> \<not> truthy (dget_or payload ''lease_id'' (PStr []))
       then Inl (ValueError ''missing required protected metadata: lease_id'')
     else Inr ())"

text \<open>\<open>args.timeout * 1000\<close>.\<close>

fun milliseconds :: "pyfloat \<Rightarrow> pyfloat" where
  "milliseconds (Fin t) = fl (t * 1000)"
| "milliseconds t = t"

definition base_payload :: "cli_args \<Rightarrow> env \<Rightarrow> (dict \<times> env) result" where
  "base_payload args w = (
     let (request_id, w') = (if ca_request_id args \<noteq> [] then (ca_request_id args, w) else make_request_id w) in
     ebind (py_int (PFloat (milliseconds (ca_timeout args)))) (\<lambda>timeout_ms. Inr ([
       (''request_id'', PStr request_id),
       (''source_core'', PStr (ca_source_core args)),
       (''source_agent'', PStr (ca_source_agent args)),
       (''target_node'', PStr (ca_node args)),
       (''timeout_ms'', PInt timeout_ms)], w')))"

definition write_payload :: "cli_args \<Rightarrow> env \<Rightarrow> (dict \<times> env) result" where
  "write_payload args w = ebind (base_payload args w) (\<lambda>(payload, w1).
     let (key, w2) = (if ca_idempotency_key args \<noteq> [] then (ca_idempotency_key args, w1) else make_idempotency_key w1) in
     Inr (dset (dset payload ''priority'' (PInt (ca_priority args))) ''idempotency_key'' (PStr key), w2))"

definition protected_write_payload :: "cli_args \<Rightarrow> env \<Rightarrow> (dict \<times> env) result" where
  "protected_write_payload args w = ebind (write_payload args w) (\<lambda>(payload, w').
     Inr (dset payload ''lease_id'' (PStr (ca_lease_id args)), w'))"

definition build_app_callback_config_payload :: "cli_args \<Rightarrow> bool option \<Rightarrow> env \<Rightarrow> (dict \<times> env) result" where
  "build_app_callback_config_payload args enabled w = ebind (protected_write_payload args w) (\<lambda>(payload, w').
     let callback_enabled = (case enabled of None \<Rightarrow> ca_mode args = ''on'' | Some b \<Rightarrow> b) in
     Inr (dset (dset (dset payload ''callback_enabled'' (PBool callback_enabled))
       ''trigger_every'' (PInt (max 0 (ca_trigger_every args)))) ''event_name'' (PStr (ca_event_name args)), w'))"

section \<open>Lemmas: the tables\<close>

lemma tables_distinct:
  "distinct (map fst CBOR_V2_KEYS)" "distinct (map snd CBOR_V2_KEYS)"
  "distinct (map fst CBOR_V2_MESSAGE_KINDS)" "distinct (map snd CBOR_V2_MESSAGE_KINDS)"
  by (simp_all add: CBOR_V2_KEYS_def CBOR_V2_MESSAGE_KINDS_def)

lemma map_of_swap:
  assumes "distinct (map fst t)" and "distinct (map snd t)"
  shows "map_of (map (\<lambda>(k, v). (v, k)) t) v = Some k \<longleftrightarrow> map_of t k = Some v"
proof -
  have "distinct (map fst (map (\<lambda>(k, v). (v, k)) t))" using assms(2) by (simp add: comp_def split_beta)
  then show ?thesis using assms(1) by (auto simp: map_of_eq_Some_iff)
qed

lemma key_names: "map_of CBOR_V2_KEY_NAMES n = Some name \<longleftrightarrow> map_of CBOR_V2_KEYS name = Some n"
  unfolding CBOR_V2_KEY_NAMES_def by (rule map_of_swap[OF tables_distinct(1,2)])

lemma kind_names: "map_of CBOR_V2_MESSAGE_KIND_NAMES n = Some name \<longleftrightarrow> map_of CBOR_V2_MESSAGE_KINDS name = Some n"
  unfolding CBOR_V2_MESSAGE_KIND_NAMES_def by (rule map_of_swap[OF tables_distinct(3,4)])

lemma table_codes: "map_of CBOR_V2_KEYS name = Some n \<Longrightarrow> 0 \<le> n \<and> n < 256"
  "map_of CBOR_V2_MESSAGE_KINDS kind = Some n \<Longrightarrow> 0 \<le> n \<and> n < 256"
proof -
  have "list_all (\<lambda>kv. 0 \<le> snd kv \<and> snd kv < 256) CBOR_V2_KEYS"
    "list_all (\<lambda>kv. 0 \<le> snd kv \<and> snd kv < 256) CBOR_V2_MESSAGE_KINDS"
    by (simp_all add: CBOR_V2_KEYS_def CBOR_V2_MESSAGE_KINDS_def)
  then show "map_of CBOR_V2_KEYS name = Some n \<Longrightarrow> 0 \<le> n \<and> n < 256"
    "map_of CBOR_V2_MESSAGE_KINDS kind = Some n \<Longrightarrow> 0 \<le> n \<and> n < 256"
    by (auto simp: list_all_iff dest!: map_of_SomeD)
qed

lemma header_keys: "map_of CBOR_V2_KEYS ''schema_version'' = Some 0" "map_of CBOR_V2_KEYS ''message_kind'' = Some 1"
  by (simp_all add: CBOR_V2_KEYS_def)

section \<open>Lemmas: maps\<close>

definition clookup :: "(ckey \<times> 'v) list \<Rightarrow> ckey \<Rightarrow> 'v option" where
  "clookup m k = map_of (map (\<lambda>kv. (key_id (fst kv), snd kv)) m) (key_id k)"

abbreviation ids :: "(ckey \<times> 'v) list \<Rightarrow> (int option \<times> string option) list" where
  "ids m \<equiv> map (\<lambda>kv. key_id (fst kv)) m"

lemma clookup_simps [simp]:
  "clookup [] k = None"
  "clookup ((k', v) # m) k = (if key_id k' = key_id k then Some v else clookup m k)"
  by (auto simp: clookup_def)

lemma clookup_cset: "clookup (cset m k v) j = (if key_id k = key_id j then Some v else clookup m j)"
  by (induction m k v rule: cset.induct) (auto simp: key_eq_id)

lemma set_ids_cset: "set (ids (cset m k v)) = insert (key_id k) (set (ids m))"
  by (induction m k v rule: cset.induct) (auto simp: key_eq_id)

lemma distinct_cset: "distinct (ids m) \<Longrightarrow> distinct (ids (cset m k v))"
proof (induction m k v rule: cset.induct)
  case (2 k' v' m k v)
  then show ?case using set_ids_cset[of m k v] by (force simp: key_eq_id)
qed simp

lemma fold_cset:
  assumes "distinct (ids (acc @ m))"
  shows "fold (\<lambda>(k, v) acc. cset acc k v) m acc = acc @ m"
  using assms
proof (induction m arbitrary: acc)
  case (Cons kv m)
  obtain k v where kv: "kv = (k, v)" by (cases kv)
  have "cset acc k v = acc @ [(k, v)]" using Cons.prems kv by (intro cset_new) (force simp: key_eq_id)
  with Cons kv show ?case by simp
qed simp

lemma clookup_perm: "mset a = mset b \<Longrightarrow> distinct (ids a) \<Longrightarrow> clookup a k = clookup b k"
proof -
  assume p: "mset a = mset b" and d: "distinct (ids a)"
  let ?f = "map (\<lambda>kv. (key_id (fst kv), snd kv))"
  have "set (?f a) = set (?f b)" using mset_eq_setD[OF p] by simp
  moreover have "distinct (map fst (?f a))" using d by (simp add: comp_def)
  moreover have "distinct (map fst (?f b))"
    using d mset_eq_imp_distinct_iff[of "ids a" "ids b"] p by (simp add: comp_def)
  ultimately have "map_of (?f a) = map_of (?f b)" by (metis map_of_inject_set)
  then show ?thesis by (simp add: clookup_def)
qed

section \<open>Lemmas: payloads over the wire\<close>

text \<open>A value that is neither a mapping nor contains one, nor nested lists.\<close>

definition scalar :: "cbor \<Rightarrow> bool" where
  "scalar v = (case v of CMap _ \<Rightarrow> False | CList _ \<Rightarrow> False | _ \<Rightarrow> True)"

definition flat :: "cbor \<Rightarrow> bool" where
  "flat v = (case v of CMap _ \<Rightarrow> False | CList xs \<Rightarrow> list_all scalar xs | _ \<Rightarrow> True)"

lemma scalar_fixed: "scalar v \<Longrightarrow> canon v = v \<and> wf_cbor v \<and> \<not> is_map v"
  by (cases v) (auto simp: scalar_def is_map_def)

lemma flat_fixed: "flat v \<Longrightarrow> canon v = v \<and> wf_cbor v \<and> logical_value v = v"
  using scalar_fixed by (cases v) (auto simp: flat_def list_all_iff map_idI)

text \<open>The map that goes on the wire.\<close>

definition wire_step :: "ckey \<times> cbor \<Rightarrow> (ckey \<times> cbor) list \<Rightarrow> (ckey \<times> cbor) list" where
  "wire_step kv m = (case wire_key (fst kv) of None \<Rightarrow> m | Some key \<Rightarrow> cset m (KInt key) (snd kv))"

lemma to_cbor_map:
  "logical_to_cbor_map payload kind = Inr m \<longleftrightarrow> (\<exists>n. map_of CBOR_V2_MESSAGE_KINDS kind = Some n
     \<and> m = fold wire_step payload [(KInt 0, CInt 2), (KInt 1, CInt n)])"
proof -
  have "wire_step = (\<lambda>(name, item) m. case wire_key name of None \<Rightarrow> m | Some key \<Rightarrow> cset m (KInt key) item)"
    by (auto simp: wire_step_def fun_eq_iff split: option.split)
  then show ?thesis by (auto simp: logical_to_cbor_map_def split: option.splits)
qed

lemma wire_key_text: "wire_key k = Some n \<longleftrightarrow> (\<exists>name. k = KStr name \<and> map_of CBOR_V2_KEYS name = Some n)"
  by (cases k) (auto simp: wire_key_def)

lemma code_inj: "map_of CBOR_V2_KEYS a = Some n \<Longrightarrow> map_of CBOR_V2_KEYS b = Some n \<Longrightarrow> a = b"
  using key_names[of n] by (metis option.inject)

lemma key_id_simps [simp]:
  "key_id (KInt n) = (Some n, None)" "key_id (KStr s) = (None, Some s)" "key_id (KBool b) = (Some (if b then 1 else 0), None)"
  by (simp_all add: key_id_def)

lemma key_id_text: "(key_id k = key_id (KStr name)) = (k = KStr name)"
  by (cases k) (simp_all add: key_id_def)

text \<open>\<open>wire_ok\<close>: a map with one entry per code of the table.\<close>

definition wire_ok :: "(ckey \<times> cbor) list \<Rightarrow> bool" where
  "wire_ok m \<longleftrightarrow> distinct (ids m) \<and> (\<forall>kv \<in> set m. \<exists>n name. fst kv = KInt n \<and> map_of CBOR_V2_KEYS name = Some n
     \<and> flat (snd kv) \<and> encodable (snd kv))"

lemma wire_okD: "wire_ok m \<Longrightarrow> kv \<in> set m \<Longrightarrow> \<exists>n name. fst kv = KInt n \<and> map_of CBOR_V2_KEYS name = Some n
     \<and> flat (snd kv) \<and> encodable (snd kv)"
  by (simp add: wire_ok_def)

lemma set_cset: "kv \<in> set (cset m k v) \<Longrightarrow> kv \<in> set m \<or> kv = (k, v) \<or> (\<exists>k' v'. (k', v') \<in> set m \<and> kv = (k', v))"
  by (induction m k v rule: cset.induct) (auto split: if_splits)

lemma wire_step_ok:
  assumes "wire_ok m" and "flat (snd kv) \<and> encodable (snd kv)"
  shows "wire_ok (wire_step kv m)"
proof (cases "wire_key (fst kv)")
  case None
  with assms show ?thesis by (simp add: wire_step_def)
next
  case (Some n)
  then obtain name where name: "map_of CBOR_V2_KEYS name = Some n" by (auto simp: wire_key_text)
  have "\<exists>j nm. fst x = KInt j \<and> map_of CBOR_V2_KEYS nm = Some j \<and> flat (snd x) \<and> encodable (snd x)"
    if "x \<in> set (cset m (KInt n) (snd kv))" for x
    using set_cset[OF that] assms name by (fastforce simp: wire_ok_def)
  with assms Some show ?thesis by (simp add: wire_ok_def wire_step_def distinct_cset)
qed

lemma wire_fold:
  assumes "wire_ok m" and "list_all (\<lambda>kv. flat (snd kv) \<and> encodable (snd kv)) payload" and "distinct (ids payload)"
  shows "wire_ok (fold wire_step payload m)
    \<and> (map_of CBOR_V2_KEYS name = Some n \<longrightarrow> clookup (fold wire_step payload m) (KInt n)
        = (case clookup payload (KStr name) of Some v \<Rightarrow> Some v | None \<Rightarrow> clookup m (KInt n)))"
  using assms
proof (induction payload arbitrary: m)
  case (Cons kv payload)
  let ?m = "wire_step kv m"
  have ok: "wire_ok ?m" using Cons.prems by (intro wire_step_ok) auto
  have ih: "wire_ok (fold wire_step payload ?m)
    \<and> (map_of CBOR_V2_KEYS name = Some n \<longrightarrow> clookup (fold wire_step payload ?m) (KInt n)
        = (case clookup payload (KStr name) of Some v \<Rightarrow> Some v | None \<Rightarrow> clookup ?m (KInt n)))"
    using Cons.prems ok by (intro Cons.IH) auto
  have new: "clookup ?m (KInt n) = (if fst kv = KStr name then Some (snd kv) else clookup m (KInt n))"
    if "map_of CBOR_V2_KEYS name = Some n"
  proof (cases "wire_key (fst kv)")
    case None
    with that have "fst kv \<noteq> KStr name" by (auto simp: wire_key_def)
    with None show ?thesis by (simp add: wire_step_def)
  next
    case (Some j)
    then obtain nm where nm: "fst kv = KStr nm" "map_of CBOR_V2_KEYS nm = Some j" by (auto simp: wire_key_text)
    with that code_inj[of name n nm] have "(j = n) = (nm = name)" by auto
    with Some nm show ?thesis by (simp add: wire_step_def clookup_cset)
  qed
  have same: "(key_id (fst kv) = key_id (KStr name)) = (fst kv = KStr name)" by (rule key_id_text)
  have absent: "clookup payload (KStr name) = None" if "fst kv = KStr name"
    using Cons.prems(3) that by (simp add: clookup_def map_of_eq_None_iff image_image)
  obtain k v where kv: "kv = (k, v)" by (cases kv)
  show ?case
  proof (cases "k = KStr name")
    case True
    with ih new absent kv show ?thesis by simp
  next
    case False
    with ih new same kv show ?thesis by (simp split: option.split)
  qed
qed simp

text \<open>Reading a wire map back: every code becomes its name.\<close>

definition wire_value :: "string \<Rightarrow> cbor \<Rightarrow> cbor" where
  "wire_value name v = (if name = ''message_kind'' \<and> cbor_int v \<noteq> None then kind_name v (the (cbor_int v)) else v)"

definition wire_name :: "ckey \<Rightarrow> string" where
  "wire_name k = (case key_int k of Some n \<Rightarrow> the (map_of CBOR_V2_KEY_NAMES n) | None \<Rightarrow> [])"

lemma logical_code: "map_of CBOR_V2_KEYS name = Some n \<Longrightarrow> logical_key (KInt n) = KStr name \<and> wire_name (KInt n) = name"
  using key_names[of n name] by (simp add: logical_key_def wire_name_def)

lemma logical_wire:
  assumes "wire_ok m"
  shows "cbor_map_to_logical m = map (\<lambda>kv. (KStr (wire_name (fst kv)), wire_value (wire_name (fst kv)) (snd kv))) m"
proof -
  let ?r = "\<lambda>kv. (KStr (wire_name (fst kv)), wire_value (wire_name (fst kv)) (snd kv))"
  let ?t = "\<lambda>kv. (logical_key (fst kv), if logical_key (fst kv) = KStr ''message_kind'' \<and> cbor_int (snd kv) \<noteq> None
      then kind_name (snd kv) (the (cbor_int (snd kv))) else logical_value (snd kv))"
  have same: "?t kv = ?r kv" if "kv \<in> set m" for kv
  proof -
    from assms that obtain n name where "fst kv = KInt n" "map_of CBOR_V2_KEYS name = Some n" "flat (snd kv)"
      by (auto simp: wire_ok_def)
    with logical_code[of name n] flat_fixed[of "snd kv"] show ?thesis by (auto simp add: wire_value_def)
  qed
  have "distinct (map (\<lambda>kv. wire_name (fst kv)) m)"
  proof -
    have d: "distinct (ids m)" using assms by (simp add: wire_ok_def)
    have names: "key_id (fst a) = key_id (fst b)"
      if ab: "a \<in> set m" "b \<in> set m" "wire_name (fst a) = wire_name (fst b)" for a b
    proof -
      from wire_okD[OF assms ab(1)] wire_okD[OF assms ab(2)] obtain i j na nb where
        c: "fst a = KInt i" "map_of CBOR_V2_KEYS na = Some i" "fst b = KInt j" "map_of CBOR_V2_KEYS nb = Some j" by blast
      with ab(3) logical_code[of na i] logical_code[of nb j] show ?thesis by simp
    qed
    have "inj_on (\<lambda>kv. wire_name (fst kv)) (set m)"
      using d names by (intro inj_onI) (metis (no_types, lifting) distinct_map inj_onD)
    with d show ?thesis by (simp add: distinct_map)
  qed
  then have dist: "distinct (ids ([] @ map ?r m))" by (simp add: comp_def distinct_map inj_on_def)
  have "map ?t m = map ?r m" by (rule map_cong[OF refl same])
  then have "logical_value (CMap m) = CMap (fold (\<lambda>(k, v) acc. cset acc k v) (map ?r m) [])"
    by (simp only: logical_value.simps)
  with fold_cset[OF dist] show ?thesis by (simp add: cbor_map_to_logical_def)
qed

lemma clookup_logical:
  assumes "wire_ok m" and "map_of CBOR_V2_KEYS name = Some n"
  shows "clookup (cbor_map_to_logical m) (KStr name) = map_option (wire_value name) (clookup m (KInt n))"
  using assms(1) unfolding logical_wire[OF assms(1)]
proof (induction m)
  case (Cons kv m)
  have ok: "wire_ok m" using Cons.prems by (simp add: wire_ok_def)
  from Cons.prems obtain j nm where c: "fst kv = KInt j" "map_of CBOR_V2_KEYS nm = Some j" by (auto simp: wire_ok_def)
  then have "wire_name (fst kv) = nm" using logical_code[of nm j] by simp
  moreover have "(nm = name) = (j = n)" using c assms(2) code_inj[of nm j name] by auto
  ultimately show ?case using Cons.IH[OF ok] c by (cases kv) auto
qed simp

lemma clookup_unknown:
  assumes "wire_ok m" and "map_of CBOR_V2_KEYS name = None"
  shows "clookup (cbor_map_to_logical m) (KStr name) = None"
  using assms(1) unfolding logical_wire[OF assms(1)]
proof (induction m)
  case (Cons kv m)
  have ok: "wire_ok m" using Cons.prems by (simp add: wire_ok_def)
  from Cons.prems obtain j nm where c: "fst kv = KInt j" "map_of CBOR_V2_KEYS nm = Some j" by (auto simp: wire_ok_def)
  then have "wire_name (fst kv) = nm" using logical_code[of nm j] by simp
  with Cons.IH[OF ok] c assms(2) show ?case by (cases kv) auto
qed simp

text \<open>A wire map is encodable, and the order of its entries does not matter to its reader.\<close>

lemma wire_encodable: "wire_ok m \<Longrightarrow> encodable (CMap m) \<and> wf_cbor (CMap m)"
proof -
  assume ok: "wire_ok m"
  have keys: "\<exists>n. fst kv = KInt n \<and> 0 \<le> n \<and> n < 256 \<and> encodable (snd kv) \<and> wf_cbor (snd kv)" if "kv \<in> set m" for kv
    using ok that table_codes(1) flat_fixed by (fastforce simp: wire_ok_def)
  have "set (ids m) \<subseteq> (\<lambda>n. (Some n, None)) ` {0..<256}" using keys by fastforce
  then have "card (set (ids m)) \<le> card ((\<lambda>n. (Some n, None :: string option)) ` {0..<256 :: int})"
    by (intro card_mono) auto
  also have "\<dots> \<le> 256" using card_image_le[of "{0..<256 :: int}" "\<lambda>n. (Some n, None :: string option)"] by simp
  finally have "length m \<le> 256" using ok distinct_card[of "ids m"] by (simp add: wire_ok_def)
  moreover have "list_all (\<lambda>kv. key_text (fst kv) = None) m"
    "list_all (\<lambda>kv. encodable_key (fst kv) \<and> encodable (snd kv)) m" "\<forall>kv \<in> set m. wf_cbor (snd kv)"
    using keys by (fastforce simp: list_all_iff)+
  ultimately show ?thesis using ok by (simp add: wire_ok_def)
qed

lemma wire_transfer:
  assumes "wire_ok m"
  shows "\<exists>bs s. cbor_encode (CMap m) = Inr bs \<and> decode_payload_cbor bs = Inr (cbor_map_to_logical s)
    \<and> wire_ok s \<and> (\<forall>k. clookup s k = clookup m k)"
proof -
  from cbor_roundtrip_aux[of "CMap m"] wire_encodable[OF assms] obtain bs where
    bs: "cbor_encode (CMap m) = Inr bs" "cbor_decode bs = Inr (canon (CMap m))" by blast
  have fixed: "map (\<lambda>kv. (fst kv, canon (snd kv))) m = m"
    using assms flat_fixed by (intro map_idI) (auto simp: wire_ok_def)
  let ?s = "sorted_items m"
  have perm: "mset ?s = mset m"
    using sort_items_perm[of m] by (simp add: sorted_items_def split: sum.split)
  then have "set ?s = set m" "distinct (ids ?s)"
    using mset_eq_setD assms mset_eq_imp_distinct_iff[of "ids ?s" "ids m"] by (auto simp: wire_ok_def)
  then have "wire_ok ?s" using assms by (simp add: wire_ok_def)
  moreover have "clookup ?s k = clookup m k" for k
    using clookup_perm[OF perm] \<open>distinct (ids ?s)\<close> by blast
  moreover have "decode_payload_cbor bs = Inr (cbor_map_to_logical ?s)"
    using bs(2) fixed by (simp add: decode_payload_cbor_def)
  ultimately show ?thesis using bs(1) by blast
qed

text \<open>C34: A payload survives the wire. Encoding a logical payload of flat values for a known message
  kind and decoding the bytes gives back, for every field name of the protocol, the value of the
  payload, with schema version 2 and the message kind added; a name the protocol does not know is
  dropped, and a payload that has its own schema_version or message_kind field overrides the added one.\<close>

theorem payload_roundtrip:
  assumes "distinct (ids payload)" and "list_all (\<lambda>kv. flat (snd kv) \<and> encodable (snd kv)) payload"
    and "kind \<in> set (map fst CBOR_V2_MESSAGE_KINDS)"
  shows "\<exists>bs m. encode_payload_cbor payload kind = Inr bs \<and> decode_payload_cbor bs = Inr m
    \<and> clookup m (KStr name) = (if name \<notin> set (map fst CBOR_V2_KEYS) then None
       else case clookup payload (KStr name) of
         Some v \<Rightarrow> Some (wire_value name v)
       | None \<Rightarrow> if name = ''schema_version'' then Some (CInt 2)
           else if name = ''message_kind'' then Some (CStr kind) else None)"
proof -
  from assms(3) obtain kn where kn: "map_of CBOR_V2_MESSAGE_KINDS kind = Some kn"
    by (metis map_of_eq_None_iff not_None_eq set_map)
  let ?h = "[(KInt 0, CInt 2), (KInt 1, CInt kn)]"
  let ?m = "fold wire_step payload ?h"
  have h: "wire_ok ?h"
    using header_keys table_codes(2)[OF kn] by (auto simp: wire_ok_def flat_def)
  have to: "logical_to_cbor_map payload kind = Inr ?m" using kn by (simp add: to_cbor_map)
  have ok: "wire_ok ?m" using wire_fold[OF h assms(2,1)] by blast
  obtain bs s where w: "cbor_encode (CMap ?m) = Inr bs" "decode_payload_cbor bs = Inr (cbor_map_to_logical s)"
    "wire_ok s" "\<forall>k. clookup s k = clookup ?m k" using wire_transfer[OF ok] by blast
  have enc: "encode_payload_cbor payload kind = Inr bs" using to w(1) by (simp add: encode_payload_cbor_def del: cbor_encode.simps)
  show ?thesis
  proof (cases "map_of CBOR_V2_KEYS name")
    case None
    then have "name \<notin> set (map fst CBOR_V2_KEYS)" by (simp add: map_of_eq_None_iff)
    with enc w(2) clookup_unknown[OF w(3) None] show ?thesis by auto
  next
    case (Some n)
    then have known: "name \<in> set (map fst CBOR_V2_KEYS)" by (metis map_of_eq_None_iff option.distinct(1) set_map)
    have "(n = 0) = (name = ''schema_version'')" "(n = 1) = (name = ''message_kind'')"
      using Some header_keys code_inj[of name n "''schema_version''"] code_inj[of name n "''message_kind''"] by auto
    then have "clookup ?h (KInt n) = (if name = ''schema_version'' then Some (CInt 2)
        else if name = ''message_kind'' then Some (CInt kn) else None)"
      by auto
    moreover have "wire_value ''schema_version'' (CInt 2) = CInt 2"
      "wire_value ''message_kind'' (CInt kn) = CStr kind"
      using kind_names[of kn kind] kn by (simp_all add: wire_value_def kind_name_def)
    moreover have "clookup ?m (KInt n) = (case clookup payload (KStr name) of Some v \<Rightarrow> Some v | None \<Rightarrow> clookup ?h (KInt n))"
      using wire_fold[OF h assms(2,1)] Some by blast
    moreover have "clookup (cbor_map_to_logical s) (KStr name) = map_option (wire_value name) (clookup ?m (KInt n))"
      using clookup_logical[OF w(3) Some] w(4) by simp
    ultimately have "clookup (cbor_map_to_logical s) (KStr name) = (case clookup payload (KStr name) of
         Some v \<Rightarrow> Some (wire_value name v)
       | None \<Rightarrow> if name = ''schema_version'' then Some (CInt 2)
           else if name = ''message_kind'' then Some (CStr kind) else None)"
      by (auto split: option.split)
    with enc w(2) known show ?thesis by auto
  qed
qed

theorem payload_roundtrip_witness:
  "\<exists>bs m. encode_payload_cbor [(KStr ''lease_id'', CStr ''l-1''), (KStr ''ttl_ms'', CInt 30000)] ''lease_acquire_request'' = Inr bs
    \<and> decode_payload_cbor bs = Inr m \<and> clookup m (KStr ''lease_id'') = Some (CStr ''l-1'')"
proof -
  have "distinct (ids [(KStr ''lease_id'', CStr ''l-1''), (KStr ''ttl_ms'', CInt 30000)])"
    "list_all (\<lambda>kv. flat (snd kv) \<and> encodable (snd kv)) [(KStr ''lease_id'', CStr ''l-1''), (KStr ''ttl_ms'', CInt 30000)]"
    "''lease_acquire_request'' \<in> set (map fst CBOR_V2_MESSAGE_KINDS)"
    "''lease_id'' \<in> set (map fst CBOR_V2_KEYS)" "wire_value ''lease_id'' (CStr ''l-1'') = CStr ''l-1''"
    by (simp_all add: CBOR_V2_MESSAGE_KINDS_def CBOR_V2_KEYS_def flat_def scalar_def utf8_encode_def utf8_char_def
        wire_value_def)
  note facts = this
  from payload_roundtrip[OF facts(1-3), of "''lease_id''"] facts(4,5) show ?thesis
    by (simp only: clookup_simps key_id_simps simp_thms if_True if_False option.case prod.inject option.inject)
qed

section \<open>Lemmas: routes\<close>

definition no_slash :: "string \<Rightarrow> bool" where
  "no_slash s \<longleftrightarrow> CHR ''/'' \<notin> set s"

lemma split_no_slash: "no_slash s \<Longrightarrow> split_slash s = [s]"
  by (induction s) (auto simp: no_slash_def)

lemma split_segment: "no_slash s \<Longrightarrow> split_slash (s @ CHR ''/'' # r) = s # split_slash r"
  by (induction s) (auto simp: no_slash_def)

lemma split_length: "1 \<le> length (split_slash s)"
  by (induction s) (auto split: list.split)

lemma segments: "no_slash ''neuro''" "no_slash ''query''" "no_slash ''cmd''" "no_slash ''lease''" "no_slash ''app''"
  "no_slash ''update''"
  by (simp_all add: no_slash_def)

lemma split_routes:
  assumes "no_slash node"
  shows "split_slash (query_route node kind) = ''neuro'' # node # ''query'' # split_slash kind"
    "split_slash (lease_route node action) = ''neuro'' # node # ''cmd'' # ''lease'' # split_slash action"
    "no_slash app \<Longrightarrow> split_slash (app_command_route node app command)
      = ''neuro'' # node # ''cmd'' # ''app'' # app # split_slash command"
    "no_slash app \<Longrightarrow> split_slash (update_route node app stage)
      = ''neuro'' # node # ''update'' # ''app'' # app # split_slash stage"
proof -
  have e: "''neuro/'' @ node @ CHR ''/'' # r = ''neuro'' @ CHR ''/'' # node @ CHR ''/'' # r" for r by simp
  note seg = split_segment[OF segments(1)] split_segment[OF segments(2)] split_segment[OF segments(3)]
    split_segment[OF segments(4)] split_segment[OF segments(5)] split_segment[OF segments(6)] split_segment[OF assms]
  show "split_slash (query_route node kind) = ''neuro'' # node # ''query'' # split_slash kind"
    using seg(1)[of "node @ ''/query/'' @ kind"] seg(7)[of "''query/'' @ kind"] seg(2)[of kind] by (simp add: query_route_def)
  show "split_slash (lease_route node action) = ''neuro'' # node # ''cmd'' # ''lease'' # split_slash action"
    using seg(1)[of "node @ ''/cmd/lease/'' @ action"] seg(7)[of "''cmd/lease/'' @ action"] seg(3)[of "''lease/'' @ action"]
      seg(4)[of action] by (simp add: lease_route_def)
  assume app: "no_slash app"
  show "split_slash (app_command_route node app command)
      = ''neuro'' # node # ''cmd'' # ''app'' # app # split_slash command"
    using seg(1)[of "node @ ''/cmd/app/'' @ app @ ''/'' @ command"] seg(7)[of "''cmd/app/'' @ app @ ''/'' @ command"]
      seg(3)[of "''app/'' @ app @ ''/'' @ command"] seg(5)[of "app @ ''/'' @ command"] split_segment[OF app, of command]
    by (simp add: app_command_route_def)
  show "split_slash (update_route node app stage)
      = ''neuro'' # node # ''update'' # ''app'' # app # split_slash stage"
    using seg(1)[of "node @ ''/update/app/'' @ app @ ''/'' @ stage"] seg(7)[of "''update/app/'' @ app @ ''/'' @ stage"]
      seg(6)[of "''app/'' @ app @ ''/'' @ stage"] seg(5)[of "app @ ''/'' @ stage"] split_segment[OF app, of stage]
    by (simp add: update_route_def)
qed

text \<open>Every route builder builds a route of its message kind. For a node and an app id without a
  slash, the message kind of a query route is a query request, of a lease route the acquire or
  release request, of an update route the request of its stage, and of an app command route an app
  command, or a callback configuration when an invoke carries one of its fields; any other lease
  action or update stage is an unsupported route.\<close>

theorem route_kinds_exact:
  assumes "no_slash node" and "no_slash app" and "no_slash action"
  shows "message_kind_for_keyexpr (query_route node kind) keys = Inr ''query_request''
    \<and> message_kind_for_keyexpr (lease_route node action) keys =
       (if action = ''acquire'' then Inr ''lease_acquire_request''
        else if action = ''release'' then Inr ''lease_release_request'' else unsupported_route (lease_route node action))
    \<and> message_kind_for_keyexpr (update_route node app action) keys =
       (case map_of update_kinds action of Some k \<Rightarrow> Inr k | None \<Rightarrow> unsupported_route (update_route node app action))
    \<and> message_kind_for_keyexpr (app_command_route node app action) keys =
       Inr (case keys of None \<Rightarrow> ''app_command_request'' | Some fs \<Rightarrow>
         if action = ''invoke'' \<and> list_ex (\<lambda>k. k \<in> {''callback_enabled'', ''trigger_every'', ''event_name''}) fs
         then ''callback_config_request'' else ''app_command_request'')"
proof -
  note routes = split_routes(1,2)[OF assms(1)] split_routes(3,4)[OF assms(1,2)]
  have q: "message_kind_for_keyexpr (query_route node kind) keys = Inr ''query_request''"
    using split_length[of kind] by (simp add: message_kind_for_keyexpr_def routes(1) Let_def)
  have l: "message_kind_for_keyexpr (lease_route node action) keys =
       (if action = ''acquire'' then Inr ''lease_acquire_request''
        else if action = ''release'' then Inr ''lease_release_request'' else unsupported_route (lease_route node action))"
    by (simp add: message_kind_for_keyexpr_def routes(2) split_no_slash[OF assms(3)] Let_def eval_nat_numeral)
  have u: "message_kind_for_keyexpr (update_route node app action) keys =
       (case map_of update_kinds action of Some k \<Rightarrow> Inr k | None \<Rightarrow> unsupported_route (update_route node app action))"
    by (simp add: message_kind_for_keyexpr_def routes(4) split_no_slash[OF assms(3)] Let_def eval_nat_numeral)
  have a: "message_kind_for_keyexpr (app_command_route node app action) keys =
       Inr (case keys of None \<Rightarrow> ''app_command_request'' | Some fs \<Rightarrow>
         if action = ''invoke'' \<and> list_ex (\<lambda>k. k \<in> {''callback_enabled'', ''trigger_every'', ''event_name''}) fs
         then ''callback_config_request'' else ''app_command_request'')"
    by (simp add: message_kind_for_keyexpr_def routes(3) split_no_slash[OF assms(3)] Let_def eval_nat_numeral list_ex_iff
        split: option.split)
  from q l u a show ?thesis by blast
qed

theorem route_kinds_exact_witness:
  "message_kind_for_keyexpr (update_route ''unit-01'' ''demo'' ''activate'') None = Inr ''update_activate_request''
   \<and> message_kind_for_keyexpr (query_route ''unit-01'' ''device'') None = Inr ''query_request''"
proof -
  have "no_slash ''unit-01''" "no_slash ''demo''" "no_slash ''activate''" by (simp_all add: no_slash_def)
  from route_kinds_exact[OF this, of "''device''" None] show ?thesis by (simp add: update_kinds_def)
qed

lemma drawn_nonempty: "(if s \<noteq> [] then (s, w) else new_id (c # p) w) = (r, w') \<Longrightarrow> r \<noteq> []"
  by (auto simp: new_id_def split: if_splits)

lemma protected_shape:
  assumes "protected_write_payload args w = Inr pw"
  obtains t rid key w' where "py_int (PFloat (milliseconds (ca_timeout args))) = Inr t" "rid \<noteq> []" "key \<noteq> []"
    "pw = ([(''request_id'', PStr rid), (''source_core'', PStr (ca_source_core args)),
       (''source_agent'', PStr (ca_source_agent args)), (''target_node'', PStr (ca_node args)),
       (''timeout_ms'', PInt t), (''priority'', PInt (ca_priority args)), (''idempotency_key'', PStr key),
       (''lease_id'', PStr (ca_lease_id args))], w')"
proof -
  obtain rid w1 where r: "(if ca_request_id args \<noteq> [] then (ca_request_id args, w) else make_request_id w) = (rid, w1)"
    by (metis surj_pair)
  obtain key w2 where k: "(if ca_idempotency_key args \<noteq> [] then (ca_idempotency_key args, w1) else make_idempotency_key w1) = (key, w2)"
    by (metis surj_pair)
  have "rid \<noteq> []" "key \<noteq> []"
    using drawn_nonempty r k unfolding make_request_id_def make_idempotency_key_def by blast+
  moreover from assms r k obtain t where "py_int (PFloat (milliseconds (ca_timeout args))) = Inr t"
    "pw = ([(''request_id'', PStr rid), (''source_core'', PStr (ca_source_core args)),
       (''source_agent'', PStr (ca_source_agent args)), (''target_node'', PStr (ca_node args)),
       (''timeout_ms'', PInt t), (''priority'', PInt (ca_priority args)), (''idempotency_key'', PStr key),
       (''lease_id'', PStr (ca_lease_id args))], w2)"
    unfolding protected_write_payload_def write_payload_def base_payload_def
    by (auto simp only: r k Let_def prod.case ebind_eq_Inr) (auto simp: r k dset_def)
  ultimately show thesis using that by blast
qed

text \<open>A protected write payload passes its own validation exactly when the command line gave a
  source core, a source agent, a node and a lease id and the timeout is at least a millisecond in size:
  the request id and the idempotency key are never missing, being drawn when they are not given.\<close>

theorem protected_payload_valid:
  "case protected_write_payload args w of Inl _ \<Rightarrow> True
   | Inr (payload, w') \<Rightarrow> (validate_payload payload ''protected'' = Inr ()) =
       (ca_source_core args \<noteq> [] \<and> ca_source_agent args \<noteq> [] \<and> ca_node args \<noteq> [] \<and> ca_lease_id args \<noteq> []
        \<and> py_int (PFloat (milliseconds (ca_timeout args))) \<noteq> Inr 0)"
proof (cases "protected_write_payload args w")
  case (Inr pw)
  then obtain t rid key w' where t: "py_int (PFloat (milliseconds (ca_timeout args))) = Inr t"
    and nonempty: "rid \<noteq> []" "key \<noteq> []"
    and p: "pw = ([(''request_id'', PStr rid), (''source_core'', PStr (ca_source_core args)),
       (''source_agent'', PStr (ca_source_agent args)), (''target_node'', PStr (ca_node args)),
       (''timeout_ms'', PInt t), (''priority'', PInt (ca_priority args)), (''idempotency_key'', PStr key),
       (''lease_id'', PStr (ca_lease_id args))], w')"
    by (rule protected_shape)
  show ?thesis
    using nonempty unfolding Inr p t by (auto simp: validate_payload_def common_fields_def missing_value_def)
qed simp

end
