(* ===== verification/CliAdapter.thy ===== *)
theory CliAdapter
  imports Gate
begin

text \<open>
  \<open>NeuroCliToolAdapter\<close> of \<open>neurolink_core/tools.py\<close>: tools as commands of the Neuro CLI. The adapter keeps
  the tool manifest it read once; every other state is that of the runner, which takes a command line
  and answers with an exit code and text, or raises. The operations are programs over the adapter's
  state and the environment, so that what they did before an exception stays done. Paths and
  \<open>sys.executable\<close> are text of the configuration; \<open>cl_real_process\<close> says that the runner is the one
  that starts a process.
\<close>

record 'a cli =
  cl_node :: string
  cl_source_core :: string
  cl_source_agent :: string
  cl_timeout_seconds :: int
  cl_python_executable :: string
  cl_wrapper_path :: string
  cl_runner :: "'a runner"
  cl_real_process :: bool

type_synonym 'a cli_state = "'a \<times> ToolContract list option"

type_synonym ('a, 'x) cli_prog = "('a cli_state \<times> env, 'x) prog"

section \<open>Commands and their answers\<close>

definition base_command :: "'a cli \<Rightarrow> string \<Rightarrow> string list" where
  "base_command c output = [cl_python_executable c, cl_wrapper_path c, ''--output'', output, ''--node'', cl_node c,
     ''--source-core'', cl_source_core c, ''--source-agent'', cl_source_agent c, ''--timeout'', dec_int (cl_timeout_seconds c)]"

text \<open>\<open>self.runner(argv, timeout)\<close>.\<close>

definition cli_run :: "'a cli \<Rightarrow> string list \<Rightarrow> int \<Rightarrow> ('a, CommandExecutionResult) cli_prog" where
  "cli_run c argv timeout = pupdate (\<lambda>((a, cache), w). ebind (cl_runner c argv timeout (a, w)) (\<lambda>(r, a', w'). Inr (r, (a', cache), w')))"

text \<open>The document on the standard output, as a whole: a text around it is an error.\<close>

definition parse_json_stdout :: "CommandExecutionResult \<Rightarrow> dict result" where
  "parse_json_stdout r = (case json_loads (cr_stdout r) of
     Inl (ValueError _) \<Rightarrow> if cr_exit_code r \<noteq> 0 then Inl (ValueError (''command_exit_'' @ dec_int (cr_exit_code r)))
       else Inl (ValueError ''parse_failed'')
   | Inl e \<Rightarrow> Inl e
   | Inr (PDict d) \<Rightarrow> Inr d
   | Inr _ \<Rightarrow> Inl (ValueError ''parse_failed''))"

text \<open>\<open>str.splitlines()\<close> on Latin-1 text: no empty line after a final line end.\<close>

definition is_line_end :: "char \<Rightarrow> bool" where
  "is_line_end ch \<longleftrightarrow> code_point ch \<in> {10, 11, 12, 13, 28, 29, 30, 133}"

fun split_lines :: "string \<Rightarrow> string list" where
  "split_lines [] = []"
| "split_lines (ch # s) = (if is_line_end ch
     then [] # (case s of [] \<Rightarrow> []
       | d # t \<Rightarrow> if code_point ch = 13 \<and> code_point d = 10 then split_lines t else split_lines s)
     else case split_lines s of [] \<Rightarrow> [[ch]] | l # ls \<Rightarrow> (ch # l) # ls)"

definition parse_jsonl_stdout :: "CommandExecutionResult \<Rightarrow> dict list result" where
  "parse_jsonl_stdout r =
     ebind (emap (\<lambda>line. ebind (json_loads line) (\<lambda>payload. case payload of PDict d \<Rightarrow> Inr d | _ \<Rightarrow> Inl (ValueError ''parse_failed'')))
       (filter (\<lambda>line. str_strip line \<noteq> []) (split_lines (cr_stdout r)))) (\<lambda>rows.
     if cr_exit_code r \<noteq> 0 then Inl (ValueError (''command_exit_'' @ dec_int (cr_exit_code r))) else Inr rows)"


section \<open>The manifest\<close>

text \<open>The first call reads the manifest with a command, every later one answers from the cache.\<close>

definition cli_tool_manifest :: "'a cli \<Rightarrow> ('a, ToolContract list) cli_prog" where
  "cli_tool_manifest c = pbind (pread (\<lambda>((_, cache), _). cache)) (\<lambda>cache.
     case cache of Some contracts \<Rightarrow> pret contracts
     | None \<Rightarrow> pbind (cli_run c (base_command c ''json'' @ [''system'', ''tool-manifest'']) (cl_timeout_seconds c)) (\<lambda>r.
         pbind (plift (parse_json_stdout r)) (\<lambda>payload.
         if \<not> truthy (dget payload ''ok'') then pfail (ValueError (str_or (dget payload ''status'') ''tool_manifest_failed''))
         else pbind (plift (parse_tool_manifest_payload payload)) (\<lambda>contracts.
           pupdate (\<lambda>((a, _), w). Inr (contracts, (a, Some contracts), w))))))"

definition cli_tool_manifest_payload :: "'a cli \<Rightarrow> ('a, dict) cli_prog" where
  "cli_tool_manifest_payload c = pbind (cli_tool_manifest c) (\<lambda>contracts. pret [
     (''ok'', PBool True), (''status'', PStr ''ok''), (''schema_version'', PStr TOOL_MANIFEST_SCHEMA_VERSION),
     (''tools'', PList (map (\<lambda>k. PDict (ToolContract_to_dict k)) contracts))])"

definition cli_describe_tool :: "'a cli \<Rightarrow> string \<Rightarrow> ('a, ToolContract option) cli_prog" where
  "cli_describe_tool c tool_name = pbind (cli_tool_manifest c) (\<lambda>contracts.
     pret (find (\<lambda>k. tc_tool_name k = tool_name) contracts))"

definition cli_runtime_metadata :: "'a cli \<Rightarrow> dict" where
  "cli_runtime_metadata c = [
     (''adapter_kind'', PStr ''neuro-cli''), (''runtime_source'', PStr ''neuro_cli_wrapper''),
     (''wrapper_path'', PStr (cl_wrapper_path c)), (''node'', PStr (cl_node c)),
     (''source_core'', PStr (cl_source_core c)), (''source_agent'', PStr (cl_source_agent c)),
     (''supports_real_process'', PBool (cl_real_process c)), (''timeout_seconds'', PInt (cl_timeout_seconds c))]"

section \<open>The command of a contract\<close>

fun drop_output_option :: "string list \<Rightarrow> string list" where
  "drop_output_option [] = []"
| "drop_output_option (token # argv) = (if token = ''--output''
     then (case argv of [] \<Rightarrow> [] | _ # rest \<Rightarrow> drop_output_option rest)
     else token # drop_output_option argv)"

definition contract_command_suffix :: "ToolContract \<Rightarrow> string list" where
  "contract_command_suffix k = (let argv = tc_argv_template k in
     drop_output_option (if 2 \<le> length argv then drop 2 argv else argv))"

text \<open>\<open>v not in (None, "")\<close>.\<close>

definition given :: "pyval \<Rightarrow> bool" where
  "given v \<longleftrightarrow> v \<noteq> PNone \<and> v \<noteq> PStr []"

definition candidate_keys :: "string \<Rightarrow> string list" where
  "candidate_keys argument_name = str_replace_char (CHR ''-'') ''_'' (dropWhile (\<lambda>ch. ch = CHR ''-'') argument_name)
     # (if argument_name = ''--app-id'' then [''app'', ''app_id''] else [])
     @ (if argument_name = ''--lease-id'' then [''lease_id''] else [])
     @ (if argument_name = ''--start-args'' then [''start_args''] else [])"

definition argument_option :: "dict \<Rightarrow> string \<Rightarrow> string list" where
  "argument_option args argument_name = (if argument_name = ''--node'' then []
     else case find given (map (dget args) (candidate_keys argument_name)) of
       Some v \<Rightarrow> [argument_name, py_str v] | None \<Rightarrow> [])"

definition build_contract_command_with_args :: "'a cli \<Rightarrow> ToolContract \<Rightarrow> dict \<Rightarrow> string list" where
  "build_contract_command_with_args c k args = (
     let argv = base_command c ''json'' @ contract_command_suffix k @ concat (map (argument_option args) (tc_required_arguments k));
         start_args = dget args ''start_args'' in
     if given start_args \<and> ''--start-args'' \<notin> set argv then argv @ [''--start-args'', py_str start_args] else argv)"

text \<open>The answer and its document, or the failure of its text.\<close>

definition execute_raw_contract_command ::
    "'a cli \<Rightarrow> ToolContract \<Rightarrow> dict \<Rightarrow> ('a, CommandExecutionResult \<times> (string + dict)) cli_prog" where
  "execute_raw_contract_command c k args =
     pbind (cli_run c (build_contract_command_with_args c k args) (tc_timeout_seconds k)) (\<lambda>r.
     case parse_json_stdout r of
       Inl (ValueError failure) \<Rightarrow> pret (r, Inl failure) | Inl e \<Rightarrow> pfail e | Inr payload \<Rightarrow> pret (r, Inr payload))"

section \<open>The app and the lease of a control\<close>

text \<open>The rows of the first reply that carries a list under the key: apps or leases.\<close>

definition rows_in :: "string \<Rightarrow> pyval \<Rightarrow> dict list option" where
  "rows_in key v = (case v of PDict d \<Rightarrow> (case dget d key of PList rows \<Rightarrow> Some (dicts_of rows) | _ \<Rightarrow> None) | _ \<Rightarrow> None)"

definition extract_rows :: "string \<Rightarrow> dict \<Rightarrow> dict list" where
  "extract_rows key result_payload = (case first_some (rows_in key) (reply_payloads result_payload) of Some rows \<Rightarrow> rows | None \<Rightarrow> [])"

definition extract_apps_payload :: "dict \<Rightarrow> dict list" where
  "extract_apps_payload = extract_rows ''apps''"

definition extract_lease_rows :: "dict \<Rightarrow> dict list" where
  "extract_lease_rows = extract_rows ''leases''"

text \<open>A query for its rows; a tool that is not in the manifest and an answer without a document have none.\<close>

definition query_rows :: "'a cli \<Rightarrow> string \<Rightarrow> (dict \<Rightarrow> dict list) \<Rightarrow> ('a, dict list) cli_prog" where
  "query_rows c tool extract = pbind (cli_describe_tool c tool) (\<lambda>contract. case contract of
     None \<Rightarrow> pret []
   | Some k \<Rightarrow> pbind (execute_raw_contract_command c k []) (\<lambda>(_, answer).
       pret (case answer of Inl _ \<Rightarrow> [] | Inr payload \<Rightarrow> extract payload)))"

definition only_app :: "dict list \<Rightarrow> string" where
  "only_app observed_apps = (case observed_apps of
     [d] \<Rightarrow> str_or (por (por (dget d ''app_id'') (dget d ''name'')) (dget d ''app'')) [] | _ \<Rightarrow> [])"

definition resolve_app_id :: "'a cli \<Rightarrow> dict \<Rightarrow> ('a, string) cli_prog" where
  "resolve_app_id c args = (if app_arg [] args \<noteq> [] then pret (app_arg [] args)
     else pbind (query_rows c ''system_query_apps'' extract_apps_payload) (\<lambda>rows. pret (only_app rows)))"

text \<open>The first lease on the resource that has an id.\<close>

definition lease_on :: "string \<Rightarrow> dict list \<Rightarrow> string" where
  "lease_on target_resource rows = (
     case filter (\<lambda>i. i \<noteq> []) (map (\<lambda>lease. str_or (dget lease ''lease_id'') [])
         (filter (\<lambda>lease. str_or (dget lease ''resource'') [] = target_resource) rows)) of
       [] \<Rightarrow> [] | i # _ \<Rightarrow> i)"

definition resolve_lease_id :: "'a cli \<Rightarrow> dict \<Rightarrow> string \<Rightarrow> ('a, string) cli_prog" where
  "resolve_lease_id c args target_resource = (
     let lease_id = str_or (dget args ''lease_id'') [] in
     if lease_id \<noteq> [] then pret lease_id
     else pbind (query_rows c ''system_query_leases'' extract_lease_rows) (\<lambda>rows. pret (lease_on target_resource rows)))"

definition with_app_and_lease :: "dict \<Rightarrow> string \<Rightarrow> string \<Rightarrow> dict" where
  "with_app_and_lease args app_id lease_id =
     dsetdefault (dsetdefault (dsetdefault args ''app_id'' (PStr app_id)) ''app'' (PStr app_id)) ''lease_id'' (PStr lease_id)"

text \<open>What the controls and the rollback have in common; Inl is the failure the rollback reports.\<close>

definition resolve_leased_args :: "'a cli \<Rightarrow> (string \<Rightarrow> string) \<Rightarrow> dict \<Rightarrow> ('a, string + dict) cli_prog" where
  "resolve_leased_args c target args = pbind (resolve_app_id c args) (\<lambda>app_id.
     if app_id = [] then pret (Inl ''rollback_args_unresolved'')
     else pbind (resolve_lease_id c args (target app_id)) (\<lambda>lease_id.
       if lease_id = [] then pret (Inl ''lease_not_found'')
       else pret (Inr (with_app_and_lease args app_id lease_id))))"

definition control_resource :: "string \<Rightarrow> string" where
  "control_resource app_id = ''app/'' @ app_id @ ''/control''"

definition resolve_control_app_args :: "'a cli \<Rightarrow> dict \<Rightarrow> ('a, dict option) cli_prog" where
  "resolve_control_app_args c args = pbind (resolve_leased_args c control_resource args) (\<lambda>r.
     pret (case r of Inl _ \<Rightarrow> None | Inr resolved_args \<Rightarrow> Some resolved_args))"

definition resolve_rollback_args :: "'a cli \<Rightarrow> dict \<Rightarrow> ('a, string + dict) cli_prog" where
  "resolve_rollback_args c args = resolve_leased_args c rollback_resource args"


section \<open>Results\<close>

definition tool_result :: "string \<Rightarrow> string \<Rightarrow> dict \<Rightarrow> ('a, ToolExecutionResult) cli_prog" where
  "tool_result tool_name status payload = pupdate (\<lambda>(st, w). case fake_result tool_name status payload w of
     (r, w') \<Rightarrow> Inr (r, st, w'))"

definition failure_entries :: "string \<Rightarrow> string \<Rightarrow> dict" where
  "failure_entries failure_status failure_class =
     [(''failure_status'', PStr failure_status), (''failure_class'', PStr failure_class)]"

definition contract_entry :: "ToolContract \<Rightarrow> string \<times> pyval" where
  "contract_entry k = (''contract'', PDict (ToolContract_to_dict k))"

definition nested_failure_status :: "dict \<Rightarrow> string" where
  "nested_failure_status payload = (
     case first_some failing_status (dget payload ''payload'' # reply_payloads payload) of Some s \<Rightarrow> s | None \<Rightarrow> [])"

text \<open>The failure of a document a control command answered with, empty when there is none.\<close>

definition control_failure :: "dict \<Rightarrow> string option" where
  "control_failure payload = (let nested = nested_failure_status payload in
     if truthy (dget payload ''ok'') \<and> nested = [] then None
     else Some (if nested \<noteq> [] then nested else str_or (dget payload ''status'') ''unknown''))"

section \<open>Controls\<close>

text \<open>A control or a rollback with its arguments; \<open>kind\<close> names the class of its failures.\<close>

definition run_control :: "'a cli \<Rightarrow> string \<Rightarrow> ToolContract \<Rightarrow> dict \<Rightarrow> ('a, ToolExecutionResult) cli_prog" where
  "run_control c kind k resolved_args =
     pbind (execute_raw_contract_command c k resolved_args) (\<lambda>(r, answer). case answer of
       Inl command_error \<Rightarrow> tool_result (tc_tool_name k) ''error'' (failure_entries command_error (kind @ ''_cli_failed'')
         @ [contract_entry k, (''resolved_args'', PDict resolved_args), (''stderr'', PStr (cr_stderr r))])
     | Inr payload \<Rightarrow> (case control_failure payload of
         Some failure \<Rightarrow> tool_result (tc_tool_name k) ''error'' (failure_entries failure (kind @ ''_failed'')
           @ [contract_entry k, (''resolved_args'', PDict resolved_args), (''result'', PDict payload)])
       | None \<Rightarrow> tool_result (tc_tool_name k) ''ok''
           [contract_entry k, (''resolved_args'', PDict resolved_args), (''result'', PDict payload)]))"

definition unresolved_result :: "string \<Rightarrow> string \<Rightarrow> string \<Rightarrow> ToolContract \<Rightarrow> dict \<Rightarrow> ('a, ToolExecutionResult) cli_prog" where
  "unresolved_result tool_name failure_status failure_class k args =
     tool_result tool_name ''error'' (failure_entries failure_status failure_class
       @ [contract_entry k, (''requested_args'', PDict args)])"

definition execute_single_app_control :: "'a cli \<Rightarrow> ToolContract \<Rightarrow> dict \<Rightarrow> ('a, ToolExecutionResult) cli_prog" where
  "execute_single_app_control c k args = pbind (resolve_control_app_args c args) (\<lambda>resolved. case resolved of
     None \<Rightarrow> unresolved_result (tc_tool_name k) ''control_args_unresolved'' ''dynamic_argument_resolution_failed'' k args
   | Some resolved_args \<Rightarrow> run_control c ''control'' k resolved_args)"

definition execute_rollback_app :: "'a cli \<Rightarrow> ToolContract \<Rightarrow> dict \<Rightarrow> ('a, ToolExecutionResult) cli_prog" where
  "execute_rollback_app c k args = pbind (resolve_rollback_args c args) (\<lambda>resolved. case resolved of
     Inl resolution_failure \<Rightarrow> unresolved_result (tc_tool_name k) resolution_failure
       (if resolution_failure = ''lease_not_found'' then ''rollback_lease_resolution_failed'' else ''dynamic_argument_resolution_failed'') k args
   | Inr resolved_args \<Rightarrow> run_control c ''rollback'' k resolved_args)"

text \<open>The two commands of a restart.\<close>

definition half_contract :: "string \<Rightarrow> string \<Rightarrow> ToolContract \<Rightarrow> ToolContract" where
  "half_contract action ordinal k = \<lparr>tc_tool_name = ''system_restart_app.'' @ action,
     tc_description = action @ '' app as '' @ ordinal @ '' half of restart'',
     tc_side_effect_level = tc_side_effect_level k,
     tc_argv_template = [''python'', ''neuro_cli/scripts/invoke_neuro_cli.py'', ''app'', action, ''--output'', ''json''],
     tc_resource = [], tc_required_arguments = [''--node'', ''--app-id'', ''--lease-id''], tc_required_resources = [],
     tc_timeout_seconds = tc_timeout_seconds k, tc_retryable = False, tc_approval_required = False,
     tc_cleanup_hint = PNone, tc_output_contract = []\<rparr>"

definition stop_contract :: "ToolContract \<Rightarrow> ToolContract" where
  "stop_contract = half_contract ''stop'' ''first''"

definition start_contract :: "ToolContract \<Rightarrow> ToolContract" where
  "start_contract = half_contract ''start'' ''second''"

definition execute_restart_app :: "'a cli \<Rightarrow> ToolContract \<Rightarrow> dict \<Rightarrow> ('a, ToolExecutionResult) cli_prog" where
  "execute_restart_app c k args = pbind (resolve_control_app_args c args) (\<lambda>resolved. case resolved of
     None \<Rightarrow> unresolved_result ''system_restart_app'' ''restart_args_unresolved'' ''dynamic_argument_resolution_failed'' k args
   | Some resolved_args \<Rightarrow>
       let common = [contract_entry k, (''resolved_args'', PDict resolved_args)] in
       pbind (execute_raw_contract_command c (stop_contract k) resolved_args) (\<lambda>(stop_command_result, stop_answer). case stop_answer of
         Inl stop_error \<Rightarrow> tool_result ''system_restart_app'' ''error'' (failure_entries stop_error ''restart_stop_cli_failed''
           @ common @ [(''stderr'', PStr (cr_stderr stop_command_result))])
       | Inr stop_payload \<Rightarrow> (case control_failure stop_payload of
           Some failure \<Rightarrow> tool_result ''system_restart_app'' ''error'' (failure_entries failure ''restart_stop_failed''
             @ common @ [(''stop_result'', PDict stop_payload)])
         | None \<Rightarrow> pbind (execute_raw_contract_command c (start_contract k) resolved_args) (\<lambda>(start_command_result, start_answer). case start_answer of
             Inl start_error \<Rightarrow> tool_result ''system_restart_app'' ''error'' (failure_entries start_error ''restart_start_cli_failed''
               @ common @ [(''stop_result'', PDict stop_payload), (''stderr'', PStr (cr_stderr start_command_result))])
           | Inr start_payload \<Rightarrow> (case control_failure start_payload of
               Some failure \<Rightarrow> tool_result ''system_restart_app'' ''error'' (failure_entries failure ''restart_start_failed''
                 @ common @ [(''stop_result'', PDict stop_payload), (''start_result'', PDict start_payload)])
             | None \<Rightarrow> tool_result ''system_restart_app'' ''ok''
                 (common @ [(''stop_result'', PDict stop_payload), (''start_result'', PDict start_payload)]))))))"

section \<open>Execution\<close>

text \<open>A tool that is one command without arguments.\<close>

definition execute_query :: "'a cli \<Rightarrow> ToolContract \<Rightarrow> string \<Rightarrow> ('a, ToolExecutionResult) cli_prog" where
  "execute_query c k tool_name =
     pbind (cli_run c (base_command c ''json'' @ contract_command_suffix k) (tc_timeout_seconds k)) (\<lambda>r.
     case parse_json_stdout r of
       Inl (ValueError failure) \<Rightarrow> tool_result tool_name ''error'' (failure_entries failure ''cli_execution_failed''
         @ [(''stderr'', PStr (cr_stderr r))])
     | Inl e \<Rightarrow> pfail e
     | Inr payload \<Rightarrow>
         if \<not> truthy (dget payload ''ok'') then tool_result tool_name ''error''
           (failure_entries (str_or (dget payload ''status'') ''unknown'') ''top_level_status_failure'' @ [(''payload'', PDict payload)])
         else if nested_failure_status payload \<noteq> [] then tool_result tool_name ''error''
           (failure_entries (nested_failure_status payload) ''nested_payload_status_failure'' @ [(''payload'', PDict payload)])
         else if tool_name = ''system_state_sync'' then pbind (plift (StateSyncSnapshot_from_dict payload)) (\<lambda>snapshot.
           tool_result tool_name ''ok'' [contract_entry k, (''state_sync'', PDict (StateSyncSnapshot_to_dict snapshot))])
         else tool_result tool_name ''ok'' [contract_entry k, (''result'', PDict payload)])"

definition unknown_tool_result :: "string \<Rightarrow> ('a, ToolExecutionResult) cli_prog" where
  "unknown_tool_result tool_name = tool_result tool_name ''error'' (failure_entries ''unknown_tool'' ''manifest_lookup_failed'')"

text \<open>
  The guard runs the state sync through \<open>execute\<close>; for that tool \<open>execute\<close> is the lookup and the plain
  command (\<open>execute_state_sync\<close> below).
\<close>

definition state_sync_command :: "'a cli \<Rightarrow> ('a, ToolExecutionResult) cli_prog" where
  "state_sync_command c = pbind (cli_describe_tool c ''system_state_sync'') (\<lambda>contract. case contract of
     None \<Rightarrow> unknown_tool_result ''system_state_sync'' | Some k \<Rightarrow> execute_query c k ''system_state_sync'')"

definition execute_activation_health_guard :: "'a cli \<Rightarrow> ToolContract \<Rightarrow> dict \<Rightarrow> ('a, ToolExecutionResult) cli_prog" where
  "execute_activation_health_guard c k args = pbind (state_sync_command c) (\<lambda>state_sync_result.
     pbind (plift (classify_activation_health_result state_sync_result (app_arg [] args))) (\<lambda>observation.
     pbind (plift (if te_status state_sync_result = ''ok''
       then ebind (py_dict (por (dget (te_payload state_sync_result) ''state_sync'') (PDict []))) (\<lambda>d. Inr (''state_sync'', PDict d))
       else Inr (''state_sync_error'', PDict (te_payload state_sync_result)))) (\<lambda>entry.
     tool_result (tc_tool_name k) ''ok''
       [contract_entry k, (''activation_health'', PDict (ActivationHealthObservation_to_dict observation)), entry])))"

definition cli_execute :: "'a cli \<Rightarrow> string \<Rightarrow> dict \<Rightarrow> ('a, ToolExecutionResult) cli_prog" where
  "cli_execute c tool_name args = pbind (cli_describe_tool c tool_name) (\<lambda>contract. case contract of
     None \<Rightarrow> unknown_tool_result tool_name
   | Some k \<Rightarrow>
       if tool_name = ''system_activation_health_guard'' then execute_activation_health_guard c k args
       else if tool_name = ''system_rollback_app'' then execute_rollback_app c k args
       else if tool_name = ''system_restart_app'' then execute_restart_app c k args
       else if tool_name \<in> fst ` set APP_CONTROL_TOOL_ACTIONS then execute_single_app_control c k args
       else execute_query c k tool_name)"

lemma execute_state_sync: "cli_execute c ''system_state_sync'' args = state_sync_command c"
  by (simp add: cli_execute_def state_sync_command_def APP_CONTROL_TOOL_ACTIONS_def cong: option.case_cong)

section \<open>The adapter as the release gate uses it\<close>

text \<open>
  The interface of \<open>Deploy\<close>. There an adapter that raises keeps the state it had: of this adapter that
  state is the manifest cache and whatever the runner keeps.
\<close>

definition committed :: "('s, 'x) prog \<Rightarrow> 's \<Rightarrow> ('x \<times> 's) result" where
  "committed m s = (case m s of (Inl e, _) \<Rightarrow> Inl e | (Inr x, s') \<Rightarrow> Inr (x, s'))"

lemma committed_Inr: "committed m s = Inr (x, s') \<longleftrightarrow> m s = (Inr x, s')"
  by (auto simp: committed_def split: prod.splits sum.splits)

definition execute_or_raise :: "'a cli \<Rightarrow> string \<Rightarrow> dict \<Rightarrow> 'a cli_state \<times> env \<Rightarrow> (ToolExecutionResult \<times> 'a cli_state \<times> env) result" where
  "execute_or_raise c tool_name args = committed (cli_execute c tool_name args)"

definition cli_adapter :: "'a cli \<Rightarrow> 'a cli_state tool_adapter" where
  "cli_adapter c = \<lparr>ta_runner = (\<lambda>argv timeout. committed (cli_run c argv timeout)),
     ta_execute = execute_or_raise c, ta_describe = Some (\<lambda>t. committed (cli_describe_tool c t))\<rparr>"

section \<open>The commands an operation runs\<close>

text \<open>The adapter over a runner that notes every command it answered.\<close>

definition logged_cli :: "'a cli \<Rightarrow> ('a \<times> event list) cli" where
  "logged_cli c = \<lparr>cl_node = cl_node c, cl_source_core = cl_source_core c, cl_source_agent = cl_source_agent c,
     cl_timeout_seconds = cl_timeout_seconds c, cl_python_executable = cl_python_executable c, cl_wrapper_path = cl_wrapper_path c,
     cl_runner = (\<lambda>argv timeout. noting (Ran argv) (cl_runner c argv timeout)), cl_real_process = cl_real_process c\<rparr>"

abbreviation cli_log :: "('a \<times> event list) cli_state \<times> env \<Rightarrow> event list" where
  "cli_log s \<equiv> snd (fst (fst s))"

lemma logged_commands [simp]:
  "base_command (logged_cli c) = base_command c"
  "build_contract_command_with_args (logged_cli c) = build_contract_command_with_args c"
  "cl_timeout_seconds (logged_cli c) = cl_timeout_seconds c"
  by (simp_all add: logged_cli_def base_command_def build_contract_command_with_args_def fun_eq_iff)

lemma cli_run_adds: "adds cli_log (cli_run (logged_cli c) argv timeout) (\<lambda>r n. n = [Ran argv r]) (\<lambda>n. n = [])"
  by (auto simp: adds_def cli_run_def pupdate_def logged_cli_def noting_def ebind_def split: sum.splits prod.splits)

lemma tool_result_adds:
  "(\<And>r. te_tool_name r = t \<Longrightarrow> te_status r = st \<Longrightarrow> te_payload r = p \<Longrightarrow> Q r []) \<Longrightarrow> adds cli_log (tool_result t st p) Q E"
  by (auto simp: adds_def tool_result_def pupdate_def fake_result_def split: prod.splits sum.splits)

section \<open>The manifest is read once\<close>

abbreviation cached :: "ToolContract list \<Rightarrow> 'a cli_state \<times> env \<Rightarrow> bool" where
  "cached m s \<equiv> snd (fst s) = Some m"

lemma cli_run_keeps: "keeps (cached m) (cli_run c argv timeout)"
  unfolding cli_run_def by (rule triple_pupdate) (auto simp: ebind_def split: sum.splits prod.splits)

lemma tool_result_keeps: "keeps (cached m) (tool_result t st p)"
  unfolding tool_result_def by (rule triple_pupdate) (auto split: prod.splits)

lemma manifest_reads: "triple (\<lambda>_. True) (cli_tool_manifest c) (\<lambda>x s. cached x s) (\<lambda>_. True)"
  by (auto simp: triple_def cli_tool_manifest_def pbind_def pread_def pret_def plift_def pfail_def pupdate_def
      split: option.splits sum.splits prod.splits if_splits)

lemma manifest_cached: "cached m s \<Longrightarrow> cli_tool_manifest c s = (Inr m, s)"
  by (auto simp: cli_tool_manifest_def pbind_def pread_def pret_def split: prod.splits)

lemma describe_cached: "cached m s \<Longrightarrow> cli_describe_tool c t s = (Inr (find (\<lambda>k. tc_tool_name k = t) m), s)"
  by (auto simp: cli_describe_tool_def pbind_def manifest_cached pret_def)

lemma describe_reads:
  "cli_describe_tool c t s = (Inr k, s') \<Longrightarrow> \<exists>m. cached m s' \<and> k = find (\<lambda>k. tc_tool_name k = t) m"
  using triple_Inr[OF manifest_reads[of c], of s]
  by (fastforce simp: cli_describe_tool_def pbind_Inr pret_def)

lemma describe_keeps: "keeps (cached m) (cli_describe_tool c t)"
  by (auto simp: triple_def describe_cached)

lemma raw_keeps: "keeps (cached m) (execute_raw_contract_command c k args)"
  unfolding execute_raw_contract_command_def
  by (rule keeps_bind[OF cli_run_keeps]) (auto split: sum.split py_error.split)

lemma query_rows_keeps: "keeps (cached m) (query_rows c t extract)"
  unfolding query_rows_def
  by (rule keeps_bind[OF describe_keeps]) (auto intro!: keeps_bind[OF raw_keeps] split: option.split)

lemma leased_args_keeps: "keeps (cached m) (resolve_leased_args c target args)"
  unfolding resolve_leased_args_def resolve_app_id_def resolve_lease_id_def Let_def
  by (intro keeps_bind triple_if) (auto intro!: keeps_bind[OF query_rows_keeps] query_rows_keeps)

lemma control_args_keeps: "keeps (cached m) (resolve_control_app_args c args)"
  unfolding resolve_control_app_args_def by (rule keeps_bind[OF leased_args_keeps]) simp

lemmas cache_keeps = cli_run_keeps tool_result_keeps describe_keeps raw_keeps leased_args_keeps control_args_keeps

lemma run_control_keeps: "keeps (cached m) (run_control c kind k d)"
  unfolding run_control_def
  by (rule keeps_bind[OF raw_keeps]) (auto intro: cache_keeps split: sum.split option.split)

lemma execute_query_keeps: "keeps (cached m) (execute_query c k t)"
  unfolding execute_query_def
  by (rule keeps_bind[OF cli_run_keeps]) (auto intro!: cache_keeps keeps_bind split: sum.split py_error.split)

lemma state_sync_keeps: "keeps (cached m) (state_sync_command c)"
  unfolding state_sync_command_def
  by (rule keeps_bind[OF describe_keeps]) (auto intro: cache_keeps execute_query_keeps simp: unknown_tool_result_def split: option.split)

lemma guard_keeps: "keeps (cached m) (execute_activation_health_guard c k args)"
  unfolding execute_activation_health_guard_def
  by (rule keeps_bind[OF state_sync_keeps]) (auto intro!: keeps_bind cache_keeps)

lemma keeps_cases:
  "(\<And>a. keeps P (f a)) \<Longrightarrow> (\<And>b. keeps P (g b)) \<Longrightarrow> keeps P (case x of Inl a \<Rightarrow> f a | Inr b \<Rightarrow> g b)"
  "keeps P m \<Longrightarrow> (\<And>b. keeps P (h b)) \<Longrightarrow> keeps P (case y of None \<Rightarrow> m | Some b \<Rightarrow> h b)"
  "(\<And>a b. keeps P (l a b)) \<Longrightarrow> keeps P (case z of (a, b) \<Rightarrow> l a b)"
  by (auto split: sum.split option.split prod.split)

lemma restart_keeps: "keeps (cached m) (execute_restart_app c k args)"
  unfolding execute_restart_app_def Let_def unresolved_result_def
  by (intro keeps_bind keeps_cases cache_keeps)

lemma execute_keeps: "keeps (cached m) (cli_execute c t args)"
  unfolding cli_execute_def unknown_tool_result_def
proof (rule keeps_bind[OF describe_keeps])
  fix k
  have "keeps (cached m) (execute_rollback_app c x args)" "keeps (cached m) (execute_single_app_control c x args)" for x
    unfolding execute_rollback_app_def resolve_rollback_args_def execute_single_app_control_def unresolved_result_def
    by (auto intro!: keeps_bind[OF leased_args_keeps] keeps_bind[OF control_args_keeps] cache_keeps run_control_keeps
        split: sum.split option.split)
  note ops = this
  show "keeps (cached m) (case k of None \<Rightarrow> tool_result t ''error'' (failure_entries ''unknown_tool'' ''manifest_lookup_failed'')
    | Some k \<Rightarrow> if t = ''system_activation_health_guard'' then execute_activation_health_guard c k args
       else if t = ''system_rollback_app'' then execute_rollback_app c k args
       else if t = ''system_restart_app'' then execute_restart_app c k args
       else if t \<in> fst ` set APP_CONTROL_TOOL_ACTIONS then execute_single_app_control c k args
       else execute_query c k t)"
    by (intro keeps_cases triple_if ops tool_result_keeps guard_keeps restart_keeps execute_query_keeps)
qed

fun run_calls :: "'a cli \<Rightarrow> (string \<times> dict) list \<Rightarrow> 'a cli_state \<times> env \<Rightarrow> 'a cli_state \<times> env" where
  "run_calls c [] s = s"
| "run_calls c ((t, args) # calls) s = run_calls c calls (snd (cli_execute c t args s))"

lemma calls_keep: "cached m s \<Longrightarrow> cached m (run_calls c calls s)"
proof (induction c calls s rule: run_calls.induct)
  case (2 c t args calls s)
  from triple_end[OF execute_keeps 2(2)] show ?case by (simp add: "2.IH")
qed simp

text \<open>The manifest is read once: after a read that returned \<open>m\<close> and any sequence of tool calls, some of
  which may raise, the adapter answers \<open>m\<close> again, without running anything.\<close>

theorem manifest_read_once:
  "case cli_tool_manifest c s of (Inl e, _) \<Rightarrow> True
   | (Inr m, s1) \<Rightarrow> let s2 = run_calls c calls s1 in cli_tool_manifest c s2 = (Inr m, s2)"
proof -
  obtain r s1 where run: "cli_tool_manifest c s = (r, s1)" by (metis prod.exhaust)
  show ?thesis
  proof (cases r)
    case (Inr m)
    with triple_Inr[OF manifest_reads[of c], of s m s1] run have "cached m s1" by simp
    from manifest_cached[OF calls_keep[OF this]] show ?thesis by (simp add: run Inr)
  qed (simp add: run)
qed

section \<open>What an operation looks up\<close>

text \<open>
  An operation with a manifest \<open>ks\<close> in the cache. A query for rows runs the command of the contract the manifest has
  for it, without arguments, if there is one; the rows are those of its answer.
\<close>

definition row_query :: "'a cli \<Rightarrow> ToolContract list \<Rightarrow> string \<Rightarrow> (dict \<Rightarrow> dict list) \<Rightarrow> event list \<Rightarrow> dict list \<Rightarrow> bool" where
  "row_query c ks t extract n rows \<longleftrightarrow> (case find (\<lambda>k. tc_tool_name k = t) ks of
     None \<Rightarrow> n = [] \<and> rows = []
   | Some k \<Rightarrow> \<exists>r. n = [Ran (build_contract_command_with_args c k []) r]
       \<and> rows = (case parse_json_stdout r of Inr payload \<Rightarrow> extract payload | Inl _ \<Rightarrow> []))"

text \<open>The app: the one of the arguments, or the only one the unit runs. The lease: the one of the arguments, or the
  first on the resource.\<close>

definition app_lookup :: "'a cli \<Rightarrow> ToolContract list \<Rightarrow> dict \<Rightarrow> event list \<Rightarrow> string \<Rightarrow> bool" where
  "app_lookup c ks args n app \<longleftrightarrow> (if app_arg [] args \<noteq> [] then n = [] \<and> app = app_arg [] args
     else \<exists>rows. row_query c ks ''system_query_apps'' extract_apps_payload n rows \<and> app = only_app rows)"

definition lease_lookup :: "'a cli \<Rightarrow> ToolContract list \<Rightarrow> dict \<Rightarrow> string \<Rightarrow> event list \<Rightarrow> string \<Rightarrow> bool" where
  "lease_lookup c ks args resource n lease \<longleftrightarrow> (
     if str_or (dget args ''lease_id'') [] \<noteq> [] then n = [] \<and> lease = str_or (dget args ''lease_id'') []
     else \<exists>rows. row_query c ks ''system_query_leases'' extract_lease_rows n rows \<and> lease = lease_on resource rows)"

text \<open>The arguments a control runs with, or None when the app or the lease was not found; what a lookup that raised
  has run.\<close>

inductive resolution :: "'a cli \<Rightarrow> ToolContract list \<Rightarrow> (string \<Rightarrow> string) \<Rightarrow> dict \<Rightarrow> event list \<Rightarrow> dict option \<Rightarrow> bool"
  for c ks target args where
  no_app: "app_lookup c ks args n [] \<Longrightarrow> resolution c ks target args n None"
| no_lease: "app_lookup c ks args n app \<Longrightarrow> app \<noteq> [] \<Longrightarrow> lease_lookup c ks args (target app) n' [] \<Longrightarrow>
    resolution c ks target args (n @ n') None"
| found: "app_lookup c ks args n app \<Longrightarrow> app \<noteq> [] \<Longrightarrow> lease_lookup c ks args (target app) n' lease \<Longrightarrow> lease \<noteq> [] \<Longrightarrow>
    resolution c ks target args (n @ n') (Some (with_app_and_lease args app lease))"

inductive interrupted :: "'a cli \<Rightarrow> ToolContract list \<Rightarrow> (string \<Rightarrow> string) \<Rightarrow> dict \<Rightarrow> event list \<Rightarrow> bool"
  for c ks target args where
  at_once: "interrupted c ks target args []"
| after_app: "app_lookup c ks args n app \<Longrightarrow> interrupted c ks target args n"
| after_lease: "app_lookup c ks args n app \<Longrightarrow> lease_lookup c ks args (target app) n' lease \<Longrightarrow>
    interrupted c ks target args (n @ n')"

lemma resolution_interrupted: "resolution c ks target args n d \<Longrightarrow> interrupted c ks target args n"
  by (induction rule: resolution.induct) (blast intro: interrupted.intros)+

text \<open>The manifest: read once, with one command, unless it is in the cache.\<close>

definition manifest_answer :: "CommandExecutionResult \<Rightarrow> ToolContract list option" where
  "manifest_answer r = (case parse_json_stdout r of
     Inr payload \<Rightarrow> if truthy (dget payload ''ok'')
       then (case parse_tool_manifest_payload payload of Inr ks \<Rightarrow> Some ks | Inl _ \<Rightarrow> None) else None
   | Inl _ \<Rightarrow> None)"

inductive manifest_read :: "'a cli \<Rightarrow> ToolContract list option \<Rightarrow> event list \<Rightarrow> ToolContract list option \<Rightarrow> bool" for c where
  cached: "manifest_read c (Some ks) [] (Some ks)"
| not_run: "manifest_read c None [] None"
| read: "manifest_read c None [Ran (base_command c ''json'' @ [''system'', ''tool-manifest'']) r] (manifest_answer r)"

section \<open>The lookups of the code\<close>

abbreviation knowing :: "ToolContract list \<Rightarrow> (('a \<times> event list) cli_state \<times> env, 'x) prog \<Rightarrow> ('x \<Rightarrow> event list \<Rightarrow> bool) \<Rightarrow> (event list \<Rightarrow> bool) \<Rightarrow> bool" where
  "knowing ks \<equiv> adds_in (cached ks) cli_log"

lemma describe_knowing:
  "knowing ks (f (find (\<lambda>k. tc_tool_name k = t) ks)) Q E \<Longrightarrow> knowing ks (pbind (cli_describe_tool (logged_cli c) t) f) Q E"
  unfolding adds_in_def by (simp add: pbind_def describe_cached)

lemma run_knowing: "knowing ks (cli_run (logged_cli c) argv timeout) (\<lambda>r n. n = [Ran argv r]) (\<lambda>n. n = [])"
  by (rule adds_inI[OF cli_run_adds cli_run_keeps])

lemma raw_knowing:
  "knowing ks (execute_raw_contract_command (logged_cli c) k args)
    (\<lambda>(r, x) n. n = [Ran (build_contract_command_with_args c k args) r] \<and> (\<forall>d. x = Inr d \<longleftrightarrow> parse_json_stdout r = Inr d))
    (\<lambda>n. n = [] \<or> (\<exists>r e. n = [Ran (build_contract_command_with_args c k args) r] \<and> parse_json_stdout r = Inl e))"
  unfolding execute_raw_contract_command_def
  by (rule adds_in_bind[OF run_knowing]) (auto intro: adds_in_basic split: sum.split py_error.split)

lemma row_queryI:
  "find (\<lambda>k. tc_tool_name k = t) ks = Some k \<Longrightarrow>
   rows = (case parse_json_stdout r of Inr payload \<Rightarrow> extract payload | Inl _ \<Rightarrow> []) \<Longrightarrow>
   row_query c ks t extract [Ran (build_contract_command_with_args c k []) r] rows"
  by (auto simp: row_query_def)

lemma query_knowing:
  "knowing ks (query_rows (logged_cli c) t extract) (\<lambda>rows n. row_query c ks t extract n rows)
    (\<lambda>n. n = [] \<or> (\<exists>rows. row_query c ks t extract n rows))"
  unfolding query_rows_def
proof (rule describe_knowing, goal_cases)
  case 1
  show ?case
  proof (cases "find (\<lambda>k. tc_tool_name k = t) ks")
    case (Some k)
    show ?thesis
      unfolding Some option.case
    proof (rule adds_in_bind[OF raw_knowing], goal_cases)
      case (1 x n)
      obtain r answer where x: "x = (r, answer)" by (cases x)
      with 1 have n: "n = [Ran (build_contract_command_with_args c k []) r]" and same: "answer = Inr d \<longleftrightarrow> parse_json_stdout r = Inr d" for d by auto
      have rows: "(case answer of Inl _ \<Rightarrow> [] | Inr payload \<Rightarrow> extract payload)
          = (case parse_json_stdout r of Inr payload \<Rightarrow> extract payload | Inl _ \<Rightarrow> [])"
      proof (cases answer)
        case (Inl e)
        with same[of "projr (parse_json_stdout r)"] show ?thesis by (cases "parse_json_stdout r") simp_all
      next
        case (Inr d)
        with same[of d] show ?thesis by simp
      qed
      show ?case
        unfolding x prod.case rows n by (rule adds_in_basic) (simp add: row_queryI[OF Some])
    next
      case (2 n)
      then show ?case using row_queryI[OF Some refl] by blast
    qed
  qed (auto intro!: adds_in_basic simp: row_query_def)
qed

lemma app_knowing:
  "knowing ks (resolve_app_id (logged_cli c) args) (\<lambda>app n. app_lookup c ks args n app)
    (\<lambda>n. n = [] \<or> (\<exists>app. app_lookup c ks args n app))"
  unfolding resolve_app_id_def
  by (cases "app_arg [] args = []")
    (auto intro!: adds_in_basic adds_in_bind[OF query_knowing] simp: app_lookup_def)

lemma lease_knowing:
  "knowing ks (resolve_lease_id (logged_cli c) args resource) (\<lambda>lease n. lease_lookup c ks args resource n lease)
    (\<lambda>n. n = [] \<or> (\<exists>lease. lease_lookup c ks args resource n lease))"
  unfolding resolve_lease_id_def Let_def
  by (cases "str_or (dget args ''lease_id'') [] = []")
    (auto intro!: adds_in_basic adds_in_bind[OF query_knowing] simp: lease_lookup_def)

lemma leased_knowing:
  "knowing ks (resolve_leased_args (logged_cli c) target args)
    (\<lambda>x n. resolution c ks target args n (case x of Inl _ \<Rightarrow> None | Inr d \<Rightarrow> Some d)) (interrupted c ks target args)"
  unfolding resolve_leased_args_def
proof (rule adds_in_bind[OF app_knowing], goal_cases)
  case (1 app n)
  show ?case
  proof (cases "app = []")
    case True
    with 1 show ?thesis by (auto intro!: adds_in_basic intro: resolution.intros)
  next
    case False
    show ?thesis
      unfolding if_not_P[OF False]
    proof (rule adds_in_bind[OF lease_knowing], goal_cases)
      case (1 lease n')
      with \<open>app_lookup c ks args n app\<close> False show ?case
        by (cases "lease = []") (auto intro!: adds_in_basic intro: resolution.intros)
    next
      case (2 n')
      with \<open>app_lookup c ks args n app\<close> show ?case by (auto intro: interrupted.intros)
    qed
  qed
qed (auto intro: interrupted.intros)

lemma control_knowing:
  "knowing ks (resolve_control_app_args (logged_cli c) args)
    (\<lambda>x n. resolution c ks control_resource args n x) (interrupted c ks control_resource args)"
  unfolding resolve_control_app_args_def
  by (rule adds_in_bind[OF leased_knowing]) (auto intro!: adds_in_basic)

section \<open>Restart\<close>

text \<open>An answer that reports success.\<close>

definition fine_answer :: "CommandExecutionResult \<Rightarrow> bool" where
  "fine_answer r = (case parse_json_stdout r of Inr d \<Rightarrow> control_failure d = None | Inl _ \<Rightarrow> False)"

definition app_command :: "'a cli \<Rightarrow> string \<Rightarrow> string list \<Rightarrow> string list" where
  "app_command c action options = base_command c ''json'' @ [''app'', action] @ options"

text \<open>The options of both halves of a restart.\<close>

definition restart_options :: "'a cli \<Rightarrow> dict \<Rightarrow> string list" where
  "restart_options c d = (let options = argument_option d ''--app-id'' @ argument_option d ''--lease-id''; start_args = dget d ''start_args'' in
     if given start_args \<and> ''--start-args'' \<notin> set (base_command c ''json'' @ options)
     then options @ [''--start-args'', py_str start_args] else options)"

lemma half_command:
  "action \<in> {''stop'', ''start''} \<Longrightarrow>
   build_contract_command_with_args c (half_contract action ordinal k) d = app_command c action (restart_options c d)"
  by (auto simp: build_contract_command_with_args_def half_contract_def contract_command_suffix_def app_command_def
      restart_options_def Let_def argument_option_def[of _ "''--node''"])

text \<open>How a run ended: it raised, or it returned a result that is ok or not.\<close>

definition ending :: "ToolExecutionResult result \<Rightarrow> bool option" where
  "ending r = (case r of Inl _ \<Rightarrow> None | Inr x \<Rightarrow> Some (te_status x = ''ok''))"

definition went_well :: "ToolExecutionResult result \<Rightarrow> bool" where
  "went_well r \<longleftrightarrow> ending r = Some True"

text \<open>The ending after a last command that answered \<open>r\<close>: ok exactly when that was fine; only an answer the
  model cannot read raises.\<close>

definition ended_by :: "CommandExecutionResult \<Rightarrow> bool option \<Rightarrow> bool" where
  "ended_by r o' \<longleftrightarrow> o' = Some (fine_answer r) \<or> o' = None \<and> \<not> fine_answer r"

text \<open>
  The ways of a restart with a known manifest: the tool is not in it; the lookups raise, or find no app or no lease;
  the stop is not run, or not fine; the stop is fine and the start is not run; both are run, with the same options.
\<close>

inductive restart_trace :: "'a cli \<Rightarrow> ToolContract list \<Rightarrow> dict \<Rightarrow> event list \<Rightarrow> bool option \<Rightarrow> bool" for c ks args where
  unknown: "find (\<lambda>k. tc_tool_name k = ''system_restart_app'') ks = None \<Longrightarrow> restart_trace c ks args [] (Some False)"
| broken: "interrupted c ks control_resource args n \<Longrightarrow> restart_trace c ks args n None"
| unresolved: "resolution c ks control_resource args n None \<Longrightarrow> restart_trace c ks args n (Some False)"
| no_stop: "resolution c ks control_resource args n (Some d) \<Longrightarrow> restart_trace c ks args n None"
| not_stopped: "resolution c ks control_resource args n (Some d) \<Longrightarrow> \<not> fine_answer r \<Longrightarrow> ended_by r o' \<Longrightarrow>
    restart_trace c ks args (n @ [Ran (app_command c ''stop'' (restart_options c d)) r]) o'"
| no_start: "resolution c ks control_resource args n (Some d) \<Longrightarrow> fine_answer r \<Longrightarrow>
    restart_trace c ks args (n @ [Ran (app_command c ''stop'' (restart_options c d)) r]) None"
| restarted: "resolution c ks control_resource args n (Some d) \<Longrightarrow> fine_answer r \<Longrightarrow> ended_by r' o' \<Longrightarrow>
    restart_trace c ks args (n @ [Ran (app_command c ''stop'' (restart_options c d)) r,
      Ran (app_command c ''start'' (restart_options c d)) r']) o'"

text \<open>A whole run: the manifest, and then a trace of the operation; without a manifest it raises.\<close>

definition run_log :: "'a cli \<Rightarrow> ToolContract list option \<Rightarrow> (ToolContract list \<Rightarrow> event list \<Rightarrow> bool option \<Rightarrow> bool)
    \<Rightarrow> event list \<Rightarrow> bool option \<Rightarrow> bool" where
  "run_log c cache trace n o' \<longleftrightarrow> (\<exists>pre known rest. n = pre @ rest \<and> manifest_read c cache pre known
     \<and> (case known of None \<Rightarrow> rest = [] \<and> o' = None | Some ks \<Rightarrow> trace ks rest o'))"

lemma run_log_intros:
  "manifest_read c cache n None \<Longrightarrow> run_log c cache trace n None"
  "manifest_read c cache pre (Some ks) \<Longrightarrow> trace ks rest o' \<Longrightarrow> run_log c cache trace (pre @ rest) o'"
proof -
  assume "manifest_read c cache n None"
  then show "run_log c cache trace n None"
    unfolding run_log_def by (intro exI[of _ n] exI[of _ None] exI[of _ "[]"]) simp
next
  assume "manifest_read c cache pre (Some ks)" and "trace ks rest o'"
  then show "run_log c cache trace (pre @ rest) o'"
    unfolding run_log_def by (intro exI[of _ pre] exI[of _ "Some ks"] exI[of _ rest]) simp
qed

lemma answer_fine: "(\<forall>d. x = Inr d \<longleftrightarrow> parse_json_stdout r = Inr d) \<Longrightarrow>
    fine_answer r = (case x of Inr d \<Rightarrow> control_failure d = None | Inl _ \<Rightarrow> False)"
  by (auto simp: fine_answer_def split: sum.splits)

lemma tool_result_knowing:
  "(\<And>r. te_tool_name r = t \<Longrightarrow> te_status r = st \<Longrightarrow> te_payload r = p \<Longrightarrow> Q r []) \<Longrightarrow> knowing ks (tool_result t st p) Q E"
  by (rule adds_inI[OF tool_result_adds tool_result_keeps])

lemma restart_knowing:
  "knowing ks (execute_restart_app (logged_cli c) k args)
    (\<lambda>x n. restart_trace c ks args n (Some (te_status x = ''ok''))) (\<lambda>n. restart_trace c ks args n None)"
  unfolding execute_restart_app_def
proof (rule adds_in_bind[OF control_knowing], goal_cases)
  case (1 resolved pre)
  show ?case
  proof (cases resolved)
    case None
    with 1 show ?thesis by (auto simp: unresolved_result_def intro!: tool_result_knowing intro: restart_trace.intros)
  next
    case (Some d)
    with 1 have d: "resolution c ks control_resource args pre (Some d)" by simp
    have stop: "build_contract_command_with_args c (stop_contract k) d = app_command c ''stop'' (restart_options c d)"
      and start: "build_contract_command_with_args c (start_contract k) d = app_command c ''start'' (restart_options c d)"
      by (simp_all add: stop_contract_def start_contract_def half_command)
    show ?thesis
      unfolding Some option.case Let_def
    proof (rule adds_in_bind[OF raw_knowing], unfold stop, goal_cases)
      case (1 ra n)
      obtain r x where ra: "ra = (r, x)" by (cases ra)
      with 1 have n: "n = [Ran (app_command c ''stop'' (restart_options c d)) r]"
        and same: "\<forall>d. x = Inr d \<longleftrightarrow> parse_json_stdout r = Inr d" by auto
      note fine = answer_fine[OF same]
      have stopped: "restart_trace c ks args (pre @ n) (Some False)" if "\<not> fine_answer r"
        unfolding n using d that by (intro restart_trace.not_stopped) (auto simp: ended_by_def)
      show ?case
      proof (cases x)
        case (Inr payload)
        show ?thesis
        proof (cases "control_failure payload")
          case None
          with Inr fine have stop_fine: "fine_answer r" by simp
          show ?thesis
            unfolding ra prod.case Inr sum.case None option.case
          proof (rule adds_in_bind[OF raw_knowing], unfold start, goal_cases)
            case (1 rb n')
            obtain r' y where rb: "rb = (r', y)" by (cases rb)
            with 1 have n': "n' = [Ran (app_command c ''start'' (restart_options c d)) r']"
              and "\<forall>d. y = Inr d \<longleftrightarrow> parse_json_stdout r' = Inr d" by auto
            note fine' = answer_fine[OF this(2)]
            have both: "restart_trace c ks args (pre @ n @ n') (Some (fine_answer r'))"
              using restart_trace.restarted[OF d stop_fine, of r' "Some (fine_answer r')"] by (simp add: n n' ended_by_def)
            show ?case
              by (cases y) (use both fine' in \<open>auto simp: rb intro!: tool_result_knowing split: option.splits\<close>)
          next
            case (2 n')
            show ?case
            proof (cases n')
              case Nil
              with restart_trace.no_start[OF d stop_fine] show ?thesis by (simp add: n)
            next
              case (Cons e es)
              with 2 obtain r' e' where "n' = [Ran (app_command c ''start'' (restart_options c d)) r']" "parse_json_stdout r' = Inl e'" by auto
              with restart_trace.restarted[OF d stop_fine, of r' None] show ?thesis by (simp add: n ended_by_def fine_answer_def)
            qed
          qed
        qed (use Inr stopped fine in \<open>auto simp: ra intro!: tool_result_knowing\<close>)
      qed (use stopped fine in \<open>auto simp: ra intro!: tool_result_knowing\<close>)
    next
      case (2 n)
      show ?case
      proof (cases n)
        case Nil
        with restart_trace.no_stop[OF d] show ?thesis by simp
      next
        case (Cons e es)
        with 2 obtain r e' where "n = [Ran (app_command c ''stop'' (restart_options c d)) r]" "parse_json_stdout r = Inl e'" by auto
        with restart_trace.not_stopped[OF d, of r None] show ?thesis by (simp add: ended_by_def fine_answer_def)
      qed
    qed
  qed
qed (rule restart_trace.broken)

section \<open>Whole runs\<close>

lemma read_answer:
  "manifest_answer r = x \<Longrightarrow> manifest_read c None [Ran (base_command c ''json'' @ [''system'', ''tool-manifest'']) r] x"
  using manifest_read.read by blast

lemma manifest_run:
  assumes run: "cli_tool_manifest (logged_cli c) (((a, l), cache), w) = (r, s')"
  shows "\<exists>n. cli_log s' = l @ n \<and> manifest_read c cache n (case r of Inr ks \<Rightarrow> Some ks | Inl _ \<Rightarrow> None)
    \<and> (\<forall>ks. r = Inr ks \<longrightarrow> cached ks s')"
proof (cases cache)
  case (Some ks)
  with run show ?thesis
    using manifest_read.cached by (auto simp: cli_tool_manifest_def pbind_def pread_def pret_def)
next
  case None
  obtain x s1 where cmd: "cli_run (logged_cli c) (base_command c ''json'' @ [''system'', ''tool-manifest'']) (cl_timeout_seconds c)
      (((a, l), None), w) = (x, s1)" by (metis prod.exhaust)
  from addsD[OF cli_run_adds cmd] obtain n where n: "cli_log s1 = l @ n"
    "case x of Inr y \<Rightarrow> n = [Ran (base_command c ''json'' @ [''system'', ''tool-manifest'']) y] | Inl _ \<Rightarrow> n = []" by auto
  show ?thesis
  proof (cases x)
    case (Inl e)
    with run cmd n None show ?thesis
      using manifest_read.not_run by (auto simp: cli_tool_manifest_def pbind_def pread_def)
  next
    case (Inr y)
    with n have n': "n = [Ran (base_command c ''json'' @ [''system'', ''tool-manifest'']) y]" by simp
    from run cmd Inr None have "cli_log s' = cli_log s1 \<and> manifest_answer y = (case r of Inr ks \<Rightarrow> Some ks | Inl _ \<Rightarrow> None)
        \<and> (\<forall>ks. r = Inr ks \<longrightarrow> cached ks s')"
      by (cases s1) (auto simp: cli_tool_manifest_def pbind_def pread_def plift_def pfail_def pret_def pupdate_def manifest_answer_def
          split: sum.splits if_splits prod.splits)
    with n n' None show ?thesis by (auto intro: read_answer)
  qed
qed

text \<open>An operation that looks its tool up, and with it reads the manifest.\<close>

lemma run_with_manifest:
  assumes known: "\<And>ks. knowing ks (f (find (\<lambda>k. tc_tool_name k = t) ks)) (\<lambda>x n. trace ks n (Some (te_status x = ''ok''))) (\<lambda>n. trace ks n None)"
    and run: "pbind (cli_describe_tool (logged_cli c) t) f (((a, []), cache), w) = (r, s')"
  shows "run_log c cache trace (cli_log s') (ending r)"
proof -
  obtain x s1 where m: "cli_tool_manifest (logged_cli c) (((a, []), cache), w) = (x, s1)" by (metis prod.exhaust)
  from manifest_run[OF m] obtain pre where pre: "cli_log s1 = pre"
    and read: "manifest_read c cache pre (case x of Inr ks \<Rightarrow> Some ks | Inl _ \<Rightarrow> None)" and ks: "\<forall>ks. x = Inr ks \<longrightarrow> cached ks s1"
    by auto
  show ?thesis
  proof (cases x)
    case (Inl e)
    with m run have "r = Inl e" "s' = s1" by (auto simp: cli_describe_tool_def pbind_def)
    with read Inl pre show ?thesis by (simp add: run_log_intros ending_def)
  next
    case (Inr m')
    with m run have "f (find (\<lambda>k. tc_tool_name k = t) m') s1 = (r, s')" by (auto simp: cli_describe_tool_def pbind_def pret_def)
    moreover have "cached m' s1" using ks Inr by simp
    ultimately obtain rest where "cli_log s' = cli_log s1 @ rest"
      "case r of Inr x \<Rightarrow> trace m' rest (Some (te_status x = ''ok'')) | Inl _ \<Rightarrow> trace m' rest None"
      using adds_inD[OF known] by blast
    then have "cli_log s' = pre @ rest" and "trace m' rest (ending r)"
      unfolding pre ending_def by (cases r; simp)+
    with read Inr show ?thesis by (simp add: run_log_intros)
  qed
qed

text \<open>C13: A restart through the Neuro CLI, from any manifest cache, with any answers and any exceptions of the runner. The
  manifest is read with its one command, unless it is cached; a manifest that is not run or not understood ends the run with an
  exception. Then, when the arguments name no app, the manifest's command for the apps is run, and when they name no
  lease, its command for the leases; nothing else is run before the stop. Then the restart runs nothing, because an app or a lease
  was not found or something raised; or the stop alone, because its answer was not fine or the runner raised at the start; or the
  stop, whose answer was fine, and then the start with the same options, those of the arguments with the app and
  the lease filled in under the keys they do not have. It returns ok exactly when the start was run and its answer was
  fine. A key that is there and blank stays blank, and its option is not sent (\<open>blank_lease_is_not_sent\<close>).\<close>

theorem restart_follows_trace:
  "case cli_execute (logged_cli c) ''system_restart_app'' args (((a, []), cache), w) of
     (r, s') \<Rightarrow> run_log c cache (\<lambda>ks. restart_trace c ks args) (cli_log s') (ending r)"
proof -
  obtain r s' where run: "cli_execute (logged_cli c) ''system_restart_app'' args (((a, []), cache), w) = (r, s')"
    by (metis prod.exhaust)
  have "run_log c cache (\<lambda>ks. restart_trace c ks args) (cli_log s') (ending r)"
  proof (rule run_with_manifest[OF _ run[unfolded cli_execute_def]], goal_cases)
    case (1 ks)
    show ?case
      by (cases "find (\<lambda>k. tc_tool_name k = ''system_restart_app'') ks")
        (auto simp: unknown_tool_result_def intro!: tool_result_knowing restart_knowing intro: restart_trace.unknown)
  qed
  with run show ?thesis by simp
qed

section \<open>Controls\<close>

text \<open>
  The ways of a control or a rollback with a known manifest: the tool is not in it; the lookups raise, or find no app or no
  lease; the command of its contract is not run, or is run with the options of the resolved arguments.
\<close>

inductive control_trace :: "'a cli \<Rightarrow> string \<Rightarrow> (string \<Rightarrow> string) \<Rightarrow> ToolContract list \<Rightarrow> dict \<Rightarrow> event list \<Rightarrow> bool option \<Rightarrow> bool"
  for c t target ks args where
  unknown: "find (\<lambda>k. tc_tool_name k = t) ks = None \<Longrightarrow> control_trace c t target ks args [] (Some False)"
| broken: "interrupted c ks target args n \<Longrightarrow> control_trace c t target ks args n None"
| unresolved: "resolution c ks target args n None \<Longrightarrow> control_trace c t target ks args n (Some False)"
| not_run: "resolution c ks target args n (Some d) \<Longrightarrow> control_trace c t target ks args n None"
| ran: "find (\<lambda>k. tc_tool_name k = t) ks = Some k \<Longrightarrow> resolution c ks target args n (Some d) \<Longrightarrow> ended_by r o' \<Longrightarrow>
    control_trace c t target ks args (n @ [Ran (build_contract_command_with_args c k d) r]) o'"

lemma run_control_knowing:
  assumes k: "find (\<lambda>k. tc_tool_name k = t) ks = Some k" and d: "resolution c ks target args pre (Some d)"
  shows "knowing ks (run_control (logged_cli c) kind k d)
    (\<lambda>x n. control_trace c t target ks args (pre @ n) (Some (te_status x = ''ok''))) (\<lambda>n. control_trace c t target ks args (pre @ n) None)"
  unfolding run_control_def
proof (rule adds_in_bind[OF raw_knowing], goal_cases)
  case (1 ra n)
  obtain r x where ra: "ra = (r, x)" by (cases ra)
  with 1 have n: "n = [Ran (build_contract_command_with_args c k d) r]" and "\<forall>d. x = Inr d \<longleftrightarrow> parse_json_stdout r = Inr d" by auto
  note fine = answer_fine[OF this(2)]
  have ran: "control_trace c t target ks args (pre @ n) (Some (fine_answer r))"
    unfolding n by (rule control_trace.ran[OF k d]) (simp add: ended_by_def)
  show ?case
    by (cases x) (use ran fine in \<open>auto simp: ra intro!: tool_result_knowing split: option.splits\<close>)
next
  case (2 n)
  show ?case
  proof (cases n)
    case Nil
    with control_trace.not_run[OF d] show ?thesis by simp
  next
    case (Cons e es)
    with 2 obtain r e' where n: "n = [Ran (build_contract_command_with_args c k d) r]" and "parse_json_stdout r = Inl e'" by auto
    with control_trace.ran[OF k d, of r None] show ?thesis by (simp add: ended_by_def fine_answer_def)
  qed
qed

lemma single_control_knowing:
  assumes "find (\<lambda>k. tc_tool_name k = t) ks = Some k"
  shows "knowing ks (execute_single_app_control (logged_cli c) k args)
    (\<lambda>x n. control_trace c t control_resource ks args n (Some (te_status x = ''ok''))) (\<lambda>n. control_trace c t control_resource ks args n None)"
  unfolding execute_single_app_control_def
proof (rule adds_in_bind[OF control_knowing], goal_cases)
  case (1 resolved pre)
  then show ?case
    by (cases resolved)
      (auto simp: unresolved_result_def intro!: tool_result_knowing run_control_knowing[OF assms] intro: control_trace.unresolved)
qed (rule control_trace.broken)

lemma rollback_knowing:
  assumes "find (\<lambda>k. tc_tool_name k = t) ks = Some k"
  shows "knowing ks (execute_rollback_app (logged_cli c) k args)
    (\<lambda>x n. control_trace c t rollback_resource ks args n (Some (te_status x = ''ok''))) (\<lambda>n. control_trace c t rollback_resource ks args n None)"
  unfolding execute_rollback_app_def resolve_rollback_args_def
proof (rule adds_in_bind[OF leased_knowing], goal_cases)
  case (1 resolved pre)
  then show ?case
    by (cases resolved)
      (auto simp: unresolved_result_def intro!: tool_result_knowing run_control_knowing[OF assms] intro: control_trace.unresolved)
qed (rule control_trace.broken)

definition control_tools :: "(string \<times> (string \<Rightarrow> string)) list" where
  "control_tools = [(''system_rollback_app'', rollback_resource), (''system_start_app'', control_resource),
     (''system_stop_app'', control_resource), (''system_unload_app'', control_resource)]"

lemma control_cases:
  assumes "(t, target) \<in> set control_tools"
  shows "t = ''system_rollback_app'' \<and> target = rollback_resource \<or> target = control_resource \<and> t \<noteq> ''system_activation_health_guard''
    \<and> t \<noteq> ''system_rollback_app'' \<and> t \<noteq> ''system_restart_app'' \<and> t \<in> fst ` set APP_CONTROL_TOOL_ACTIONS"
  using assms by (auto simp: control_tools_def APP_CONTROL_TOOL_ACTIONS_def)

text \<open>C14: The start, stop, unload and rollback of an app through the Neuro CLI, from any manifest cache, with any answers
  and any exceptions of the runner. The manifest is read with its one command, unless it is cached. The app is that of the arguments,
  or the only one in the answer of the manifest's command for the apps; the lease is that of the arguments, or the first
  on the operation's resource in the answer of the manifest's command for the leases. Without an app or a lease nothing
  more is run; with both, at most one command: that of the manifest's contract, with the arguments and the app and
  the lease filled in under the keys they do not have. It returns ok exactly when that command was run and its answer was
  fine. The lease that was found is not sent when the arguments hold a
  blank \<open>lease_id\<close> (\<open>blank_lease_is_not_sent\<close>).\<close>

theorem control_needs_lease:
  "list_all (\<lambda>(t, target). case cli_execute (logged_cli c) t args (((a, []), cache), w) of
     (r, s') \<Rightarrow> run_log c cache (\<lambda>ks. control_trace c t target ks args) (cli_log s') (ending r)) control_tools"
  unfolding list_all_iff
proof (clarify, goal_cases)
  case (1 t target r a' l' cache' w')
  show ?case
  proof (rule run_with_manifest[OF _ 1(2)[unfolded cli_execute_def]], goal_cases)
    case (1 ks)
    show ?case
    proof (cases "find (\<lambda>k. tc_tool_name k = t) ks")
      case None
      then show ?thesis by (auto simp: unknown_tool_result_def intro!: tool_result_knowing intro: control_trace.unknown)
    next
      case (Some k)
      from control_cases[OF \<open>(t, target) \<in> set control_tools\<close>] show ?thesis
      proof
        assume "t = ''system_rollback_app'' \<and> target = rollback_resource"
        with Some rollback_knowing[OF Some, of c args] show ?thesis by simp
      next
        assume "target = control_resource \<and> t \<noteq> ''system_activation_health_guard''
          \<and> t \<noteq> ''system_rollback_app'' \<and> t \<noteq> ''system_restart_app'' \<and> t \<in> fst ` set APP_CONTROL_TOOL_ACTIONS"
        with Some single_control_knowing[OF Some, of c args] show ?thesis by simp
      qed
    qed
  qed
qed

text \<open>The options of a resolved control, when the arguments given have no blank entries.\<close>

lemma resolved_options:
  assumes "resolution c ks target args n (Some d)"
    and "\<And>key. key \<in> {''app_id'', ''app'', ''lease_id''} \<Longrightarrow> dhas args key \<Longrightarrow> truthy (dget args key)"
  shows "\<exists>a l. a \<noteq> [] \<and> l \<noteq> [] \<and> argument_option d ''--app-id'' = [''--app-id'', a]
    \<and> argument_option d ''--lease-id'' = [''--lease-id'', l]"
proof -
  from assms(1) obtain app_id lease_id where ids: "app_id \<noteq> []" "lease_id \<noteq> []"
    and d: "d = with_app_and_lease args app_id lease_id"
    by (cases rule: resolution.cases) auto
  have truthy_given: "truthy v \<Longrightarrow> given v" for v by (auto simp: given_def)
  have app: "truthy (dget d ''app_id'')" and lease: "truthy (dget d ''lease_id'')"
    using ids assms(2)[of "''app_id''"] assms(2)[of "''lease_id''"]
    by (auto simp: d with_app_and_lease_def dget_dsetdefault)
  have keys: "candidate_keys ''--app-id'' = [''app_id'', ''app'', ''app_id'']" "candidate_keys ''--lease-id'' = [''lease_id'', ''lease_id'']"
    by code_simp+
  show ?thesis
    using truthy_given[OF app] truthy_given[OF lease] py_str_truthy[OF app] py_str_truthy[OF lease]
    by (auto simp: argument_option_def keys)
qed

text \<open>
  A blank lease in the arguments: the lease is looked up, but \<open>setdefault\<close> leaves the blank entry, and
  the command goes out without \<open>--lease-id\<close>.
\<close>

definition lease_answer :: CommandExecutionResult where
  "lease_answer = \<lparr>cr_exit_code = 0, cr_stdout =
     ''{\"ok\": true, \"replies\": [{\"payload\": {\"leases\": [{\"resource\": \"app/x/control\", \"lease_id\": \"L1\"}]}}]}'', cr_stderr = []\<rparr>"

definition sample_cli :: "CommandExecutionResult \<Rightarrow> unit cli" where
  "sample_cli answer = \<lparr>cl_node = ''unit-01'', cl_source_core = ''core-cli'', cl_source_agent = ''rational'', cl_timeout_seconds = 10,
     cl_python_executable = ''python'', cl_wrapper_path = ''invoke_neuro_cli.py'',
     cl_runner = (\<lambda>argv timeout (a, w). Inr (answer, a, w)), cl_real_process = False\<rparr>"

definition sample_manifest :: "ToolContract list" where
  "sample_manifest = [contract_system_stop_app, contract_system_query_leases]"

definition blank_lease_run :: "ToolExecutionResult result \<times> (((unit \<times> event list) \<times> ToolContract list option) \<times> env)" where
  "blank_lease_run = cli_execute (logged_cli (sample_cli lease_answer)) ''system_stop_app''
     [(''app_id'', PStr ''x''), (''lease_id'', PStr [])] ((((), []), Some sample_manifest), sample_env)"

lemma lease_answer_document: "parse_json_stdout lease_answer = Inr [(''ok'', PBool True),
    (''replies'', PList [PDict [(''payload'', PDict [(''leases'', PList [PDict [(''resource'', PStr ''app/x/control''), (''lease_id'', PStr ''L1'')]])])]])]"
  by code_simp

text \<open>A blank lease in the arguments of a control: the lease \<open>L1\<close> is found and the control runs, but with no
  \<open>--lease-id\<close>, and the result says ok.\<close>

theorem blank_lease_is_not_sent:
  "cli_log (snd blank_lease_run) =
     [Ran (base_command (sample_cli lease_answer) ''json'' @ [''query'', ''leases'']) lease_answer,
      Ran (app_command (sample_cli lease_answer) ''stop'' [''--app-id'', ''x'']) lease_answer]
   \<and> went_well (fst blank_lease_run)"
  by code_simp

section \<open>The health guard\<close>

definition health_classes :: "string list" where
  "health_classes = [''healthy'', ''degraded'', ''no_reply'', ''rollback_required'']"

lemma verdict_class: "fst (health_verdict device n st) \<in> set health_classes"
  by (auto simp: health_verdict_def health_classes_def split: option.split)

lemma no_reply_class: "''no_reply'' \<in> set health_classes"
  by (simp add: health_classes_def)

lemma classify_class: "classify_activation_health_result r a = Inr h \<Longrightarrow> ah_classification h \<in> set health_classes"
  by (auto simp: classify_activation_health_result_def Let_def split_beta verdict_class no_reply_class split: if_splits)

text \<open>What the release gate reads from the guard: a health and its failure, empty for a healthy app.\<close>

definition guard_answer :: "ToolExecutionResult \<Rightarrow> bool" where
  "guard_answer r \<longleftrightarrow> te_status r = ''ok'' \<and> (\<exists>h f. health_failure_of r = Inr (Some h, f)
     \<and> (\<exists>cl \<in> set health_classes. dget h ''classification'' = PStr cl \<and> f = (if cl = ''healthy'' then [] else cl)))"

lemma guard_answerI:
  assumes "te_status r = ''ok''" and "dget (te_payload r) ''activation_health'' = PDict (ActivationHealthObservation_to_dict h)"
    and "ah_classification h \<in> set health_classes"
  shows "guard_answer r"
proof -
  have d: "dget (ActivationHealthObservation_to_dict h) ''classification'' = PStr (ah_classification h)"
    by (simp add: ActivationHealthObservation_to_dict_def)
  have "truthy (PDict (ActivationHealthObservation_to_dict h))"
    by (simp add: ActivationHealthObservation_to_dict_def)
  then have "health_failure_of r = Inr (Some (ActivationHealthObservation_to_dict h),
      if ah_classification h = ''healthy'' then [] else ah_classification h)"
    using assms d by (auto simp: health_failure_of_def health_classes_def)
  with assms d show ?thesis by (auto simp: guard_answer_def)
qed

lemma tool_result_Inr:
  "tool_result t st p s = (Inr r, s') \<Longrightarrow> te_tool_name r = t \<and> te_status r = st \<and> te_payload r = p \<and> fst s' = fst s"
  by (auto simp: tool_result_def pupdate_def fake_result_def split: prod.splits sum.splits)

lemma guard_returns:
  "execute_activation_health_guard c k args s = (Inr r, s') \<Longrightarrow> guard_answer r"
proof -
  assume run: "execute_activation_health_guard c k args s = (Inr r, s')"
  then obtain sync h entry s1 where h: "classify_activation_health_result sync (app_arg [] args) = Inr h"
    and r: "tool_result (tc_tool_name k) ''ok''
       [contract_entry k, (''activation_health'', PDict (ActivationHealthObservation_to_dict h)), entry] s1 = (Inr r, s')"
    unfolding execute_activation_health_guard_def by (auto simp: pbind_Inr plift_def)
  from tool_result_Inr[OF r] show ?thesis
    by (intro guard_answerI[OF _ _ classify_class[OF h]]) (simp_all add: contract_entry_def)
qed

text \<open>The health guard through the Neuro CLI answers: when it returns, the result says ok and carries a health
  of one of the four classes, from which the release gate reads no failure for a healthy app and the class
  otherwise. The only other result is that of a manifest that does not list the guard.\<close>

theorem health_guard_answers:
  "case cli_execute c ''system_activation_health_guard'' args s of (Inl e, _) \<Rightarrow> True
   | (Inr r, s') \<Rightarrow> \<exists>m. cached m s' \<and> (if ''system_activation_health_guard'' \<in> set (map tc_tool_name m) then guard_answer r
       else te_status r = ''error'' \<and> dget (te_payload r) ''failure_status'' = PStr ''unknown_tool'')"
proof -
  obtain r s' where run: "cli_execute c ''system_activation_health_guard'' args s = (r, s')" by (metis prod.exhaust)
  show ?thesis
  proof (cases r)
    case (Inr x)
    with run obtain k s1 where describe: "cli_describe_tool c ''system_activation_health_guard'' s = (Inr k, s1)"
      and rest: "(case k of None \<Rightarrow> unknown_tool_result ''system_activation_health_guard''
        | Some k \<Rightarrow> execute_activation_health_guard c k args) s1 = (Inr x, s')"
      by (auto simp: cli_execute_def pbind_Inr cong: option.case_cong)
    from describe_reads[OF describe] obtain m where m: "cached m s1"
      and k: "k = find (\<lambda>k. tc_tool_name k = ''system_activation_health_guard'') m" by blast
    have "keeps (cached m) (case k of None \<Rightarrow> unknown_tool_result ''system_activation_health_guard''
        | Some k \<Rightarrow> execute_activation_health_guard c k args)"
      unfolding unknown_tool_result_def by (intro keeps_cases tool_result_keeps guard_keeps)
    from triple_Inr[OF this m rest] have m': "cached m s'" .
    show ?thesis
    proof (cases k)
      case None
      with rest have "te_status x = ''error'' \<and> dget (te_payload x) ''failure_status'' = PStr ''unknown_tool''"
        by (auto simp: unknown_tool_result_def failure_entries_def dest: tool_result_Inr)
      with None k m' show ?thesis by (auto simp: run Inr find_None_iff)
    next
      case (Some y)
      with rest have "execute_activation_health_guard c y args s1 = (Inr x, s')" by simp
      note guard_returns[OF this]
      moreover have "''system_activation_health_guard'' \<in> set (map tc_tool_name m)"
        using Some k find_None_iff[of "\<lambda>k. tc_tool_name k = ''system_activation_health_guard''" m] by (auto intro: rev_image_eqI)
      ultimately show ?thesis using m' by (auto simp: run Inr)
    qed
  qed (simp add: run)
qed

end
