(* ===== verification/LiveEvents.thy ===== *)
theory LiveEvents
  imports CliAdapter Events
begin

text \<open>
  The event side of \<open>NeuroCliToolAdapter\<close>: the monitor commands and the rows they answer with. A live row
  becomes an event with an identity of its own, computed from its content, so that the same event read
  twice is the same perception event to the router.
\<close>

section \<open>Events\<close>

definition at_least_0 :: "int \<Rightarrow> string" where
  "at_least_0 i = dec_int (max 0 i)"

definition collect_agent_events :: "'a cli \<Rightarrow> int \<Rightarrow> ('a, dict list) cli_prog" where
  "collect_agent_events c max_events =
     pbind (cli_run c (base_command c ''jsonl'' @ [''monitor'', ''agent-events'', ''--max-events'', at_least_0 max_events])
       (cl_timeout_seconds c)) (\<lambda>r. plift (parse_jsonl_stdout r))"

definition keyexpr_parts :: "string \<Rightarrow> string list" where
  "keyexpr_parts keyexpr = filter (\<lambda>segment. segment \<noteq> []) (split_slash keyexpr)"

definition source_node_from_keyexpr :: "string \<Rightarrow> string" where
  "source_node_from_keyexpr keyexpr = (case keyexpr_parts keyexpr of
     a # b # _ \<Rightarrow> if a = ''neuro'' then b else [] | _ \<Rightarrow> [])"

definition source_app_from_keyexpr :: "string \<Rightarrow> string" where
  "source_app_from_keyexpr keyexpr = (case keyexpr_parts keyexpr of
     a # _ # d # e # f # _ \<Rightarrow> if a = ''neuro'' \<and> d = ''event'' \<and> e = ''app'' then f else [] | _ \<Rightarrow> [])"

text \<open>\<open>re.sub(r"[^a-zA-Z0-9]+", "-", s).strip("-").lower()\<close>.\<close>

definition is_ascii_alnum :: "char \<Rightarrow> bool" where
  "is_ascii_alnum ch = (let n = code_point ch in 48 \<le> n \<and> n \<le> 57 \<or> 65 \<le> n \<and> n \<le> 90 \<or> 97 \<le> n \<and> n \<le> 122)"

fun dashed :: "bool \<Rightarrow> string \<Rightarrow> string" where
  "dashed in_run [] = []"
| "dashed in_run (ch # s) = (if is_ascii_alnum ch then ch # dashed False s
     else (if in_run then [] else [CHR ''-'']) @ dashed True s)"

definition strip_dashes :: "string \<Rightarrow> string" where
  "strip_dashes s = rev (dropWhile (\<lambda>ch. ch = CHR ''-'') (rev (dropWhile (\<lambda>ch. ch = CHR ''-'') s)))"

definition event_id_token :: "pyval \<Rightarrow> string" where
  "event_id_token v = (let token = str_lower (strip_dashes (dashed False (str_or v []))) in
     if token = [] then ''unknown'' else token)"

definition payload_text :: "dict \<Rightarrow> string list \<Rightarrow> string" where
  "payload_text payload keys = (case find given (map (dget payload) keys) of Some v \<Rightarrow> py_str v | None \<Rightarrow> [])"

definition update_event_topic :: "dict \<Rightarrow> string option" where
  "update_event_topic payload = (
     let stage = str_lower (payload_text payload [''stage'']);
         status = str_lower (payload_text payload [''status'', ''update_state'', ''runtime_state'']) in
     if stage = ''activate'' \<and> status \<notin> {[], ''ok'', ''active'', ''running''} then Some ''unit.lifecycle.activate_failed''
     else if stage \<noteq> [] then Some (''unit.lifecycle.'' @ stage) else None)"

definition state_event_topic :: "dict \<Rightarrow> string option" where
  "state_event_topic payload = (
     let health = str_lower (payload_text payload [''health'']);
         network_state = str_lower (payload_text payload [''network_state'']);
         state = str_lower (payload_text payload [''state'', ''runtime_state'', ''status'']);
         expected_endpoint = payload_text payload [''expected_endpoint'', ''configured_endpoint''];
         observed_endpoint = payload_text payload [''observed_endpoint'', ''actual_endpoint'', ''current_endpoint''];
         drift_flag = str_lower (payload_text payload [''endpoint_drift'']) in
     if drift_flag \<in> {''1'', ''true'', ''yes''}
       \<or> expected_endpoint \<noteq> [] \<and> observed_endpoint \<noteq> [] \<and> expected_endpoint \<noteq> observed_endpoint
     then Some ''unit.network.endpoint_drift''
     else if health = ''degraded'' \<or> state = ''degraded'' then Some ''unit.health.degraded''
     else if state = ''offline'' \<or> network_state \<in> {''offline'', ''disconnected'', ''no_reply''} then Some ''unit.state.offline''
     else if state = ''online'' \<or> network_state = ''network_ready'' then Some ''unit.state.online'' else None)"

definition ends_with :: "string \<Rightarrow> string \<Rightarrow> bool" where
  "ends_with s suf \<longleftrightarrow> startswith (rev s) (rev suf)"

definition semantic_topic_for_live_payload :: "dict \<Rightarrow> string \<Rightarrow> string \<Rightarrow> string \<Rightarrow> string" where
  "semantic_topic_for_live_payload payload message_kind keyexpr current_semantic_topic = (
     if current_semantic_topic \<noteq> [] then current_semantic_topic
     else if message_kind = ''callback_event'' then ''unit.callback''
     else if message_kind = ''lease_event'' then ''lease_event''
     else case (if message_kind = ''update_event'' then update_event_topic payload
         else if message_kind = ''state_event'' then state_event_topic payload else None) of
       Some topic \<Rightarrow> topic
     | None \<Rightarrow> if ends_with keyexpr ''/health'' then ''unit.health.unknown''
         else if ends_with keyexpr ''/state'' then ''unit.state.unknown'' else [])"

text \<open>Where an event comes from: node, app and kind.\<close>

definition event_sources :: "dict \<Rightarrow> dict \<Rightarrow> string \<Rightarrow> string \<Rightarrow> string \<Rightarrow> string \<times> string \<times> string" where
  "event_sources row payload keyexpr default_source_kind default_app_id = (
     let source_node = py_str (por (dget row ''source_node'') (por (dget payload ''source_node'') (PStr (source_node_from_keyexpr keyexpr))));
         source_app = py_str (por (dget row ''source_app'') (por (dget payload ''source_app'') (por (dget payload ''app_id'')
           (por (PStr default_app_id) (PStr (source_app_from_keyexpr keyexpr))))));
         source_kind = py_str (por (dget row ''source_kind'') (por (dget payload ''source_kind'')
           (PStr (if source_app \<noteq> [] then ''unit_app'' else default_source_kind)))) in
     (source_node, source_app, source_kind))"

definition live_event_type :: "dict \<Rightarrow> dict \<Rightarrow> string \<Rightarrow> string \<Rightarrow> string \<Rightarrow> string" where
  "live_event_type row payload message_kind event_name semantic_topic = (
     let event_type = str_or (por (dget row ''event_type'') (dget payload ''event_type'')) [] in
     if event_type \<noteq> [] then event_type
     else if message_kind = ''callback_event'' then ''callback''
     else if event_name \<noteq> [] then event_name
     else if semantic_topic \<noteq> [] then semantic_topic
     else if message_kind \<noteq> [] then message_kind else ''unknown'')"

definition identity_seed :: "dict \<Rightarrow> string \<Rightarrow> pyval" where
  "identity_seed payload timestamp_wall = por (dget payload ''event_id'') (por (PStr timestamp_wall)
     (foldr (\<lambda>key. por (dget payload key)) [''timestamp_ms'', ''state_version'', ''sequence'', ''invoke_count'', ''status'',
       ''health'', ''state'', ''network_state''] (PStr ''0'')))"

definition live_event_id :: "string \<times> string \<times> string \<Rightarrow> string \<Rightarrow> pyval \<Rightarrow> string" where
  "live_event_id sources event_type seed = (case sources of (source_node, source_app, source_kind) \<Rightarrow>
     ''liveevt-'' @ event_id_token (PStr (if source_node = [] then ''node'' else source_node)) @ ''-''
     @ event_id_token (PStr (if source_app = [] then source_kind else source_app)) @ ''-''
     @ event_id_token (PStr event_type) @ ''-'' @ event_id_token seed)"

text \<open>The row with what was found out about it; an id it has is kept.\<close>

definition live_row :: "dict \<Rightarrow> string \<Rightarrow> string \<Rightarrow> string \<times> string \<times> string \<Rightarrow> string \<Rightarrow> string \<Rightarrow> dict" where
  "live_row row timestamp_wall event_id sources event_type semantic_topic = (case sources of (source_node, source_app, source_kind) \<Rightarrow>
     let row = (if timestamp_wall \<noteq> [] then dset row ''timestamp_wall'' (PStr timestamp_wall) else row);
         row = (if \<not> truthy (dget row ''event_id'') then dset row ''event_id'' (PStr event_id) else row);
         row = dset (dset row ''source_kind'' (PStr source_kind)) ''source_node'' (PStr source_node);
         row = (if source_app \<noteq> [] then dset row ''source_app'' (PStr source_app) else row) in
     dset (dset row ''event_type'' (PStr event_type)) ''semantic_topic'' (PStr semantic_topic))"

text \<open>The priority of the row, its payload, and a dedupe key when it has none.\<close>

definition finish_row :: "dict \<Rightarrow> dict \<Rightarrow> string \<Rightarrow> dict result" where
  "finish_row row payload event_type =
     ebind (py_int (por (dget row ''priority'') (por (dget payload ''priority'')
       (PInt (if event_type = ''callback'' then 80 else 50))))) (\<lambda>priority.
     let row = dset (dset row ''priority'' (PInt priority)) ''payload'' (PDict payload) in
     Inr (dsetdefault row ''dedupe_key'' (dget row ''event_id'')))"

definition normalize_live_event_row :: "string \<Rightarrow> string \<Rightarrow> dict \<Rightarrow> dict result" where
  "normalize_live_event_row default_source_kind default_app_id raw_event = (
     if truthy (dget raw_event ''semantic_topic'') \<and> truthy (dget raw_event ''event_id'') then Inr raw_event
     else case dget raw_event ''payload'' of
       PDict payload \<Rightarrow>
         (let keyexpr = str_or (dget raw_event ''keyexpr'') [];
              message_kind = str_or (dget payload ''message_kind'') [];
              event_name = str_or (dget payload ''event_name'') [];
              sources = event_sources raw_event payload keyexpr default_source_kind default_app_id;
              semantic_topic = semantic_topic_for_live_payload payload message_kind keyexpr
                (str_or (por (dget raw_event ''semantic_topic'') (dget payload ''semantic_topic'')) []);
              event_type = live_event_type raw_event payload message_kind event_name semantic_topic;
              timestamp_wall = str_or (por (dget raw_event ''timestamp_wall'') (dget payload ''timestamp_wall'')) [];
              row = live_row raw_event timestamp_wall
                (live_event_id sources event_type (identity_seed payload timestamp_wall)) sources event_type
                (if semantic_topic = [] then event_type else semantic_topic) in
          finish_row row payload event_type)
     | _ \<Rightarrow> Inr raw_event)"

text \<open>A callback of an app is identified by the counters of the app, unless its payload names it.\<close>

definition normalize_app_event_row :: "string \<Rightarrow> dict \<Rightarrow> dict result" where
  "normalize_app_event_row default_app_id raw_event =
     ebind (normalize_live_event_row ''unit_app'' default_app_id raw_event) (\<lambda>row.
     let payload_event_id = (case dget raw_event ''payload'' of PDict d \<Rightarrow> str_or (dget d ''event_id'') [] | _ \<Rightarrow> []) in
     Inr (case dget row ''payload'' of
       PDict payload \<Rightarrow>
         if str_or (dget row ''event_type'') [] = ''callback'' \<and> payload_event_id = []
         then (let event_id = py_str (por (dget payload ''event_id'') (PStr (''appevt-'' @ py_str (dget row ''source_app'') @ ''-''
               @ py_str (dget row ''event_type'') @ ''-'' @ py_str (dget payload ''invoke_count'') @ ''-'' @ py_str (dget payload ''start_count''))));
             row = dset row ''event_id'' (PStr event_id) in dset row ''dedupe_key'' (PStr event_id))
         else row
     | _ \<Rightarrow> row))"

text \<open>A monitor command, its answer, and the rows of its events.\<close>

definition monitor_command :: "'a cli \<Rightarrow> string list \<Rightarrow> int \<Rightarrow> int \<Rightarrow> string \<Rightarrow> string list" where
  "monitor_command c what duration max_events ready_file =
     base_command c ''json'' @ [''monitor''] @ what @ [''--duration'', at_least_0 duration, ''--max-events'', at_least_0 max_events]
     @ (if ready_file \<noteq> [] then [''--ready-file'', ready_file] else [])"

definition monitor_timeout :: "'a cli \<Rightarrow> int \<Rightarrow> int" where
  "monitor_timeout c duration = max (cl_timeout_seconds c)
     (if duration > 0 then duration + cl_timeout_seconds c else cl_timeout_seconds c)"

definition monitor_events ::
    "'a cli \<Rightarrow> string list \<Rightarrow> int \<Rightarrow> int \<Rightarrow> string \<Rightarrow> string \<Rightarrow> (dict \<Rightarrow> dict result) \<Rightarrow> ('a, dict) cli_prog" where
  "monitor_events c what duration max_events ready_file kind normalize_row =
     (if duration \<le> 0 \<and> max_events \<le> 0 then pfail (ValueError (kind @ ''_event_collection_requires_duration_or_max_events''))
      else pbind (cli_run c (monitor_command c what duration max_events ready_file) (monitor_timeout c duration)) (\<lambda>r.
        pbind (plift (parse_json_stdout r)) (\<lambda>payload.
        if \<not> truthy (dget payload ''ok'') then pfail (ValueError (str_or (dget payload ''status'') (kind @ ''_event_monitor_failed'')))
        else case dget payload ''events'' of
          PList raw_events \<Rightarrow> pbind (plift (emap normalize_row (dicts_of raw_events))) (\<lambda>events.
            pret (dset payload ''events'' (PList (map PDict events))))
        | _ \<Rightarrow> pfail (ValueError (kind @ ''_event_monitor_missing_events'')))))"

definition collect_live_events :: "'a cli \<Rightarrow> int \<Rightarrow> int \<Rightarrow> string \<Rightarrow> ('a, dict) cli_prog" where
  "collect_live_events c duration max_events ready_file =
     monitor_events c [''events''] duration max_events ready_file ''live'' (normalize_live_event_row ''unit'' [])"

definition collect_app_events :: "'a cli \<Rightarrow> string \<Rightarrow> int \<Rightarrow> int \<Rightarrow> string \<Rightarrow> ('a, dict) cli_prog" where
  "collect_app_events c app_id duration max_events ready_file =
     monitor_events c [''app-events'', ''--app-id'', app_id] duration max_events ready_file ''app'' (normalize_app_event_row app_id)"

section \<open>Normal rows\<close>

lemma str_or_truthy [simp]: "truthy v \<Longrightarrow> str_or v [] = py_str v"
  by (simp add: str_or_def)

lemma live_event_type_not_Nil: "live_event_type row payload kind name topic \<noteq> []"
proof -
  have "str_or v [] = [] \<or> str_or v [] \<noteq> []" for v by blast
  then show ?thesis by (simp add: live_event_type_def Let_def)
qed

lemma live_event_id_not_Nil: "live_event_id sources type seed \<noteq> []"
  by (simp add: live_event_id_def split_beta)

text \<open>A row with a topic and an id: normalisation leaves it alone.\<close>

definition named :: "dict \<Rightarrow> bool" where
  "named row \<longleftrightarrow> truthy (dget row ''semantic_topic'') \<and> truthy (dget row ''event_id'')"

lemma normalize_named: "named row \<Longrightarrow> normalize_live_event_row k a row = Inr row"
  by (simp add: normalize_live_event_row_def named_def)

text \<open>What a normalised row has, when its payload is a dict and it was not named before.\<close>

definition complete_row :: "dict \<Rightarrow> bool" where
  "complete_row row \<longleftrightarrow> named row \<and> truthy (dget row ''event_type'') \<and> (\<exists>i. dget row ''priority'' = PInt i)
     \<and> dhas row ''dedupe_key'' \<and> dhas row ''source_kind'' \<and> dhas row ''source_node''"

lemma live_row_fields:
  "dget (live_row row ts i sources type topic) ''semantic_topic'' = PStr topic"
  "dget (live_row row ts i sources type topic) ''event_type'' = PStr type"
  "dget (live_row row ts i sources type topic) ''event_id'' = (if truthy (dget row ''event_id'') then dget row ''event_id'' else PStr i)"
  "dget (live_row row ts i sources type topic) ''dedupe_key'' = dget row ''dedupe_key''"
  "dhas (live_row row ts i sources type topic) ''source_kind''"
  "dhas (live_row row ts i sources type topic) ''source_node''"
  "dhas (live_row row ts i sources type topic) ''dedupe_key'' = dhas row ''dedupe_key''"
  by (simp_all add: live_row_def Let_def split_beta)

lemma live_row_shape:
  assumes "normalize_live_event_row k a raw = Inr row" and "\<not> named raw" and "dget raw ''payload'' = PDict payload"
  obtains ts i S ty tp p where "ty \<noteq> []" and "tp \<noteq> []" and "i \<noteq> []"
    and "row = dsetdefault (dset (dset (live_row raw ts i S ty tp) ''priority'' (PInt p)) ''payload'' (PDict payload))
      ''dedupe_key'' (dget (live_row raw ts i S ty tp) ''event_id'')"
proof -
  have topic: "(if t = [] then live_event_type raw payload mk en t else t) \<noteq> []" for t mk en
    using live_event_type_not_Nil by simp
  have skip: "\<not> (truthy (dget raw ''semantic_topic'') \<and> truthy (dget raw ''event_id''))"
    using assms(2) by (simp add: named_def)
  have finish: "finish_row (live_row raw ts i S ty tp) payload ty = Inr row \<Longrightarrow> \<exists>p. row = dsetdefault (dset (dset (live_row raw ts i S ty tp)
      ''priority'' (PInt p)) ''payload'' (PDict payload)) ''dedupe_key'' (dget (live_row raw ts i S ty tp) ''event_id'')" for ts i S ty tp
    by (auto simp: finish_row_def Let_def)
  show ?thesis
    using assms(1)[unfolded normalize_live_event_row_def if_not_P[OF skip] assms(3) pyval.case Let_def, THEN finish]
    by (elim exE) (rule that[OF live_event_type_not_Nil topic live_event_id_not_Nil])
qed

text \<open>A row that was not named, with a dict as payload: the id it had or one of its content, and a dedupe key.\<close>

lemma normalize_unnamed:
  assumes "normalize_live_event_row k a raw = Inr row" and "\<not> named raw" and "dget raw ''payload'' = PDict payload"
  shows "complete_row row \<and> dget row ''payload'' = PDict payload
    \<and> (truthy (dget raw ''event_id'') \<longrightarrow> dget row ''event_id'' = dget raw ''event_id'')
    \<and> dget row ''dedupe_key'' = (if dhas raw ''dedupe_key'' then dget raw ''dedupe_key'' else dget row ''event_id'')"
proof -
  from assms obtain ts i S ty tp p where ty: "ty \<noteq> []" and tp: "tp \<noteq> []" and i: "i \<noteq> []"
    and row: "row = dsetdefault (dset (dset (live_row raw ts i S ty tp) ''priority'' (PInt p)) ''payload'' (PDict payload))
      ''dedupe_key'' (dget (live_row raw ts i S ty tp) ''event_id'')"
    by (rule live_row_shape)
  from assms(2) have unnamed: "\<not> (truthy (dget raw ''semantic_topic'') \<and> truthy (dget raw ''event_id''))"
    by (simp add: named_def)
  have "dget row ''semantic_topic'' = PStr tp" "dget row ''event_type'' = PStr ty" "dget row ''priority'' = PInt p"
    "dget row ''payload'' = PDict payload"
    "dget row ''event_id'' = (if truthy (dget raw ''event_id'') then dget raw ''event_id'' else PStr i)"
    "dget row ''dedupe_key'' = (if dhas raw ''dedupe_key'' then dget raw ''dedupe_key'' else dget row ''event_id'')"
    "dhas row ''dedupe_key''" "dhas row ''source_kind''" "dhas row ''source_node''"
    by (simp_all add: row dget_dsetdefault live_row_fields)
  then show ?thesis using ty tp i by (auto simp: complete_row_def named_def)
qed

lemma normalize_unchanged:
  assumes "named raw \<or> \<not> is_dict (dget raw ''payload'')"
  shows "normalize_live_event_row k a raw = Inr raw"
proof (cases "named raw")
  case False
  with assms show ?thesis
    by (cases "dget raw ''payload''") (simp_all add: normalize_live_event_row_def is_dict_def)
qed (rule normalize_named)

text \<open>C16: Normalising a live row once is enough: a second time, with any defaults, returns it as it is. A row
  that is named already, or whose payload is not a dict, is returned as it is; any other leaves with a topic, an
  id, a type, an integer priority, a dedupe key and its sources.\<close>

theorem live_rows_normal:
  "case normalize_live_event_row k a raw of Inl e \<Rightarrow> True
   | Inr row \<Rightarrow> normalize_live_event_row k' a' row = Inr row
       \<and> (if \<not> named raw \<and> is_dict (dget raw ''payload'') then complete_row row else row = raw)"
proof (cases "named raw \<or> \<not> is_dict (dget raw ''payload'')")
  case True
  then show ?thesis by (auto simp: normalize_unchanged)
next
  case False
  then obtain payload where "dget raw ''payload'' = PDict payload"
    by (auto simp: is_dict_def split: pyval.splits)
  with False normalize_unnamed[of k a raw _ payload] normalize_named show ?thesis
    by (auto simp: complete_row_def split: sum.split)
qed

section \<open>Live rows at the router\<close>

text \<open>Reading a raw event draws from the environment, but whether it can be read does not depend on it.\<close>

lemma from_payload_any_env:
  "PerceptionEvent_from_payload d w = Inr (e, w') \<Longrightarrow> \<exists>e' w3. PerceptionEvent_from_payload d w2 = Inr (e', w3)"
  by (auto simp: PerceptionEvent_from_payload_def Let_def split: prod.splits)

lemma decode_any_env:
  "decode_batch w raws = Inr (es, w') \<Longrightarrow> \<forall>d \<in> set raws. explicit_key d \<Longrightarrow> \<exists>es' w3. decode_batch w2 raws = Inr (es', w3)"
proof (induction raws arbitrary: w es w2)
  case (Cons raw raws)
  from Cons.prems obtain e w1 es1 where e: "PerceptionEvent_from_payload (normalize_payload raw) w = Inr (e, w1)"
    and h: "hashable (event_key e)" and rest: "decode_batch w1 raws = Inr (es1, w')"
    by (auto split: prod.splits)
  from from_payload_any_env[OF e] obtain e' w3 where e': "PerceptionEvent_from_payload (normalize_payload raw) w2 = Inr (e', w3)"
    by blast
  have "event_key e' = event_key e"
    using explicit_event_key[OF e] explicit_event_key[OF e'] Cons.prems(2) by simp
  moreover obtain es' w4 where "decode_batch w3 raws = Inr (es', w4)"
    using Cons.IH[OF rest] Cons.prems(2) by (metis list.set_intros(2))
  ultimately show ?case using e' h by simp
qed simp

lemma named_explicit: "named row \<Longrightarrow> explicit_key row"
  by (cases "truthy (dget row ''dedupe_key'')") (simp_all add: named_def explicit_key_def raw_key_def)

lemma emap_source:
  "emap f xs = Inr ys \<Longrightarrow> y \<in> set ys \<Longrightarrow> (\<And>x. x \<in> set xs \<Longrightarrow> f x = Inr y \<Longrightarrow> P) \<Longrightarrow> P"
  by (induction xs arbitrary: ys) fastforce+

text \<open>Every event of a batch comes from one of its rows, and has the key the row gives, if it gives one.\<close>

definition comes_from :: "perception_event \<Rightarrow> dict \<Rightarrow> bool" where
  "comes_from e row \<longleftrightarrow> (\<exists>w w'. PerceptionEvent_from_payload (normalize_payload row) w = Inr (e, w'))"

lemma comes_from_key: "comes_from e row \<Longrightarrow> explicit_key row \<Longrightarrow> seen_key e = hash_key (raw_key row)"
  by (auto simp: comes_from_def seen_key_def explicit_event_key)

lemma decode_source:
  "decode_batch w rows = Inr (es, w') \<Longrightarrow> list_all2 comes_from es rows"
  by (induction rows arbitrary: w es) (auto simp: comes_from_def split: prod.splits, blast)

lemma normalize_rows:
  assumes "Events.normalize r w rows = (r', Inr (events, w'))"
  obtains es where "list_all2 comes_from es rows" and "set events \<subseteq> {e \<in> set es. seen_key e \<notin> seen_dedupe_keys r}"
    and "seen_dedupe_keys r' = seen_dedupe_keys r \<union> seen_key ` set es"
proof -
  from assms obtain es where es: "decode_batch w rows = Inr (es, w')"
    "events = sort_key event_sort_key (first_fresh seen_key (seen_dedupe_keys r) es)"
    "r' = r\<lparr>seen_dedupe_keys := seen_dedupe_keys r \<union> seen_key ` set es\<rparr>"
    by (rule normalize_Inr)
  have "set (first_fresh seen_key S xs) \<subseteq> {e \<in> set xs. seen_key e \<notin> S}" for S xs
    by (induction xs arbitrary: S) auto
  then have "set events \<subseteq> {e \<in> set es. seen_key e \<notin> seen_dedupe_keys r}" by (simp add: es(2))
  from that[OF decode_source[OF es(1)] this] es(3) show thesis by simp
qed

lemma replay_rows:
  assumes "Events.normalize r w rows = (r', Inr (events, w1))" and "Events.normalize r' w2 rows = (r'', Inr (again, w3))"
    and "e \<in> set again"
  shows "\<exists>row \<in> set rows. comes_from e row \<and> \<not> explicit_key row"
proof -
  from assms(1) obtain es where es: "list_all2 comes_from es rows" "seen_dedupe_keys r' = seen_dedupe_keys r \<union> seen_key ` set es"
    by (rule normalize_rows)
  from assms(2) obtain es2 where es2: "list_all2 comes_from es2 rows"
    "set again \<subseteq> {e \<in> set es2. seen_key e \<notin> seen_dedupe_keys r'}"
    by (rule normalize_rows)
  from es2 assms(3) obtain row i where row: "i < length rows" "row = rows ! i" "comes_from e row"
    by (metis (no_types, lifting) in_set_conv_nth list_all2_conv_all_nth mem_Collect_eq subsetD)
  moreover have "\<not> explicit_key row"
  proof
    assume row_key: "explicit_key row"
    from es(1) row(1,2) have "comes_from (es ! i) row" "es ! i \<in> set es" by (simp_all add: list_all2_conv_all_nth)
    with comes_from_key[OF row(3) row_key] comes_from_key[OF _ row_key, of "es ! i"]
    have "seen_key e \<in> seen_key ` set es" by (metis imageI)
    with es(2) es2(2) assms(3) show False by blast
  qed
  ultimately show ?thesis using nth_mem by blast
qed

text \<open>A row the adapter or the router can identify: named, with a dict as payload, or with a key of its own.\<close>

definition identifiable :: "dict \<Rightarrow> bool" where
  "identifiable raw \<longleftrightarrow> is_dict (dget raw ''payload'') \<or> explicit_key raw"

lemma unidentified_row:
  assumes "normalize_live_event_row k a raw = Inr row" and "\<not> explicit_key row"
  shows "row = raw \<and> \<not> identifiable raw"
proof (cases "is_dict (dget raw ''payload'') \<and> \<not> named raw")
  case True
  then obtain payload where "dget raw ''payload'' = PDict payload"
    by (auto simp: is_dict_def split: pyval.splits)
  from normalize_unnamed[OF assms(1) _ this] True assms(2) named_explicit[of row] show ?thesis
    by (simp add: complete_row_def)
next
  case False
  with normalize_unchanged[of raw k a] assms named_explicit[of raw] show ?thesis by (auto simp: identifiable_def)
qed

text \<open>C15: A monitor that reports the same rows again, all of them, whatever their payloads: normalised by the
  adapter and read once by the router, they hand out nothing the second time but events of rows that cannot be
  identified, those whose payload is no dict and that carry neither a dedupe key nor an event id. When there is
  no such row the second delivery is read and hands out nothing at all. Rows that cannot be identified do
  occur, because the monitor also reports the list and text payloads it decodes: see
  \<open>empty_list_passes_again\<close> and \<open>text_payload_raises\<close> below.\<close>

theorem live_replay_is_silent:
  "case emap (normalize_live_event_row k a) raws of Inl _ \<Rightarrow> True
   | Inr rows \<Rightarrow> (case Events.normalize r w rows of
       (_, Inl _) \<Rightarrow> True
     | (r', Inr (events, w1)) \<Rightarrow>
         (case snd (Events.normalize r' w2 rows) of
            Inl _ \<Rightarrow> True
          | Inr (again, w3) \<Rightarrow> list_all (\<lambda>e. list_ex (\<lambda>raw. comes_from e raw \<and> \<not> identifiable raw) raws) again)
         \<and> (if list_all identifiable raws then \<exists>w3. snd (Events.normalize r' w2 rows) = Inr ([], w3) else True))"
proof (cases "emap (normalize_live_event_row k a) raws")
  case rows: (Inr rows)
  obtain r' res where norm: "Events.normalize r w rows = (r', res)" by (cases "Events.normalize r w rows")
  show ?thesis
  proof (cases res)
    case (Inr x)
    obtain events w1 where x: "x = (events, w1)" by (cases x)
    note norm = norm[unfolded Inr x]
    have again: "list_ex (\<lambda>raw. comes_from e raw \<and> \<not> identifiable raw) raws"
      if "Events.normalize r' w2 rows = (r'', Inr (again, w3))" "e \<in> set again" for r'' again w3 e
    proof -
      from replay_rows[OF norm that] obtain row where row: "row \<in> set rows" "comes_from e row" "\<not> explicit_key row" by blast
      from rows row(1) obtain raw where raw: "raw \<in> set raws" "normalize_live_event_row k a raw = Inr row"
        by (rule emap_source)
      from unidentified_row[OF raw(2) row(3)] raw(1) row(2) show ?thesis by (auto simp: list_ex_iff)
    qed
    have silent: "\<exists>w3. snd (Events.normalize r' w2 rows) = Inr ([], w3)" if "list_all identifiable raws"
    proof -
      have explicit: "\<forall>d \<in> set rows. explicit_key d"
      proof
        fix d assume "d \<in> set rows"
        with rows obtain raw where "raw \<in> set raws" "normalize_live_event_row k a raw = Inr d" by (rule emap_source)
        with that unidentified_row[of k a raw d] show "explicit_key d" by (auto simp: list_all_iff)
      qed
      from norm obtain es where "decode_batch w rows = Inr (es, w1)" by (auto elim: normalize_Inr)
      from decode_any_env[OF this explicit] obtain es2 w3 where d: "decode_batch w2 rows = Inr (es2, w3)" by blast
      obtain r'' again where second: "Events.normalize r' w2 rows = (r'', Inr (again, w3))"
        using normalize_decode[OF d] by blast
      have "again = []"
      proof (rule ccontr)
        assume "again \<noteq> []"
        then obtain e where "e \<in> set again" by (cases again) auto
        from again[OF second this] that show False by (auto simp: list_ex_iff list_all_iff)
      qed
      with second show ?thesis by simp
    qed
    obtain r'' second where s: "Events.normalize r' w2 rows = (r'', second)" by (cases "Events.normalize r' w2 rows")
    from again silent s show ?thesis
      by (cases second) (auto simp: rows norm list_all_iff)
  qed (simp add: rows norm)
qed simp

text \<open>
  Payloads that are no dict. An empty list gets a new id each time, so the router hands it out again; a text
  cannot be made a dict, and the router raises for the whole batch.
\<close>

definition bare_row :: "pyval \<Rightarrow> dict" where
  "bare_row payload = [(''keyexpr'', PStr ''neuro/unit-01/event/app''), (''payload'', payload)]"

definition new_router :: "unit router" where
  "new_router = \<lparr>subscribers = [], seen_dedupe_keys = {}\<rparr>"

lemma empty_list_passes_again:
  "normalize_live_event_row ''unit'' [] (bare_row (PList [])) = Inr (bare_row (PList []))
   \<and> (case Events.normalize new_router sample_env [bare_row (PList [])] of
       (r', Inr (events, w1)) \<Rightarrow> (case Events.normalize r' w1 [bare_row (PList [])] of
         (_, Inr (again, _)) \<Rightarrow> length events = 1 \<and> length again = 1 | _ \<Rightarrow> False) | _ \<Rightarrow> False)"
  by code_simp

lemma text_payload_raises:
  "normalize_live_event_row ''unit'' [] (bare_row (PStr ''hello'')) = Inr (bare_row (PStr ''hello''))
   \<and> (case snd (Events.normalize new_router sample_env [bare_row (PStr ''hello'')]) of Inl (ValueError _) \<Rightarrow> True | _ \<Rightarrow> False)"
  by code_simp

end
