(* ===== verification/Inference.thy ===== *)
theory Inference
  imports DataStore
begin

text \<open>
  \<open>neurolink_core/inference.py\<close> and the configuration half of \<open>neurolink_core/maf.py\<close>: which model provider
  the process environment configures, how a multimodal request is normalised and routed to an
  inference profile, and the registry of provider profiles with its configuration file. The process
  environment is an association list; a variable counts when its value is not empty. The
  configuration file is the JSON document it holds, None when there is no file; that the optional
  framework package is installed is a parameter.
\<close>

type_synonym osenv = "(string \<times> string) list"

definition env_value :: "osenv \<Rightarrow> string \<Rightarrow> string option" where
  "env_value env name = (case map_of env name of Some v \<Rightarrow> if v = [] then None else Some v | None \<Rightarrow> None)"

abbreviation env_present :: "osenv \<Rightarrow> string \<Rightarrow> bool" where
  "env_present env name \<equiv> env_value env name \<noteq> None"

abbreviation texts :: "string list \<Rightarrow> pyval" where
  "texts xs \<equiv> PList (map PStr xs)"

section \<open>The model provider\<close>

definition MAF_RUNTIME_SCHEMA_VERSION :: string where
  "MAF_RUNTIME_SCHEMA_VERSION = ''1.2.0-maf-runtime-v1''"

definition MAF_PROVIDER_CONFIG_SCHEMA_VERSION :: string where
  "MAF_PROVIDER_CONFIG_SCHEMA_VERSION = ''1.2.0-maf-provider-config-v1''"

definition MAF_PROVIDER_ENV_VARS :: "string list" where
  "MAF_PROVIDER_ENV_VARS = [''AZURE_OPENAI_ENDPOINT'', ''AZURE_OPENAI_API_KEY'', ''OPENAI_API_KEY'']"

definition MAF_PROVIDER_ENDPOINT_ENV_VARS :: "string list" where
  "MAF_PROVIDER_ENDPOINT_ENV_VARS = [''AZURE_OPENAI_ENDPOINT'', ''OPENAI_BASE_URL'']"

definition MAF_PROVIDER_MODEL_ENV_VARS :: "string list" where
  "MAF_PROVIDER_MODEL_ENV_VARS = [''OPENAI_MODEL'']"

definition MAF_PROVIDER_DEPLOYMENT_ENV_VARS :: "string list" where
  "MAF_PROVIDER_DEPLOYMENT_ENV_VARS = [''AZURE_OPENAI_CHAT_DEPLOYMENT'', ''AZURE_OPENAI_DEPLOYMENT_NAME'']"

datatype MafProviderMode = DETERMINISTIC_FAKE | PROVIDER_AVAILABLE_NO_CALL | REAL_PROVIDER

fun mode_value :: "MafProviderMode \<Rightarrow> string" where
  "mode_value DETERMINISTIC_FAKE = ''deterministic_fake''"
| "mode_value PROVIDER_AVAILABLE_NO_CALL = ''provider_available_no_call''"
| "mode_value REAL_PROVIDER = ''real_provider''"

definition MafProviderMode_of :: "string \<Rightarrow> MafProviderMode result" where
  "MafProviderMode_of s = (case find (\<lambda>m. mode_value m = s) [DETERMINISTIC_FAKE, PROVIDER_AVAILABLE_NO_CALL, REAL_PROVIDER] of
     Some m \<Rightarrow> Inr m | None \<Rightarrow> Inl (ValueError (str_repr s @ '' is not a valid MafProviderMode'')))"

definition present_env_vars :: "osenv \<Rightarrow> string list \<Rightarrow> string list" where
  "present_env_vars env names = sort (filter (env_present env) names)"

definition first_present_env_var :: "osenv \<Rightarrow> string list \<Rightarrow> string option \<times> string option" where
  "first_present_env_var env names = (case find (env_present env) names of
     Some name \<Rightarrow> (Some name, env_value env name) | None \<Rightarrow> (None, None))"

record MafProviderConfig =
  mc_provider_kind :: string
  mc_credential_env_vars :: "string list"
  mc_endpoint_env_var :: "string option"
  mc_model_env_var :: "string option"
  mc_deployment_env_var :: "string option"
  mc_configured_model :: "string option"
  mc_configured_deployment :: "string option"

definition credentials_available :: "MafProviderConfig \<Rightarrow> bool" where
  "credentials_available c \<longleftrightarrow> mc_credential_env_vars c \<noteq> []"

definition model_identifier_configured :: "MafProviderConfig \<Rightarrow> bool" where
  "model_identifier_configured c \<longleftrightarrow> text_set (mc_configured_model c) \<or> text_set (mc_configured_deployment c)"

definition ready_for_model_call :: "MafProviderConfig \<Rightarrow> bool" where
  "ready_for_model_call c \<longleftrightarrow> credentials_available c \<and> model_identifier_configured c"

definition maf_missing_requirements :: "MafProviderConfig \<Rightarrow> string list" where
  "maf_missing_requirements c = (if credentials_available c then [] else [''credentials''])
     @ (if model_identifier_configured c then [] else [''model_identifier''])"

definition MafProviderConfig_to_dict :: "MafProviderConfig \<Rightarrow> dict" where
  "MafProviderConfig_to_dict c = [
     (''schema_version'', PStr MAF_PROVIDER_CONFIG_SCHEMA_VERSION), (''provider_kind'', PStr (mc_provider_kind c)),
     (''credential_env_vars'', texts (mc_credential_env_vars c)), (''credentials_available'', PBool (credentials_available c)),
     (''endpoint_env_var'', opt_str (mc_endpoint_env_var c)), (''endpoint_configured'', PBool (text_set (mc_endpoint_env_var c))),
     (''model_env_var'', opt_str (mc_model_env_var c)), (''deployment_env_var'', opt_str (mc_deployment_env_var c)),
     (''configured_model'', opt_str (mc_configured_model c)), (''configured_deployment'', opt_str (mc_configured_deployment c)),
     (''model_identifier_configured'', PBool (model_identifier_configured c)),
     (''ready_for_model_call'', PBool (ready_for_model_call c)), (''missing_requirements'', texts (maf_missing_requirements c))]"

definition build_maf_provider_config :: "osenv \<Rightarrow> MafProviderConfig" where
  "build_maf_provider_config env = (
     let credential_env_vars = present_env_vars env MAF_PROVIDER_ENV_VARS;
         (endpoint_env_var, _) = first_present_env_var env MAF_PROVIDER_ENDPOINT_ENV_VARS;
         (model_env_var, configured_model) = first_present_env_var env MAF_PROVIDER_MODEL_ENV_VARS;
         (deployment_env_var, configured_deployment) = first_present_env_var env MAF_PROVIDER_DEPLOYMENT_ENV_VARS in
     \<lparr>mc_provider_kind =
        (if endpoint_env_var = Some ''AZURE_OPENAI_ENDPOINT'' \<or> list_ex (\<lambda>name. startswith name ''AZURE_OPENAI_'') credential_env_vars
         then ''azure_openai''
         else if endpoint_env_var = Some ''OPENAI_BASE_URL'' \<or> ''OPENAI_API_KEY'' \<in> set credential_env_vars
         then ''openai_compatible'' else ''unknown''),
      mc_credential_env_vars = credential_env_vars, mc_endpoint_env_var = endpoint_env_var,
      mc_model_env_var = model_env_var, mc_deployment_env_var = deployment_env_var,
      mc_configured_model = configured_model, mc_configured_deployment = configured_deployment\<rparr>)"

record MafRuntimeProfile =
  mp_provider_mode :: string
  mp_framework_package_available :: bool
  mp_real_provider_enabled :: bool
  mp_provider_config :: MafProviderConfig
  mp_provider_ready_for_model_call :: bool
  mp_skip_reason :: string

definition MafRuntimeProfile_to_dict :: "MafRuntimeProfile \<Rightarrow> dict" where
  "MafRuntimeProfile_to_dict p = [
     (''schema_version'', PStr MAF_RUNTIME_SCHEMA_VERSION), (''framework'', PStr ''microsoft_agent_framework''),
     (''workflow_api'', PStr ''functional_workflow_compatible''), (''provider_mode'', PStr (mp_provider_mode p)),
     (''framework_package_available'', PBool (mp_framework_package_available p)),
     (''real_provider_enabled'', PBool (mp_real_provider_enabled p)),
     (''provider_ready_for_model_call'', PBool (mp_provider_ready_for_model_call p)), (''skip_reason'', PStr (mp_skip_reason p)),
     (''requires_model_credentials'', PBool (mp_real_provider_enabled p)), (''agent_roles'', texts [''affective'', ''rational'']),
     (''provider_config'', PDict (MafProviderConfig_to_dict (mp_provider_config p)))]"

definition build_maf_runtime_profile :: "bool \<Rightarrow> string \<Rightarrow> osenv \<Rightarrow> MafRuntimeProfile result" where
  "build_maf_runtime_profile package_available provider_mode env = ebind (MafProviderMode_of provider_mode) (\<lambda>mode.
     let provider_config = build_maf_provider_config env in
     Inr \<lparr>mp_provider_mode = mode_value mode, mp_framework_package_available = package_available,
       mp_real_provider_enabled = (mode = REAL_PROVIDER), mp_provider_config = provider_config,
       mp_provider_ready_for_model_call = (package_available \<and> ready_for_model_call provider_config),
       mp_skip_reason =
         (if mode = DETERMINISTIC_FAKE then ''deterministic_fake_mode''
          else if \<not> package_available then ''agent_framework_package_not_installed''
          else if \<not> credentials_available provider_config then ''model_credentials_not_configured''
          else if \<not> model_identifier_configured provider_config then ''model_identifier_not_configured''
          else if mode = PROVIDER_AVAILABLE_NO_CALL then ''availability_only_mode'' else [])\<rparr>)"

section \<open>Multimodal input\<close>

definition MULTIMODAL_INPUT_SCHEMA_VERSION :: string where
  "MULTIMODAL_INPUT_SCHEMA_VERSION = ''1.2.5-multimodal-input-v1''"

definition INFERENCE_PROFILE_SCHEMA_VERSION :: string where
  "INFERENCE_PROFILE_SCHEMA_VERSION = ''1.2.5-inference-profile-v1''"

definition INFERENCE_ROUTE_SCHEMA_VERSION :: string where
  "INFERENCE_ROUTE_SCHEMA_VERSION = ''1.2.5-inference-route-v1''"

definition SUPPORTED_RESPONSE_MODES :: "string list" where
  "SUPPORTED_RESPONSE_MODES = [''text'', ''audio'']"

definition DEFAULT_RESPONSE_MODES :: "string list" where
  "DEFAULT_RESPONSE_MODES = [''text'']"

definition DEFAULT_LATENCY_CLASS :: string where
  "DEFAULT_LATENCY_CLASS = ''interactive''"

record MediaReference =
  mr_mode :: string
  mr_ref :: string
  mr_ref_kind :: string
  mr_provenance :: string

definition MediaReference_to_dict :: "MediaReference \<Rightarrow> dict" where
  "MediaReference_to_dict r = [(''mode'', PStr (mr_mode r)), (''ref'', PStr (mr_ref r)),
     (''ref_kind'', PStr (mr_ref_kind r)), (''provenance'', PStr (mr_provenance r))]"

record NormalizedMultimodalInput =
  mi_request_id :: string
  mi_profile_hint :: string
  mi_input_modes :: "string list"
  mi_response_modes :: "string list"
  mi_latency_class :: string
  mi_text :: "string list"
  mi_images :: "MediaReference list"
  mi_audio :: "MediaReference list"
  mi_video :: "MediaReference list"
  mi_provenance :: string

definition references :: "MediaReference list \<Rightarrow> pyval" where
  "references rs = PList (map (\<lambda>r. PDict (MediaReference_to_dict r)) rs)"

definition NormalizedMultimodalInput_to_dict :: "NormalizedMultimodalInput \<Rightarrow> dict" where
  "NormalizedMultimodalInput_to_dict m = [
     (''schema_version'', PStr MULTIMODAL_INPUT_SCHEMA_VERSION), (''request_id'', PStr (mi_request_id m)),
     (''profile_hint'', PStr (mi_profile_hint m)), (''input_modes'', texts (mi_input_modes m)),
     (''response_modes'', texts (mi_response_modes m)), (''latency_class'', PStr (mi_latency_class m)),
     (''inputs'', PDict [(''text'', texts (mi_text m)), (''images'', references (mi_images m)),
        (''audio'', references (mi_audio m)), (''video'', references (mi_video m))]),
     (''provenance'', PStr (mi_provenance m))]"

text \<open>\<open>_dedupe\<close>: the first of every value.\<close>

definition dedupe :: "string list \<Rightarrow> string list" where
  "dedupe xs = rev (remdups (rev xs))"

definition classify_reference :: "string \<Rightarrow> string" where
  "classify_reference ref = (
     if startswith ref ''http://'' \<or> startswith ref ''https://'' then ''uri''
     else if startswith ref ''file:'' then ''file_uri''
     else if CHR ''/'' \<in> set ref \<or> startswith ref ''.'' then ''path'' else ''opaque_id'')"

definition normalize_refs :: "string \<Rightarrow> string list \<Rightarrow> string \<Rightarrow> MediaReference list result" where
  "normalize_refs mode refs provenance = emap (\<lambda>raw_ref. let ref = str_strip raw_ref in
     if ref = [] then Inl (ValueError (mode @ ''_reference_empty''))
     else if list_ex (\<lambda>ch. code_point ch \<in> {9, 10, 13}) ref
     then Inl (ValueError (mode @ ''_reference_contains_control_whitespace''))
     else Inr \<lparr>mr_mode = mode, mr_ref = ref, mr_ref_kind = classify_reference ref, mr_provenance = provenance\<rparr>) refs"

text \<open>The arguments; an empty list stands for None.\<close>

record multimodal_args =
  ma_request_id :: string
  ma_text :: "string list"
  ma_image_refs :: "string list"
  ma_audio_refs :: "string list"
  ma_video_refs :: "string list"
  ma_response_modes :: "string list"
  ma_profile_hint :: string
  ma_latency_class :: string
  ma_provenance :: string

definition default_multimodal_args :: multimodal_args where
  "default_multimodal_args = \<lparr>ma_request_id = ''multimodal-request-001'', ma_text = [], ma_image_refs = [], ma_audio_refs = [],
     ma_video_refs = [], ma_response_modes = [], ma_profile_hint = ''auto'', ma_latency_class = DEFAULT_LATENCY_CLASS,
     ma_provenance = ''operator_cli''\<rparr>"

definition normalize_multimodal_input :: "multimodal_args \<Rightarrow> NormalizedMultimodalInput result" where
  "normalize_multimodal_input a = (
     let normalized_text = map str_strip (filter (\<lambda>item. str_strip item \<noteq> []) (ma_text a)) in
     ebind (normalize_refs ''image'' (ma_image_refs a) (ma_provenance a)) (\<lambda>images.
     ebind (normalize_refs ''audio'' (ma_audio_refs a) (ma_provenance a)) (\<lambda>audio.
     ebind (normalize_refs ''video'' (ma_video_refs a) (ma_provenance a)) (\<lambda>video.
     let response_modes = dedupe (if ma_response_modes a = [] then DEFAULT_RESPONSE_MODES else ma_response_modes a);
         unsupported = sort (filter (\<lambda>mode. mode \<notin> set SUPPORTED_RESPONSE_MODES) response_modes);
         input_modes = map fst (filter snd [(''text'', normalized_text \<noteq> []), (''image'', images \<noteq> []),
           (''audio'', audio \<noteq> []), (''video'', video \<noteq> [])]) in
     if unsupported \<noteq> [] then Inl (ValueError (''unsupported_response_modes:'' @ str_join '','' unsupported))
     else if input_modes = [] then Inl (ValueError ''multimodal_input_requires_at_least_one_input'')
     else Inr \<lparr>mi_request_id = ma_request_id a,
       mi_profile_hint = (if ma_profile_hint a = [] then ''auto'' else ma_profile_hint a),
       mi_input_modes = input_modes, mi_response_modes = response_modes,
       mi_latency_class = (if ma_latency_class a = [] then DEFAULT_LATENCY_CLASS else ma_latency_class a),
       mi_text = normalized_text, mi_images = images, mi_audio = audio, mi_video = video, mi_provenance = ma_provenance a\<rparr>))))"

section \<open>Inference profiles and routing\<close>

record InferenceProfile =
  ip_name :: string
  ip_backend :: string
  ip_model_family :: string
  ip_input_modes :: "string list"
  ip_output_modes :: "string list"
  ip_local_default :: bool
  ip_resource_class :: string
  ip_requires_external_service :: bool
  ip_priority :: int

definition InferenceProfile_to_dict :: "InferenceProfile \<Rightarrow> dict" where
  "InferenceProfile_to_dict p = [
     (''schema_version'', PStr INFERENCE_PROFILE_SCHEMA_VERSION), (''name'', PStr (ip_name p)), (''backend'', PStr (ip_backend p)),
     (''model_family'', PStr (ip_model_family p)), (''input_modes'', texts (ip_input_modes p)),
     (''output_modes'', texts (ip_output_modes p)), (''local_default'', PBool (ip_local_default p)),
     (''resource_class'', PStr (ip_resource_class p)),
     (''requires_external_service'', PBool (ip_requires_external_service p)), (''priority'', PInt (ip_priority p))]"

definition INFERENCE_PROFILES :: "InferenceProfile list" where
  "INFERENCE_PROFILES = [
     \<lparr>ip_name = ''local_16g'', ip_backend = ''vllm_openai_compatible'', ip_model_family = ''gemma-3n-e4b'',
       ip_input_modes = [''text'', ''image'', ''audio'', ''video''], ip_output_modes = [''text''], ip_local_default = True,
       ip_resource_class = ''single_local_16gb_gpu'', ip_requires_external_service = True, ip_priority = 10\<rparr>,
     \<lparr>ip_name = ''visual_heavy'', ip_backend = ''vllm_openai_compatible'', ip_model_family = ''qwen3-vl-4b-instruct'',
       ip_input_modes = [''text'', ''image'', ''video''], ip_output_modes = [''text''], ip_local_default = False,
       ip_resource_class = ''visual_local_or_remote'', ip_requires_external_service = True, ip_priority = 20\<rparr>,
     \<lparr>ip_name = ''omni_premium'', ip_backend = ''vllm_openai_compatible'', ip_model_family = ''qwen3-omni-30b-a3b'',
       ip_input_modes = [''text'', ''image'', ''audio'', ''video''], ip_output_modes = [''text'', ''audio''], ip_local_default = False,
       ip_resource_class = ''premium_multimodal'', ip_requires_external_service = True, ip_priority = 30\<rparr>,
     \<lparr>ip_name = ''remote_openai_compatible'', ip_backend = ''openai_compatible_remote'', ip_model_family = ''operator_configured'',
       ip_input_modes = [''text'', ''image'', ''audio'', ''video''], ip_output_modes = [''text''], ip_local_default = False,
       ip_resource_class = ''remote_provider'', ip_requires_external_service = True, ip_priority = 90\<rparr>]"

definition get_inference_profile :: "string \<Rightarrow> InferenceProfile option" where
  "get_inference_profile name = find (\<lambda>p. ip_name p = name) INFERENCE_PROFILES"

definition inference_profile_catalog :: "dict list" where
  "inference_profile_catalog = map InferenceProfile_to_dict INFERENCE_PROFILES"

definition profile_readiness :: "osenv \<Rightarrow> bool \<Rightarrow> InferenceProfile \<Rightarrow> dict" where
  "profile_readiness env require_live_backend profile = (
     if \<not> require_live_backend then [
       (''profile'', PStr (ip_name profile)), (''ok'', PBool True), (''status'', PStr ''deterministic_ready''),
       (''reason'', PStr ''live_backend_not_required_for_deterministic_route''),
       (''requires_external_service'', PBool (ip_requires_external_service profile))]
     else (let provider_config = build_maf_provider_config env; ready = ready_for_model_call provider_config in [
       (''profile'', PStr (ip_name profile)), (''ok'', PBool ready),
       (''status'', PStr (if ready then ''ready'' else ''unavailable'')),
       (''reason'', PStr (if ready then ''provider_configuration_available''
          else if \<not> credentials_available provider_config then ''model_credentials_not_configured'' else ''model_identifier_not_configured'')),
       (''requires_external_service'', PBool (ip_requires_external_service profile)),
       (''provider_config'', PDict (MafProviderConfig_to_dict provider_config))]))"

definition missing_modes :: "string list \<Rightarrow> string list \<Rightarrow> string list" where
  "missing_modes required offered = sorted_set (filter (\<lambda>m. m \<notin> set offered) required)"

text \<open>The loop over the candidates: the profiles refused before the first that fits, and that profile.\<close>

fun select_profile :: "(InferenceProfile \<Rightarrow> dict) \<Rightarrow> NormalizedMultimodalInput \<Rightarrow> dict list \<Rightarrow> InferenceProfile list
    \<Rightarrow> dict list \<times> (InferenceProfile \<times> dict) option" where
  "select_profile readiness_of inp rejections [] = (rejections, None)"
| "select_profile readiness_of inp rejections (profile # profiles) = (
     let missing_inputs = missing_modes (mi_input_modes inp) (ip_input_modes profile);
         missing_outputs = missing_modes (mi_response_modes inp) (ip_output_modes profile);
         readiness = readiness_of profile in
     if missing_inputs = [] \<and> missing_outputs = [] \<and> truthy (dget readiness ''ok'') then (rejections, Some (profile, readiness))
     else select_profile readiness_of inp (rejections @ [[
       (''profile'', PStr (ip_name profile)), (''missing_input_modes'', texts missing_inputs),
       (''missing_response_modes'', texts missing_outputs), (''readiness'', PDict readiness)]]) profiles)"

definition requested_profile_of :: "string \<Rightarrow> NormalizedMultimodalInput \<Rightarrow> string" where
  "requested_profile_of profile_override inp = (let requested = (if profile_override \<noteq> [] then profile_override else mi_profile_hint inp) in
     if requested = ''auto'' then [] else requested)"

definition build_inference_route :: "osenv \<Rightarrow> bool \<Rightarrow> string \<Rightarrow> NormalizedMultimodalInput \<Rightarrow> dict" where
  "build_inference_route env require_live_backend profile_override inp = (
     let requested_profile = requested_profile_of profile_override inp;
         requested = (if requested_profile = [] then ''auto'' else requested_profile);
         head = (\<lambda>ok status. [(''schema_version'', PStr INFERENCE_ROUTE_SCHEMA_VERSION), (''ok'', PBool ok), (''status'', PStr status)]);
         input_entry = (''normalized_input'', PDict (NormalizedMultimodalInput_to_dict inp));
         route = (\<lambda>candidate_profiles. case select_profile (profile_readiness env require_live_backend) inp []
             (sort_key ip_priority candidate_profiles) of
           (rejections, Some (profile, readiness)) \<Rightarrow> head True ''routed'' @ [
             (''selected_profile'', PDict (InferenceProfile_to_dict profile)), (''profile_readiness'', PDict readiness),
             (''requested_profile'', PStr requested), input_entry,
             (''route_reason'', PStr (if requested_profile \<noteq> [] then ''operator_override'' else ''best_available_profile'')),
             (''fallback_used'', PBool False), (''candidate_rejections'', PList (map PDict rejections))]
         | (rejections, None) \<Rightarrow> head False ''no_compatible_profile'' @ [
             (''requested_profile'', PStr requested),
             (''failure_status'', PStr ''no_profile_supports_requested_modes_and_readiness''), input_entry,
             (''candidate_rejections'', PList (map PDict rejections))]) in
     if requested_profile = [] then route INFERENCE_PROFILES
     else case get_inference_profile requested_profile of
       Some selected \<Rightarrow> route [selected]
     | None \<Rightarrow> head False ''profile_not_found'' @ [
         (''requested_profile'', PStr requested_profile), (''failure_status'', PStr ''unknown_inference_profile''), input_entry,
         (''available_profiles'', texts (map ip_name INFERENCE_PROFILES))])"

definition multimodal_profile_smoke :: "osenv \<Rightarrow> bool \<Rightarrow> string \<Rightarrow> multimodal_args \<Rightarrow> dict result" where
  "multimodal_profile_smoke env require_live_backend profile_override a =
     ebind (normalize_multimodal_input (a\<lparr>ma_request_id := ''multimodal-request-001'', ma_latency_class := DEFAULT_LATENCY_CLASS,
       ma_provenance := ''multimodal_profile_smoke''\<rparr>)) (\<lambda>normalized.
     let route = build_inference_route env require_live_backend profile_override normalized;
         route_ok = truthy (dget route ''ok'');
         selected_profile_name = (if route_ok then (case dget route ''selected_profile'' of PDict d \<Rightarrow> str_or (dget d ''name'') [] | _ \<Rightarrow> []) else []);
         rejections = (case dget route ''candidate_rejections'' of PList xs \<Rightarrow> length xs | _ \<Rightarrow> 0) in
     Inr [
       (''ok'', PBool route_ok), (''status'', PStr (if route_ok then ''ready'' else ''error'')),
       (''command'', PStr ''multimodal-profile-smoke''), (''schema_version'', PStr INFERENCE_ROUTE_SCHEMA_VERSION),
       (''multimodal_input'', PDict (NormalizedMultimodalInput_to_dict normalized)), (''inference_route'', PDict route),
       (''evidence_summary'', PDict [
          (''input_modes'', texts (mi_input_modes normalized)), (''response_modes'', texts (mi_response_modes normalized)),
          (''requested_profile'', PStr (str_or (dget route ''requested_profile'') ''auto'')),
          (''selected_profile'', PStr selected_profile_name), (''route_status'', PStr (str_or (dget route ''status'') ''unknown'')),
          (''route_reason'', PStr (str_or (dget route ''route_reason'') [])),
          (''fallback_used'', PBool (truthy (dget route ''fallback_used''))),
          (''failure_status'', PStr (str_or (dget route ''failure_status'') [])),
          (''candidate_rejection_count'', PInt (int rejections)), (''requires_live_backend'', PBool require_live_backend)]),
       (''closure_gates'', PDict [
          (''multimodal_input_recorded'', PBool True), (''route_decision_recorded'', PBool True),
          (''profile_readiness_recorded'', PBool (truthy (por (dget route ''profile_readiness'') (dget route ''candidate_rejections'')))),
          (''route_ready'', PBool route_ok),
          (''fail_closed_when_unroutable'', PBool (route_ok \<or> str_or (dget route ''status'') [] \<in> {''profile_not_found'', ''no_compatible_profile''})),
          (''no_model_call_executed'', PBool True)]),
       (''profile_catalog'', PList (map PDict inference_profile_catalog)),
       (''requires_live_backend'', PBool require_live_backend), (''executes_model_call'', PBool False)])"

section \<open>Provider profiles\<close>

definition PROVIDER_PROFILE_SCHEMA_VERSION :: string where
  "PROVIDER_PROFILE_SCHEMA_VERSION = ''2.2.1-provider-profile-v1''"

definition PROVIDER_PROFILE_REGISTRY_SCHEMA_VERSION :: string where
  "PROVIDER_PROFILE_REGISTRY_SCHEMA_VERSION = ''2.2.1-provider-profile-registry-v1''"

definition PROVIDER_PROFILE_CONFIG_SCHEMA_VERSION :: string where
  "PROVIDER_PROFILE_CONFIG_SCHEMA_VERSION = ''2.2.1-provider-profile-config-v1''"

definition MODEL_PROFILE_SMOKE_SCHEMA_VERSION :: string where
  "MODEL_PROFILE_SMOKE_SCHEMA_VERSION = ''2.2.1-model-profile-smoke-v1''"

definition MODEL_LIST_SCHEMA_VERSION :: string where
  "MODEL_LIST_SCHEMA_VERSION = ''2.2.1-model-list-v1''"

definition DEFAULT_ACTIVE_MODEL_SLOTS :: "string list" where
  "DEFAULT_ACTIVE_MODEL_SLOTS = [''affective'', ''rational'']"

text \<open>The configured identifiers come from the environment or, unchecked, from the configuration file.\<close>

record ProviderProfile =
  pp_name :: string
  pp_provider_kind :: string
  pp_credential_env_var :: string
  pp_endpoint_env_var :: string
  pp_model_env_var :: string
  pp_deployment_env_var :: string
  pp_endpoint_url :: "string option"
  pp_configured_model :: pyval
  pp_configured_deployment :: pyval
  pp_endpoint_configured :: bool
  pp_credential_configured :: bool
  pp_supports_model_discovery :: bool
  pp_active_slots :: "string list"
  pp_enabled :: bool

definition pp_model_identifier_configured :: "ProviderProfile \<Rightarrow> bool" where
  "pp_model_identifier_configured p \<longleftrightarrow> truthy (pp_configured_model p) \<or> truthy (pp_configured_deployment p)"

definition pp_ready_for_model_call :: "ProviderProfile \<Rightarrow> bool" where
  "pp_ready_for_model_call p \<longleftrightarrow> pp_enabled p \<and> pp_credential_configured p \<and> pp_model_identifier_configured p"

definition pp_missing_requirements :: "ProviderProfile \<Rightarrow> string list" where
  "pp_missing_requirements p = (if pp_enabled p then [] else [''enabled_profile''])
     @ (if pp_credential_configured p then [] else [''credential_reference''])
     @ (if pp_model_identifier_configured p then [] else [''model_identifier''])"

definition ProviderProfile_to_dict :: "ProviderProfile \<Rightarrow> dict" where
  "ProviderProfile_to_dict p = [
     (''schema_version'', PStr PROVIDER_PROFILE_SCHEMA_VERSION), (''name'', PStr (pp_name p)),
     (''provider_kind'', PStr (pp_provider_kind p)), (''enabled'', PBool (pp_enabled p)),
     (''credential_env_var'', PStr (pp_credential_env_var p)), (''credential_configured'', PBool (pp_credential_configured p)),
     (''credential_value_masked'', PStr (if pp_credential_configured p then ''***'' else [])),
     (''endpoint_env_var'', PStr (pp_endpoint_env_var p)), (''endpoint_url'', opt_str (pp_endpoint_url p)),
     (''endpoint_configured'', PBool (pp_endpoint_configured p)), (''model_env_var'', PStr (pp_model_env_var p)),
     (''deployment_env_var'', PStr (pp_deployment_env_var p)), (''configured_model'', pp_configured_model p),
     (''configured_deployment'', pp_configured_deployment p),
     (''model_identifier_configured'', PBool (pp_model_identifier_configured p)),
     (''supports_model_discovery'', PBool (pp_supports_model_discovery p)), (''active_slots'', texts (pp_active_slots p)),
     (''ready_for_model_call'', PBool (pp_ready_for_model_call p)), (''missing_requirements'', texts (pp_missing_requirements p))]"

definition ProviderProfile_to_config_dict :: "ProviderProfile \<Rightarrow> dict" where
  "ProviderProfile_to_config_dict p = [
     (''name'', PStr (pp_name p)), (''provider_kind'', PStr (pp_provider_kind p)), (''enabled'', PBool (pp_enabled p)),
     (''credential_env_var'', PStr (pp_credential_env_var p)), (''endpoint_env_var'', PStr (pp_endpoint_env_var p)),
     (''endpoint_url'', opt_str (pp_endpoint_url p)), (''model_env_var'', PStr (pp_model_env_var p)),
     (''deployment_env_var'', PStr (pp_deployment_env_var p)), (''configured_model'', pp_configured_model p),
     (''configured_deployment'', pp_configured_deployment p),
     (''supports_model_discovery'', PBool (pp_supports_model_discovery p)), (''active_slots'', texts (pp_active_slots p))]"

record ProviderProfileRegistry =
  pr_profiles :: "ProviderProfile list"
  pr_active_affective_profile :: string
  pr_active_rational_profile :: string

definition get_profile :: "ProviderProfileRegistry \<Rightarrow> string \<Rightarrow> ProviderProfile option" where
  "get_profile r name = find (\<lambda>p. pp_name p = name) (pr_profiles r)"

definition active_profile_names :: "ProviderProfileRegistry \<Rightarrow> string list" where
  "active_profile_names r = dedupe [pr_active_affective_profile r, pr_active_rational_profile r]"

definition active_profiles :: "ProviderProfileRegistry \<Rightarrow> ProviderProfile list" where
  "active_profiles r = List.map_filter (get_profile r) (active_profile_names r)"

definition ProviderProfileRegistry_to_dict :: "ProviderProfileRegistry \<Rightarrow> dict" where
  "ProviderProfileRegistry_to_dict r = [
     (''schema_version'', PStr PROVIDER_PROFILE_REGISTRY_SCHEMA_VERSION),
     (''active_affective_profile'', PStr (pr_active_affective_profile r)),
     (''active_rational_profile'', PStr (pr_active_rational_profile r)),
     (''active_profile_names'', texts (active_profile_names r)),
     (''profiles'', PList (map (\<lambda>p. PDict (ProviderProfile_to_dict p)) (pr_profiles r)))]"

section \<open>The configuration file\<close>

definition normalize_slots :: "pyval \<Rightarrow> string list" where
  "normalize_slots raw_value = (case raw_value of
     PList raw_items \<Rightarrow> (let slots = filter (\<lambda>s. s \<in> set DEFAULT_ACTIVE_MODEL_SLOTS) (map py_str raw_items) in
       if slots = [] then DEFAULT_ACTIVE_MODEL_SLOTS else slots)
   | _ \<Rightarrow> DEFAULT_ACTIVE_MODEL_SLOTS)"

definition coerce_bool :: "pyval \<Rightarrow> bool \<Rightarrow> bool" where
  "coerce_bool v dflt = (case v of
     PBool b \<Rightarrow> b
   | PStr s \<Rightarrow> (let normalized = str_lower (str_strip s) in
       if normalized \<in> {''1'', ''true'', ''yes'', ''on'', ''enabled''} then True
       else if normalized \<in> {''0'', ''false'', ''no'', ''off'', ''disabled''} then False else dflt)
   | _ \<Rightarrow> dflt)"

text \<open>A file: its path and the document in it.\<close>

type_synonym config_file = "string \<times> pyval option"

definition load_provider_profile_config :: "config_file \<Rightarrow> dict result" where
  "load_provider_profile_config f = (case f of
     (path, None) \<Rightarrow> Inr [
       (''schema_version'', PStr PROVIDER_PROFILE_CONFIG_SCHEMA_VERSION), (''config_path'', PStr path), (''exists'', PBool False),
       (''active_affective_profile'', PStr ''openai_compatible''), (''active_rational_profile'', PStr ''openai_compatible''),
       (''profiles'', PList [])]
   | (path, Some (PDict payload)) \<Rightarrow> ebind (py_list (por (dget payload ''profiles'') (PList []))) (\<lambda>profiles. Inr [
       (''schema_version'', PStr (str_or (dget payload ''schema_version'') PROVIDER_PROFILE_CONFIG_SCHEMA_VERSION)),
       (''config_path'', PStr path), (''exists'', PBool True),
       (''active_affective_profile'', PStr (str_or (dget payload ''active_affective_profile'') ''openai_compatible'')),
       (''active_rational_profile'', PStr (str_or (dget payload ''active_rational_profile'') ''openai_compatible'')),
       (''profiles'', PList profiles)])
   | (path, Some _) \<Rightarrow> Inl (ValueError ''provider_profile_config_invalid_payload''))"

text \<open>The file that was written and what the function returns; the file holds the document with sorted keys.\<close>

definition write_provider_profile_config :: "dict \<Rightarrow> config_file \<Rightarrow> (dict \<times> config_file) result" where
  "write_provider_profile_config payload f =
     ebind (py_list (por (dget payload ''profiles'') (PList []))) (\<lambda>profiles.
     let write_payload = [
       (''schema_version'', PStr PROVIDER_PROFILE_CONFIG_SCHEMA_VERSION),
       (''active_affective_profile'', PStr (str_or (dget payload ''active_affective_profile'') ''openai_compatible'')),
       (''active_rational_profile'', PStr (str_or (dget payload ''active_rational_profile'') ''openai_compatible'')),
       (''profiles'', PList profiles)] in
     Inr (write_payload @ [(''config_path'', PStr (fst f)), (''exists'', PBool True)], (fst f, Some (json_norm (PDict write_payload)))))"

definition text_option :: "string \<Rightarrow> string option" where
  "text_option s = (if s = [] then None else Some s)"

definition overlay_profile_from_config :: "osenv \<Rightarrow> ProviderProfile \<Rightarrow> dict \<Rightarrow> ProviderProfile" where
  "overlay_profile_from_config env profile config_entry = (
     let credential_env_var = str_or (dget config_entry ''credential_env_var'') (pp_credential_env_var profile);
         endpoint_env_var = str_or (dget config_entry ''endpoint_env_var'') (pp_endpoint_env_var profile);
         endpoint_url = text_option (str_or (por (dget config_entry ''endpoint_url'') (opt_str (pp_endpoint_url profile))) []) in
     \<lparr>pp_name = str_or (dget config_entry ''name'') (pp_name profile),
      pp_provider_kind = str_or (dget config_entry ''provider_kind'') (pp_provider_kind profile),
      pp_credential_env_var = credential_env_var, pp_endpoint_env_var = endpoint_env_var,
      pp_model_env_var = str_or (dget config_entry ''model_env_var'') (pp_model_env_var profile),
      pp_deployment_env_var = str_or (dget config_entry ''deployment_env_var'') (pp_deployment_env_var profile),
      pp_endpoint_url = endpoint_url,
      pp_configured_model = por (dget config_entry ''configured_model'') (pp_configured_model profile),
      pp_configured_deployment = por (dget config_entry ''configured_deployment'') (pp_configured_deployment profile),
      pp_endpoint_configured = (text_set endpoint_url \<or> endpoint_env_var \<noteq> [] \<and> env_present env endpoint_env_var),
      pp_credential_configured = (credential_env_var \<noteq> [] \<and> env_present env credential_env_var),
      pp_supports_model_discovery = coerce_bool (dget config_entry ''supports_model_discovery'') (pp_supports_model_discovery profile),
      pp_active_slots = normalize_slots (dget config_entry ''active_slots''),
      pp_enabled = coerce_bool (dget config_entry ''enabled'') (pp_enabled profile)\<rparr>)"

definition first_env_name :: "osenv \<Rightarrow> string list \<Rightarrow> string" where
  "first_env_name env names = (case find (env_present env) names of Some name \<Rightarrow> name | None \<Rightarrow> hd names)"

definition openai_profile :: "osenv \<Rightarrow> ProviderProfile" where
  "openai_profile env = \<lparr>pp_name = ''openai_compatible'', pp_provider_kind = ''openai_compatible'',
     pp_credential_env_var = ''OPENAI_API_KEY'', pp_endpoint_env_var = ''OPENAI_BASE_URL'',
     pp_model_env_var = first_env_name env MAF_PROVIDER_MODEL_ENV_VARS, pp_deployment_env_var = [], pp_endpoint_url = None,
     pp_configured_model = opt_str (snd (first_present_env_var env MAF_PROVIDER_MODEL_ENV_VARS)), pp_configured_deployment = PNone,
     pp_endpoint_configured = env_present env ''OPENAI_BASE_URL'', pp_credential_configured = env_present env ''OPENAI_API_KEY'',
     pp_supports_model_discovery = True, pp_active_slots = DEFAULT_ACTIVE_MODEL_SLOTS,
     pp_enabled = (mc_provider_kind (build_maf_provider_config env) \<in> {''openai_compatible'', ''unknown''})\<rparr>"

definition azure_profile :: "osenv \<Rightarrow> ProviderProfile" where
  "azure_profile env = \<lparr>pp_name = ''azure_openai'', pp_provider_kind = ''azure_openai'',
     pp_credential_env_var = ''AZURE_OPENAI_API_KEY'', pp_endpoint_env_var = ''AZURE_OPENAI_ENDPOINT'',
     pp_model_env_var = [], pp_deployment_env_var = first_env_name env MAF_PROVIDER_DEPLOYMENT_ENV_VARS, pp_endpoint_url = None,
     pp_configured_model = PNone, pp_configured_deployment = opt_str (snd (first_present_env_var env MAF_PROVIDER_DEPLOYMENT_ENV_VARS)),
     pp_endpoint_configured = env_present env ''AZURE_OPENAI_ENDPOINT'', pp_credential_configured = env_present env ''AZURE_OPENAI_API_KEY'',
     pp_supports_model_discovery = False, pp_active_slots = DEFAULT_ACTIVE_MODEL_SLOTS,
     pp_enabled = (mc_provider_kind (build_maf_provider_config env) \<in> {''azure_openai'', ''unknown''})\<rparr>"

definition custom_profile :: "string \<Rightarrow> dict \<Rightarrow> ProviderProfile" where
  "custom_profile name entry = \<lparr>pp_name = name, pp_provider_kind = str_or (dget entry ''provider_kind'') ''custom'',
     pp_credential_env_var = str_or (dget entry ''credential_env_var'') ''OPENAI_API_KEY'',
     pp_endpoint_env_var = str_or (dget entry ''endpoint_env_var'') ''OPENAI_BASE_URL'',
     pp_model_env_var = str_or (dget entry ''model_env_var'') ''OPENAI_MODEL'',
     pp_deployment_env_var = str_or (dget entry ''deployment_env_var'') [], pp_endpoint_url = None,
     pp_configured_model = PNone, pp_configured_deployment = PNone, pp_endpoint_configured = False,
     pp_credential_configured = False, pp_supports_model_discovery = False, pp_active_slots = DEFAULT_ACTIVE_MODEL_SLOTS,
     pp_enabled = True\<rparr>"

text \<open>One entry of the configuration; entries that are not dicts or have no name are skipped.\<close>

definition overlay_entry :: "osenv \<Rightarrow> (string \<times> ProviderProfile) list \<Rightarrow> pyval \<Rightarrow> (string \<times> ProviderProfile) list" where
  "overlay_entry env profiles_by_name raw_entry = (case raw_entry of
     PDict e \<Rightarrow> (let profile_name = str_or (dget e ''name'') [] in
       if profile_name = [] then profiles_by_name
       else (let base_profile = (case map_of profiles_by_name profile_name of Some p \<Rightarrow> p | None \<Rightarrow> custom_profile profile_name e) in
         AList.update profile_name (overlay_profile_from_config env base_profile e) profiles_by_name))
   | _ \<Rightarrow> profiles_by_name)"

definition config_entries :: "dict \<Rightarrow> pyval list" where
  "config_entries config_payload = (case dget config_payload ''profiles'' of PList xs \<Rightarrow> xs | _ \<Rightarrow> [])"

definition profile_table :: "osenv \<Rightarrow> pyval list \<Rightarrow> (string \<times> ProviderProfile) list" where
  "profile_table env raw_entries = foldl (overlay_entry env)
     [(''openai_compatible'', openai_profile env), (''azure_openai'', azure_profile env)] raw_entries"

text \<open>The empty text stands for an active profile that is not given.\<close>

definition provider_profile_registry :: "osenv \<Rightarrow> config_file \<Rightarrow> string \<Rightarrow> string \<Rightarrow> ProviderProfileRegistry result" where
  "provider_profile_registry env f active_affective_profile active_rational_profile =
     ebind (load_provider_profile_config f) (\<lambda>config_payload.
     Inr \<lparr>pr_profiles = map snd (profile_table env (config_entries config_payload)),
       pr_active_affective_profile = (if active_affective_profile \<noteq> [] then active_affective_profile
         else str_or (dget config_payload ''active_affective_profile'') ''openai_compatible''),
       pr_active_rational_profile = (if active_rational_profile \<noteq> [] then active_rational_profile
         else str_or (dget config_payload ''active_rational_profile'') ''openai_compatible'')\<rparr>)"

definition provider_profile_catalog :: "osenv \<Rightarrow> config_file \<Rightarrow> dict result" where
  "provider_profile_catalog env f =
     ebind (provider_profile_registry env f [] []) (\<lambda>registry.
     ebind (load_provider_profile_config f) (\<lambda>config_payload.
     Inr (ProviderProfileRegistry_to_dict registry @ [
       (''config_path'', PStr (str_or (dget config_payload ''config_path'') [])),
       (''config_exists'', PBool (truthy (dget config_payload ''exists''))),
       (''config_schema_version'', PStr (str_or (dget config_payload ''schema_version'') PROVIDER_PROFILE_CONFIG_SCHEMA_VERSION))])))"


text \<open>
  The environment of a model call: the variables of the active profile are copied to the variables the
  provider library reads. An identifier of the configuration file that is not a text is out of the model.
\<close>

definition env_set :: "osenv \<Rightarrow> string \<Rightarrow> string option \<Rightarrow> osenv" where
  "env_set env name v = (case v of Some s \<Rightarrow> if s = [] then env else AList.update name s env | None \<Rightarrow> env)"

definition first_value :: "string option list \<Rightarrow> string option" where
  "first_value vs = (case find (\<lambda>v. v \<noteq> None) vs of Some v \<Rightarrow> v | None \<Rightarrow> None)"

definition canonical_names :: "ProviderProfile \<Rightarrow> string \<times> string \<times> string \<times> pyval" where
  "canonical_names profile = (if pp_provider_kind profile = ''azure_openai''
     then (''AZURE_OPENAI_API_KEY'', ''AZURE_OPENAI_ENDPOINT'', ''AZURE_OPENAI_CHAT_DEPLOYMENT'',
       por (pp_configured_deployment profile) (pp_configured_model profile))
     else (''OPENAI_API_KEY'', ''OPENAI_BASE_URL'', ''OPENAI_MODEL'',
       por (pp_configured_model profile) (pp_configured_deployment profile)))"

definition export_profile :: "osenv \<Rightarrow> ProviderProfile \<Rightarrow> osenv result" where
  "export_profile base_env profile = (
     let (credential_env, endpoint_env, model_env, configured_identifier) = canonical_names profile;
         with_credential = env_set base_env credential_env
           (first_value [env_value base_env (pp_credential_env_var profile), env_value base_env credential_env]);
         with_endpoint = env_set with_credential endpoint_env
           (first_value [case pp_endpoint_url profile of Some u \<Rightarrow> text_option u | None \<Rightarrow> None,
              env_value with_credential (pp_endpoint_env_var profile), env_value with_credential endpoint_env]) in
     if \<not> truthy configured_identifier then Inr with_endpoint
     else case configured_identifier of
       PStr s \<Rightarrow> Inr (env_set with_endpoint model_env (Some s))
     | _ \<Rightarrow> Inl (OutOfModel ''model identifier''))"

definition build_provider_runtime_env :: "osenv \<Rightarrow> config_file \<Rightarrow> string \<Rightarrow> osenv result" where
  "build_provider_runtime_env base_env f preferred_slot =
     ebind (provider_profile_registry base_env f [] []) (\<lambda>registry.
     case get_profile registry (if preferred_slot = ''affective'' then pr_active_affective_profile registry
       else pr_active_rational_profile registry) of
       None \<Rightarrow> Inr base_env
     | Some profile \<Rightarrow> export_profile base_env profile)"

definition model_list_entry :: "ProviderProfile \<Rightarrow> pyval" where
  "model_list_entry profile = PDict [
     (''profile'', PStr (pp_name profile)), (''provider_kind'', PStr (pp_provider_kind profile)),
     (''configured_model'', pp_configured_model profile), (''configured_deployment'', pp_configured_deployment profile),
     (''effective_model_identifier'', por (por (pp_configured_deployment profile) (pp_configured_model profile)) (PStr [])),
     (''active_slots'', texts (pp_active_slots profile)), (''ready_for_model_call'', PBool (pp_ready_for_model_call profile)),
     (''supports_model_discovery'', PBool (pp_supports_model_discovery profile)),
     (''missing_requirements'', texts (pp_missing_requirements profile))]"

definition provider_model_list :: "osenv \<Rightarrow> config_file \<Rightarrow> dict result" where
  "provider_model_list env f =
     ebind (provider_profile_registry env f [] []) (\<lambda>registry.
     ebind (load_provider_profile_config f) (\<lambda>config_payload. Inr [
       (''schema_version'', PStr MODEL_LIST_SCHEMA_VERSION), (''command'', PStr ''model-list''),
       (''config_path'', PStr (str_or (dget config_payload ''config_path'') [])),
       (''active_affective_profile'', PStr (pr_active_affective_profile registry)),
       (''active_rational_profile'', PStr (pr_active_rational_profile registry)),
       (''configured_profiles'', PList (map model_list_entry (pr_profiles registry))),
       (''inference_profiles'', PList (map PDict inference_profile_catalog)), (''ok'', PBool True)]))"

text \<open>The arguments of \<open>provider_config_update\<close> besides the name: None leaves the entry as it is.\<close>

record config_update =
  cu_provider_kind :: "string option"
  cu_credential_env_var :: "string option"
  cu_endpoint_env_var :: "string option"
  cu_endpoint_url :: "string option"
  cu_model_env_var :: "string option"
  cu_deployment_env_var :: "string option"
  cu_configured_model :: "string option"
  cu_configured_deployment :: "string option"
  cu_supports_model_discovery :: "bool option"
  cu_enabled :: "bool option"

definition update_arguments :: "config_update \<Rightarrow> (string \<times> pyval option) list" where
  "update_arguments u = [
     (''provider_kind'', map_option PStr (cu_provider_kind u)), (''credential_env_var'', map_option PStr (cu_credential_env_var u)),
     (''endpoint_env_var'', map_option PStr (cu_endpoint_env_var u)), (''endpoint_url'', map_option PStr (cu_endpoint_url u)),
     (''model_env_var'', map_option PStr (cu_model_env_var u)), (''deployment_env_var'', map_option PStr (cu_deployment_env_var u)),
     (''configured_model'', map_option PStr (cu_configured_model u)),
     (''configured_deployment'', map_option PStr (cu_configured_deployment u)),
     (''supports_model_discovery'', map_option PBool (cu_supports_model_discovery u)),
     (''enabled'', map_option PBool (cu_enabled u))]"

definition updated_entry :: "config_update \<Rightarrow> dict \<Rightarrow> dict" where
  "updated_entry u current_entry = foldl (\<lambda>d (k, v). case v of Some x \<Rightarrow> dset d k x | None \<Rightarrow> d) current_entry (update_arguments u)"

text \<open>The first entry of that name is replaced, a new one is appended.\<close>

fun put_entry :: "string \<Rightarrow> (dict \<Rightarrow> dict) \<Rightarrow> dict list \<Rightarrow> dict list" where
  "put_entry profile_name f [] = [f [(''name'', PStr profile_name)]]"
| "put_entry profile_name f (e # entries) = (if str_or (dget e ''name'') [] = profile_name then f e # entries
     else e # put_entry profile_name f entries)"

definition dict_entries :: "dict \<Rightarrow> dict list" where
  "dict_entries config_payload = List.map_filter (\<lambda>e. case e of PDict d \<Rightarrow> Some d | _ \<Rightarrow> None) (config_entries config_payload)"

definition provider_config_update :: "osenv \<Rightarrow> string \<Rightarrow> config_update \<Rightarrow> config_file \<Rightarrow> (dict \<times> config_file) result" where
  "provider_config_update env profile_name u f =
     ebind (load_provider_profile_config f) (\<lambda>config_payload.
     ebind (write_provider_profile_config [
       (''active_affective_profile'', por (dget config_payload ''active_affective_profile'') (PStr ''openai_compatible'')),
       (''active_rational_profile'', por (dget config_payload ''active_rational_profile'') (PStr ''openai_compatible'')),
       (''profiles'', PList (map PDict (put_entry profile_name (updated_entry u) (dict_entries config_payload))))] f) (\<lambda>(written, f').
     ebind (provider_profile_catalog env f') (\<lambda>catalog. Inr ([
       (''schema_version'', PStr PROVIDER_PROFILE_CONFIG_SCHEMA_VERSION), (''command'', PStr ''provider-config''),
       (''config_path'', PStr (str_or (dget written ''config_path'') [])), (''updated_profile'', PStr profile_name),
       (''config'', PDict written), (''provider_profile_registry'', PDict catalog), (''ok'', PBool True)], f'))))"

definition set_active_provider_profile :: "osenv \<Rightarrow> string \<Rightarrow> string \<Rightarrow> config_file \<Rightarrow> (dict \<times> config_file) result" where
  "set_active_provider_profile env slot profile_name f = (
     if slot \<notin> set DEFAULT_ACTIVE_MODEL_SLOTS then Inl (ValueError ''unsupported_model_slot'')
     else ebind (load_provider_profile_config f) (\<lambda>config_payload.
       ebind (write_provider_profile_config [
         (''active_affective_profile'', PStr (if slot = ''affective'' then profile_name
            else str_or (dget config_payload ''active_affective_profile'') ''openai_compatible'')),
         (''active_rational_profile'', PStr (if slot = ''rational'' then profile_name
            else str_or (dget config_payload ''active_rational_profile'') ''openai_compatible'')),
         (''profiles'', PList (config_entries config_payload))] f) (\<lambda>(written, f').
       ebind (provider_profile_catalog env f') (\<lambda>catalog. Inr ([
         (''schema_version'', PStr PROVIDER_PROFILE_CONFIG_SCHEMA_VERSION), (''command'', PStr ''model-set-active''),
         (''config_path'', PStr (str_or (dget written ''config_path'') [])), (''slot'', PStr slot),
         (''active_profile'', PStr profile_name), (''provider_profile_registry'', PDict catalog), (''ok'', PBool True)], f')))))"

text \<open>\<open>json.dumps\<close> of the registry is written with its keys sorted here, which does not change the words in it.\<close>

definition names_secret :: "dict \<Rightarrow> bool" where
  "names_secret payload \<longleftrightarrow> contains_str ''secret'' (str_lower (json_text '','' '':'' (PDict payload)))"

definition profile_smoke_gates :: "ProviderProfileRegistry \<Rightarrow> string list \<Rightarrow> dict \<Rightarrow> bool \<Rightarrow> dict" where
  "profile_smoke_gates r unknown_active_profiles missing_requirements fail_closed = [
     (''provider_profiles_recorded'', PBool (pr_profiles r \<noteq> [])),
     (''active_slots_recorded'', PBool (pr_active_affective_profile r \<noteq> [] \<and> pr_active_rational_profile r \<noteq> [])),
     (''active_profiles_resolve_or_fail_closed'', PBool (unknown_active_profiles = [] \<or> fail_closed)),
     (''missing_requirements_recorded'', PBool (\<not> fail_closed \<or> unknown_active_profiles \<noteq> [] \<or> missing_requirements \<noteq> [])),
     (''secret_values_masked'', PBool (\<not> names_secret (ProviderProfileRegistry_to_dict r))),
     (''no_model_call_executed'', PBool True)]"

definition model_profile_smoke :: "osenv \<Rightarrow> config_file \<Rightarrow> string \<Rightarrow> string \<Rightarrow> dict result" where
  "model_profile_smoke env f active_affective_profile active_rational_profile =
     ebind (provider_profile_registry env f active_affective_profile active_rational_profile) (\<lambda>registry.
     ebind (load_provider_profile_config f) (\<lambda>config_payload.
     let actives = active_profiles registry;
         unknown_active_profiles = sorted_set (filter (\<lambda>n. n \<notin> set (map pp_name (pr_profiles registry))) (active_profile_names registry));
         active_ready = (actives \<noteq> [] \<and> list_all pp_ready_for_model_call actives);
         missing_requirements = map (\<lambda>p. (pp_name p, texts (pp_missing_requirements p))) (filter (\<lambda>p. \<not> pp_ready_for_model_call p) actives);
         fail_closed = (unknown_active_profiles \<noteq> [] \<or> missing_requirements \<noteq> []);
         closure_gates = profile_smoke_gates registry unknown_active_profiles missing_requirements fail_closed in
     Inr [
       (''ok'', PBool (list_all (\<lambda>kv. truthy (snd kv)) closure_gates)),
       (''status'', PStr (if active_ready then ''ready'' else ''configured_fail_closed'')),
       (''reason'', PStr (if active_ready then ''active_model_profiles_ready'' else ''active_model_profiles_not_ready'')),
       (''command'', PStr ''model-profile-smoke''), (''schema_version'', PStr MODEL_PROFILE_SMOKE_SCHEMA_VERSION),
       (''config_path'', PStr (str_or (dget config_payload ''config_path'') [])),
       (''provider_profile_registry'', PDict (ProviderProfileRegistry_to_dict registry)),
       (''active_profile_readiness'', PList (map (\<lambda>p. PDict (ProviderProfile_to_dict p)) actives)),
       (''unknown_active_profiles'', texts unknown_active_profiles), (''missing_requirements'', PDict missing_requirements),
       (''closure_gates'', PDict closure_gates),
       (''evidence_summary'', PDict [
          (''active_affective_profile'', PStr (pr_active_affective_profile registry)),
          (''active_rational_profile'', PStr (pr_active_rational_profile registry)),
          (''active_profile_count'', PInt (int (length actives))), (''active_profiles_ready'', PBool active_ready),
          (''unknown_active_profile_count'', PInt (int (length unknown_active_profiles))), (''fail_closed'', PBool fail_closed)]),
       (''executes_model_call'', PBool False)]))"


section \<open>Credentials stay in the environment\<close>

text \<open>
  Two environments an observer of the configuration must not tell apart: the same variables are set, and
  the variables that name a model or a deployment have the same values.
\<close>

definition same_but_secrets :: "osenv \<Rightarrow> osenv \<Rightarrow> bool" where
  "same_but_secrets env env' \<longleftrightarrow> (\<forall>name. env_present env name = env_present env' name)
     \<and> (\<forall>name \<in> set MAF_PROVIDER_MODEL_ENV_VARS \<union> set MAF_PROVIDER_DEPLOYMENT_ENV_VARS. env_value env name = env_value env' name)"

lemma same_present: "same_but_secrets env env' \<Longrightarrow> env_present env = env_present env'"
  by (auto simp: same_but_secrets_def)

lemma same_present_at: "same_but_secrets env env' \<Longrightarrow> env_present env name = env_present env' name"
  by (simp only: same_but_secrets_def)

lemma same_first_name: "same_but_secrets env env' \<Longrightarrow> first_env_name env names = first_env_name env' names"
  by (simp only: first_env_name_def same_present)

lemma same_values:
  assumes "same_but_secrets env env'"
  shows "first_present_env_var env MAF_PROVIDER_MODEL_ENV_VARS = first_present_env_var env' MAF_PROVIDER_MODEL_ENV_VARS"
    and "first_present_env_var env MAF_PROVIDER_DEPLOYMENT_ENV_VARS = first_present_env_var env' MAF_PROVIDER_DEPLOYMENT_ENV_VARS"
  using assms by (auto simp: same_but_secrets_def first_present_env_var_def MAF_PROVIDER_MODEL_ENV_VARS_def
      MAF_PROVIDER_DEPLOYMENT_ENV_VARS_def split: option.splits)

lemma first_present_name: "fst (first_present_env_var env names) = find (env_present env) names"
  by (simp add: first_present_env_var_def split: option.splits)

lemma same_provider_config:
  assumes same: "same_but_secrets env env'"
  shows "build_maf_provider_config env = build_maf_provider_config env'"
  by (simp only: build_maf_provider_config_def present_env_vars_def same_present[OF same] same_values[OF same] first_present_name
      split_def Let_def)

lemma same_readiness: "same_but_secrets env env' \<Longrightarrow> profile_readiness env = profile_readiness env'"
  by (intro ext) (simp only: profile_readiness_def same_provider_config)

lemma same_overlay: "same_but_secrets env env' \<Longrightarrow> overlay_profile_from_config env = overlay_profile_from_config env'"
  by (intro ext) (simp only: overlay_profile_from_config_def same_present_at)

lemma same_table:
  assumes same: "same_but_secrets env env'"
  shows "profile_table env = profile_table env'"
proof -
  have "overlay_entry env = overlay_entry env'"
    by (intro ext) (simp only: overlay_entry_def same_overlay[OF same])
  moreover have "openai_profile env = openai_profile env'" "azure_profile env = azure_profile env'"
    by (simp_all only: openai_profile_def azure_profile_def same_present_at[OF same] same_first_name[OF same] same_values[OF same]
        same_provider_config[OF same])
  ultimately show ?thesis by (intro ext) (simp only: profile_table_def)
qed

lemma same_registry: "same_but_secrets env env' \<Longrightarrow> provider_profile_registry env = provider_profile_registry env'"
  by (intro ext) (simp only: provider_profile_registry_def same_table)

text \<open>C17: 
  Nothing the configuration commands report (the registry, the model list, both smoke commands, the
  runtime profile) depends on the value of a credential or an endpoint variable, for every
  configuration file and request.
\<close>

theorem credentials_not_disclosed:
  assumes "same_but_secrets env env'"
  shows "provider_profile_catalog env f = provider_profile_catalog env' f
    \<and> provider_model_list env f = provider_model_list env' f
    \<and> model_profile_smoke env f affective rational = model_profile_smoke env' f affective rational
    \<and> multimodal_profile_smoke env live override a = multimodal_profile_smoke env' live override a
    \<and> build_maf_runtime_profile package mode env = build_maf_runtime_profile package mode env'"
  by (simp add: provider_profile_catalog_def provider_model_list_def model_profile_smoke_def multimodal_profile_smoke_def
      build_inference_route_def build_maf_runtime_profile_def same_registry[OF assms] same_readiness[OF assms]
      same_provider_config[OF assms])

theorem credentials_not_disclosed_witness:
  "provider_profile_catalog [(''OPENAI_API_KEY'', ''alpha'')] (''c.json'', None)
    = provider_profile_catalog [(''OPENAI_API_KEY'', ''omega'')] (''c.json'', None)"
  using credentials_not_disclosed[of "[(''OPENAI_API_KEY'', ''alpha'')]" "[(''OPENAI_API_KEY'', ''omega'')]" "(''c.json'', None)"]
  by (simp add: same_but_secrets_def env_value_def MAF_PROVIDER_MODEL_ENV_VARS_def MAF_PROVIDER_DEPLOYMENT_ENV_VARS_def)


section \<open>Routing\<close>

definition supports :: "NormalizedMultimodalInput \<Rightarrow> InferenceProfile \<Rightarrow> bool" where
  "supports inp p \<longleftrightarrow> set (mi_input_modes inp) \<subseteq> set (ip_input_modes p) \<and> set (mi_response_modes inp) \<subseteq> set (ip_output_modes p)"

definition backend_ready :: "osenv \<Rightarrow> bool \<Rightarrow> bool" where
  "backend_ready env live \<longleftrightarrow> live \<longrightarrow> ready_for_model_call (build_maf_provider_config env)"

lemma missing_modes_none: "missing_modes xs ys = [] \<longleftrightarrow> set xs \<subseteq> set ys"
  by (auto simp: missing_modes_def filter_empty_conv)

lemma readiness_ok: "truthy (dget (profile_readiness env live p) ''ok'') = backend_ready env live"
  by (simp add: profile_readiness_def backend_ready_def Let_def)

text \<open>The loop finds the first candidate that fits.\<close>

lemma select_profile_find:
  "snd (select_profile rd inp rej ps) = map_option (\<lambda>p. (p, rd p)) (find (\<lambda>p. supports inp p \<and> truthy (dget (rd p) ''ok'')) ps)"
  by (induction rd inp rej ps rule: select_profile.induct) (auto simp: missing_modes_none supports_def Let_def)

lemma set_dedupe [simp]: "set (dedupe xs) = set xs"
  by (simp add: dedupe_def)

lemma sort_Nil_iff: "sort xs = [] \<longleftrightarrow> xs = []"
  by (metis length_sort length_0_conv)

lemma if_Inr_iff: "(if c then Inl e else Inr r) = (Inr v :: 'a result) \<longleftrightarrow> \<not> c \<and> r = v"
  by simp

lemma chosen_modes: "set (map fst (filter snd xs)) \<subseteq> set (map fst xs)"
  by auto

lemma normalized_modes:
  assumes "normalize_multimodal_input a = Inr inp"
  shows "set (mi_input_modes inp) \<subseteq> {''text'', ''image'', ''audio'', ''video''} \<and> mi_input_modes inp \<noteq> []
    \<and> set (mi_response_modes inp) \<subseteq> {''text'', ''audio''} \<and> mi_response_modes inp \<noteq> []"
proof -
  define response_modes where "response_modes = dedupe (if ma_response_modes a = [] then DEFAULT_RESPONSE_MODES else ma_response_modes a)"
  have ne: "response_modes \<noteq> []"
    by (auto simp: response_modes_def DEFAULT_RESPONSE_MODES_def dedupe_def)
  obtain images audio video where refs: "normalize_refs ''image'' (ma_image_refs a) (ma_provenance a) = Inr images"
      "normalize_refs ''audio'' (ma_audio_refs a) (ma_provenance a) = Inr audio"
      "normalize_refs ''video'' (ma_video_refs a) (ma_provenance a) = Inr video"
    using assms unfolding normalize_multimodal_input_def Let_def by (auto simp only: ebind_eq_Inr)
  note eq = assms[unfolded normalize_multimodal_input_def Let_def refs ebind_simps response_modes_def[symmetric] sort_Nil_iff]
  have supported: "filter (\<lambda>mode. mode \<notin> set SUPPORTED_RESPONSE_MODES) response_modes = []"
    using eq by (rule contrapos_pp) simp
  note eq2 = eq[unfolded supported not_not if_True if_False simp_thms]
  note chosen = eq2[unfolded if_Inr_iff]
  note inputs = chosen[THEN conjunct2, THEN arg_cong[where f = mi_input_modes], unfolded NormalizedMultimodalInput.select_convs]
  note outputs = chosen[THEN conjunct2, THEN arg_cong[where f = mi_response_modes], unfolded NormalizedMultimodalInput.select_convs]
  have "mi_input_modes inp \<noteq> []"
    using chosen[THEN conjunct1] unfolding inputs .
  moreover have "set (mi_input_modes inp) \<subseteq> {''text'', ''image'', ''audio'', ''video''}"
    unfolding inputs[symmetric] by (rule order_trans[OF chosen_modes]) simp
  moreover have "set response_modes \<subseteq> {''text'', ''audio''}"
    using supported by (auto simp: filter_empty_conv SUPPORTED_RESPONSE_MODES_def)
  ultimately show ?thesis using ne by (simp only: outputs[symmetric] simp_thms not_False_eq_True)
qed

lemma profiles_by_priority: "sort_key ip_priority INFERENCE_PROFILES = INFERENCE_PROFILES"
  by (simp add: INFERENCE_PROFILES_def)

definition candidates_of :: "string \<Rightarrow> InferenceProfile list" where
  "candidates_of requested = (if requested = [] then INFERENCE_PROFILES
     else case get_inference_profile requested of Some p \<Rightarrow> [p] | None \<Rightarrow> [])"

lemma sorted_candidates: "sort_key ip_priority (candidates_of requested) = candidates_of requested"
  by (simp add: candidates_of_def profiles_by_priority split: option.splits)

lemma route_by_find:
  "build_inference_route env live override inp = r \<Longrightarrow>
     case find (\<lambda>p. supports inp p \<and> backend_ready env live) (candidates_of (requested_profile_of override inp)) of
       None \<Rightarrow> dget r ''ok'' = PBool False
     | Some p \<Rightarrow> dget r ''ok'' = PBool True \<and> dget r ''selected_profile'' = PDict (InferenceProfile_to_dict p)
         \<and> dget r ''fallback_used'' = PBool False"
proof -
  let ?q = "requested_profile_of override inp"
  let ?sel = "select_profile (profile_readiness env live) inp []"
  assume r: "build_inference_route env live override inp = r"
  have found: "snd (?sel ps) = map_option (\<lambda>p. (p, profile_readiness env live p)) (find (\<lambda>p. supports inp p \<and> backend_ready env live) ps)" for ps
    by (simp add: select_profile_find readiness_ok)
  show ?thesis
  proof (cases "?q \<noteq> [] \<and> get_inference_profile ?q = None")
    case True
    then show ?thesis using r by (auto simp: build_inference_route_def candidates_of_def Let_def)
  next
    case False
    obtain rejections chosen where s: "?sel (candidates_of ?q) = (rejections, chosen)" by fastforce
    from False r s found[of "candidates_of ?q"] show ?thesis
      by (auto simp: build_inference_route_def Let_def candidates_of_def profiles_by_priority split: option.splits if_splits)
  qed
qed

lemma known_profiles: "get_inference_profile ''omni_premium'' \<noteq> None" "get_inference_profile ''local_16g'' \<noteq> None"
  by (simp_all add: get_inference_profile_def INFERENCE_PROFILES_def)

lemma automatic_choice:
  assumes "normalize_multimodal_input a = Inr inp"
  shows "find (\<lambda>p. supports inp p \<and> ready) INFERENCE_PROFILES = (if ready
    then get_inference_profile (if ''audio'' \<in> set (mi_response_modes inp) then ''omni_premium'' else ''local_16g'') else None)"
proof (cases ready)
  case True
  have "set (mi_input_modes inp) \<subseteq> {''text'', ''image'', ''audio'', ''video''}" "set (mi_response_modes inp) \<subseteq> {''text'', ''audio''}"
    using normalized_modes[OF assms] by simp_all
  then have fits: "supports inp p \<longleftrightarrow> (''audio'' \<in> set (mi_response_modes inp) \<longrightarrow> ''audio'' \<in> set (ip_output_modes p))"
    if "ip_input_modes p = [''text'', ''image'', ''audio'', ''video'']" "''text'' \<in> set (ip_output_modes p)" for p
    using that by (auto simp: supports_def)
  show ?thesis
  proof (cases "''audio'' \<in> set (mi_response_modes inp)")
    case audio: True
    then have "\<not> supports inp p" if "ip_output_modes p = [''text'']" for p using that by (auto simp: supports_def)
    with audio True fits show ?thesis by (simp add: INFERENCE_PROFILES_def get_inference_profile_def)
  next
    case False
    with True fits show ?thesis by (simp add: INFERENCE_PROFILES_def get_inference_profile_def)
  qed
qed (simp add: find_None_iff)

text \<open>C18: 
  For every normalised request the route is ok exactly when the backend is ready where that is required
  and, for a requested profile, the profile exists and supports every input and response mode of the
  request; a route never falls back to another profile. In automatic mode some profile always fits,
  and it is only ever the local or, for an audio response, the premium one: the other two profiles of
  the table are reached by name only.
\<close>

theorem inference_route_exact:
  fixes override :: string and env :: osenv and live :: bool
  assumes "normalize_multimodal_input a = Inr inp"
  defines "requested \<equiv> requested_profile_of override inp"
    and "r \<equiv> build_inference_route env live override inp"
  defines "target \<equiv> get_inference_profile (if requested \<noteq> [] then requested
      else if ''audio'' \<in> set (mi_response_modes inp) then ''omni_premium'' else ''local_16g'')"
  shows "(case target of
      Some p \<Rightarrow> if supports inp p \<and> backend_ready env live
        then dget r ''ok'' = PBool True \<and> dget r ''selected_profile'' = PDict (InferenceProfile_to_dict p)
          \<and> dget r ''fallback_used'' = PBool False
        else dget r ''ok'' = PBool False
    | None \<Rightarrow> requested \<noteq> [] \<and> dget r ''ok'' = PBool False)
    \<and> (requested = [] \<longrightarrow> (\<exists>p. target = Some p \<and> supports inp p))"
proof (intro conjI impI)
  note found = route_by_find[OF r_def[THEN meta_eq_to_obj_eq, symmetric], folded requested_def]
  have auto_mode: "find (\<lambda>p. supports inp p \<and> ready) INFERENCE_PROFILES = (if ready then target else None)"
    if "requested = []" for ready
    using that by (simp add: automatic_choice[OF assms(1)] target_def)
  have fits: "\<exists>p. target = Some p \<and> supports inp p" if auto: "requested = []"
  proof -
    have "target \<noteq> None" using auto known_profiles unfolding target_def by (auto split: if_split)
    with auto_mode[OF auto, of True] show ?thesis by (auto simp: find_Some_iff)
  qed
  then show "\<exists>p. target = Some p \<and> supports inp p" if "requested = []" using that .
  show "case target of
      Some p \<Rightarrow> if supports inp p \<and> backend_ready env live
        then dget r ''ok'' = PBool True \<and> dget r ''selected_profile'' = PDict (InferenceProfile_to_dict p)
          \<and> dget r ''fallback_used'' = PBool False
        else dget r ''ok'' = PBool False
    | None \<Rightarrow> requested \<noteq> [] \<and> dget r ''ok'' = PBool False"
  proof (cases "requested = []")
    case True
    with found fits auto_mode[OF True, of "backend_ready env live"] show ?thesis
      by (auto simp: candidates_of_def split: if_splits)
  next
    case False
    with found show ?thesis
      by (auto simp: candidates_of_def target_def split: option.splits if_splits)
  qed
qed

theorem inference_route_exact_witness:
  "\<exists>inp. normalize_multimodal_input (default_multimodal_args\<lparr>ma_text := [''hello''], ma_response_modes := [''audio'']\<rparr>) = Inr inp
     \<and> dget (build_inference_route [] False [] inp) ''ok'' = PBool True
     \<and> dget (build_inference_route [] True [] inp) ''ok'' = PBool False"
proof -
  let ?a = "default_multimodal_args\<lparr>ma_text := [''hello''], ma_response_modes := [''audio'']\<rparr>"
  obtain inp where n: "normalize_multimodal_input ?a = Inr inp" "mi_profile_hint inp = ''auto''"
    by (simp add: normalize_multimodal_input_def default_multimodal_args_def Let_def dedupe_def SUPPORTED_RESPONSE_MODES_def
        normalize_refs_def str_strip_def is_space_def)
  have q: "requested_profile_of [] inp = []" by (simp add: requested_profile_of_def n)
  have "\<not> backend_ready [] True" by code_simp
  then show ?thesis
    using inference_route_exact[OF n(1), of "[]" "[]" False] inference_route_exact[OF n(1), of "[]" "[]" True] n q
    by (auto simp: backend_ready_def split: if_splits option.splits)
qed


section \<open>The configuration file as a store\<close>

text \<open>A file this program could have written: its document is in the order \<open>sort_keys\<close> gives.\<close>

definition stored :: "config_file \<Rightarrow> bool" where
  "stored f \<longleftrightarrow> (case snd f of Some doc \<Rightarrow> json_norm doc = doc | None \<Rightarrow> True)"

lemma stored_dget: "json_norm (PDict d) = PDict d \<Longrightarrow> json_norm (dget d k) = dget d k"
  by (drule json_norm_dict[where k = k]) simp

lemma stored_items: "json_norm (PList xs) = PList xs \<Longrightarrow> x \<in> set xs \<Longrightarrow> json_norm x = x"
  by (simp add: map_idI list_eq_iff_nth_eq in_set_conv_nth) (metis nth_map)

text \<open>What the registry takes from a file.\<close>

lemma str_or_ne: "d \<noteq> [] \<Longrightarrow> str_or v d \<noteq> []"
  by (cases "truthy v") (simp_all add: str_or_def py_str_truthy)

lemma py_list_items:
  assumes "py_list v = Inr xs" "json_norm v = v" "x \<in> set xs"
  shows "json_norm x = x"
  using assms by (cases v) (auto simp: py_list_def dest: stored_items simp del: json_norm.simps(1) split: if_splits)

lemma load_fields:
  assumes "load_provider_profile_config f = Inr c"
  shows "\<exists>a r xs. dget c ''active_affective_profile'' = PStr a \<and> dget c ''active_rational_profile'' = PStr r
    \<and> dget c ''profiles'' = PList xs \<and> a \<noteq> [] \<and> r \<noteq> [] \<and> (stored f \<longrightarrow> (\<forall>x \<in> set xs. json_norm x = x))"
proof (cases "snd f")
  case None
  with assms show ?thesis by (cases f) (auto simp: load_provider_profile_config_def)
next
  case (Some doc)
  then obtain payload xs where doc: "doc = PDict payload" and xs: "py_list (por (dget payload ''profiles'') (PList [])) = Inr xs"
    and c: "dget c ''active_affective_profile'' = PStr (str_or (dget payload ''active_affective_profile'') ''openai_compatible'')"
      "dget c ''active_rational_profile'' = PStr (str_or (dget payload ''active_rational_profile'') ''openai_compatible'')"
      "dget c ''profiles'' = PList xs"
    using assms by (cases f) (auto simp: load_provider_profile_config_def split: pyval.splits)
  have "json_norm x = x" if "stored f" "x \<in> set xs" for x
  proof (rule py_list_items[OF xs _ that(2)])
    have "json_norm (PDict payload) = PDict payload" using that(1) Some doc by (simp add: stored_def)
    then show "json_norm (por (dget payload ''profiles'') (PList [])) = por (dget payload ''profiles'') (PList [])"
      by (simp add: por_def stored_dget)
  qed
  with c show ?thesis by (simp add: str_or_ne)
qed

lemma json_norm_idem: "json_norm (json_norm v) = json_norm v"
proof (induction v rule: json_norm.induct)
  case (3 d)
  let ?f = "\<lambda>kv. (fst kv, json_norm (snd kv))"
  have "map ?f (sort_key fst (map ?f d)) = sort_key fst (map ?f d)"
    using 3 by (intro map_idI) auto
  then show ?case by (simp only: json_norm.simps pyval.inject sort_key_id_if_sorted[OF sorted_sort_key])
qed simp_all

lemma write_then_load:
  assumes "dget payload ''profiles'' = PList xs"
  shows "\<exists>written f'. write_provider_profile_config payload f = Inr (written, f') \<and> fst f' = fst f \<and> stored f'
    \<and> (\<exists>c. load_provider_profile_config f' = Inr c
      \<and> dget c ''active_affective_profile'' = PStr (str_or (dget payload ''active_affective_profile'') ''openai_compatible'')
      \<and> dget c ''active_rational_profile'' = PStr (str_or (dget payload ''active_rational_profile'') ''openai_compatible'')
      \<and> dget c ''profiles'' = PList (map json_norm xs))"
proof -
  define w where "w = [
       (''schema_version'', PStr PROVIDER_PROFILE_CONFIG_SCHEMA_VERSION),
       (''active_affective_profile'', PStr (str_or (dget payload ''active_affective_profile'') ''openai_compatible'')),
       (''active_rational_profile'', PStr (str_or (dget payload ''active_rational_profile'') ''openai_compatible'')),
       (''profiles'', PList xs)]"
  obtain e where e: "json_norm (PDict w) = PDict e" by simp
  note read = json_norm_dict[OF e]
  have "write_provider_profile_config payload f = Inr (w @ [(''config_path'', PStr (fst f)), (''exists'', PBool True)], (fst f, Some (PDict e)))"
    using assms e by (simp add: write_provider_profile_config_def w_def Let_def del: json_norm.simps)
  moreover have "stored (fst f, Some (PDict e))"
    using json_norm_idem[of "PDict w"] by (simp only: e stored_def snd_conv option.case)
  moreover have "dget e ''profiles'' = PList (map json_norm xs)" "dget e ''active_affective_profile'' = dget w ''active_affective_profile''"
      "dget e ''active_rational_profile'' = dget w ''active_rational_profile''"
    by (simp_all add: read w_def)
  ultimately show ?thesis
    by (auto simp: load_provider_profile_config_def w_def str_or_ne)
qed

definition registry_of :: "osenv \<Rightarrow> string \<Rightarrow> string \<Rightarrow> pyval list \<Rightarrow> ProviderProfileRegistry" where
  "registry_of env a r xs = \<lparr>pr_profiles = map snd (profile_table env xs), pr_active_affective_profile = a, pr_active_rational_profile = r\<rparr>"

lemma registry_from_load:
  assumes "load_provider_profile_config f = Inr c" "dget c ''active_affective_profile'' = PStr a" "a \<noteq> []"
    "dget c ''active_rational_profile'' = PStr r" "r \<noteq> []" "dget c ''profiles'' = PList xs"
  shows "provider_profile_registry env f [] [] = Inr (registry_of env a r xs)"
  using assms by (simp add: provider_profile_registry_def registry_of_def config_entries_def)

text \<open>
  Selecting a profile for a slot writes a file from which the registry is the one before with that slot
  changed: the other slot and every profile stay as they were, in every environment. Any other
  slot name is refused.
\<close>

theorem set_active_exact:
  assumes "stored f" "provider_profile_registry env f [] [] = Inr r" "profile_name \<noteq> []"
  shows "if slot = ''affective'' \<or> slot = ''rational''
    then \<exists>reply f'. set_active_provider_profile env' slot profile_name f = Inr (reply, f') \<and> fst f' = fst f \<and> stored f'
      \<and> provider_profile_registry env f' [] [] = Inr (if slot = ''affective''
          then r\<lparr>pr_active_affective_profile := profile_name\<rparr> else r\<lparr>pr_active_rational_profile := profile_name\<rparr>)
    else set_active_provider_profile env' slot profile_name f = Inl (ValueError ''unsupported_model_slot'')"
proof (cases "slot = ''affective'' \<or> slot = ''rational''")
  case False
  then show ?thesis by (simp add: set_active_provider_profile_def DEFAULT_ACTIVE_MODEL_SLOTS_def)
next
  case True
  obtain c where load: "load_provider_profile_config f = Inr c"
    using assms(2) by (auto simp: provider_profile_registry_def)
  obtain a q xs where c: "dget c ''active_affective_profile'' = PStr a" "dget c ''active_rational_profile'' = PStr q"
      "dget c ''profiles'' = PList xs" "a \<noteq> []" "q \<noteq> []" "\<forall>x \<in> set xs. json_norm x = x"
    using load_fields[OF load] assms(1) by blast
  have r: "r = registry_of env a q xs"
    using registry_from_load[OF load c(1,4,2,5,3)] assms(2) by simp
  let ?w = "[(''active_affective_profile'', PStr (if slot = ''affective'' then profile_name else a)),
    (''active_rational_profile'', PStr (if slot = ''rational'' then profile_name else q)), (''profiles'', PList xs)]"
  obtain written f' c' where w: "write_provider_profile_config ?w f = Inr (written, f')" "fst f' = fst f" "stored f'"
    and load': "load_provider_profile_config f' = Inr c'"
    and c': "dget c' ''active_affective_profile'' = PStr (if slot = ''affective'' then profile_name else a)"
      "dget c' ''active_rational_profile'' = PStr (if slot = ''rational'' then profile_name else q)" "dget c' ''profiles'' = PList xs"
    using write_then_load[of ?w xs f] c assms(3) by (auto simp: map_idI)
  have reg: "provider_profile_registry e f' [] [] = Inr (registry_of e (if slot = ''affective'' then profile_name else a)
      (if slot = ''rational'' then profile_name else q) xs)" for e
    by (rule registry_from_load[OF load' c'(1) _ c'(2) _ c'(3)]) (simp_all add: c assms(3))
  obtain catalog where catalog: "provider_profile_catalog env' f' = Inr catalog"
    by (simp add: provider_profile_catalog_def reg load')
  have "\<exists>reply. set_active_provider_profile env' slot profile_name f = Inr (reply, f')"
    using True w(1) c load catalog
    by (cases "slot = ''affective''") (simp_all add: set_active_provider_profile_def DEFAULT_ACTIVE_MODEL_SLOTS_def config_entries_def)
  moreover have "provider_profile_registry env f' [] [] = Inr (if slot = ''affective''
      then r\<lparr>pr_active_affective_profile := profile_name\<rparr> else r\<lparr>pr_active_rational_profile := profile_name\<rparr>)"
    using True reg[of env] r by (auto simp: registry_of_def)
  ultimately show ?thesis using w(2,3) True by (simp only: if_True) blast
qed

theorem set_active_exact_witness:
  "\<exists>reply f'. set_active_provider_profile [] ''rational'' ''azure_openai'' (''c.json'', None) = Inr (reply, f') \<and> stored f'"
proof -
  obtain r where "provider_profile_registry [] (''c.json'', None) [] [] = Inr r"
    by (simp add: provider_profile_registry_def load_provider_profile_config_def)
  from set_active_exact[OF _ this, of "''azure_openai''" "''rational''" "[]"] show ?thesis by (auto simp: stored_def)
qed

text \<open>The profile of a name depends on the entries of that name only.\<close>

fun entry_name :: "pyval \<Rightarrow> string" where
  "entry_name (PDict e) = str_or (dget e ''name'') []"
| "entry_name v = []"

lemma overlay_other: "entry_name x \<noteq> n \<or> n = [] \<Longrightarrow> map_of (overlay_entry env t x) n = map_of t n"
  by (cases x) (auto simp: overlay_entry_def Let_def update_conv')

lemma overlay_self:
  "entry_name (PDict e) = n \<Longrightarrow> n \<noteq> [] \<Longrightarrow> map_of (overlay_entry env t (PDict e)) n
     = Some (overlay_profile_from_config env (case map_of t n of Some p \<Rightarrow> p | None \<Rightarrow> custom_profile n e) e)"
  by (simp add: overlay_entry_def Let_def update_conv' split: option.split)

lemma overlays_of_name:
  "n \<noteq> [] \<Longrightarrow> map_of t n = map_of t' n \<Longrightarrow>
     map_of (foldl (overlay_entry env) t xs) n = map_of (foldl (overlay_entry env) t' (filter (\<lambda>x. entry_name x = n) xs)) n"
proof (induction xs arbitrary: t t')
  case (Cons x xs)
  show ?case
  proof (cases "entry_name x = n")
    case True
    then obtain e where "x = PDict e" using Cons.prems(1) by (cases x) auto
    then have "map_of (overlay_entry env t x) n = map_of (overlay_entry env t' x) n"
      using True overlay_self[of e n] Cons.prems by simp
    with True Cons show ?thesis by simp
  next
    case False
    with Cons.prems Cons.IH[of "overlay_entry env t x" t'] show ?thesis by (simp add: overlay_other)
  qed
qed simp

definition keyed_profiles :: "(string \<times> ProviderProfile) list \<Rightarrow> bool" where
  "keyed_profiles t \<longleftrightarrow> (\<forall>kp \<in> set t. pp_name (snd kp) = fst kp)"

lemma str_or_same: "str_or v [] \<noteq> [] \<Longrightarrow> str_or v d = str_or v []"
  by (cases "truthy v") (simp_all add: str_or_def)

lemma overlay_name: "str_or (dget e ''name'') [] \<noteq> [] \<Longrightarrow>
    pp_name (overlay_profile_from_config env p e) = str_or (dget e ''name'') []"
  by (simp add: overlay_profile_from_config_def Let_def) (rule str_or_same)

lemma overlay_keyed: "keyed_profiles t \<Longrightarrow> keyed_profiles (overlay_entry env t x)"
  by (cases x) (auto simp: keyed_profiles_def overlay_entry_def overlay_name Let_def dest!: set_update_subset)

lemma find_keyed_profile: "keyed_profiles t \<Longrightarrow> find (\<lambda>p. pp_name p = n) (map snd t) = map_of t n"
  by (induction t) (auto simp: keyed_profiles_def)

lemma profile_table_keyed: "keyed_profiles (profile_table env xs)"
proof -
  have "keyed_profiles (foldl (overlay_entry env) t xs)" if "keyed_profiles t" for t
    using that by (induction xs arbitrary: t) (simp_all add: overlay_keyed)
  then show ?thesis
    unfolding profile_table_def by this (simp add: keyed_profiles_def openai_profile_def azure_profile_def)
qed

lemma profile_of_registry:
  "n \<noteq> [] \<Longrightarrow> get_profile (registry_of env a r xs) n = map_of (profile_table env (filter (\<lambda>x. entry_name x = n) xs)) n"
  unfolding get_profile_def registry_of_def ProviderProfileRegistry.select_convs find_keyed_profile[OF profile_table_keyed]
  unfolding profile_table_def by (rule overlays_of_name) simp_all


lemma put_entry_others:
  assumes "n \<noteq> profile_name" "\<And>e. str_or (dget (g e) ''name'') [] = str_or (dget e ''name'') []"
  shows "filter (\<lambda>x. entry_name x = n) (map PDict (put_entry profile_name g es)) = filter (\<lambda>x. entry_name x = n) (map PDict es)"
  using assms by (induction es) auto

lemma put_entry_same:
  assumes "\<And>e. str_or (dget (g e) ''name'') [] = str_or (dget e ''name'') []"
  shows "filter (\<lambda>x. entry_name x = n) (map PDict (put_entry n g es)) = (case filter (\<lambda>x. entry_name x = n) (map PDict es) of
     [] \<Rightarrow> [PDict (g [(''name'', PStr n)])] | PDict e # rest \<Rightarrow> PDict (g e) # rest | _ # rest \<Rightarrow> rest)"
  using assms by (induction es) auto

lemma updated_entry_dget:
  "dget (updated_entry u e) k = (case map_of (update_arguments u) k of Some (Some v) \<Rightarrow> v | _ \<Rightarrow> dget e k)"
proof -
  have "dget (foldl (\<lambda>d (k, v). case v of Some x \<Rightarrow> dset d k x | None \<Rightarrow> d) e us) k
      = (case map_of us k of Some (Some v) \<Rightarrow> v | _ \<Rightarrow> dget e k)" if "distinct (map fst us)" for us
    using that
  proof (induction us arbitrary: e)
    case (Cons kv us)
    then have "map_of us (fst kv) = None" by (simp add: map_of_eq_None_iff)
    with Cons show ?case by (cases kv) (auto split: option.splits)
  qed simp
  moreover have "distinct (map fst (update_arguments u))" by (simp add: update_arguments_def)
  ultimately show ?thesis by (simp only: updated_entry_def)
qed

lemma dict_entries_named:
  "n \<noteq> [] \<Longrightarrow> filter (\<lambda>x. entry_name x = n) (map PDict (dict_entries c)) = filter (\<lambda>x. entry_name x = n) (config_entries c)"
proof -
  have "filter (\<lambda>x. entry_name x = n) (map PDict (List.map_filter (\<lambda>e. case e of PDict d \<Rightarrow> Some d | _ \<Rightarrow> None) xs))
      = filter (\<lambda>x. entry_name x = n) xs" if "n \<noteq> []" for xs
    using that by (induction xs) (auto simp: List.map_filter_simps split: pyval.splits)
  then show "n \<noteq> [] \<Longrightarrow> ?thesis" by (simp add: dict_entries_def)
qed


text \<open>What the file keeps of an entry: a registry reads it only through its fields.\<close>

definition norm_entry :: "dict \<Rightarrow> bool" where
  "norm_entry d \<longleftrightarrow> (\<forall>k. json_norm (dget d k) = dget d k)"

lemma overlay_entry_cong:
  assumes "dget d = dget d'"
  shows "overlay_entry env t (PDict d) = overlay_entry env t (PDict d')"
proof -
  have "custom_profile n d = custom_profile n d'" "overlay_profile_from_config env p d = overlay_profile_from_config env p d'" for n p
    by (simp_all only: custom_profile_def overlay_profile_from_config_def assms)
  then show ?thesis by (simp only: overlay_entry_def assms pyval.case)
qed

lemma profile_table_norm:
  assumes "\<forall>d \<in> set ds. norm_entry d"
  shows "profile_table env (map json_norm (map PDict ds)) = profile_table env (map PDict ds)"
proof -
  have step: "overlay_entry env t (json_norm (PDict d)) = overlay_entry env t (PDict d)" if "norm_entry d" for t d
  proof -
    obtain d' where d': "json_norm (PDict d) = PDict d'" by simp
    then have "dget d' = dget d" using that by (intro ext) (simp only: norm_entry_def json_norm_dict[OF d'])
    then show ?thesis unfolding d' by (rule overlay_entry_cong)
  qed
  have "foldl (overlay_entry env) t (map json_norm (map PDict ds)) = foldl (overlay_entry env) t (map PDict ds)" for t
    using assms by (induction ds arbitrary: t) (simp_all add: step del: json_norm.simps)
  then show ?thesis by (simp only: profile_table_def)
qed

lemma update_values: "(k, Some v) \<in> set (update_arguments u) \<Longrightarrow> json_norm v = v"
  by (auto simp: update_arguments_def eq_commute[of "Some v"])

lemma updated_norm: "norm_entry e \<Longrightarrow> norm_entry (updated_entry u e)"
  by (auto simp: norm_entry_def updated_entry_dget split: option.splits dest!: map_of_SomeD update_values)

lemma put_entry_norm:
  "\<forall>d \<in> set es. norm_entry d \<Longrightarrow> \<forall>d \<in> set (put_entry n (updated_entry u) es). norm_entry d"
  by (induction es) (auto simp: updated_norm norm_entry_def[of "[(''name'', PStr n)]"] dget_def)

lemma updated_name: "dget (updated_entry u e) ''name'' = dget e ''name''"
  by (simp add: updated_entry_dget update_arguments_def)

text \<open>The values of an update are those of the profile; an empty text stands for no value.\<close>

definition given :: "string option \<Rightarrow> string \<Rightarrow> bool" where
  "given v x \<longleftrightarrow> (\<forall>s. v = Some s \<and> s \<noteq> [] \<longrightarrow> x = s)"

definition applied :: "config_update \<Rightarrow> ProviderProfile \<Rightarrow> bool" where
  "applied u p \<longleftrightarrow> given (cu_provider_kind u) (pp_provider_kind p) \<and> given (cu_credential_env_var u) (pp_credential_env_var p)
     \<and> given (cu_endpoint_env_var u) (pp_endpoint_env_var p) \<and> given (cu_model_env_var u) (pp_model_env_var p)
     \<and> given (cu_deployment_env_var u) (pp_deployment_env_var p)
     \<and> (\<forall>s. cu_endpoint_url u = Some s \<and> s \<noteq> [] \<longrightarrow> pp_endpoint_url p = Some s)
     \<and> (\<forall>s. cu_configured_model u = Some s \<and> s \<noteq> [] \<longrightarrow> pp_configured_model p = PStr s)
     \<and> (\<forall>s. cu_configured_deployment u = Some s \<and> s \<noteq> [] \<longrightarrow> pp_configured_deployment p = PStr s)
     \<and> (\<forall>b. cu_supports_model_discovery u = Some b \<longrightarrow> pp_supports_model_discovery p = b)
     \<and> (\<forall>b. cu_enabled u = Some b \<longrightarrow> pp_enabled p = b)"

lemma overlay_applied: "applied u (overlay_profile_from_config env p (updated_entry u e))"
  by (simp add: applied_def given_def overlay_profile_from_config_def Let_def updated_entry_dget update_arguments_def
      text_option_def coerce_bool_def)


text \<open>C19: 
  Updating the profile of a name writes a file from which the registry gives every other name the profile
  it gave before, in every environment, with the same active profiles. Where the file had at most
  one entry of that name, the profile has every value of the update. The duplicates of a name that
  a hand-written file may hold are applied after the updated entry and can hide the update.
\<close>

theorem config_update_exact:
  assumes "stored f" "load_provider_profile_config f = Inr c" "provider_profile_registry env f [] [] = Inr r" "profile_name \<noteq> []"
  shows "\<exists>reply f' r'. provider_config_update env' profile_name u f = Inr (reply, f') \<and> fst f' = fst f \<and> stored f'
    \<and> provider_profile_registry env f' [] [] = Inr r'
    \<and> pr_active_affective_profile r' = pr_active_affective_profile r \<and> pr_active_rational_profile r' = pr_active_rational_profile r
    \<and> (\<forall>n. n \<noteq> [] \<and> n \<noteq> profile_name \<longrightarrow> get_profile r' n = get_profile r n)
    \<and> (length (filter (\<lambda>x. entry_name x = profile_name) (config_entries c)) \<le> 1
       \<longrightarrow> (\<exists>p. get_profile r' profile_name = Some p \<and> applied u p))"
proof -
  let ?g = "updated_entry u" let ?es = "dict_entries c"
  let ?xs = "map PDict (put_entry profile_name ?g ?es)"
  obtain a q xs where c: "dget c ''active_affective_profile'' = PStr a" "dget c ''active_rational_profile'' = PStr q"
      "dget c ''profiles'' = PList xs" "a \<noteq> []" "q \<noteq> []" "\<forall>x \<in> set xs. json_norm x = x"
    using load_fields[OF assms(2)] assms(1) by blast
  have r: "r = registry_of env a q xs"
    using registry_from_load[OF assms(2) c(1,4,2,5,3)] assms(3) by simp
  let ?w = "[(''active_affective_profile'', por (PStr a) (PStr ''openai_compatible'')),
    (''active_rational_profile'', por (PStr q) (PStr ''openai_compatible'')), (''profiles'', PList ?xs)]"
  obtain written f' c' where w: "write_provider_profile_config ?w f = Inr (written, f')" "fst f' = fst f" "stored f'"
    and load': "load_provider_profile_config f' = Inr c'"
    and c': "dget c' ''active_affective_profile'' = PStr a" "dget c' ''active_rational_profile'' = PStr q"
      "dget c' ''profiles'' = PList (map json_norm ?xs)"
    using write_then_load[of ?w ?xs f] c(4,5) by auto
  have reg: "provider_profile_registry e f' [] [] = Inr (registry_of e a q (map json_norm ?xs))" for e
    by (rule registry_from_load[OF load' c'(1) c(4) c'(2) c(5) c'(3)])
  obtain catalog where catalog: "provider_profile_catalog env' f' = Inr catalog"
    by (simp add: provider_profile_catalog_def reg load')
  have update: "\<exists>reply. provider_config_update env' profile_name u f = Inr (reply, f')"
    using w(1) catalog by (simp add: provider_config_update_def assms(2) c)
  have norm: "\<forall>d \<in> set ?es. norm_entry d"
  proof
    fix d assume "d \<in> set ?es"
    then have "PDict d \<in> set xs"
      by (auto simp: dict_entries_def config_entries_def c List.map_filter_def split: pyval.splits)
    then have "json_norm (PDict d) = PDict d" using c(6) by blast
    then show "norm_entry d" by (simp only: norm_entry_def stored_dget) simp
  qed
  have r': "registry_of env a q (map json_norm ?xs) = registry_of env a q ?xs"
    by (simp only: registry_of_def profile_table_norm[OF put_entry_norm[OF norm]])
  have named: "str_or (dget (?g e) ''name'') [] = str_or (dget e ''name'') []" for e by (simp only: updated_name)
  have xs: "config_entries c = xs" by (simp add: config_entries_def c)
  have others: "get_profile (registry_of env a q ?xs) n = get_profile r n" if "n \<noteq> []" "n \<noteq> profile_name" for n
    using put_entry_others[OF that(2), of ?g ?es, OF named] dict_entries_named[OF that(1), of c]
    by (simp only: profile_of_registry[OF that(1)] r xs)
  have self: "\<exists>p. get_profile (registry_of env a q ?xs) profile_name = Some p \<and> applied u p"
    if "length (filter (\<lambda>x. entry_name x = profile_name) (config_entries c)) \<le> 1"
  proof -
    define es where "es = filter (\<lambda>x. entry_name x = profile_name) (map PDict ?es)"
    have put: "filter (\<lambda>x. entry_name x = profile_name) ?xs = (case es of
        [] \<Rightarrow> [PDict (?g [(''name'', PStr profile_name)])] | PDict e # rest \<Rightarrow> PDict (?g e) # rest | _ # rest \<Rightarrow> rest)"
      using put_entry_same[of ?g profile_name ?es, OF named] by (simp only: es_def)
    have "length es \<le> 1" using that dict_entries_named[OF assms(4), of c] by (simp add: es_def)
    then consider "es = []" | x where "es = [x]" by (cases es) auto
    then obtain e where e: "filter (\<lambda>x. entry_name x = profile_name) ?xs = [PDict (?g e)]" "entry_name (PDict (?g e)) = profile_name"
    proof cases
      case 1
      then show ?thesis using that put named by simp
    next
      case 2
      then have "x \<in> set es" by simp
      then obtain e where "x = PDict e" "entry_name (PDict e) = profile_name" by (auto simp: es_def)
      then show ?thesis using that put 2 named by simp
    qed
    show ?thesis
      using overlay_self[OF e(2) assms(4)] overlay_applied
      by (simp only: profile_of_registry[OF assms(4)] e(1) profile_table_def foldl.simps) blast
  qed
  have "pr_active_affective_profile (registry_of env a q ?xs) = pr_active_affective_profile r"
    "pr_active_rational_profile (registry_of env a q ?xs) = pr_active_rational_profile r"
    by (simp_all add: registry_of_def r)
  with update w(2,3) reg[of env, unfolded r'] others self show ?thesis by blast
qed

theorem config_update_exact_witness:
  "\<exists>reply f' r' p. provider_config_update [] ''lab'' \<lparr>cu_provider_kind = Some ''custom'', cu_credential_env_var = Some ''LAB_KEY'',
       cu_endpoint_env_var = None, cu_endpoint_url = None, cu_model_env_var = None, cu_deployment_env_var = None,
       cu_configured_model = None, cu_configured_deployment = None, cu_supports_model_discovery = None, cu_enabled = Some False\<rparr>
       (''c.json'', None) = Inr (reply, f')
     \<and> provider_profile_registry [] f' [] [] = Inr r' \<and> get_profile r' ''lab'' = Some p
     \<and> pp_credential_env_var p = ''LAB_KEY'' \<and> \<not> pp_enabled p"
proof -
  let ?f = "(''c.json'', None) :: config_file"
  obtain c where c: "load_provider_profile_config ?f = Inr c" "config_entries c = []"
    by (simp add: load_provider_profile_config_def config_entries_def)
  obtain r where r: "provider_profile_registry [] ?f [] [] = Inr r"
    by (simp add: provider_profile_registry_def c)
  from config_update_exact[OF _ c(1) r, of "''lab''"] show ?thesis
    by (fastforce simp: stored_def c(2) applied_def given_def)
qed

end
