(* ===== verification/Descriptors.thy ===== *)
theory Descriptors
  imports CliAdapter
begin

text \<open>
  The descriptors of \<open>neurolink_core/tools.py\<close> (lines 19 to 770): the skill descriptor parsed from a skill
  file, the MCP bridge and its governance of one tool, the coding agent runner, and the check of a tool
  contract against the workflow catalog. The content of the skill file is a text, the catalog (a module
  of literals under \<open>neuro_cli\<close>) a document; the regular expressions of the source are written as the
  functions on texts they are.
\<close>

section \<open>Skill files\<close>

definition SKILL_DESCRIPTOR_SCHEMA_VERSION :: string where
  "SKILL_DESCRIPTOR_SCHEMA_VERSION = ''1.2.5-skill-descriptor-v1''"

definition SKILL_REGISTRY_SCHEMA_VERSION :: string where
  "SKILL_REGISTRY_SCHEMA_VERSION = ''2.2.4-skill-registry-v1''"

abbreviation newline :: char where
  "newline \<equiv> CHR 10"

text \<open>The text before the first occurrence of a word, and the text after it.\<close>

fun find_word :: "string \<Rightarrow> string \<Rightarrow> (string \<times> string) option" where
  "find_word w [] = (if w = [] then Some ([], []) else None)"
| "find_word w (ch # s) = (if startswith (ch # s) w then Some ([], drop (length w) (ch # s))
     else map_option (\<lambda>(before, after). (ch # before, after)) (find_word w s))"

definition strip_char :: "char \<Rightarrow> string \<Rightarrow> string" where
  "strip_char c s = rev (dropWhile (\<lambda>x. x = c) (rev (dropWhile (\<lambda>x. x = c) s)))"

definition split_markdown_frontmatter :: "string \<Rightarrow> (string \<times> string) list \<times> string" where
  "split_markdown_frontmatter content = (
     let opening = ''---'' @ [newline] in
     if \<not> startswith content opening then ([], content)
     else case find_word (newline # opening) (drop 4 content) of
       None \<Rightarrow> ([], content)
     | Some (frontmatter_block, body) \<Rightarrow>
         (foldl (\<lambda>payload line. case find_word '':'' line of
              None \<Rightarrow> payload
            | Some (key, value) \<Rightarrow> AList.update (str_strip key) (strip_char (CHR 0x22) (str_strip value)) payload)
            [] (split_lines frontmatter_block), body))"

text \<open>
  \<open>^##\s+heading\s*$\n(section)(?=^##\s+|\Z)\<close>: a heading is looked for at the starts of lines; the section ends
  before the next heading or at the end of the text.
\<close>

definition after_heading :: "string \<Rightarrow> string \<Rightarrow> string option" where
  "after_heading heading s = (if \<not> startswith s ''##'' then None
     else let rest = drop 2 s; named = dropWhile is_space rest; tail = drop (length heading) named; blank = takeWhile is_space tail in
       if rest = named \<or> \<not> startswith named heading \<or> newline \<notin> set blank then None
       else Some (tl (dropWhile (\<lambda>x. x \<noteq> newline) tail)))"

definition starts_heading :: "string \<Rightarrow> bool" where
  "starts_heading s \<longleftrightarrow> startswith s ''##'' \<and> (case drop 2 s of c # _ \<Rightarrow> is_space c | [] \<Rightarrow> False)"

fun section_text :: "bool \<Rightarrow> string \<Rightarrow> string" where
  "section_text line_start [] = []"
| "section_text line_start (c # s) = (if line_start \<and> starts_heading (c # s) then [] else c # section_text (c = newline) s)"

fun find_section :: "string \<Rightarrow> bool \<Rightarrow> string \<Rightarrow> string" where
  "find_section heading line_start [] = []"
| "find_section heading line_start (c # s) = (case if line_start then after_heading heading (c # s) else None of
     Some rest \<Rightarrow> str_strip (section_text True rest) | None \<Rightarrow> find_section heading (c = newline) s)"

definition markdown_section :: "string \<Rightarrow> string \<Rightarrow> string" where
  "markdown_section body heading = find_section heading True body"

definition numbered_item :: "string \<Rightarrow> string option" where
  "numbered_item line = (let s = str_strip line; rest = dropWhile is_digit s in
     if rest = s then None
     else case rest of
       CHR ''.'' # tail \<Rightarrow> if tail = dropWhile is_space tail then None else Some (str_strip tail)
     | _ \<Rightarrow> None)"

definition extract_numbered_items :: "string \<Rightarrow> string list" where
  "extract_numbered_items s = List.map_filter numbered_item (split_lines s)"

abbreviation fence :: string where
  "fence \<equiv> ''```''"

lemma find_word_shorter: "find_word w s = Some (a, b) \<Longrightarrow> length b \<le> length s"
  by (induction w s arbitrary: a b rule: find_word.induct) (fastforce split: if_splits)+

definition fence_body :: "string \<Rightarrow> string option" where
  "fence_body s = (if \<not> startswith s fence then None
     else let rest = drop 3 s in
       if startswith rest (''bash'' @ [newline]) then Some (drop 5 rest)
       else if startswith rest [newline] then Some (drop 1 rest) else None)"

function fenced_blocks :: "string \<Rightarrow> string list" where
  "fenced_blocks s = (if s = [] then [] else
     case (case fence_body s of Some body \<Rightarrow> find_word fence body | None \<Rightarrow> None) of
       Some (block, after) \<Rightarrow> block # fenced_blocks after
     | None \<Rightarrow> fenced_blocks (tl s))"
  by pat_completeness auto
termination
proof (relation "measure length")
  fix s x block after
  assume s: "s \<noteq> []" and found: "(case fence_body s of Some body \<Rightarrow> find_word fence body | None \<Rightarrow> None) = Some x"
    and x: "(block, after) = x"
  then obtain body where body: "fence_body s = Some body" "find_word fence body = Some (block, after)" by (auto split: option.splits)
  then have "length after \<le> length body" by (simp add: find_word_shorter)
  moreover have "length body < length s" using s body(1) by (auto simp: fence_body_def Let_def split: if_splits)
  ultimately show "(after, s) \<in> measure length" by simp
qed auto

declare fenced_blocks.simps [simp del]

definition extract_fenced_commands :: "string \<Rightarrow> string list" where
  "extract_fenced_commands s = filter (\<lambda>c. c \<noteq> []) (map str_strip (fenced_blocks s))"

definition reference_line :: "string \<Rightarrow> (string \<times> string) option" where
  "reference_line line = (case str_strip line of
     CHR ''-'' # rest \<Rightarrow> (case dropWhile is_space rest of
        CHR ''['' # link \<Rightarrow> (case find_word '']'' link of
          Some (title, CHR ''('' # target) \<Rightarrow> (case find_word '')'' target of
            Some (path, tail) \<Rightarrow> if rest = dropWhile is_space rest \<or> title = [] \<or> path = [] \<or> \<not> list_all is_space tail
              then None else Some (title, path)
          | None \<Rightarrow> None)
        | _ \<Rightarrow> None)
      | _ \<Rightarrow> None)
   | _ \<Rightarrow> None)"

definition extract_references :: "string \<Rightarrow> dict list" where
  "extract_references s = map (\<lambda>(title, path). [(''title'', PStr title), (''path'', PStr path)])
     (List.map_filter reference_line (split_lines s))"

record SkillDescriptor =
  sk_name :: string
  sk_description :: string
  sk_argument_hint :: string
  sk_skill_path :: string
  sk_workflow_plan_required :: bool
  sk_json_output_required :: bool
  sk_release_target_promotion_blocked :: bool
  sk_callback_audit_required :: bool
  sk_ground_rules :: "string list"
  sk_first_check_commands :: "string list"
  sk_references :: "dict list"

definition SkillDescriptor_to_dict :: "SkillDescriptor \<Rightarrow> dict" where
  "SkillDescriptor_to_dict d = [
     (''ok'', PBool True), (''status'', PStr ''ok''), (''schema_version'', PStr SKILL_DESCRIPTOR_SCHEMA_VERSION),
     (''name'', PStr (sk_name d)), (''description'', PStr (sk_description d)), (''argument_hint'', PStr (sk_argument_hint d)),
     (''skill_path'', PStr (sk_skill_path d)), (''workflow_plan_required'', PBool (sk_workflow_plan_required d)),
     (''json_output_required'', PBool (sk_json_output_required d)),
     (''release_target_promotion_blocked'', PBool (sk_release_target_promotion_blocked d)),
     (''callback_audit_required'', PBool (sk_callback_audit_required d)),
     (''ground_rules'', PList (map PStr (sk_ground_rules d))),
     (''first_check_commands'', PList (map PStr (sk_first_check_commands d))),
     (''references'', PList (map PDict (sk_references d)))]"

definition mentions :: "string list \<Rightarrow> string list \<Rightarrow> bool" where
  "mentions words items \<longleftrightarrow> list_ex (\<lambda>item. list_all (\<lambda>w. contains_str w (str_lower item)) words) items"

definition frontmatter_text :: "(string \<times> string) list \<Rightarrow> string \<Rightarrow> string \<Rightarrow> string" where
  "frontmatter_text frontmatter key dflt = (case map_of frontmatter key of Some v \<Rightarrow> if v = [] then dflt else v | None \<Rightarrow> dflt)"

definition load_neuro_cli_skill_descriptor :: "string \<Rightarrow> string \<Rightarrow> SkillDescriptor" where
  "load_neuro_cli_skill_descriptor skill_path content = (
     let (frontmatter, body) = split_markdown_frontmatter content;
         ground_rules = extract_numbered_items (markdown_section body ''Ground Rules'');
         first_check_commands = extract_fenced_commands (markdown_section body ''First Checks'') in
     \<lparr>sk_name = frontmatter_text frontmatter ''name'' ''unknown-skill'',
      sk_description = frontmatter_text frontmatter ''description'' [],
      sk_argument_hint = frontmatter_text frontmatter ''argument-hint'' [], sk_skill_path = skill_path,
      sk_workflow_plan_required = mentions [''workflow plan''] (ground_rules @ first_check_commands),
      sk_json_output_required = mentions [''json'', ''output''] ground_rules,
      sk_release_target_promotion_blocked = mentions [''release_target'', ''do not promote''] ground_rules,
      sk_callback_audit_required = mentions [''callback'', ''audit''] ground_rules,
      sk_ground_rules = ground_rules, sk_first_check_commands = first_check_commands,
      sk_references = extract_references (markdown_section body ''References'')\<rparr>)"

record SkillRegistryEntry =
  se_skill_id :: string
  se_source_kind :: string
  se_canonical :: bool
  se_descriptor :: SkillDescriptor

definition SkillRegistryEntry_to_dict :: "SkillRegistryEntry \<Rightarrow> dict" where
  "SkillRegistryEntry_to_dict e = dupdate (SkillDescriptor_to_dict (se_descriptor e)) [
     (''skill_id'', PStr (se_skill_id e)), (''source_kind'', PStr (se_source_kind e)), (''canonical'', PBool (se_canonical e))]"

definition skill_source_kind :: "string \<Rightarrow> string" where
  "skill_source_kind skill_path = (if contains_str ''/.github/skills/'' skill_path then ''vscode_discovery_adapter''
     else if contains_str ''/neuro_cli/skill/'' skill_path then ''canonical_package_skill'' else ''external_skill'')"

definition skill_registry_entry_id :: "string \<Rightarrow> SkillDescriptor \<Rightarrow> string" where
  "skill_registry_entry_id skill_path d = sk_name d @ '':'' @ skill_source_kind skill_path"

text \<open>The registry over the paths of skill files and their contents.\<close>

definition load_skill_descriptor_registry :: "(string \<times> string) list \<Rightarrow> SkillRegistryEntry list" where
  "load_skill_descriptor_registry skills = map (\<lambda>(skill_path, content).
     let d = load_neuro_cli_skill_descriptor skill_path content; source_kind = skill_source_kind skill_path in
     \<lparr>se_skill_id = skill_registry_entry_id skill_path d, se_source_kind = source_kind,
      se_canonical = (source_kind = ''canonical_package_skill''), se_descriptor = d\<rparr>) skills"

definition get_entry :: "SkillRegistryEntry list \<Rightarrow> string \<Rightarrow> SkillRegistryEntry option" where
  "get_entry entries skill_id = find (\<lambda>e. se_skill_id e = skill_id) entries"

definition canonical_entries :: "SkillRegistryEntry list \<Rightarrow> SkillRegistryEntry list" where
  "canonical_entries entries = filter se_canonical entries"

definition SkillDescriptorRegistry_to_dict :: "SkillRegistryEntry list \<Rightarrow> dict" where
  "SkillDescriptorRegistry_to_dict entries = [
     (''ok'', PBool True), (''status'', PStr ''ok''), (''schema_version'', PStr SKILL_REGISTRY_SCHEMA_VERSION),
     (''entry_count'', PInt (int (length entries))), (''canonical_entry_count'', PInt (int (length (canonical_entries entries)))),
     (''skill_ids'', PList (map (\<lambda>e. PStr (se_skill_id e)) entries)),
     (''canonical_skill_ids'', PList (map (\<lambda>e. PStr (se_skill_id e)) (canonical_entries entries))),
     (''entries'', PList (map (\<lambda>e. PDict (SkillRegistryEntry_to_dict e)) entries))]"


section \<open>The MCP bridge\<close>

definition MCP_BRIDGE_DESCRIPTOR_SCHEMA_VERSION :: string where
  "MCP_BRIDGE_DESCRIPTOR_SCHEMA_VERSION = ''1.2.6-mcp-bridge-descriptor-v2''"

definition MCP_TOOL_GOVERNANCE_DESCRIPTOR_SCHEMA_VERSION :: string where
  "MCP_TOOL_GOVERNANCE_DESCRIPTOR_SCHEMA_VERSION = ''2.2.4-mcp-tool-governance-descriptor-v1''"

record McpBridgeDescriptor =
  mb_bridge_name :: string
  mb_bridge_mode :: string
  mb_server_id :: string
  mb_server_label :: string
  mb_transport :: string
  mb_read_only_tools :: "dict list"
  mb_approval_required_tools :: "dict list"
  mb_blocked_tools :: "dict list"
  mb_allowed_operations :: "string list"
  mb_safety_boundaries :: dict

definition McpBridgeDescriptor_to_dict :: "McpBridgeDescriptor \<Rightarrow> dict" where
  "McpBridgeDescriptor_to_dict d = [
     (''ok'', PBool True), (''status'', PStr ''ok''), (''schema_version'', PStr MCP_BRIDGE_DESCRIPTOR_SCHEMA_VERSION),
     (''bridge_name'', PStr (mb_bridge_name d)), (''bridge_mode'', PStr (mb_bridge_mode d)), (''server_id'', PStr (mb_server_id d)),
     (''server_label'', PStr (mb_server_label d)), (''transport'', PStr (mb_transport d)),
     (''read_only_tools'', PList (map PDict (mb_read_only_tools d))),
     (''approval_required_tools'', PList (map PDict (mb_approval_required_tools d))),
     (''blocked_tools'', PList (map PDict (mb_blocked_tools d))),
     (''allowed_operations'', PList (map PStr (mb_allowed_operations d))),
     (''safety_boundaries'', PDict (mb_safety_boundaries d))]"

definition summarize_mcp_tool :: "ToolContract \<Rightarrow> dict" where
  "summarize_mcp_tool contract = [
     (''name'', PStr (tc_tool_name contract)), (''description'', PStr (tc_description contract)),
     (''side_effect_level'', PStr (tc_side_effect_level contract)),
     (''required_arguments'', PList (map PStr (tc_required_arguments contract))),
     (''required_resources'', PList (map PStr (tc_required_resources contract))),
     (''approval_required'', PBool (tc_approval_required contract)), (''retryable'', PBool (tc_retryable contract))]"

definition only_reads :: "ToolContract \<Rightarrow> bool" where
  "only_reads contract \<longleftrightarrow> tc_side_effect_level contract \<in> {''read_only'', ''observe_only''}"

definition side_effecting_tools :: "ToolContract list \<Rightarrow> dict list" where
  "side_effecting_tools manifest = map summarize_mcp_tool (filter (\<lambda>c. tc_approval_required c \<or> \<not> only_reads c) manifest)"

text \<open>The manifest is that of the adapter.\<close>

definition load_mcp_bridge_descriptor :: "ToolContract list \<Rightarrow> string \<Rightarrow> McpBridgeDescriptor result" where
  "load_mcp_bridge_descriptor manifest bridge_mode = (
     let descriptor = (\<lambda>bridge_name server_id server_label transport blocked_tools allowed_operations safety.
           Inr \<lparr>mb_bridge_name = bridge_name, mb_bridge_mode = bridge_mode, mb_server_id = server_id, mb_server_label = server_label,
             mb_transport = transport, mb_read_only_tools = map summarize_mcp_tool (filter only_reads manifest),
             mb_approval_required_tools = map summarize_mcp_tool (filter tc_approval_required manifest),
             mb_blocked_tools = blocked_tools, mb_allowed_operations = allowed_operations,
             mb_safety_boundaries = map (\<lambda>(k, b). (k, PBool b)) safety\<rparr>) in
     if bridge_mode = ''read_only_descriptor_only'' then
       descriptor ''neurolink-core-mcp-readonly-bridge'' ''neurolink.core.readonly'' ''NeuroLink Core Read-Only MCP Bridge''
         ''in_process_descriptor_only'' (side_effecting_tools manifest) [''describe_server'', ''list_read_only_tools'']
         [(''descriptor_only'', True), (''tool_execution_via_mcp_forbidden'', True), (''side_effecting_tools_excluded'', True),
          (''approval_and_core_policy_required'', True), (''approval_required_tool_proposals_allowed'', False),
          (''external_mcp_connection_enabled'', False)]
     else if bridge_mode = ''core_governed_read_only_execution'' then
       descriptor ''neurolink-core-mcp-governed-readonly-bridge'' ''neurolink.core.readonly.execute''
         ''NeuroLink Core Governed Read-Only MCP Bridge'' ''in_process_core_governed'' (side_effecting_tools manifest)
         [''describe_server'', ''list_read_only_tools'', ''execute_read_only_tool_via_core'']
         [(''descriptor_only'', False), (''tool_execution_via_mcp_forbidden'', False),
          (''read_only_tool_execution_via_core_required'', True), (''side_effecting_tools_excluded'', True),
          (''approval_and_core_policy_required'', True), (''approval_required_tool_proposals_allowed'', False),
          (''external_mcp_connection_enabled'', False)]
     else if bridge_mode = ''core_governed_approval_required_proposal'' then
       descriptor ''neurolink-core-mcp-governed-proposal-bridge'' ''neurolink.core.approval.proposal''
         ''NeuroLink Core Governed Approval Proposal MCP Bridge'' ''in_process_core_governed'' []
         [''describe_server'', ''list_read_only_tools'', ''execute_read_only_tool_via_core'', ''list_approval_required_tools'',
          ''submit_approval_required_tool_proposal'']
         [(''descriptor_only'', False), (''tool_execution_via_mcp_forbidden'', False),
          (''read_only_tool_execution_via_core_required'', True), (''approval_required_tool_proposals_allowed'', True),
          (''approval_required_tools_execute_only_after_core_approval'', True),
          (''side_effecting_tools_execute_directly_forbidden'', True), (''approval_and_core_policy_required'', True),
          (''external_mcp_connection_enabled'', False)]
     else Inl (ValueError ''unsupported_mcp_bridge_mode''))"

definition load_mcp_bridge_descriptor_payload :: "ToolContract list \<Rightarrow> string \<Rightarrow> dict result" where
  "load_mcp_bridge_descriptor_payload manifest bridge_mode =
     ebind (load_mcp_bridge_descriptor manifest bridge_mode) (\<lambda>d. Inr (McpBridgeDescriptor_to_dict d))"

text \<open>The contract is what the adapter says of the tool; the fake adapter finds it in its manifest.\<close>

definition load_mcp_tool_governance_descriptor_payload :: "ToolContract list \<Rightarrow> ToolContract option \<Rightarrow> string \<Rightarrow> dict result" where
  "load_mcp_tool_governance_descriptor_payload manifest described tool_name = (case described of
     None \<Rightarrow> Inr [(''ok'', PBool False), (''status'', PStr ''tool_not_found''), (''reason'', PStr ''mcp_tool_missing_from_manifest''),
       (''schema_version'', PStr MCP_TOOL_GOVERNANCE_DESCRIPTOR_SCHEMA_VERSION), (''tool_name'', PStr tool_name)]
   | Some contract \<Rightarrow> ebind (evaluate_contract contract) (\<lambda>policy_decision.
       let governed = (tc_approval_required contract \<or> tc_required_resources contract \<noteq> []);
           (bridge_mode, governance_path) =
             (if pd_allowed policy_decision then (''core_governed_read_only_execution'', ''core_read_only_execute'')
              else if governed then (''core_governed_approval_required_proposal'', ''core_approval_required_proposal'')
              else (''read_only_descriptor_only'', ''descriptor_only'')) in
       ebind (load_mcp_bridge_descriptor manifest bridge_mode) (\<lambda>mcp.
       let operations = mb_allowed_operations mcp in
       Inr [
         (''ok'', PBool True), (''status'', PStr ''ok''), (''schema_version'', PStr MCP_TOOL_GOVERNANCE_DESCRIPTOR_SCHEMA_VERSION),
         (''tool_name'', PStr tool_name), (''governance_path'', PStr governance_path),
         (''contract'', PDict (ToolContract_to_dict contract)),
         (''policy_decision'', PDict (ToolPolicyDecision_to_dict policy_decision)),
         (''mcp_descriptor'', PDict (McpBridgeDescriptor_to_dict mcp)),
         (''execution_requirements'', PDict [
            (''read_only_execution_allowed'',
               PBool (pd_allowed policy_decision \<and> ''execute_read_only_tool_via_core'' \<in> set operations)),
            (''approval_proposal_allowed'', PBool (governed \<and> ''submit_approval_required_tool_proposal'' \<in> set operations)),
            (''operator_approval_required'', PBool (tc_approval_required contract)),
            (''required_resources_present'', PBool (tc_required_resources contract \<noteq> [])),
            (''blocked_from_direct_mcp_execution'', PBool
               (truthy (dget_or (mb_safety_boundaries mcp) ''side_effecting_tools_execute_directly_forbidden'' (PBool False)) \<or> governed))])])))"

section \<open>Coding agent runners\<close>

definition CODING_AGENT_DESCRIPTOR_SCHEMA_VERSION :: string where
  "CODING_AGENT_DESCRIPTOR_SCHEMA_VERSION = ''2.2.4-coding-agent-descriptor-v1''"

record CodingAgentRunnerDescriptor =
  ca_runner_name :: string
  ca_display_name :: string
  ca_invocation_mode :: string
  ca_disabled_by_default :: bool
  ca_approval_required :: bool
  ca_sandbox_required :: bool
  ca_direct_execution_forbidden :: bool
  ca_can_apply_changes :: bool
  ca_release_target_promotion_blocked :: bool
  ca_masked_env_vars :: "string list"
  ca_prohibited_actions :: "string list"
  ca_allowed_operations :: "string list"
  ca_evidence_requirements :: "string list"
  ca_safety_boundaries :: dict

definition CodingAgentRunnerDescriptor_to_dict :: "CodingAgentRunnerDescriptor \<Rightarrow> dict" where
  "CodingAgentRunnerDescriptor_to_dict d = [
     (''ok'', PBool True), (''status'', PStr ''ok''), (''schema_version'', PStr CODING_AGENT_DESCRIPTOR_SCHEMA_VERSION),
     (''runner_name'', PStr (ca_runner_name d)), (''display_name'', PStr (ca_display_name d)),
     (''invocation_mode'', PStr (ca_invocation_mode d)), (''disabled_by_default'', PBool (ca_disabled_by_default d)),
     (''approval_required'', PBool (ca_approval_required d)), (''sandbox_required'', PBool (ca_sandbox_required d)),
     (''direct_execution_forbidden'', PBool (ca_direct_execution_forbidden d)),
     (''can_apply_changes'', PBool (ca_can_apply_changes d)),
     (''release_target_promotion_blocked'', PBool (ca_release_target_promotion_blocked d)),
     (''masked_env_vars'', PList (map PStr (ca_masked_env_vars d))),
     (''prohibited_actions'', PList (map PStr (ca_prohibited_actions d))),
     (''allowed_operations'', PList (map PStr (ca_allowed_operations d))),
     (''evidence_requirements'', PList (map PStr (ca_evidence_requirements d))),
     (''safety_boundaries'', PDict (ca_safety_boundaries d))]"

definition runner_catalog :: "(string \<times> string \<times> string \<times> string list) list" where
  "runner_catalog = [
     (''copilot'', ''GitHub Copilot Coding Runner'', ''cli_json_plan_only'', [''GITHUB_COPILOT_CLI_PATH'', ''GITHUB_COPILOT_MODEL'']),
     (''qwen-code'', ''Qwen Code Runner'', ''external_cli_plan_only'', [''QWEN_CODE_MODEL'']),
     (''opencode'', ''OpenCode Runner'', ''external_cli_plan_only'', [''OPENCODE_MODEL'']),
     (''local-command'', ''Local Command Coding Runner'', ''local_wrapper_plan_only'', [])]"

definition load_coding_agent_runner_descriptor :: "string \<Rightarrow> CodingAgentRunnerDescriptor result" where
  "load_coding_agent_runner_descriptor runner_name = (
     let lowered = str_lower (str_strip runner_name); normalized_runner = (if lowered = [] then ''copilot'' else lowered) in
     case map_of runner_catalog normalized_runner of
       None \<Rightarrow> Inl (ValueError ''unsupported_coding_agent_runner'')
     | Some (display_name, invocation_mode, masked_env_vars) \<Rightarrow> Inr
         \<lparr>ca_runner_name = normalized_runner, ca_display_name = display_name, ca_invocation_mode = invocation_mode,
          ca_disabled_by_default = True, ca_approval_required = True, ca_sandbox_required = True,
          ca_direct_execution_forbidden = True, ca_can_apply_changes = False, ca_release_target_promotion_blocked = True,
          ca_masked_env_vars = masked_env_vars,
          ca_prohibited_actions = [''direct_shell_execution'', ''direct_mcp_execution'', ''git_push'', ''firmware_flash'',
            ''credential_mutation'', ''production_deploy''],
          ca_allowed_operations = [''describe_runner'', ''submit_plan_for_self_improvement_review'',
            ''sandbox_only_execution_after_operator_approval''],
          ca_evidence_requirements = [''approval_record'', ''sandbox_execution_record'', ''verified_test_evidence'',
            ''audit_callback_record''],
          ca_safety_boundaries = map (\<lambda>k. (k, PBool True)) [''disabled_by_default'', ''self_improvement_routing_required'',
            ''operator_approval_required'', ''sandbox_only_execution'', ''direct_shell_execution_forbidden'',
            ''direct_file_mutation_forbidden'', ''direct_mcp_execution_forbidden'', ''release_identity_promotion_forbidden'',
            ''autonomous_commit_push_forbidden'']\<rparr>)"

section \<open>Tools and the workflow catalog\<close>

definition INTERNAL_CORE_ONLY_TOOLS :: "string list" where
  "INTERNAL_CORE_ONLY_TOOLS = [''system_state_sync'', ''system_activation_health_guard'']"

definition TOOL_WORKFLOW_COVERAGE :: "(string \<times> string list) list" where
  "TOOL_WORKFLOW_COVERAGE = [
     (''system_query_device'', [''discover-device'', ''control-health'']), (''system_query_apps'', [''discover-apps'']),
     (''system_query_leases'', [''discover-leases'', ''control-cleanup'']), (''system_capabilities'', [''discover-host'']),
     (''system_start_app'', [''control-app-start'']), (''system_restart_app'', [''control-app-restart'']),
     (''system_stop_app'', [''llext-lifecycle'']), (''system_unload_app'', [''llext-lifecycle'']),
     (''system_rollback_app'', [''control-rollback''])]"

text \<open>\<open>shlex.split\<close> in POSIX mode: where the scanner is, the word so far, and whether the word was quoted.\<close>

datatype shlex_state = Outside | Inside | Quoted char | Escaped "char option"

fun shlex_scan :: "shlex_state \<Rightarrow> string \<Rightarrow> bool \<Rightarrow> string \<Rightarrow> string list result" where
  "shlex_scan Outside w q [] = Inr []"
| "shlex_scan Outside w q (c # s) = (
     if c \<in> set [CHR '' '', CHR 9, CHR 13, newline] then shlex_scan Outside [] False s
     else if c = CHR 0x5C then shlex_scan (Escaped None) [] False s
     else if c = CHR 0x22 \<or> c = CHR 0x27 then shlex_scan (Quoted c) [] True s
     else shlex_scan Inside [c] False s)"
| "shlex_scan Inside w q [] = Inr (if w = [] \<and> \<not> q then [] else [w])"
| "shlex_scan Inside w q (c # s) = (
     if c \<in> set [CHR '' '', CHR 9, CHR 13, newline] then
       ebind (shlex_scan Outside [] False s) (\<lambda>ws. Inr (if w = [] \<and> \<not> q then ws else w # ws))
     else if c = CHR 0x5C then shlex_scan (Escaped None) w q s
     else if c = CHR 0x22 \<or> c = CHR 0x27 then shlex_scan (Quoted c) w True s
     else shlex_scan Inside (w @ [c]) q s)"
| "shlex_scan (Quoted b) w q [] = Inl (ValueError ''No closing quotation'')"
| "shlex_scan (Quoted b) w q (c # s) = (
     if c = b then shlex_scan Inside w True s
     else if c = CHR 0x5C \<and> b = CHR 0x22 then shlex_scan (Escaped (Some b)) w True s
     else shlex_scan (Quoted b) (w @ [c]) True s)"
| "shlex_scan (Escaped b) w q [] = Inl (ValueError ''No escaped character'')"
| "shlex_scan (Escaped None) w q (c # s) = shlex_scan Inside (w @ [c]) q s"
| "shlex_scan (Escaped (Some b)) w q (c # s) =
     shlex_scan (Quoted b) (w @ (if c \<noteq> CHR 0x5C \<and> c \<noteq> b then [CHR 0x5C, c] else [c])) q s"

definition shlex_split :: "string \<Rightarrow> string list result" where
  "shlex_split s = shlex_scan Outside [] False s"

fun drop_output :: "string list \<Rightarrow> string list" where
  "drop_output [] = []"
| "drop_output (x # xs) = (if x = ''--output'' then drop_output (tl xs) else x # drop_output xs)"

definition is_wrapper :: "string \<Rightarrow> bool" where
  "is_wrapper item \<longleftrightarrow> contains_str ''invoke_neuro_cli.py'' item"

definition canonical_contract_command_suffix :: "ToolContract \<Rightarrow> string" where
  "canonical_contract_command_suffix contract = (let argv = tc_argv_template contract in
     str_strip (str_join '' '' (drop_output (if list_ex is_wrapper argv then tl (dropWhile (\<lambda>x. \<not> is_wrapper x) argv) else argv))))"

definition workflow_command_mentions_lease :: "dict \<Rightarrow> bool result" where
  "workflow_command_mentions_lease metadata =
     ebind (list_of (dget metadata ''preconditions'')) (\<lambda>preconditions.
     if list_ex (\<lambda>item. contains_str ''lease'' (str_lower (py_str item))) preconditions then Inr True
     else ebind (list_of (dget metadata ''cleanup'')) (\<lambda>cleanup.
       Inr (list_ex (\<lambda>item. contains_str ''lease'' (str_lower (py_str item))) cleanup)))"

text \<open>\<open>any(canonical_command in " ".join(shlex.split(str(command))) for command in commands)\<close>: stops at the first.\<close>

fun some_command :: "string \<Rightarrow> pyval list \<Rightarrow> bool result" where
  "some_command canonical_command [] = Inr False"
| "some_command canonical_command (command # commands) = ebind (shlex_split (py_str command)) (\<lambda>ws.
     if contains_str canonical_command (str_join '' '' ws) then Inr True else some_command canonical_command commands)"

definition governed_tool :: "ToolContract \<Rightarrow> bool" where
  "governed_tool contract \<longleftrightarrow> tc_approval_required contract \<or> tc_required_resources contract \<noteq> [] \<or> \<not> only_reads contract"

text \<open>One turn of the loop over the workflows of the tool: covered, destructive as it should, leased as it should.\<close>

definition check_workflow :: "ToolContract \<Rightarrow> string \<Rightarrow> dict \<Rightarrow> dict \<Rightarrow> dict \<Rightarrow> string list \<times> bool \<times> bool \<Rightarrow> string
    \<Rightarrow> (string list \<times> bool \<times> bool) result" where
  "check_workflow contract canonical_command plans metadata_defaults metadata acc workflow_name = (
     let (command_coverage, destructive_alignment, lease_governance_alignment) = acc in
     ebind (py_dict (por (dget plans workflow_name) (PDict []))) (\<lambda>workflow_entry.
     ebind (py_dict (por (dget metadata workflow_name) (PDict []))) (\<lambda>own_metadata.
     let workflow_metadata = dupdate metadata_defaults own_metadata;
         destructive = truthy (dget_or workflow_metadata ''destructive'' (PBool False)) in
     ebind (list_of (dget workflow_entry ''commands'')) (\<lambda>commands.
     ebind (if canonical_command = [] then Inr False else some_command canonical_command commands) (\<lambda>covered.
     ebind (if tc_required_resources contract \<noteq> [] \<and> lease_governance_alignment
       then workflow_command_mentions_lease workflow_metadata else Inr lease_governance_alignment) (\<lambda>leased.
     Inr (if covered then command_coverage @ [workflow_name] else command_coverage,
          destructive_alignment \<and> (if governed_tool contract then destructive else \<not> destructive), leased)))))))"

text \<open>
  The catalog is the document \<open>load_workflow_catalog_definition\<close> makes of the catalog module; the path of
  the module is read also for the tools that have no workflow.
\<close>

definition validate_tool_workflow_catalog_consistency :: "dict \<Rightarrow> string \<Rightarrow> ToolContract \<Rightarrow> dict result" where
  "validate_tool_workflow_catalog_consistency catalog catalog_path contract = (
     let coverage_workflows = (case map_of TOOL_WORKFLOW_COVERAGE (tc_tool_name contract) of Some ws \<Rightarrow> ws | None \<Rightarrow> []) in
     if tc_tool_name contract \<in> set INTERNAL_CORE_ONLY_TOOLS then Inr [
       (''catalog_path'', PStr catalog_path), (''internal_core_only'', PBool True), (''coverage_workflows'', PList []),
       (''workflow_entries_present'', PBool True), (''command_coverage_present'', PBool True),
       (''destructive_alignment'', PBool True), (''lease_governance_alignment'', PBool True), (''valid'', PBool True),
       (''failure_status'', PStr [])]
     else
       ebind (sub_dict catalog ''plans'') (\<lambda>plans.
       ebind (sub_dict catalog ''metadata_defaults'') (\<lambda>metadata_defaults.
       ebind (sub_dict catalog ''metadata'') (\<lambda>metadata.
       let canonical_command = canonical_contract_command_suffix contract;
           entries_present = (coverage_workflows \<noteq> [] \<and> list_all (\<lambda>name. dhas plans name \<and> dhas metadata name) coverage_workflows) in
       ebind (if entries_present
           then efold (check_workflow contract canonical_command plans metadata_defaults metadata) ([], True, True) coverage_workflows
           else Inr ([], True, True)) (\<lambda>(command_coverage, destructive_alignment, lease_governance_alignment).
       let covered = (command_coverage \<noteq> [] \<or> canonical_command = []) in
       Inr [
         (''catalog_path'', PStr (str_or (dget catalog ''catalog_path'') [])), (''internal_core_only'', PBool False),
         (''coverage_workflows'', PList (map PStr coverage_workflows)), (''workflow_entries_present'', PBool entries_present),
         (''command_coverage_present'', PBool covered), (''command_coverage_workflows'', PList (map PStr command_coverage)),
         (''canonical_command'', PStr canonical_command), (''destructive_alignment'', PBool destructive_alignment),
         (''lease_governance_alignment'', PBool lease_governance_alignment),
         (''valid'', PBool (entries_present \<and> covered \<and> destructive_alignment \<and> lease_governance_alignment)),
         (''failure_status'', PStr (if \<not> entries_present then ''workflow_catalog_missing''
            else if canonical_command \<noteq> [] \<and> command_coverage = [] then ''workflow_catalog_command_gap''
            else if \<not> destructive_alignment \<or> \<not> lease_governance_alignment then ''workflow_catalog_contract_mismatch''
            else []))])))))"


section \<open>Lemmas\<close>

lemma bridge:
  "\<exists>d. load_mcp_bridge_descriptor manifest ''read_only_descriptor_only'' = Inr d
     \<and> \<not> truthy (dget_or (mb_safety_boundaries d) ''side_effecting_tools_execute_directly_forbidden'' (PBool False))"
  "\<exists>d. load_mcp_bridge_descriptor manifest ''core_governed_read_only_execution'' = Inr d
     \<and> mb_allowed_operations d = [''describe_server'', ''list_read_only_tools'', ''execute_read_only_tool_via_core'']
     \<and> \<not> truthy (dget_or (mb_safety_boundaries d) ''side_effecting_tools_execute_directly_forbidden'' (PBool False))"
  "\<exists>d. load_mcp_bridge_descriptor manifest ''core_governed_approval_required_proposal'' = Inr d
     \<and> ''submit_approval_required_tool_proposal'' \<in> set (mb_allowed_operations d)"
  by (simp_all add: load_mcp_bridge_descriptor_def Let_def)

text \<open>C23: Every contract is read-only executable, approvable, or neither; what the policy allows is never also a proposal.\<close>

theorem mcp_governance_exact:
  "case load_mcp_tool_governance_descriptor_payload manifest (Some contract) tool_name of
     Inl e \<Rightarrow> evaluate_contract contract = Inl e
   | Inr d \<Rightarrow> \<exists>decision req. evaluate_contract contract = Inr decision \<and> dget d ''execution_requirements'' = PDict req
       \<and> dget req ''read_only_execution_allowed'' = PBool (pd_allowed decision)
       \<and> dget req ''approval_proposal_allowed'' = PBool (\<not> pd_allowed decision \<and> (tc_approval_required contract \<or> 0 < length (tc_required_resources contract)))
       \<and> dget req ''read_only_execution_allowed'' = PBool (pd_allowed decision \<and> \<not> tc_approval_required contract)
       \<and> dget req ''blocked_from_direct_mcp_execution'' = PBool (tc_approval_required contract \<or> 0 < length (tc_required_resources contract))"
proof (cases "evaluate_contract contract")
  case (Inl e)
  then show ?thesis by (simp add: load_mcp_tool_governance_descriptor_payload_def)
next
  case (Inr decision)
  then have allowed: "pd_allowed decision \<Longrightarrow> \<not> tc_approval_required contract"
    by (auto simp: evaluate_contract_def Let_def split: if_splits)
  show ?thesis
  proof (cases "pd_allowed decision")
    case True
    from bridge(2) obtain d where "load_mcp_bridge_descriptor manifest ''core_governed_read_only_execution'' = Inr d"
      "mb_allowed_operations d = [''describe_server'', ''list_read_only_tools'', ''execute_read_only_tool_via_core'']"
      "\<not> truthy (dget_or (mb_safety_boundaries d) ''side_effecting_tools_execute_directly_forbidden'' (PBool False))" by blast
    with Inr True allowed show ?thesis by (simp add: load_mcp_tool_governance_descriptor_payload_def Let_def)
  next
    case no: False
    show ?thesis
    proof (cases "tc_approval_required contract \<or> tc_required_resources contract \<noteq> []")
      case True
      from bridge(3) obtain d where "load_mcp_bridge_descriptor manifest ''core_governed_approval_required_proposal'' = Inr d"
        "''submit_approval_required_tool_proposal'' \<in> set (mb_allowed_operations d)" by blast
      with Inr no True show ?thesis by (auto simp: load_mcp_tool_governance_descriptor_payload_def Let_def)
    next
      case False
      from bridge(1) obtain d where "load_mcp_bridge_descriptor manifest ''read_only_descriptor_only'' = Inr d"
        "\<not> truthy (dget_or (mb_safety_boundaries d) ''side_effecting_tools_execute_directly_forbidden'' (PBool False))" by blast
      with Inr no False show ?thesis by (auto simp: load_mcp_tool_governance_descriptor_payload_def Let_def)
    qed
  qed
qed

text \<open>What the check of a workflow entry reads.\<close>

definition entry_in :: "dict \<Rightarrow> string \<Rightarrow> dict" where
  "entry_in table name = (case py_dict (por (dget table name) (PDict [])) of Inr d \<Rightarrow> d | Inl _ \<Rightarrow> [])"

definition destructive_workflow :: "dict \<Rightarrow> dict \<Rightarrow> string \<Rightarrow> bool" where
  "destructive_workflow defaults metadata name \<longleftrightarrow> truthy (dget_or (dupdate defaults (entry_in metadata name)) ''destructive'' (PBool False))"

definition covers :: "string \<Rightarrow> dict \<Rightarrow> string \<Rightarrow> bool" where
  "covers command plans name \<longleftrightarrow> command \<noteq> [] \<and> ebind (list_of (dget (entry_in plans name) ''commands'')) (some_command command) = Inr True"

definition leases_named :: "dict \<Rightarrow> dict \<Rightarrow> string \<Rightarrow> bool" where
  "leases_named defaults metadata name \<longleftrightarrow> workflow_command_mentions_lease (dupdate defaults (entry_in metadata name)) = Inr True"

lemma check_workflow_exact:
  assumes "check_workflow c command plans defaults metadata (cov, d, l) w = Inr (cov', d', l')"
  shows "cov' = (if covers command plans w then cov @ [w] else cov)"
    and "d' = (d \<and> (destructive_workflow defaults metadata w = governed_tool c))"
    and "l' = (l \<and> (tc_required_resources c \<noteq> [] \<longrightarrow> leases_named defaults metadata w))"
  using assms unfolding check_workflow_def covers_def destructive_workflow_def leases_named_def entry_in_def
  by (auto simp: Let_def split: if_splits)

lemma check_workflows_exact:
  assumes "efold (check_workflow c command plans defaults metadata) (cov, d, l) ws = Inr (cov', d', l')"
  shows "cov' = cov @ filter (covers command plans) ws \<and> d' = (d \<and> (\<forall>w \<in> set ws. destructive_workflow defaults metadata w = governed_tool c))
    \<and> l' = (l \<and> (tc_required_resources c \<noteq> [] \<longrightarrow> (\<forall>w \<in> set ws. leases_named defaults metadata w)))"
  using assms
proof (induction ws arbitrary: cov d l)
  case (Cons w ws)
  then obtain cov1 d1 l1 where one: "check_workflow c command plans defaults metadata (cov, d, l) w = Inr (cov1, d1, l1)"
    and rest: "efold (check_workflow c command plans defaults metadata) (cov1, d1, l1) ws = Inr (cov', d', l')" by auto
  show ?case
    using Cons.IH[OF rest] by (auto simp only: check_workflow_exact[OF one] filter.simps append.simps append_assoc set_simps ball_simps split: if_split)
qed simp

text \<open>
  A tool is consistent with the catalog exactly when it is internal to the core, or all its workflows are
  in the catalog, one of them runs its command, they are destructive exactly when the tool is governed
  (needs approval, a lease, or does more than read), and each names a lease where the tool needs one.
\<close>

theorem catalog_valid_exact:
  assumes "validate_tool_workflow_catalog_consistency catalog path c = Inr d"
    and "sub_dict catalog ''plans'' = Inr plans" "sub_dict catalog ''metadata_defaults'' = Inr defaults"
      "sub_dict catalog ''metadata'' = Inr metadata"
  defines "ws \<equiv> case map_of TOOL_WORKFLOW_COVERAGE (tc_tool_name c) of Some ws \<Rightarrow> ws | None \<Rightarrow> []"
    and "command \<equiv> canonical_contract_command_suffix c"
  shows "dget d ''valid'' = PBool (tc_tool_name c \<in> set INTERNAL_CORE_ONLY_TOOLS
    \<or> ws \<noteq> [] \<and> (\<forall>w \<in> set ws. dhas plans w \<and> dhas metadata w \<and> destructive_workflow defaults metadata w = governed_tool c
          \<and> (tc_required_resources c \<noteq> [] \<longrightarrow> leases_named defaults metadata w))
      \<and> (command = [] \<or> (\<exists>w \<in> set ws. covers command plans w)))
    \<and> (dget d ''failure_status'' = PStr [] \<longleftrightarrow> dget d ''valid'' = PBool True)"
proof (cases "tc_tool_name c \<in> set INTERNAL_CORE_ONLY_TOOLS")
  case True
  with assms(1) show ?thesis by (auto simp: validate_tool_workflow_catalog_consistency_def)
next
  case False
  let ?entries = "ws \<noteq> [] \<and> list_all (\<lambda>name. dhas plans name \<and> dhas metadata name) ws"
  obtain cov da la where loop: "(if ?entries then efold (check_workflow c command plans defaults metadata) ([], True, True) ws
        else Inr ([], True, True)) = Inr (cov, da, la)"
    and valid: "dget d ''valid'' = PBool (?entries \<and> (cov \<noteq> [] \<or> command = []) \<and> da \<and> la)"
    and failure: "dget d ''failure_status'' = PStr (if \<not> ?entries then ''workflow_catalog_missing''
            else if command \<noteq> [] \<and> cov = [] then ''workflow_catalog_command_gap''
            else if \<not> da \<or> \<not> la then ''workflow_catalog_contract_mismatch'' else [])"
    using assms(1) False unfolding validate_tool_workflow_catalog_consistency_def assms(2-4) ws_def[symmetric] command_def[symmetric]
    by (auto simp: Let_def)
  show ?thesis
  proof (cases ?entries)
    case True
    with loop check_workflows_exact[of c command plans defaults metadata "[]" True True ws cov da la]
    have "cov = filter (covers command plans) ws" "da = (\<forall>w \<in> set ws. destructive_workflow defaults metadata w = governed_tool c)"
      "la = (tc_required_resources c \<noteq> [] \<longrightarrow> (\<forall>w \<in> set ws. leases_named defaults metadata w))" by simp_all
    with True False valid failure show ?thesis by (auto simp: list_all_iff filter_empty_conv)
  next
    case no: False
    with False valid failure show ?thesis by (auto simp: list_all_iff)
  qed
qed

text \<open>The catalog of one workflow that starts an app, and the fake adapter's contract of it.\<close>

definition sample_catalog :: dict where
  "sample_catalog = [(''catalog_path'', PStr ''catalog.py''),
     (''plans'', PDict [(''control-app-start'', PDict [(''commands'', PList [PStr ''python invoke_neuro_cli.py app start --app-id demo'' ])])]),
     (''metadata_defaults'', PDict [(''destructive'', PBool False)]),
     (''metadata'', PDict [(''control-app-start'', PDict [(''destructive'', PBool True), (''cleanup'', PList [PStr ''release the lease''])])])]"

theorem catalog_valid_exact_witness:
  "\<exists>d. validate_tool_workflow_catalog_consistency sample_catalog [] (contract_system_start_app\<lparr>tc_argv_template := []\<rparr>) = Inr d
     \<and> dget d ''valid'' = PBool True"
proof -
  let ?c = "contract_system_start_app\<lparr>tc_argv_template := []\<rparr>"
  have "case validate_tool_workflow_catalog_consistency sample_catalog [] ?c of Inr d \<Rightarrow> dget d ''failure_status'' = PStr [] | Inl _ \<Rightarrow> False"
    by code_simp
  then obtain d where d: "validate_tool_workflow_catalog_consistency sample_catalog [] ?c = Inr d" "dget d ''failure_status'' = PStr []"
    by (auto split: sum.splits)
  note exact = catalog_valid_exact[OF d(1), of "[(''control-app-start'', PDict [(''commands'', PList [PStr ''python invoke_neuro_cli.py app start --app-id demo''])])]"
      "[(''destructive'', PBool False)]"
      "[(''control-app-start'', PDict [(''destructive'', PBool True), (''cleanup'', PList [PStr ''release the lease''])])]"]
  have "sub_dict sample_catalog ''plans'' = Inr [(''control-app-start'', PDict [(''commands'', PList [PStr ''python invoke_neuro_cli.py app start --app-id demo''])])]"
    "sub_dict sample_catalog ''metadata_defaults'' = Inr [(''destructive'', PBool False)]"
    "sub_dict sample_catalog ''metadata'' = Inr [(''control-app-start'', PDict [(''destructive'', PBool True), (''cleanup'', PList [PStr ''release the lease''])])]"
    by (simp_all add: sample_catalog_def sub_dict_def)
  from exact[OF this, THEN conjunct2] d show ?thesis by blast
qed

end
