(* ===== verification/Provider.thy ===== *)
theory Provider
  imports Inference Agents Json Deploy
begin

text \<open>
  The rest of \<open>neurolink_core/maf.py\<close> and \<open>neurolink_core/rational_backends.py\<close>: the agents that ask a
  model. The frameworks behind them are parameters that may raise and have a state of their own; what they
  answer is a text, and this code reads it, checks it, and turns it into a decision or a plan.
\<close>

section \<open>What a model answered\<close>

text \<open>
  The answer of a framework: its \<open>text\<close> (called, when it is a method), its \<open>value\<close>, an object with
  \<open>to_dict\<close> or a plain one, what its own \<open>to_dict\<close> gives, and its \<open>str\<close>.
\<close>

datatype response_value = NoValue | HasDict pyval | Plain pyval

record agent_response =
  ar_text :: pyval
  ar_value :: response_value
  ar_dict :: "pyval option"
  ar_str :: string

text \<open>\<open>json.dumps(v)\<close>, the keys in their own order.\<close>

fun json_plain :: "pyval \<Rightarrow> string" where
  "json_plain (PList xs) = ''['' @ str_join '', '' (map json_plain xs) @ '']''"
| "json_plain (PTuple xs) = ''['' @ str_join '', '' (map json_plain xs) @ '']''"
| "json_plain (PDict d) = ''{'' @ str_join '', '' (map (\<lambda>kv. json_str (fst kv) @ '': '' @ json_plain (snd kv)) d) @ ''}''"
| "json_plain v = json_text '', '' '': '' v"

text \<open>The two modules differ only in the text of an answer that has none of the three.\<close>

definition response_text_or :: "string \<Rightarrow> agent_response \<Rightarrow> string" where
  "response_text_or fallback r = (if truthy (ar_text r) then py_str (ar_text r)
     else case ar_value r of
       HasDict d \<Rightarrow> json_plain d
     | Plain (PDict d) \<Rightarrow> json_plain (PDict d)
     | Plain (PList xs) \<Rightarrow> json_plain (PList xs)
     | Plain v \<Rightarrow> py_str v
     | NoValue \<Rightarrow> (case ar_dict r of Some d \<Rightarrow> json_plain d | None \<Rightarrow> fallback))"

definition extract_agent_response_text :: "agent_response \<Rightarrow> string" where
  "extract_agent_response_text r = response_text_or [] r"

definition copilot_response_text :: "agent_response \<Rightarrow> string" where
  "copilot_response_text r = response_text_or (ar_str r) r"

text \<open>The first candidate that is a JSON object, or, where that is allowed, null.\<close>

fun first_object :: "bool \<Rightarrow> py_error \<Rightarrow> string list \<Rightarrow> pyval result" where
  "first_object allow_none none_found [] = Inl none_found"
| "first_object allow_none none_found (candidate # cs) = (case json_loads candidate of
     Inl (ValueError _) \<Rightarrow> first_object allow_none none_found cs
   | Inl e \<Rightarrow> Inl e
   | Inr PNone \<Rightarrow> if allow_none then Inr PNone else first_object allow_none none_found cs
   | Inr (PDict d) \<Rightarrow> Inr (PDict d)
   | Inr _ \<Rightarrow> first_object allow_none none_found cs)"

definition response_candidates :: "bool \<Rightarrow> string \<Rightarrow> string list" where
  "response_candidates allow_none normalized_text =
     normalized_text # brace_slice normalized_text @ (if allow_none then [''null''] else [])"

definition extract_json_object :: "string \<Rightarrow> bool \<Rightarrow> string \<Rightarrow> pyval result" where
  "extract_json_object who allow_none text_value = (let normalized_text = str_strip text_value in
     if normalized_text = [] then Inl (ValueError (who @ ''_response_missing_text''))
     else first_object allow_none (ValueError (who @ ''_response_not_valid_json_object''))
       (response_candidates allow_none normalized_text))"

section \<open>Decisions and plans\<close>

text \<open>A Python bool is an int, so the source takes it for a salience; the model does not.\<close>

definition coerce_affective_decision :: "pyval \<Rightarrow> AffectiveDecision result" where
  "coerce_affective_decision answer = ebind (as_dict answer) (\<lambda>payload.
     case dget payload ''delegated'' of
       PBool delegated \<Rightarrow> (case dget payload ''reason'' of
         PStr reason \<Rightarrow> if reason = [] then Inl (ValueError ''provider_affective_decision_reason_must_be_string'')
           else (case dget payload ''salience'' of
             PInt salience \<Rightarrow> if salience < 0 \<or> 100 < salience then Inl (ValueError ''provider_affective_decision_salience_out_of_range'')
               else Inr \<lparr>af_delegated = delegated, af_reason = reason, af_salience = salience\<rparr>
           | PBool _ \<Rightarrow> Inl (OutOfModel ''bool salience'')
           | _ \<Rightarrow> Inl (ValueError ''provider_affective_decision_salience_out_of_range''))
       | _ \<Rightarrow> Inl (ValueError ''provider_affective_decision_reason_must_be_string''))
     | _ \<Rightarrow> Inl (ValueError ''provider_affective_decision_delegated_must_be_bool''))"

definition offered_names :: "dict list \<Rightarrow> string list" where
  "offered_names tools = map (\<lambda>t. str_or (por (dget t ''name'') (dget t ''tool_name'')) []) tools"

definition validate_rational_plan_payload :: "pyval \<Rightarrow> dict list option \<Rightarrow> RationalPlan option result" where
  "validate_rational_plan_payload answer available_tools = (if answer = PNone then Inr None
     else ebind (as_dict answer) (\<lambda>payload.
     case dget payload ''tool_name'' of
       PStr tool_name \<Rightarrow> if tool_name = [] then Inl (ValueError ''rational_plan_tool_name_must_be_string'')
         else (case dget payload ''args'' of
           PDict args \<Rightarrow> (case dget payload ''reason'' of
             PStr reason \<Rightarrow> if reason = [] then Inl (ValueError ''rational_plan_reason_must_be_string'')
               else if (case available_tools of Some tools \<Rightarrow> tool_name \<notin> set (offered_names tools) | None \<Rightarrow> False)
               then Inl (ValueError ''rational_plan_tool_not_in_available_tools'')
               else Inr (Some \<lparr>rp_tool_name = tool_name, rp_args = args, rp_reason = reason\<rparr>)
           | _ \<Rightarrow> Inl (ValueError ''rational_plan_reason_must_be_string''))
         | _ \<Rightarrow> Inl (ValueError ''rational_plan_args_must_be_object''))
     | _ \<Rightarrow> Inl (ValueError ''rational_plan_tool_name_must_be_string'')))"

section \<open>Provider clients\<close>

text \<open>
  A provider client answers with a payload. Its kind is its \<open>provider_client_kind\<close>, \<open>custom\<close> when it has none.
  \<open>decide\<close> is called with or without an affective context.
\<close>

record 'b provider_client =
  pc_kind :: string
  pc_placeholder :: bool
  pc_decide :: "perception_frame \<Rightarrow> pyval list \<Rightarrow> MafRuntimeProfile \<Rightarrow> dict option \<Rightarrow> ('b \<times> env, pyval) prog"
  pc_plan :: "AffectiveDecision \<Rightarrow> perception_frame \<Rightarrow> MafRuntimeProfile \<Rightarrow> dict list \<Rightarrow> dict \<Rightarrow> ('b \<times> env, pyval) prog"

definition placeholder_client :: "'b provider_client" where
  "placeholder_client = \<lparr>pc_kind = ''placeholder'', pc_placeholder = True,
     pc_decide = (\<lambda>_ _ _ _. pfail (ExternalError ''NotImplementedError: real_provider_affective_agent_not_implemented'')),
     pc_plan = (\<lambda>_ _ _ _ _. pfail (ExternalError ''NotImplementedError: real_provider_rational_agent_not_implemented''))\<rparr>"

definition provider_not_ready :: "string \<Rightarrow> py_error" where
  "provider_not_ready reason = ExternalError (''MafProviderNotReadyError: real_microsoft_agent_framework_provider_unavailable:'' @ reason)"

definition profile_not_ready :: "MafRuntimeProfile \<Rightarrow> py_error" where
  "profile_not_ready profile = provider_not_ready (if mp_skip_reason profile = [] then ''provider_not_ready'' else mp_skip_reason profile)"

definition MAF_PROVIDER_API_VERSION_ENV_VARS :: "string list" where
  "MAF_PROVIDER_API_VERSION_ENV_VARS = [''AZURE_OPENAI_API_VERSION'', ''OPENAI_API_VERSION'']"

definition MAF_REAL_PROVIDER_ALLOWED_TOOLS :: "string list" where
  "MAF_REAL_PROVIDER_ALLOWED_TOOLS = [''system_query_device'', ''system_query_apps'', ''system_query_leases'', ''system_state_sync'',
     ''system_capabilities'']"

text \<open>The Agent Framework: whether it can be imported, its chat client, and one run of an agent over a prompt.\<close>

record ('b, 'c) framework =
  fw_imports :: bool
  fw_new_client :: "dict \<Rightarrow> ('b \<times> env, 'c) prog"
  fw_run :: "'c \<Rightarrow> string \<Rightarrow> string \<Rightarrow> string \<Rightarrow> ('b \<times> env, agent_response) prog"

definition client_arguments :: "MafRuntimeProfile \<Rightarrow> osenv \<Rightarrow> dict result" where
  "client_arguments profile env = (
     let config = mp_provider_config profile;
         configured_model = text_or (mc_configured_deployment config) (text_or (mc_configured_model config) []);
         (_, credential) = first_present_env_var env MAF_PROVIDER_ENV_VARS;
         (endpoint_name, endpoint) = first_present_env_var env MAF_PROVIDER_ENDPOINT_ENV_VARS;
         (_, api_version) = first_present_env_var env MAF_PROVIDER_API_VERSION_ENV_VARS in
     if \<not> mp_provider_ready_for_model_call profile then Inl (profile_not_ready profile)
     else if configured_model = [] then Inl (provider_not_ready ''model_identifier_not_configured'')
     else case credential of
       None \<Rightarrow> Inl (provider_not_ready ''model_credentials_not_configured'')
     | Some key \<Rightarrow> Inr ([(''model'', PStr configured_model), (''api_key'', PStr key)]
         @ (case (endpoint_name, endpoint) of
              (Some name, Some url) \<Rightarrow> if name = ''AZURE_OPENAI_ENDPOINT'' then [(''azure_endpoint'', PStr url)]
                else if name = ''OPENAI_BASE_URL'' then [(''base_url'', PStr url)] else []
            | _ \<Rightarrow> [])
         @ (case api_version of Some v \<Rightarrow> [(''api_version'', PStr v)] | None \<Rightarrow> [])))"

definition affective_instructions :: string where
  "affective_instructions = ''You are the NeuroLink Core affective agent. Use only the prompt-safe affective context summary, multimodal summary, profile route summary, and presentation policy provided by Core. Decide whether the current perception frame should delegate to the rational agent. Do not execute tools, mutate state, or invent extra capabilities. Return JSON only with keys delegated (bool), reason (string), salience (int 0-100).''"

definition rational_instructions :: string where
  "rational_instructions = ''You are the NeuroLink Core rational agent. Pick at most one available tool from the provided live tool manifest. Do not invent tools, arguments, or capabilities that are not present in that manifest. Use session context and recent execution history to avoid redundant work when possible. Return JSON only with keys tool_name (string), args (object), reason (string). Return null only if no tool should be executed.''"

definition run_json_agent :: "('b, 'c) framework \<Rightarrow> 'c \<Rightarrow> string \<Rightarrow> string \<Rightarrow> dict \<Rightarrow> bool \<Rightarrow> ('b \<times> env, pyval) prog" where
  "run_json_agent fw chat_client agent_name instructions prompt_payload allow_none =
     pbind (fw_run fw chat_client agent_name instructions (json_text '', '' '': '' (PDict prompt_payload))) (\<lambda>response.
     plift (extract_json_object ''provider'' allow_none (extract_agent_response_text response)))"

definition framework_client :: "('b, 'c) framework \<Rightarrow> 'c \<Rightarrow> 'b provider_client" where
  "framework_client fw chat_client = \<lparr>pc_kind = ''agent_framework_openai'', pc_placeholder = False,
     pc_decide = (\<lambda>frame memory_items profile affective_context.
       run_json_agent fw chat_client ''neurolink-core-affective'' affective_instructions [
         (''frame'', PDict (PerceptionFrame_to_dict frame)), (''memory_items'', PList memory_items),
         (''maf_runtime'', PDict (MafRuntimeProfile_to_dict profile)),
         (''affective_context'', PDict (case affective_context of Some c \<Rightarrow> c | None \<Rightarrow> []))] False),
     pc_plan = (\<lambda>decision frame profile available_tools session_context.
       run_json_agent fw chat_client ''neurolink-core-rational'' rational_instructions [
         (''decision'', PDict (AffectiveDecision_to_dict decision)), (''frame'', PDict (PerceptionFrame_to_dict frame)),
         (''maf_runtime'', PDict (MafRuntimeProfile_to_dict profile)), (''available_tools'', PList (map PDict available_tools)),
         (''session_context'', PDict session_context), (''allowed_tools'', texts MAF_REAL_PROVIDER_ALLOWED_TOOLS)] True)\<rparr>"

text \<open>\<open>AgentFrameworkMafProviderClient.__init__\<close>, which \<open>build_default_maf_provider_client\<close> calls.\<close>

definition new_framework_client :: "('b, 'c) framework \<Rightarrow> MafRuntimeProfile \<Rightarrow> osenv \<Rightarrow> ('b \<times> env, 'b provider_client) prog" where
  "new_framework_client fw profile env =
     pbind (plift (client_arguments profile env)) (\<lambda>client_kwargs.
     if \<not> fw_imports fw then pfail (provider_not_ready ''agent_framework_import_failed'')
     else pbind (fw_new_client fw client_kwargs) (\<lambda>chat_client. pret (framework_client fw chat_client)))"

section \<open>Rational backends\<close>

record 'b rational_backend =
  rb_metadata :: dict
  rb_plan :: "AffectiveDecision \<Rightarrow> perception_frame \<Rightarrow> dict list option \<Rightarrow> dict option \<Rightarrow> ('b \<times> env, RationalPlan option) prog"

definition deterministic_backend :: "'b rational_backend" where
  "deterministic_backend = \<lparr>rb_metadata = [
       (''backend_kind'', PStr ''deterministic_fake''), (''backend_runtime'', PStr ''local_deterministic''),
       (''requires_external_sdk'', PBool False), (''can_execute_tools_directly'', PBool False)],
     rb_plan = (\<lambda>decision frame _ session_context. pret (rational_plan decision frame session_context))\<rparr>"

definition or_empty :: "'x list option \<Rightarrow> 'x list" where
  "or_empty v = (case v of Some xs \<Rightarrow> xs | None \<Rightarrow> [])"

definition provider_backend :: "'b provider_client \<Rightarrow> MafRuntimeProfile \<Rightarrow> 'b rational_backend" where
  "provider_backend client profile = \<lparr>rb_metadata = [
       (''backend_kind'', PStr ''maf_provider_client''), (''backend_runtime'', PStr ''provider_plan''),
       (''provider_client_kind'', PStr (pc_kind client)), (''requires_external_sdk'', PBool True),
       (''can_execute_tools_directly'', PBool False)],
     rb_plan = (\<lambda>decision frame available_tools session_context.
       pbind (pc_plan client decision frame profile (or_empty available_tools) (or_empty session_context)) (\<lambda>payload.
       plift (validate_rational_plan_payload payload (Some (or_empty available_tools)))))\<rparr>"

text \<open>
  GitHub Copilot: whether its package is there, and one run of an agent built with the options, by the
  factory that was given or by the package.
\<close>

record 'b copilot =
  co_allow_model_call :: bool
  co_package_available :: bool
  co_env :: osenv
  co_factory_given :: bool
  co_run :: "dict \<Rightarrow> string \<Rightarrow> ('b \<times> env, agent_response) prog"

definition copilot_instructions :: string where
  "copilot_instructions = ''You are the NeuroLink Core Rational Agent running through GitHub Copilot. Return JSON only. Pick at most one tool from the provided available_tools list. Do not call shell commands, access files, fetch URLs, use MCP servers, or execute Unit tools. You may only propose a RationalPlan for the NeuroLink Core policy layer to evaluate. Return null if no tool should be executed.''"

definition copilot_default_options :: "osenv \<Rightarrow> dict result" where
  "copilot_default_options env =
     ebind (case env_value env ''GITHUB_COPILOT_TIMEOUT'' of
       None \<Rightarrow> Inr []
     | Some timeout \<Rightarrow> (case py_int (PStr timeout) of
         Inr n \<Rightarrow> Inr [(''timeout'', PInt n)]
       | Inl (ValueError _) \<Rightarrow> Inr [(''timeout'', PStr timeout)]
       | Inl e \<Rightarrow> Inl e)) (\<lambda>timeout_option.
     Inr ([(''instructions'', PStr copilot_instructions)]
       @ (case env_value env ''GITHUB_COPILOT_MODEL'' of Some m \<Rightarrow> [(''model'', PStr m)] | None \<Rightarrow> []) @ timeout_option))"

definition run_copilot_agent :: "'b copilot \<Rightarrow> string \<Rightarrow> ('b \<times> env, string) prog" where
  "run_copilot_agent co prompt =
     pbind (plift (copilot_default_options (co_env co))) (\<lambda>default_options.
     if \<not> co_factory_given co \<and> \<not> co_package_available co
     then pfail (ExternalError ''RuntimeError: github_copilot_agent_framework_package_not_installed'')
     else pbind (co_run co default_options prompt) (\<lambda>response. pret (copilot_response_text response)))"

definition copilot_prompt :: "AffectiveDecision \<Rightarrow> perception_frame \<Rightarrow> dict list option \<Rightarrow> dict option \<Rightarrow> dict" where
  "copilot_prompt decision frame available_tools session_context = [
     (''decision'', PDict (AffectiveDecision_to_dict decision)), (''frame'', PDict (PerceptionFrame_to_dict frame)),
     (''available_tools'', PList (map PDict (or_empty available_tools))), (''session_context'', PDict (or_empty session_context)),
     (''response_contract'', PDict [(''return_json_only'', PBool True), (''nullable'', PBool True),
        (''schema'', PDict [(''tool_name'', PStr ''string from available_tools only''), (''args'', PStr ''object''),
           (''reason'', PStr ''non-empty string'')])]),
     (''safety_boundaries'', PDict [(''plan_only'', PBool True), (''can_execute_tools_directly'', PBool False),
        (''core_policy_and_approval_gates_authoritative'', PBool True)])]"

definition named_if_set :: "osenv \<Rightarrow> string \<Rightarrow> pyval" where
  "named_if_set env name = (if env_present env name then PStr name else PNone)"

definition copilot_backend :: "'b copilot \<Rightarrow> 'b rational_backend" where
  "copilot_backend co = \<lparr>rb_metadata = [
       (''backend_kind'', PStr ''github_copilot_sdk''), (''backend_runtime'', PStr ''agent_framework_github_copilot''),
       (''package_name'', PStr ''agent-framework-github-copilot''), (''package_available'', PBool (co_package_available co)),
       (''requires_external_sdk'', PBool True), (''requires_copilot_cli_auth'', PBool True),
       (''model_env_var'', named_if_set (co_env co) ''GITHUB_COPILOT_MODEL''),
       (''cli_path_env_var'', named_if_set (co_env co) ''GITHUB_COPILOT_CLI_PATH''),
       (''timeout_env_var'', named_if_set (co_env co) ''GITHUB_COPILOT_TIMEOUT''),
       (''log_level_env_var'', named_if_set (co_env co) ''GITHUB_COPILOT_LOG_LEVEL''),
       (''model_call_allowed'', PBool (co_allow_model_call co)), (''can_execute_tools_directly'', PBool False)],
     rb_plan = (\<lambda>decision frame available_tools session_context.
       if \<not> co_allow_model_call co then pfail (ValueError ''copilot_rational_backend_requires_allow_model_call'')
       else pbind (run_copilot_agent co (json_text '', '' '': '' (PDict (copilot_prompt decision frame available_tools session_context)))) (\<lambda>answer.
         pbind (plift (extract_json_object ''copilot'' True answer)) (\<lambda>payload.
         plift (validate_rational_plan_payload payload (Some (or_empty available_tools))))))\<rparr>"

section \<open>The agent adapters\<close>

record 'b affective_agent =
  aa_metadata :: dict
  aa_decide :: "perception_frame \<Rightarrow> pyval list \<Rightarrow> dict option \<Rightarrow> ('b \<times> env, AffectiveDecision) prog"

record 'b rational_agent =
  ra_metadata :: dict
  ra_plan :: "AffectiveDecision \<Rightarrow> perception_frame \<Rightarrow> dict list option \<Rightarrow> dict option \<Rightarrow> ('b \<times> env, RationalPlan option) prog"

definition maf_affective_adapter :: "MafRuntimeProfile \<Rightarrow> 'b affective_agent" where
  "maf_affective_adapter profile = \<lparr>aa_metadata = MafRuntimeProfile_to_dict profile @ [
       (''agent_role'', PStr ''affective''), (''agent_adapter'', PStr ''deterministic_fake_affective'')],
     aa_decide = (\<lambda>frame _ _. pret (affective_decide frame))\<rparr>"

text \<open>With a context, a client that raises TypeError is asked again without it.\<close>

definition ask_decision :: "'b provider_client \<Rightarrow> MafRuntimeProfile \<Rightarrow> perception_frame \<Rightarrow> pyval list \<Rightarrow> dict option \<Rightarrow> ('b \<times> env, pyval) prog" where
  "ask_decision client profile frame memory_items affective_context s = (case affective_context of
     None \<Rightarrow> pc_decide client frame memory_items profile None s
   | Some c \<Rightarrow> (case pc_decide client frame memory_items profile (Some c) s of
       (Inl (TypeError _), s') \<Rightarrow> pc_decide client frame memory_items profile None s'
     | r \<Rightarrow> r))"

definition provider_metadata :: "MafRuntimeProfile \<Rightarrow> 'b provider_client \<Rightarrow> string \<Rightarrow> dict" where
  "provider_metadata profile client role = MafRuntimeProfile_to_dict profile @ [
     (''agent_role'', PStr role), (''agent_adapter'', PStr (''real_provider_'' @ role @ ''_'' @ pc_kind client)),
     (''provider_client_kind'', PStr (pc_kind client)), (''provider_call_supported'', PBool (\<not> pc_placeholder client))]"

definition real_affective_adapter :: "MafRuntimeProfile \<Rightarrow> 'b provider_client option \<Rightarrow> 'b affective_agent result" where
  "real_affective_adapter profile provider_client = (
     if \<not> mp_provider_ready_for_model_call profile then Inl (profile_not_ready profile)
     else let client = (case provider_client of Some c \<Rightarrow> c | None \<Rightarrow> placeholder_client) in
     Inr \<lparr>aa_metadata = provider_metadata profile client ''affective'',
       aa_decide = (\<lambda>frame memory_items affective_context.
         pbind (ask_decision client profile frame memory_items affective_context) (\<lambda>answer. plift (coerce_affective_decision answer)))\<rparr>)"

definition maf_rational_adapter :: "MafRuntimeProfile \<Rightarrow> 'b rational_backend \<Rightarrow> 'b rational_agent" where
  "maf_rational_adapter profile backend = \<lparr>ra_metadata = MafRuntimeProfile_to_dict profile @ [
       (''agent_role'', PStr ''rational''), (''agent_adapter'', PStr ''deterministic_fake_rational''),
       (''rational_backend'', PDict (rb_metadata backend))],
     ra_plan = rb_plan backend\<rparr>"

definition real_rational_adapter :: "MafRuntimeProfile \<Rightarrow> 'b provider_client option \<Rightarrow> 'b rational_agent result" where
  "real_rational_adapter profile provider_client = (
     if \<not> mp_provider_ready_for_model_call profile then Inl (profile_not_ready profile)
     else let client = (case provider_client of Some c \<Rightarrow> c | None \<Rightarrow> placeholder_client); backend = provider_backend client profile in
     Inr \<lparr>ra_metadata = provider_metadata profile client ''rational'' @ [(''rational_backend'', PDict (rb_metadata backend))],
       ra_plan = rb_plan backend\<rparr>)"

definition build_affective_agent_adapter :: "MafRuntimeProfile \<Rightarrow> 'b provider_client option \<Rightarrow> 'b affective_agent result" where
  "build_affective_agent_adapter profile provider_client = (
     if mp_provider_mode profile = mode_value REAL_PROVIDER then real_affective_adapter profile provider_client
     else Inr (maf_affective_adapter profile))"

definition build_rational_agent_adapter :: "MafRuntimeProfile \<Rightarrow> 'b provider_client option \<Rightarrow> string \<Rightarrow> 'b copilot \<Rightarrow> 'b rational_agent result" where
  "build_rational_agent_adapter profile provider_client backend_name copilot_sdk = (
     if backend_name = ''copilot'' then Inr (maf_rational_adapter profile (copilot_backend copilot_sdk))
     else if backend_name = ''deterministic'' then Inr (maf_rational_adapter profile deterministic_backend)
     else if backend_name \<notin> set [''auto'', ''provider''] then
       Inl (ValueError ''rational_backend_must_be_auto_deterministic_provider_or_copilot'')
     else if mp_provider_mode profile = mode_value REAL_PROVIDER then real_rational_adapter profile provider_client
     else Inr (maf_rational_adapter profile deterministic_backend))"

section \<open>The provider smoke test\<close>

definition MAF_PROVIDER_SMOKE_SCHEMA_VERSION :: string where
  "MAF_PROVIDER_SMOKE_SCHEMA_VERSION = ''1.2.5-maf-provider-smoke-v2''"

definition closure_gates :: "bool \<Rightarrow> bool \<Rightarrow> bool \<Rightarrow> dict \<Rightarrow> bool \<Rightarrow> dict" where
  "closure_gates allow_model_call execute_model_call runtime_ready payload evidence_present = (
     let called = str_or (dget payload ''call_status'') [] in [
     (''real_provider_call_opt_in_respected'', PBool (\<not> execute_model_call \<or> allow_model_call)),
     (''provider_requirements_ready'', PBool runtime_ready),
     (''missing_requirements_cleanly_reported'', PBool (\<not> runtime_ready \<and> dget payload ''status'' = PStr ''skipped''
        \<and> str_or (dget payload ''reason'') [] \<in> set [''agent_framework_package_not_installed'', ''model_credentials_not_configured'',
          ''model_identifier_not_configured''])),
     (''model_call_evidence_present'', PBool evidence_present),
     (''closure_smoke_outcome_recorded'', PBool (called \<in> set [''not_requested'', ''model_call_not_requested'',
        ''model_call_skipped_not_ready'', ''model_call_succeeded'', ''model_call_failed'', ''model_call_not_allowed'']))])"

definition smoke_document :: "bool \<Rightarrow> string \<times> string \<Rightarrow> string \<Rightarrow> bool \<Rightarrow> bool \<Rightarrow> MafRuntimeProfile \<Rightarrow> string \<Rightarrow> dict" where
  "smoke_document ok outcome smoke_mode allow_model_call execute_model_call profile call_status = (case outcome of (status, reason) \<Rightarrow> [
     (''schema_version'', PStr MAF_PROVIDER_SMOKE_SCHEMA_VERSION), (''ok'', PBool ok), (''status'', PStr status),
     (''reason'', PStr reason), (''smoke_mode'', PStr smoke_mode), (''model_call_allowed'', PBool allow_model_call),
     (''model_call_requested'', PBool execute_model_call),
     (''framework_package_available'', PBool (mp_framework_package_available profile)),
     (''credentials_available'', PBool (credentials_available (mp_provider_config profile))),
     (''present_env_vars'', texts (mc_credential_env_vars (mp_provider_config profile))),
     (''maf_runtime'', PDict (MafRuntimeProfile_to_dict profile @ [(''agent_adapters'', PList [
        PDict [(''agent_role'', PStr ''affective''), (''agent_adapter'', PStr ''deterministic_fake_affective'')],
        PDict [(''agent_role'', PStr ''rational''), (''agent_adapter'', PStr ''deterministic_fake_rational'')]])])),
     (''requires_model_credentials'', PBool True), (''call_status'', PStr call_status), (''executes_model_call'', PBool False)])"

definition readiness_of :: "MafRuntimeProfile \<Rightarrow> string \<times> string" where
  "readiness_of profile = (
     if mp_provider_ready_for_model_call profile then (''ready'', ''framework_package_and_provider_configuration_available'')
     else if \<not> mp_framework_package_available profile then (''skipped'', ''agent_framework_package_not_installed'')
     else if \<not> credentials_available (mp_provider_config profile) then (''skipped'', ''model_credentials_not_configured'')
     else (''skipped'', ''model_identifier_not_configured''))"

definition smoke_frame :: perception_frame where
  "smoke_frame = \<lparr>pf_frame_id = ''frame-provider-smoke-001'', pf_event_ids = [''evt-provider-smoke-001''],
     pf_highest_priority = 80, pf_topics = [''provider.smoke'']\<rparr>"

text \<open>The one model call of the smoke: the client that was given, or a new one.\<close>

definition smoke_call :: "('b, 'c) framework \<Rightarrow> osenv \<Rightarrow> 'b provider_client option \<Rightarrow> MafRuntimeProfile
    \<Rightarrow> ('b \<times> env, string \<times> AffectiveDecision) prog" where
  "smoke_call fw env provider_client profile =
     pbind (case provider_client of Some c \<Rightarrow> pret c | None \<Rightarrow> new_framework_client fw profile env) (\<lambda>client.
     pbind (pc_decide client smoke_frame [] profile None) (\<lambda>answer.
     pbind (plift (coerce_affective_decision answer)) (\<lambda>decision. pret (pc_kind client, decision))))"

definition with_gates :: "bool \<Rightarrow> bool \<Rightarrow> bool \<Rightarrow> bool \<Rightarrow> dict \<Rightarrow> dict" where
  "with_gates allow_model_call execute_model_call runtime_ready evidence_present payload =
     dset payload ''closure_gates'' (PDict (closure_gates allow_model_call execute_model_call runtime_ready payload evidence_present))"

definition smoke_failed :: "string \<times> string \<Rightarrow> dict \<Rightarrow> dict" where
  "smoke_failed described payload = dupdate payload [
     (''ok'', PBool False), (''status'', PStr ''error''), (''reason'', PStr ''model_call_failed''),
     (''call_status'', PStr ''model_call_failed''), (''failure_class'', PStr (fst described)),
     (''failure_status'', PStr (snd described)), (''executes_model_call'', PBool True)]"

definition smoke_succeeded :: "MafRuntimeProfile \<Rightarrow> string \<Rightarrow> AffectiveDecision \<Rightarrow> dict \<Rightarrow> dict" where
  "smoke_succeeded profile client_kind decision payload = dupdate payload [
     (''status'', PStr ''ready''), (''reason'', PStr ''model_call_succeeded''), (''call_status'', PStr ''model_call_succeeded''),
     (''executes_model_call'', PBool True), (''affective_decision'', PDict (AffectiveDecision_to_dict decision)),
     (''model_call_evidence'', PDict [(''agent_role'', PStr ''affective''), (''frame_id'', PStr (pf_frame_id smoke_frame)),
        (''event_ids'', texts (pf_event_ids smoke_frame)), (''provider_kind'', PStr (mc_provider_kind (mp_provider_config profile))),
        (''provider_client_kind'', PStr client_kind), (''response_schema'', PStr ''AffectiveDecision'')])]"

text \<open>
  \<open>maf_provider_smoke_status\<close>. The class and the text of the exception a client raised are \<open>describe_exc\<close>.
\<close>

definition maf_provider_smoke_status :: "(py_error \<Rightarrow> string \<times> string) \<Rightarrow> ('b, 'c) framework \<Rightarrow> bool \<Rightarrow> osenv
    \<Rightarrow> 'b provider_client option \<Rightarrow> bool \<Rightarrow> bool \<Rightarrow> ('b \<times> env, dict) prog" where
  "maf_provider_smoke_status describe_exc fw package_available env provider_client allow_model_call execute_model_call = (
     let gates = with_gates allow_model_call execute_model_call in
     if execute_model_call \<and> \<not> allow_model_call then
       pbind (plift (build_maf_runtime_profile package_available (mode_value PROVIDER_AVAILABLE_NO_CALL) env)) (\<lambda>profile.
       pret (gates False False (smoke_document False (''error'', ''execute_model_call_requires_allow_model_call'') ''model_call_smoke''
         False True profile ''model_call_not_allowed'')))
     else
       pbind (plift (build_maf_runtime_profile package_available
         (mode_value (if allow_model_call then REAL_PROVIDER else PROVIDER_AVAILABLE_NO_CALL)) env)) (\<lambda>profile.
       let runnable = mp_provider_ready_for_model_call profile;
           smoke_mode = (if execute_model_call then ''model_call_smoke''
             else if allow_model_call then ''provider_call_opt_in'' else ''availability_only'');
           payload = gates runnable False (smoke_document True (readiness_of profile) smoke_mode allow_model_call execute_model_call profile
             (if allow_model_call \<and> runnable then ''model_call_not_requested'' else ''not_requested'')) in
       if \<not> execute_model_call then pret payload
       else if \<not> runnable then
         pret (gates runnable False (dset payload ''call_status'' (PStr ''model_call_skipped_not_ready'')))
       else (\<lambda>s. case smoke_call fw env provider_client profile s of
           (Inl (OutOfModel e), s') \<Rightarrow> (Inl (OutOfModel e), s')
         | (Inl e, s') \<Rightarrow> (Inr (gates runnable False (smoke_failed (describe_exc e) payload)), s')
         | (Inr (client_kind, decision), s') \<Rightarrow>
             (Inr (gates runnable True (smoke_succeeded profile client_kind decision payload)), s'))))"

section \<open>What a model may bring about\<close>

lemma validated_plan:
  assumes "validate_rational_plan_payload answer tools = Inr (Some p)"
  shows "rp_tool_name p \<noteq> [] \<and> rp_reason p \<noteq> [] \<and> (case tools of Some ts \<Rightarrow> rp_tool_name p \<in> set (offered_names ts) | None \<Rightarrow> True)"
proof -
  from assms have some: "answer \<noteq> PNone" by (auto simp: validate_rational_plan_payload_def)
  with assms obtain payload where payload: "as_dict answer = Inr payload"
    by (cases "as_dict answer") (simp_all add: validate_rational_plan_payload_def)
  note checked = assms[unfolded validate_rational_plan_payload_def payload ebind_simps if_not_P[OF some]]
  then obtain tool_name where tool: "dget payload ''tool_name'' = PStr tool_name" "tool_name \<noteq> []"
    by (cases "dget payload ''tool_name''") (auto split: if_splits)
  with checked obtain args where args: "dget payload ''args'' = PDict args"
    by (cases "dget payload ''args''") simp_all
  with checked tool obtain reason where "dget payload ''reason'' = PStr reason"
    by (cases "dget payload ''reason''") simp_all
  with checked tool args show ?thesis by (auto split: if_splits option.splits)
qed

definition sound_plan :: "dict list option \<Rightarrow> RationalPlan option result \<Rightarrow> bool" where
  "sound_plan tools r = (case r of
     Inr (Some p) \<Rightarrow> rp_tool_name p \<noteq> [] \<and> rp_reason p \<noteq> [] \<and> rp_tool_name p \<in> set (offered_names (or_empty tools))
   | _ \<Rightarrow> True)"

lemma sound_validated: "sound_plan tools (validate_rational_plan_payload answer (Some (or_empty tools)))"
  using validated_plan[of answer "Some (or_empty tools)"]
  by (auto simp: sound_plan_def split: sum.split option.split)

lemma sound_Inl [simp]: "sound_plan tools (Inl e)"
  by (simp add: sound_plan_def)

lemma sound_bind: "(\<And>x s. sound_plan tools (fst (f x s))) \<Longrightarrow> sound_plan tools (fst (pbind m f s))"
  by (auto simp: pbind_def split: prod.split sum.split)

lemma fst_plift [simp]: "fst (plift r s) = r" "fst (pfail e s) = Inl e"
  by (simp_all add: plift_def pfail_def)

text \<open>C21: 
  Whatever a model answers, a plan that comes out of it names a tool that was offered, with a reason; and
  Copilot is not asked at all unless model calls are allowed.
\<close>

theorem model_plans_are_offered:
  "sound_plan tools (fst (rb_plan (provider_backend client profile) decision frame tools ctx s)) \<and>
   (if co_allow_model_call co then sound_plan tools (fst (rb_plan (copilot_backend co) decision frame tools ctx s))
    else rb_plan (copilot_backend co) decision frame tools ctx s = (Inl (ValueError ''copilot_rational_backend_requires_allow_model_call''), s))"
proof -
  have "sound_plan tools (fst (rb_plan (provider_backend client profile) decision frame tools ctx s))"
    by (simp add: provider_backend_def sound_bind sound_validated)
  moreover have "sound_plan tools (fst (rb_plan (copilot_backend co) decision frame tools ctx s))" if "co_allow_model_call co"
    using that by (simp add: copilot_backend_def sound_bind sound_validated)
  moreover have "rb_plan (copilot_backend co) decision frame tools ctx s
      = (Inl (ValueError ''copilot_rational_backend_requires_allow_model_call''), s)" if "\<not> co_allow_model_call co"
    using that by (simp add: copilot_backend_def pfail_def)
  ultimately show ?thesis by simp
qed

text \<open>A text that is no JSON object: no JSON, or another JSON value.\<close>

definition no_object :: "string \<Rightarrow> bool" where
  "no_object t = (case json_loads t of
     Inl (ValueError _) \<Rightarrow> True | Inl _ \<Rightarrow> False | Inr (PDict _) \<Rightarrow> False | Inr _ \<Rightarrow> True)"

lemma first_object_none:
  "list_all no_object cs \<Longrightarrow> first_object False e cs = Inl e"
  "list_all no_object cs \<Longrightarrow> first_object True e (cs @ [''null'']) = Inr PNone"
proof -
  have null: "json_loads ''null'' = Inr PNone" by code_simp
  show "list_all no_object cs \<Longrightarrow> first_object False e cs = Inl e"
    by (induction cs) (auto simp: no_object_def split: sum.splits py_error.splits pyval.splits)
  show "list_all no_object cs \<Longrightarrow> first_object True e (cs @ [''null'']) = Inr PNone"
    by (induction cs) (auto simp: null no_object_def split: sum.splits py_error.splits pyval.splits)
qed

text \<open>An answer without an object: neither the text nor the part between its braces is one.\<close>

definition no_object_answer :: "string \<Rightarrow> bool" where
  "no_object_answer t \<longleftrightarrow> list_all no_object (str_strip t # brace_slice (str_strip t))"

lemma objectless:
  assumes "no_object_answer t"
  shows "extract_json_object who False t = Inl (ValueError (who @
      (if str_strip t = [] then ''_response_missing_text'' else ''_response_not_valid_json_object'')))"
    and "extract_json_object who True t = (if str_strip t = [] then Inl (ValueError (who @ ''_response_missing_text'')) else Inr PNone)"
  using first_object_none[OF assms[unfolded no_object_answer_def]]
  by (simp_all add: extract_json_object_def response_candidates_def Let_def)

text \<open>C22: 
  An answer of the model without a JSON object in it, that is neither the whole text nor the part between its
  braces: text, a garbled plan, a list, a number, null. An affective decision always ends with an exception.
  The rational agent raises only when the answer is blank; any other counts as \<open>null\<close>, no plan, and the run goes
  on as if the model had chosen no tool.
\<close>

theorem objectless_answer_is_no_plan:
  assumes "\<And>c name instructions prompt. fw_run fw c name instructions prompt = pret r"
    and "extract_agent_response_text r = t" "no_object_answer t"
  shows "rb_plan (provider_backend (framework_client fw c) profile) decision frame tools ctx s
      = (if str_strip t = [] then Inl (ValueError ''provider_response_missing_text'') else Inr None, s)
    \<and> pc_decide (framework_client fw c) frame items profile context s
      = (Inl (ValueError (if str_strip t = [] then ''provider_response_missing_text'' else ''provider_response_not_valid_json_object'')), s)"
proof -
  have none: "validate_rational_plan_payload PNone ts = Inr None" for ts by (simp add: validate_rational_plan_payload_def)
  show ?thesis
    by (simp add: provider_backend_def framework_client_def run_json_agent_def assms(1,2) none
        objectless[OF assms(3), of "''provider''"]) (simp add: plift_def pfail_def pret_def)
qed

definition answering_framework :: "string \<Rightarrow> (unit, unit) framework" where
  "answering_framework said = \<lparr>fw_imports = True, fw_new_client = (\<lambda>_. pret ()),
     fw_run = (\<lambda>_ _ _ _. pret \<lparr>ar_text = PStr said, ar_value = NoValue, ar_dict = None, ar_str = []\<rparr>)\<rparr>"

definition objectless_texts :: "string list" where
  "objectless_texts = [''I would restart it'', ''[1, 2]'', ''{\"tool_name\": }'']"

theorem objectless_answer_is_no_plan_witness:
  "\<forall>profile decision frame items tools ctx aff s. list_all (\<lambda>said.
     rb_plan (provider_backend (framework_client (answering_framework said) ()) profile) decision frame tools ctx s = (Inr None, s)
     \<and> pc_decide (framework_client (answering_framework said) ()) frame items profile aff s
       = (Inl (ValueError ''provider_response_not_valid_json_object''), s)) objectless_texts"
  unfolding list_all_iff
proof (intro allI ballI)
  fix profile decision frame items tools ctx aff s said
  assume t: "said \<in> set objectless_texts"
  let ?r = "\<lparr>ar_text = PStr said, ar_value = NoValue, ar_dict = None, ar_str = []\<rparr>"
  have "list_all (\<lambda>said. no_object_answer said \<and> str_strip said \<noteq> []) objectless_texts" by code_simp
  with t have none: "no_object_answer said" "str_strip said \<noteq> []" by (simp_all add: list_all_iff)
  have run: "fw_run (answering_framework said) c name instructions prompt = pret ?r" for c name instructions prompt
    by (simp add: answering_framework_def)
  have said: "extract_agent_response_text ?r = said"
    using t by (auto simp: objectless_texts_def extract_agent_response_text_def response_text_or_def)
  show "rb_plan (provider_backend (framework_client (answering_framework said) ()) profile) decision frame tools ctx s = (Inr None, s)
     \<and> pc_decide (framework_client (answering_framework said) ()) frame items profile aff s
       = (Inl (ValueError ''provider_response_not_valid_json_object''), s)"
    using objectless_answer_is_no_plan[OF run said none(1), of "()" profile decision frame tools ctx s items aff] none(2)
    by simp
qed

text \<open>The profile the smoke test builds, when it may call a model.\<close>

definition smoke_profile :: "bool \<Rightarrow> osenv \<Rightarrow> MafRuntimeProfile result" where
  "smoke_profile package_available env = build_maf_runtime_profile package_available (mode_value REAL_PROVIDER) env"

definition may_call_model :: "bool \<Rightarrow> osenv \<Rightarrow> bool \<Rightarrow> bool \<Rightarrow> bool" where
  "may_call_model package_available env allow_model_call execute_model_call \<longleftrightarrow>
     allow_model_call \<and> execute_model_call \<and> package_available \<and> ready_for_model_call (build_maf_provider_config env)"

lemma built_profile:
  "\<exists>p. build_maf_runtime_profile package_available (mode_value mode) env = Inr p
     \<and> mp_provider_ready_for_model_call p = (package_available \<and> ready_for_model_call (build_maf_provider_config env))
     \<and> mp_provider_config p = build_maf_provider_config env"
  by (cases mode) (simp_all add: build_maf_runtime_profile_def MafProviderMode_of_def Let_def)

lemma gates_fields [simp]:
  "k \<noteq> ''closure_gates'' \<Longrightarrow> dget (with_gates a x r v payload) k = dget payload k"
  "dget (with_gates a x r v payload) ''closure_gates'' = PDict (closure_gates a x r payload v)"
  by (simp_all add: with_gates_def)

lemma smoke_document_fields [simp]:
  "dget (smoke_document ok outcome m a x p called) ''executes_model_call'' = PBool False"
  "dget (smoke_document ok outcome m a x p called) ''ok'' = PBool ok"
  "dget (smoke_document ok outcome m a x p called) ''model_call_evidence'' = PNone"
  "dget (smoke_document ok outcome m a x p called) ''call_status'' = PStr called"
  by (simp_all add: smoke_document_def dget_def split: prod.split)

lemma smoke_failed_fields [simp]:
  "dget (smoke_failed d payload) ''executes_model_call'' = PBool True" "dget (smoke_failed d payload) ''ok'' = PBool False"
  "dget (smoke_failed d payload) ''model_call_evidence'' = dget payload ''model_call_evidence''"
  by (simp_all add: smoke_failed_def dget_def map_of_dupdate)

lemma smoke_succeeded_fields [simp]:
  "dget (smoke_succeeded p kind decision payload) ''executes_model_call'' = PBool True"
  "dget (smoke_succeeded p kind decision payload) ''ok'' = dget payload ''ok''"
  "dget (smoke_succeeded p kind decision payload) ''model_call_evidence'' \<noteq> PNone"
  by (simp_all add: smoke_succeeded_def dget_def map_of_dupdate)

text \<open>
  One question of the smoke test: the state is the one the client left, the document is ok exactly when the answer
  is a valid decision, and it holds evidence of a call exactly then. Without a question there is no evidence.
\<close>

definition asked_once :: "pyval result \<times> 's \<Rightarrow> dict \<Rightarrow> 's \<Rightarrow> bool" where
  "asked_once answer payload s' \<longleftrightarrow> s' = snd answer
     \<and> dget payload ''ok'' = PBool (case fst answer of Inr v \<Rightarrow> \<not> isl (coerce_affective_decision v) | Inl _ \<Rightarrow> False)
     \<and> (dget payload ''model_call_evidence'' = PNone \<longleftrightarrow> dget payload ''ok'' = PBool False)"

definition not_asked :: "dict \<Rightarrow> bool" where
  "not_asked payload \<longleftrightarrow> dget payload ''ok'' = PBool False \<and> dget payload ''model_call_evidence'' = PNone"

text \<open>What the test asks: the given client, or one of the framework, if it can be made.\<close>

definition smoke_question :: "('b, 'c) framework \<Rightarrow> osenv \<Rightarrow> 'b provider_client option \<Rightarrow> MafRuntimeProfile
    \<Rightarrow> 'b \<times> env \<Rightarrow> dict \<Rightarrow> 'b \<times> env \<Rightarrow> bool" where
  "smoke_question fw env client profile s payload s' = (case client of
     Some c \<Rightarrow> asked_once (pc_decide c smoke_frame [] profile None s) payload s'
   | None \<Rightarrow> (case client_arguments profile env of
       Inl _ \<Rightarrow> s' = s \<and> not_asked payload
     | Inr args \<Rightarrow> if \<not> fw_imports fw then s' = s \<and> not_asked payload
         else (case fw_new_client fw args s of
             (Inl _, s1) \<Rightarrow> s' = s1 \<and> not_asked payload
           | (Inr chat_client, s1) \<Rightarrow>
               asked_once (pc_decide (framework_client fw chat_client) smoke_frame [] profile None s1) payload s')))"

lemma smoke_call_question:
  assumes "smoke_call fw env client profile s = (r, s')" and "dget payload ''ok'' = PBool (\<not> isl r)"
    and "dget payload ''model_call_evidence'' = PNone \<longleftrightarrow> isl r"
  shows "smoke_question fw env client profile s payload s'"
proof -
  have ask: "asked_once (pc_decide c smoke_frame [] profile None s1) payload s'"
    if "pbind (pc_decide c smoke_frame [] profile None) (\<lambda>answer. pbind (plift (coerce_affective_decision answer)) (\<lambda>decision.
        pret (pc_kind c, decision))) s1 = (r, s')" for c s1
  proof -
    obtain answer s2 where Pair: "pc_decide c smoke_frame [] profile None s1 = (answer, s2)" by (rule prod.exhaust)
    show ?thesis
    proof (cases answer)
      case (Inr v)
      with that Pair assms(2,3) show ?thesis
        by (cases "coerce_affective_decision v") (auto simp: asked_once_def pbind_def plift_def pret_def pfail_def)
    qed (use that Pair assms(2,3) in \<open>auto simp: asked_once_def pbind_def\<close>)
  qed
  show ?thesis
  proof (cases client)
    case (Some c)
    with assms(1) ask[of c s] show ?thesis by (simp add: smoke_question_def smoke_call_def)
  next
    case None
    show ?thesis
    proof (cases "client_arguments profile env")
      case (Inl e)
      with assms None show ?thesis
        by (auto simp: smoke_question_def smoke_call_def new_framework_client_def not_asked_def pbind_def plift_def pfail_def)
    next
      case (Inr args)
      show ?thesis
      proof (cases "fw_imports fw")
        case False
        with assms None Inr show ?thesis
          by (auto simp: smoke_question_def smoke_call_def new_framework_client_def not_asked_def pbind_def plift_def pfail_def)
      next
        case True
        obtain made s1 where made: "fw_new_client fw args s = (made, s1)" by (cases "fw_new_client fw args s")
        show ?thesis
        proof (cases made)
          case (Inl e)
          with assms None \<open>client_arguments profile env = Inr args\<close> True made show ?thesis
            by (auto simp: smoke_question_def smoke_call_def new_framework_client_def not_asked_def pbind_def)
        next
          case (Inr chat_client)
          with assms(1) None \<open>client_arguments profile env = Inr args\<close> True made ask[of "framework_client fw chat_client" s1]
          show ?thesis
            by (simp add: smoke_question_def smoke_call_def new_framework_client_def pbind_def plift_def pret_def)
        qed
      qed
    qed
  qed
qed

text \<open>C20: 
  The smoke test asks at all exactly when the call is both requested and allowed and the package, the
  credentials and the model are there; then it asks once, the given client or one made of the framework, with
  the smoke frame and the profile of the real provider, is ok exactly when a valid decision came back, and holds
  evidence of a call exactly then. Otherwise nothing has changed and there is no evidence. Its document
  says that a model call is executed in all the cases of the first kind, also when the framework cannot be
  imported or the client cannot be made, so that no model is asked.
\<close>

theorem smoke_asks_when_allowed:
  "case maf_provider_smoke_status describe_exc fw package_available env client allow execute s of
     (Inr payload, s') \<Rightarrow>
       dget payload ''executes_model_call'' = PBool (may_call_model package_available env allow execute) \<and>
       (if may_call_model package_available env allow execute then
          (case smoke_profile package_available env of
             Inr profile \<Rightarrow> smoke_question fw env client profile s payload s'
           | Inl _ \<Rightarrow> False)
        else s' = s \<and> dget payload ''model_call_evidence'' = PNone
          \<and> dget payload ''ok'' = PBool (\<not> (execute \<and> \<not> allow)))
   | (Inl e, s') \<Rightarrow> may_call_model package_available env allow execute \<and> (\<exists>m. e = OutOfModel m)"
proof (cases "execute \<and> \<not> allow")
  case True
  obtain p where "build_maf_runtime_profile package_available (mode_value PROVIDER_AVAILABLE_NO_CALL) env = Inr p"
    using built_profile by blast
  with True show ?thesis by (simp add: maf_provider_smoke_status_def may_call_model_def pret_def)
next
  case False
  obtain p where p: "build_maf_runtime_profile package_available
      (mode_value (if allow then REAL_PROVIDER else PROVIDER_AVAILABLE_NO_CALL)) env = Inr p"
    and ready: "mp_provider_ready_for_model_call p = (package_available \<and> ready_for_model_call (build_maf_provider_config env))"
    using built_profile by blast
  show ?thesis
  proof (cases "may_call_model package_available env allow execute")
    case may: True
    with False have flags: "allow" "execute" "mp_provider_ready_for_model_call p" by (auto simp: may_call_model_def ready)
    with p have profile: "smoke_profile package_available env = Inr p" by (simp add: smoke_profile_def)
    obtain r b w where call: "smoke_call fw env client p s = (r, b, w)" by (rule prod_cases3)
    note question = smoke_call_question[OF call]
    show ?thesis
    proof (cases r)
      case (Inl e)
      with p flags may call profile question show ?thesis
        by (cases e) (simp_all add: maf_provider_smoke_status_def Let_def pret_def)
    next
      case (Inr x)
      obtain kind decision where x: "x = (kind, decision)" by (rule prod.exhaust)
      from p flags may call profile question show ?thesis
        by (simp add: Inr x maf_provider_smoke_status_def Let_def pret_def)
    qed
  next
    case may: False
    have "\<not> mp_provider_ready_for_model_call p" if execute
      using that may False by (auto simp: may_call_model_def ready)
    with False p may show ?thesis
      by (cases execute) (simp_all add: maf_provider_smoke_status_def Let_def pret_def)
  qed
qed

text \<open>A framework that cannot be imported: the document says a call was executed, and nothing was asked.\<close>

lemma client_arguments_error:
  assumes "client_arguments p env = Inl e"
  shows "e \<noteq> OutOfModel m"
proof (cases "snd (first_present_env_var env MAF_PROVIDER_ENV_VARS)")
  case None
  have three: "(if a then Inl x else if b then Inl y else Inl z) = (Inl e :: dict result) \<Longrightarrow> e = x \<or> e = y \<or> e = z" for a b x y z
    by (cases a; cases b) simp_all
  from assms have "e = profile_not_ready p \<or> e = provider_not_ready ''model_identifier_not_configured''
      \<or> e = provider_not_ready ''model_credentials_not_configured''"
    unfolding client_arguments_def Let_def split_beta None option.case by (rule three)
  then show ?thesis by (auto simp: profile_not_ready_def provider_not_ready_def)
next
  case (Some key)
  have either: "(if a then Inl x else if b then Inl y else Inr z) = Inl e \<Longrightarrow> e = x \<or> e = y" for a b x y and z :: dict
    by (cases a; cases b) simp_all
  from assms have "e = profile_not_ready p \<or> e = provider_not_ready ''model_identifier_not_configured''"
    unfolding client_arguments_def Let_def split_beta Some option.case by (rule either)
  then show ?thesis by (auto simp: profile_not_ready_def provider_not_ready_def)
qed

lemma unimportable_framework_claims_call:
  assumes "may_call_model True env True True" and "\<not> fw_imports fw"
  shows "\<exists>payload. maf_provider_smoke_status describe_exc fw True env None True True s = (Inr payload, s)
    \<and> dget payload ''executes_model_call'' = PBool True"
proof -
  obtain p where p: "build_maf_runtime_profile True (mode_value REAL_PROVIDER) env = Inr p"
    and "mp_provider_ready_for_model_call p = (True \<and> ready_for_model_call (build_maf_provider_config env))"
    using built_profile by blast
  with assms(1) have ready: "mp_provider_ready_for_model_call p" by (simp add: may_call_model_def)
  have "\<exists>e. smoke_call fw env None p s = (Inl e, s) \<and> (\<forall>m. e \<noteq> OutOfModel m)"
  proof (cases "client_arguments p env")
    case (Inl e)
    with client_arguments_error[of p env e] show ?thesis
      by (simp add: smoke_call_def new_framework_client_def pbind_def plift_def pfail_def)
  next
    case (Inr args)
    with assms(2) show ?thesis
      by (simp add: smoke_call_def new_framework_client_def pbind_def plift_def pfail_def pret_def provider_not_ready_def)
  qed
  then obtain e where "smoke_call fw env None p s = (Inl e, s)" "\<forall>m. e \<noteq> OutOfModel m" by blast
  with p ready show ?thesis by (cases e) (simp_all add: maf_provider_smoke_status_def Let_def pret_def)
qed

end
