(* ===== verification/Workflow.thy ===== *)
theory Workflow
  imports Events Deploy Agents Memory Descriptors Inference
begin

text \<open>
  \<open>NoModelCoreWorkflow\<close> of \<open>neurolink_core/workflow.py\<close>: one run takes raw events through routing, storage, the
  session and memory, the affective and the rational agent, the tool policy and the tool, to an audit record
  and an answer. The agents, the memory backend, the tool adapter and the federation provider are parameters
  with a state of their own, free to raise; the store, the router, the policy, the session and the prompt
  context are those of the other theories. What a run did before an exception stays done.
\<close>

section \<open>User prompts and sample events\<close>

definition sample_events :: "dict list" where
  "sample_events = [
     [(''event_id'', PStr ''evt-demo-callback-001''), (''source_kind'', PStr ''unit_app''), (''source_node'', PStr ''unit-01''),
      (''source_app'', PStr ''neuro_demo_gpio''), (''event_type'', PStr ''callback''), (''semantic_topic'', PStr ''unit.callback''),
      (''timestamp_wall'', PStr ''2026-05-04T00:00:00Z''), (''priority'', PInt 80), (''dedupe_key'', PStr ''demo-callback-001''),
      (''policy_tags'', PList [PStr ''demo'', PStr ''no_model'']), (''payload'', PDict [(''callback_enabled'', PBool True)])],
     [(''event_id'', PStr ''evt-time-tick-001''), (''source_kind'', PStr ''clock''), (''event_type'', PStr ''time.tick''),
      (''semantic_topic'', PStr ''time.tick''), (''timestamp_wall'', PStr ''2026-05-04T00:00:01Z''), (''priority'', PInt 10),
      (''dedupe_key'', PStr ''tick-001''), (''policy_tags'', PList [PStr ''clock'']), (''payload'', PDict [(''period_ms'', PInt 1000)])]]"

definition word_char :: "char \<Rightarrow> bool" where
  "word_char c \<longleftrightarrow> is_digit c \<or> (97 \<le> code_point c \<and> code_point c \<le> 122)"

text \<open>\<open>re.findall(r"[a-z0-9]+", s)\<close> and the maximal runs of \<open>[a-z0-9][a-z0-9_-]{2,}\<close>.\<close>

function runs_of :: "(char \<Rightarrow> bool) \<Rightarrow> (char \<Rightarrow> bool) \<Rightarrow> nat \<Rightarrow> string \<Rightarrow> string list" where
  "runs_of first rest least s = (case s of
     [] \<Rightarrow> []
   | c # t \<Rightarrow> if first c \<and> least \<le> length (takeWhile rest t)
       then (c # takeWhile rest t) # runs_of first rest least (dropWhile rest t) else runs_of first rest least t)"
  by pat_completeness auto
termination
  by (relation "measure (\<lambda>(_, _, _, s). length s)") (auto simp: less_Suc_eq_le length_dropWhile_le)

declare runs_of.simps [simp del]

definition explicit_app_stopwords :: "string list" where
  "explicit_app_stopwords = [''restart'', ''start'', ''stop'', ''unload'', ''app'', ''apps'', ''application'', ''please'', ''the'', ''now'',
     ''current'', ''show'', ''query'', ''device'', ''status'', ''lease'', ''leases'', ''unit'']"

definition extract_explicit_app_id :: "string \<Rightarrow> string option" where
  "extract_explicit_app_id input_text = find (\<lambda>candidate. candidate \<notin> set explicit_app_stopwords
       \<and> (startswith candidate ''neuro'' \<or> CHR ''_'' \<in> set candidate \<or> CHR ''-'' \<in> set candidate))
     (runs_of word_char (\<lambda>c. word_char c \<or> c = CHR ''_'' \<or> c = CHR ''-'') 2 (str_lower input_text))"

definition prompt_topic :: "string list \<Rightarrow> string" where
  "prompt_topic tokens = (
     let has = (\<lambda>w. w \<in> set tokens); has_app_target = (has ''app'' \<or> has ''apps'' \<or> has ''application'') in
     if has ''restart'' \<and> has_app_target then ''user.input.control.app.restart''
     else if has ''start'' \<and> has_app_target then ''user.input.control.app.start''
     else if has ''stop'' \<and> has_app_target then ''user.input.control.app.stop''
     else if has ''unload'' \<and> has_app_target then ''user.input.control.app.unload''
     else if has ''lease'' \<or> has ''leases'' then ''user.input.query.leases''
     else if has_app_target then ''user.input.query.apps''
     else if has ''device'' \<or> has ''network'' \<or> has ''status'' then ''user.input.query.device''
     else if has ''capability'' \<or> has ''capabilities'' then ''user.input.capabilities'' else ''user.input'')"

definition build_user_prompt_event :: "string \<Rightarrow> env \<Rightarrow> dict list \<times> env" where
  "build_user_prompt_event input_text w = (
     let target_app_id = extract_explicit_app_id input_text; (event_id, w') = new_id ''evt'' w in
     ([[(''event_id'', PStr event_id), (''source_kind'', PStr ''user''), (''source_app'', opt_str target_app_id),
        (''event_type'', PStr ''user.input''), (''semantic_topic'', PStr (prompt_topic (runs_of word_char word_char 0 (str_lower input_text)))),
        (''timestamp_wall'', PStr ''2026-05-04T00:00:02Z''), (''priority'', PInt 70),
        (''policy_tags'', PList [PStr ''user_input'', PStr ''agent_run'']),
        (''payload'', PDict ([(''text'', PStr input_text)]
           @ (case target_app_id of Some a \<Rightarrow> [(''target_app_id'', PStr a)] | None \<Rightarrow> [])))]], w'))"

definition event_target_app :: "perception_event \<Rightarrow> string" where
  "event_target_app event = (let payload_target = str_or (dget (pe_payload event) ''target_app_id'') [] in
     if payload_target \<noteq> [] then payload_target
     else if (pe_source_kind event = ''user'' \<or> pe_semantic_topic event = PStr ''unit.lifecycle.activate_failed'')
       \<and> truthy (pe_source_app event) then py_str (pe_source_app event)
     else [])"

definition extract_target_app_id_from_events :: "perception_event list \<Rightarrow> string option" where
  "extract_target_app_id_from_events events = find (\<lambda>a. a \<noteq> []) (map event_target_app events)"

definition extract_activate_failed_event_payload :: "perception_event list \<Rightarrow> dict" where
  "extract_activate_failed_event_payload events = (case find (\<lambda>e. pe_semantic_topic e = PStr ''unit.lifecycle.activate_failed'') events of
     Some e \<Rightarrow> pe_payload e | None \<Rightarrow> [])"

section \<open>The affective runtime context\<close>

definition AFFECTIVE_RUNTIME_CONTEXT_SCHEMA_VERSION :: string where
  "AFFECTIVE_RUNTIME_CONTEXT_SCHEMA_VERSION = ''1.2.5-affective-runtime-context-v1''"

definition stripped :: "pyval \<Rightarrow> string list" where
  "stripped v = (case v of PStr s \<Rightarrow> if str_strip s = [] then [] else [str_strip s] | _ \<Rightarrow> [])"

definition stripped_items :: "pyval \<Rightarrow> string list" where
  "stripped_items v = (case v of PList xs \<Rightarrow> concat (map stripped xs) | _ \<Rightarrow> [])"

text \<open>What the payloads of the events say under a key, and under its plural.\<close>

definition said :: "perception_event list \<Rightarrow> string \<Rightarrow> string list" where
  "said events key = concat (map (\<lambda>e. stripped (dget (pe_payload e) key)) events)"

definition said_both :: "perception_event list \<Rightarrow> string \<Rightarrow> string \<Rightarrow> string list" where
  "said_both events key keys = concat (map (\<lambda>e. stripped (dget (pe_payload e) key) @ stripped_items (dget (pe_payload e) keys)) events)"

definition last_said :: "string list \<Rightarrow> string \<Rightarrow> string" where
  "last_said xs dflt = (if xs = [] then dflt else last xs)"

definition affective_request :: "perception_frame \<Rightarrow> perception_event list \<Rightarrow> multimodal_args" where
  "affective_request frame events = (
     let text_inputs = said events ''text''; image_refs = said_both events ''image_ref'' ''image_refs'';
         audio_refs = said_both events ''audio_ref'' ''audio_refs''; video_refs = said_both events ''video_ref'' ''video_refs'';
         silent = (text_inputs = [] \<and> image_refs = [] \<and> audio_refs = [] \<and> video_refs = []) in
     \<lparr>ma_request_id = pf_frame_id frame,
      ma_text = (if silent then [''Perception topics: '' @ (if pf_topics frame = [] then ''unknown'' else str_join '', '' (pf_topics frame))]
        else text_inputs),
      ma_image_refs = image_refs, ma_audio_refs = audio_refs, ma_video_refs = video_refs,
      ma_response_modes = said_both events ''response_mode'' ''response_modes'',
      ma_profile_hint = last_said (said events ''profile_hint'') ''auto'', ma_latency_class = DEFAULT_LATENCY_CLASS,
      ma_provenance = (if silent then ''workflow_frame_summary'' else ''workflow_event_payload'')\<rparr>)"

definition build_affective_runtime_context :: "osenv \<Rightarrow> bool \<Rightarrow> perception_frame \<Rightarrow> perception_event list \<Rightarrow> dict result" where
  "build_affective_runtime_context env require_live_backend frame events =
     ebind (normalize_multimodal_input (affective_request frame events)) (\<lambda>normalized.
     let profile_override = last_said (said events ''profile_override'') [];
         effective_override = (if require_live_backend \<and> profile_override = [] then ''remote_openai_compatible'' else profile_override);
         route = build_inference_route env require_live_backend effective_override normalized in
     ebind (as_dict (por (dget route ''selected_profile'') (PDict []))) (\<lambda>selected_profile.
     ebind (py_len (por (dget route ''candidate_rejections'') (PList []))) (\<lambda>rejections.
     Inr [
       (''schema_version'', PStr AFFECTIVE_RUNTIME_CONTEXT_SCHEMA_VERSION),
       (''multimodal_summary'', PDict [
          (''request_id'', PStr (mi_request_id normalized)), (''input_modes'', texts (mi_input_modes normalized)),
          (''response_modes'', texts (mi_response_modes normalized)), (''profile_hint'', PStr (mi_profile_hint normalized)),
          (''latency_class'', PStr (mi_latency_class normalized)), (''text_count'', PInt (int (length (mi_text normalized)))),
          (''text_preview'', texts (map (take 160) (take 2 (mi_text normalized)))),
          (''image_ref_count'', PInt (int (length (mi_images normalized)))),
          (''audio_ref_count'', PInt (int (length (mi_audio normalized)))),
          (''video_ref_count'', PInt (int (length (mi_video normalized)))), (''provenance'', PStr (mi_provenance normalized))]),
       (''profile_route'', PDict [
          (''requested_profile'', PStr (str_or (dget route ''requested_profile'') ''auto'')),
          (''selected_profile'', PStr (str_or (dget selected_profile ''name'') [])),
          (''route_status'', PStr (str_or (dget route ''status'') ''unknown'')),
          (''route_reason'', PStr (str_or (dget route ''route_reason'') [])),
          (''failure_status'', PStr (str_or (dget route ''failure_status'') [])),
          (''fallback_used'', PBool (truthy (dget_or route ''fallback_used'' (PBool False)))),
          (''candidate_rejection_count'', PInt rejections), (''requires_live_backend'', PBool require_live_backend),
          (''route_ready'', PBool (truthy (dget route ''ok'')))]),
       (''presentation_policy'', PDict [
          (''prompt_safe_multimodal_summary_only'', PBool True), (''internal_facts_remain_core_owned'', PBool True),
          (''model_may_not_execute_tools_directly'', PBool True), (''user_visible_output_separated_from_internal_facts'', PBool True)])])))"

section \<open>The quality of a rational plan\<close>

definition RATIONAL_PLAN_QUALITY_SCHEMA_VERSION :: string where
  "RATIONAL_PLAN_QUALITY_SCHEMA_VERSION = ''1.2.6-rational-plan-quality-v2''"

definition skill_descriptor_summary :: "string \<times> string \<Rightarrow> dict" where
  "skill_descriptor_summary skill = (let d = load_neuro_cli_skill_descriptor (fst skill) (snd skill) in [
     (''schema_version'', PStr SKILL_DESCRIPTOR_SCHEMA_VERSION), (''name'', PStr (sk_name d)),
     (''workflow_plan_required'', PBool (sk_workflow_plan_required d)), (''json_output_required'', PBool (sk_json_output_required d)),
     (''release_target_promotion_blocked'', PBool (sk_release_target_promotion_blocked d)),
     (''callback_audit_required'', PBool (sk_callback_audit_required d)),
     (''first_check_commands'', texts (take 3 (sk_first_check_commands d)))])"

definition bridge_mode_for :: "ToolContract option \<Rightarrow> string" where
  "bridge_mode_for contract = (case contract of
     None \<Rightarrow> ''read_only_descriptor_only''
   | Some c \<Rightarrow> if tc_approval_required c \<or> tc_required_resources c \<noteq> [] then ''core_governed_approval_required_proposal''
       else if only_reads c then ''core_governed_read_only_execution'' else ''read_only_descriptor_only'')"

definition mcp_descriptor_summary :: "ToolContract list \<Rightarrow> ToolContract option \<Rightarrow> dict result" where
  "mcp_descriptor_summary manifest contract =
     ebind (load_mcp_bridge_descriptor manifest (bridge_mode_for contract)) (\<lambda>d.
     let boundary = (\<lambda>k. PBool (truthy (dget_or (mb_safety_boundaries d) k (PBool False)))) in Inr [
       (''schema_version'', PStr MCP_BRIDGE_DESCRIPTOR_SCHEMA_VERSION), (''bridge_name'', PStr (mb_bridge_name d)),
       (''bridge_mode'', PStr (mb_bridge_mode d)), (''transport'', PStr (mb_transport d)),
       (''allowed_operations'', texts (mb_allowed_operations d)),
       (''read_only_tool_count'', PInt (int (length (mb_read_only_tools d)))),
       (''approval_required_tool_count'', PInt (int (length (mb_approval_required_tools d)))),
       (''blocked_tool_count'', PInt (int (length (mb_blocked_tools d)))),
       (''tool_execution_via_mcp_forbidden'', boundary ''tool_execution_via_mcp_forbidden''),
       (''approval_required_tool_proposals_allowed'', boundary ''approval_required_tool_proposals_allowed''),
       (''external_mcp_connection_enabled'', boundary ''external_mcp_connection_enabled'')])"

definition required_argument_aliases :: "string \<Rightarrow> string list" where
  "required_argument_aliases argument_name =
     str_replace_char (CHR ''-'') ''_'' (dropWhile (\<lambda>c. c = CHR ''-'') argument_name)
     # (if argument_name = ''--app-id'' then [''app''] else []) @ (if argument_name = ''--lease-id'' then [''lease''] else [])"


definition uses_wrapper :: "ToolContract \<Rightarrow> bool" where
  "uses_wrapper contract \<longleftrightarrow> list_ex is_wrapper (tc_argv_template contract)"

definition asks_json :: "ToolContract \<Rightarrow> bool" where
  "asks_json contract \<longleftrightarrow> (let argv = tc_argv_template contract in
     list_ex (\<lambda>(a, b). a = ''--output'' \<and> b = ''json'') (zip argv (tl argv)))"

definition build_skill_ground_rule_validation :: "ToolContract \<Rightarrow> dict \<Rightarrow> dict" where
  "build_skill_ground_rule_validation contract skill_descriptor = (
     let output_contract = tc_output_contract contract;
         json_output_contract_satisfied = (str_or (dget output_contract ''format'') [] = ''json''
            \<and> truthy (dget_or output_contract ''top_level_ok'' (PBool False)) \<and> asks_json contract);
         legacy = (uses_wrapper contract \<and> output_contract = [] \<and> only_reads contract);
         callback_rule = (\<not> truthy (dget_or skill_descriptor ''callback_audit_required'' (PBool False))
            \<or> \<not> contains_str ''callback'' (tc_tool_name contract) \<or> tc_approval_required contract \<or> truthy (tc_cleanup_hint contract));
         json_rule = (\<not> truthy (dget_or skill_descriptor ''json_output_required'' (PBool False)) \<or> json_output_contract_satisfied \<or> legacy);
         valid = (uses_wrapper contract \<and> json_rule \<and> callback_rule) in [
     (''wrapper_command_required'', PBool (uses_wrapper contract)), (''json_output_flag_present'', PBool (asks_json contract)),
     (''json_output_contract_satisfied'', PBool json_output_contract_satisfied),
     (''legacy_read_only_wrapper_contract'', PBool legacy), (''callback_audit_rule_satisfied'', PBool callback_rule),
     (''closure_gates'', PDict [(''wrapper_command_required'', PBool (uses_wrapper contract)),
        (''json_output_required'', PBool json_rule), (''callback_audit_rule_satisfied'', PBool callback_rule)]),
     (''valid'', PBool valid), (''failure_status'', PStr (if valid then [] else ''skill_ground_rule_violation''))])"

definition tool_key :: "dict \<Rightarrow> string" where
  "tool_key tool = str_or (por (dget tool ''name'') (dget tool ''tool_name'')) []"

definition tool_index :: "dict list \<Rightarrow> (string \<times> dict) list" where
  "tool_index available_tools = foldl (\<lambda>t tool. AList.update (tool_key tool) tool t) [] available_tools"

text \<open>\<open>plan.args.get(alias) not in (None, "", [])\<close>.\<close>

definition argument_given :: "dict \<Rightarrow> string \<Rightarrow> bool" where
  "argument_given args alias \<longleftrightarrow> dget args alias \<noteq> PNone \<and> dget args alias \<noteq> PStr [] \<and> dget args alias \<noteq> PList []"

definition argument_covered :: "dict \<Rightarrow> string \<Rightarrow> bool" where
  "argument_covered args argument_name \<longleftrightarrow> argument_name = ''--node'' \<or> list_ex (argument_given args) (required_argument_aliases argument_name)"

definition missing_arguments :: "dict \<Rightarrow> ToolContract \<Rightarrow> string list" where
  "missing_arguments args contract = filter (\<lambda>n. \<not> argument_covered args n) (tc_required_arguments contract)"

definition operator_resolvable :: "ToolContract \<Rightarrow> string \<Rightarrow> bool" where
  "operator_resolvable contract argument_name \<longleftrightarrow> tc_approval_required contract \<and> argument_name \<in> {''--app'', ''--app-id'', ''--lease-id''}"

definition contract_matches :: "ToolContract \<Rightarrow> dict \<Rightarrow> bool result" where
  "contract_matches contract matched =
     ebind (py_list (por (por (dget matched ''required_resources'') (dget matched ''lease_requirements'')) (PList []))) (\<lambda>resources.
     Inr (matched \<noteq> [] \<and> resources = map PStr (tc_required_resources contract)
       \<and> truthy (dget_or matched ''approval_required'' (PBool False)) = tc_approval_required contract
       \<and> truthy (dget_or matched ''retryable'' (PBool False)) = tc_retryable contract
       \<and> str_or (dget matched ''side_effect_level'') [] = tc_side_effect_level contract))"

definition first_text :: "string list \<Rightarrow> string" where
  "first_text xs = (case find (\<lambda>x. x \<noteq> []) xs of Some x \<Rightarrow> x | None \<Rightarrow> [])"

text \<open>What the quality checks read besides the plan, the contract and the tools: the skill file and the catalog.\<close>

record quality_inputs =
  qi_skill :: "string \<times> string"
  qi_catalog :: dict
  qi_catalog_path :: string

definition skill_requirements :: "dict \<Rightarrow> ToolContract \<Rightarrow> dict \<Rightarrow> dict result" where
  "skill_requirements skill contract consistency =
     ebind (list_of (dget skill ''first_check_commands'')) (\<lambda>first_checks. Inr [
       (''skill_name'', dget skill ''name''),
       (''workflow_plan_required'', PBool (truthy (dget skill ''workflow_plan_required'')
          \<and> (tc_approval_required contract \<or> tc_required_resources contract \<noteq> []))),
       (''workflow_plan_evidence_present'', flag consistency ''valid''), (''json_output_required'', flag skill ''json_output_required''),
       (''release_target_promotion_blocked'', flag skill ''release_target_promotion_blocked''),
       (''callback_audit_required'', flag skill ''callback_audit_required''),
       (''suggested_first_check_commands'', PList first_checks)])"

definition mcp_requirements :: "dict \<Rightarrow> ToolContract \<Rightarrow> dict result" where
  "mcp_requirements mcp contract =
     ebind (list_of (dget mcp ''allowed_operations'')) (\<lambda>operations.
     ebind (int_or0 (dget mcp ''read_only_tool_count'')) (\<lambda>read_only.
     ebind (int_or0 (dget mcp ''approval_required_tool_count'')) (\<lambda>approval.
     ebind (int_or0 (dget mcp ''blocked_tool_count'')) (\<lambda>blocked. Inr [
       (''bridge_name'', dget mcp ''bridge_name''), (''bridge_mode'', dget mcp ''bridge_mode''),
       (''allowed_operations'', PList operations), (''read_only_tool_count'', read_only),
       (''approval_required_tool_count'', approval), (''blocked_tool_count'', blocked),
       (''tool_execution_via_mcp_forbidden'', flag mcp ''tool_execution_via_mcp_forbidden''),
       (''approval_required_tool_proposals_allowed'', flag mcp ''approval_required_tool_proposals_allowed''),
       (''external_mcp_connection_enabled'', flag mcp ''external_mcp_connection_enabled''),
       (''bridge_mode_satisfies_tool_governance'', if tc_approval_required contract \<or> tc_required_resources contract \<noteq> []
          then flag mcp ''approval_required_tool_proposals_allowed'' else PBool True)]))))"

text \<open>The document \<open>_build_rational_plan_quality\<close> returns, from the parts it computed.\<close>

definition plan_quality_document :: "RationalPlan \<Rightarrow> ToolContract \<Rightarrow> bool \<Rightarrow> bool \<Rightarrow> dict \<Rightarrow> dict \<Rightarrow> dict \<Rightarrow> dict \<Rightarrow> dict" where
  "plan_quality_document plan contract listed matches ground_rules consistency skill_reqs mcp_reqs = (
     let governed = (tc_approval_required contract \<or> tc_required_resources contract \<noteq> []);
         missing = missing_arguments (rp_args plan) contract;
         blocking = filter (\<lambda>n. \<not> operator_resolvable contract n) missing;
         resources_ok = (tc_required_resources contract = [] \<or> tc_approval_required contract);
         hint = truthy (tc_cleanup_hint contract); cleanup_ok = (\<not> governed \<or> hint) in [
     (''schema_version'', PStr RATIONAL_PLAN_QUALITY_SCHEMA_VERSION), (''tool_name'', PStr (rp_tool_name plan)),
     (''available_tool_match'', PBool listed), (''available_tool_contract_match'', PBool matches),
     (''failure_status'', PStr (first_text [str_or (dget ground_rules ''failure_status'') [], str_or (dget consistency ''failure_status'') [],
        if blocking \<noteq> [] then ''missing_required_arguments'' else [],
        if \<not> listed then ''rational_plan_tool_not_in_available_tools'' else [],
        if \<not> matches then ''rational_plan_tool_contract_mismatch'' else []])),
     (''required_argument_coverage'', PDict (foldl (\<lambda>d n. dset d n (PBool (argument_covered (rp_args plan) n))) [] (tc_required_arguments contract))),
     (''missing_required_arguments'', texts missing),
     (''operator_resolvable_missing_arguments'', texts (filter (operator_resolvable contract) missing)),
     (''blocking_missing_arguments'', texts blocking), (''required_resources'', texts (tc_required_resources contract)),
     (''approval_required'', PBool (tc_approval_required contract)),
     (''resource_fit'', PDict [(''required_resources'', texts (tc_required_resources contract)),
        (''approval_required_for_required_resources'', PBool resources_ok), (''valid'', PBool resources_ok)]),
     (''retryability'', PDict [(''retryable'', PBool (tc_retryable contract)),
        (''operator_retry_guidance_required'', PBool (\<not> tc_retryable contract \<and> governed)), (''valid'', PBool True)]),
     (''retryable'', PBool (tc_retryable contract)),
     (''cleanup_awareness'', PDict [(''cleanup_hint_present'', PBool hint), (''cleanup_review_required'', PBool governed),
        (''valid'', PBool cleanup_ok)]),
     (''cleanup_hint_present'', PBool hint), (''skill_ground_rules'', PDict ground_rules),
     (''workflow_catalog_consistency'', PDict consistency),
     (''valid'', PBool (blocking = [] \<and> listed \<and> matches \<and> resources_ok \<and> cleanup_ok
        \<and> truthy (dget_or ground_rules ''valid'' (PBool False)) \<and> truthy (dget_or consistency ''valid'' (PBool False))
        \<and> truthy (dget_or mcp_reqs ''bridge_mode_satisfies_tool_governance'' (PBool False)))),
     (''skill_requirements'', PDict skill_reqs), (''mcp_requirements'', PDict mcp_reqs)])"

definition build_rational_plan_quality :: "quality_inputs \<Rightarrow> ToolContract list \<Rightarrow> RationalPlan \<Rightarrow> ToolContract \<Rightarrow> dict list \<Rightarrow> dict result" where
  "build_rational_plan_quality qi manifest plan contract available_tools = (
     let index = tool_index available_tools; skill = skill_descriptor_summary (qi_skill qi);
         ground_rules = build_skill_ground_rule_validation contract skill in
     ebind (validate_tool_workflow_catalog_consistency (qi_catalog qi) (qi_catalog_path qi) contract) (\<lambda>consistency.
     ebind (skill_requirements skill contract consistency) (\<lambda>skill_reqs.
     ebind (mcp_descriptor_summary manifest (Some contract)) (\<lambda>mcp.
     ebind (mcp_requirements mcp contract) (\<lambda>mcp_reqs.
     ebind (contract_matches contract (case map_of index (rp_tool_name plan) of Some t \<Rightarrow> t | None \<Rightarrow> [])) (\<lambda>matches.
     Inr (plan_quality_document plan contract (rp_tool_name plan \<in> fst ` set index) matches ground_rules consistency skill_reqs mcp_reqs)))))))"

section \<open>Answers and evidence\<close>

definition RATIONAL_PLAN_EVIDENCE_SCHEMA_VERSION :: string where
  "RATIONAL_PLAN_EVIDENCE_SCHEMA_VERSION = ''1.2.5-rational-plan-evidence-v1''"

definition asked_by_user :: "perception_frame \<Rightarrow> bool" where
  "asked_by_user frame \<longleftrightarrow> list_ex (\<lambda>t. startswith t ''user.input'') (pf_topics frame)"

definition trigger_kind :: "perception_frame \<Rightarrow> string" where
  "trigger_kind frame = (if asked_by_user frame then ''interactive_request'' else ''event_driven_perception'')"

definition delivery_kind :: "perception_frame \<Rightarrow> AffectiveDecision \<Rightarrow> string" where
  "delivery_kind frame decision = (if \<not> af_delegated decision then ''observation_only''
     else if asked_by_user frame then ''interactive_response'' else ''event_driven_notification'')"

definition tool_label :: "string \<Rightarrow> string" where
  "tool_label name = str_replace_char (CHR ''_'') '' '' (str_remove ''system_'' name)"

definition response_text :: "perception_frame \<Rightarrow> AffectiveDecision \<Rightarrow> ToolExecutionResult list \<Rightarrow> string" where
  "response_text frame decision results = (
     let topics = (if pf_topics frame = [] then ''unknown'' else str_join '', '' (pf_topics frame)) in
     if \<not> af_delegated decision then ''Recorded perception topics '' @ topics @ ''; no delegated action was required.''
     else case results of
       [] \<Rightarrow> ''Observed '' @ topics @ '' and opened a reasoning window, but no tool execution was required.''
     | result # _ \<Rightarrow> (let label = tool_label (te_tool_name result) in
         if te_status result = ''ok'' then ''Observed '' @ topics @ '' and completed a read-only '' @ label @ '' before responding.''
         else if te_status result = ''pending_approval''
           then ''Observed '' @ topics @ '' and prepared delegated '' @ label @ '', but execution is waiting for explicit approval.''
         else if te_status result = ''blocked'' then ''Observed '' @ topics @ '' but blocked delegated '' @ label @ '' due to policy constraints.''
         else ''Observed '' @ topics @ '' and attempted delegated '' @ label @ '', but the tool path reported an error.''))"

definition build_final_response :: "perception_frame \<Rightarrow> AffectiveDecision \<Rightarrow> ToolExecutionResult list \<Rightarrow> dict" where
  "build_final_response frame decision results = [
     (''speaker'', PStr ''affective''), (''delegated'', PBool (af_delegated decision)),
     (''text'', PStr (response_text frame decision results)), (''salience'', PInt (af_salience decision)),
     (''trigger_kind'', PStr (trigger_kind frame)), (''delivery_kind'', PStr (delivery_kind frame decision)),
     (''topics'', texts (pf_topics frame))]"

definition build_notification_summary :: "perception_frame \<Rightarrow> AffectiveDecision \<Rightarrow> dict \<Rightarrow> string \<Rightarrow> dict" where
  "build_notification_summary frame decision final_response notification_id = [
     (''notification_id'', PStr notification_id), (''speaker'', PStr (str_or (dget final_response ''speaker'') ''affective'')),
     (''trigger_kind'', PStr (trigger_kind frame)), (''delivery_kind'', PStr (delivery_kind frame decision)),
     (''audience'', PStr ''user''), (''salience'', PInt (af_salience decision)),
     (''urgency'', PStr (if 80 \<le> af_salience decision then ''high'' else ''normal'')), (''topics'', texts (pf_topics frame)),
     (''delegated'', PBool (af_delegated decision)), (''text'', PStr (str_or (dget final_response ''text'') []))]"

definition build_rational_plan_evidence :: "RationalPlan option \<Rightarrow> string \<Rightarrow> dict list \<Rightarrow> ToolExecutionResult list \<Rightarrow> dict" where
  "build_rational_plan_evidence plan failure_status available_tools results = (
     let names = map tool_key available_tools; selected = (case plan of Some p \<Rightarrow> rp_tool_name p | None \<Rightarrow> []) in [
     (''schema_version'', PStr RATIONAL_PLAN_EVIDENCE_SCHEMA_VERSION),
     (''status'', PStr (if failure_status \<noteq> [] then ''invalid_payload'' else if plan = None then ''no_tool_selected'' else ''tool_selected'')),
     (''failure_status'', PStr failure_status), (''selected_tool_name'', PStr selected),
     (''selected_tool_in_available_tools'', PBool (selected \<noteq> [] \<and> selected \<in> set names)),
     (''available_tool_count'', PInt (int (length names))),
     (''tool_result_status'', case results of [] \<Rightarrow> PNone | r # _ \<Rightarrow> PStr (te_status r))])"

definition affective_adapter_of :: "pyval list \<Rightarrow> dict" where
  "affective_adapter_of adapters = (case find (\<lambda>d. dget d ''agent_role'' = PStr ''affective'') (dicts_of adapters) of
     Some d \<Rightarrow> d | None \<Rightarrow> [])"

definition build_model_call_evidence :: "perception_frame \<Rightarrow> AffectiveDecision \<Rightarrow> dict \<Rightarrow> dict \<Rightarrow> dict result" where
  "build_model_call_evidence frame decision maf_runtime context =
     ebind (sub_dict maf_runtime ''provider_config'') (\<lambda>provider_config.
     ebind (list_of (dget maf_runtime ''agent_adapters'')) (\<lambda>agent_adapters.
     let adapter = affective_adapter_of agent_adapters;
         calls = (truthy (dget_or maf_runtime ''real_provider_enabled'' (PBool False))
           \<and> truthy (dget_or adapter ''provider_call_supported'' (PBool False))) in
     Inr [
       (''agent_role'', PStr ''affective''), (''call_status'', PStr (if calls then ''model_call_succeeded'' else ''deterministic_fake'')),
       (''executes_model_call'', PBool calls), (''frame_id'', PStr (pf_frame_id frame)), (''event_ids'', texts (pf_event_ids frame)),
       (''provider_kind'', PStr (str_or (dget provider_config ''provider_kind'') ''unknown'')),
       (''provider_client_kind'', PStr (str_or (dget adapter ''provider_client_kind'') ''deterministic_fake'')),
       (''response_schema'', PStr ''AffectiveDecision''), (''decision'', PDict (AffectiveDecision_to_dict decision)),
       (''multimodal_summary'', por (dget context ''multimodal_summary'') (PDict [])),
       (''profile_route'', por (dget context ''profile_route'') (PDict [])),
       (''presentation_policy'', por (dget context ''presentation_policy'') (PDict [])),
       (''provider_failure_mode'', PStr ''fail_closed'')]))"


section \<open>The workflow and its parts\<close>

text \<open>
  The memory backend: what it does to the database and to its own state. \<open>propose\<close>, \<open>screen\<close> and \<open>commit\<close> may be
  missing. The tool adapter: the manifest and the description of a tool may run a command. The metadata are read
  off the state.
\<close>

record 'b memory_backend =
  mem_lookup :: "perception_frame \<Rightarrow> (db \<times> 'b, dict list) prog"
  mem_propose :: "(perception_frame \<Rightarrow> (db \<times> 'b, dict list) prog) option"
  mem_screen :: "(dict list \<Rightarrow> (db \<times> 'b, dict list) prog) option"
  mem_commit :: "(string \<Rightarrow> dict list \<Rightarrow> (db \<times> 'b, string list) prog) option"
  mem_metadata :: "('b \<Rightarrow> dict) option"

record 'b workflow_adapter =
  wa_manifest :: "('b \<times> env, ToolContract list) prog option"
  wa_describe :: "string \<Rightarrow> ('b \<times> env, ToolContract option) prog"
  wa_execute :: "string \<Rightarrow> dict \<Rightarrow> ('b \<times> env, ToolExecutionResult) prog"
  wa_metadata :: "('b \<Rightarrow> dict) option"

text \<open>
  The order in which a Python set of request ids is listed depends on the process; \<open>wf_set_order\<close> is that
  order, an arbitrary function of the members.
\<close>

record 'b workflow =
  wf_profile :: MafRuntimeProfile
  wf_environ :: osenv
  wf_quality :: quality_inputs
  wf_decide :: "perception_frame \<Rightarrow> pyval list \<Rightarrow> dict \<Rightarrow> ('b \<times> env, AffectiveDecision) prog"
  wf_plan :: "AffectiveDecision \<Rightarrow> perception_frame \<Rightarrow> dict list \<Rightarrow> dict \<Rightarrow> ('b \<times> env, RationalPlan option) prog"
  wf_agents :: "'b \<Rightarrow> dict list"
  wf_memory :: "'b memory_backend"
  wf_adapter :: "'b workflow_adapter"
  wf_federation :: "(perception_frame \<Rightarrow> dict \<Rightarrow> ('b \<times> env, dict option) prog) option"
  wf_set_order :: "pyval list \<Rightarrow> pyval list"

type_synonym ('b, 'x) wf_prog = "(('b router \<times> 'b) world, 'x) prog"

text \<open>A part at work inside the run.\<close>

definition by_part :: "('b \<times> env, 'x) prog \<Rightarrow> ('b, 'x) wf_prog" where
  "by_part m = (\<lambda>(s, w, rt, b). case m (b, w) of (r, b', w') \<Rightarrow> (r, s, w', rt, b'))"

definition by_memory :: "(db \<times> 'b, 'x) prog \<Rightarrow> ('b, 'x) wf_prog" where
  "by_memory m = (\<lambda>(s, w, rt, b). case m ((s, w), b) of (r, (s', w'), b') \<Rightarrow> (r, s', w', rt, b'))"

definition read_part :: "('b \<Rightarrow> 'x) \<Rightarrow> ('b, 'x) wf_prog" where
  "read_part f = pread (\<lambda>(s, w, rt, b). f b)"

text \<open>\<open>self.event_router.route(raw_events)\<close>: what the router has seen stays seen also when the batch raises.\<close>

definition route_events :: "dict list \<Rightarrow> ('b, perception_event list) wf_prog" where
  "route_events raws = (\<lambda>(s, w, rt, b). case route rt w b raws of
     (rt', Inl e) \<Rightarrow> (Inl e, s, w, rt', b)
   | (rt', Inr (events, w', b')) \<Rightarrow> (Inr events, s, w', rt', b'))"

fun pmap :: "('x \<Rightarrow> ('s, 'y) prog) \<Rightarrow> 'x list \<Rightarrow> ('s, 'y list) prog" where
  "pmap f [] = pret []"
| "pmap f (x # xs) = pbind (f x) (\<lambda>y. pbind (pmap f xs) (\<lambda>ys. pret (y # ys)))"

text \<open>\<open>try: ... except ValueError as exc: str(exc)\<close>.\<close>

definition catch_value_error :: "('s, 'x) prog \<Rightarrow> ('s, string + 'x) prog" where
  "catch_value_error m s = (case m s of
     (Inl (ValueError msg), s') \<Rightarrow> (Inr (Inl msg), s')
   | (Inl e, s') \<Rightarrow> (Inl e, s')
   | (Inr x, s') \<Rightarrow> (Inr (Inr x), s'))"

definition fact :: "string \<Rightarrow> string \<Rightarrow> string \<Rightarrow> dict \<Rightarrow> ('a world, string) prog" where
  "fact execution_span_id fact_type subject payload = on_db (\<lambda>d. persist_fact d execution_span_id fact_type subject payload)"

definition maf_runtime_metadata :: "'b workflow \<Rightarrow> ('b, dict) wf_prog" where
  "maf_runtime_metadata flow = read_part (\<lambda>b.
     dset (MafRuntimeProfile_to_dict (wf_profile flow)) ''agent_adapters'' (PList (map PDict (wf_agents flow b))))"

definition memory_runtime_metadata :: "'b workflow \<Rightarrow> ('b, dict) wf_prog" where
  "memory_runtime_metadata flow = read_part (\<lambda>b. case mem_metadata (wf_memory flow) of
     Some f \<Rightarrow> f b
   | None \<Rightarrow> [(''backend_kind'', PStr ''unknown''), (''backend_runtime'', PStr ''unknown''), (''requires_external_service'', PBool False),
       (''fallback_active'', PBool False), (''can_execute_tools_directly'', PBool False)])"

definition manifest_of :: "'b workflow \<Rightarrow> ('b, ToolContract list) wf_prog" where
  "manifest_of flow = (case wa_manifest (wf_adapter flow) of None \<Rightarrow> pret [] | Some m \<Rightarrow> by_part m)"

definition available_tool_context :: "'b workflow \<Rightarrow> ('b, dict list) wf_prog" where
  "available_tool_context flow = pbind (manifest_of flow) (\<lambda>manifest. pret (map ToolContract_to_dict manifest))"

definition live_backend :: "'b workflow \<Rightarrow> bool" where
  "live_backend flow \<longleftrightarrow> mp_provider_mode (wf_profile flow) = mode_value REAL_PROVIDER"

section \<open>From events to the session context\<close>

definition persist_frame_facts :: "string \<Rightarrow> perception_frame \<Rightarrow> perception_event list \<Rightarrow> ('a world, string list) prog" where
  "persist_frame_facts execution_span_id frame events =
     pbind (fact execution_span_id ''perception_frame'' (pf_frame_id frame) (PerceptionFrame_to_dict frame)) (\<lambda>frame_fact.
     pbind (pmap (\<lambda>event. pbind (plift (text_of (event_topic event))) (\<lambda>topic.
        fact execution_span_id ''perception_event_topic'' topic [
          (''event_id'', PStr (pe_event_id event)), (''source_kind'', PStr (pe_source_kind event)),
          (''source_node'', pe_source_node event), (''source_app'', pe_source_app event),
          (''priority'', PInt (pe_priority event))])) events) (\<lambda>event_facts.
     pret (frame_fact # event_facts)))"

text \<open>\<open>PerceptionFrame(**frame_data)\<close> of a frame the store built from rows.\<close>

definition frame_of_data :: "dict \<Rightarrow> perception_frame result" where
  "frame_of_data d =
     ebind (text_of (dget d ''frame_id'')) (\<lambda>frame_id.
     ebind (ebind (py_list (dget d ''event_ids'')) (emap text_of)) (\<lambda>event_ids.
     ebind (int_of_val (dget d ''highest_priority'')) (\<lambda>highest_priority.
     ebind (ebind (py_list (dget d ''topics'')) (emap text_of)) (\<lambda>topics.
     Inr \<lparr>pf_frame_id = frame_id, pf_event_ids = event_ids, pf_highest_priority = highest_priority, pf_topics = topics\<rparr>))))"

record run_request =
  rq_use_db_events :: bool
  rq_query_limit :: int
  rq_min_priority :: int
  rq_topic :: "string option"
  rq_session_id :: "string option"
  rq_event_source :: string

definition default_run_request :: run_request where
  "default_run_request = \<lparr>rq_use_db_events = False, rq_query_limit = 100, rq_min_priority = 0, rq_topic = None, rq_session_id = None,
     rq_event_source = ''provided''\<rparr>"

record run_start =
  st_span :: string
  st_session :: string
  st_context :: dict
  st_events :: "perception_event list"
  st_frame :: perception_frame
  st_steps :: "string list"
  st_fact_refs :: "string list"

definition db_frame :: "run_request \<Rightarrow> perception_frame \<Rightarrow> ('a world, perception_frame \<times> string list) prog" where
  "db_frame rq frame = (if \<not> rq_use_db_events rq then pret (frame, [])
     else pbind (query_ok (\<lambda>s. query_events s (rq_query_limit rq) (rq_min_priority rq) (rq_topic rq))) (\<lambda>db_events.
       if db_events = [] then pret (frame, [''database_query''])
       else pbind (on_db (\<lambda>(s, w). ebind (store_build_frame db_events w) (\<lambda>(d, w'). Inr (d, s, w')))) (\<lambda>frame_data.
         pbind (plift (frame_of_data frame_data)) (\<lambda>frame'. pret (frame', [''database_query'', ''frame_build_from_db''])))))"

definition begin_run :: "run_request \<Rightarrow> dict list \<Rightarrow> ('b, run_start) wf_prog" where
  "begin_run rq raw_events =
     pbind (draw_id ''span'') (\<lambda>execution_span_id.
     pbind (on_db (\<lambda>(s, w). case resolve_session_id (rq_session_id rq) w of (i, w') \<Rightarrow> Inr (i, s, w'))) (\<lambda>session_id.
     pbind (query_ok (\<lambda>s. build_context s session_id None 5)) (\<lambda>initial_session_context.
     pbind (route_events raw_events) (\<lambda>events.
     pbind (write_db (\<lambda>d. Inr (persist_execution_span d execution_span_id ''running'' [
        (''event_source'', PStr (rq_event_source rq)), (''normalized_event_count'', PInt (int (length events))),
        (''session_id'', PStr session_id)] (Some session_id)))) (\<lambda>_.
     pbind (pmap (\<lambda>event. write_db (\<lambda>d. persist_event d event)) events) (\<lambda>_.
     pbind (on_db (\<lambda>(s, w). ebind (build_frame events w) (\<lambda>(f, w'). Inr (f, s, w')))) (\<lambda>frame0.
     pbind (db_frame rq frame0) (\<lambda>(frame, db_steps).
     pbind (persist_frame_facts execution_span_id frame events) (\<lambda>source_fact_refs.
     pret \<lparr>st_span = execution_span_id, st_session = session_id, st_context = initial_session_context, st_events = events,
       st_frame = frame, st_steps = [''event_ingress'', ''database_persistence'', ''perception_frame_build''] @ db_steps,
       st_fact_refs = source_fact_refs\<rparr>)))))))))"

definition ask_federation :: "'b workflow \<Rightarrow> run_start \<Rightarrow> dict \<Rightarrow> ('b, dict \<times> dict) wf_prog" where
  "ask_federation flow st ctx = (case wf_federation flow of
     None \<Rightarrow> pret (ctx, [])
   | Some provider \<Rightarrow> pbind (by_part (provider (st_frame st) ctx)) (\<lambda>answer.
       case answer of
         None \<Rightarrow> pret (ctx, [])
       | Some evidence \<Rightarrow> if evidence = [] then pret (ctx, [])
           else pbind (plift (sub_dict evidence ''route_decision'')) (\<lambda>route_decision.
             pbind (fact (st_span st) ''federation_route''
               (py_str (por (dget route_decision ''target_node'') (por (dget evidence ''command'') (PStr (pf_frame_id (st_frame st)))))) evidence) (\<lambda>_.
             pret (dset ctx ''federation_route_evidence'' (PDict evidence), evidence)))))"

text \<open>The session context, with the federation evidence, which is empty where there is none.\<close>

definition load_session_context :: "'b workflow \<Rightarrow> run_start \<Rightarrow> ('b, dict \<times> dict) wf_prog" where
  "load_session_context flow st =
     pbind (maf_runtime_metadata flow) (\<lambda>maf.
     pbind (memory_runtime_metadata flow) (\<lambda>mem.
     pbind (manifest_of flow) (\<lambda>manifest.
     pbind (plift (mcp_descriptor_summary manifest None)) (\<lambda>mcp.
     ask_federation flow st (dupdate [(''execution_span_id'', PStr (st_span st))] (st_context st @ [
       (''maf_runtime'', PDict maf), (''memory_runtime'', PDict mem)]
       @ (case extract_target_app_id_from_events (st_events st) of Some a \<Rightarrow> [(''target_app_id'', PStr a)] | None \<Rightarrow> [])
       @ [(''skill_descriptors'', PList [PDict (skill_descriptor_summary (qi_skill (wf_quality flow)))]),
          (''mcp_descriptors'', PList [PDict mcp])]))))))"

section \<open>Memory\<close>

definition with_fact_refs :: "string list \<Rightarrow> dict \<Rightarrow> dict result" where
  "with_fact_refs refs candidate = (let payload = dset candidate ''source_fact_refs'' (texts refs) in
     ebind (py_dict (por (dget payload ''memory_governance'') (PDict []))) (\<lambda>governance.
     Inr (dset payload ''memory_governance'' (PDict (dset (dset governance ''source_fact_refs'' (texts refs))
       ''source_fact_ref_count'' (PInt (int (length refs))))))))"

definition lifecycle_text :: "dict \<Rightarrow> string result" where
  "lifecycle_text payload = ebind (py_dict (por (dget payload ''memory_governance'') (PDict []))) (\<lambda>g.
     Inr (py_str (dget g ''lifecycle_state'')))"

definition count_state :: "string \<Rightarrow> string list \<Rightarrow> pyval" where
  "count_state state states = PInt (int (length (filter (\<lambda>s. s = state) states)))"

text \<open>The candidates to commit, those that were screened, and the context with their counts.\<close>

definition propose_memories :: "'b workflow \<Rightarrow> run_start \<Rightarrow> dict \<Rightarrow> ('b, dict list \<times> dict list \<times> dict) wf_prog" where
  "propose_memories flow st ctx = (case mem_propose (wf_memory flow) of
     None \<Rightarrow> pret ([], [], ctx)
   | Some propose \<Rightarrow>
       pbind (by_memory (propose (st_frame st))) (\<lambda>candidates.
       pbind (plift (emap (with_fact_refs (st_fact_refs st)) candidates)) (\<lambda>candidate_payloads.
       pbind (case mem_screen (wf_memory flow) of Some screen \<Rightarrow> by_memory (screen candidate_payloads) | None \<Rightarrow> pret candidate_payloads) (\<lambda>screened.
       pbind (pmap (\<lambda>c. on_db (\<lambda>d. persist_memory_candidate d (st_span st) (str_or (dget c ''semantic_topic'') ''unknown'') c)) screened) (\<lambda>_.
       pbind (plift (emap lifecycle_text screened)) (\<lambda>states.
       pret (candidate_payloads, screened, dset (dset (dset ctx ''memory_candidate_count'' (PInt (int (length screened))))
         ''accepted_memory_candidate_count'' (count_state ''accepted'' states))
         ''rejected_memory_candidate_count'' (count_state ''rejected'' states))))))))"

definition commit_memories :: "'b workflow \<Rightarrow> run_start \<Rightarrow> dict list \<Rightarrow> dict \<Rightarrow> ('b, dict) wf_prog" where
  "commit_memories flow st candidates ctx = (case mem_commit (wf_memory flow) of
     None \<Rightarrow> pret ctx
   | Some commit \<Rightarrow> pbind (by_memory (commit (st_span st) candidates)) (\<lambda>ids.
       pbind (memory_runtime_metadata flow) (\<lambda>mem.
       pret (dset (dset (dset ctx ''committed_memory_count'' (PInt (int (length ids)))) ''committed_memory_ids'' (texts ids))
         ''memory_runtime'' (PDict mem)))))"

definition recall_and_commit :: "'b workflow \<Rightarrow> run_start \<Rightarrow> dict \<Rightarrow> ('b, dict list \<times> dict) wf_prog" where
  "recall_and_commit flow st ctx0 =
     pbind (by_memory (mem_lookup (wf_memory flow) (st_frame st))) (\<lambda>memory_items.
     pbind (memory_runtime_metadata flow) (\<lambda>mem.
     pbind (propose_memories flow st (dset (dset ctx0 ''memory_lookup_count'' (PInt (int (length memory_items))))
        ''memory_runtime'' (PDict mem))) (\<lambda>(candidates, screened, ctx1).
     let to_commit = (if screened \<noteq> [] then screened else candidates) in
     pbind (commit_memories flow st to_commit ctx1) (\<lambda>ctx2.
     pbind (plift (ebind (int_or0 (dget ctx2 ''accepted_memory_candidate_count'')) (\<lambda>accepted.
        ebind (int_or0 (dget ctx2 ''rejected_memory_candidate_count'')) (\<lambda>rejected.
        ebind (int_or0 (dget ctx2 ''committed_memory_count'')) (\<lambda>committed. Inr (accepted, rejected, committed)))))) (\<lambda>(accepted, rejected, committed).
     pbind (memory_runtime_metadata flow) (\<lambda>mem'.
     pbind (fact (st_span st) ''memory_governance_summary'' (pf_frame_id (st_frame st)) [
        (''candidate_count'', PInt (int (length to_commit))), (''accepted_candidate_count'', accepted),
        (''rejected_candidate_count'', rejected), (''committed_memory_count'', committed),
        (''source_fact_ref_count'', PInt (int (length (st_fact_refs st)))), (''memory_runtime'', PDict mem')]) (\<lambda>_.
     pret (memory_items, ctx2))))))))"


section \<open>The agents\<close>

text \<open>What the prompt offers the agents: the safe context, its memory items and its affective part.\<close>

record run_prompt =
  pt_context :: dict
  pt_tools :: "dict list"
  pt_prompt :: dict
  pt_items :: "pyval list"
  pt_affective :: dict

definition prepare_prompt :: "'b workflow \<Rightarrow> run_start \<Rightarrow> dict list \<Rightarrow> dict \<Rightarrow> ('b, run_prompt) wf_prog" where
  "prepare_prompt flow st memory_items ctx =
     pbind (available_tool_context flow) (\<lambda>available_tools.
     pbind (plift (build_affective_runtime_context (wf_environ flow) (live_backend flow) (st_frame st) (st_events st))) (\<lambda>affective_context.
     let ctx1 = dset (dset ctx ''available_tools'' (PList (map PDict available_tools))) ''affective_runtime_context'' (PDict affective_context) in
     pbind (fact (st_span st) ''affective_runtime_context'' (pf_frame_id (st_frame st)) affective_context) (\<lambda>_.
     pbind (plift (build_prompt_safe_context ctx1 (st_frame st) memory_items (map PDict available_tools))) (\<lambda>prompt.
     pbind (plift (sub_dict prompt ''memory'')) (\<lambda>memory_prompt.
     pbind (plift (sub_dict memory_prompt ''recall_policy'')) (\<lambda>recall_policy.
     pbind (fact (st_span st) ''memory_recall_policy'' (pf_frame_id (st_frame st)) recall_policy) (\<lambda>_.
     pbind (plift (list_of (dget memory_prompt ''affective_items''))) (\<lambda>items.
     pbind (plift (sub_dict prompt ''affective_runtime'')) (\<lambda>affective.
     pret \<lparr>pt_context = dset (dset ctx1 ''prompt_safe_context'' (PDict prompt)) ''memory_recall_policy'' (PDict recall_policy),
       pt_tools = available_tools, pt_prompt = prompt, pt_items = items, pt_affective = affective\<rparr>)))))))))"

text \<open>With the real provider, a run without a ready route stops before any model is called.\<close>

definition require_route :: "'b workflow \<Rightarrow> dict \<Rightarrow> unit result" where
  "require_route flow affective =
     ebind (sub_dict affective ''profile_route'') (\<lambda>route_summary.
     if live_backend flow \<and> \<not> truthy (dget_or route_summary ''route_ready'' (PBool False))
     then Inl (ValueError (''affective_provider_inference_route_unavailable:''
       @ str_or (por (dget route_summary ''failure_status'') (dget route_summary ''route_status'')) ''unavailable''))
     else Inr ())"

definition decide_and_plan_run :: "'b workflow \<Rightarrow> run_start \<Rightarrow> run_prompt
    \<Rightarrow> ('b, dict \<times> AffectiveDecision \<times> (string + RationalPlan option)) wf_prog" where
  "decide_and_plan_run flow st pt =
     pbind (plift (require_route flow (pt_affective pt))) (\<lambda>_.
     pbind (by_part (wf_decide flow (st_frame st) (pt_items pt) (pt_affective pt))) (\<lambda>decision.
     pbind (maf_runtime_metadata flow) (\<lambda>maf.
     pbind (plift (build_model_call_evidence (st_frame st) decision maf (pt_affective pt))) (\<lambda>evidence.
     pbind (catch_value_error (by_part (wf_plan flow decision (st_frame st) (pt_tools pt) (pt_prompt pt)))) (\<lambda>outcome.
     pret (dset (pt_context pt) ''model_call_evidence'' (PDict evidence), decision, outcome))))))"

section \<open>The planned tool call\<close>

definition tool_result_of :: "string \<Rightarrow> string \<Rightarrow> dict \<Rightarrow> ('a world, ToolExecutionResult) prog" where
  "tool_result_of tool_name status payload = pbind (draw_id ''tool'') (\<lambda>i.
     pret \<lparr>te_tool_result_id = i, te_tool_name = tool_name, te_status = status, te_payload = payload\<rparr>)"

definition persist_result :: "string \<Rightarrow> ToolExecutionResult \<Rightarrow> ('a world, unit) prog" where
  "persist_result execution_span_id r = write_db (\<lambda>d. persist_tool_result d (te_tool_result_id r) execution_span_id (te_tool_name r)
     (te_status r) (te_payload r))"

definition persist_policy :: "string \<Rightarrow> string \<Rightarrow> ToolPolicyDecision \<Rightarrow> ('a world, unit) prog" where
  "persist_policy execution_span_id tool_name decision = write_db (\<lambda>d. ebind (persist_policy_decision d execution_span_id tool_name
     (ToolPolicyDecision_to_dict decision)) (\<lambda>(_, d'). Inr d'))"

definition add_pending :: "'b workflow \<Rightarrow> dict \<Rightarrow> string \<Rightarrow> dict result" where
  "add_pending flow ctx approval_request_id =
     ebind (py_list (dget_or ctx ''pending_approval_request_ids'' (PList []))) (\<lambda>ids.
     Inr (dset ctx ''pending_approval_request_ids'' (PList (wf_set_order flow (remdups (ids @ [PStr approval_request_id]))))))"

text \<open>Store a pending approval request and answer with a result that waits for it.\<close>

definition request_approval :: "'b workflow \<Rightarrow> run_start \<Rightarrow> string \<Rightarrow> (string \<Rightarrow> dict) \<Rightarrow> (dict \<Rightarrow> dict) \<Rightarrow> ('b, ToolExecutionResult \<times> string) wf_prog" where
  "request_approval flow st tool_name request_of payload_of =
     pbind (draw_id ''approval'') (\<lambda>approval_request_id.
     let request = request_of approval_request_id in
     pbind (write_db (\<lambda>d. case persist_approval_request d (st_session st) (st_span st) tool_name ''pending'' request
        (Some approval_request_id) of (_, d') \<Rightarrow> Inr d')) (\<lambda>_.
     pbind (tool_result_of tool_name ''pending_approval'' (payload_of request)) (\<lambda>r.
     pret (r, approval_request_id))))"

definition planned_request :: "RationalPlan \<Rightarrow> ToolContract \<Rightarrow> dict \<Rightarrow> dict \<Rightarrow> string \<Rightarrow> dict" where
  "planned_request plan contract policy_payload plan_quality approval_request_id = [
     (''approval_request_id'', PStr approval_request_id), (''tool_name'', PStr (rp_tool_name plan)),
     (''reason'', PStr ''operator_approval_required_before_execution''), (''requested_args'', PDict (rp_args plan)),
     (''required_resources'', texts (tc_required_resources contract)), (''cleanup_hint'', tc_cleanup_hint contract),
     (''side_effect_level'', PStr (tc_side_effect_level contract)), (''policy_decision'', PDict policy_payload),
     (''contract'', PDict (ToolContract_to_dict contract)), (''plan_quality'', PDict plan_quality),
     (''skill_requirements'', dget plan_quality ''skill_requirements''), (''status'', PStr ''pending'')]"

definition pending_payload :: "dict \<Rightarrow> dict \<Rightarrow> dict \<Rightarrow> dict" where
  "pending_payload policy_payload quality_entry request = [
     (''failure_status'', PStr ''approval_required''), (''failure_class'', PStr ''approval_gate_pending''),
     (''policy_decision'', PDict policy_payload)] @ quality_entry @ [(''approval_request'', PDict request)]"

text \<open>Behind the policy: the call, the request for an approval, or a refusal.\<close>

definition governed_call :: "'b workflow \<Rightarrow> run_start \<Rightarrow> dict \<Rightarrow> RationalPlan \<Rightarrow> ToolContract \<Rightarrow> dict \<Rightarrow> ('b, ToolExecutionResult \<times> dict) wf_prog" where
  "governed_call flow st ctx plan contract plan_quality =
     pbind (plift (evaluate_contract contract)) (\<lambda>policy_decision.
     let policy_payload = ToolPolicyDecision_to_dict policy_decision in
     pbind (persist_policy (st_span st) (rp_tool_name plan) policy_decision) (\<lambda>_.
     if pd_allowed policy_decision then
       pbind (by_part (wa_execute (wf_adapter flow) (rp_tool_name plan) (rp_args plan))) (\<lambda>r.
       pret (r\<lparr>te_payload := dset (dset (te_payload r) ''policy_decision'' (PDict policy_payload)) ''plan_quality'' (PDict plan_quality)\<rparr>, ctx))
     else if pd_approval_required policy_decision then
       pbind (request_approval flow st (rp_tool_name plan) (planned_request plan contract policy_payload plan_quality)
         (pending_payload policy_payload [(''plan_quality'', PDict plan_quality)])) (\<lambda>(r, approval_request_id).
       pbind (plift (add_pending flow ctx approval_request_id)) (\<lambda>ctx'. pret (r, ctx')))
     else
       pbind (tool_result_of (rp_tool_name plan) ''blocked'' [
         (''failure_status'', PStr ''policy_blocked''), (''failure_class'', PStr ''tool_policy_denied''),
         (''policy_decision'', PDict policy_payload), (''plan_quality'', PDict plan_quality)]) (\<lambda>r. pret (r, ctx))))"

definition planned_call :: "'b workflow \<Rightarrow> run_start \<Rightarrow> dict \<Rightarrow> dict list \<Rightarrow> RationalPlan \<Rightarrow> ('b, ToolExecutionResult \<times> dict) wf_prog" where
  "planned_call flow st ctx available_tools plan =
     pbind (by_part (wa_describe (wf_adapter flow) (rp_tool_name plan))) (\<lambda>described.
     case described of
       None \<Rightarrow> pbind (tool_result_of (rp_tool_name plan) ''error'' [
           (''failure_status'', PStr ''unknown_tool''), (''failure_class'', PStr ''manifest_lookup_failed''),
           (''requested_plan'', PDict (RationalPlan_to_dict plan)), (''available_tools'', PList (map PDict available_tools))])
         (\<lambda>r. pret (r, ctx))
     | Some contract \<Rightarrow>
         pbind (manifest_of flow) (\<lambda>manifest.
         pbind (plift (build_rational_plan_quality (wf_quality flow) manifest plan contract available_tools)) (\<lambda>plan_quality.
         if \<not> truthy (dget_or plan_quality ''valid'' (PBool False)) then
           pbind (tool_result_of (rp_tool_name plan) ''error'' [
             (''failure_status'', PStr ''missing_required_arguments''), (''failure_class'', PStr ''rational_plan_contract_invalid''),
             (''requested_plan'', PDict (RationalPlan_to_dict plan)), (''contract'', PDict (ToolContract_to_dict contract)),
             (''plan_quality'', PDict plan_quality)]) (\<lambda>r. pret (r, ctx))
         else governed_call flow st ctx plan contract plan_quality)))"

section \<open>After an unhealthy activation\<close>

definition rollback_request_of :: "ToolContract \<Rightarrow> dict \<Rightarrow> dict \<Rightarrow> string \<Rightarrow> dict" where
  "rollback_request_of contract policy_payload summary approval_request_id = (let app_id = PStr (str_or (dget summary ''app_id'') []) in [
     (''approval_request_id'', PStr approval_request_id), (''tool_name'', PStr ''system_rollback_app''),
     (''reason'', PStr ''operator_approval_required_for_guarded_rollback''),
     (''requested_args'', PDict [(''app_id'', app_id), (''app'', app_id),
        (''reason'', PStr ''guarded_rollback_after_activation_health_failure'')]),
     (''required_resources'', texts (tc_required_resources contract)), (''cleanup_hint'', tc_cleanup_hint contract),
     (''side_effect_level'', PStr (tc_side_effect_level contract)), (''policy_decision'', PDict policy_payload),
     (''contract'', PDict (ToolContract_to_dict contract)), (''status'', PStr ''pending''), (''target_app_id'', app_id),
     (''recovery_candidate_summary'', PDict summary)])"

text \<open>The request for a rollback, when the tool needs one.\<close>

definition propose_rollback :: "'b workflow \<Rightarrow> run_start \<Rightarrow> dict \<Rightarrow> dict \<Rightarrow> ('b, ToolExecutionResult list \<times> dict) wf_prog" where
  "propose_rollback flow st ctx summary =
     pbind (by_part (wa_describe (wf_adapter flow) ''system_rollback_app'')) (\<lambda>described.
     case described of
       None \<Rightarrow> pret ([], ctx)
     | Some contract \<Rightarrow>
         pbind (plift (evaluate_contract contract)) (\<lambda>policy_decision.
         let policy_payload = ToolPolicyDecision_to_dict policy_decision in
         pbind (persist_policy (st_span st) ''system_rollback_app'' policy_decision) (\<lambda>_.
         if \<not> pd_approval_required policy_decision then pret ([], ctx)
         else pbind (request_approval flow st ''system_rollback_app'' (rollback_request_of contract policy_payload summary)
             (pending_payload policy_payload [])) (\<lambda>(r, approval_request_id).
           pbind (persist_result (st_span st) r) (\<lambda>_.
           pbind (plift (add_pending flow ctx approval_request_id)) (\<lambda>ctx'. pret ([r], ctx')))))))"

definition observe_recovery :: "'b workflow \<Rightarrow> run_start \<Rightarrow> dict \<Rightarrow> dict \<Rightarrow> ('b, ToolExecutionResult list \<times> dict) wf_prog" where
  "observe_recovery flow st ctx activation_health =
     pbind (by_part (wa_describe (wf_adapter flow) ''system_query_leases'')) (\<lambda>described.
     case described of
       None \<Rightarrow> pret ([], ctx)
     | Some contract \<Rightarrow>
         pbind (plift (evaluate_contract contract)) (\<lambda>policy_decision.
         pbind (persist_policy (st_span st) ''system_query_leases'' policy_decision) (\<lambda>_.
         if \<not> pd_allowed policy_decision then pret ([], ctx)
         else pbind (by_part (wa_execute (wf_adapter flow) ''system_query_leases'' [
             (''event_ids'', texts (pf_event_ids (st_frame st))), (''reason'', PStr ''rollback_candidate_lease_observation'')])) (\<lambda>observed.
           let lease_result = observed\<lparr>te_payload := dset (te_payload observed) ''policy_decision''
                 (PDict (ToolPolicyDecision_to_dict policy_decision))\<rparr> in
           pbind (persist_result (st_span st) lease_result) (\<lambda>_.
           pbind (plift (build_recovery_candidate_summary activation_health (ToolExecutionResult_to_dict lease_result)
             (extract_activate_failed_event_payload (st_events st)))) (\<lambda>summary.
           pbind (fact (st_span st) ''recovery_candidate'' (py_str (por (dget summary ''app_id'')
             (por (dget summary ''rollback_decision'') (PStr ''recovery-candidate'')))) summary) (\<lambda>_.
           pbind (propose_rollback flow st (dset ctx ''recovery_candidate_summary'' (PDict summary)) summary) (\<lambda>(more_results, ctx').
           pret (lease_result # more_results, ctx')))))))))"

definition follow_up :: "'b workflow \<Rightarrow> run_start \<Rightarrow> dict \<Rightarrow> ToolExecutionResult \<Rightarrow> ('b, ToolExecutionResult list \<times> dict) wf_prog" where
  "follow_up flow st ctx result = (
     if te_tool_name result \<noteq> ''system_activation_health_guard'' \<or> te_status result \<noteq> ''ok'' then pret ([result], ctx)
     else pbind (plift (sub_dict (te_payload result) ''activation_health'')) (\<lambda>activation_health.
       pbind (fact (st_span st) ''activation_health_observation'' (py_str (por (dget activation_health ''app_id'')
         (por (dget activation_health ''classification'') (PStr ''activation-health'')))) activation_health) (\<lambda>_.
       if dget activation_health ''classification'' \<noteq> PStr ''rollback_required'' then pret ([result], ctx)
       else pbind (observe_recovery flow st ctx activation_health) (\<lambda>(results, ctx'). pret (result # results, ctx')))))"

text \<open>The tools of the run. A plan that was invalid is answered, but not stored.\<close>

definition run_tools :: "'b workflow \<Rightarrow> run_start \<Rightarrow> dict \<Rightarrow> dict list \<Rightarrow> string + RationalPlan option \<Rightarrow> ('b, ToolExecutionResult list \<times> dict) wf_prog" where
  "run_tools flow st ctx available_tools outcome = (case outcome of
     Inl failure_status \<Rightarrow> if failure_status = [] then pret ([], ctx)
       else pbind (tool_result_of ''rational_plan_validation'' ''error'' [
         (''failure_status'', PStr failure_status), (''failure_class'', PStr ''rational_plan_payload_invalid''),
         (''available_tools'', PList (map PDict available_tools))]) (\<lambda>r. pret ([r], ctx))
   | Inr None \<Rightarrow> pret ([], ctx)
   | Inr (Some plan) \<Rightarrow>
       pbind (planned_call flow st ctx available_tools plan) (\<lambda>(result, ctx').
       pbind (persist_result (st_span st) result) (\<lambda>_.
       follow_up flow st ctx' result)))"


section \<open>The end of a run\<close>

definition state_sync_summary_of :: "ToolExecutionResult \<Rightarrow> dict result" where
  "state_sync_summary_of r = (
     if te_status r = ''ok'' then
       ebind (py_dict (por (dget (te_payload r) ''state_sync'') (PDict []))) (\<lambda>snapshot.
       ebind (list_of (dget snapshot ''recommended_next_actions'')) (\<lambda>actions. Inr [
         (''tool_status'', PStr (te_status r)), (''snapshot_status'', dget_or snapshot ''status'' (PStr ''unknown'')),
         (''recommended_next_actions'', PList actions), (''failure_class'', PStr []), (''failure_status'', PStr [])]))
     else (let nested = (case dget (te_payload r) ''payload'' of PDict d \<Rightarrow> d | _ \<Rightarrow> []) in
       ebind (if nested \<noteq> [] then list_of (dget nested ''recommended_next_actions'') else Inr []) (\<lambda>actions. Inr [
         (''tool_status'', PStr (te_status r)), (''snapshot_status'', PStr (str_or (dget nested ''status'') ''error'')),
         (''recommended_next_actions'', PList actions), (''failure_class'', text0 (te_payload r) ''failure_class''),
         (''failure_status'', text0 (te_payload r) ''failure_status'')])))"

definition activation_health_summary_of :: "ToolExecutionResult \<Rightarrow> dict result" where
  "activation_health_summary_of r =
     ebind (py_dict (por (dget (te_payload r) ''activation_health'') (PDict []))) (\<lambda>observation.
     ebind (list_of (dget observation ''recommended_next_actions'')) (\<lambda>actions. Inr [
       (''tool_status'', PStr (te_status r)), (''classification'', PStr (str_or (dget observation ''classification'') ''unknown'')),
       (''reason'', text0 observation ''reason''),
       (''ready_for_rollback_consideration'', flag observation ''ready_for_rollback_consideration''),
       (''app_id'', text0 observation ''app_id''), (''network_state'', PStr (str_or (dget observation ''network_state'') ''unknown'')),
       (''observed_app_state'', PStr (str_or (dget observation ''observed_app_state'') ''unknown'')),
       (''recommended_next_actions'', PList actions)]))"

text \<open>The last result of a tool decides its summary.\<close>

definition summary_of :: "string \<Rightarrow> (ToolExecutionResult \<Rightarrow> dict result) \<Rightarrow> ToolExecutionResult list \<Rightarrow> dict option result" where
  "summary_of tool_name f results = efold (\<lambda>acc r. if te_tool_name r = tool_name then ebind (f r) (\<lambda>d. Inr (Some d)) else Inr acc) None results"

definition dict_entry :: "dict \<Rightarrow> string \<Rightarrow> pyval" where
  "dict_entry d k = (case dget d k of PDict e \<Rightarrow> PDict e | _ \<Rightarrow> PNone)"

definition build_audit_payload :: "perception_frame \<Rightarrow> AffectiveDecision \<Rightarrow> dict \<Rightarrow> ToolExecutionResult list \<Rightarrow> dict \<Rightarrow> dict \<Rightarrow> dict \<Rightarrow> dict \<Rightarrow> dict result" where
  "build_audit_payload frame decision ctx results final_response notification adapter_runtime maf_runtime =
     ebind (summary_of ''system_state_sync'' state_sync_summary_of results) (\<lambda>state_sync.
     ebind (summary_of ''system_activation_health_guard'' activation_health_summary_of results) (\<lambda>health. Inr [
       (''frame'', PDict (PerceptionFrame_to_dict frame)), (''decision'', PDict (AffectiveDecision_to_dict decision)),
       (''session_context'', PDict ctx), (''maf_runtime'', PDict maf_runtime), (''adapter_runtime'', PDict adapter_runtime),
       (''state_sync_summary'', opt_dict state_sync), (''activation_health_summary'', opt_dict health),
       (''rational_plan_evidence'', dict_entry ctx ''rational_plan_evidence''),
       (''recovery_candidate_summary'', dict_entry ctx ''recovery_candidate_summary''),
       (''notification_summary'', PDict notification), (''final_response'', PDict final_response),
       (''tool_results'', PList (map (\<lambda>r. PDict (ToolExecutionResult_to_dict r)) results))]))"

text \<open>What is recorded of a run that reached its end, and the result it returns.\<close>

record run_end =
  en_federation :: dict
  en_decision :: AffectiveDecision
  en_plan :: "RationalPlan option"
  en_results :: "ToolExecutionResult list"
  en_steps :: "string list"

definition span_end_payload :: "run_request \<Rightarrow> run_start \<Rightarrow> run_end \<Rightarrow> string \<Rightarrow> dict result" where
  "span_end_payload rq st en audit_id =
     ebind (sub_dict (en_federation en) ''route_decision'') (\<lambda>route_decision. Inr [
       (''event_source'', PStr (rq_event_source rq)), (''session_id'', PStr (st_session st)), (''steps'', texts (en_steps en)),
       (''events_persisted'', PInt (int (length (st_events st)))), (''normalized_event_count'', PInt (int (length (st_events st)))),
       (''delegated'', PBool (en_plan en \<noteq> None)), (''tool_result_count'', PInt (int (length (en_results en)))),
       (''audit_id'', PStr audit_id), (''federation_route_status'', text0 (en_federation en) ''status''),
       (''federation_route_kind'', text0 route_decision ''route_kind'')])"

definition finish_run :: "'b workflow \<Rightarrow> run_request \<Rightarrow> run_start \<Rightarrow> dict \<Rightarrow> run_end \<Rightarrow> ('b, workflow_result) wf_prog" where
  "finish_run flow rq st ctx en = (
     let final_response = build_final_response (st_frame st) (en_decision en) (en_results en) in
     pbind (draw_id ''notif'') (\<lambda>notification_id.
     let notification = build_notification_summary (st_frame st) (en_decision en) final_response notification_id in
     pbind (fact (st_span st) ''notification_dispatch'' (py_str (por (dget notification ''notification_id'')
        (por (dget final_response ''speaker'') (PStr ''notification'')))) notification) (\<lambda>_.
     pbind (draw_id ''audit'') (\<lambda>audit_id.
     pbind (maf_runtime_metadata flow) (\<lambda>maf.
     pbind (read_part (\<lambda>b. case wa_metadata (wf_adapter flow) of Some f \<Rightarrow> f b | None \<Rightarrow> [])) (\<lambda>adapter_runtime.
     pbind (plift (build_audit_payload (st_frame st) (en_decision en) ctx (en_results en) final_response notification adapter_runtime maf)) (\<lambda>audit.
     pbind (write_db (\<lambda>d. persist_audit_record d audit_id (st_span st) ''ok'' audit (Some (st_session st)))) (\<lambda>_.
     pbind (plift (span_end_payload rq st en audit_id)) (\<lambda>payload.
     pbind (write_db (\<lambda>d. Inr (persist_execution_span d (st_span st) ''ok'' payload (Some (st_session st))))) (\<lambda>_.
     pret \<lparr>wr_status = ''ok'', wr_execution_span_id = st_span st, wr_session_id = st_session st, wr_final_response = final_response,
       wr_steps = en_steps en @ [''notification_dispatch''], wr_events_persisted = int (length (st_events st)),
       wr_delegated = (en_plan en \<noteq> None), wr_tool_results = map ToolExecutionResult_to_dict (en_results en),
       wr_audit_id = audit_id\<rparr>))))))))))"

definition planned_of :: "string + RationalPlan option \<Rightarrow> RationalPlan option" where
  "planned_of outcome = (case outcome of Inl _ \<Rightarrow> None | Inr p \<Rightarrow> p)"

definition plan_failure_of :: "string + RationalPlan option \<Rightarrow> string" where
  "plan_failure_of outcome = (case outcome of Inl m \<Rightarrow> m | Inr _ \<Rightarrow> [])"

definition workflow_run :: "'b workflow \<Rightarrow> run_request \<Rightarrow> dict list \<Rightarrow> ('b, workflow_result) wf_prog" where
  "workflow_run flow rq raw_events =
     pbind (begin_run rq raw_events) (\<lambda>st.
     pbind (load_session_context flow st) (\<lambda>(ctx0, federation).
     pbind (recall_and_commit flow st ctx0) (\<lambda>(memory_items, ctx1).
     pbind (prepare_prompt flow st memory_items ctx1) (\<lambda>pt.
     pbind (decide_and_plan_run flow st pt) (\<lambda>(ctx2, decision, outcome).
     pbind (run_tools flow st ctx2 (pt_tools pt) outcome) (\<lambda>(results, ctx3).
     finish_run flow rq st (dset ctx3 ''rational_plan_evidence'' (PDict (build_rational_plan_evidence (planned_of outcome)
         (plan_failure_of outcome) (pt_tools pt) results)))
       \<lparr>en_federation = federation, en_decision = decision, en_plan = planned_of outcome, en_results = results,
        en_steps = st_steps st @ [''session_context_load'', ''long_term_memory_lookup_stub'',
          if live_backend flow then ''affective_model_call'' else ''affective_arbitration'',
          ''rational_delegate_optional'', ''tool_and_unit_execution'', ''audit_record'']\<rparr>))))))"

end
