(* ===== verification/CoreRun.thy ===== *)
theory CoreRun
  imports Workflow Provider
begin

text \<open>
  The core workflow put together: \<open>NoModelCoreWorkflow.__init__\<close> on the agents, memory backends and tool adapter
  of the library, and what holds of a whole run: what it may execute, what it writes, and when it stops.
\<close>

section \<open>The workflow and its default parts\<close>

definition fake_adapter :: "'b workflow_adapter" where
  "fake_adapter = \<lparr>wa_manifest = Some (pret tool_manifest), wa_describe = (\<lambda>t. pret (describe_tool t)),
     wa_execute = (\<lambda>t args. pupdate (fake_execute t args)),
     wa_metadata = Some (\<lambda>_. [(''adapter_kind'', PStr ''fake''), (''runtime_source'', PStr ''fake_no_model''),
       (''wrapper_path'', PStr ''neuro_cli/scripts/invoke_neuro_cli.py''), (''node'', PStr ''unit-01''),
       (''source_core'', PStr ''core-cli''), (''source_agent'', PStr ''rational''), (''supports_real_process'', PBool False)])\<rparr>"

text \<open>What a memory operation that raises had already written or drawn is not modelled: it leaves the database as it was.\<close>

definition screen_with_clock :: "dict list \<Rightarrow> (db \<times> 'b, dict list) prog" where
  "screen_with_clock candidates = pupdate (\<lambda>((s, w), b). ebind (screen_candidates candidates w) (\<lambda>(cs, w'). Inr (cs, (s, w'), b)))"

definition fake_memory :: "'b memory_backend" where
  "fake_memory = \<lparr>mem_lookup = (\<lambda>_. pret []), mem_propose = Some (\<lambda>frame. plift (fake_propose_candidates frame)),
     mem_screen = Some screen_with_clock, mem_commit = None, mem_metadata = Some (\<lambda>_. fake_runtime_metadata)\<rparr>"

definition local_memory :: "'b memory_backend" where
  "local_memory = \<lparr>mem_lookup = (\<lambda>frame. pbind (pread (\<lambda>((s, w), b). local_lookup s frame)) plift),
     mem_propose = Some (\<lambda>frame. plift (local_propose_candidates frame)), mem_screen = Some screen_with_clock,
     mem_commit = Some (\<lambda>execution_span_id candidates. pupdate (\<lambda>(d, b).
       ebind (local_commit_candidates execution_span_id candidates d) (\<lambda>(ids, d'). Inr (ids, d', b)))),
     mem_metadata = Some (\<lambda>_. local_runtime_metadata)\<rparr>"

definition new_workflow :: "MafRuntimeProfile \<Rightarrow> osenv \<Rightarrow> quality_inputs \<Rightarrow> 'b affective_agent \<Rightarrow> 'b rational_agent \<Rightarrow> 'b memory_backend
    \<Rightarrow> 'b workflow_adapter \<Rightarrow> (perception_frame \<Rightarrow> dict \<Rightarrow> ('b \<times> env, dict option) prog) option \<Rightarrow> (pyval list \<Rightarrow> pyval list) \<Rightarrow> 'b workflow" where
  "new_workflow profile env quality affective rational memory adapter federation set_order =
     \<lparr>wf_profile = profile, wf_environ = env, wf_quality = quality,
      wf_decide = (\<lambda>frame items context. aa_decide affective frame items (Some context)),
      wf_plan = (\<lambda>decision frame tools prompt. ra_plan rational decision frame (Some tools) (Some prompt)),
      wf_agents = (\<lambda>_. [aa_metadata affective, ra_metadata rational]), wf_memory = memory, wf_adapter = adapter,
      wf_federation = federation, wf_set_order = set_order\<rparr>"

text \<open>\<open>NoModelCoreWorkflow()\<close> without arguments: no model, no memory kept, no unit.\<close>

definition no_model_workflow :: "MafRuntimeProfile \<Rightarrow> osenv \<Rightarrow> quality_inputs \<Rightarrow> (pyval list \<Rightarrow> pyval list) \<Rightarrow> 'b workflow" where
  "no_model_workflow profile env quality set_order = new_workflow profile env quality (maf_affective_adapter profile)
     (maf_rational_adapter profile deterministic_backend) fake_memory fake_adapter None set_order"

section \<open>Only what the policy allows is run\<close>

definition may_run :: "(string \<Rightarrow> ToolContract option) \<Rightarrow> string \<Rightarrow> bool" where
  "may_run described t \<longleftrightarrow> (case described t of
     Some c \<Rightarrow> (case evaluate_contract c of Inr d \<Rightarrow> pd_allowed d | Inl _ \<Rightarrow> False) | None \<Rightarrow> False)"

text \<open>The workflow with another \<open>execute\<close>.\<close>

definition executing :: "'b workflow \<Rightarrow> (string \<Rightarrow> dict \<Rightarrow> ('b \<times> env, ToolExecutionResult) prog) \<Rightarrow> 'b workflow" where
  "executing flow execute = flow\<lparr>wf_adapter := (wf_adapter flow)\<lparr>wa_execute := execute\<rparr>\<rparr>"

lemma executing_fields [simp]:
  "wf_profile (executing flow x) = wf_profile flow" "wf_environ (executing flow x) = wf_environ flow"
  "wf_quality (executing flow x) = wf_quality flow" "wf_decide (executing flow x) = wf_decide flow"
  "wf_plan (executing flow x) = wf_plan flow" "wf_agents (executing flow x) = wf_agents flow"
  "wf_memory (executing flow x) = wf_memory flow" "wf_federation (executing flow x) = wf_federation flow"
  "wf_set_order (executing flow x) = wf_set_order flow" "wa_manifest (wf_adapter (executing flow x)) = wa_manifest (wf_adapter flow)"
  "wa_describe (wf_adapter (executing flow x)) = wa_describe (wf_adapter flow)"
  "wa_metadata (wf_adapter (executing flow x)) = wa_metadata (wf_adapter flow)" "wa_execute (wf_adapter (executing flow x)) = x"
  by (simp_all add: executing_def)

lemma executing_reads [simp]:
  "maf_runtime_metadata (executing flow x) = maf_runtime_metadata flow"
  "memory_runtime_metadata (executing flow x) = memory_runtime_metadata flow"
  "manifest_of (executing flow x) = manifest_of flow"
  "live_backend (executing flow x) = live_backend flow"
  by (simp_all add: maf_runtime_metadata_def memory_runtime_metadata_def manifest_of_def live_backend_def)

lemma executing_stages [simp]:
  "load_session_context (executing flow x) = load_session_context flow"
  "recall_and_commit (executing flow x) = recall_and_commit flow"
  "prepare_prompt (executing flow x) = prepare_prompt flow"
  "decide_and_plan_run (executing flow x) = decide_and_plan_run flow"
  "finish_run (executing flow x) = finish_run flow"
  "request_approval (executing flow x) = request_approval flow"
  "add_pending (executing flow x) = add_pending flow"
  by (intro ext; simp add: load_session_context_def ask_federation_def recall_and_commit_def propose_memories_def commit_memories_def
      prepare_prompt_def available_tool_context_def decide_and_plan_run_def require_route_def finish_run_def request_approval_def
      add_pending_def cong: if_cong option.case_cong)+

lemma by_part_pret [simp]: "by_part (pret x) = pret x"
  by (auto simp: by_part_def pret_def fun_eq_iff)

lemma may_runI: "described t = Some c \<Longrightarrow> evaluate_contract c = Inr d \<Longrightarrow> pd_allowed d \<Longrightarrow> may_run described t"
  by (simp add: may_run_def)

lemma plift_cong: "(\<And>x. r = Inr x \<Longrightarrow> f x = g x) \<Longrightarrow> pbind (plift r) f = pbind (plift r) g"
  by (cases r) simp_all

lemma pbind_cong_fun:
  assumes "\<And>x. f x = g x"
  shows "pbind m f = pbind m g"
proof -
  have "f = g" by (rule ext) (rule assms)
  then show ?thesis by simp
qed

lemma governed_call_executing:
  assumes "described (rp_tool_name plan) = Some contract" "\<And>t args. may_run described t \<Longrightarrow> x t args = wa_execute (wf_adapter flow) t args"
  shows "governed_call (executing flow x) st ctx plan contract q = governed_call flow st ctx plan contract q"
  unfolding governed_call_def Let_def
  by (rule plift_cong, rule pbind_cong_fun) (simp add: assms(2)[OF may_runI[where described = described, OF assms(1)]])

lemma observe_recovery_executing:
  assumes "\<And>t. wa_describe (wf_adapter flow) t = pret (described t)"
    "\<And>t args. may_run described t \<Longrightarrow> x t args = wa_execute (wf_adapter flow) t args"
  shows "observe_recovery (executing flow x) st ctx health = observe_recovery flow st ctx health"
proof -
  have rollback: "propose_rollback (executing flow x) = propose_rollback flow"
    by (intro ext) (simp only: propose_rollback_def executing_stages executing_fields)
  show ?thesis
  proof (cases "described ''system_query_leases''")
    case None
    then show ?thesis by (simp add: observe_recovery_def assms(1))
  next
    case (Some contract)
    show ?thesis
      unfolding observe_recovery_def assms(1) executing_fields by_part_pret pbind_simps Some option.case Let_def rollback
      by (rule plift_cong, rule pbind_cong_fun) (simp add: assms(2)[OF may_runI[where described = described, OF Some]])
  qed
qed

text \<open>C1: 
  A run calls no tool but those whose contract the read-only policy allows: whatever \<open>execute\<close> would do for
  any other tool, the run is the same, the database, the answer and every exception included. The contract
  of a tool is taken not to change during the run, as it is in the fake adapter and, once its manifest is
  read, in the CLI adapter.
\<close>

theorem forbidden_tools_never_run:
  assumes "\<And>t. wa_describe (wf_adapter flow) t = pret (described t)"
    and "\<And>t args. may_run described t \<Longrightarrow> execute' t args = wa_execute (wf_adapter flow) t args"
  shows "workflow_run (executing flow execute') rq raw_events = workflow_run flow rq raw_events"
proof -
  have call: "planned_call (executing flow execute') st ctx tools plan = planned_call flow st ctx tools plan" for st ctx tools plan
  proof (cases "described (rp_tool_name plan)")
    case None
    then show ?thesis by (simp add: planned_call_def assms(1))
  next
    case (Some contract)
    have governed: "governed_call (executing flow execute') st ctx plan contract q = governed_call flow st ctx plan contract q" for q
      by (rule governed_call_executing[where described = described, OF Some]) (rule assms(2))
    show ?thesis by (simp add: planned_call_def assms(1) Some governed cong: if_cong)
  qed
  have recovery: "observe_recovery (executing flow execute') st ctx health = observe_recovery flow st ctx health" for st ctx health
    by (rule observe_recovery_executing[where described = described, OF assms(1)]) (rule assms(2))
  have "follow_up (executing flow execute') = follow_up flow"
    by (intro ext) (simp add: follow_up_def recovery cong: if_cong)
  with call have "run_tools (executing flow execute') = run_tools flow"
    by (intro ext) (simp add: run_tools_def split: sum.split option.split)
  then show ?thesis by (simp add: workflow_run_def)
qed

theorem forbidden_tools_never_run_witness:
  "\<forall>profile env quality set_order rq raw_events.
     workflow_run (executing (no_model_workflow profile env quality set_order) (\<lambda>t args.
       if may_run describe_tool t then pupdate (fake_execute t args) else pfail (ExternalError ''forbidden''))) rq raw_events
     = workflow_run (no_model_workflow profile env quality set_order) rq raw_events
     \<and> may_run describe_tool ''system_query_device'' \<and> \<not> may_run describe_tool ''system_restart_app''"
proof (intro allI conjI)
  fix profile env quality set_order rq raw_events
  show "workflow_run (executing (no_model_workflow profile env quality set_order) (\<lambda>t args.
       if may_run describe_tool t then pupdate (fake_execute t args) else pfail (ExternalError ''forbidden''))) rq raw_events
     = workflow_run (no_model_workflow profile env quality set_order) rq raw_events"
    by (rule forbidden_tools_never_run[where described = describe_tool])
      (simp_all add: no_model_workflow_def new_workflow_def fake_adapter_def)
  show "may_run describe_tool ''system_query_device''" "\<not> may_run describe_tool ''system_restart_app''" by code_simp+
qed

section \<open>With the real provider\<close>

lemma route_not_ready:
  assumes "build_affective_runtime_context env True frame events = Inr c" "\<not> ready_for_model_call (build_maf_provider_config env)"
  obtains r where "dget c ''profile_route'' = PDict r" "r \<noteq> []" "dget r ''route_ready'' = PBool False"
proof -
  obtain normalized where "normalize_multimodal_input (affective_request frame events) = Inr normalized"
    using assms(1) by (cases "normalize_multimodal_input (affective_request frame events)")
      (simp_all add: build_affective_runtime_context_def)
  note built = assms(1)[unfolded build_affective_runtime_context_def this ebind_simps Let_def]
  have "dget (build_inference_route env True override normalized) ''ok'' = PBool False" for override
    using route_by_find[of env True override normalized] assms(2)
    by (auto simp: backend_ready_def dest: find_choice split: option.splits)
  with built show thesis by (auto intro!: that)
qed

lemma summary_route:
  assumes "summarize_affective_runtime_context c = Inr a" "dget c ''profile_route'' = PDict r" "r \<noteq> []"
  obtains r' where "dget a ''profile_route'' = PDict r'" "r' \<noteq> []" "dget r' ''route_ready'' = flag r ''route_ready''"
proof -
  have "sub_dict c ''profile_route'' = Inr r" using assms(2,3) by (simp add: sub_dict_def por_def as_dict_def)
  with assms(1) have "case dget a ''profile_route'' of PDict r' \<Rightarrow> r' \<noteq> [] \<and> dget r' ''route_ready'' = flag r ''route_ready'' | _ \<Rightarrow> False"
    unfolding summarize_affective_runtime_context_def by auto
  then show thesis by (cases "dget a ''profile_route''") (auto intro: that)
qed

lemma prompt_affective:
  assumes "build_prompt_safe_context ctx frame items tools = Inr p" "dget ctx ''affective_runtime_context'' = PDict c" "c \<noteq> []"
  obtains a where "summarize_affective_runtime_context c = Inr a" "dget p ''affective_runtime'' = PDict a"
proof -
  have "sub_dict ctx ''affective_runtime_context'' = Inr c" using assms(2,3) by (simp add: sub_dict_def por_def as_dict_def)
  with assms(1) have "case summarize_affective_runtime_context c of Inr a \<Rightarrow> dget p ''affective_runtime'' = PDict a | Inl _ \<Rightarrow> False"
    unfolding build_prompt_safe_context_def by auto
  then show thesis by (cases "summarize_affective_runtime_context c") (auto intro: that)
qed

lemma truthy_or_false: "truthy (dget_or d k (PBool False)) = truthy (dget d k)"
  by (simp add: dget_or_def dget_def split: option.split)

lemma unready_prompt:
  assumes "live_backend flow" "\<not> ready_for_model_call (build_maf_provider_config (wf_environ flow))"
    and "prepare_prompt flow st items ctx s = (Inr pt, s')"
  shows "\<exists>e. require_route flow (pt_affective pt) = Inl e"
proof -
  from assms(3) obtain tools c prompt where
    summed: "build_affective_runtime_context (wf_environ flow) True (st_frame st) (st_events st) = Inr c"
    and built: "build_prompt_safe_context (dset (dset ctx ''available_tools'' (PList (map PDict tools))) ''affective_runtime_context'' (PDict c))
      (st_frame st) items (map PDict tools) = Inr prompt"
    and affective: "sub_dict prompt ''affective_runtime'' = Inr (pt_affective pt)"
    using assms(1) by (auto simp: prepare_prompt_def Let_def pbind_Inr plift_def pret_def)
  from route_not_ready[OF summed assms(2)] obtain r where
    r: "dget c ''profile_route'' = PDict r" "r \<noteq> []" "dget r ''route_ready'' = PBool False" .
  then have "c \<noteq> []" by (auto simp: dget_def)
  from prompt_affective[OF built _ this] obtain a where
    a: "summarize_affective_runtime_context c = Inr a" "dget prompt ''affective_runtime'' = PDict a" by auto
  from summary_route[OF a(1) r(1,2)] obtain r' where
    r': "dget a ''profile_route'' = PDict r'" "r' \<noteq> []" "dget r' ''route_ready'' = flag r ''route_ready''" .
  then have "a \<noteq> []" by (auto simp: dget_def)
  with affective a(2) have "pt_affective pt = a" by (simp add: sub_dict_def por_def as_dict_def)
  with r' r(3) assms(1) show ?thesis
    by (simp add: require_route_def sub_dict_def por_def as_dict_def flag_def truthy_or_false)
qed

lemma pbind_cong_at: "(\<And>x s'. m s = (Inr x, s') \<Longrightarrow> f x s' = g x s') \<Longrightarrow> pbind m f s = pbind m g s"
  by (auto simp: pbind_def split: prod.split sum.split)

lemma pbind_fails: "(\<And>x s'. m s = (Inr x, s') \<Longrightarrow> isl (fst (f x s'))) \<Longrightarrow> isl (fst (pbind m f s))"
  by (auto simp: pbind_def split: prod.split sum.split)

text \<open>The workflow with other agents and another \<open>execute\<close>.\<close>

definition with_agents :: "'b workflow \<Rightarrow> (perception_frame \<Rightarrow> pyval list \<Rightarrow> dict \<Rightarrow> ('b \<times> env, AffectiveDecision) prog)
    \<Rightarrow> (AffectiveDecision \<Rightarrow> perception_frame \<Rightarrow> dict list \<Rightarrow> dict \<Rightarrow> ('b \<times> env, RationalPlan option) prog) \<Rightarrow> 'b workflow" where
  "with_agents flow decide plan = flow\<lparr>wf_decide := decide, wf_plan := plan\<rparr>"

lemma with_agents_fields [simp]:
  "wf_profile (with_agents flow d p) = wf_profile flow" "wf_environ (with_agents flow d p) = wf_environ flow"
  "wf_quality (with_agents flow d p) = wf_quality flow" "wf_agents (with_agents flow d p) = wf_agents flow"
  "wf_memory (with_agents flow d p) = wf_memory flow" "wf_adapter (with_agents flow d p) = wf_adapter flow"
  "wf_federation (with_agents flow d p) = wf_federation flow"
  "live_backend (with_agents flow d p) = live_backend flow"
  by (simp_all add: with_agents_def live_backend_def)

lemma with_agents_stages [simp]:
  "load_session_context (with_agents flow d p) = load_session_context flow"
  "recall_and_commit (with_agents flow d p) = recall_and_commit flow"
  "prepare_prompt (with_agents flow d p) = prepare_prompt flow"
  "require_route (with_agents flow d p) = require_route flow"
  by (intro ext; simp add: load_session_context_def ask_federation_def recall_and_commit_def propose_memories_def
      commit_memories_def prepare_prompt_def available_tool_context_def require_route_def maf_runtime_metadata_def
      memory_runtime_metadata_def manifest_of_def cong: if_cong option.case_cong)+

text \<open>Up to the agents, a run; and from there on.\<close>

definition prompted :: "'b workflow \<Rightarrow> run_request \<Rightarrow> dict list \<Rightarrow> ('b, run_start \<times> dict \<times> run_prompt) wf_prog" where
  "prompted flow rq raw_events =
     pbind (begin_run rq raw_events) (\<lambda>st.
     pbind (load_session_context flow st) (\<lambda>(ctx0, federation).
     pbind (recall_and_commit flow st ctx0) (\<lambda>(memory_items, ctx1).
     pbind (prepare_prompt flow st memory_items ctx1) (\<lambda>pt. pret (st, federation, pt)))))"

definition after_prompt :: "'b workflow \<Rightarrow> run_request \<Rightarrow> run_start \<Rightarrow> dict \<Rightarrow> run_prompt \<Rightarrow> ('b, workflow_result) wf_prog" where
  "after_prompt flow rq st federation pt =
     pbind (decide_and_plan_run flow st pt) (\<lambda>(ctx2, decision, outcome).
     pbind (run_tools flow st ctx2 (pt_tools pt) outcome) (\<lambda>(results, ctx3).
     finish_run flow rq st (dset ctx3 ''rational_plan_evidence'' (PDict (build_rational_plan_evidence (planned_of outcome)
         (plan_failure_of outcome) (pt_tools pt) results)))
       \<lparr>en_federation = federation, en_decision = decision, en_plan = planned_of outcome, en_results = results,
        en_steps = st_steps st @ [''session_context_load'', ''long_term_memory_lookup_stub'',
          if live_backend flow then ''affective_model_call'' else ''affective_arbitration'',
          ''rational_delegate_optional'', ''tool_and_unit_execution'', ''audit_record'']\<rparr>))"

lemma workflow_run_prompted:
  "workflow_run flow rq raw_events = pbind (prompted flow rq raw_events) (\<lambda>(st, federation, pt). after_prompt flow rq st federation pt)"
  by (simp add: workflow_run_def prompted_def after_prompt_def pbind_assoc split_def split del: if_split)

lemma prompted_fails:
  fixes flow :: "'b workflow"
  assumes "live_backend flow" "\<not> ready_for_model_call (build_maf_provider_config (wf_environ flow))"
    and "prompted flow rq raw_events s = (Inr (st, federation, pt), s')"
  shows "\<exists>e. \<forall>flow' :: 'b workflow. live_backend flow' = live_backend flow \<longrightarrow> after_prompt flow' rq st federation pt = pfail e"
proof -
  from assms(3) obtain items ctx t where "prepare_prompt flow st items ctx t = (Inr pt, s')"
    unfolding prompted_def pbind_Inr pret_def by (elim exE conjE) (simp add: split_beta pbind_Inr pret_def, blast)
  from unready_prompt[OF assms(1,2) this] obtain e where "require_route flow (pt_affective pt) = Inl e" by blast
  then have "after_prompt flow' rq st federation pt = pfail e" if "live_backend flow' = live_backend flow" for flow' :: "'b workflow"
  proof -
    have "require_route flow' = require_route flow" using that by (simp add: require_route_def fun_eq_iff)
    with \<open>require_route flow (pt_affective pt) = Inl e\<close> show ?thesis by (simp add: after_prompt_def decide_and_plan_run_def)
  qed
  then show ?thesis by blast
qed

text \<open>C3: 
  With the real provider and no credentials or model configured, a run never returns, and it stops before
  any agent is asked or any tool is run: with other agents and another \<open>execute\<close> it is the same run.
\<close>

theorem unready_run_stops:
  fixes flow :: "'b workflow"
  assumes "live_backend flow" "\<not> ready_for_model_call (build_maf_provider_config (wf_environ flow))"
  shows "isl (fst (workflow_run flow rq raw_events s))
    \<and> workflow_run (with_agents (executing flow execute') decide' plan') rq raw_events s = workflow_run flow rq raw_events s"
proof -
  let ?other = "with_agents (executing flow execute') decide' plan'"
  have "prompted ?other = prompted flow"
    by (intro ext) (simp add: prompted_def)
  note same = this
  have stops: "isl (fst (after_prompt flow rq st federation pt s'))
      \<and> after_prompt ?other rq st federation pt s' = after_prompt flow rq st federation pt s'"
    if reached: "prompted flow rq raw_events s = (Inr (st, federation, pt), s')" for st federation pt s'
  proof -
    from prompted_fails[OF assms reached] obtain e
      where fails: "live_backend flow' = live_backend flow \<Longrightarrow> after_prompt flow' rq st federation pt = pfail e"
        for flow' :: "'b workflow" by blast
    have "live_backend ?other = live_backend flow" by simp
    from fails[OF this] fails[OF refl] show ?thesis by (simp add: pfail_def)
  qed
  show ?thesis
    unfolding workflow_run_prompted same
    by (intro conjI pbind_fails pbind_cong_at) (auto dest: stops)
qed

theorem unready_run_stops_witness:
  "\<forall>profile quality set_order rq raw_events s execute' decide' plan'.
     isl (fst (workflow_run (no_model_workflow (profile\<lparr>mp_provider_mode := ''real_provider''\<rparr>) [] quality set_order) rq raw_events s))
     \<and> workflow_run (with_agents (executing (no_model_workflow (profile\<lparr>mp_provider_mode := ''real_provider''\<rparr>) [] quality set_order)
         execute') decide' plan') rq raw_events s
       = workflow_run (no_model_workflow (profile\<lparr>mp_provider_mode := ''real_provider''\<rparr>) [] quality set_order) rq raw_events s"
proof (intro allI, rule unready_run_stops)
  show "live_backend (no_model_workflow (profile\<lparr>mp_provider_mode := ''real_provider''\<rparr>) [] quality set_order)" for profile quality set_order
    by (simp add: live_backend_def no_model_workflow_def new_workflow_def)
  have "\<not> ready_for_model_call (build_maf_provider_config [])" by code_simp
  then show "\<not> ready_for_model_call (build_maf_provider_config (wf_environ (no_model_workflow (profile\<lparr>mp_provider_mode := ''real_provider''\<rparr>) []
      quality set_order)))" for profile quality set_order
    by (simp add: no_model_workflow_def new_workflow_def)
qed

end
