(* ===== verification/RunEvidence.thy ===== *)
theory RunEvidence
  imports CoreRun
begin

text \<open>
  What a run of the core workflow leaves in the tables of evidence: results, audit records, approvals. The
  stages of a run are followed by triples over the evidence, each stage either leaving it alone
  (\<open>spares\<close>) or adding the rows it should. The triples also follow the ids that are drawn: an approval id that is
  drawn in the run is not that of an earlier request, when none of those is still to be drawn at its start.
\<close>

section \<open>What a run writes\<close>

text \<open>The tables that say what was done and what was decided.\<close>

definition evidence :: "store \<Rightarrow> tool_result_row list \<times> audit_row list \<times> approval_decision_row list \<times> approval_request_row list" where
  "evidence s = (tool_results s, audit_records s, approval_decisions s, approval_requests s)"

text \<open>
  The identifiers of a process: an environment is later than another one when it has the same random texts and has drawn at
  least as many of them. The approval ids that are still to be drawn are not among \<open>K\<close>.
\<close>

definition later :: "env \<Rightarrow> env \<Rightarrow> bool" where
  "later w w' \<longleftrightarrow> uuid_hex w' = uuid_hex w \<and> uuid_pos w \<le> uuid_pos w'"

definition approval_id :: "env \<Rightarrow> nat \<Rightarrow> string" where
  "approval_id w i = ''approval-'' @ take 12 (uuid_hex w i)"

definition undrawn :: "string set \<Rightarrow> env \<Rightarrow> bool" where
  "undrawn K w \<longleftrightarrow> (\<forall>i \<ge> uuid_pos w. approval_id w i \<notin> K)"

definition request_ids :: "store \<Rightarrow> string set" where
  "request_ids s = ar_approval_request_id ` set (approval_requests s)"

lemma later_refl [simp]: "later w w"
  by (simp add: later_def)

lemma later_trans: "later w w' \<Longrightarrow> later w' w'' \<Longrightarrow> later w w''"
  by (simp add: later_def)

lemma undrawn_later: "undrawn K w \<Longrightarrow> later w w' \<Longrightarrow> undrawn K w'"
  by (simp add: undrawn_def later_def approval_id_def)

text \<open>What the store and the event code draw.\<close>

lemmas writes_later = later_def new_id_def utc_now_iso_def

lemma str_or_draw_later: "(\<And>w. later w (snd (draw w))) \<Longrightarrow> later w (snd (str_or_draw v draw w))"
  by (simp add: str_or_draw_def)

lemma from_payload_later:
  assumes "PerceptionEvent_from_payload payload w = Inr (e, w')"
  shows "later w w'"
proof -
  define w1 where "w1 = snd (str_or_draw (dget payload ''event_id'') (new_id ''evt'') w)"
  have "later w w1"
    unfolding w1_def by (rule str_or_draw_later) (simp add: writes_later)
  moreover have "later w1 (snd (str_or_draw (dget payload ''timestamp_wall'') utc_now_iso w1))"
    by (rule str_or_draw_later) (simp add: writes_later)
  moreover have "w' = snd (str_or_draw (dget payload ''timestamp_wall'') utc_now_iso w1)"
    using assms by (auto simp: PerceptionEvent_from_payload_def w1_def Let_def split: prod.splits)
  ultimately show ?thesis by (blast intro: later_trans)
qed

lemma normalize_loop_later: "normalize_loop seen w raws = (seen', Inr (events, w')) \<Longrightarrow> later w w'"
proof (induction seen w raws arbitrary: seen' events rule: normalize_loop.induct)
  case (2 seen w raw raws)
  then obtain e w1 where one: "PerceptionEvent_from_payload (normalize_payload raw) w = Inr (e, w1)"
    by (auto split: sum.splits)
  from 2 one have "later w1 w'"
    by (auto split: sum.splits prod.splits if_splits)
  with from_payload_later[OF one] show ?case by (rule later_trans)
qed simp

lemma route_later: "route rt w b raws = (rt', Inr (events, w', b')) \<Longrightarrow> later w w'"
  by (auto simp: route_def normalize_def dest!: normalize_loop_later split: prod.splits)

lemma frame_later:
  "build_frame events w = Inr (f, w') \<Longrightarrow> later w w'" "store_build_frame rows w = Inr (d, w') \<Longrightarrow> later w w'"
  "resolve_session_id i w = (j, w') \<Longrightarrow> later w w'"
  by (auto simp: build_frame_def store_build_frame_def resolve_session_id_def writes_later split: if_splits)

text \<open>A part of the workflow draws ids only by drawing on.\<close>

definition forward :: "('b \<times> env, 'x) prog \<Rightarrow> bool" where
  "forward m \<longleftrightarrow> (\<forall>b w. later w (snd (snd (m (b, w)))))"

definition leaves_evidence :: "(db \<times> 'b, 'x) prog \<Rightarrow> bool" where
  "leaves_evidence m \<longleftrightarrow> (\<forall>s w b. case m ((s, w), b) of (_, (s', w'), _) \<Rightarrow> evidence s' = evidence s \<and> later w w')"

definition whenever :: "'f option \<Rightarrow> ('f \<Rightarrow> bool) \<Rightarrow> bool" where
  "whenever f P = (case f of Some x \<Rightarrow> P x | None \<Rightarrow> True)"

definition confined :: "'b memory_backend \<Rightarrow> bool" where
  "confined m \<longleftrightarrow> (\<forall>frame. leaves_evidence (mem_lookup m frame))
     \<and> whenever (mem_propose m) (\<lambda>f. \<forall>frame. leaves_evidence (f frame))
     \<and> whenever (mem_screen m) (\<lambda>f. \<forall>cs. leaves_evidence (f cs))
     \<and> whenever (mem_commit m) (\<lambda>f. \<forall>i cs. leaves_evidence (f i cs))"

definition drawing_on :: "'b workflow \<Rightarrow> bool" where
  "drawing_on flow \<longleftrightarrow> whenever (wa_manifest (wf_adapter flow)) forward
     \<and> (\<forall>t. forward (wa_describe (wf_adapter flow) t)) \<and> (\<forall>t args. forward (wa_execute (wf_adapter flow) t args))
     \<and> (\<forall>frame items context. forward (wf_decide flow frame items context))
     \<and> (\<forall>decision frame tools prompt. forward (wf_plan flow decision frame tools prompt))
     \<and> whenever (wf_federation flow) (\<lambda>f. \<forall>frame ctx. forward (f frame ctx))"

text \<open>A predicate on the evidence, as a predicate on worlds, from which no id of \<open>K\<close> is drawn any more.\<close>

abbreviation on_evidence :: "string set
    \<Rightarrow> (tool_result_row list \<times> audit_row list \<times> approval_decision_row list \<times> approval_request_row list \<Rightarrow> bool)
    \<Rightarrow> 'a world \<Rightarrow> bool" where
  "on_evidence K Q \<equiv> \<lambda>(s, w, a). undrawn K w \<and> Q (evidence s)"

named_theorems spares \<open>programs that leave the evidence alone\<close>

lemma on_db_spares:
  assumes "\<And>s w x s' w'. f (s, w) = Inr (x, s', w') \<Longrightarrow> evidence s' = evidence s \<and> later w w'"
  shows "keeps (on_evidence K Q) (on_db f)"
  unfolding on_db_def by (rule triple_pupdate) (auto dest!: assms dest: undrawn_later)

lemma write_db_spares:
  assumes "\<And>s w s' w'. f (s, w) = Inr (s', w') \<Longrightarrow> evidence s' = evidence s \<and> later w w'"
  shows "keeps (on_evidence K Q) (write_db f)"
  unfolding write_db_def by (rule on_db_spares) (auto dest: assms)

lemma fact_spares [spares]: "keeps (on_evidence K Q) (fact i t subject payload)"
  unfolding fact_def by (rule on_db_spares) (auto simp: persist_fact_def evidence_def writes_later Let_def split: prod.splits)

lemma draw_spares [spares]: "keeps (on_evidence K Q) (draw_id p)"
  unfolding draw_id_def by (rule on_db_spares) (auto simp: new_id_def later_def)

lemma query_spares [spares]: "keeps (on_evidence K Q) (query f)" "keeps (on_evidence K Q) (query_ok g)"
  unfolding query_ok_def query_def by (intro keeps_bind keeps_basic)+

lemma basic_spares [spares]: "keeps (on_evidence K Q) (pret x)" "keeps (on_evidence K Q) (pfail e)" "keeps (on_evidence K Q) (plift r)"
  "keeps (on_evidence K Q) (pread g)" "keeps (on_evidence K Q) (read_part h)"
  by (simp_all add: read_part_def)

lemma by_part_spares:
  fixes m :: "('b \<times> env, 'x) prog"
  shows "forward m \<Longrightarrow> keeps (on_evidence K Q) (by_part m)"
  unfolding triple_def
proof (intro allI impI)
  fix st :: "('b router \<times> 'b) world"
  assume m: "forward m" and Q: "on_evidence K Q st"
  obtain s w rt b where st: "st = (s, w, rt, b)" by (rule prod_cases4)
  obtain r b' w' where run: "m (b, w) = (r, b', w')" by (metis prod.exhaust)
  have "later w (snd (snd (m (b, w))))" using m by (simp add: forward_def)
  then have "later w w'" by (simp add: run)
  with Q run undrawn_later[of K w w'] show "case by_part m st of (Inr x, s') \<Rightarrow> on_evidence K Q s' | (Inl e, s') \<Rightarrow> on_evidence K Q s'"
    by (cases r) (simp_all add: st by_part_def)
qed

lemma by_memory_spares:
  fixes m :: "(db \<times> 'b, 'x) prog"
  shows "leaves_evidence m \<Longrightarrow> keeps (on_evidence K Q) (by_memory m)"
  unfolding triple_def
proof (intro allI impI)
  fix st :: "('b router \<times> 'b) world"
  assume m: "leaves_evidence m" and Q: "on_evidence K Q st"
  obtain s w rt b where st: "st = (s, w, rt, b)" by (rule prod_cases4)
  obtain r s' w' b' where run: "m ((s, w), b) = (r, (s', w'), b')" by (metis prod.collapse)
  have "case m ((s, w), b) of (_, (s', w'), _) \<Rightarrow> evidence s' = evidence s \<and> later w w'"
    using m by (simp add: leaves_evidence_def)
  then have "evidence s' = evidence s" and "later w w'" by (simp_all add: run)
  with Q run undrawn_later[of K w w'] show "case by_memory m st of (Inr x, s') \<Rightarrow> on_evidence K Q s' | (Inl e, s') \<Rightarrow> on_evidence K Q s'"
    by (cases r) (simp_all add: st by_memory_def)
qed

lemma pmap_spares: "(\<And>x. keeps (on_evidence K Q) (f x)) \<Longrightarrow> keeps (on_evidence K Q) (pmap f xs)"
  by (induction xs) (simp_all add: keeps_bind)

lemma policy_spares [spares]: "keeps (on_evidence K Q) (persist_policy i t d)"
  unfolding persist_policy_def
  by (rule write_db_spares) (auto simp: persist_policy_decision_def evidence_def writes_later Let_def split: prod.splits)

lemma result_of_spares [spares]: "keeps (on_evidence K Q) (tool_result_of t st payload)"
  unfolding tool_result_of_def by (intro keeps_bind spares)

lemma route_spares [spares]: "keeps (on_evidence K Q) (route_events raws)"
  by (fastforce simp: triple_def route_events_def split: prod.splits sum.splits dest: route_later intro: undrawn_later)

lemma span_spares [spares]: "keeps (on_evidence K Q) (write_db (\<lambda>d. Inr (persist_execution_span d i st payload session)))"
  by (rule write_db_spares) (auto simp: persist_execution_span_def evidence_def writes_later Let_def split: prod.splits if_splits)

lemma event_spares [spares]: "keeps (on_evidence K Q) (write_db (\<lambda>d. persist_event d event))"
  by (rule write_db_spares) (auto simp: persist_event_def evidence_def writes_later Let_def split: prod.splits)

lemma clock_spares:
  "(\<And>s w x w'. f s w = Inr (x, w') \<Longrightarrow> later w w') \<Longrightarrow> keeps (on_evidence K Q) (on_db (\<lambda>(s, w). ebind (f s w) (\<lambda>(x, w'). Inr (x, s, w'))))"
  by (rule on_db_spares) auto

lemma session_spares [spares]:
  "keeps (on_evidence K Q) (on_db (\<lambda>(s, w). case resolve_session_id i w of (j, w') \<Rightarrow> Inr (j, s, w')))"
  by (rule on_db_spares) (auto dest: frame_later split: prod.splits)

lemma frames_spare [spares]:
  "keeps (on_evidence K Q) (on_db (\<lambda>(s, w). ebind (build_frame events w) (\<lambda>(f, w'). Inr (f, s, w'))))"
  "keeps (on_evidence K Q) (on_db (\<lambda>(s, w). ebind (store_build_frame rows w) (\<lambda>(d, w'). Inr (d, s, w'))))"
  by (rule clock_spares, erule frame_later)+

lemma keeps_iff: "keeps P m \<longleftrightarrow> (\<forall>s. P s \<longrightarrow> P (snd (m s)))"
  by (simp add: triple_def split_beta split: sum.split)

lemma catch_end: "snd (catch_value_error m s) = snd (m s)"
  by (simp add: catch_value_error_def split: prod.split sum.split py_error.split)

lemma catch_spares: "keeps P m \<Longrightarrow> keeps P (catch_value_error m)"
  by (simp add: keeps_iff catch_end)

lemma option_spares: "keeps P m \<Longrightarrow> (\<And>x. keeps P (f x)) \<Longrightarrow> keeps P (case v of None \<Rightarrow> m | Some x \<Rightarrow> f x)"
  by (cases v) simp_all

lemma pair_spares: "(\<And>x y. keeps P (f x y)) \<Longrightarrow> keeps P (case v of (x, y) \<Rightarrow> f x y)"
  by (cases v) simp

lemma reads_spare [spares]:
  "keeps (on_evidence K Q) (maf_runtime_metadata flow)" "keeps (on_evidence K Q) (memory_runtime_metadata flow)"
  unfolding maf_runtime_metadata_def memory_runtime_metadata_def by (rule spares)+

text \<open>The parts of a workflow that draws on.\<close>

lemma parts_spare:
  assumes "drawing_on flow"
  shows "keeps (on_evidence K Q) (manifest_of flow)" "keeps (on_evidence K Q) (available_tool_context flow)"
    "keeps (on_evidence K Q) (by_part (wa_describe (wf_adapter flow) t))" "keeps (on_evidence K Q) (by_part (wa_execute (wf_adapter flow) t args))"
    "keeps (on_evidence K Q) (by_part (wf_decide flow frame items context))"
    "keeps (on_evidence K Q) (by_part (wf_plan flow decision frame tools prompt))"
proof -
  note parts = assms[unfolded drawing_on_def]
  show manifest: "keeps (on_evidence K Q) (manifest_of flow)"
    using parts by (auto simp: manifest_of_def whenever_def by_part_spares split: option.split)
  show "keeps (on_evidence K Q) (available_tool_context flow)"
    unfolding available_tool_context_def by (intro keeps_bind manifest spares)
qed (use assms in \<open>simp_all add: drawing_on_def by_part_spares\<close>)

lemma frame_facts_spare [spares]: "keeps (on_evidence K Q) (persist_frame_facts i frame events)"
  unfolding persist_frame_facts_def by (intro keeps_bind pmap_spares spares)

lemma db_frame_spares [spares]: "keeps (on_evidence K Q) (db_frame rq frame)"
  unfolding db_frame_def by (intro triple_if keeps_bind spares)

lemma begin_spares [spares]: "keeps (on_evidence K Q) (begin_run rq raws)"
  unfolding begin_run_def
  by (intro keeps_bind pair_spares pmap_spares spares)

lemma context_spares:
  assumes "drawing_on flow"
  shows "keeps (on_evidence K Q) (load_session_context flow st)"
proof -
  have "keeps (on_evidence K Q) (ask_federation flow st ctx)" for ctx
  proof (cases "wf_federation flow")
    case (Some provider)
    with assms have "forward (provider frame ctx)" for frame ctx by (simp add: drawing_on_def whenever_def)
    then show ?thesis
      unfolding ask_federation_def Some option.case
      by (intro keeps_bind option_spares triple_if by_part_spares spares)
  qed (simp add: ask_federation_def)
  then show ?thesis
    unfolding load_session_context_def by (intro keeps_bind spares parts_spare[OF assms])
qed

lemma candidate_spares [spares]: "keeps (on_evidence K Q) (on_db (\<lambda>d. persist_memory_candidate d i topic c))"
  by (rule on_db_spares) (auto simp: persist_memory_candidate_def evidence_def writes_later Let_def split: prod.splits)

lemma whenever_Some: "whenever f P \<Longrightarrow> f = Some x \<Longrightarrow> P x"
  by (simp add: whenever_def)

lemma memory_spares:
  assumes "confined (wf_memory flow)"
  shows "keeps (on_evidence K Q) (recall_and_commit flow st ctx)"
proof -
  note c = assms[unfolded confined_def]
  have look: "keeps (on_evidence K Q) (by_memory (mem_lookup (wf_memory flow) frame))" for frame
    using c by (simp add: by_memory_spares)
  have screen: "keeps (on_evidence K Q) (case mem_screen (wf_memory flow) of Some screen \<Rightarrow> by_memory (screen cs) | None \<Rightarrow> pret cs)" for cs
    using c by (auto simp: whenever_def intro: by_memory_spares split: option.split)
  have propose: "keeps (on_evidence K Q) (propose_memories flow st ctx)" for ctx
  proof (cases "mem_propose (wf_memory flow)")
    case (Some propose)
    with c have "leaves_evidence (propose frame)" for frame by (simp add: whenever_def)
    then show ?thesis
      unfolding propose_memories_def Some option.case
      by (intro keeps_bind by_memory_spares screen pmap_spares spares)
  qed (simp add: propose_memories_def)
  have commit: "keeps (on_evidence K Q) (commit_memories flow st cs ctx)" for cs ctx
  proof (cases "mem_commit (wf_memory flow)")
    case (Some commit)
    with c have "leaves_evidence (commit i cs)" for i cs by (simp add: whenever_def)
    then show ?thesis
      unfolding commit_memories_def Some option.case
      by (intro keeps_bind by_memory_spares spares)
  qed (simp add: commit_memories_def)
  show ?thesis
    unfolding recall_and_commit_def Let_def
    by (intro keeps_bind pair_spares look propose commit spares)
qed

lemma prompt_spares: "drawing_on flow \<Longrightarrow> keeps (on_evidence K Q) (prepare_prompt flow st items ctx)"
  unfolding prepare_prompt_def Let_def by (intro keeps_bind spares parts_spare)

lemma decide_spares: "drawing_on flow \<Longrightarrow> keeps (on_evidence K Q) (decide_and_plan_run flow st pt)"
  unfolding decide_and_plan_run_def by (intro keeps_bind catch_spares spares parts_spare)

section \<open>Requests and results of a run\<close>

text \<open>
  The requests of before are still there, as they were, and all that come after them are pending; and what has been
  written since the run began.
\<close>

definition only_asked :: "approval_request_row list \<Rightarrow> approval_request_row list \<Rightarrow> bool" where
  "only_asked rs rs' \<longleftrightarrow> take (length rs) rs' = rs \<and> list_all (\<lambda>r. ar_status r = ''pending'') (drop (length rs) rs')"

definition stored_result :: "ToolExecutionResult \<Rightarrow> string \<times> string \<times> string \<times> pyval" where
  "stored_result r = (te_tool_result_id r, te_tool_name r, te_status r, json_norm (PDict (te_payload r)))"

definition result_stored :: "tool_result_row \<Rightarrow> string \<times> string \<times> string \<times> pyval" where
  "result_stored t = (tr_tool_result_id t, tr_tool_name t, tr_status t, tr_payload t)"

definition so_far :: "store \<Rightarrow> ToolExecutionResult list
    \<Rightarrow> tool_result_row list \<times> audit_row list \<times> approval_decision_row list \<times> approval_request_row list \<Rightarrow> bool" where
  "so_far s0 results = (\<lambda>(ts, us, ds, rs). (\<exists>new. ts = tool_results s0 @ new \<and> map result_stored new = map stored_result results)
     \<and> us = audit_records s0 \<and> ds = approval_decisions s0 \<and> only_asked (approval_requests s0) rs)"

definition undecided :: "store \<Rightarrow> tool_result_row list \<times> audit_row list \<times> approval_decision_row list \<times> approval_request_row list \<Rightarrow> bool" where
  "undecided s0 = (\<lambda>(ts, us, ds, rs). ds = approval_decisions s0 \<and> only_asked (approval_requests s0) rs)"

lemma so_far_undecided: "so_far s0 results e \<Longrightarrow> undecided s0 e"
  by (auto simp: so_far_def undecided_def)

lemma only_asked_refl: "only_asked rs rs"
  by (auto simp: only_asked_def)

lemma so_far_start: "so_far s [] (evidence s)"
  by (simp add: so_far_def evidence_def only_asked_refl)

lemma only_asked_insert:
  assumes asked: "only_asked rs rs'" and pending: "ar_status row = ''pending''"
    and new: "ar_approval_request_id row \<notin> ar_approval_request_id ` set rs"
  shows "only_asked rs (insert_or_replace ar_approval_request_id row rs')"
proof -
  define more where "more = drop (length rs) rs'"
  have rs': "rs' = rs @ more" and more: "list_all (\<lambda>r. ar_status r = ''pending'') more"
    using asked append_take_drop_id[of "length rs" rs'] by (auto simp: only_asked_def more_def)
  have "filter (\<lambda>r. ar_approval_request_id r \<noteq> ar_approval_request_id row) rs = rs"
    using new by (intro filter_True) (auto simp: image_iff)
  with more pending show ?thesis by (auto simp: only_asked_def insert_or_replace_def rs' list_all_iff)
qed

text \<open>A request gets a drawn id, and so none of an earlier one.\<close>

lemma drawn_new:
  "triple (on_evidence K Q) (draw_id ''approval'') (\<lambda>i (s, w, a). undrawn K w \<and> Q (evidence s) \<and> i \<notin> K) (on_evidence K Q)"
proof -
  have "undrawn K w' \<and> i \<notin> K" if "undrawn K w" "new_id ''approval'' w = (i, w')" for w i w'
    using that by (auto simp: undrawn_def new_id_def approval_id_def)
  then show ?thesis
    unfolding draw_id_def on_db_def by (intro triple_pupdate) (fastforce split: prod.splits)+
qed

lemma request_row:
  assumes "persist_approval_request (s, w) i j t ''pending'' request (Some rid) = (rid', s', w')"
    and "undrawn K w" and "rid \<notin> K"
  obtains row where "s' = s\<lparr>approval_requests := insert_or_replace ar_approval_request_id row (approval_requests s)\<rparr>"
    and "ar_status row = ''pending''" and "ar_approval_request_id row \<notin> K" and "later w w'"
proof -
  have "fst (new_id ''approval'' w) \<notin> K"
    using assms(2) by (auto simp: undrawn_def new_id_def approval_id_def)
  with assms(3) have "rid' \<notin> K"
    using assms(1) by (auto simp: persist_approval_request_def Let_def simp del: json_norm.simps split: prod.splits if_splits)
  moreover from assms(1) have "later w w'"
    by (auto simp: persist_approval_request_def Let_def writes_later simp del: json_norm.simps split: prod.splits if_splits)
  moreover from assms(1) obtain row where "s' = s\<lparr>approval_requests := insert_or_replace ar_approval_request_id row (approval_requests s)\<rparr>"
    and "ar_status row = ''pending''" and "ar_approval_request_id row = rid'"
    by (auto simp: persist_approval_request_def Let_def simp del: json_norm.simps split: prod.splits)
  ultimately show thesis using that by blast
qed

lemma ask_stores:
  assumes "rid \<notin> request_ids s0"
  shows "keeps (on_evidence (request_ids s0) (so_far s0 res))
    (write_db (\<lambda>d. case persist_approval_request d i j t ''pending'' request (Some rid) of (_, d') \<Rightarrow> Inr d'))"
  unfolding write_db_def on_db_def
proof (rule triple_pupdate, goal_cases)
  case (1 st x st')
  obtain s w a where st: "st = (s, w, a)" by (rule prod_cases3)
  with 1 have before: "undrawn (request_ids s0) w" "so_far s0 res (evidence s)" by auto
  obtain rid' s' w' where asked: "persist_approval_request (s, w) i j t ''pending'' request (Some rid) = (rid', s', w')"
    by (metis prod.exhaust)
  with 1(2) have st': "st' = (s', w', a)" by (simp add: st)
  from request_row[OF asked before(1) assms] obtain row where
    "s' = s\<lparr>approval_requests := insert_or_replace ar_approval_request_id row (approval_requests s)\<rparr>"
    "ar_status row = ''pending''" "ar_approval_request_id row \<notin> request_ids s0" "later w w'" .
  with before undrawn_later[OF before(1)] show ?case
    by (auto simp: st' so_far_def evidence_def request_ids_def only_asked_insert)
qed assumption

lemma request_keeps:
  fixes flow :: "'b workflow"
  shows "keeps (on_evidence (request_ids s0) (so_far s0 res)) (request_approval flow st t request_of payload_of)"
proof -
  have fresh: "triple (\<lambda>(s, w, a). undrawn (request_ids s0) w \<and> so_far s0 res (evidence s) \<and> i \<notin> request_ids s0) m
      (\<lambda>_. on_evidence (request_ids s0) (so_far s0 res)) (on_evidence (request_ids s0) (so_far s0 res))"
    if "i \<notin> request_ids s0 \<Longrightarrow> keeps (on_evidence (request_ids s0) (so_far s0 res)) m" for i and m :: "('b, 'x) wf_prog"
    using that by (auto simp: triple_def)
  show ?thesis
    unfolding request_approval_def Let_def
    by (rule triple_bind[OF drawn_new], rule fresh) (intro keeps_bind ask_stores spares)
qed

text \<open>The triples of this section: from one state of the results to another, undecided if it raises.\<close>

abbreviation stage :: "store \<Rightarrow> ToolExecutionResult list \<Rightarrow> ('a world, 'x) prog \<Rightarrow> ('x \<Rightarrow> ToolExecutionResult list) \<Rightarrow> bool" where
  "stage s0 sofar m next_of \<equiv> triple (on_evidence (request_ids s0) (so_far s0 sofar)) m (\<lambda>x. on_evidence (request_ids s0) (so_far s0 (next_of x))) (on_evidence (request_ids s0) (undecided s0))"

lemma stage_keeps: "keeps (on_evidence (request_ids s0) (so_far s0 res)) m \<Longrightarrow> stage s0 res m (\<lambda>_. res)"
  by (erule triple_weaken) (auto dest: so_far_undecided)

lemma stage_pret: "f x = res \<Longrightarrow> stage s0 res (pret x) f"
  by (auto simp: triple_def pret_def)

lemma stage_bind:
  "stage s0 res m f \<Longrightarrow> (\<And>x. stage s0 (f x) (g x) h) \<Longrightarrow> stage s0 res (pbind m g) h"
  by (rule triple_bind)

lemma stage_then:
  "keeps (on_evidence (request_ids s0) (so_far s0 res)) m \<Longrightarrow> (\<And>x. stage s0 res (g x) h) \<Longrightarrow> stage s0 res (pbind m g) h"
  by (rule stage_bind[OF stage_keeps])

lemma persist_stage: "stage s0 res (persist_result i r) (\<lambda>_. res @ [r])"
proof -
  have "map result_stored (new @ [\<lparr>tr_tool_result_id = te_tool_result_id r, tr_execution_span_id = i, tr_tool_name = te_tool_name r,
      tr_status = te_status r, tr_payload = json_norm (PDict (te_payload r)), tr_created_at = now\<rparr>]) = map stored_result (res @ [r])"
    if "map result_stored new = map stored_result res" for new now
    using that by (simp add: result_stored_def stored_result_def del: json_norm.simps)
  note grows = this
  show ?thesis
    unfolding persist_result_def write_db_def on_db_def
  proof (rule triple_pupdate, goal_cases)
    case (1 st x st')
    obtain s w a where st: "st = (s, w, a)" by (rule prod_cases3)
    with 1 obtain new where new: "tool_results s = tool_results s0 @ new" "map result_stored new = map stored_result res"
      "audit_records s = audit_records s0" "approval_decisions s = approval_decisions s0"
      "only_asked (approval_requests s0) (approval_requests s)"
      by (auto simp: so_far_def evidence_def)
    from 1(2) obtain row w' where st': "st' = (s\<lparr>tool_results := tool_results s @ [row]\<rparr>, w', a)"
      and row: "result_stored row = stored_result r" and later: "later w w'"
      by (auto simp: st persist_tool_result_def insert_row_def Let_def result_stored_def stored_result_def writes_later
          simp del: json_norm.simps split: prod.splits if_splits)
    from 1(1) later have "undrawn (request_ids s0) w'" by (auto simp: st intro: undrawn_later)
    with new row show ?case
      by (auto simp: st' so_far_def evidence_def intro!: exI[of _ "new @ [row]"])
  next
    case (2 st)
    then show ?case by (auto dest: so_far_undecided)
  qed
qed

lemma governed_keeps:
  "drawing_on flow \<Longrightarrow> keeps (on_evidence (request_ids s0) (so_far s0 res)) (governed_call flow st ctx plan contract q)"
  unfolding governed_call_def Let_def
  by (intro keeps_bind triple_if pair_spares request_keeps spares parts_spare)

lemma planned_keeps:
  "drawing_on flow \<Longrightarrow> keeps (on_evidence (request_ids s0) (so_far s0 res)) (planned_call flow st ctx tools plan)"
  unfolding planned_call_def
  by (intro keeps_bind option_spares triple_if governed_keeps spares parts_spare)

lemma option_stage: "stage s0 res m h \<Longrightarrow> (\<And>x. stage s0 res (f x) h) \<Longrightarrow> stage s0 res (case v of None \<Rightarrow> m | Some x \<Rightarrow> f x) h"
  by (cases v) simp_all

lemma pair_stage: "(\<And>x y. stage s0 res (f x y) h) \<Longrightarrow> stage s0 res (case v of (x, y) \<Rightarrow> f x y) h"
  by (cases v) simp

lemma rollback_stage: "drawing_on flow \<Longrightarrow> stage s0 res (propose_rollback flow st ctx summary) (\<lambda>(more, _). res @ more)"
  unfolding propose_rollback_def Let_def
  by (intro stage_then option_stage triple_if pair_stage request_keeps spares parts_spare stage_pret stage_bind[OF persist_stage]) simp_all

lemma recovery_stage: "drawing_on flow \<Longrightarrow> stage s0 res (observe_recovery flow st ctx health) (\<lambda>(more, _). res @ more)"
  unfolding observe_recovery_def Let_def
  by (intro stage_then option_stage triple_if spares parts_spare stage_pret stage_bind[OF persist_stage] stage_bind[OF rollback_stage])
    (auto intro!: stage_pret)

lemma follow_up_stage: "drawing_on flow \<Longrightarrow> stage s0 [result] (follow_up flow st ctx result) (\<lambda>(results, _). results)"
  unfolding follow_up_def
  by (intro stage_then triple_if spares stage_pret stage_bind[OF recovery_stage]) (auto intro!: stage_pret)

text \<open>
  A run that returned: one audit record, ok, of its span; the span, ok; and the results it answers are the
  results it stored, unless the plan was invalid, whose result is answered but not stored.
\<close>

definition completed :: "store \<Rightarrow> workflow_result \<Rightarrow> store \<Rightarrow> bool" where
  "completed s0 res s \<longleftrightarrow>
     (\<exists>row. audit_records s = audit_records s0 @ [row] \<and> au_audit_id row = wr_audit_id res \<and> au_status row = ''ok''
        \<and> au_execution_span_id row = wr_execution_span_id res)
     \<and> (\<exists>row \<in> set (execution_spans s). sr_execution_span_id row = wr_execution_span_id res \<and> sr_status row = ''ok'')
     \<and> (\<exists>results new. wr_tool_results res = map ToolExecutionResult_to_dict results \<and> tool_results s = tool_results s0 @ new
        \<and> (map result_stored new = map stored_result results
          \<or> new = [] \<and> map te_tool_name results = [''rational_plan_validation'']))
     \<and> approval_decisions s = approval_decisions s0 \<and> only_asked (approval_requests s0) (approval_requests s)"

definition answered :: "ToolExecutionResult list \<Rightarrow> ToolExecutionResult list \<Rightarrow> bool" where
  "answered kept results \<longleftrightarrow> kept = results \<or> kept = [] \<and> map te_tool_name results = [''rational_plan_validation'']"

definition ran :: "store \<Rightarrow> ToolExecutionResult list
    \<Rightarrow> tool_result_row list \<times> audit_row list \<times> approval_decision_row list \<times> approval_request_row list \<Rightarrow> bool" where
  "ran s0 results e \<longleftrightarrow> (\<exists>kept. so_far s0 kept e \<and> answered kept results)"

lemma run_tools_ran:
  assumes parts: "drawing_on flow"
  shows "triple (on_evidence (request_ids s0) (so_far s0 [])) (run_tools flow st ctx tools outcome) (\<lambda>(results, _). on_evidence (request_ids s0) (ran s0 results)) (on_evidence (request_ids s0) (undecided s0))"
proof (cases outcome)
  case (Inl msg)
  have named: "triple (on_evidence (request_ids s0) (so_far s0 [])) (tool_result_of t st' payload)
      (\<lambda>r (s, w, a). (undrawn (request_ids s0) w \<and> so_far s0 [] (evidence s)) \<and> te_tool_name r = t) (on_evidence (request_ids s0) (undecided s0))" for t st' payload
  proof -
    have "keeps (on_evidence (request_ids s0) (so_far s0 [])) (tool_result_of t st' payload)" by (rule spares)
    then have "triple (on_evidence (request_ids s0) (so_far s0 [])) (tool_result_of t st' payload) (\<lambda>r s. on_evidence (request_ids s0) (so_far s0 []) s \<and> te_tool_name r = t)
        (on_evidence (request_ids s0) (so_far s0 []))"
      by (rule triple_result) (auto simp: tool_result_of_def pbind_Inr pret_def)
    then show ?thesis by (rule triple_weaken) (auto dest: so_far_undecided)
  qed
  show ?thesis
    unfolding run_tools_def Inl sum.case
    by (rule triple_if; (rule triple_bind[OF named])?)
      (auto simp: triple_def pret_def ran_def answered_def)
next
  case (Inr p)
  show ?thesis
  proof (cases p)
    case None
    with Inr show ?thesis by (auto simp: run_tools_def triple_def pret_def ran_def answered_def)
  next
    case (Some plan)
    have "stage s0 [] (run_tools flow st ctx tools outcome) (\<lambda>(results, _). results)"
      unfolding run_tools_def Inr Some sum.case option.case
      by (intro stage_then[OF planned_keeps[OF parts]] pair_stage stage_bind[OF persist_stage])
        (simp add: follow_up_stage parts)
    then show ?thesis
      by (rule triple_weaken) (auto simp: ran_def answered_def)
  qed
qed

definition audited :: "store \<Rightarrow> ToolExecutionResult list \<Rightarrow> string \<Rightarrow> string
    \<Rightarrow> tool_result_row list \<times> audit_row list \<times> approval_decision_row list \<times> approval_request_row list \<Rightarrow> bool" where
  "audited s0 results audit_id i = (\<lambda>(ts, us, ds, rs). \<exists>row us0. ran s0 results (ts, us0, ds, rs) \<and> us = us0 @ [row]
     \<and> au_audit_id row = audit_id \<and> au_execution_span_id row = i \<and> au_status row = ''ok'')"

lemma ran_undecided: "ran s0 results e \<Longrightarrow> undecided s0 e"
  by (auto simp: ran_def dest: so_far_undecided)

lemma audited_undecided: "audited s0 results audit_id i e \<Longrightarrow> undecided s0 e"
  by (auto simp: audited_def undecided_def dest: ran_undecided)

lemma audit_stage:
  "triple (on_evidence (request_ids s0) (ran s0 results)) (write_db (\<lambda>d. persist_audit_record d audit_id i ''ok'' payload session))
     (\<lambda>_. on_evidence (request_ids s0) (audited s0 results audit_id i)) (on_evidence (request_ids s0) (undecided s0))"
  unfolding write_db_def on_db_def
proof (rule triple_pupdate, goal_cases)
  case (1 st x st')
  obtain s w a where st: "st = (s, w, a)" by (rule prod_cases3)
  from 1(2) obtain row w' where st': "st' = (s\<lparr>audit_records := audit_records s @ [row]\<rparr>, w', a)"
    and row: "au_audit_id row = audit_id" "au_execution_span_id row = i" "au_status row = ''ok''" and later: "later w w'"
    by (auto simp: st persist_audit_record_def insert_row_def Let_def writes_later simp del: json_norm.simps split: prod.splits if_splits)
  from 1(1) row undrawn_later[OF _ later, of "request_ids s0"] show ?case by (auto simp: st st' evidence_def audited_def)
next
  case (2 st)
  then show ?case by (auto dest: ran_undecided)
qed

lemma keeps_undecided:
  assumes "keeps (on_evidence K Q) m" "\<And>e. Q e \<Longrightarrow> undecided s0 e"
  shows "triple (on_evidence K Q) m (\<lambda>_. on_evidence K Q) (on_evidence K (undecided s0))"
  using assms(1) by (rule triple_weaken) (auto dest: assms(2))

lemma keep_so_far: "keeps (on_evidence (request_ids s0) (so_far s0 res)) m \<Longrightarrow>
    triple (on_evidence (request_ids s0) (so_far s0 res)) m (\<lambda>_. on_evidence (request_ids s0) (so_far s0 res)) (on_evidence (request_ids s0) (undecided s0))"
  by (erule keeps_undecided) (rule so_far_undecided)

lemma keep_ran: "keeps (on_evidence (request_ids s0) (ran s0 res)) m \<Longrightarrow>
    triple (on_evidence (request_ids s0) (ran s0 res)) m (\<lambda>_. on_evidence (request_ids s0) (ran s0 res)) (on_evidence (request_ids s0) (undecided s0))"
  by (erule keeps_undecided) (rule ran_undecided)

lemma keep_audited: "keeps (on_evidence (request_ids s0) (audited s0 res aid i)) m \<Longrightarrow>
    triple (on_evidence (request_ids s0) (audited s0 res aid i)) m (\<lambda>_. on_evidence (request_ids s0) (audited s0 res aid i)) (on_evidence (request_ids s0) (undecided s0))"
  by (erule keeps_undecided) (rule audited_undecided)

lemma span_stage:
  assumes "\<And>e. Q e \<Longrightarrow> undecided s0 e"
  shows "triple (on_evidence K Q) (write_db (\<lambda>d. Inr (persist_execution_span d i st payload session)))
     (\<lambda>_ (s, w, a). Q (evidence s) \<and> (\<exists>row \<in> set (execution_spans s). sr_execution_span_id row = i \<and> sr_status row = st))
     (on_evidence K (undecided s0))"
proof -
  have "evidence s' = evidence s \<and> (\<exists>row \<in> set (execution_spans s'). sr_execution_span_id row = i \<and> sr_status row = st)"
    if "persist_execution_span (s, w) i st payload session = (s', w')" for s w s' w'
    using that by (auto simp: persist_execution_span_def insert_or_replace_def evidence_def Let_def split: prod.splits)
  note written = this
  show ?thesis
    unfolding write_db_def on_db_def
    by (rule triple_pupdate) (auto dest!: written dest: assms split: prod.splits)
qed

lemma pair_triple: "(\<And>x y. triple P (f x y) Q E) \<Longrightarrow> triple P (case v of (x, y) \<Rightarrow> f x y) Q E"
  by (cases v) simp

lemma pairs_triple: "(\<And>x y. triple (P x y) (f x y) Q E) \<Longrightarrow> triple (case v of (x, y) \<Rightarrow> P x y) (case v of (x, y) \<Rightarrow> f x y) Q E"
  by (cases v) simp

lemma finish_completed:
  assumes "en_results en = results"
  shows "triple (on_evidence (request_ids s0) (ran s0 results)) (finish_run flow rq st ctx en)
     (\<lambda>res (s, w, a). completed s0 res s) (on_evidence (request_ids s0) (undecided s0))"
proof -
  have all: "completed s0 res s" if "audited s0 (en_results en) (wr_audit_id res) (wr_execution_span_id res) (evidence s)"
    "\<exists>row \<in> set (execution_spans s). sr_execution_span_id row = wr_execution_span_id res \<and> sr_status row = ''ok''"
    "wr_tool_results res = map ToolExecutionResult_to_dict (en_results en)" for res s
    using that unfolding audited_def completed_def ran_def answered_def so_far_def evidence_def by fastforce
  show ?thesis
    unfolding finish_run_def Let_def assms[symmetric]
    by (rule triple_bind[OF keep_ran], rule spares)+
      (rule triple_bind[OF audit_stage], rule triple_bind[OF keep_audited], rule spares,
        rule triple_bind[OF span_stage], erule audited_undecided, auto simp: triple_def pret_def intro!: all)
qed

text \<open>C2: A run changes no request and decides nothing: when it ends, however it ends, the approval decisions are those of before, and the
  approval requests are those of before, row by row as they were, followed by pending ones. When it returns, there is
  one audit record more, ok and of its span; the span is stored as ok; and the results it answers are the results
  it stored, unless the plan was invalid, whose result is answered but not stored. So for any agents, adapter, federation
  provider and memory backend, under three hypotheses: the memory backend leaves these tables alone (\<open>confined\<close>, as the fake and the local one do);
  the parts draw ids only by drawing on (\<open>drawing_on\<close>); and no approval id that is still to be drawn is that of a stored request, since
  a request that was given a stored id would replace it.\<close>

theorem run_leaves_evidence:
  assumes "confined (wf_memory flow)" and "drawing_on flow" and "undrawn (request_ids s) w"
  shows "case workflow_run flow rq raw_events (s, w, rt, b) of
      (Inr res, s', _) \<Rightarrow> completed s res s'
    | (Inl e, s', _) \<Rightarrow> approval_decisions s' = approval_decisions s \<and> only_asked (approval_requests s) (approval_requests s')"
proof -
  note parts = assms(2)
  have "triple (on_evidence (request_ids s) (so_far s [])) (workflow_run flow rq raw_events)
      (\<lambda>res (s', w, a). completed s res s') (on_evidence (request_ids s) (undecided s))"
    unfolding workflow_run_def
    by (rule triple_bind[OF keep_so_far[OF begin_spares]], rule triple_bind[OF keep_so_far[OF context_spares[OF parts]]], rule pair_triple,
      rule triple_bind[OF keep_so_far[OF memory_spares[OF assms(1)]]], rule pair_triple,
      rule triple_bind[OF keep_so_far[OF prompt_spares[OF parts]]], rule triple_bind[OF keep_so_far[OF decide_spares[OF parts]]],
      rule pair_triple, rule pair_triple, rule triple_bind[OF run_tools_ran[OF parts]], rule pairs_triple, rule finish_completed, simp)
  from this[unfolded triple_def, rule_format, of "(s, w, rt, b)"] assms(3) so_far_start show ?thesis
    by (auto simp: undecided_def evidence_def split: prod.splits sum.splits)
qed

lemma leaves_pupdate:
  assumes "\<And>s w b x s' w' b'. f ((s, w), b) = Inr (x, (s', w'), b') \<Longrightarrow> evidence s' = evidence s \<and> later w w'"
  shows "leaves_evidence (pupdate f)"
  unfolding leaves_evidence_def
proof (intro allI)
  fix s w b
  show "case pupdate f ((s, w), b) of (_, (s', w'), _) \<Rightarrow> evidence s' = evidence s \<and> later w w'"
  proof (cases "f ((s, w), b)")
    case (Inr y)
    moreover obtain x s' w' b' where "y = (x, (s', w'), b')" by (metis prod.collapse)
    ultimately show ?thesis using assms by (simp add: pupdate_def)
  qed (simp add: pupdate_def)
qed

lemma leaves_basic [simp]: "leaves_evidence (pret x)" "leaves_evidence (plift r)" "leaves_evidence (pbind (pread f) plift)"
  by (simp_all add: leaves_evidence_def pret_def plift_def pread_def pbind_def)

text \<open>Code that hands the environment on.\<close>

definition hands_on :: "env \<Rightarrow> ('x \<times> env) result \<Rightarrow> bool" where
  "hands_on w r \<longleftrightarrow> (case r of Inr (_, w') \<Rightarrow> later w w' | Inl _ \<Rightarrow> True)"

lemma hands_onD: "hands_on w r \<Longrightarrow> r = Inr (x, w') \<Longrightarrow> later w w'"
  by (simp add: hands_on_def)

lemma hands_on_bind: "(\<And>y. hands_on w (f y)) \<Longrightarrow> hands_on w (ebind m f)"
  by (cases m) (simp_all add: hands_on_def)

lemma hands_on_basic:
  "later w w' \<Longrightarrow> hands_on w (Inr (x, w'))" "hands_on w (Inl e)"
  "later w (snd p) \<Longrightarrow> hands_on w (Inr p)"
  "hands_on w (g v) \<Longrightarrow> hands_on w (Let v g)"
  "(\<And>a b. q = (a, b) \<Longrightarrow> hands_on w (h a b)) \<Longrightarrow> hands_on w (case q of (a, b) \<Rightarrow> h a b)"
  by (auto simp: hands_on_def split: prod.split sum.split)

lemmas hands_on_intros = hands_on_bind hands_on_basic

lemma hand_back: "ebind m (\<lambda>(r, w'). Inr (r, b, w')) = Inr (r, b', w') \<Longrightarrow> hands_on w m \<Longrightarrow> later w w'"
  by (cases m) (auto simp: hands_on_def)

lemma hands_on_then:
  assumes "hands_on w m" and "\<And>y w1. hands_on w1 (f y w1)"
  shows "hands_on w (ebind m (\<lambda>(y, w1). f y w1))"
proof (cases m)
  case (Inr q)
  then obtain y w1 where q: "m = Inr (y, w1)" by (cases q) simp
  with assms(1) have "later w w1" by (simp add: hands_on_def)
  with assms(2)[of w1 y] show ?thesis by (auto simp: q hands_on_def split: sum.split intro: later_trans)
qed (simp add: hands_on_def)

lemma screen_later: "screen_candidate c w = Inr (c', w') \<Longrightarrow> later w w'"
proof (erule hands_onD[rotated], unfold screen_candidate_def, intro hands_on_intros)
qed (auto simp: utc_after_days_def later_def split: if_splits)

lemma screens_later: "screen_candidates cs w = Inr (cs', w') \<Longrightarrow> later w w'"
  by (induction cs arbitrary: w cs') (auto dest!: screen_later intro: later_trans)

lemma screen_confined [simp]: "leaves_evidence (screen_with_clock cs)"
  unfolding screen_with_clock_def by (rule leaves_pupdate) (auto dest: screens_later)

lemma fake_memory_confined: "confined fake_memory"
  by (simp add: confined_def whenever_def fake_memory_def)

lemma memory_evidence:
  "persist_long_term_memory (s, w) i t p = Inr (x, s', w') \<Longrightarrow> evidence s' = evidence s \<and> later w w'"
  by (auto simp: persist_long_term_memory_def evidence_def writes_later Let_def simp del: json_norm.simps split: prod.splits)

lemma prepare_later: "prepare_candidate c w = Inr (prepared, w') \<Longrightarrow> later w w'"
  by (auto simp: prepare_candidate_def dest: screen_later split: if_splits)

lemma committed_later: "committed_memory_payload c b r e st w = Inr (p, w') \<Longrightarrow> later w w'"
  by (auto simp: committed_memory_payload_def utc_after_days_def later_def Let_def split: prod.splits)

lemma local_step_evidence:
  assumes "local_commit_step i (ids, keys, s, w) c = Inr (ids', keys', s', w')"
  shows "evidence s' = evidence s \<and> later w w'"
proof -
  from assms obtain prepared w1 where p: "prepare_candidate c w = Inr (prepared, w1)"
    by (cases "prepare_candidate c w") (auto simp: local_commit_step_def)
  note w1 = prepare_later[OF p]
  show ?thesis
  proof (cases prepared)
    case None
    with assms p w1 show ?thesis by (simp add: local_commit_step_def)
  next
    case (Some pk)
    with assms p w1 show ?thesis
      by (cases pk) (auto simp: local_commit_step_def dest!: memory_evidence committed_later intro: later_trans split: if_splits)
  qed
qed

lemma local_commit_evidence:
  "efold (local_commit_step i) (ids, keys, s, w) cs = Inr (ids', keys', s', w') \<Longrightarrow> evidence s' = evidence s \<and> later w w'"
proof (induction cs arbitrary: ids keys s w)
  case (Cons c cs)
  then obtain ids1 keys1 s1 w1 where one: "local_commit_step i (ids, keys, s, w) c = Inr (ids1, keys1, s1, w1)"
    and rest: "efold (local_commit_step i) (ids1, keys1, s1, w1) cs = Inr (ids', keys', s', w')" by auto
  from Cons.IH[OF rest] local_step_evidence[OF one] show ?case by (auto intro: later_trans)
qed simp

lemma local_commit_confined [simp]:
  "leaves_evidence (pupdate (\<lambda>(d, b). ebind (local_commit_candidates i cs d) (\<lambda>(ids, d'). Inr (ids, d', b))))"
  by (rule leaves_pupdate) (auto simp: local_commit_candidates_def dest: local_commit_evidence)

lemma local_memory_confined: "confined local_memory"
  by (simp add: confined_def whenever_def local_memory_def)

text \<open>The parts that come with the program draw on.\<close>

lemma forward_basic [simp]: "forward (pret x)" "forward (plift r)"
  by (simp_all add: forward_def pret_def plift_def)

lemma forward_pupdate:
  "(\<And>b w x b' w'. f (b, w) = Inr (x, b', w') \<Longrightarrow> later w w') \<Longrightarrow> forward (pupdate f)"
  by (auto simp: forward_def pupdate_def split: sum.split prod.split)

lemma state_sync_hands_on: "hands_on w (fake_state_sync args w)"
  unfolding fake_state_sync_def by (intro hands_on_intros) (simp add: fake_result_def writes_later)

lemma query_payload_hands_on: "hands_on w (fake_query_payload t args w)"
  unfolding fake_query_payload_def
  by (intro hands_on_intros) (auto simp: hands_on_def query_reply_def writes_later split: if_splits option.split prod.splits)

lemma fake_result_hands_on: "hands_on w (Inr (fake_result t st p w))"
  by (simp add: hands_on_def fake_result_def writes_later)

lemma hands_on_if: "hands_on w m \<Longrightarrow> hands_on w m' \<Longrightarrow> hands_on w (if c then m else m')"
  by simp

lemma fake_execute_later: "fake_execute t args (b, w) = Inr (r, b', w') \<Longrightarrow> later w w'"
  unfolding fake_execute_def prod.case
proof (erule hand_back, cases "describe_tool t", goal_cases)
  case 1
  then show ?case by (simp add: fake_result_hands_on)
next
  case (2 contract)
  show ?case
    unfolding 2 option.case Let_def
    by (rule hands_on_if, rule state_sync_hands_on, rule hands_on_bind, rule hands_on_if, rule hands_on_then,
      rule state_sync_hands_on, rule hands_on_bind, rule hands_on_bind, rule fake_result_hands_on, rule hands_on_then,
      rule query_payload_hands_on, rule fake_result_hands_on)
qed

text \<open>The workflow without a model and with the local memory, on a store with a decided request.\<close>

definition local_workflow :: "MafRuntimeProfile \<Rightarrow> osenv \<Rightarrow> quality_inputs \<Rightarrow> (pyval list \<Rightarrow> pyval list) \<Rightarrow> unit workflow" where
  "local_workflow profile env quality set_order = new_workflow profile env quality (maf_affective_adapter profile)
     (maf_rational_adapter profile deterministic_backend) local_memory fake_adapter None set_order"

lemma local_workflow_draws: "drawing_on (local_workflow profile env quality set_order)"
  by (auto simp: drawing_on_def whenever_def local_workflow_def new_workflow_def fake_adapter_def maf_affective_adapter_def
      maf_rational_adapter_def deterministic_backend_def intro!: forward_pupdate dest: fake_execute_later)

definition decided_store :: store where
  "decided_store = empty_store\<lparr>approval_requests := [\<lparr>ar_approval_request_id = ''approval-1'', ar_session_id = ''s'',
     ar_source_execution_span_id = ''span-1'', ar_tool_name = ''system_restart_app'', ar_status = ''denied'', ar_payload = PDict [],
     ar_created_at = [], ar_updated_at = []\<rparr>]\<rparr>"

theorem run_leaves_evidence_witness:
  "\<forall>profile env quality set_order rq raw_events rt.
     case workflow_run (local_workflow profile env quality set_order) rq raw_events (decided_store, sample_env, rt, ()) of
      (Inr res, s', _) \<Rightarrow> completed decided_store res s'
    | (Inl e, s', _) \<Rightarrow> approval_decisions s' = approval_decisions decided_store
        \<and> only_asked (approval_requests decided_store) (approval_requests s')"
proof (intro allI, rule run_leaves_evidence)
  show "confined (wf_memory (local_workflow profile env quality set_order))" for profile env quality set_order
    by (simp add: local_workflow_def new_workflow_def local_memory_confined)
  show "undrawn (request_ids decided_store) sample_env"
    by (auto simp: undrawn_def approval_id_def request_ids_def decided_store_def sample_env_def dest: arg_cong[where f = length])
qed (rule local_workflow_draws)

end
