(* ===== verification/Spec2Isabelle.thy ===== *)
theory Spec2Isabelle
  imports Prelude PyFloat PyVal Sha256 Interfaces Common Events Policy Motivation SelfImprovement
    Persona Autonomy PyTime Federation DataStore Social Agents Memory Tools Session Effects Approval ApprovalRuns Cbor Protocol Json Build Trace Deploy Gate CliAdapter LiveEvents Inference Descriptors Provider Workflow CoreRun RunEvidence
begin

text \<open>
  NeuroLink core: a verification library.

  The program (Python, \<open>src/neurolink_core\<close> and the protocol module of \<open>src/neuro_cli\<close>) is the core of a home
  agent platform. Raw events become perception events; a router drops the ones it has seen and orders the
  rest; a frame summarises a batch; an affective agent decides whether the frame is worth acting on and a
  rational agent plans a tool call; a policy lets read-only tools through and turns the others into approval
  requests that an operator settles later; a store keeps the evidence of all of it. Around the run there are
  the session and its prompt-safe context, long-term memory, persona, vitality, the planning of an autonomous
  daemon, the routing of calls between federated cores, a release gate that builds, deploys, activates and rolls
  back apps on a unit, and the wire format the units speak.

  \<^bold>\<open>Conventions.\<close> A Python value is a \<open>pyval\<close>, a dict an association list in insertion order, an exception a
  \<open>py_error\<close>, a function that may raise a sum (\<open>'a result\<close>), and code whose effects survive an exception a \<open>prog\<close>
  (\<open>Effects\<close>), which returns the state also when it raises. The clock and the identifiers come from an \<open>env\<close>, two
  streams read by position. Definitions keep the names of the source, without a leading underscore; a record
  has the fields of the dataclass.

  \<^bold>\<open>Theories and the code they model.\<close>
  \<^item> Foundations: \<open>Prelude\<close> (exceptions, loops that stop at the first exception, \<open>str\<close> operations), \<open>PyFloat\<close> (binary64
    as rationals with correct rounding), \<open>PyVal\<close> (values, dicts, conversions, \<open>json.dumps\<close>), \<open>Json\<close> (\<open>json.loads\<close>),
    \<open>Sha256\<close>, \<open>PyTime\<close> (ISO timestamps), \<open>Effects\<close> (programs and triples), \<open>Trace\<close> (what a program adds to a log),
    \<open>Interfaces\<close> (the locales: a checked step, a stage that emits every key once, a registry, a codec, a scale).
  \<^item> \<open>Common\<close> is \<open>common.py\<close> with the frame of \<open>workflow.py\<close>; \<open>Events\<close> is \<open>events.py\<close>; \<open>Policy\<close> is \<open>policy.py\<close> with the tool
    contract of \<open>tools.py\<close>; \<open>Motivation\<close>, \<open>SelfImprovement\<close>, \<open>Persona\<close>, \<open>Autonomy\<close>, \<open>Federation\<close>, \<open>Social\<close>, \<open>Agents\<close>, \<open>Memory\<close>
    and \<open>Session\<close> are \<open>motivation.py\<close>, \<open>self_improvement.py\<close>, \<open>persona.py\<close>, \<open>autonomy.py\<close> with the planning part of
    \<open>run_event_daemon_replay\<close>, \<open>federation.py\<close>, \<open>social.py\<close>, \<open>agents.py\<close>, \<open>memory.py\<close> and \<open>session.py\<close>; \<open>DataStore\<close> is \<open>data.py\<close>.
  \<^item> \<open>tools.py\<close>: \<open>Tools\<close> (results, manifest, health classification, \<open>FakeUnitToolAdapter\<close>), \<open>Descriptors\<close> (skill files,
    MCP bridge, coding runners, workflow catalog), \<open>CliAdapter\<close> and \<open>LiveEvents\<close> (\<open>NeuroCliToolAdapter\<close>).
  \<^item> \<open>inference.py\<close>, \<open>maf.py\<close> and \<open>rational_backends.py\<close>: \<open>Inference\<close> (multimodal input, routes, provider profiles and
    their file), \<open>Provider\<close> (what a model answered, clients, backends, agent adapters, smoke test).
  \<^item> \<open>workflow.py\<close>: \<open>Approval\<close> (\<open>apply_approval_decision\<close>; \<open>ApprovalRuns\<close> logs its calls of the adapter), \<open>Build\<close> and \<open>Deploy\<close> (build plan, artifact admission, the three
    runs of the release gate), \<open>Workflow\<close> and \<open>CoreRun\<close> (\<open>NoModelCoreWorkflow\<close>: \<open>run\<close> is \<open>workflow_run\<close>, cut into the
    stages begin, session context, memory, prompt, decision and plan, tools, end; its constructor is \<open>new_workflow\<close>).
  \<^item> \<open>neuro_protocol.py\<close>: \<open>Cbor\<close> (bytes) and \<open>Protocol\<close> (names, routes, payloads).

  \<^bold>\<open>What the lemmas show.\<close> Of a whole run (\<open>CoreRun\<close>, \<open>RunEvidence\<close>): it executes only tools the policy allows, whatever
  the agents plan; it leaves an ok audit record, an ok span and the results it answers; it decides no approval and leaves
  every request as it was, adding only pending ones, also when it raises (for parts that draw ids only by drawing on, and
  ids that are new); with the real provider unconfigured it stops before any agent or tool. Of approvals: a request moves only out
  of pending, every row of a decision is accounted for, and nothing is executed for a request after a call that
  reported it approved; a call that raised may have executed the tool and leaves the request to be approved
  again (\<open>ApprovalRuns\<close>). Of the release gate (\<open>Gate\<close>, over a log of the calls an adapter answered): activation
  only after approval, preflight, lease, prepare and verify; leases released; replies that tell what happened.
  Of the CLI adapter: which commands a restart, a control, a rollback runs, in which order, and which options they have. Of live
  events: a row that is reported again is not handed out again, unless it has no dict payload and no key or id of its own. Of
  the health of an activation: the exact verdict. Of the store: keys stay unique, evidence is
  only added, retiring is exact. Of memory: what a frame adds. Of the session: only the memories that may be
  seen reach the prompt, and its history, approvals, tools and descriptors are bounded. Of the router: each key once, as a
  refinement of the first fresh event of each key. Of daemon planning: maintenance is planned in every interval. Of routing, persona,
  inference, configuration and the smoke test: exact conditions and preserved ranges. Of the codec: round trips, and an end inside
  the data on every input.

  \<^bold>\<open>Bounds and fuel.\<close> The JSON reader has fuel twice the length of the text plus one, proved to be enough; every other loop
  is a total function. The limit of 1000 rows on the store's queries, the caps of the prompt context and the
  integer limits of SQLite are those of the code. Floats are rounded to even at 53 bits, overflow included.

  \<^bold>\<open>Parameters, not models.\<close> The runner of commands, the tool adapter, the agents, the memory backend of a run, the Mem0
  client, the model frameworks, the federation provider, subscribers of the router, the file system, the
  process environment, the order in which a set is listed, and the documents read from skill, catalog and
  configuration files. What such code raises or answers is arbitrary unless a theorem says otherwise.

  \<^bold>\<open>Where the model is narrower than Python.\<close> Text is Latin-1 (a character beyond it, a dict with a key that is not text
  and a bool given as a salience are \<open>OutOfModel\<close>, never a success); signed zeros are one zero; rows with equal sort
  keys come in the order of their rowids; timestamps are the ISO forms the program writes; recursion and
  integer-digit limits of the interpreter are absent; a payload that is shared and changed later is not
  followed; an adapter or backend call that raises keeps the state the model gives it.

  \<^bold>\<open>Not modelled.\<close> \<open>cli.py\<close> (argument parsing, smoke commands, evidence files) and the rest of \<open>neuro_cli\<close> (\<open>neuro_cli.py\<close>,
  \<open>neuro_workflow_catalog.py\<close> and the contract files: command line, Zenoh transport, static tables); in \<open>workflow.py\<close> the
  wrappers around a run (\<open>run_no_model_dry_run\<close>, event replay, the live event service, agent run evidence); the social
  gateways and their registry (HTTP and webhook clients); \<open>build_memory_backend\<close>; \<open>get_recent_topics\<close>, schema migration
  and the SQLite connection of \<open>data.py\<close>; \<open>parse_wire_payload\<close>, \<open>parse_reply\<close> and the capability matrix of the
  protocol; the scripts that collect evidence over serial lines; the C firmware under \<open>neuro_unit\<close>.

  \<^bold>\<open>What modelling showed.\<close> The findings are proved where they are stated: later messages of a social channel are dropped
  (\<open>Social\<close>); an approval is recorded as executed although its tool failed (\<open>Approval\<close>); a health guard that fails
  leaves an activated app and its lease behind (\<open>Gate\<close>); a restarted daemon drops its maintenance ticks (\<open>Autonomy\<close>);
  retired memories hide active ones (\<open>DataStore\<close>); a failing sidecar loses the memories it should mirror (\<open>Memory\<close>);
  an answer of a model without a JSON object counts as no plan, and the smoke document claims a call that was not made (\<open>Provider\<close>); a plan that was invalid is answered but not
  stored (\<open>RunEvidence\<close>); a blank lease is looked up but not sent (\<open>CliAdapter\<close>);
  list payloads of live events pass the router every time, and text payloads make it raise (\<open>LiveEvents\<close>); an approval that raised
  can be executed again (\<open>ApprovalRuns\<close>).
\<close>

end
